(* ===== verification/Prelude.thy ===== *)
theory Prelude
  imports Main "HOL-Library.Char_ord" "HOL-Library.List_Lexorder" "HOL-Library.Multiset"
begin

text \<open>
  Shared vocabulary of the development: Go strings as byte strings, the functions of the Go
  standard package \<open>strings\<close> and \<open>path/filepath\<close> that the program calls, instants and
  durations, and the generic facts about lists and maps that the component theories share.

  A Go string is a sequence of bytes; the HOL type \<^typ>\<open>char\<close> is one byte, so a Go string is
  a \<^typ>\<open>string\<close> and \<open>len\<close> is \<^const>\<open>length\<close>.
\<close>

named_theorems go_eval \<open>definitions that evaluate closed instances of the model\<close>

section \<open>Time\<close>

text \<open>
  \<open>time.Time\<close> is the number of nanoseconds since Go's zero time, so \<open>IsZero\<close> is equality with
  0, \<open>Before\<close> is \<open><\<close>, and \<open>Add\<close> is addition. \<open>time.Duration\<close> is a count of nanoseconds.
  \<open>Time.Sub\<close> saturates at the bounds of the 64-bit duration, which \<open>time_sub\<close> writes out.
\<close>

type_synonym go_time = int
type_synonym duration = int

abbreviation zero_time :: go_time where
  "zero_time \<equiv> 0"

definition max_duration :: duration where
  "max_duration = 2 ^ 63 - 1"

definition min_duration :: duration where
  "min_duration = - (2 ^ 63)"

definition time_sub :: "go_time \<Rightarrow> go_time \<Rightarrow> duration" where
  "time_sub a b = max min_duration (min max_duration (a - b))"

abbreviation seconds :: "int \<Rightarrow> duration" where
  "seconds n \<equiv> n * 1000000000"

lemma time_sub_pos_iff: "0 < time_sub a b \<longleftrightarrow> b < a"
  by (auto simp: time_sub_def max_duration_def min_duration_def)

section \<open>Byte strings: prefixes, splitting, joining\<close>

definition has_prefix :: "string \<Rightarrow> string \<Rightarrow> bool" where
  "has_prefix s p \<longleftrightarrow> take (length p) s = p"

definition has_suffix :: "string \<Rightarrow> string \<Rightarrow> bool" where
  "has_suffix s p \<longleftrightarrow> has_prefix (rev s) (rev p)"

definition trim_prefix :: "string \<Rightarrow> string \<Rightarrow> string" where
  "trim_prefix s p = (if has_prefix s p then drop (length p) s else s)"

fun split_byte :: "char \<Rightarrow> string \<Rightarrow> string list" where
  "split_byte c [] = [[]]"
| "split_byte c (x # xs) =
     (if x = c then [] # split_byte c xs
      else (case split_byte c xs of [] \<Rightarrow> [[x]] | y # ys \<Rightarrow> (x # y) # ys))"

fun join_byte :: "char \<Rightarrow> string list \<Rightarrow> string" where
  "join_byte c [] = []"
| "join_byte c [p] = p"
| "join_byte c (p # ps) = p @ c # join_byte c ps"

fun contains_sub :: "string \<Rightarrow> string \<Rightarrow> bool" where
  "contains_sub [] p \<longleftrightarrow> has_prefix [] p"
| "contains_sub (x # xs) p \<longleftrightarrow> has_prefix (x # xs) p \<or> contains_sub xs p"

text \<open>\<open>strings.Cut\<close> around one separator byte.\<close>

fun cut_byte :: "char \<Rightarrow> string \<Rightarrow> (string \<times> string) option" where
  "cut_byte c [] = None"
| "cut_byte c (x # xs) =
     (if x = c then Some ([], xs) else map_option (\<lambda>(a, b). (x # a, b)) (cut_byte c xs))"

lemma has_prefix_append [simp]: "has_prefix (p @ s) p"
  by (simp add: has_prefix_def)

lemma has_prefix_iff: "has_prefix s p \<longleftrightarrow> (\<exists>r. s = p @ r)"
  by (metis append_take_drop_id has_prefix_append has_prefix_def)

lemma trim_prefix_append [simp]: "trim_prefix (p @ s) p = s"
  by (simp add: trim_prefix_def)

lemma trim_prefix_eq: "has_prefix s p \<Longrightarrow> p @ trim_prefix s p = s"
  by (auto simp: has_prefix_iff)

lemma split_byte_not_Nil [simp]: "split_byte c s \<noteq> []"
  by (induction s) (auto split: list.splits)

lemma split_byte_free: "c \<notin> set p \<Longrightarrow> split_byte c p = [p]"
  by (induction p) auto

lemma split_byte_append:
  "c \<notin> set p \<Longrightarrow> split_byte c (p @ c # s) = p # split_byte c s"
  by (induction p) auto

lemma split_byte_parts: "p \<in> set (split_byte c s) \<Longrightarrow> c \<notin> set p"
  by (induction s arbitrary: p) (auto split: list.splits if_splits)

lemma join_split_byte: "join_byte c (split_byte c s) = s"
proof (induction s)
  case Nil
  then show ?case by simp
next
  case (Cons x xs)
  obtain y ys where y: "split_byte c xs = y # ys"
    by (cases "split_byte c xs") auto
  with Cons.IH show ?case by (cases ys) auto
qed

lemma split_byte_eq_single: "split_byte c s = [p] \<longleftrightarrow> s = p \<and> c \<notin> set p"
  by (metis join_byte.simps(2) join_split_byte list.set_intros(1) split_byte_free split_byte_parts)

lemma split_byte_eq_two:
  "split_byte c s = [p, q] \<longleftrightarrow> s = p @ c # q \<and> c \<notin> set p \<and> c \<notin> set q"
proof
  assume l: "split_byte c s = [p, q]"
  then have "s = p @ c # q" using join_split_byte [of c s] by simp
  with l show "s = p @ c # q \<and> c \<notin> set p \<and> c \<notin> set q"
    using split_byte_parts [of p c s] split_byte_parts [of q c s] by simp
next
  assume "s = p @ c # q \<and> c \<notin> set p \<and> c \<notin> set q"
  then show "split_byte c s = [p, q]" by (simp add: split_byte_append split_byte_free)
qed

section \<open>Trimming white space\<close>

text \<open>
  \<open>strings.TrimSpace\<close> removes every rune for which \<open>unicode.IsSpace\<close> holds from both ends:
  the six ASCII spaces and the UTF-8 encodings of U+0085, U+00A0, U+1680, U+2000 to U+200A,
  U+2028, U+2029, U+202F, U+205F and U+3000.
\<close>

definition space_runes :: "string list" where
  "space_runes =
     [[CHR 0x09], [CHR 0x0A], [CHR 0x0B], [CHR 0x0C], [CHR 0x0D], [CHR 0x20],
      [CHR 0xC2, CHR 0x85], [CHR 0xC2, CHR 0xA0], [CHR 0xE1, CHR 0x9A, CHR 0x80],
      [CHR 0xE2, CHR 0x80, CHR 0x80], [CHR 0xE2, CHR 0x80, CHR 0x81],
      [CHR 0xE2, CHR 0x80, CHR 0x82], [CHR 0xE2, CHR 0x80, CHR 0x83],
      [CHR 0xE2, CHR 0x80, CHR 0x84], [CHR 0xE2, CHR 0x80, CHR 0x85],
      [CHR 0xE2, CHR 0x80, CHR 0x86], [CHR 0xE2, CHR 0x80, CHR 0x87],
      [CHR 0xE2, CHR 0x80, CHR 0x88], [CHR 0xE2, CHR 0x80, CHR 0x89],
      [CHR 0xE2, CHR 0x80, CHR 0x8A], [CHR 0xE2, CHR 0x80, CHR 0xA8],
      [CHR 0xE2, CHR 0x80, CHR 0xA9], [CHR 0xE2, CHR 0x80, CHR 0xAF],
      [CHR 0xE2, CHR 0x81, CHR 0x9F], [CHR 0xE3, CHR 0x80, CHR 0x80]]"

fun strip_any :: "string list \<Rightarrow> string \<Rightarrow> string option" where
  "strip_any [] s = None"
| "strip_any (e # es) s =
     (if e \<noteq> [] \<and> has_prefix s e then Some (drop (length e) s) else strip_any es s)"

lemma strip_any_shorter: "strip_any es s = Some r \<Longrightarrow> length r < length s"
  by (induction es) (auto simp: has_prefix_iff split: if_splits)

function trim_left_of :: "string list \<Rightarrow> string \<Rightarrow> string" where
  "trim_left_of es s = (case strip_any es s of None \<Rightarrow> s | Some r \<Rightarrow> trim_left_of es r)"
  by pat_completeness auto
termination
  by (relation "measure (\<lambda>(es, s). length s)") (auto dest: strip_any_shorter)

declare trim_left_of.simps [simp del]

definition trim_space :: "string \<Rightarrow> string" where
  "trim_space s =
     rev (trim_left_of (map rev space_runes) (rev (trim_left_of space_runes s)))"

lemma strip_any_None_iff:
  "strip_any es s = None \<longleftrightarrow> (\<forall>e \<in> set es. e \<noteq> [] \<longrightarrow> \<not> has_prefix s e)"
  by (induction es) auto

lemma trim_left_of_id: "strip_any es s = None \<Longrightarrow> trim_left_of es s = s"
  by (simp add: trim_left_of.simps)

lemma strip_trim_left_of: "strip_any es (trim_left_of es s) = None"
proof (induction es s rule: trim_left_of.induct)
  case (1 es s)
  then show ?case by (cases "strip_any es s") (simp_all add: trim_left_of.simps [of es s])
qed

lemma strip_any_suffix: "strip_any es s = Some r \<Longrightarrow> \<exists>p. s = p @ r"
  by (induction es) (auto simp: has_prefix_iff split: if_splits)

lemma trim_left_of_suffix: "\<exists>p. s = p @ trim_left_of es s"
proof (induction es s rule: trim_left_of.induct)
  case (1 es s)
  show ?case
  proof (cases "strip_any es s")
    case None
    then show ?thesis by (simp add: trim_left_of.simps [of es s])
  next
    case (Some r)
    with 1 obtain p where "r = p @ trim_left_of es r" by blast
    moreover obtain q where "s = q @ r" using strip_any_suffix [OF Some] by blast
    ultimately have "s = (q @ p) @ trim_left_of es r" by simp
    moreover from Some have "trim_left_of es s = trim_left_of es r"
      by (simp add: trim_left_of.simps [of es s])
    ultimately show ?thesis by metis
  qed
qed

lemma strip_any_None_prefix: "strip_any es (s @ t) = None \<Longrightarrow> strip_any es s = None"
  by (auto simp: strip_any_None_iff has_prefix_iff)

lemma trim_space_idem [simp]: "trim_space (trim_space s) = trim_space s"
proof -
  let ?l = "trim_left_of space_runes s"
  let ?r = "trim_left_of (map rev space_runes) (rev ?l)"
  have r: "strip_any (map rev space_runes) ?r = None" by (rule strip_trim_left_of)
  obtain p where "rev ?l = p @ ?r" using trim_left_of_suffix by blast
  then have "?l = rev ?r @ rev p" by (metis rev_append rev_rev_ident)
  then have "strip_any space_runes (rev ?r) = None"
    using strip_trim_left_of [of space_runes s] strip_any_None_prefix by metis
  then have "trim_left_of space_runes (rev ?r) = rev ?r" by (rule trim_left_of_id)
  with r show ?thesis by (simp add: trim_space_def trim_left_of_id)
qed

lemma trim_space_Nil [simp]: "trim_space [] = []"
  by (simp add: trim_space_def trim_left_of_id strip_any_None_iff has_prefix_iff)

text \<open>A printable ASCII byte is never part of a trimmed rune.\<close>

definition graphic :: "char \<Rightarrow> bool" where
  "graphic c \<longleftrightarrow> CHR '' '' < c \<and> c < CHR 0x80"

lemma space_runes_ends:
  "\<forall>e \<in> set space_runes. e \<noteq> [] \<and> \<not> graphic (hd e) \<and> \<not> graphic (last e)"
  by (simp add: space_runes_def graphic_def)

lemma has_prefix_hd: "has_prefix s e \<Longrightarrow> e \<noteq> [] \<Longrightarrow> s \<noteq> [] \<and> hd s = hd e"
  by (auto simp: has_prefix_iff)

lemma trim_space_graphic_ends:
  assumes "s \<noteq> [] \<Longrightarrow> graphic (hd s) \<and> graphic (last s)"
  shows "trim_space s = s"
proof -
  have l: "strip_any space_runes s = None"
    unfolding strip_any_None_iff using assms space_runes_ends has_prefix_hd by metis
  have "strip_any (map rev space_runes) (rev s) = None"
    unfolding strip_any_None_iff
  proof (intro ballI impI notI)
    fix e assume e: "e \<in> set (map rev space_runes)" "e \<noteq> []" "has_prefix (rev s) e"
    then obtain d where d: "d \<in> set space_runes" "e = rev d" by auto
    from has_prefix_hd [OF e(3,2)] d have "s \<noteq> []" "last s = last d"
      by (auto simp: hd_rev)
    with assms space_runes_ends d(1) show False by metis
  qed
  with l show ?thesis by (simp add: trim_space_def trim_left_of_id)
qed

lemma trim_space_graphic: "list_all graphic s \<Longrightarrow> trim_space s = s"
  by (rule trim_space_graphic_ends) (auto simp: list_all_iff)

section \<open>Character classes\<close>

definition is_upper :: "char \<Rightarrow> bool" where
  "is_upper c \<longleftrightarrow> CHR ''A'' \<le> c \<and> c \<le> CHR ''Z''"

definition is_lower :: "char \<Rightarrow> bool" where
  "is_lower c \<longleftrightarrow> CHR ''a'' \<le> c \<and> c \<le> CHR ''z''"

definition is_digit :: "char \<Rightarrow> bool" where
  "is_digit c \<longleftrightarrow> CHR ''0'' \<le> c \<and> c \<le> CHR ''9''"

definition is_hex :: "char \<Rightarrow> bool" where
  "is_hex c \<longleftrightarrow> is_digit c \<or> (CHR ''a'' \<le> c \<and> c \<le> CHR ''f'') \<or> (CHR ''A'' \<le> c \<and> c \<le> CHR ''F'')"

text \<open>\<open>strings.ToLower\<close> on ASCII bytes.\<close>

definition lower_byte :: "char \<Rightarrow> char" where
  "lower_byte c = (if is_upper c then char_of (of_char c + 32 :: nat) else c)"

definition to_lower :: "string \<Rightarrow> string" where
  "to_lower s = map lower_byte s"

lemmas char_class_defs = is_upper_def is_lower_def is_digit_def is_hex_def graphic_def

lemma char_le_iff: "c \<le> d \<longleftrightarrow> (of_char c :: nat) \<le> of_char d"
  by (simp add: less_eq_char_def)

lemma char_less_iff: "c < d \<longleftrightarrow> (of_char c :: nat) < of_char d"
  by (simp add: less_char_def)

lemma of_char_lower_byte:
  "(of_char (lower_byte c) :: nat) = (if is_upper c then of_char c + 32 else of_char c)"
proof (cases "is_upper c")
  case True
  then have "(of_char c :: nat) \<le> 90" by (simp add: is_upper_def char_le_iff)
  with True show ?thesis by (simp add: lower_byte_def of_char_of)
next
  case False
  then show ?thesis by (simp add: lower_byte_def)
qed

lemma lower_byte_idem [simp]: "lower_byte (lower_byte c) = lower_byte c"
proof -
  have "\<not> is_upper (lower_byte c)"
    by (simp add: is_upper_def char_le_iff of_char_lower_byte)
  then show ?thesis by (simp add: lower_byte_def [of "lower_byte c"])
qed

lemma to_lower_idem [simp]: "to_lower (to_lower s) = to_lower s"
  by (simp add: to_lower_def)

lemma length_to_lower [simp]: "length (to_lower s) = length s"
  by (simp add: to_lower_def)

lemma is_hex_lower_byte [simp]: "is_hex (lower_byte c) \<longleftrightarrow> is_hex c"
  by (auto simp: is_hex_def is_digit_def char_le_iff of_char_lower_byte is_upper_def)

lemma is_hex_graphic: "is_hex c \<Longrightarrow> graphic c"
  by (auto simp: char_class_defs char_le_iff char_less_iff)

lemma is_hex_not_sep: "is_hex c \<Longrightarrow> c \<noteq> CHR ''-'' \<and> c \<noteq> CHR ''/''"
  by (auto simp: char_class_defs char_le_iff)

section \<open>Counting runes\<close>

text \<open>
  \<open>len([]rune(s))\<close>: \<open>rune_size\<close> is the width of the first rune as \<open>utf8.DecodeRune\<close> reports
  it; an invalid or truncated encoding is one replacement rune of width 1.
\<close>

definition in_range :: "nat \<Rightarrow> nat \<Rightarrow> char \<Rightarrow> bool" where
  "in_range lo hi c \<longleftrightarrow> lo \<le> of_char c \<and> (of_char c :: nat) \<le> hi"

definition cont_byte :: "char \<Rightarrow> bool" where
  "cont_byte c \<longleftrightarrow> in_range 0x80 0xBF c"

definition second_ok :: "char \<Rightarrow> char \<Rightarrow> bool" where
  "second_ok b0 b1 \<longleftrightarrow>
     (if b0 = CHR 0xE0 then in_range 0xA0 0xBF b1
      else if b0 = CHR 0xED then in_range 0x80 0x9F b1
      else if b0 = CHR 0xF0 then in_range 0x90 0xBF b1
      else if b0 = CHR 0xF4 then in_range 0x80 0x8F b1
      else cont_byte b1)"

definition rune_need :: "char \<Rightarrow> nat" where
  "rune_need b0 =
     (if in_range 0xC2 0xDF b0 then 2
      else if in_range 0xE0 0xEF b0 then 3
      else if in_range 0xF0 0xF4 b0 then 4 else 1)"

definition rune_size :: "string \<Rightarrow> nat" where
  "rune_size s =
     (case s of [] \<Rightarrow> 0
      | b0 # t \<Rightarrow>
          (let n = rune_need b0
           in if n = 1 then 1
              else if length t + 1 < n then 1
              else if \<not> second_ok b0 (hd t) then 1
              else if list_all cont_byte (take (n - 2) (tl t)) then n else 1))"

function rune_count :: "string \<Rightarrow> nat" where
  "rune_count s = (if s = [] then 0 else Suc (rune_count (drop (max 1 (rune_size s)) s)))"
  by pat_completeness auto
termination
  by (relation "measure length") (simp_all add: max_def)

declare rune_count.simps [simp del]

lemma rune_size_pos: "s \<noteq> [] \<Longrightarrow> 0 < rune_size s"
  by (auto simp: rune_size_def rune_need_def Let_def split: list.splits)

lemma rune_count_Nil [simp]: "rune_count [] = 0"
  by (simp add: rune_count.simps)

lemma rune_count_le: "rune_count s \<le> length s"
proof (induction s rule: rune_count.induct)
  case (1 s)
  show ?case
  proof (cases "s = []")
    case False
    let ?n = "max 1 (rune_size s)"
    from False have "0 < length s" by simp
    moreover have "rune_count (drop ?n s) \<le> length s - ?n" using 1 [OF False] by simp
    ultimately have "Suc (rune_count (drop ?n s)) \<le> length s" by linarith
    with False show ?thesis by (simp add: rune_count.simps [of s])
  qed simp
qed

section \<open>Paths\<close>

text \<open>
  \<open>filepath.IsAbs\<close>, \<open>filepath.Clean\<close>, \<open>filepath.Base\<close> and \<open>filepath.Dir\<close> on Unix.
  \<open>clean_parts rooted acc ps\<close> walks the path elements; \<open>acc\<close> holds the kept elements, last
  first.
\<close>

fun clean_parts :: "bool \<Rightarrow> string list \<Rightarrow> string list \<Rightarrow> string list" where
  "clean_parts rooted acc [] = rev acc"
| "clean_parts rooted acc (p # ps) =
     (if p = '''' \<or> p = ''.'' then clean_parts rooted acc ps
      else if p = ''..'' then
        (case acc of
           [] \<Rightarrow> clean_parts rooted (if rooted then [] else [p]) ps
         | q # qs \<Rightarrow> clean_parts rooted (if q = ''..'' then p # acc else qs) ps)
      else clean_parts rooted (p # acc) ps)"

definition is_abs :: "string \<Rightarrow> bool" where
  "is_abs p \<longleftrightarrow> has_prefix p ''/''"

definition path_clean :: "string \<Rightarrow> string" where
  "path_clean p =
     (let body = join_byte (CHR ''/'') (clean_parts (is_abs p) [] (split_byte (CHR ''/'') p))
      in if is_abs p then CHR ''/'' # body else if body = [] then ''.'' else body)"

definition path_base :: "string \<Rightarrow> string" where
  "path_base p =
     (if p = [] then ''.''
      else let t = dropWhile (\<lambda>c. c = CHR ''/'') (rev p)
           in if t = [] then ''/'' else rev (takeWhile (\<lambda>c. c \<noteq> CHR ''/'') t))"

definition path_dir :: "string \<Rightarrow> string" where
  "path_dir p = path_clean (rev (dropWhile (\<lambda>c. c \<noteq> CHR ''/'') (rev p)))"

lemma path_base_ne: "path_base p \<noteq> []"
proof -
  have "takeWhile (\<lambda>c. c \<noteq> CHR ''/'') (dropWhile (\<lambda>c. c = CHR ''/'') q) \<noteq> []"
    if "dropWhile (\<lambda>c. c = CHR ''/'') q \<noteq> []" for q
    using that hd_dropWhile [OF that] by (cases "dropWhile (\<lambda>c. c = CHR ''/'') q") auto
  then show ?thesis by (simp add: path_base_def Let_def)
qed

section \<open>Results\<close>

text \<open>
  A fallible Go function with a result is a sum, \<open>Inl\<close> the error; one that returns only an
  \<open>error\<close> is an option, \<^const>\<open>None\<close> for a nil error. \<open>or_else\<close> is the idiom
  \<open>if err := f(); err != nil \<lbrace> return err \<rbrace>\<close> before the rest of a validation.
\<close>

definition or_else :: "'e option \<Rightarrow> 'e option \<Rightarrow> 'e option" where
  "or_else a b = (case a of Some e \<Rightarrow> Some e | None \<Rightarrow> b)"

definition require :: "bool \<Rightarrow> 'e \<Rightarrow> 'e option" where
  "require ok e = (if ok then None else Some e)"

lemma or_else_None [simp]: "or_else a b = None \<longleftrightarrow> a = None \<and> b = None"
  by (cases a) (simp_all add: or_else_def)

lemma or_else_simps [simp]: "or_else None b = b" "or_else (Some e) b = Some e"
  by (simp_all add: or_else_def)

lemma or_else_ex_Some [simp]:
  "(\<exists>y. or_else a b = Some y) \<longleftrightarrow> (\<exists>y. a = Some y) \<or> (\<exists>y. b = Some y)"
  by (cases a) simp_all

lemma require_None [simp]: "require ok e = None \<longleftrightarrow> ok"
  by (simp add: require_def)

lemma require_simps [simp]: "require True e = None" "require False e = Some e"
  by (simp_all add: require_def)

lemmas result_splits = sum.splits option.splits prod.splits if_splits

section \<open>Lists and maps\<close>

lemma filter_perm_eq:
  assumes "mset xs = mset ys"
  shows "filter (\<lambda>y. x = y) xs = filter (\<lambda>y. x = y) ys"
proof -
  have "length (filter (\<lambda>y. x = y) xs) = length (filter (\<lambda>y. x = y) ys)"
    using assms by (metis mset_filter size_mset)
  then show ?thesis by (metis replicate_length_filter)
qed

text \<open>Sorting by an injective key does not depend on the order of the input.\<close>

lemma sort_key_perm_eq:
  assumes "inj_on f (set xs)" "mset xs = mset ys"
  shows "sort_key f xs = sort_key f ys"
proof (rule properties_for_sort_key)
  show "mset (sort_key f ys) = mset xs" using assms(2) by simp
next
  fix k assume "k \<in> set (sort_key f ys)"
  then have "k \<in> set xs" using assms(2) by (metis set_mset_mset set_sort)
  then have eq: "filter (\<lambda>x. f x = f k) zs = filter (\<lambda>x. k = x) zs" if "set zs = set xs" for zs
    using that assms(1) by (intro filter_cong) (auto simp: inj_on_def)
  have "filter (\<lambda>x. f x = f k) ys = filter (\<lambda>x. f x = f k) xs"
    using filter_perm_eq [OF assms(2), of k] eq [of xs] eq [of ys] mset_eq_setD [OF assms(2)]
    by metis
  then show "filter (\<lambda>x. f k = f x) (sort_key f ys) = filter (\<lambda>x. f k = f x) xs"
    using sort_key_stable [of f "f k" ys] by (simp add: eq_commute [of "f k"])
qed (simp add: sorted_sort_key)

lemma map_restrict_dom_upd: "k \<notin> dom m \<Longrightarrow> (m(k \<mapsto> v))(k := None) = m"
  by (auto simp: dom_def)

end
