(* ===== verification/GoErrors.thy ===== *)
theory GoErrors
  imports Prelude
begin

text \<open>
  Errors. Each package's exported error variables are a datatype; \<open>sentinel\<close> is their union.
  An error value keeps the chain that \<open>errors.Is\<close> walks; the text of a message is dropped.
  The only code that branches on it, \<open>internal/opresolver\<close>, takes the text as an argument.
\<close>

datatype request_error =
    ErrInvalidAlias | ErrInvalidCommand | ErrInvalidReason | ErrInvalidReference
  | ErrInvalidReusableUses | ErrInvalidRequest | ErrInvalidTTL

datatype session_error =
    ErrInvalidSessionID | ErrInvalidSessionToken | ErrInvalidSessionRead | ErrInvalidSessionBind

datatype secretref_error = ErrInvalidSecretRef

datatype item_error = ErrInvalidItemRef | ErrInvalidFormat

datatype identity_error = ErrIdentityMismatch | ErrIdentityMissing

datatype trust_error = ErrMutablePath

datatype peer_error = ErrMissingMetadata | ErrPolicyMismatch | ErrUnsupportedOS

datatype policy_error = ErrExpired | ErrMismatch | ErrUseExhausted | ErrInvalidDeliveryResult

datatype memory_error = ErrDestroyed

datatype audit_error = ErrClosed | ErrInsecureAuditLog | ErrInvalidAuditEvent

datatype approval_error =
    ErrApprovalDenied | ErrApproverLaunchFailed | ErrApproverIdentity | ErrApproverPeerMismatch
  | ErrNoPendingApproval | ErrRequestExpired | ErrStaleApproval | ErrUnavailable

datatype protocol_error =
    ErrInvalidNonce | ErrMalformedEnvelope | ErrProtocolFrameSize | ErrProtocolVersion
  | ErrProtocolType

datatype broker_error =
    ErrAuditRequired | ErrMissingCache | ErrNoReusableApproval | ErrNoResolver
  | ErrSecretResolveFailed | ErrItemMetadataResolveFailed | ErrDaemonStopped | ErrUnknownRequest

datatype session_store_error =
    ErrSessionNotFound | ErrSessionReadExhausted | ErrSessionPeerMismatch

datatype server_error =
    ErrRequestAlreadyActive | ErrOnePasswordCheckUnavailable | ErrClientValidatorRequired

datatype trust_peer_error = ErrUntrustedClient | ErrUntrustedDaemon | ErrReleaseTeamIDRequired

datatype control_error =
    ErrDaemonStillRunning | ErrUnexpectedHelper | ErrHelperMismatch | ErrDaemonUnavailable

datatype exec_error = ErrEnvironmentConflict | ErrExecutableChanged

datatype config_error =
    ErrConfigNotFound | ErrInvalidConfig | ErrProfileNotFound | ErrInvalidEnvFile

datatype cli_error =
    ErrHelpRequested | ErrInvalidArguments | ErrUnsupportedExecJSON | ErrUnsupportedReuse
  | ErrShellStringCommand

text \<open>
  \<open>internal/opresolver\<close> has an \<open>ErrInvalidReference\<close> of its own, here \<open>ErrInvalidOpReference\<close>.
\<close>

datatype resolver_error =
    ErrInvalidOpReference | ErrItemsUnavailable | ErrVaultNotFound | ErrItemNotFound
  | ErrFieldNotFound | ErrAmbiguousVault | ErrAmbiguousItem | ErrAmbiguousField | ErrAccountUnknown

datatype bws_error =
    ErrInvalidTokenAlias | ErrInvalidToken | ErrTokenNotFound | ErrKeychainAccess
  | ErrUnsupportedStore | ErrUnsupportedEndpoint | ErrBWSUnavailable | ErrInvalidBWSOutput

datatype socket_error = ErrInsecureSocketDirectory

datatype install_error = ErrRefuseOverwrite | ErrTransientAppLocation

datatype selfcheck_error = ErrDaemonExecutableChanged

text \<open>The two error values of Go's package \<open>context\<close>.\<close>

datatype context_error = CtxCanceled | CtxDeadlineExceeded

datatype sentinel =
    RequestErr request_error
  | SessionErr session_error
  | SecretRefErr secretref_error
  | ItemErr item_error
  | IdentityErr identity_error
  | TrustErr trust_error
  | PeerErr peer_error
  | PolicyErr policy_error
  | MemoryErr memory_error
  | AuditErr audit_error
  | ApprovalErr approval_error
  | ProtocolErr protocol_error
  | BrokerErr broker_error
  | StoreErr session_store_error
  | ServerErr server_error
  | ClientErr trust_peer_error
  | ControlErr control_error
  | ExecErr exec_error
  | ConfigErr config_error
  | CliErr cli_error
  | ResolverErr resolver_error
  | BwsErr bws_error
  | SocketErr socket_error
  | InstallErr install_error
  | SelfcheckErr selfcheck_error
  | ContextErr context_error

text \<open>
  The session errors are themselves built with \<open>%w\<close> from \<open>ErrInvalidRequest\<close>, so each of
  them also is an invalid request.
\<close>

fun sentinel_base :: "sentinel \<Rightarrow> sentinel option" where
  "sentinel_base (SessionErr e) = Some (RequestErr ErrInvalidRequest)"
| "sentinel_base s = None"

text \<open>
  An error value: a sentinel (alone or with message text), a sentinel wrapped around another
  error (\<open>"%w: ... %w"\<close>), a plain \<open>errors.New\<close> text, \<open>approval.ApprovalDeniedError\<close> with
  its reason, or several errors joined by \<open>errors.Join\<close>.
\<close>

datatype err =
    Err sentinel
  | Wrap sentinel err
  | Text string
  | Denied string
  | Joined "err list"

definition sentinel_is :: "sentinel \<Rightarrow> sentinel \<Rightarrow> bool" where
  "sentinel_is s t \<longleftrightarrow> s = t \<or> sentinel_base s = Some t"

text \<open>\<open>errors.Is(err, target)\<close>.\<close>

fun err_is :: "err \<Rightarrow> sentinel \<Rightarrow> bool" where
  "err_is (Err s) t \<longleftrightarrow> sentinel_is s t"
| "err_is (Wrap s e) t \<longleftrightarrow> sentinel_is s t \<or> err_is e t"
| "err_is (Text m) t \<longleftrightarrow> False"
| "err_is (Denied r) t \<longleftrightarrow> t = ApprovalErr ErrApprovalDenied"
| "err_is (Joined es) t \<longleftrightarrow> list_ex (\<lambda>e. err_is e t) es"

lemma sentinel_is_refl [simp]: "sentinel_is s s"
  by (simp add: sentinel_is_def)

lemma err_is_Wrap: "err_is e t \<Longrightarrow> err_is (Wrap s e) t"
  by simp

end
