(* ===== verification/Refs.thy ===== *)
theory Refs
  imports GoErrors
begin

text \<open>
  Secret references: \<open>internal/opref/opref.go\<close> (the \<open>op://\<close> grammar),
  \<open>internal/secretref/secretref.go\<close> (both providers) and the reference functions of
  \<open>internal/itemmetadata/itemmetadata.go\<close>. The lemmas show what the parsers accept, that the
  canonical form they return parses to itself, and that a reference rebuilt from its parts
  parses to those parts.
\<close>

section \<open>The op:// grammar\<close>

record op_reference =
  or_raw :: string
  or_vault :: string
  or_item :: string
  or_section :: string
  or_field :: string

definition op_parse :: "string \<Rightarrow> err + op_reference" where
  "op_parse ref =
     (if trim_space ref \<noteq> ref \<or> ref = '''' then Inl (Text ''must be non-empty and untrimmed'')
      else if \<not> has_prefix ref ''op://'' then Inl (Text ''must start with op://'')
      else
        let parts = split_byte (CHR ''/'') (trim_prefix ref ''op://''); n = length parts
        in if n < 3 \<or> n > 4 then Inl (Text ''expected op://vault/item[/section]/field-or-text-file'')
           else if '''' \<in> set parts then Inl (Text ''path segments must be non-empty'')
           else Inr \<lparr>or_raw = ref, or_vault = parts ! 0, or_item = parts ! 1,
                      or_section = (if n = 4 then parts ! 2 else ''''),
                      or_field = parts ! (n - 1)\<rparr>)"

definition build_field_ref :: "string \<Rightarrow> string \<Rightarrow> string \<Rightarrow> string \<Rightarrow> string" where
  "build_field_ref vault item section_name field =
     (let ref = ''op://'' @ vault @ ''/'' @ item;
          ref' = (if trim_space section_name \<noteq> '''' then ref @ ''/'' @ section_name else ref)
      in ref' @ ''/'' @ field)"

text \<open>A path segment: not empty, no separator.\<close>

definition segment :: "string \<Rightarrow> bool" where
  "segment p \<longleftrightarrow> p \<noteq> [] \<and> CHR ''/'' \<notin> set p"

lemma op_parse_raw: "op_parse ref = Inr r \<Longrightarrow> or_raw r = ref"
  by (auto simp: op_parse_def Let_def split: if_splits)

lemma op_parse_cases:
  assumes "op_parse ref = Inr r"
  obtains (three) "trim_space ref = ref" "or_section r = ''''"
      "ref = ''op://'' @ or_vault r @ ''/'' @ or_item r @ ''/'' @ or_field r"
      "segment (or_vault r)" "segment (or_item r)" "segment (or_field r)"
  | (four) "trim_space ref = ref" "segment (or_section r)"
      "ref = ''op://'' @ or_vault r @ ''/'' @ or_item r @ ''/'' @ or_section r @ ''/'' @ or_field r"
      "segment (or_vault r)" "segment (or_item r)" "segment (or_field r)"
proof -
  let ?ps = "split_byte (CHR ''/'') (trim_prefix ref ''op://'')"
  from assms have t: "trim_space ref = ref" and p: "has_prefix ref ''op://''"
    and n: "length ?ps = 3 \<or> length ?ps = 4" and ne: "'''' \<notin> set ?ps"
    and r: "r = \<lparr>or_raw = ref, or_vault = ?ps ! 0, or_item = ?ps ! 1,
               or_section = (if length ?ps = 4 then ?ps ! 2 else ''''),
               or_field = ?ps ! (length ?ps - 1)\<rparr>"
    by (auto simp: op_parse_def Let_def split: if_splits)
  have seg: "segment q" if "q \<in> set ?ps" for q
    using that ne split_byte_parts [OF that] by (auto simp: segment_def)
  have ref: "ref = ''op://'' @ join_byte (CHR ''/'') ?ps"
    using trim_prefix_eq [OF p] by (simp add: join_split_byte)
  from n show ?thesis
  proof
    assume "length ?ps = 3"
    then obtain a b c where ps: "?ps = [a, b, c]"
      by (auto simp: numeral_3_eq_3 length_Suc_conv)
    show ?thesis
      by (rule three) (use t ref r ps seg in auto)
  next
    assume "length ?ps = 4"
    then obtain a b c d where ps: "?ps = [a, b, c, d]"
      by (auto simp: numeral_eq_Suc length_Suc_conv)
    show ?thesis
      by (rule four) (use t ref r ps seg in auto)
  qed
qed

lemma op_parse_three:
  assumes "segment v" "segment i" "segment f"
    and "trim_space (''op://'' @ v @ ''/'' @ i @ ''/'' @ f) = ''op://'' @ v @ ''/'' @ i @ ''/'' @ f"
  shows "op_parse (''op://'' @ v @ ''/'' @ i @ ''/'' @ f) =
    Inr \<lparr>or_raw = ''op://'' @ v @ ''/'' @ i @ ''/'' @ f, or_vault = v, or_item = i,
         or_section = '''', or_field = f\<rparr>"
proof -
  have "split_byte (CHR ''/'') (v @ ''/'' @ i @ ''/'' @ f) = [v, i, f]"
    using assms(1-3) by (simp add: segment_def split_byte_append split_byte_free)
  then show ?thesis
    using assms trim_prefix_append [of "''op://''" "v @ ''/'' @ i @ ''/'' @ f"]
      has_prefix_append [of "''op://''" "v @ ''/'' @ i @ ''/'' @ f"]
    by (auto simp: op_parse_def segment_def Let_def eval_nat_numeral)
qed

lemma op_parse_four:
  assumes "segment v" "segment i" "segment s" "segment f"
    and "trim_space (''op://'' @ v @ ''/'' @ i @ ''/'' @ s @ ''/'' @ f) =
         ''op://'' @ v @ ''/'' @ i @ ''/'' @ s @ ''/'' @ f"
  shows "op_parse (''op://'' @ v @ ''/'' @ i @ ''/'' @ s @ ''/'' @ f) =
    Inr \<lparr>or_raw = ''op://'' @ v @ ''/'' @ i @ ''/'' @ s @ ''/'' @ f, or_vault = v, or_item = i,
         or_section = s, or_field = f\<rparr>"
proof -
  have "split_byte (CHR ''/'') (v @ ''/'' @ i @ ''/'' @ s @ ''/'' @ f) = [v, i, s, f]"
    using assms(1-4) by (simp add: segment_def split_byte_append split_byte_free)
  then show ?thesis
    using assms trim_prefix_append [of "''op://''" "v @ ''/'' @ i @ ''/'' @ s @ ''/'' @ f"]
      has_prefix_append [of "''op://''" "v @ ''/'' @ i @ ''/'' @ s @ ''/'' @ f"]
    by (auto simp: op_parse_def segment_def Let_def eval_nat_numeral)
qed

section \<open>Both providers\<close>

definition provider_onepassword :: string where
  "provider_onepassword = ''1password''"

definition provider_bitwarden :: string where
  "provider_bitwarden = ''bitwarden-secrets-manager''"

record secret_reference =
  sref_raw :: string
  sref_provider :: string
  sref_vault :: string
  sref_item :: string
  sref_section :: string
  sref_field :: string
  sref_source :: string
  sref_secret_id :: string

definition hexes :: "nat \<Rightarrow> string \<Rightarrow> bool" where
  "hexes n p \<longleftrightarrow> length p = n \<and> list_all is_hex p"

text \<open>\<open>uuidPattern\<close>.\<close>

definition uuid_ok :: "string \<Rightarrow> bool" where
  "uuid_ok s \<longleftrightarrow>
     (case split_byte (CHR ''-'') s of
        [a, b, c, d, e] \<Rightarrow> hexes 8 a \<and> hexes 4 b \<and> hexes 4 c \<and> hexes 4 d \<and> hexes 12 e
      | _ \<Rightarrow> False)"

definition alnum :: "char \<Rightarrow> bool" where
  "alnum c \<longleftrightarrow> is_upper c \<or> is_lower c \<or> is_digit c"

text \<open>\<open>sourceAliasPattern\<close>.\<close>

definition valid_source_alias :: "string \<Rightarrow> bool" where
  "valid_source_alias s \<longleftrightarrow>
     (case s of [] \<Rightarrow> False
      | c # cs \<Rightarrow> alnum c \<and> length cs \<le> 127 \<and>
          list_all (\<lambda>x. alnum x \<or> x = CHR ''.'' \<or> x = CHR ''_'' \<or> x = CHR ''-'') cs)"

definition is_supported :: "string \<Rightarrow> bool" where
  "is_supported raw \<longleftrightarrow> has_prefix raw ''op://'' \<or> has_prefix raw ''bws://''"

definition is_bitwarden :: "string \<Rightarrow> bool" where
  "is_bitwarden raw \<longleftrightarrow> has_prefix raw ''bws://''"

definition normalize_source_alias :: "string \<Rightarrow> err + string" where
  "normalize_source_alias a =
     (let a' = trim_space a
      in if a' = '''' then Inl (Err (SecretRefErr ErrInvalidSecretRef))
         else if \<not> valid_source_alias a' then Inl (Err (SecretRefErr ErrInvalidSecretRef))
         else Inr a')"

definition normalize_secret_id :: "string \<Rightarrow> err + string" where
  "normalize_secret_id i =
     (let i' = trim_space i
      in if i' = '''' then Inl (Err (SecretRefErr ErrInvalidSecretRef))
         else if \<not> uuid_ok i' then Inl (Err (SecretRefErr ErrInvalidSecretRef))
         else Inr (to_lower i'))"

definition parse_onepassword :: "string \<Rightarrow> err + secret_reference" where
  "parse_onepassword raw =
     (case op_parse raw of
        Inl e \<Rightarrow> Inl e
      | Inr p \<Rightarrow> Inr \<lparr>sref_raw = or_raw p, sref_provider = provider_onepassword,
          sref_vault = or_vault p, sref_item = or_item p, sref_section = or_section p,
          sref_field = or_field p, sref_source = '''', sref_secret_id = ''''\<rparr>)"

definition bitwarden_ref :: "string \<Rightarrow> string \<Rightarrow> string \<Rightarrow> secret_reference" where
  "bitwarden_ref raw source secret_id =
     \<lparr>sref_raw = raw, sref_provider = provider_bitwarden, sref_vault = '''', sref_item = '''',
      sref_section = '''', sref_field = '''', sref_source = source, sref_secret_id = secret_id\<rparr>"

definition parse_bitwarden :: "string \<Rightarrow> err + secret_reference" where
  "parse_bitwarden raw =
     (if trim_space raw \<noteq> raw then Inl (Err (SecretRefErr ErrInvalidSecretRef))
      else
        let body = trim_prefix raw ''bws://''
        in if body = '''' then Inl (Err (SecretRefErr ErrInvalidSecretRef))
           else if contains_sub body ''//'' then Inl (Err (SecretRefErr ErrInvalidSecretRef))
           else
             (case split_byte (CHR ''/'') body of
                [p] \<Rightarrow>
                  (case normalize_secret_id p of
                     Inl e \<Rightarrow> Inl e
                   | Inr i \<Rightarrow> Inr (bitwarden_ref (''bws://'' @ i) '''' i))
              | [p, q] \<Rightarrow>
                  (case normalize_source_alias p of
                     Inl e \<Rightarrow> Inl e
                   | Inr source \<Rightarrow>
                       (case normalize_secret_id q of
                          Inl e \<Rightarrow> Inl e
                        | Inr i \<Rightarrow> Inr (bitwarden_ref (''bws://'' @ source @ ''/'' @ i) source i)))
              | _ \<Rightarrow> Inl (Err (SecretRefErr ErrInvalidSecretRef))))"

definition parse_reference :: "string \<Rightarrow> err + secret_reference" where
  "parse_reference raw =
     (if has_prefix raw ''op://'' then parse_onepassword raw
      else if has_prefix raw ''bws://'' then parse_bitwarden raw
      else Inl (Err (SecretRefErr ErrInvalidSecretRef)))"

section \<open>Normal forms\<close>

lemma alnum_graphic: "alnum c \<Longrightarrow> graphic c \<and> c \<noteq> CHR ''/''"
  by (auto simp: alnum_def char_class_defs char_le_iff char_less_iff)

lemma alias_char_graphic:
  "alnum x \<or> x = CHR ''.'' \<or> x = CHR ''_'' \<or> x = CHR ''-'' \<Longrightarrow> graphic x \<and> x \<noteq> CHR ''/''"
  using alnum_graphic [of x] by (auto simp: graphic_def char_less_iff)

lemma valid_source_alias_chars:
  assumes "valid_source_alias s"
  shows "s \<noteq> [] \<and> list_all graphic s \<and> CHR ''/'' \<notin> set s"
proof -
  have "s \<noteq> [] \<and> (\<forall>x \<in> set s. alnum x \<or> x = CHR ''.'' \<or> x = CHR ''_'' \<or> x = CHR ''-'')"
    using assms by (cases s) (auto simp: valid_source_alias_def list_all_iff)
  then show ?thesis using alias_char_graphic by (auto simp: list_all_iff)
qed

lemma hexes_chars:
  "hexes n p \<Longrightarrow> list_all graphic p \<and> CHR ''/'' \<notin> set p \<and> CHR ''-'' \<notin> set p"
  by (auto simp: hexes_def list_all_iff is_hex_graphic dest: is_hex_not_sep)

lemma uuid_okE:
  assumes "uuid_ok s"
  obtains a b c d e where "s = a @ ''-'' @ b @ ''-'' @ c @ ''-'' @ d @ ''-'' @ e"
    "hexes 8 a" "hexes 4 b" "hexes 4 c" "hexes 4 d" "hexes 12 e"
proof -
  from assms obtain a b c d e where ps: "split_byte (CHR ''-'') s = [a, b, c, d, e]"
    and h: "hexes 8 a" "hexes 4 b" "hexes 4 c" "hexes 4 d" "hexes 12 e"
    by (auto simp: uuid_ok_def split: list.splits)
  have "s = a @ ''-'' @ b @ ''-'' @ c @ ''-'' @ d @ ''-'' @ e"
    using join_split_byte [of "CHR ''-''" s] by (simp add: ps)
  with h show thesis using that by blast
qed

lemma uuid_okI:
  assumes "hexes 8 a" "hexes 4 b" "hexes 4 c" "hexes 4 d" "hexes 12 e"
  shows "uuid_ok (a @ ''-'' @ b @ ''-'' @ c @ ''-'' @ d @ ''-'' @ e)"
  using assms by (simp add: uuid_ok_def split_byte_append split_byte_free hexes_chars)

lemma uuid_ok_chars: "uuid_ok s \<Longrightarrow> s \<noteq> [] \<and> list_all graphic s \<and> CHR ''/'' \<notin> set s"
  by (erule uuid_okE) (auto simp: hexes_chars graphic_def char_less_iff)

lemma uuid_ok_length: "uuid_ok s \<Longrightarrow> length s = 36"
  by (erule uuid_okE) (simp add: hexes_def)

lemma hexes_to_lower [simp]: "hexes n (to_lower p) \<longleftrightarrow> hexes n p"
  by (simp add: hexes_def to_lower_def list_all_iff)

lemma to_lower_append: "to_lower (a @ b) = to_lower a @ to_lower b"
  by (simp add: to_lower_def)

lemma uuid_ok_to_lower: "uuid_ok s \<Longrightarrow> uuid_ok (to_lower s)"
proof (erule uuid_okE)
  fix a b c d e
  assume s: "s = a @ ''-'' @ b @ ''-'' @ c @ ''-'' @ d @ ''-'' @ e"
    and h: "hexes 8 a" "hexes 4 b" "hexes 4 c" "hexes 4 d" "hexes 12 e"
  have m: "to_lower ''-'' = ''-''" by (simp add: to_lower_def lower_byte_def is_upper_def)
  have "to_lower s = to_lower a @ ''-'' @ to_lower b @ ''-'' @ to_lower c @ ''-'' @
      to_lower d @ ''-'' @ to_lower e"
    by (simp only: s to_lower_append m)
  with h show ?thesis by (simp only: uuid_okI hexes_to_lower)
qed

lemma normalize_secret_id_Inr:
  assumes "normalize_secret_id s = Inr i"
  shows "uuid_ok i" "to_lower i = i"
  using assms by (auto simp: normalize_secret_id_def Let_def uuid_ok_to_lower split: if_splits)

lemma normalize_secret_id_fix: "uuid_ok i \<Longrightarrow> to_lower i = i \<Longrightarrow> normalize_secret_id i = Inr i"
  using uuid_ok_chars [of i] by (simp add: normalize_secret_id_def trim_space_graphic)

lemma normalize_source_alias_Inr:
  "normalize_source_alias s = Inr a \<Longrightarrow> valid_source_alias a \<and> a = trim_space s"
  by (auto simp: normalize_source_alias_def Let_def split: if_splits)

lemma normalize_source_alias_fix: "valid_source_alias a \<Longrightarrow> normalize_source_alias a = Inr a"
  using valid_source_alias_chars [of a]
  by (simp add: normalize_source_alias_def trim_space_graphic)

lemma normalize_source_alias_idem:
  "normalize_source_alias s = Inr a \<Longrightarrow> normalize_source_alias a = Inr a"
  by (auto dest: normalize_source_alias_Inr normalize_source_alias_fix)

lemma no_double_sep: "CHR ''/'' \<notin> set q \<Longrightarrow> \<not> contains_sub q ''//''"
  by (induction q) (auto simp: has_prefix_iff)

lemma no_double_sep_append:
  "CHR ''/'' \<notin> set p \<Longrightarrow> CHR ''/'' \<notin> set q \<Longrightarrow> q \<noteq> [] \<Longrightarrow> \<not> contains_sub (p @ CHR ''/'' # q) ''//''"
proof (induction p)
  case Nil
  then show ?case by (cases q) (auto simp: no_double_sep has_prefix_iff)
next
  case (Cons x p)
  then show ?case by (auto simp: has_prefix_iff)
qed

lemma bws_trim:
  assumes "list_all graphic s" "s \<noteq> []"
  shows "trim_space (''bws://'' @ s) = ''bws://'' @ s"
  by (rule trim_space_graphic_ends)
    (use assms in \<open>auto simp: list_all_iff graphic_def char_less_iff\<close>)

lemma parse_bitwarden_id:
  assumes "uuid_ok i" "to_lower i = i"
  shows "parse_bitwarden (''bws://'' @ i) = Inr (bitwarden_ref (''bws://'' @ i) '''' i)"
  using assms uuid_ok_chars [OF assms(1)] bws_trim [of i] trim_prefix_append [of "''bws://''" i]
    normalize_secret_id_fix [OF assms]
  by (simp add: parse_bitwarden_def split_byte_free no_double_sep)

lemma parse_bitwarden_source:
  assumes "valid_source_alias a" "uuid_ok i" "to_lower i = i"
  shows "parse_bitwarden (''bws://'' @ a @ ''/'' @ i) =
    Inr (bitwarden_ref (''bws://'' @ a @ ''/'' @ i) a i)"
proof -
  note a = valid_source_alias_chars [OF assms(1)] and i = uuid_ok_chars [OF assms(2)]
  have g: "list_all graphic (a @ ''/'' @ i)"
    using a i by (simp add: graphic_def char_less_iff)
  have "split_byte (CHR ''/'') (a @ ''/'' @ i) = [a, i]"
    using a i by (simp add: split_byte_append split_byte_free)
  then show ?thesis
    using a i bws_trim [OF g] trim_prefix_append [of "''bws://''" "a @ ''/'' @ i"]
      normalize_secret_id_fix [OF assms(2,3)] normalize_source_alias_fix [OF assms(1)]
      no_double_sep_append [of a i]
    by (simp add: parse_bitwarden_def)
qed

lemma parse_bitwarden_Inr_cases:
  assumes "parse_bitwarden raw = Inr r"
  obtains (id) i where "uuid_ok i" "to_lower i = i" "r = bitwarden_ref (''bws://'' @ i) '''' i"
  | (source) a i where "valid_source_alias a" "uuid_ok i" "to_lower i = i"
      "r = bitwarden_ref (''bws://'' @ a @ ''/'' @ i) a i"
  using assms
  by (auto simp: parse_bitwarden_def Let_def split: if_splits list.splits sum.splits
      dest: normalize_secret_id_Inr normalize_source_alias_Inr intro: that)

lemma parse_bitwarden_canonical:
  assumes "parse_bitwarden raw = Inr r"
  shows "parse_bitwarden (sref_raw r) = Inr r \<and> has_prefix (sref_raw r) ''bws://''"
  using assms
proof (cases rule: parse_bitwarden_Inr_cases)
  case (id i)
  then show ?thesis
    using parse_bitwarden_id [of i] has_prefix_append [of "''bws://''" i]
    by (simp add: bitwarden_ref_def)
next
  case (source a i)
  then show ?thesis
    using parse_bitwarden_source [of a i] has_prefix_append [of "''bws://''" "a @ ''/'' @ i"]
    by (simp add: bitwarden_ref_def)
qed

lemma bws_not_op: "has_prefix s ''bws://'' \<Longrightarrow> \<not> has_prefix s ''op://''"
  by (auto simp: has_prefix_iff)

lemma parse_reference_canonical_lemma:
  assumes "parse_reference raw = Inr r"
  shows "parse_reference (sref_raw r) = Inr r"
proof (cases "has_prefix raw ''op://''")
  case True
  with assms have p: "parse_onepassword raw = Inr r" by (simp add: parse_reference_def)
  then have "sref_raw r = raw"
    by (auto simp: parse_onepassword_def op_parse_raw split: sum.splits)
  with assms show ?thesis by simp
next
  case False
  with assms have p: "parse_bitwarden raw = Inr r"
    by (simp add: parse_reference_def split: if_splits)
  from parse_bitwarden_canonical [OF p] show ?thesis
    by (simp add: parse_reference_def bws_not_op)
qed

lemma parse_reference_provider:
  "parse_reference raw = Inr r \<Longrightarrow>
     sref_provider r = provider_onepassword \<or> sref_provider r = provider_bitwarden"
  by (auto simp: parse_reference_def parse_onepassword_def
      elim!: parse_bitwarden_Inr_cases split: if_splits sum.splits)
    (simp_all add: bitwarden_ref_def)

section \<open>Item references\<close>

record item_ref =
  ir_raw :: string
  ir_vault :: string
  ir_item :: string

definition parse_item_ref :: "string \<Rightarrow> err + item_ref" where
  "parse_item_ref raw =
     (if trim_space raw \<noteq> raw \<or> raw = '''' then Inl (Err (ItemErr ErrInvalidItemRef))
      else if \<not> has_prefix raw ''op://'' then Inl (Err (ItemErr ErrInvalidItemRef))
      else
        let parts = split_byte (CHR ''/'') (trim_prefix raw ''op://'')
        in if \<not> (length parts = 2 \<or> length parts = 3 \<and> parts ! 2 = ''*'')
           then Inl (Err (ItemErr ErrInvalidItemRef))
           else if '''' \<in> set (take 2 parts) then Inl (Err (ItemErr ErrInvalidItemRef))
           else Inr \<lparr>ir_raw = ''op://'' @ parts ! 0 @ ''/'' @ parts ! 1,
                     ir_vault = parts ! 0, ir_item = parts ! 1\<rparr>)"

lemma parse_item_ref_Inr:
  assumes "parse_item_ref raw = Inr r"
  shows "segment (ir_vault r)" "segment (ir_item r)"
    "ir_raw r = ''op://'' @ ir_vault r @ ''/'' @ ir_item r"
    "raw = ir_raw r \<or> raw = ir_raw r @ ''/*''"
proof -
  let ?ps = "split_byte (CHR ''/'') (trim_prefix raw ''op://'')"
  from assms have n: "length ?ps = 2 \<or> length ?ps = 3 \<and> ?ps ! 2 = ''*''"
    and ne: "'''' \<notin> set (take 2 ?ps)" and p: "has_prefix raw ''op://''"
    and r: "r = \<lparr>ir_raw = ''op://'' @ ?ps ! 0 @ ''/'' @ ?ps ! 1,
                     ir_vault = ?ps ! 0, ir_item = ?ps ! 1\<rparr>"
    by (auto simp: parse_item_ref_def Let_def split: if_splits)
  from n obtain a b where ps: "?ps = [a, b] \<or> ?ps = [a, b, ''*'']"
    by (auto simp: numeral_eq_Suc length_Suc_conv)
  have seg: "segment q" if "q \<in> set (take 2 ?ps)" for q
    using that ne split_byte_parts [of q "CHR ''/''"] in_set_takeD by (fastforce simp: segment_def)
  have raw: "raw = ''op://'' @ join_byte (CHR ''/'') ?ps"
    using trim_prefix_eq [OF p] by (simp add: join_split_byte)
  show "segment (ir_vault r)" "segment (ir_item r)"
    "ir_raw r = ''op://'' @ ir_vault r @ ''/'' @ ir_item r"
    "raw = ir_raw r \<or> raw = ir_raw r @ ''/*''"
    using ps seg raw r by auto
qed

end
