(* ===== verification/Paths.thy ===== *)
theory Paths
  imports Prelude
begin

text \<open>
  Facts about \<open>filepath.Clean\<close> and \<open>filepath.Dir\<close>: cleaning never lengthens a path, so the walk
  from a path to its parent directories stops; the parent of a clean absolute path drops its
  last element.
\<close>

definition path_cost :: "string list \<Rightarrow> nat" where
  "path_cost ps = sum_list (map (\<lambda>p. Suc (length p)) ps)"

lemma path_cost_simps [simp]:
  "path_cost [] = 0" "path_cost (p # ps) = Suc (length p) + path_cost ps"
  "path_cost (ps @ qs) = path_cost ps + path_cost qs" "path_cost (rev ps) = path_cost ps"
  by (simp_all add: path_cost_def rev_map [symmetric])

lemma length_join: "ps \<noteq> [] \<Longrightarrow> Suc (length (join_byte c ps)) = path_cost ps"
  by (induction c ps rule: join_byte.induct) auto

lemma clean_parts_cost:
  "path_cost (clean_parts r acc ps) + count_list ps '''' \<le> path_cost acc + path_cost ps"
proof (induction r acc ps rule: clean_parts.induct)
  case (2 rooted acc p ps)
  show ?case
  proof (cases "p = '''' \<or> p = ''.''")
    case True
    then show ?thesis using "2.IH"(1) by auto
  next
    case False
    note np = this
    show ?thesis
    proof (cases "p = ''..''")
      case True
      show ?thesis
      proof (cases acc)
        case Nil
        then show ?thesis using np True "2.IH"(2) by (auto split: if_splits)
      next
        case (Cons q qs)
        then show ?thesis using np True "2.IH"(3) by (auto split: if_splits)
      qed
    next
      case False
      then show ?thesis using np "2.IH"(4) by auto
    qed
  qed
qed simp

lemma split_byte_snoc: "split_byte c (s @ [c]) = split_byte c s @ [[]]"
  by (induction s) (auto split: list.splits)

lemma split_byte_cost: "path_cost (split_byte c s) = Suc (length s)"
  using length_join [of "split_byte c s" c] by (simp add: join_split_byte)

lemma count_list_split_rooted:
  "is_abs (q @ ''/'') \<Longrightarrow> 2 \<le> count_list (split_byte (CHR ''/'') (q @ ''/'')) ''''"
  by (cases q) (auto simp: split_byte_snoc is_abs_def has_prefix_def)

lemma count_list_split_snoc: "1 \<le> count_list (split_byte (CHR ''/'') (q @ ''/'')) ''''"
  by (simp add: split_byte_snoc)

lemma path_clean_slash_shorter:
  assumes "path_clean (q @ ''/'') \<noteq> ''/''" "path_clean (q @ ''/'') \<noteq> ''.''"
  shows "length (path_clean (q @ ''/'')) < length (q @ ''/'')"
proof -
  let ?p = "q @ ''/''"
  let ?ps = "split_byte (CHR ''/'') ?p"
  let ?cs = "clean_parts (is_abs ?p) [] ?ps"
  have cost: "path_cost ?cs + count_list ?ps '''' \<le> Suc (length ?p)"
    using clean_parts_cost [of "is_abs ?p" "[]" ?ps] split_byte_cost [of "CHR ''/''" ?p] by simp
  have ne: "?cs \<noteq> []" using assms by (auto simp: path_clean_def Let_def split: if_splits)
  show ?thesis
  proof (cases "is_abs ?p")
    case True
    have "Suc (length (path_clean ?p)) = Suc (path_cost ?cs)"
      using True length_join [OF ne, of "CHR ''/''"] by (simp add: path_clean_def Let_def)
    with cost count_list_split_rooted [OF True] show ?thesis by linarith
  next
    case False
    then have "path_clean ?p = join_byte (CHR ''/'') ?cs"
      using assms by (auto simp: path_clean_def Let_def split: if_splits)
    then have "Suc (length (path_clean ?p)) = path_cost ?cs"
      using length_join [OF ne, of "CHR ''/''"] by simp
    with cost count_list_split_snoc [of q] show ?thesis by linarith
  qed
qed

definition path_weight :: "string \<Rightarrow> nat" where
  "path_weight d = (if d = [] then 5 else 2 * length d + (if d = ''.'' \<or> d = ''/'' then 0 else 1))"

lemma path_clean_ne: "path_clean d \<noteq> []"
  by (auto simp: path_clean_def Let_def)

lemma path_dir_prefix:
  "dropWhile (\<lambda>c. c \<noteq> CHR ''/'') (rev d) = [] \<or>
   (\<exists>q r. d = (q @ ''/'') @ r \<and> rev (dropWhile (\<lambda>c. c \<noteq> CHR ''/'') (rev d)) = q @ ''/'')"
proof (cases "dropWhile (\<lambda>c. c \<noteq> CHR ''/'') (rev d)")
  case Nil
  then show ?thesis by simp
next
  case (Cons c cs)
  then have c: "c = CHR ''/''"
    using hd_dropWhile [of "\<lambda>c. c \<noteq> CHR ''/''" "rev d"] by simp
  have "rev d = takeWhile (\<lambda>c. c \<noteq> CHR ''/'') (rev d) @ c # cs"
    using Cons by (metis takeWhile_dropWhile_id)
  then have "d = rev (takeWhile (\<lambda>c. c \<noteq> CHR ''/'') (rev d) @ c # cs)"
    by (metis rev_rev_ident)
  then have "d = (rev cs @ ''/'') @ rev (takeWhile (\<lambda>c. c \<noteq> CHR ''/'') (rev d))"
    using c by simp
  with Cons c show ?thesis by (intro disjI2 exI conjI) auto
qed

lemma path_dir_weight:
  assumes "path_dir d \<noteq> d"
  shows "path_weight (path_dir d) < path_weight d"
proof (cases "dropWhile (\<lambda>c. c \<noteq> CHR ''/'') (rev d) = []")
  case True
  then have "path_dir d = path_clean []" by (simp only: path_dir_def True rev.simps)
  then have "path_dir d = ''.''" by (simp add: path_clean_def is_abs_def has_prefix_def)
  moreover have "d \<noteq> ''/''"
  proof
    assume "d = ''/''"
    with True show False by (simp only: rev.simps dropWhile.simps) simp
  qed
  ultimately show ?thesis using assms by (cases d) (auto simp: path_weight_def)
next
  case False
  with path_dir_prefix [of d] obtain q r where d: "d = (q @ ''/'') @ r"
    and pd: "path_dir d = path_clean (q @ ''/'')"
    by (auto simp: path_dir_def)
  have ne: "d \<noteq> []" using d by simp
  show ?thesis
  proof (cases "path_dir d = ''/'' \<or> path_dir d = ''.''")
    case True
    then have w: "path_weight (path_dir d) = 2" by (auto simp: path_weight_def)
    have "d \<noteq> ''.''" using d by (cases q) auto
    moreover have "d \<noteq> ''/''"
    proof
      assume "d = ''/''"
      then have "path_dir d = d" by (simp add: path_dir_def path_clean_def is_abs_def has_prefix_def)
      with assms show False by simp
    qed
    moreover have "1 \<le> length d" using d by simp
    ultimately show ?thesis using w ne by (simp add: path_weight_def)
  next
    case False
    then have "length (path_dir d) < length (q @ ''/'')"
      using path_clean_slash_shorter [of q] pd by simp
    also have "\<dots> \<le> length d" using d by simp
    finally show ?thesis using ne path_clean_ne [of "q @ ''/''"] pd
      by (auto simp: path_weight_def)
  qed
qed

text \<open>Clean absolute paths, by their elements.\<close>

definition abs_path :: "string list \<Rightarrow> string" where
  "abs_path ps = CHR ''/'' # join_byte (CHR ''/'') ps"

definition clean_elem :: "string \<Rightarrow> bool" where
  "clean_elem p \<longleftrightarrow> p \<noteq> '''' \<and> p \<noteq> ''.'' \<and> p \<noteq> ''..'' \<and> CHR ''/'' \<notin> set p"

lemma clean_parts_id:
  "list_all clean_elem ps \<Longrightarrow> clean_parts r acc ps = rev acc @ ps"
  by (induction ps arbitrary: acc) (auto simp: clean_elem_def)

lemma split_join_byte:
  "ps \<noteq> [] \<Longrightarrow> \<forall>p \<in> set ps. c \<notin> set p \<Longrightarrow> split_byte c (join_byte c ps) = ps"
  by (induction c ps rule: join_byte.induct) (auto simp: split_byte_free split_byte_append)

lemma clean_parts_rooted_elems:
  "\<forall>p \<in> set acc. clean_elem p \<Longrightarrow> \<forall>p \<in> set ps. CHR ''/'' \<notin> set p \<Longrightarrow>
     \<forall>p \<in> set (clean_parts True acc ps). clean_elem p"
proof (induction ps arbitrary: acc)
  case (Cons p ps)
  have ps: "\<forall>q \<in> set ps. CHR ''/'' \<notin> set q" and p: "CHR ''/'' \<notin> set p" using Cons.prems(2) by simp_all
  consider "p = '''' \<or> p = ''.''" | "p = ''..''" "acc = []" | a as where "p = ''..''" "acc = a # as"
    | "clean_elem p" using p by (cases acc) (auto simp: clean_elem_def)
  then show ?case
  proof cases
    case 1
    have "clean_parts True acc (p # ps) = clean_parts True acc ps"
      by (simp only: clean_parts.simps if_P [OF 1])
    then show ?thesis using Cons.IH [OF Cons.prems(1) ps] by metis
  next
    case 2
    then show ?thesis using Cons.IH [of "[]"] ps by simp
  next
    case (3 a as)
    then have "a \<noteq> ''..''" "\<forall>q \<in> set as. clean_elem q"
      using Cons.prems(1) by (auto simp: clean_elem_def)
    with 3 show ?thesis using Cons.IH [of as] ps by simp
  next
    case 4
    then have "clean_parts True acc (p # ps) = clean_parts True (p # acc) ps"
      by (simp add: clean_elem_def)
    moreover have "\<forall>q \<in> set (p # acc). clean_elem q" using 4 Cons.prems(1) by simp
    ultimately show ?thesis using Cons.IH [OF _ ps] by metis
  qed
qed simp

lemma path_clean_rooted_elems:
  assumes "is_abs p"
  shows "\<exists>ps. path_clean p = abs_path ps \<and> list_all clean_elem ps"
proof -
  let ?cs = "clean_parts True [] (split_byte (CHR ''/'') p)"
  have "\<forall>q \<in> set ?cs. clean_elem q"
    by (rule clean_parts_rooted_elems) (use split_byte_parts in auto)
  then show ?thesis
    using assms by (intro exI [of _ ?cs]) (simp add: path_clean_def abs_path_def list_all_iff)
qed

lemma path_clean_abs_path:
  assumes "list_all clean_elem ps"
  shows "path_clean (abs_path ps) = abs_path ps"
proof -
  have "split_byte (CHR ''/'') (abs_path ps) = '''' # (if ps = [] then [''''] else ps)"
    using assms split_join_byte [of ps "CHR ''/''"]
    by (auto simp: abs_path_def list_all_iff clean_elem_def)
  then have "clean_parts True [] (split_byte (CHR ''/'') (abs_path ps)) = ps"
    using assms clean_parts_id [of ps True "[]"] by simp
  then show ?thesis
    by (simp add: path_clean_def is_abs_def has_prefix_def) (simp add: abs_path_def)
qed

text \<open>\<open>filepath.Clean\<close> is idempotent on absolute paths.\<close>

lemma path_clean_idem: "is_abs p \<Longrightarrow> path_clean (path_clean p) = path_clean p"
  using path_clean_rooted_elems path_clean_abs_path by metis

lemma join_byte_snoc:
  "ps \<noteq> [] \<Longrightarrow> join_byte c (ps @ [p]) = join_byte c ps @ c # p"
  by (induction c ps rule: join_byte.induct) auto

lemma path_dir_abs_path:
  assumes "list_all clean_elem (ps @ [p])"
  shows "path_dir (abs_path (ps @ [p])) = abs_path ps"
proof -
  have p: "CHR ''/'' \<notin> set p" using assms by (simp add: clean_elem_def)
  then have pw: "\<forall>x \<in> set (rev p). x \<noteq> CHR ''/''" by auto
  obtain q where q: "abs_path (ps @ [p]) = (q @ ''/'') @ p"
    and qc: "q = (if ps = [] then [] else abs_path ps)"
    by (cases "ps = []") (auto simp: abs_path_def join_byte_snoc)
  have "dropWhile (\<lambda>c. c \<noteq> CHR ''/'') (rev (abs_path (ps @ [p]))) = rev (q @ ''/'')"
    using pw by (simp add: q dropWhile_append3)
  then have pd: "path_dir (abs_path (ps @ [p])) = path_clean (q @ ''/'')"
    by (simp add: path_dir_def)
  have "clean_parts True [] (split_byte (CHR ''/'') (q @ ''/'')) = ps"
  proof (cases "ps = []")
    case True
    then show ?thesis using qc by simp
  next
    case False
    then have "split_byte (CHR ''/'') (q @ ''/'') = '''' # ps @ ['''']"
      using assms qc split_join_byte [of ps "CHR ''/''"] split_byte_snoc [of "CHR ''/''" q]
      by (auto simp: abs_path_def list_all_iff clean_elem_def)
    moreover have "clean_parts True acc (ps @ ['''']) = rev acc @ ps"
      if "list_all clean_elem ps" for acc
      using that by (induction ps arbitrary: acc) (auto simp: clean_elem_def)
    ultimately show ?thesis using assms by simp
  qed
  moreover have "is_abs (q @ ''/'')"
    using qc by (auto simp: is_abs_def has_prefix_def abs_path_def)
  ultimately show ?thesis using pd by (simp add: path_clean_def abs_path_def)
qed

lemma path_dir_root: "path_dir (abs_path []) = abs_path []"
  by (simp add: abs_path_def path_dir_def path_clean_def is_abs_def has_prefix_def)

lemma abs_path_snoc_neq: "abs_path (ps @ [p]) \<noteq> abs_path ps \<or> \<not> clean_elem p"
proof -
  have "length (abs_path (ps @ [p])) \<noteq> length (abs_path ps)" if "p \<noteq> []"
    using that by (cases "ps = []") (auto simp: abs_path_def join_byte_snoc)
  then show ?thesis by (auto simp: clean_elem_def)
qed


section \<open>Extensions and joining\<close>

text \<open>\<open>filepath.Ext\<close>: from the last dot of the last element on; empty when there is none.\<close>

definition path_ext :: "string \<Rightarrow> string" where
  "path_ext p =
     (let r = takeWhile (\<lambda>c. c \<noteq> CHR ''/'') (rev p)
      in if CHR ''.'' \<in> set r then rev (takeWhile (\<lambda>c. c \<noteq> CHR ''.'') r @ ''.'') else [])"

text \<open>\<open>filepath.Join\<close>: leading empty elements are dropped, the rest is joined and cleaned.\<close>

definition path_join :: "string list \<Rightarrow> string" where
  "path_join ps =
     (let qs = dropWhile (\<lambda>p. p = []) ps
      in if qs = [] then [] else path_clean (join_byte (CHR ''/'') qs))"

text \<open>\<open>strconv.Itoa\<close>, the decimal text of an integer.\<close>

function digits_text :: "int \<Rightarrow> string" where
  "digits_text n =
     (if n < 10 then [char_of (48 + n)] else digits_text (n div 10) @ [char_of (48 + n mod 10)])"
  by pat_completeness auto
termination by (relation "measure nat") auto

declare digits_text.simps [simp del]

definition int_text :: "int \<Rightarrow> string" where
  "int_text i = (if i < 0 then CHR ''-'' # digits_text (- i) else digits_text i)"

end
