(* ===== verification/Identity.thy ===== *)
theory Identity
  imports GoErrors Paths "HOL-Library.Word"
begin

unbundle bit_operations_syntax

text \<open>
  What the program reads of the operating system: \<open>internal/fileidentity\<close>,
  \<open>internal/executabletrust\<close>, \<open>internal/pathresolve\<close>, the policy part of
  \<open>internal/peercred/peercred.go\<close> and \<open>internal/randid\<close>. The kernel's answers
  (\<open>os.Stat\<close>, \<open>filepath.EvalSymlinks\<close>, \<open>filepath.Abs\<close>, the effective uid) are the
  fields of \<open>file_system\<close>, an argument of every definition that asks them.
\<close>

section \<open>The file system as the code sees it\<close>

record unix_stat =
  st_dev :: "32 word"
  st_ino :: "64 word"
  st_uid :: "32 word"
  st_ctime_sec :: "64 word"
  st_ctime_nsec :: "64 word"

record file_info =
  fi_is_dir :: bool
  fi_mode :: "32 word"
  fi_size :: "64 word"
  fi_mod_time :: "64 word"
  fi_sys :: "unix_stat option"

record file_system =
  fs_stat :: "string \<Rightarrow> err + file_info"
  fs_eval_symlinks :: "string \<Rightarrow> err + string"
  fs_abs :: "string \<Rightarrow> err + string"
  fs_euid :: int

text \<open>\<open>FileMode.Perm\<close>: the nine permission bits (octal 777); octal 111 is 0x49 and octal 022 is 0x12.\<close>

definition perm :: "file_info \<Rightarrow> 32 word" where
  "perm info = fi_mode info AND 0x1FF"

definition any_exec :: "file_info \<Rightarrow> bool" where
  "any_exec info \<longleftrightarrow> perm info AND 0x49 \<noteq> 0"

section \<open>Executable identity\<close>

record identity =
  id_device :: "64 word"
  id_inode :: "64 word"
  id_mode :: "32 word"
  id_size :: "64 word"
  id_mod_time :: "64 word"
  id_change_time :: "64 word"

definition identity_zero :: identity where
  "identity_zero = \<lparr>id_device = 0, id_inode = 0, id_mode = 0, id_size = 0, id_mod_time = 0,
     id_change_time = 0\<rparr>"

definition identity_is_zero :: "identity \<Rightarrow> bool" where
  "identity_is_zero i \<longleftrightarrow> i = identity_zero"

text \<open>
  The Darwin variant: \<open>stat.Dev\<close> is a signed 32-bit number; the change time is computed in
  64-bit arithmetic.
\<close>

definition add_platform_identity :: "identity \<Rightarrow> file_info \<Rightarrow> err + identity" where
  "add_platform_identity i info =
     (case fi_sys info of
        None \<Rightarrow> Inl (Err (IdentityErr ErrIdentityMissing))
      | Some st \<Rightarrow>
          if sint (st_dev st) < 0 then Inl (Err (IdentityErr ErrIdentityMissing))
          else Inr (i\<lparr>id_device := ucast (st_dev st), id_inode := st_ino st,
                      id_change_time := st_ctime_sec st * 1000000000 + st_ctime_nsec st\<rparr>))"

definition capture :: "file_system \<Rightarrow> string \<Rightarrow> err + identity" where
  "capture fs path =
     (case fs_stat fs path of
        Inl e \<Rightarrow> Inl e
      | Inr info \<Rightarrow>
          add_platform_identity
            (identity_zero\<lparr>id_mode := perm info, id_size := fi_size info,
                           id_mod_time := fi_mod_time info\<rparr>) info)"

definition verify_identity :: "file_system \<Rightarrow> string \<Rightarrow> identity \<Rightarrow> err option" where
  "verify_identity fs path expected =
     (if identity_is_zero expected then Some (Err (IdentityErr ErrIdentityMissing))
      else case capture fs path of
             Inl e \<Rightarrow> Some e
           | Inr actual \<Rightarrow>
               if actual \<noteq> expected then Some (Err (IdentityErr ErrIdentityMismatch)) else None)"

lemma verify_identity_None_iff:
  "verify_identity fs path i = None \<longleftrightarrow> \<not> identity_is_zero i \<and> capture fs path = Inr i"
  by (auto simp: verify_identity_def split: sum.splits)

section \<open>Stable executables\<close>

definition owned_by_current_user :: "file_system \<Rightarrow> file_info \<Rightarrow> bool" where
  "owned_by_current_user fs info \<longleftrightarrow>
     (case fi_sys info of None \<Rightarrow> False | Some st \<Rightarrow> uint (st_uid st) = fs_euid fs)"

definition validate_stable_component :: "file_system \<Rightarrow> file_info \<Rightarrow> err option" where
  "validate_stable_component fs info =
     (if perm info AND 0x12 \<noteq> 0 then Some (Err (TrustErr ErrMutablePath))
      else if owned_by_current_user fs info then Some (Err (TrustErr ErrMutablePath))
      else None)"

function check_parents :: "file_system \<Rightarrow> string \<Rightarrow> err option" where
  "check_parents fs dir =
     (case fs_stat fs dir of
        Inl e \<Rightarrow> Some e
      | Inr info \<Rightarrow>
          if \<not> fi_is_dir info then Some (Text ''executable parent is not a directory'')
          else case validate_stable_component fs info of
                 Some e \<Rightarrow> Some e
               | None \<Rightarrow>
                   let parent = path_dir dir
                   in if parent = dir then None else check_parents fs parent)"
  by pat_completeness auto
termination
  by (relation "measure (\<lambda>(fs, d). path_weight d)") (auto simp: path_dir_weight)

declare check_parents.simps [simp del]

definition validate_stable_executable :: "file_system \<Rightarrow> string \<Rightarrow> err option" where
  "validate_stable_executable fs path =
     (case fs_stat fs path of
        Inl e \<Rightarrow> Some e
      | Inr info \<Rightarrow>
          if fi_is_dir info then Some (Text ''executable path is a directory'')
          else if \<not> any_exec info then Some (Text ''executable path is not executable'')
          else or_else (validate_stable_component fs info) (check_parents fs (path_dir path)))"

text \<open>A directory that the current user cannot change, as the check wants every ancestor.\<close>

definition stable_dir :: "file_system \<Rightarrow> string \<Rightarrow> bool" where
  "stable_dir fs d \<longleftrightarrow>
     (\<exists>info. fs_stat fs d = Inr info \<and> fi_is_dir info \<and> validate_stable_component fs info = None)"

lemma check_parents_None:
  "check_parents fs d = None \<longleftrightarrow>
     stable_dir fs d \<and> (path_dir d \<noteq> d \<longrightarrow> check_parents fs (path_dir d) = None)"
  by (subst check_parents.simps) (auto simp: stable_dir_def Let_def split: sum.splits option.splits)

lemma check_parents_abs_path:
  "list_all clean_elem ps \<Longrightarrow>
     check_parents fs (abs_path ps) = None \<longleftrightarrow> (\<forall>n \<le> length ps. stable_dir fs (abs_path (take n ps)))"
proof (induction ps rule: rev_induct)
  case Nil
  then show ?case by (subst check_parents_None) (simp add: path_dir_root)
next
  case (snoc p ps)
  have pd: "path_dir (abs_path (ps @ [p])) = abs_path ps"
    by (rule path_dir_abs_path) (rule snoc.prems)
  have ne: "abs_path ps \<noteq> abs_path (ps @ [p])"
    using snoc.prems abs_path_snoc_neq [of ps p] by auto
  have split: "(\<forall>n \<le> length (ps @ [p]). stable_dir fs (abs_path (take n (ps @ [p])))) \<longleftrightarrow>
      stable_dir fs (abs_path (ps @ [p])) \<and> (\<forall>n \<le> length ps. stable_dir fs (abs_path (take n ps)))"
    by (auto simp: le_Suc_eq)
  show ?case
    unfolding split by (subst check_parents_None) (use snoc ne in \<open>simp add: pd\<close>)
qed

section \<open>Peer credentials\<close>

record peer_info =
  pi_uid :: int
  pi_gid :: int
  pi_pid :: int
  pi_exe :: string
  pi_cwd :: string

record expected_peer =
  ep_uid :: int
  ep_gid :: int
  ep_pid :: int
  ep_exe :: string
  ep_cwd :: string

record process_identity =
  pr_uid :: int
  pr_gid :: int
  pr_pid :: int
  pr_parent_pid :: int
  pr_exe :: string
  pr_start_time :: go_time

definition strict_path :: "file_system \<Rightarrow> string \<Rightarrow> err + string" where
  "strict_path fs path =
     (case fs_abs fs path of Inl e \<Rightarrow> Inl e | Inr a \<Rightarrow> fs_eval_symlinks fs a)"

definition best_effort_path :: "file_system \<Rightarrow> string \<Rightarrow> string" where
  "best_effort_path fs path =
     (case fs_abs fs path of
        Inl e \<Rightarrow> path
      | Inr a \<Rightarrow> (case fs_eval_symlinks fs a of Inl e \<Rightarrow> a | Inr r \<Rightarrow> r))"

definition require_complete :: "peer_info \<Rightarrow> err option" where
  "require_complete i =
     (if pi_uid i < 0 \<or> pi_gid i < 0 \<or> pi_pid i \<le> 0 \<or> pi_exe i = '''' \<or> pi_cwd i = ''''
      then Some (Err (PeerErr ErrMissingMetadata)) else None)"

definition validate_peer :: "file_system \<Rightarrow> peer_info \<Rightarrow> expected_peer \<Rightarrow> err option" where
  "validate_peer fs info expected =
     or_else (require_complete info)
     (if pi_uid info \<noteq> ep_uid expected then Some (Err (PeerErr ErrPolicyMismatch))
      else if pi_gid info \<noteq> ep_gid expected then Some (Err (PeerErr ErrPolicyMismatch))
      else if pi_pid info \<noteq> ep_pid expected then Some (Err (PeerErr ErrPolicyMismatch))
      else
        (case strict_path fs (pi_exe info) of
           Inl e \<Rightarrow> Some (Wrap (PeerErr ErrPolicyMismatch) e)
         | Inr exe \<Rightarrow>
        (case strict_path fs (ep_exe expected) of
           Inl e \<Rightarrow> Some (Wrap (PeerErr ErrPolicyMismatch) e)
         | Inr want_exe \<Rightarrow>
        if exe \<noteq> want_exe then Some (Err (PeerErr ErrPolicyMismatch))
        else
        (case strict_path fs (pi_cwd info) of
           Inl e \<Rightarrow> Some (Wrap (PeerErr ErrPolicyMismatch) e)
         | Inr cwd \<Rightarrow>
        (case strict_path fs (ep_cwd expected) of
           Inl e \<Rightarrow> Some (Wrap (PeerErr ErrPolicyMismatch) e)
         | Inr want_cwd \<Rightarrow>
        if cwd \<noteq> want_cwd then Some (Err (PeerErr ErrPolicyMismatch)) else None)))))"

lemma validate_peer_None:
  assumes "validate_peer fs info expected = None"
  shows "require_complete info = None" "pi_uid info = ep_uid expected"
    "pi_gid info = ep_gid expected" "pi_pid info = ep_pid expected"
    "\<exists>p. strict_path fs (pi_exe info) = Inr p \<and> strict_path fs (ep_exe expected) = Inr p"
    "\<exists>p. strict_path fs (pi_cwd info) = Inr p \<and> strict_path fs (ep_cwd expected) = Inr p"
  using assms by (auto simp: validate_peer_def split: if_splits sum.splits)

section \<open>Random identifiers\<close>

text \<open>
  \<open>randid.Generate\<close>: sixteen bytes of the reader (an argument, since \<open>crypto/rand\<close> is the
  operating system's), in lower-case hexadecimal behind the prefix.
\<close>

type_synonym random_read = "err + 8 word list"

definition hex_digit :: "nat \<Rightarrow> char" where
  "hex_digit n = ''0123456789abcdef'' ! n"

definition hex_encode :: "8 word list \<Rightarrow> string" where
  "hex_encode bs =
     concat (map (\<lambda>b. [hex_digit (unat b div 16), hex_digit (unat b mod 16)]) bs)"

definition generate_id :: "random_read \<Rightarrow> string \<Rightarrow> err + string" where
  "generate_id r prefix =
     (case r of Inl e \<Rightarrow> Inl e | Inr data \<Rightarrow> Inr (prefix @ ''_'' @ hex_encode data))"

lemma hex_digit_is_hex: "n < 16 \<Longrightarrow> is_hex (hex_digit n)"
proof -
  assume "n < 16"
  then have "n \<in> {0,1,2,3,4,5,6,7,8,9,10,11,12,13,14,15}" by (auto simp: less_Suc_eq numeral_eq_Suc)
  then show ?thesis by (auto simp: hex_digit_def is_hex_def is_digit_def)
qed

lemma length_hex_encode: "length (hex_encode bs) = 2 * length bs"
  by (induction bs) (simp_all add: hex_encode_def)

lemma hex_encode_chars: "c \<in> set (hex_encode bs) \<Longrightarrow> is_hex c"
proof -
  assume "c \<in> set (hex_encode bs)"
  then obtain b :: "8 word" where "c = hex_digit (unat b div 16) \<or> c = hex_digit (unat b mod 16)"
    by (auto simp: hex_encode_def)
  moreover have "unat b div 16 < 16"
  proof -
    have "unat b < 256" using unsigned_less [of b, where ?'a = nat] by simp
    then show ?thesis by (simp add: less_mult_imp_div_less)
  qed
  ultimately show ?thesis using hex_digit_is_hex by auto
qed

lemma generate_id_not_empty: "generate_id r p = Inr i \<Longrightarrow> i \<noteq> []"
  by (auto simp: generate_id_def split: sum.splits)

end
