(* ===== verification/Request.thy ===== *)
theory Request
  imports Refs Identity
begin

text \<open>
  Exec requests: \<open>internal/request/request.go\<close>. The client builds a request with \<open>new_exec\<close>,
  the daemon stamps it with \<open>exec_with_receipt_time\<close> and checks it with \<open>validate_exec\<close>. The
  lemmas show what an accepted request satisfies and that a request the client built is only
  refused by the daemon for what the file system says.
\<close>

section \<open>Data\<close>

definition max_reason_length :: nat where "max_reason_length = 240"
definition default_exec_ttl :: duration where "default_exec_ttl = seconds 120"
definition min_request_ttl :: duration where "min_request_ttl = seconds 10"
definition max_request_ttl :: duration where "max_request_ttl = seconds 600"
definition default_reusable_uses :: int where "default_reusable_uses = 3"
definition max_reusable_uses :: int where "max_reusable_uses = 20"

lemmas request_limits = max_reason_length_def default_exec_ttl_def min_request_ttl_def
  max_request_ttl_def default_reusable_uses_def max_reusable_uses_def

record bitwarden_source =
  bw_alias :: string
  bw_token_alias :: string
  bw_api_url :: string
  bw_identity_url :: string

definition bitwarden_zero :: bitwarden_source where
  "bitwarden_zero = \<lparr>bw_alias = '''', bw_token_alias = '''', bw_api_url = '''', bw_identity_url = ''''\<rparr>"

record secret_spec =
  sp_alias :: string
  sp_ref :: string
  sp_account :: string
  sp_source :: string
  sp_bitwarden :: bitwarden_source

record secret_ref =
  rf_raw :: string
  rf_provider :: string
  rf_vault :: string
  rf_item :: string
  rf_section :: string
  rf_field :: string
  rf_source :: string
  rf_secret_id :: string

record secret =
  se_alias :: string
  se_ref :: secret_ref
  se_account :: string
  se_source :: string
  se_bitwarden :: bitwarden_source

record exec_options =
  eo_reason :: string
  eo_command :: "string list"
  eo_executable :: string
  eo_identity :: identity
  eo_allow_mutable :: bool
  eo_cwd :: string
  eo_env_fingerprint :: string
  eo_secrets :: "secret_spec list"
  eo_ttl :: duration
  eo_received_at :: go_time
  eo_reusable_uses :: int
  eo_override_env :: bool
  eo_overridden :: "string list"
  eo_force_refresh :: bool
  eo_reuse_only :: bool

record exec_request =
  er_reason :: string
  er_command :: "string list"
  er_executable :: string
  er_identity :: identity
  er_allow_mutable :: bool
  er_cwd :: string
  er_env_fingerprint :: string
  er_secrets :: "secret list"
  er_ttl :: duration
  er_received_at :: go_time
  er_expires_at :: go_time
  er_reusable_uses :: int
  er_override_env :: bool
  er_overridden :: "string list"
  er_force_refresh :: bool
  er_reuse_only :: bool

section \<open>Aliases, reasons, use counts\<close>

text \<open>\<open>aliasPattern\<close>.\<close>

definition alias_ok :: "string \<Rightarrow> bool" where
  "alias_ok s \<longleftrightarrow>
     (case s of [] \<Rightarrow> False
      | c # cs \<Rightarrow> (is_upper c \<or> c = CHR ''_'') \<and>
          list_all (\<lambda>x. is_upper x \<or> is_digit x \<or> x = CHR ''_'') cs)"

definition secret_aliases :: "secret list \<Rightarrow> string list" where
  "secret_aliases ss = sort (map se_alias ss)"

definition exec_expired :: "exec_request \<Rightarrow> go_time \<Rightarrow> bool" where
  "exec_expired r t \<longleftrightarrow> \<not> t < er_expires_at r"

definition exec_with_receipt_time :: "exec_request \<Rightarrow> go_time \<Rightarrow> exec_request" where
  "exec_with_receipt_time r t = r\<lparr>er_received_at := t, er_expires_at := t + er_ttl r\<rparr>"

definition reusable_uses_or_default :: "int \<Rightarrow> int" where
  "reusable_uses_or_default n = (if n = 0 then default_reusable_uses else n)"

definition validate_reason :: "string \<Rightarrow> err + string" where
  "validate_reason reason =
     (let t = trim_space reason
      in if t = '''' then Inl (Err (RequestErr ErrInvalidReason))
         else if max_reason_length < rune_count t then Inl (Err (RequestErr ErrInvalidReason))
         else Inr t)"

definition validate_reusable_uses :: "int \<Rightarrow> err option" where
  "validate_reusable_uses n =
     (let u = reusable_uses_or_default n
      in if u < 1 \<or> u > max_reusable_uses
         then Some (Err (RequestErr ErrInvalidReusableUses)) else None)"

section \<open>Paths and fingerprints\<close>

definition validate_prepared_path :: "string \<Rightarrow> bool \<Rightarrow> err option" where
  "validate_prepared_path path executable =
     (if path = '''' then Some (Err (RequestErr ErrInvalidRequest))
      else if \<not> is_abs path then Some (Err (RequestErr ErrInvalidRequest))
      else if path_clean path \<noteq> path then Some (Err (RequestErr ErrInvalidRequest))
      else if executable \<and> has_suffix path ''/'' then Some (Err (RequestErr ErrInvalidCommand))
      else None)"

definition validate_daemon_prepared_path :: "file_system \<Rightarrow> string \<Rightarrow> bool \<Rightarrow> err option" where
  "validate_daemon_prepared_path fs path executable =
     or_else (validate_prepared_path path executable)
     (case fs_eval_symlinks fs path of
        Inl e \<Rightarrow> Some (Wrap (RequestErr ErrInvalidRequest) e)
      | Inr resolved \<Rightarrow>
          if resolved \<noteq> path then Some (Err (RequestErr ErrInvalidRequest))
          else
            (case fs_stat fs path of
               Inl e \<Rightarrow> Some (Wrap (RequestErr ErrInvalidRequest) e)
             | Inr info \<Rightarrow>
                 if executable then
                   (if fi_is_dir info then Some (Err (RequestErr ErrInvalidCommand))
                    else if \<not> any_exec info then Some (Err (RequestErr ErrInvalidCommand))
                    else None)
                 else if \<not> fi_is_dir info then Some (Err (RequestErr ErrInvalidRequest))
                 else None))"

text \<open>
  \<open>hex.DecodeString\<close> succeeds on an even number of hexadecimal digits, and the digest is 32
  bytes, so the test is for exactly 64 of them.
\<close>

definition validate_environment_fingerprint :: "string \<Rightarrow> err option" where
  "validate_environment_fingerprint v =
     (if \<not> has_prefix v ''env-v1:'' then Some (Err (RequestErr ErrInvalidRequest))
      else if hexes 64 (trim_prefix v ''env-v1:'') then None
      else Some (Err (RequestErr ErrInvalidRequest)))"

text \<open>\<open>canonicalEnv\<close>: later entries win, keys sorted, malformed entries last.\<close>

fun env_values :: "string list \<Rightarrow> (string \<rightharpoonup> string) \<Rightarrow> (string \<rightharpoonup> string)" where
  "env_values [] m = m"
| "env_values (e # es) m =
     (case cut_byte (CHR ''='') e of
        None \<Rightarrow> env_values es m
      | Some (k, v) \<Rightarrow> env_values es (m(k \<mapsto> v)))"

fun env_keys :: "string list \<Rightarrow> string list" where
  "env_keys [] = []"
| "env_keys (e # es) =
     (case cut_byte (CHR ''='') e of None \<Rightarrow> env_keys es | Some (k, v) \<Rightarrow> k # env_keys es)"

fun env_malformed :: "string list \<Rightarrow> string list" where
  "env_malformed [] = []"
| "env_malformed (e # es) =
     (case cut_byte (CHR ''='') e of None \<Rightarrow> e # env_malformed es | Some _ \<Rightarrow> env_malformed es)"

definition canonical_env :: "string list \<Rightarrow> string list" where
  "canonical_env env =
     (let m = env_values env Map.empty
      in map (\<lambda>k. k @ ''='' @ (case m k of Some v \<Rightarrow> v | None \<Rightarrow> '''')) (sort (remdups (env_keys env)))
         @ map (\<lambda>e. ''malformed:'' @ e) (sort (env_malformed env)))"

text \<open>\<open>sha256\<close> is an argument: the digest of the bytes written to it.\<close>

definition environment_fingerprint :: "(string \<Rightarrow> 8 word list) \<Rightarrow> string list \<Rightarrow> string" where
  "environment_fingerprint sha256 env =
     ''env-v1:'' @ hex_encode (sha256 (concat (map (\<lambda>e. e @ [CHR 0x00]) (canonical_env env))))"

section \<open>Secrets\<close>

definition parse_secret_ref :: "string \<Rightarrow> err + secret_ref" where
  "parse_secret_ref ref =
     (case parse_reference ref of
        Inl e \<Rightarrow> Inl (Wrap (RequestErr ErrInvalidReference) e)
      | Inr p \<Rightarrow> Inr \<lparr>rf_raw = sref_raw p, rf_provider = sref_provider p, rf_vault = sref_vault p,
          rf_item = sref_item p, rf_section = sref_section p, rf_field = sref_field p,
          rf_source = sref_source p, rf_secret_id = sref_secret_id p\<rparr>)"

text \<open>
  \<open>normalizeBitwardenSecretSource\<close>: first the source that the reference and the caller agree
  on, then the one the metadata agrees on, then the normal forms of alias and token alias.
\<close>

definition agreed_source :: "secret_ref \<Rightarrow> string \<Rightarrow> err + string" where
  "agreed_source ref source =
     (if rf_source ref \<noteq> '''' then
        (if source \<noteq> '''' \<and> source \<noteq> rf_source ref then Inl (Err (RequestErr ErrInvalidReference))
         else Inr (rf_source ref))
      else Inr source)"

definition metadata_source :: "string \<Rightarrow> bitwarden_source \<Rightarrow> err + string" where
  "metadata_source source metadata =
     (if bw_alias metadata \<noteq> '''' then
        (case normalize_source_alias (bw_alias metadata) of
           Inl e \<Rightarrow> Inl e
         | Inr a \<Rightarrow>
             if source \<noteq> '''' \<and> a \<noteq> source then Inl (Err (RequestErr ErrInvalidReference))
             else Inr a)
      else Inr source)"

definition normalize_bitwarden_secret_source ::
  "secret_ref \<Rightarrow> string \<Rightarrow> bitwarden_source \<Rightarrow> err + bitwarden_source" where
  "normalize_bitwarden_secret_source ref source metadata =
     (case agreed_source ref source of Inl e \<Rightarrow> Inl e | Inr source1 \<Rightarrow>
     (case metadata_source source1 metadata of Inl e \<Rightarrow> Inl e | Inr source2 \<Rightarrow>
      if source2 = '''' then Inl (Err (RequestErr ErrInvalidReference))
      else
     (case normalize_source_alias source2 of Inl e \<Rightarrow> Inl e | Inr a \<Rightarrow>
      let token = trim_space (bw_token_alias metadata)
      in
     (case normalize_source_alias (if token = '''' then a else token) of
        Inl e \<Rightarrow> Inl (Wrap (RequestErr ErrInvalidReference) e)
      | Inr token_alias \<Rightarrow>
          if trim_space (bw_api_url metadata) \<noteq> '''' \<or> trim_space (bw_identity_url metadata) \<noteq> ''''
          then Inl (Err (RequestErr ErrInvalidReference))
          else Inr \<lparr>bw_alias = a, bw_token_alias = token_alias, bw_api_url = '''',
                    bw_identity_url = ''''\<rparr>))))"

text \<open>One round of the loop of \<open>ParseSecrets\<close> after the alias checks.\<close>

definition parse_spec :: "secret_spec \<Rightarrow> err + secret" where
  "parse_spec spec =
     (case parse_secret_ref (sp_ref spec) of Inl e \<Rightarrow> Inl e | Inr ref \<Rightarrow>
      let account = trim_space (sp_account spec); source = trim_space (sp_source spec)
      in if rf_provider ref = provider_onepassword then
           (if account = '''' then Inl (Err (RequestErr ErrInvalidReference))
            else if source \<noteq> '''' then Inl (Err (RequestErr ErrInvalidReference))
            else if sp_bitwarden spec \<noteq> bitwarden_zero then Inl (Err (RequestErr ErrInvalidReference))
            else Inr \<lparr>se_alias = sp_alias spec, se_ref = ref, se_account = account,
                      se_source = source, se_bitwarden = sp_bitwarden spec\<rparr>)
         else if rf_provider ref = provider_bitwarden then
           (case normalize_bitwarden_secret_source ref source (sp_bitwarden spec) of
              Inl e \<Rightarrow> Inl e
            | Inr normalized \<Rightarrow>
                if account \<noteq> '''' then Inl (Err (RequestErr ErrInvalidReference))
                else Inr \<lparr>se_alias = sp_alias spec, se_ref = ref, se_account = account,
                          se_source = bw_alias normalized, se_bitwarden = normalized\<rparr>)
         else Inl (Err (RequestErr ErrInvalidReference)))"

fun parse_specs :: "string list \<Rightarrow> secret_spec list \<Rightarrow> err + secret list" where
  "parse_specs seen [] = Inr []"
| "parse_specs seen (spec # specs) =
     (if \<not> alias_ok (sp_alias spec) then Inl (Err (RequestErr ErrInvalidAlias))
      else if sp_alias spec \<in> set seen then Inl (Err (RequestErr ErrInvalidAlias))
      else
        (case parse_spec spec of Inl e \<Rightarrow> Inl e | Inr s \<Rightarrow>
        (case parse_specs (sp_alias spec # seen) specs of Inl e \<Rightarrow> Inl e | Inr ss \<Rightarrow> Inr (s # ss))))"

definition parse_secrets :: "secret_spec list \<Rightarrow> err + secret list" where
  "parse_secrets specs =
     (if specs = [] then Inl (Err (RequestErr ErrInvalidReference)) else parse_specs [] specs)"

definition spec_of_secret :: "secret \<Rightarrow> secret_spec" where
  "spec_of_secret s = \<lparr>sp_alias = se_alias s, sp_ref = rf_raw (se_ref s), sp_account = se_account s,
     sp_source = se_source s, sp_bitwarden = se_bitwarden s\<rparr>"

definition check_secret_metadata :: "secret \<Rightarrow> err option" where
  "check_secret_metadata s =
     (if trim_space (se_account s) \<noteq> se_account s then Some (Err (RequestErr ErrInvalidReference))
      else if trim_space (se_source s) \<noteq> se_source s then Some (Err (RequestErr ErrInvalidReference))
      else
        (case parse_secret_ref (rf_raw (se_ref s)) of
           Inl e \<Rightarrow> Some e
         | Inr parsed \<Rightarrow>
             if parsed \<noteq> se_ref s then Some (Err (RequestErr ErrInvalidReference)) else None))"

fun check_secrets_metadata :: "secret list \<Rightarrow> err option" where
  "check_secrets_metadata [] = None"
| "check_secrets_metadata (s # ss) =
     or_else (check_secret_metadata s) (check_secrets_metadata ss)"

definition validate_daemon_secrets :: "secret list \<Rightarrow> err option" where
  "validate_daemon_secrets ss =
     or_else (check_secrets_metadata ss)
     (case parse_secrets (map spec_of_secret ss) of
        Inl e \<Rightarrow> Some e
      | Inr parsed \<Rightarrow>
          if length parsed \<noteq> length ss then Some (Err (RequestErr ErrInvalidReference))
          else if parsed \<noteq> ss then Some (Err (RequestErr ErrInvalidReference))
          else None)"

fun check_overridden :: "string list \<Rightarrow> string list \<Rightarrow> string list \<Rightarrow> err option" where
  "check_overridden known seen [] = None"
| "check_overridden known seen (a # as) =
     (if \<not> alias_ok a then Some (Err (RequestErr ErrInvalidAlias))
      else if a \<in> set seen then Some (Err (RequestErr ErrInvalidAlias))
      else if a \<notin> set known then Some (Err (RequestErr ErrInvalidAlias))
      else check_overridden known (a # seen) as)"

definition validate_overridden_aliases :: "secret list \<Rightarrow> string list \<Rightarrow> bool \<Rightarrow> err option" where
  "validate_overridden_aliases ss aliases override =
     (if aliases = [] then None
      else if \<not> override then Some (Err (RequestErr ErrInvalidAlias))
      else if \<not> sorted aliases then Some (Err (RequestErr ErrInvalidAlias))
      else check_overridden (map se_alias ss) [] aliases)"

section \<open>Building and checking an exec request\<close>

record daemon_lifecycle =
  lc_reason :: string
  lc_command :: "string list"
  lc_cwd :: string
  lc_executable :: string
  lc_ttl :: duration
  lc_received_at :: go_time
  lc_expires_at :: go_time

definition validate_ttl :: "duration \<Rightarrow> err option" where
  "validate_ttl ttl =
     (if ttl < min_request_ttl \<or> ttl > max_request_ttl then Some (Err (RequestErr ErrInvalidTTL)) else None)"

definition validate_command :: "string list \<Rightarrow> err option" where
  "validate_command command =
     (if command = [] \<or> hd command = '''' then Some (Err (RequestErr ErrInvalidCommand)) else None)"

definition validate_daemon_lifecycle :: "daemon_lifecycle \<Rightarrow> err option" where
  "validate_daemon_lifecycle lc =
     (case validate_reason (lc_reason lc) of Inl e \<Rightarrow> Some e | Inr reason \<Rightarrow>
      if reason \<noteq> lc_reason lc then Some (Err (RequestErr ErrInvalidReason))
      else or_else (validate_ttl (lc_ttl lc))
      (if lc_received_at lc = zero_time \<or> lc_expires_at lc = zero_time
       then Some (Err (RequestErr ErrInvalidRequest))
       else if lc_expires_at lc \<noteq> lc_received_at lc + lc_ttl lc
       then Some (Err (RequestErr ErrInvalidTTL))
       else or_else (validate_prepared_path (lc_cwd lc) False)
        (or_else (validate_prepared_path (lc_executable lc) True)
          (validate_command (lc_command lc)))))"

definition require_identity :: "identity \<Rightarrow> err option" where
  "require_identity i =
     (if identity_is_zero i then Some (Err (RequestErr ErrInvalidRequest)) else None)"

definition check_identity :: "file_system \<Rightarrow> string \<Rightarrow> identity \<Rightarrow> err option" where
  "check_identity fs path i =
     map_option (Wrap (RequestErr ErrInvalidRequest)) (verify_identity fs path i)"

definition check_stable :: "file_system \<Rightarrow> bool \<Rightarrow> string \<Rightarrow> err option" where
  "check_stable fs allow_mutable path =
     (if allow_mutable then None
      else map_option (Wrap (RequestErr ErrInvalidRequest)) (validate_stable_executable fs path))"

definition lifecycle_of_exec :: "exec_request \<Rightarrow> daemon_lifecycle" where
  "lifecycle_of_exec r = \<lparr>lc_reason = er_reason r, lc_command = er_command r, lc_cwd = er_cwd r,
     lc_executable = er_executable r, lc_ttl = er_ttl r, lc_received_at = er_received_at r,
     lc_expires_at = er_expires_at r\<rparr>"

text \<open>\<open>ExecRequest.ValidateForDaemon\<close>.\<close>

definition validate_exec :: "file_system \<Rightarrow> exec_request \<Rightarrow> err option" where
  "validate_exec fs r =
     or_else (validate_reusable_uses (er_reusable_uses r))
     (or_else (require_identity (er_identity r))
     (or_else (validate_environment_fingerprint (er_env_fingerprint r))
     (or_else (validate_daemon_prepared_path fs (er_cwd r) False)
     (or_else (validate_daemon_prepared_path fs (er_executable r) True)
     (or_else (check_identity fs (er_executable r) (er_identity r))
     (or_else (check_stable fs (er_allow_mutable r) (er_executable r))
     (or_else (validate_daemon_lifecycle (lifecycle_of_exec r))
     (or_else (validate_daemon_secrets (er_secrets r))
     (validate_overridden_aliases (er_secrets r) (er_overridden r) (er_override_env r))))))))))"

text \<open>\<open>NewExec\<close>.\<close>

definition new_exec :: "exec_options \<Rightarrow> err + exec_request" where
  "new_exec opts =
     (case validate_reason (eo_reason opts) of Inl e \<Rightarrow> Inl e | Inr reason \<Rightarrow>
      let uses = reusable_uses_or_default (eo_reusable_uses opts)
      in
     (case validate_reusable_uses uses of Some e \<Rightarrow> Inl e | None \<Rightarrow>
      let ttl = (if eo_ttl opts = 0 then default_exec_ttl else eo_ttl opts)
      in
     (case validate_ttl ttl of Some e \<Rightarrow> Inl e | None \<Rightarrow>
      let expires = (if eo_received_at opts \<noteq> zero_time then eo_received_at opts + ttl else zero_time)
      in
     (case or_else (validate_command (eo_command opts))
          (or_else (validate_prepared_path (eo_cwd opts) False)
          (or_else (validate_prepared_path (eo_executable opts) True)
          (or_else (require_identity (eo_identity opts))
            (validate_environment_fingerprint (eo_env_fingerprint opts))))) of
        Some e \<Rightarrow> Inl e
      | None \<Rightarrow>
     (case parse_secrets (eo_secrets opts) of Inl e \<Rightarrow> Inl e | Inr ss \<Rightarrow>
     (case validate_overridden_aliases ss (eo_overridden opts) (eo_override_env opts) of
        Some e \<Rightarrow> Inl e
      | None \<Rightarrow>
          Inr \<lparr>er_reason = reason, er_command = eo_command opts,
               er_executable = eo_executable opts, er_identity = eo_identity opts,
               er_allow_mutable = eo_allow_mutable opts, er_cwd = eo_cwd opts,
               er_env_fingerprint = eo_env_fingerprint opts, er_secrets = ss, er_ttl = ttl,
               er_received_at = eo_received_at opts, er_expires_at = expires,
               er_reusable_uses = uses, er_override_env = eo_override_env opts,
               er_overridden = eo_overridden opts, er_force_refresh = eo_force_refresh opts,
               er_reuse_only = eo_reuse_only opts\<rparr>))))))"

section \<open>What parsing returns\<close>

lemma parse_secret_ref_canonical:
  "parse_secret_ref x = Inr r \<Longrightarrow> parse_secret_ref (rf_raw r) = Inr r"
  by (auto simp: parse_secret_ref_def parse_reference_canonical_lemma split: sum.splits)

lemma parse_secret_ref_source:
  assumes "parse_secret_ref x = Inr r" "rf_source r \<noteq> ''''"
  shows "valid_source_alias (rf_source r)"
proof -
  from assms(1) obtain p where p: "parse_reference x = Inr p" and r: "rf_source r = sref_source p"
    by (auto simp: parse_secret_ref_def split: sum.splits)
  show ?thesis
  proof (cases "has_prefix x ''op://''")
    case True
    with p r assms(2) show ?thesis
      by (auto simp: parse_reference_def parse_onepassword_def split: sum.splits)
  next
    case False
    with p have "parse_bitwarden x = Inr p" by (simp add: parse_reference_def split: if_splits)
    then show ?thesis
      by (rule parse_bitwarden_Inr_cases) (use r assms(2) in \<open>auto simp: bitwarden_ref_def\<close>)
  qed
qed

lemma valid_source_alias_trim: "valid_source_alias a \<Longrightarrow> trim_space a = a \<and> a \<noteq> []"
  using valid_source_alias_chars [of a] by (simp add: trim_space_graphic)

lemma agreed_source_Inr:
  "agreed_source ref source = Inr s \<Longrightarrow> rf_source ref \<noteq> '''' \<Longrightarrow> s = rf_source ref"
  by (auto simp: agreed_source_def split: if_splits)

lemma metadata_source_Inr:
  "metadata_source s m = Inr t \<Longrightarrow> s \<noteq> '''' \<Longrightarrow> t = s"
  by (auto simp: metadata_source_def split: if_splits sum.splits)

lemma normalize_bitwarden_Inr:
  assumes "normalize_bitwarden_secret_source ref source m = Inr n"
    and "rf_source ref \<noteq> '''' \<Longrightarrow> valid_source_alias (rf_source ref)"
  shows "valid_source_alias (bw_alias n)" "valid_source_alias (bw_token_alias n)"
    "bw_api_url n = ''''" "bw_identity_url n = ''''"
    "rf_source ref \<noteq> '''' \<longrightarrow> bw_alias n = rf_source ref"
proof -
  from assms(1) obtain s1 s2 a t where s1: "agreed_source ref source = Inr s1"
    and s2: "metadata_source s1 m = Inr s2" and a: "normalize_source_alias s2 = Inr a"
    and t: "normalize_source_alias (if trim_space (bw_token_alias m) = '''' then a
                else trim_space (bw_token_alias m)) = Inr t"
    and n: "n = \<lparr>bw_alias = a, bw_token_alias = t, bw_api_url = '''', bw_identity_url = ''''\<rparr>"
    by (auto simp: normalize_bitwarden_secret_source_def Let_def split: sum.splits if_splits)
  show "valid_source_alias (bw_alias n)" "valid_source_alias (bw_token_alias n)"
    "bw_api_url n = ''''" "bw_identity_url n = ''''"
    using normalize_source_alias_Inr [OF a, THEN conjunct1]
      normalize_source_alias_Inr [OF t, THEN conjunct1] by (simp_all add: n)
  show "rf_source ref \<noteq> '''' \<longrightarrow> bw_alias n = rf_source ref"
  proof
    assume ne: "rf_source ref \<noteq> ''''"
    then have "s2 = rf_source ref"
      using agreed_source_Inr [OF s1 ne] metadata_source_Inr [OF s2] by simp
    then show "bw_alias n = rf_source ref"
      using normalize_source_alias_fix [OF assms(2) [OF ne]] a by (simp add: n)
  qed
qed

lemma normalize_bitwarden_fix:
  assumes "valid_source_alias a" "valid_source_alias t" "rf_source ref = '''' \<or> rf_source ref = a"
  shows "normalize_bitwarden_secret_source ref a
      \<lparr>bw_alias = a, bw_token_alias = t, bw_api_url = '''', bw_identity_url = ''''\<rparr> =
    Inr \<lparr>bw_alias = a, bw_token_alias = t, bw_api_url = '''', bw_identity_url = ''''\<rparr>"
  using assms valid_source_alias_trim [OF assms(1)] valid_source_alias_trim [OF assms(2)]
    normalize_source_alias_fix [OF assms(1)] normalize_source_alias_fix [OF assms(2)]
  by (auto simp: normalize_bitwarden_secret_source_def agreed_source_def metadata_source_def)

lemma parse_spec_alias: "parse_spec sp = Inr s \<Longrightarrow> se_alias s = sp_alias sp"
  by (auto simp: parse_spec_def Let_def split: sum.splits if_splits)

lemma provider_distinct [simp]: "provider_bitwarden \<noteq> provider_onepassword"
  by (simp add: provider_bitwarden_def provider_onepassword_def)

lemma parse_spec_stable:
  assumes "parse_spec sp = Inr s"
  shows "check_secret_metadata s = None \<and> parse_spec (spec_of_secret s) = Inr s"
proof -
  from assms obtain ref where ref: "parse_secret_ref (sp_ref sp) = Inr ref" and se: "se_ref s = ref"
    by (auto simp: parse_spec_def Let_def split: sum.splits if_splits)
  note canon = parse_secret_ref_canonical [OF ref]
  show ?thesis
  proof (cases "rf_provider ref = provider_onepassword")
    case True
    with assms ref have s: "s = \<lparr>se_alias = sp_alias sp, se_ref = ref,
        se_account = trim_space (sp_account sp), se_source = '''', se_bitwarden = bitwarden_zero\<rparr>"
      and a: "trim_space (sp_account sp) \<noteq> ''''"
      by (auto simp: parse_spec_def Let_def split: if_splits)
    show ?thesis
      using a canon True by (simp add: s check_secret_metadata_def parse_spec_def spec_of_secret_def)
  next
    case False
    with assms ref obtain n where bw: "rf_provider ref = provider_bitwarden"
      and n: "normalize_bitwarden_secret_source ref (trim_space (sp_source sp)) (sp_bitwarden sp) = Inr n"
      and s: "s = \<lparr>se_alias = sp_alias sp, se_ref = ref, se_account = '''',
                  se_source = bw_alias n, se_bitwarden = n\<rparr>"
      by (auto simp: parse_spec_def Let_def split: if_splits sum.splits)
    note N = normalize_bitwarden_Inr [OF n parse_secret_ref_source [OF ref]]
    have n': "n = \<lparr>bw_alias = bw_alias n, bw_token_alias = bw_token_alias n, bw_api_url = '''',
        bw_identity_url = ''''\<rparr>"
      using N(3,4) by simp
    have fix_n: "normalize_bitwarden_secret_source ref (bw_alias n) n = Inr n"
      using normalize_bitwarden_fix [OF N(1,2), of ref] N(5) n' by auto
    show ?thesis
      using canon bw fix_n valid_source_alias_trim [OF N(1)]
      by (simp add: s check_secret_metadata_def parse_spec_def spec_of_secret_def)
  qed
qed

lemma parse_specs_Inr:
  assumes "parse_specs seen specs = Inr ss"
  shows "parse_specs seen (map spec_of_secret ss) = Inr ss \<and> check_secrets_metadata ss = None \<and>
    map se_alias ss = map sp_alias specs \<and> distinct (map se_alias ss) \<and>
    set (map se_alias ss) \<inter> set seen = {} \<and> (\<forall>s \<in> set ss. alias_ok (se_alias s))"
  using assms
proof (induction specs arbitrary: seen ss)
  case Nil
  then show ?case by simp
next
  case (Cons sp specs)
  from Cons.prems obtain s rest where s: "parse_spec sp = Inr s"
    and rest: "parse_specs (sp_alias sp # seen) specs = Inr rest" and ss: "ss = s # rest"
    and ok: "alias_ok (sp_alias sp)" "sp_alias sp \<notin> set seen"
    by (auto split: if_splits sum.splits)
  have a: "sp_alias (spec_of_secret s) = sp_alias sp" "se_alias s = sp_alias sp"
    using parse_spec_alias [OF s] by (simp_all add: spec_of_secret_def)
  note IH = Cons.IH [OF rest]
  then have "se_alias ` set rest = sp_alias ` set specs" by (metis set_map)
  with IH show ?case
    using parse_spec_stable [OF s] ok a by (clarsimp simp: ss)
qed

text \<open>
  The daemon accepts exactly the secret lists that \<open>ParseSecrets\<close> returns.
\<close>

lemma validate_daemon_secrets_iff:
  "validate_daemon_secrets ss = None \<longleftrightarrow> (\<exists>specs. parse_secrets specs = Inr ss)"
proof
  assume "validate_daemon_secrets ss = None"
  then have "parse_secrets (map spec_of_secret ss) = Inr ss"
    by (auto simp: validate_daemon_secrets_def split: sum.splits if_splits)
  then show "\<exists>specs. parse_secrets specs = Inr ss" ..
next
  assume "\<exists>specs. parse_secrets specs = Inr ss"
  then obtain specs where ne: "specs \<noteq> []" and p: "parse_specs [] specs = Inr ss"
    by (auto simp: parse_secrets_def split: if_splits)
  from parse_specs_Inr [OF p] ne have "ss \<noteq> []" by auto
  with parse_specs_Inr [OF p] show "validate_daemon_secrets ss = None"
    by (simp add: validate_daemon_secrets_def parse_secrets_def)
qed

lemma validate_daemon_secrets_aliases:
  assumes "validate_daemon_secrets ss = None"
  shows "ss \<noteq> [] \<and> distinct (map se_alias ss) \<and> (\<forall>s \<in> set ss. alias_ok (se_alias s))"
proof -
  from assms validate_daemon_secrets_iff obtain specs
    where ne: "specs \<noteq> []" and p: "parse_specs [] specs = Inr ss"
    by (auto simp: parse_secrets_def split: if_splits)
  from parse_specs_Inr [OF p] ne show ?thesis by auto
qed

lemma check_overridden_None:
  "check_overridden known seen as = None \<longleftrightarrow>
     distinct as \<and> set as \<inter> set seen = {} \<and> set as \<subseteq> set known \<and> (\<forall>a \<in> set as. alias_ok a)"
  by (induction as arbitrary: seen) auto

lemma validate_overridden_None:
  "validate_overridden_aliases ss as ov = None \<longleftrightarrow>
     as = [] \<or> (ov \<and> sorted as \<and> distinct as \<and> set as \<subseteq> se_alias ` set ss \<and> (\<forall>a \<in> set as. alias_ok a))"
  by (auto simp: validate_overridden_aliases_def check_overridden_None)

section \<open>Reasons, use counts, lifecycle\<close>

lemma validate_reason_Inr:
  "validate_reason r = Inr t \<Longrightarrow>
     t = trim_space r \<and> t \<noteq> [] \<and> rune_count t \<le> max_reason_length \<and> validate_reason t = Inr t"
  by (auto simp: validate_reason_def Let_def split: if_splits)

lemma reusable_uses_or_default_idem [simp]:
  "reusable_uses_or_default (reusable_uses_or_default n) = reusable_uses_or_default n"
  by (simp add: reusable_uses_or_default_def)

lemma validate_reusable_uses_None:
  "validate_reusable_uses n = None \<longleftrightarrow>
     1 \<le> reusable_uses_or_default n \<and> reusable_uses_or_default n \<le> max_reusable_uses"
  by (auto simp: validate_reusable_uses_def Let_def)

lemma validate_ttl_None:
  "validate_ttl d = None \<longleftrightarrow> min_request_ttl \<le> d \<and> d \<le> max_request_ttl"
  by (auto simp: validate_ttl_def)

lemma validate_command_None: "validate_command c = None \<longleftrightarrow> c \<noteq> [] \<and> hd c \<noteq> ''''"
  by (simp add: validate_command_def)

lemma validate_prepared_path_None:
  "validate_prepared_path p x = None \<Longrightarrow> is_abs p \<and> path_clean p = p"
  by (auto simp: validate_prepared_path_def split: if_splits)

text \<open>What the daemon asks the file system about a path that is already in normal form.\<close>

definition path_on_disk :: "file_system \<Rightarrow> string \<Rightarrow> bool \<Rightarrow> bool" where
  "path_on_disk fs path executable \<longleftrightarrow>
     fs_eval_symlinks fs path = Inr path \<and>
     (\<exists>info. fs_stat fs path = Inr info \<and>
        (if executable then \<not> fi_is_dir info \<and> any_exec info else fi_is_dir info))"

lemma validate_daemon_prepared_path_None:
  "validate_daemon_prepared_path fs p x = None \<longleftrightarrow>
     validate_prepared_path p x = None \<and> path_on_disk fs p x"
  by (auto simp: validate_daemon_prepared_path_def path_on_disk_def split: sum.splits if_splits)

lemma validate_daemon_lifecycle_None:
  "validate_daemon_lifecycle lc = None \<longleftrightarrow>
     validate_reason (lc_reason lc) = Inr (lc_reason lc) \<and> validate_ttl (lc_ttl lc) = None \<and>
     lc_received_at lc \<noteq> zero_time \<and> lc_expires_at lc \<noteq> zero_time \<and>
     lc_expires_at lc = lc_received_at lc + lc_ttl lc \<and>
     validate_prepared_path (lc_cwd lc) False = None \<and>
     validate_prepared_path (lc_executable lc) True = None \<and>
     validate_command (lc_command lc) = None"
  by (auto simp: validate_daemon_lifecycle_def split: sum.splits if_splits)

lemma check_identity_None:
  "check_identity fs p i = None \<longleftrightarrow> \<not> identity_is_zero i \<and> capture fs p = Inr i"
  by (simp add: check_identity_def verify_identity_None_iff)

lemma check_stable_None:
  "check_stable fs a p = None \<longleftrightarrow> a \<or> validate_stable_executable fs p = None"
  by (simp add: check_stable_def)

lemma require_identity_None: "require_identity i = None \<longleftrightarrow> \<not> identity_is_zero i"
  by (simp add: require_identity_def)

lemmas validate_None = validate_reusable_uses_None validate_ttl_None validate_command_None
  validate_daemon_prepared_path_None validate_daemon_lifecycle_None check_identity_None
  check_stable_None require_identity_None validate_overridden_None

lemma new_exec_Inr:
  assumes "new_exec opts = Inr r"
  shows "validate_reason (er_reason r) = Inr (er_reason r)"
    "validate_reusable_uses (er_reusable_uses r) = None"
    "validate_ttl (er_ttl r) = None" "validate_command (er_command r) = None"
    "validate_prepared_path (er_cwd r) False = None"
    "validate_prepared_path (er_executable r) True = None" "require_identity (er_identity r) = None"
    "validate_environment_fingerprint (er_env_fingerprint r) = None"
    "validate_daemon_secrets (er_secrets r) = None"
    "validate_overridden_aliases (er_secrets r) (er_overridden r) (er_override_env r) = None"
    "er_executable r = eo_executable opts" "er_identity r = eo_identity opts"
    "er_cwd r = eo_cwd opts" "er_allow_mutable r = eo_allow_mutable opts"
  using assms validate_daemon_secrets_iff
  by (auto simp: new_exec_def Let_def validate_reusable_uses_None
      dest: validate_reason_Inr split: sum.splits option.splits)

section \<open>The environment fingerprint\<close>

text \<open>The well-formed entries of an environment, in order.\<close>

fun env_pairs :: "string list \<Rightarrow> (string \<times> string) list" where
  "env_pairs [] = []"
| "env_pairs (e # es) =
     (case cut_byte (CHR ''='') e of None \<Rightarrow> env_pairs es | Some kv \<Rightarrow> kv # env_pairs es)"

lemma env_keys_pairs: "env_keys env = map fst (env_pairs env)"
  by (induction env) (auto split: option.splits)

lemma env_values_pairs: "env_values env m = m ++ map_of (rev (env_pairs env))"
  by (induction env arbitrary: m) (auto split: option.splits)

lemma env_pairs_perm: "mset env = mset env' \<Longrightarrow> mset (env_pairs env) = mset (env_pairs env')"
proof -
  have "env_pairs e = map the (filter (\<lambda>x. x \<noteq> None) (map (cut_byte (CHR ''='')) e))" for e
    by (induction e) (auto split: option.splits)
  then show "mset env = mset env' \<Longrightarrow> ?thesis" by simp
qed

lemma env_malformed_perm:
  "mset env = mset env' \<Longrightarrow> mset (env_malformed env) = mset (env_malformed env')"
proof -
  have "env_malformed e = filter (\<lambda>x. cut_byte (CHR ''='') x = None) e" for e
    by (induction e) (auto split: option.splits)
  then show "mset env = mset env' \<Longrightarrow> ?thesis" by simp
qed

lemma sort_perm_eq:
  fixes xs :: "'a::linorder list"
  shows "mset xs = mset ys \<Longrightarrow> sort xs = sort ys"
  using sort_key_perm_eq [of "\<lambda>x. x" xs ys] by (simp add: inj_on_def)

lemma canonical_env_perm:
  assumes "mset env = mset env'" "distinct (env_keys env)"
  shows "canonical_env env = canonical_env env'"
proof -
  note pairs = env_pairs_perm [OF assms(1)]
  have keys: "mset (env_keys env) = mset (env_keys env')"
    using pairs by (metis env_keys_pairs mset_map)
  have d: "distinct (map fst (env_pairs env))" "distinct (map fst (env_pairs env'))"
    using assms(2) keys mset_eq_imp_distinct_iff by (metis env_keys_pairs)+
  have "map_of (rev (env_pairs env)) = map_of (rev (env_pairs env'))"
    using d mset_eq_setD [OF pairs] by (subst map_of_inject_set) (simp_all add: rev_map [symmetric])
  moreover have "sort (remdups (env_keys env)) = sort (remdups (env_keys env'))"
    using d sort_perm_eq [OF keys] by (simp add: env_keys_pairs distinct_remdups_id)
  moreover have "sort (env_malformed env) = sort (env_malformed env')"
    by (rule sort_perm_eq [OF env_malformed_perm [OF assms(1)]])
  ultimately show ?thesis by (simp add: canonical_env_def env_values_pairs)
qed

section \<open>Requests of the client\<close>

lemma new_exec_accepted:
  assumes "new_exec opts = Inr r" "0 < t"
  shows "validate_exec fs (exec_with_receipt_time r t) = None \<longleftrightarrow>
    path_on_disk fs (eo_cwd opts) False \<and> path_on_disk fs (eo_executable opts) True \<and>
    capture fs (eo_executable opts) = Inr (eo_identity opts) \<and>
    (eo_allow_mutable opts \<or> validate_stable_executable fs (eo_executable opts) = None)"
proof -
  note N = new_exec_Inr [OF assms(1)]
  have ttl: "0 < er_ttl r" using N(3) by (simp add: validate_ttl_None request_limits)
  have "validate_daemon_lifecycle (lifecycle_of_exec (exec_with_receipt_time r t)) = None"
    using N(1,3-6) ttl assms(2)
    by (simp add: validate_daemon_lifecycle_None lifecycle_of_exec_def exec_with_receipt_time_def)
  moreover have "\<not> identity_is_zero (er_identity r)" using N(7) by (simp add: require_identity_None)
  ultimately show ?thesis
    using N(2,5-14)
    by (simp add: validate_exec_def exec_with_receipt_time_def validate_daemon_prepared_path_None
        check_identity_None check_stable_None)
qed

end
