(* ===== verification/SessionRequest.thy ===== *)
theory SessionRequest
  imports Request
begin

text \<open>
  Session and item requests: \<open>internal/request/session.go\<close> and
  \<open>internal/request/item_describe.go\<close>. The lemmas show that normal forms are stable, that the
  identifiers the session store generates pass the validators, and what an accepted request
  satisfies.
\<close>

section \<open>Data\<close>

definition default_session_ttl :: duration where "default_session_ttl = seconds 120"
definition default_session_max_reads :: int where "default_session_max_reads = 1"
definition max_session_reads :: int where "max_session_reads = 100"
definition max_session_bind_ancestor :: int where "max_session_bind_ancestor = 3"
definition max_session_bind_names :: nat where "max_session_bind_names = 16"
definition max_session_bind_name_len :: nat where "max_session_bind_name_len = 128"
definition default_item_describe_ttl :: duration where "default_item_describe_ttl = seconds 120"

lemmas session_limits = default_session_ttl_def default_session_max_reads_def
  max_session_reads_def max_session_bind_ancestor_def max_session_bind_names_def
  max_session_bind_name_len_def

text \<open>\<open>SessionBindingMode\<close> is a string type; the three named modes are its constants.\<close>

definition mode_auto :: string where "mode_auto = ''auto''"
definition mode_ancestor :: string where "mode_ancestor = ''ancestor''"
definition mode_ancestor_name :: string where "mode_ancestor_name = ''ancestor_name''"

lemmas mode_defs = mode_auto_def mode_ancestor_def mode_ancestor_name_def

record binding_policy =
  bd_mode :: string
  bd_depth :: int
  bd_name :: string
  bd_names :: "string list"

record binding_process =
  bp_pid :: int
  bp_parent_pid :: int
  bp_name :: string
  bp_path :: string

record binding_info =
  bi_mode :: string
  bi_depth :: int
  bi_name :: string
  bi_names :: "string list"
  bi_bound :: binding_process
  bi_creator :: binding_process

record session_create_options =
  so_reason :: string
  so_command :: "string list"
  so_executable :: string
  so_identity :: identity
  so_cwd :: string
  so_secrets :: "secret_spec list"
  so_ttl :: duration
  so_received_at :: go_time
  so_max_reads :: int
  so_override_env :: bool
  so_binding :: binding_policy

record session_create_request =
  sc_reason :: string
  sc_command :: "string list"
  sc_executable :: string
  sc_identity :: identity
  sc_cwd :: string
  sc_secrets :: "secret list"
  sc_ttl :: duration
  sc_received_at :: go_time
  sc_expires_at :: go_time
  sc_max_reads :: int
  sc_override_env :: bool
  sc_binding :: binding_policy

record session_resolve_request =
  sv_token :: string
  sv_command :: "string list"
  sv_executable :: string
  sv_identity :: identity
  sv_cwd :: string
  sv_env_fingerprint :: string
  sv_aliases :: "string list"
  sv_expected_peer :: expected_peer

record session_destroy_request =
  sd_session_id :: string
  sd_all :: bool

record session_summary =
  sm_session_id :: string
  sm_session_token :: string
  sm_reason :: string
  sm_cwd :: string
  sm_secret_aliases :: "string list"
  sm_expires_at :: go_time
  sm_max_reads :: int
  sm_remaining_reads :: int
  sm_override_env :: bool
  sm_binding :: binding_info

record item_describe_options =
  io_reason :: string
  io_command :: "string list"
  io_cwd :: string
  io_executable :: string
  io_identity :: identity
  io_ref :: string
  io_account :: string
  io_ttl :: duration
  io_received_at :: go_time

record item_describe_request =
  it_reason :: string
  it_command :: "string list"
  it_executable :: string
  it_identity :: identity
  it_cwd :: string
  it_ref :: item_ref
  it_account :: string
  it_ttl :: duration
  it_received_at :: go_time
  it_expires_at :: go_time

section \<open>Binding policies\<close>

definition default_binding_policy :: binding_policy where
  "default_binding_policy = \<lparr>bd_mode = mode_auto, bd_depth = 0, bd_name = '''', bd_names = []\<rparr>"

abbreviation bind_error :: err where
  "bind_error \<equiv> Err (SessionErr ErrInvalidSessionBind)"

definition validate_ancestor_name :: "string \<Rightarrow> err + string" where
  "validate_ancestor_name raw =
     (let name = trim_space raw
      in if name = '''' then Inl bind_error
         else if max_session_bind_name_len < length name then Inl bind_error
         else if name = ''.'' \<or> name = ''..'' \<or> contains_sub name ''/'' \<or> CHR 0x00 \<in> set name
         then Inl bind_error
         else Inr name)"

text \<open>The loop over \<open>rawNames\<close>: validates each, keeps the first occurrence of each name.\<close>

fun collect_names :: "string list \<Rightarrow> string list \<Rightarrow> err + string list" where
  "collect_names names [] = Inr names"
| "collect_names names (raw # raws) =
     (case validate_ancestor_name raw of
        Inl e \<Rightarrow> Inl e
      | Inr name \<Rightarrow>
          collect_names (if name \<in> set names then names else names @ [name]) raws)"

definition finish_names :: "string list \<Rightarrow> string \<Rightarrow> err + string list \<times> string" where
  "finish_names names selected =
     (if names = [] then Inl bind_error
      else Inr (names, if length names = 1 \<and> selected = '''' then hd names else selected))"

definition normalize_ancestor_names :: "string \<Rightarrow> string list \<Rightarrow> err + string list \<times> string" where
  "normalize_ancestor_names single raws =
     (if single = '''' \<and> raws = [] then Inl bind_error
      else if max_session_bind_names < length raws then Inl bind_error
      else
        (case collect_names [] raws of Inl e \<Rightarrow> Inl e | Inr names \<Rightarrow>
           if single \<noteq> '''' then
             (case validate_ancestor_name single of Inl e \<Rightarrow> Inl e | Inr name \<Rightarrow>
                if name \<in> set names then finish_names names name
                else if raws \<noteq> [] then Inl bind_error
                else finish_names (names @ [name]) name)
           else finish_names names ''''))"

definition normalize_binding :: "binding_policy \<Rightarrow> err + binding_policy" where
  "normalize_binding p0 =
     (let p = (if bd_mode p0 = '''' then p0\<lparr>bd_mode := mode_auto\<rparr> else p0)
      in if bd_mode p = mode_auto then
           (if bd_depth p \<noteq> 0 then Inl bind_error
            else if bd_name p \<noteq> '''' then Inl bind_error
            else if bd_names p \<noteq> [] then Inl bind_error
            else Inr p)
         else if bd_mode p = mode_ancestor then
           (if bd_depth p < 1 \<or> bd_depth p > max_session_bind_ancestor then Inl bind_error
            else if bd_name p \<noteq> '''' then Inl bind_error
            else if bd_names p \<noteq> [] then Inl bind_error
            else Inr p)
         else if bd_mode p = mode_ancestor_name then
           (if bd_depth p \<noteq> 0 then Inl bind_error
            else
              (case normalize_ancestor_names (bd_name p) (bd_names p) of
                 Inl e \<Rightarrow> Inl e
               | Inr (names, selected) \<Rightarrow> Inr (p\<lparr>bd_name := selected, bd_names := names\<rparr>)))
         else Inl bind_error)"

definition new_ancestor_binding :: "int \<Rightarrow> err + binding_policy" where
  "new_ancestor_binding depth =
     normalize_binding \<lparr>bd_mode = mode_ancestor, bd_depth = depth, bd_name = '''', bd_names = []\<rparr>"

definition new_ancestor_names_binding :: "string list \<Rightarrow> err + binding_policy" where
  "new_ancestor_names_binding names =
     normalize_binding \<lparr>bd_mode = mode_ancestor_name, bd_depth = 0, bd_name = '''', bd_names = names\<rparr>"

definition new_ancestor_name_binding :: "string \<Rightarrow> err + binding_policy" where
  "new_ancestor_name_binding name = new_ancestor_names_binding [name]"

section \<open>Aliases and identifiers\<close>

fun collect_aliases :: "string list \<Rightarrow> string list \<Rightarrow> err + string list" where
  "collect_aliases acc [] = Inr acc"
| "collect_aliases acc (raw # raws) =
     (let a = trim_space raw
      in if \<not> alias_ok a then Inl (Err (RequestErr ErrInvalidAlias))
         else if a \<in> set acc then Inl (Err (RequestErr ErrInvalidAlias))
         else collect_aliases (acc @ [a]) raws)"

definition normalize_aliases :: "string list \<Rightarrow> err + string list" where
  "normalize_aliases aliases =
     (if aliases = [] then Inr []
      else case collect_aliases [] aliases of Inl e \<Rightarrow> Inl e | Inr as \<Rightarrow> Inr (sort as))"

definition validate_normalized_aliases :: "string list \<Rightarrow> err option" where
  "validate_normalized_aliases aliases =
     (case normalize_aliases aliases of
        Inl e \<Rightarrow> Some e
      | Inr as \<Rightarrow> if aliases \<noteq> as then Some (Err (RequestErr ErrInvalidAlias)) else None)"

definition id_char :: "char \<Rightarrow> bool" where
  "id_char c \<longleftrightarrow> alnum c \<or> c = CHR ''_'' \<or> c = CHR ''-''"

text \<open>\<open>sessionIDPattern\<close> and \<open>sessionTokenPattern\<close>: the prefix and at least one more byte.\<close>

definition prefixed_id :: "string \<Rightarrow> string \<Rightarrow> bool" where
  "prefixed_id p s \<longleftrightarrow>
     has_prefix s p \<and> trim_prefix s p \<noteq> '''' \<and> list_all id_char (trim_prefix s p)"

definition validate_session_id :: "string \<Rightarrow> err option" where
  "validate_session_id s =
     (if \<not> prefixed_id ''asid_'' s then Some (Err (SessionErr ErrInvalidSessionID)) else None)"

definition validate_session_token :: "string \<Rightarrow> err option" where
  "validate_session_token s =
     (if \<not> prefixed_id ''astok_'' s then Some (Err (SessionErr ErrInvalidSessionToken)) else None)"

section \<open>Session requests\<close>

definition validate_max_reads :: "int \<Rightarrow> err option" where
  "validate_max_reads n =
     (if n < 1 \<or> n > max_session_reads then Some (Err (SessionErr ErrInvalidSessionRead)) else None)"

definition new_session_create :: "session_create_options \<Rightarrow> err + session_create_request" where
  "new_session_create opts =
     (case validate_reason (so_reason opts) of Inl e \<Rightarrow> Inl e | Inr reason \<Rightarrow>
      let ttl = (if so_ttl opts = 0 then default_session_ttl else so_ttl opts);
          reads = (if so_max_reads opts = 0 then default_session_max_reads else so_max_reads opts)
      in
     (case or_else (validate_ttl ttl)
          (or_else (validate_max_reads reads)
          (or_else (validate_prepared_path (so_cwd opts) False)
          (or_else (validate_prepared_path (so_executable opts) True)
          (or_else (require_identity (so_identity opts))
            (validate_command (so_command opts)))))) of
        Some e \<Rightarrow> Inl e
      | None \<Rightarrow>
     (case parse_secrets (so_secrets opts) of Inl e \<Rightarrow> Inl e | Inr ss \<Rightarrow>
     (case normalize_binding (so_binding opts) of Inl e \<Rightarrow> Inl e | Inr binding \<Rightarrow>
        Inr \<lparr>sc_reason = reason, sc_command = so_command opts, sc_executable = so_executable opts,
             sc_identity = so_identity opts, sc_cwd = so_cwd opts, sc_secrets = ss, sc_ttl = ttl,
             sc_received_at = so_received_at opts,
             sc_expires_at = (if so_received_at opts \<noteq> zero_time then so_received_at opts + ttl
                              else zero_time),
             sc_max_reads = reads, sc_override_env = so_override_env opts,
             sc_binding = binding\<rparr>))))"

definition session_with_receipt_time ::
  "session_create_request \<Rightarrow> go_time \<Rightarrow> session_create_request" where
  "session_with_receipt_time r t = r\<lparr>sc_received_at := t, sc_expires_at := t + sc_ttl r\<rparr>"

definition session_expired :: "session_create_request \<Rightarrow> go_time \<Rightarrow> bool" where
  "session_expired r t \<longleftrightarrow> \<not> t < sc_expires_at r"

definition lifecycle_of_session :: "session_create_request \<Rightarrow> daemon_lifecycle" where
  "lifecycle_of_session r = \<lparr>lc_reason = sc_reason r, lc_command = sc_command r, lc_cwd = sc_cwd r,
     lc_executable = sc_executable r, lc_ttl = sc_ttl r, lc_received_at = sc_received_at r,
     lc_expires_at = sc_expires_at r\<rparr>"

definition error_of :: "err + 'a \<Rightarrow> err option" where
  "error_of r = (case r of Inl e \<Rightarrow> Some e | Inr _ \<Rightarrow> None)"

definition validate_session_create :: "file_system \<Rightarrow> session_create_request \<Rightarrow> err option" where
  "validate_session_create fs r =
     or_else (validate_daemon_lifecycle (lifecycle_of_session r))
     (or_else (validate_max_reads (sc_max_reads r))
     (or_else (require_identity (sc_identity r))
     (or_else (error_of (normalize_binding (sc_binding r)))
     (or_else (validate_daemon_prepared_path fs (sc_cwd r) False)
     (or_else (validate_daemon_prepared_path fs (sc_executable r) True)
     (or_else (check_identity fs (sc_executable r) (sc_identity r))
     (validate_daemon_secrets (sc_secrets r))))))))"

definition zero_expected_peer :: expected_peer where
  "zero_expected_peer = \<lparr>ep_uid = 0, ep_gid = 0, ep_pid = 0, ep_exe = '''', ep_cwd = ''''\<rparr>"

definition new_session_resolve ::
  "string \<Rightarrow> string list \<Rightarrow> string \<Rightarrow> identity \<Rightarrow> string \<Rightarrow> string \<Rightarrow> err + session_resolve_request" where
  "new_session_resolve token command executable identity cwd fingerprint =
     (case or_else (validate_session_token token)
          (or_else (validate_command command)
          (or_else (validate_prepared_path cwd False)
          (or_else (validate_prepared_path executable True)
          (or_else (require_identity identity)
            (validate_environment_fingerprint fingerprint))))) of
        Some e \<Rightarrow> Inl e
      | None \<Rightarrow>
          Inr \<lparr>sv_token = token, sv_command = command, sv_executable = executable,
               sv_identity = identity, sv_cwd = cwd, sv_env_fingerprint = fingerprint,
               sv_aliases = [], sv_expected_peer = zero_expected_peer\<rparr>)"

definition with_expected_peer ::
  "session_resolve_request \<Rightarrow> expected_peer \<Rightarrow> session_resolve_request" where
  "with_expected_peer r p = r\<lparr>sv_expected_peer := p\<rparr>"

definition with_requested_aliases ::
  "session_resolve_request \<Rightarrow> string list \<Rightarrow> err + session_resolve_request" where
  "with_requested_aliases r aliases =
     (case normalize_aliases aliases of Inl e \<Rightarrow> Inl e | Inr as \<Rightarrow> Inr (r\<lparr>sv_aliases := as\<rparr>))"

definition require_expected_peer :: "expected_peer \<Rightarrow> err option" where
  "require_expected_peer p =
     (if ep_uid p < 0 \<or> ep_gid p < 0 \<or> ep_pid p \<le> 0 \<or> ep_exe p = '''' \<or> ep_cwd p = ''''
      then Some (Err (RequestErr ErrInvalidRequest)) else None)"

definition validate_session_resolve :: "file_system \<Rightarrow> session_resolve_request \<Rightarrow> err option" where
  "validate_session_resolve fs r =
     or_else (validate_session_token (sv_token r))
     (or_else (validate_command (sv_command r))
     (or_else (validate_environment_fingerprint (sv_env_fingerprint r))
     (or_else (validate_normalized_aliases (sv_aliases r))
     (or_else (validate_daemon_prepared_path fs (sv_cwd r) False)
     (or_else (validate_daemon_prepared_path fs (sv_executable r) True)
     (or_else (require_identity (sv_identity r))
     (or_else (check_identity fs (sv_executable r) (sv_identity r))
     (require_expected_peer (sv_expected_peer r)))))))))"

definition validate_session_destroy :: "session_destroy_request \<Rightarrow> err option" where
  "validate_session_destroy r =
     (if sd_all r then
        (if sd_session_id r \<noteq> '''' then Some (Err (RequestErr ErrInvalidRequest)) else None)
      else validate_session_id (sd_session_id r))"

definition new_session_destroy :: "string \<Rightarrow> err + session_destroy_request" where
  "new_session_destroy sid =
     (let r = \<lparr>sd_session_id = sid, sd_all = False\<rparr>
      in case validate_session_destroy r of Some e \<Rightarrow> Inl e | None \<Rightarrow> Inr r)"

definition new_session_destroy_all :: session_destroy_request where
  "new_session_destroy_all = \<lparr>sd_session_id = '''', sd_all = True\<rparr>"

section \<open>Item description requests\<close>

definition new_item_describe :: "item_describe_options \<Rightarrow> err + item_describe_request" where
  "new_item_describe opts =
     (case validate_reason (io_reason opts) of Inl e \<Rightarrow> Inl e | Inr reason \<Rightarrow>
     (case parse_item_ref (io_ref opts) of
        Inl e \<Rightarrow> Inl (Wrap (RequestErr ErrInvalidReference) e)
      | Inr ref \<Rightarrow>
      let account = trim_space (io_account opts);
          ttl = (if io_ttl opts = 0 then default_item_describe_ttl else io_ttl opts)
      in
     (case or_else (validate_ttl ttl)
          (or_else (validate_prepared_path (io_cwd opts) False)
          (or_else (validate_prepared_path (io_executable opts) True)
          (or_else (require_identity (io_identity opts))
          (or_else (require (account \<noteq> '''') (Err (RequestErr ErrInvalidReference)))
            (validate_command (io_command opts)))))) of
        Some e \<Rightarrow> Inl e
      | None \<Rightarrow>
          Inr \<lparr>it_reason = reason, it_command = io_command opts, it_executable = io_executable opts,
               it_identity = io_identity opts, it_cwd = io_cwd opts, it_ref = ref,
               it_account = account, it_ttl = ttl, it_received_at = io_received_at opts,
               it_expires_at = (if io_received_at opts \<noteq> zero_time then io_received_at opts + ttl
                                else zero_time)\<rparr>)))"

definition item_with_receipt_time :: "item_describe_request \<Rightarrow> go_time \<Rightarrow> item_describe_request" where
  "item_with_receipt_time r t = r\<lparr>it_received_at := t, it_expires_at := t + it_ttl r\<rparr>"

definition item_expired :: "item_describe_request \<Rightarrow> go_time \<Rightarrow> bool" where
  "item_expired r t \<longleftrightarrow> \<not> t < it_expires_at r"

definition lifecycle_of_item :: "item_describe_request \<Rightarrow> daemon_lifecycle" where
  "lifecycle_of_item r = \<lparr>lc_reason = it_reason r, lc_command = it_command r, lc_cwd = it_cwd r,
     lc_executable = it_executable r, lc_ttl = it_ttl r, lc_received_at = it_received_at r,
     lc_expires_at = it_expires_at r\<rparr>"

definition validate_item_describe :: "file_system \<Rightarrow> item_describe_request \<Rightarrow> err option" where
  "validate_item_describe fs r =
     or_else (validate_daemon_lifecycle (lifecycle_of_item r))
     (or_else (require_identity (it_identity r))
     (or_else (validate_daemon_prepared_path fs (it_cwd r) False)
     (or_else (validate_daemon_prepared_path fs (it_executable r) True)
     (or_else (check_identity fs (it_executable r) (it_identity r))
     (case parse_item_ref (ir_raw (it_ref r)) of
        Inl e \<Rightarrow> Some (Wrap (RequestErr ErrInvalidReference) e)
      | Inr parsed \<Rightarrow>
          if parsed \<noteq> it_ref r then Some (Err (RequestErr ErrInvalidReference))
          else if trim_space (it_account r) \<noteq> it_account r
          then Some (Err (RequestErr ErrInvalidReference))
          else if it_account r = '''' then Some (Err (RequestErr ErrInvalidReference))
          else None)))))"

section \<open>Normal forms\<close>

lemma validate_ancestor_name_Inr:
  "validate_ancestor_name raw = Inr n \<Longrightarrow> n \<noteq> '''' \<and> validate_ancestor_name n = Inr n"
  by (auto simp: validate_ancestor_name_def Let_def split: if_splits)

lemma collect_names_Inr:
  "collect_names names raws = Inr out \<Longrightarrow> distinct names \<Longrightarrow>
     \<forall>n \<in> set names. validate_ancestor_name n = Inr n \<Longrightarrow>
     distinct out \<and> (\<forall>n \<in> set out. validate_ancestor_name n = Inr n) \<and> set names \<subseteq> set out \<and>
     length out \<le> length names + length raws"
proof (induction names raws rule: collect_names.induct)
  case (2 names raw raws)
  have "\<exists>n. validate_ancestor_name raw = Inr n"
    using 2(2) by (cases "validate_ancestor_name raw") simp_all
  then obtain n where n: "validate_ancestor_name raw = Inr n" ..
  define names' where "names' = (if n \<in> set names then names else names @ [n])"
  have "distinct names'" "\<forall>m \<in> set names'. validate_ancestor_name m = Inr m"
    using 2(3,4) validate_ancestor_name_Inr [OF n] by (auto simp: names'_def)
  moreover have "collect_names names' raws = Inr out" using 2(2) n by (simp add: names'_def)
  ultimately have "distinct out \<and> (\<forall>n \<in> set out. validate_ancestor_name n = Inr n) \<and>
      set names' \<subseteq> set out \<and> length out \<le> length names' + length raws"
    using 2(1) [OF n] by (simp add: names'_def)
  moreover have "set names \<subseteq> set names'" "length names' \<le> Suc (length names)"
    by (auto simp: names'_def)
  ultimately show ?case by auto
qed simp

lemma collect_names_fix:
  "\<forall>n \<in> set raws. validate_ancestor_name n = Inr n \<Longrightarrow> distinct (names @ raws) \<Longrightarrow>
     collect_names names raws = Inr (names @ raws)"
  by (induction raws arbitrary: names) auto

lemma normalize_ancestor_names_fix:
  assumes "names \<noteq> []" "distinct names" "length names \<le> max_session_bind_names"
    and "\<forall>n \<in> set names. validate_ancestor_name n = Inr n"
    and "selected \<in> set names \<or> selected = '''' \<and> length names \<noteq> 1"
  shows "normalize_ancestor_names selected names = Inr (names, selected)"
proof -
  have "collect_names [] names = Inr names" using collect_names_fix [of names "[]"] assms by simp
  moreover have "selected \<noteq> '''' \<Longrightarrow> validate_ancestor_name selected = Inr selected"
    using assms by auto
  moreover have "selected = '''' \<Longrightarrow> length names \<noteq> 1"
    using assms(4,5) validate_ancestor_name_Inr by blast
  ultimately show ?thesis using assms
    by (auto simp: normalize_ancestor_names_def finish_names_def)
qed

lemma normalize_ancestor_names_idem:
  assumes "normalize_ancestor_names single raws = Inr (names, selected)"
  shows "normalize_ancestor_names selected names = Inr (names, selected)"
proof -
  from assms obtain ns where ns: "collect_names [] raws = Inr ns"
    and len: "length raws \<le> max_session_bind_names"
    by (auto simp: normalize_ancestor_names_def split: if_splits sum.splits)
  from collect_names_Inr [OF ns] len have N: "distinct ns" "\<forall>n \<in> set ns. validate_ancestor_name n = Inr n"
    "length ns \<le> max_session_bind_names" by auto
  have fin: "\<exists>ns' sel. finish_names ns' sel = Inr (names, selected) \<and> distinct ns' \<and>
      (\<forall>n \<in> set ns'. validate_ancestor_name n = Inr n) \<and> length ns' \<le> max_session_bind_names \<and>
      (sel \<in> set ns' \<or> sel = '''')"
  proof (cases "single = ''''")
    case True
    with assms ns have "finish_names ns '''' = Inr (names, selected)"
      by (simp add: normalize_ancestor_names_def split: if_splits)
    with N show ?thesis by blast
  next
    case False
    with assms ns obtain name where name: "validate_ancestor_name single = Inr name"
      by (auto simp: normalize_ancestor_names_def split: if_splits sum.splits)
    show ?thesis
    proof (cases "name \<in> set ns")
      case True
      with assms ns name False have "finish_names ns name = Inr (names, selected)"
        by (simp add: normalize_ancestor_names_def split: if_splits)
      with N True show ?thesis by blast
    next
      case nin: False
      with assms ns name False have f: "finish_names (ns @ [name]) name = Inr (names, selected)"
        and "raws = []" by (simp_all add: normalize_ancestor_names_def split: if_splits)
      with ns have "ns = []" by simp
      moreover have "1 \<le> max_session_bind_names" by (simp add: max_session_bind_names_def)
      ultimately show ?thesis using f validate_ancestor_name_Inr [OF name] by fastforce
    qed
  qed
  then obtain ns' sel where f: "finish_names ns' sel = Inr (names, selected)"
    and N': "distinct ns'" "\<forall>n \<in> set ns'. validate_ancestor_name n = Inr n"
      "length ns' \<le> max_session_bind_names" "sel \<in> set ns' \<or> sel = ''''" by blast
  from f have "names = ns'" "ns' \<noteq> []" by (auto simp: finish_names_def split: if_splits)
  moreover from f N'(4) have "selected \<in> set ns' \<or> selected = '''' \<and> length ns' \<noteq> 1"
    by (auto simp: finish_names_def split: if_splits)
  ultimately show ?thesis using N' by (intro normalize_ancestor_names_fix) auto
qed

lemma mode_distinct [simp]:
  "mode_auto \<noteq> ''''" "mode_ancestor \<noteq> ''''" "mode_ancestor_name \<noteq> ''''"
  "mode_ancestor \<noteq> mode_auto" "mode_ancestor_name \<noteq> mode_auto" "mode_ancestor_name \<noteq> mode_ancestor"
  "mode_auto \<noteq> mode_ancestor" "mode_auto \<noteq> mode_ancestor_name" "mode_ancestor \<noteq> mode_ancestor_name"
  by (simp_all add: mode_defs)

lemma normalize_binding_idem:
  assumes "normalize_binding p = Inr q"
  shows "normalize_binding q = Inr q"
proof (cases "bd_mode p = mode_ancestor_name")
  case True
  then have "bd_mode p \<noteq> ''''" by simp
  with True assms obtain names selected
    where n: "normalize_ancestor_names (bd_name p) (bd_names p) = Inr (names, selected)"
      and q: "q = p\<lparr>bd_name := selected, bd_names := names\<rparr>" and d: "bd_depth p = 0"
    by (auto simp: normalize_binding_def Let_def split: if_splits sum.splits)
  show ?thesis
    using normalize_ancestor_names_idem [OF n] True d by (simp add: normalize_binding_def q)
next
  case False
  define r where "r = (if bd_mode p = '''' then p\<lparr>bd_mode := mode_auto\<rparr> else p)"
  have r: "bd_mode r \<noteq> ''''" "bd_mode r \<noteq> mode_ancestor_name" using False by (auto simp: r_def)
  from assms have "normalize_binding r = Inr q"
    unfolding normalize_binding_def r_def [symmetric] using r(1) by (simp add: Let_def)
  moreover from this r have "q = r" by (auto simp: normalize_binding_def Let_def split: if_splits)
  ultimately show ?thesis by simp
qed

lemma collect_aliases_Inr:
  "collect_aliases acc raws = Inr out \<Longrightarrow> distinct acc \<Longrightarrow>
     out = acc @ map trim_space raws \<and> distinct (acc @ map trim_space raws) \<and>
     (\<forall>a \<in> set (map trim_space raws). alias_ok a)"
proof (induction acc raws rule: collect_aliases.induct)
  case (2 acc raw raws)
  then have "alias_ok (trim_space raw)" "trim_space raw \<notin> set acc"
    and "collect_aliases (acc @ [trim_space raw]) raws = Inr out"
    by (auto simp: Let_def split: if_splits)
  with 2 have "out = (acc @ [trim_space raw]) @ map trim_space raws \<and>
    distinct ((acc @ [trim_space raw]) @ map trim_space raws) \<and>
    (\<forall>a \<in> set (map trim_space raws). alias_ok a)" by (simp del: set_map)
  with \<open>alias_ok (trim_space raw)\<close> show ?case by auto
qed simp

lemma collect_aliases_fix:
  "\<forall>a \<in> set raws. alias_ok a \<and> trim_space a = a \<Longrightarrow> distinct (acc @ raws) \<Longrightarrow>
     collect_aliases acc raws = Inr (acc @ raws)"
  by (induction raws arbitrary: acc) auto

lemma normalize_aliases_Inr:
  assumes "normalize_aliases raws = Inr as"
  shows "sorted as" "distinct as" "set as = trim_space ` set raws"
    "\<forall>a \<in> set as. alias_ok a \<and> trim_space a = a" "normalize_aliases as = Inr as"
proof -
  have A: "sorted as \<and> distinct as \<and> set as = trim_space ` set raws \<and>
    (\<forall>a \<in> set as. alias_ok a \<and> trim_space a = a)"
  proof (cases "raws = []")
    case True
    with assms show ?thesis by (simp add: normalize_aliases_def)
  next
    case False
    with assms obtain out where out: "collect_aliases [] raws = Inr out" "as = sort out"
      by (cases "collect_aliases [] raws") (auto simp: normalize_aliases_def)
    from collect_aliases_Inr [OF out(1)]
    have "out = map trim_space raws" "distinct (map trim_space raws)" "\<forall>a \<in> set out. alias_ok a"
      by simp_all
    then show ?thesis by (simp add: out(2))
  qed
  then show "sorted as" "distinct as" "set as = trim_space ` set raws"
    "\<forall>a \<in> set as. alias_ok a \<and> trim_space a = a" by blast+
  have D: "distinct ([] @ as)" using A by simp
  have "collect_aliases [] as = Inr ([] @ as)"
    by (rule collect_aliases_fix [OF _ D]) (use A in blast)
  moreover have "sort as = as" using A by (intro sorted_sort_id) blast
  ultimately show "normalize_aliases as = Inr as"
    by (simp add: normalize_aliases_def)
qed

lemma normalize_aliases_Nil_iff: "normalize_aliases raws = Inr [] \<longleftrightarrow> raws = []"
proof
  assume "normalize_aliases raws = Inr []"
  from normalize_aliases_Inr(3) [OF this] show "raws = []" by simp
qed (simp add: normalize_aliases_def)

lemma validate_max_reads_None: "validate_max_reads n = None \<longleftrightarrow> 1 \<le> n \<and> n \<le> max_session_reads"
  by (auto simp: validate_max_reads_def)

lemma error_of_None: "error_of r = None \<longleftrightarrow> (\<exists>x. r = Inr x)"
  by (cases r) (simp_all add: error_of_def)

text \<open>The identifiers that \<open>randid.Generate\<close> makes for the session store are well formed.\<close>

lemma is_hex_id_char: "is_hex c \<Longrightarrow> id_char c"
  by (auto simp: id_char_def alnum_def char_class_defs char_le_iff)

lemma hex_encode_id:
  "bs \<noteq> [] \<Longrightarrow> hex_encode bs \<noteq> [] \<and> list_all id_char (hex_encode bs)"
  using length_hex_encode [of bs] by (auto simp: list_all_iff dest: hex_encode_chars is_hex_id_char)

lemma generated_session_id:
  assumes "generate_id (Inr bs) ''asid'' = Inr i" "bs \<noteq> []"
  shows "validate_session_id i = None"
proof -
  have "i = ''asid_'' @ hex_encode bs" using assms(1) by (simp add: generate_id_def)
  then show ?thesis
    using hex_encode_id [OF assms(2)] has_prefix_append [of "''asid_''" "hex_encode bs"]
      trim_prefix_append [of "''asid_''" "hex_encode bs"]
    by (simp add: validate_session_id_def prefixed_id_def)
qed

lemma generated_session_token:
  assumes "generate_id (Inr bs) ''astok'' = Inr i" "bs \<noteq> []"
  shows "validate_session_token i = None"
proof -
  have "i = ''astok_'' @ hex_encode bs" using assms(1) by (simp add: generate_id_def)
  then show ?thesis
    using hex_encode_id [OF assms(2)] has_prefix_append [of "''astok_''" "hex_encode bs"]
      trim_prefix_append [of "''astok_''" "hex_encode bs"]
    by (simp add: validate_session_token_def prefixed_id_def)
qed

end
