(* ===== verification/RequestProperties.thy ===== *)
theory RequestProperties
  imports SessionRequest
begin

text \<open>
  The properties of the request layer (references, executable trust, exec and session requests),
  each with an instance on concrete data: the sample requests below are built by the model's own
  constructors.
\<close>

section \<open>Sample data\<close>

definition sample_info :: "bool \<Rightarrow> 32 word \<Rightarrow> file_info" where
  "sample_info dir mode = \<lparr>fi_is_dir = dir, fi_mode = mode, fi_size = 4096, fi_mod_time = 77,
     fi_sys = Some \<lparr>st_dev = 1, st_ino = 42, st_uid = 0, st_ctime_sec = 5, st_ctime_nsec = 6\<rparr>\<rparr>"

definition sample_fs :: file_system where
  "sample_fs = \<lparr>fs_stat = (\<lambda>p.
       if p = ''/usr/bin/env'' then Inr (sample_info False 0x1ED)
       else if p \<in> {''/'', ''/usr'', ''/usr/bin'', ''/work''} then Inr (sample_info True 0x1ED)
       else Inl (Text ''no such file'')),
     fs_eval_symlinks = (\<lambda>p. Inr p), fs_abs = (\<lambda>p. Inr p), fs_euid = 501\<rparr>"

definition sample_identity :: identity where
  "sample_identity = \<lparr>id_device = 1, id_inode = 42, id_mode = 0x1ED, id_size = 4096,
     id_mod_time = 77, id_change_time = 5000000006\<rparr>"

definition sample_spec :: secret_spec where
  "sample_spec = \<lparr>sp_alias = ''API_TOKEN'', sp_ref = ''op://Work/api/token'',
     sp_account = ''acme'', sp_source = '''', sp_bitwarden = bitwarden_zero\<rparr>"

definition sample_fingerprint :: string where
  "sample_fingerprint = ''env-v1:'' @ replicate 64 CHR ''a''"

definition sample_options :: exec_options where
  "sample_options = \<lparr>eo_reason = ''deploy'', eo_command = [''env''],
     eo_executable = ''/usr/bin/env'', eo_identity = sample_identity, eo_allow_mutable = False,
     eo_cwd = ''/work'', eo_env_fingerprint = sample_fingerprint, eo_secrets = [sample_spec],
     eo_ttl = 0, eo_received_at = 0, eo_reusable_uses = 0, eo_override_env = False,
     eo_overridden = [], eo_force_refresh = False, eo_reuse_only = False\<rparr>"

definition sample_exec :: exec_request where
  "sample_exec = (case new_exec sample_options of
     Inr r \<Rightarrow> r
   | Inl e \<Rightarrow> \<lparr>er_reason = '''', er_command = [], er_executable = '''', er_identity = identity_zero,
        er_allow_mutable = False, er_cwd = '''', er_env_fingerprint = '''', er_secrets = [],
        er_ttl = 0, er_received_at = 0, er_expires_at = 0, er_reusable_uses = 0,
        er_override_env = False, er_overridden = [], er_force_refresh = False,
        er_reuse_only = False\<rparr>)"

lemma sample_new_exec: "new_exec sample_options = Inr sample_exec"
proof -
  have "\<not> isl (new_exec sample_options)" by code_simp
  then show ?thesis by (cases "new_exec sample_options") (simp_all add: sample_exec_def)
qed

lemma sample_valid: "validate_exec sample_fs (exec_with_receipt_time sample_exec 1000) = None"
  by code_simp

section \<open>References\<close>

text \<open>
C38: A secret reference that the parser accepts is rendered in a canonical form: parsing the raw
text of the result again gives exactly the same result, for both providers.
\<close>
theorem reference_canonical:
  assumes "parse_reference raw = Inr r"
  shows "parse_reference (sref_raw r) = Inr r"
  using assms by (rule parse_reference_canonical_lemma)

theorem reference_canonical_witness:
  "parse_reference (sref_raw (bitwarden_ref
      ''bws://prod/0a1b2c3d-0000-4000-8000-00000000abcd'' ''prod'' ''0a1b2c3d-0000-4000-8000-00000000abcd''))
   = Inr (bitwarden_ref ''bws://prod/0a1b2c3d-0000-4000-8000-00000000abcd'' ''prod''
            ''0a1b2c3d-0000-4000-8000-00000000abcd'')"
  by (rule reference_canonical [of "''bws://prod/0A1B2C3D-0000-4000-8000-00000000ABCD''"]) code_simp

text \<open>
A field reference that the item description prints is parsed back into the vault, item,
section and field it was built from, when these are non-empty path segments, the section is absent
or not blank, and the printed text carries no outer white space.
\<close>
theorem field_reference_roundtrip:
  assumes "segment v" "segment i" "segment f"
    and "s = '''' \<or> segment s \<and> trim_space s \<noteq> ''''"
    and "trim_space (build_field_ref v i s f) = build_field_ref v i s f"
  shows "op_parse (build_field_ref v i s f) =
    Inr \<lparr>or_raw = build_field_ref v i s f, or_vault = v, or_item = i, or_section = s, or_field = f\<rparr>"
proof (cases "s = ''''")
  case True
  with assms op_parse_three [of v i f] show ?thesis by (simp add: build_field_ref_def)
next
  case False
  with assms op_parse_four [of v i s f] show ?thesis by (simp add: build_field_ref_def)
qed

theorem field_reference_roundtrip_witness:
  "op_parse (build_field_ref ''Work'' ''api key'' ''login'' ''token'') =
    Inr \<lparr>or_raw = build_field_ref ''Work'' ''api key'' ''login'' ''token'', or_vault = ''Work'',
         or_item = ''api key'', or_section = ''login'', or_field = ''token''\<rparr>"
  by (rule field_reference_roundtrip) code_simp+

section \<open>Executable trust\<close>

text \<open>
  The stable-executable check accepts a clean absolute path exactly when the file is an
executable regular file that the current user neither owns nor may write (by group or other
permission), and the same holds for every ancestor directory up to and including the root.
\<close>
theorem stable_executable_iff:
  assumes "list_all clean_elem (ps @ [p])"
  shows "validate_stable_executable fs (abs_path (ps @ [p])) = None \<longleftrightarrow>
    (\<exists>info. fs_stat fs (abs_path (ps @ [p])) = Inr info \<and> \<not> fi_is_dir info \<and> any_exec info \<and>
       validate_stable_component fs info = None) \<and>
    (\<forall>n \<le> length ps. stable_dir fs (abs_path (take n ps)))"
proof -
  have "path_dir (abs_path (ps @ [p])) = abs_path ps" using assms by (rule path_dir_abs_path)
  moreover have "list_all clean_elem ps" using assms by simp
  ultimately show ?thesis
    by (auto simp: validate_stable_executable_def check_parents_abs_path split: sum.splits)
qed

theorem stable_executable_iff_witness:
  "stable_dir sample_fs ''/'' \<and> stable_dir sample_fs ''/usr'' \<and> stable_dir sample_fs ''/usr/bin''"
proof -
  have "list_all clean_elem ([''usr'', ''bin''] @ [''env''])" by code_simp
  note stable_executable_iff [OF this, of sample_fs]
  moreover have "validate_stable_executable sample_fs (abs_path ([''usr'', ''bin''] @ [''env''])) = None"
    by code_simp
  ultimately have all: "stable_dir sample_fs (abs_path (take n [''usr'', ''bin'']))" if "n \<le> 2" for n
    using that by simp
  from all [of 0] all [of 1] all [of 2] show ?thesis by (simp add: abs_path_def)
qed

section \<open>Exec requests\<close>

text \<open>
Secrets that the client parses are accepted by the daemon's re-validation: parsing is stable
on its own output, so the daemon finds every secret in normal form.
\<close>
theorem parsed_secrets_revalidate:
  assumes "parse_secrets specs = Inr ss"
  shows "validate_daemon_secrets ss = None"
  using assms validate_daemon_secrets_iff by blast

theorem parsed_secrets_revalidate_witness:
  "validate_daemon_secrets (case parse_secrets [sample_spec] of Inr ss \<Rightarrow> ss | Inl _ \<Rightarrow> []) = None"
proof -
  have "\<not> isl (parse_secrets [sample_spec])" by code_simp
  then show ?thesis
    by (cases "parse_secrets [sample_spec]") (simp_all add: parsed_secrets_revalidate)
qed

text \<open>
C25: A request built by NewExec and stamped on receipt passes the daemon's validation exactly
when the file system agrees with it: both paths exist in resolved form with the right kind, the
executable still has the captured identity, and it is stable unless mutable executables are
allowed. Nothing else that the client built can be rejected.
\<close>
theorem new_exec_accepted_iff:
  assumes "new_exec opts = Inr r" "0 < t"
  shows "validate_exec fs (exec_with_receipt_time r t) = None \<longleftrightarrow>
    path_on_disk fs (eo_cwd opts) False \<and> path_on_disk fs (eo_executable opts) True \<and>
    capture fs (eo_executable opts) = Inr (eo_identity opts) \<and>
    (eo_allow_mutable opts \<or> validate_stable_executable fs (eo_executable opts) = None)"
  using assms by (rule new_exec_accepted)

theorem new_exec_accepted_iff_witness:
  "path_on_disk sample_fs (eo_cwd sample_options) False \<and>
   capture sample_fs (eo_executable sample_options) = Inr (eo_identity sample_options)"
  using new_exec_accepted_iff [OF sample_new_exec, of 1000 sample_fs] sample_valid by simp

text \<open>
  What the daemon knows of a request it accepts: the use count is between 1 and 20, the
lifetime is within the limits and the expiry is the receipt time plus the lifetime, the paths are
resolved, the executable is the one captured and stable unless opted out, the aliases are
distinct and well-formed, and the overridden aliases are among them.
\<close>
theorem accepted_exec_safe:
  assumes "validate_exec fs r = None"
  shows "1 \<le> reusable_uses_or_default (er_reusable_uses r) \<and>
    reusable_uses_or_default (er_reusable_uses r) \<le> 20 \<and>
    min_request_ttl \<le> er_ttl r \<and> er_ttl r \<le> max_request_ttl \<and>
    er_expires_at r = er_received_at r + er_ttl r \<and> er_received_at r < er_expires_at r \<and>
    path_on_disk fs (er_cwd r) False \<and> path_on_disk fs (er_executable r) True \<and>
    capture fs (er_executable r) = Inr (er_identity r) \<and>
    (er_allow_mutable r \<or> validate_stable_executable fs (er_executable r) = None) \<and>
    er_secrets r \<noteq> [] \<and> distinct (map se_alias (er_secrets r)) \<and>
    list_all alias_ok (map se_alias (er_secrets r)) \<and>
    set (er_overridden r) \<subseteq> set (map se_alias (er_secrets r)) \<and>
    er_command r \<noteq> [] \<and> trim_space (er_reason r) = er_reason r \<and> er_reason r \<noteq> ''''"
proof -
  have L: "validate_daemon_lifecycle (lifecycle_of_exec r) = None"
    and S: "validate_daemon_secrets (er_secrets r) = None"
    using assms by (simp_all add: validate_exec_def)
  from L have ttl: "min_request_ttl \<le> er_ttl r" "er_ttl r \<le> max_request_ttl"
    "er_expires_at r = er_received_at r + er_ttl r" "er_command r \<noteq> []"
    "er_reason r \<noteq> ''''" "trim_space (er_reason r) = er_reason r"
    by (auto simp: lifecycle_of_exec_def validate_None dest: validate_reason_Inr)
  have "er_received_at r < er_expires_at r" using ttl by (simp add: request_limits)
  moreover have "er_secrets r \<noteq> []" "distinct (map se_alias (er_secrets r))"
    "list_all alias_ok (map se_alias (er_secrets r))"
    using validate_daemon_secrets_aliases [OF S] by (auto simp: list_all_iff)
  moreover have "1 \<le> reusable_uses_or_default (er_reusable_uses r)"
    "reusable_uses_or_default (er_reusable_uses r) \<le> 20"
    "path_on_disk fs (er_cwd r) False" "path_on_disk fs (er_executable r) True"
    "capture fs (er_executable r) = Inr (er_identity r)"
    "er_allow_mutable r \<or> validate_stable_executable fs (er_executable r) = None"
    "set (er_overridden r) \<subseteq> set (map se_alias (er_secrets r))"
    using assms by (auto simp: validate_exec_def validate_None max_reusable_uses_def)
  ultimately show ?thesis using ttl by blast
qed

theorem accepted_exec_safe_witness:
  "er_received_at (exec_with_receipt_time sample_exec 1000)
     < er_expires_at (exec_with_receipt_time sample_exec 1000)"
  using accepted_exec_safe [OF sample_valid] by blast

text \<open>
  The environment fingerprint does not depend on the order of the environment, when no
variable is set twice.
\<close>
theorem environment_fingerprint_order:
  assumes "mset env = mset env'" "distinct (env_keys env)"
  shows "environment_fingerprint sha256 env = environment_fingerprint sha256 env'"
  using canonical_env_perm [OF assms] by (simp add: environment_fingerprint_def)

theorem environment_fingerprint_order_witness:
  "environment_fingerprint (map (\<lambda>c. of_nat (of_char c))) [''B=2'', ''A=1'', ''odd''] =
   environment_fingerprint (map (\<lambda>c. of_nat (of_char c))) [''A=1'', ''odd'', ''B=2'']"
  by (rule environment_fingerprint_order) (simp_all add: add_mset_commute)

section \<open>Sessions\<close>

text \<open>
Normalising a session binding policy is idempotent: the daemon, which normalises the policy
of a request again, reaches the policy the client computed.
\<close>
theorem binding_normal_form:
  assumes "normalize_binding p = Inr q"
  shows "normalize_binding q = Inr q"
  using assms by (rule normalize_binding_idem)

theorem binding_normal_form_witness:
  "normalize_binding \<lparr>bd_mode = mode_ancestor_name, bd_depth = 0, bd_name = ''zsh'', bd_names = [''zsh'']\<rparr>
   = Inr \<lparr>bd_mode = mode_ancestor_name, bd_depth = 0, bd_name = ''zsh'', bd_names = [''zsh'']\<rparr>"
  by (rule binding_normal_form
      [of "\<lparr>bd_mode = mode_ancestor_name, bd_depth = 0, bd_name = '''', bd_names = ['' zsh'', ''zsh'']\<rparr>"])
    code_simp

text \<open>
The aliases a resolve request asks for are stored sorted and without duplicates, each is a
well-formed alias that the caller named, and the daemon's check accepts the stored list.
\<close>
theorem requested_aliases_normal:
  assumes "with_requested_aliases r raws = Inr r'"
  shows "sorted (sv_aliases r') \<and> distinct (sv_aliases r') \<and>
    set (sv_aliases r') = trim_space ` set raws \<and> list_all alias_ok (sv_aliases r') \<and>
    validate_normalized_aliases (sv_aliases r') = None"
proof -
  from assms have n: "normalize_aliases raws = Inr (sv_aliases r')"
    by (auto simp: with_requested_aliases_def split: sum.splits)
  have "list_all alias_ok (sv_aliases r')"
    using normalize_aliases_Inr(4) [OF n] by (simp add: list_all_iff)
  moreover have "validate_normalized_aliases (sv_aliases r') = None"
    using normalize_aliases_Inr(5) [OF n] by (simp add: validate_normalized_aliases_def)
  ultimately show ?thesis using normalize_aliases_Inr(1-3) [OF n] by blast
qed

theorem requested_aliases_normal_witness:
  "validate_normalized_aliases [''A'', ''B''] = None"
proof -
  define r where "r = \<lparr>sv_token = ''astok_1'', sv_command = [''env''], sv_executable = ''/usr/bin/env'',
    sv_identity = sample_identity, sv_cwd = ''/work'', sv_env_fingerprint = sample_fingerprint,
    sv_aliases = [], sv_expected_peer = zero_expected_peer\<rparr>"
  have n: "normalize_aliases [''B '', ''A''] = Inr [''A'', ''B'']" by code_simp
  have "with_requested_aliases r [''B '', ''A''] = Inr (r\<lparr>sv_aliases := [''A'', ''B'']\<rparr>)"
    by (simp add: with_requested_aliases_def n)
  from requested_aliases_normal [OF this] show ?thesis by simp
qed

end
