(* ===== verification/Metered.thy ===== *)
theory Metered
  imports Prelude
begin

text \<open>
  The contract that the reusable-approval store and the session store share: a store of entries,
  each with a capacity, that hands out uses in two phases. A use is granted (held), and later
  either delivered (used) or returned. The locale \<open>metered_store\<close> states what one operation may do
  to the meters; its lemmas bound the deliveries of every trace of operations.
\<close>

section \<open>Traces\<close>

datatype 'k label =
  Opened 'k int int | Granted 'k | Delivered 'k | Returned 'k | Quiet

inductive trace :: "('s \<Rightarrow> 'l \<Rightarrow> 's \<Rightarrow> bool) \<Rightarrow> 's \<Rightarrow> 'l list \<Rightarrow> 's \<Rightarrow> bool"
  for step s0 where
  trace_Nil: "trace step s0 [] s0"
| trace_snoc: "trace step s0 ls s \<Longrightarrow> step s l s' \<Longrightarrow> trace step s0 (ls @ [l]) s'"

text \<open>What a trace says about one entry: its capacity, the deliveries, the uses still held.\<close>

fun capacity_of :: "'k \<Rightarrow> 'k label list \<Rightarrow> int" where
  "capacity_of k [] = 0"
| "capacity_of k (l # ls) =
     (case l of Opened j n h \<Rightarrow> if j = k then n else capacity_of k ls | _ \<Rightarrow> capacity_of k ls)"

fun delivered_in :: "'k \<Rightarrow> 'k label list \<Rightarrow> int" where
  "delivered_in k [] = 0"
| "delivered_in k (l # ls) = (if l = Delivered k then 1 else 0) + delivered_in k ls"

fun held_change :: "'k \<Rightarrow> 'k label \<Rightarrow> int" where
  "held_change k (Opened j n h) = (if j = k then h else 0)"
| "held_change k (Granted j) = (if j = k then 1 else 0)"
| "held_change k (Delivered j) = (if j = k then - 1 else 0)"
| "held_change k (Returned j) = (if j = k then - 1 else 0)"
| "held_change k Quiet = 0"

definition held_in :: "'k \<Rightarrow> 'k label list \<Rightarrow> int" where
  "held_in k ls = sum_list (map (held_change k) ls)"

definition opened_in :: "'k \<Rightarrow> 'k label list \<Rightarrow> bool" where
  "opened_in k ls \<longleftrightarrow> (\<exists>n h. Opened k n h \<in> set ls)"

text \<open>
  The discipline of the callers: a use is delivered or returned only while it is held, and an id
  is opened once (ids are random).
\<close>

fun allowed_after :: "'k label list \<Rightarrow> 'k label \<Rightarrow> bool" where
  "allowed_after ls (Opened k n h) \<longleftrightarrow> \<not> opened_in k ls"
| "allowed_after ls (Delivered k) \<longleftrightarrow> 0 < held_in k ls"
| "allowed_after ls (Returned k) \<longleftrightarrow> 0 < held_in k ls"
| "allowed_after ls (Granted k) \<longleftrightarrow> True"
| "allowed_after ls Quiet \<longleftrightarrow> True"

definition disciplined :: "'k label list \<Rightarrow> bool" where
  "disciplined ls \<longleftrightarrow> (\<forall>i < length ls. allowed_after (take i ls) (ls ! i))"

lemma disciplined_Nil [simp]: "disciplined []"
  by (simp add: disciplined_def)

lemma disciplined_snoc [simp]:
  "disciplined (ls @ [l]) \<longleftrightarrow> disciplined ls \<and> allowed_after ls l"
  by (auto simp: disciplined_def nth_append less_Suc_eq)

lemma capacity_of_snoc:
  "capacity_of k (ls @ [l]) =
     (if opened_in k ls then capacity_of k ls
      else (case l of Opened j n h \<Rightarrow> if j = k then n else capacity_of k ls | _ \<Rightarrow> capacity_of k ls))"
  by (induction ls) (auto simp: opened_in_def split: label.splits)

lemma delivered_in_snoc [simp]:
  "delivered_in k (ls @ [l]) = delivered_in k ls + (if l = Delivered k then 1 else 0)"
  by (induction ls) auto

lemma held_in_snoc [simp]: "held_in k (ls @ [l]) = held_in k ls + held_change k l"
  by (simp add: held_in_def)

lemma ledger_Nil [simp]: "held_in k [] = 0" "\<not> opened_in k []"
  by (simp_all add: held_in_def opened_in_def)

lemma opened_in_snoc [simp]:
  "opened_in k (ls @ [l]) \<longleftrightarrow> opened_in k ls \<or> (\<exists>n h. l = Opened k n h)"
  by (auto simp: opened_in_def)

section \<open>The contract\<close>

text \<open>
  \<open>meter s k\<close> is the capacity, the used and the held uses of entry \<open>k\<close>. An operation may always
  drop entries (they expire, are spent, removed or cleared).
\<close>

definition kept_or_dropped :: "('k \<Rightarrow> 'm option) \<Rightarrow> ('k \<Rightarrow> 'm option) \<Rightarrow> 'k set \<Rightarrow> bool" where
  "kept_or_dropped m m' K \<longleftrightarrow> (\<forall>j. j \<notin> K \<longrightarrow> m' j = None \<or> m' j = m j)"

lemma kept_or_dropped_refl [simp]: "kept_or_dropped m m K"
  by (simp add: kept_or_dropped_def)

locale metered_store =
  fixes meter :: "'s \<Rightarrow> 'k \<Rightarrow> (int \<times> int \<times> int) option"
    and inv :: "'s \<Rightarrow> bool"
    and step :: "'s \<Rightarrow> 'k label \<Rightarrow> 's \<Rightarrow> bool"
  assumes inv_step: "inv s \<Longrightarrow> step s l s' \<Longrightarrow> inv s'"
    and opened: "inv s \<Longrightarrow> step s (Opened k n h) s' \<Longrightarrow>
      kept_or_dropped (meter s) (meter s') {k} \<and> 0 \<le> h \<and> h \<le> n \<and> meter s' k = Some (n, 0, h)"
    and granted: "inv s \<Longrightarrow> step s (Granted k) s' \<Longrightarrow>
      kept_or_dropped (meter s) (meter s') {k} \<and>
      (\<exists>n u h. meter s k = Some (n, u, h) \<and> u + h < n \<and> meter s' k = Some (n, u, h + 1))"
    and delivered: "inv s \<Longrightarrow> step s (Delivered k) s' \<Longrightarrow>
      kept_or_dropped (meter s) (meter s') {k} \<and>
      (meter s' k = None \<or>
        (\<exists>n u h. meter s k = Some (n, u, h) \<and> (0 < h \<longrightarrow> meter s' k = Some (n, u + 1, h - 1))))"
    and returned: "inv s \<Longrightarrow> step s (Returned k) s' \<Longrightarrow>
      kept_or_dropped (meter s) (meter s') {k} \<and>
      (meter s' k = None \<or>
        (\<exists>n u h. meter s k = Some (n, u, h) \<and> (0 < h \<longrightarrow> meter s' k = Some (n, u, h - 1))))"
    and quiet: "inv s \<Longrightarrow> step s Quiet s' \<Longrightarrow> kept_or_dropped (meter s) (meter s') {}"
begin

text \<open>The invariant of a trace that starts in an empty store.\<close>

definition accounted :: "'k label list \<Rightarrow> 's \<Rightarrow> bool" where
  "accounted ls s \<longleftrightarrow> inv s \<and>
     (\<forall>k. 0 \<le> held_in k ls \<and> delivered_in k ls + held_in k ls \<le> capacity_of k ls \<and>
        (\<not> opened_in k ls \<longrightarrow> held_in k ls = 0 \<and> delivered_in k ls = 0 \<and> capacity_of k ls = 0) \<and>
        (\<forall>n u h. meter s k = Some (n, u, h) \<longrightarrow>
           opened_in k ls \<and> n = capacity_of k ls \<and> u = delivered_in k ls \<and> h = held_in k ls))"

lemma accountedD:
  assumes "accounted ls s"
  shows "inv s" "0 \<le> held_in k ls" "delivered_in k ls + held_in k ls \<le> capacity_of k ls"
    "\<not> opened_in k ls \<Longrightarrow> held_in k ls = 0 \<and> delivered_in k ls = 0 \<and> capacity_of k ls = 0"
    "meter s k = Some (n, u, h) \<Longrightarrow>
       opened_in k ls \<and> n = capacity_of k ls \<and> u = delivered_in k ls \<and> h = held_in k ls"
  using assms unfolding accounted_def by blast+

lemma accounted_other:
  assumes "accounted ls s" "kept_or_dropped (meter s) (meter s') K" "k \<notin> K"
    and "meter s' k = Some (n, u, h)"
  shows "opened_in k ls \<and> n = capacity_of k ls \<and> u = delivered_in k ls \<and> h = held_in k ls"
proof -
  have "meter s k = Some (n, u, h)" using assms(2-4) by (auto simp: kept_or_dropped_def)
  then show ?thesis by (rule accountedD(5) [OF assms(1)])
qed

lemma accounted_step:
  assumes acc: "accounted ls s" and st: "step s l s'" and ok: "allowed_after ls l"
  shows "accounted (ls @ [l]) s'"
  unfolding accounted_def
proof (intro conjI allI)
  show "inv s'" using inv_step [OF accountedD(1) [OF acc] st] .
next
  fix k
  note A = accountedD [OF acc]
  show "0 \<le> held_in k (ls @ [l])"
    using A(2) [of k] opened [OF A(1), of _ _ _ s'] st ok by (cases l) auto
next
  fix k
  note A = accountedD [OF acc]
  show "delivered_in k (ls @ [l]) + held_in k (ls @ [l]) \<le> capacity_of k (ls @ [l])"
  proof (cases l)
    case (Opened j n h)
    then show ?thesis
      using A(3) [of k] A(4) [of k] opened [OF A(1), of j n h s'] st ok
      by (auto simp: capacity_of_snoc)
  next
    case (Granted j)
    obtain n u h where "meter s j = Some (n, u, h)" "u + h < n"
      using granted [OF A(1), of j s'] st Granted by auto
    with A(5) [of j n u h] Granted show ?thesis
      using A(3) [of k] by (auto simp: capacity_of_snoc)
  qed (use A(3) [of k] in \<open>auto simp: capacity_of_snoc\<close>)
next
  fix k
  note A = accountedD [OF acc]
  show "\<not> opened_in k (ls @ [l]) \<longrightarrow> held_in k (ls @ [l]) = 0 \<and> delivered_in k (ls @ [l]) = 0 \<and>
      capacity_of k (ls @ [l]) = 0"
  proof
    assume n: "\<not> opened_in k (ls @ [l])"
    then have z: "held_in k ls = 0" "delivered_in k ls = 0" "capacity_of k ls = 0"
      using A(4) [of k] by auto
    have "l \<noteq> Granted k"
    proof
      assume "l = Granted k"
      then obtain n u h where "meter s k = Some (n, u, h)"
        using granted [OF A(1), of k s'] st by auto
      from A(5) [OF this] n show False by simp
    qed
    with n z ok show "held_in k (ls @ [l]) = 0 \<and> delivered_in k (ls @ [l]) = 0 \<and>
      capacity_of k (ls @ [l]) = 0"
      by (cases l) (auto simp: capacity_of_snoc)
  qed
next
  fix k n u h
  note A = accountedD [OF acc]
  note O = accounted_other [OF acc, of s' _ k n u h]
  show "meter s' k = Some (n, u, h) \<longrightarrow> opened_in k (ls @ [l]) \<and> n = capacity_of k (ls @ [l]) \<and>
      u = delivered_in k (ls @ [l]) \<and> h = held_in k (ls @ [l])"
  proof
    assume m: "meter s' k = Some (n, u, h)"
    show "opened_in k (ls @ [l]) \<and> n = capacity_of k (ls @ [l]) \<and>
      u = delivered_in k (ls @ [l]) \<and> h = held_in k (ls @ [l])"
    proof (cases l)
      case (Opened j n' h')
      then show ?thesis
        using opened [OF A(1), of j n' h' s'] st ok m O [of "{j}"] A(4) [of k]
        by (cases "j = k") (auto simp: capacity_of_snoc)
    next
      case (Granted j)
      show ?thesis
      proof (cases "j = k")
        case True
        then obtain n' u' h' where m': "meter s k = Some (n', u', h')"
          "meter s' k = Some (n', u', h' + 1)"
          using granted [OF A(1), of j s'] st Granted by auto
        from A(5) [OF m'(1)] m m'(2) Granted True show ?thesis
          by (simp add: capacity_of_snoc)
      next
        case False
        then show ?thesis using granted [OF A(1), of j s'] st Granted m O [of "{j}"]
          by (simp add: capacity_of_snoc)
      qed
    next
      case (Delivered j)
      show ?thesis
      proof (cases "j = k")
        case True
        then obtain n' u' h' where m': "meter s k = Some (n', u', h')"
          "0 < h' \<longrightarrow> meter s' k = Some (n', u' + 1, h' - 1)"
          using delivered [OF A(1), of j s'] st Delivered m by auto
        from A(5) [OF m'(1)] m m'(2) Delivered True ok show ?thesis
          by (simp add: capacity_of_snoc)
      next
        case False
        then show ?thesis using delivered [OF A(1), of j s'] st Delivered m O [of "{j}"]
          by (simp add: capacity_of_snoc)
      qed
    next
      case (Returned j)
      show ?thesis
      proof (cases "j = k")
        case True
        then obtain n' u' h' where m': "meter s k = Some (n', u', h')"
          "0 < h' \<longrightarrow> meter s' k = Some (n', u', h' - 1)"
          using returned [OF A(1), of j s'] st Returned m by auto
        from A(5) [OF m'(1)] m m'(2) Returned True ok show ?thesis
          by (simp add: capacity_of_snoc)
      next
        case False
        then show ?thesis using returned [OF A(1), of j s'] st Returned m O [of "{j}"]
          by (simp add: capacity_of_snoc)
      qed
    next
      case Quiet
      then show ?thesis using quiet [OF A(1), of s'] st m O [of "{}"]
        by (simp add: capacity_of_snoc)
    qed
  qed
qed

lemma accounted_trace:
  assumes "trace step s0 ls s" "inv s0" "meter s0 = (\<lambda>_. None)" "disciplined ls"
  shows "accounted ls s"
  using assms
proof (induction rule: trace.induct)
  case trace_Nil
  then show ?case by (simp add: accounted_def)
next
  case (trace_snoc ls s l s')
  then show ?case using accounted_step [of ls s l s'] by simp
qed

lemma deliveries_bounded:
  assumes "trace step s0 ls s" "inv s0" "meter s0 = (\<lambda>_. None)" "disciplined ls"
  shows "delivered_in k ls + held_in k ls \<le> capacity_of k ls" "0 \<le> held_in k ls"
  using accountedD [OF accounted_trace [OF assms]] by blast+

lemma meter_agrees:
  assumes "trace step s0 ls s" "inv s0" "meter s0 = (\<lambda>_. None)" "disciplined ls"
    and "meter s k = Some (n, u, h)"
  shows "n = capacity_of k ls" "u = delivered_in k ls" "h = held_in k ls"
  using accountedD(5) [OF accounted_trace [OF assms(1-4)] assms(5)] by blast+

end

end
