(* ===== verification/Policy.thy ===== *)
theory Policy
  imports SessionRequest Metered
begin

text \<open>
  Reusable approvals: \<open>internal/policy/policy.go\<close>. The store maps approval ids to approvals; every
  exported operation is one function here. The lemmas show the order-independence of the lookup
  (Go ranges over the map in an unspecified order), the counter invariant of the store, and the
  bound on the payloads one approval can deliver.
\<close>

section \<open>Data\<close>

datatype secret_grant =
  SecretGrant (g_alias: string) (g_ref: string) (g_account: string) (g_source: string)
    (g_token_alias: string) (g_api_url: string) (g_identity_url: string)

text \<open>The comparison function given to \<open>slices.SortFunc\<close>: field by field, in this order.\<close>

definition grant_fields :: "secret_grant \<Rightarrow> string list" where
  "grant_fields g = [g_alias g, g_ref g, g_account g, g_source g, g_token_alias g, g_api_url g,
     g_identity_url g]"

lemma grant_fields_inj [simp]: "grant_fields a = grant_fields b \<longleftrightarrow> a = b"
  by (cases a; cases b) (simp add: grant_fields_def)

instantiation secret_grant :: linorder
begin

definition less_eq_secret_grant :: "secret_grant \<Rightarrow> secret_grant \<Rightarrow> bool" where
  "less_eq_secret_grant a b \<longleftrightarrow> grant_fields a \<le> grant_fields b"

definition less_secret_grant :: "secret_grant \<Rightarrow> secret_grant \<Rightarrow> bool" where
  "less_secret_grant a b \<longleftrightarrow> grant_fields a < grant_fields b"

instance
  by standard (auto simp: less_eq_secret_grant_def less_secret_grant_def less_le)

end

record reuse_key =
  rk_reason :: string
  rk_command :: "string list"
  rk_executable :: string
  rk_identity :: identity
  rk_cwd :: string
  rk_env_fingerprint :: string
  rk_secrets :: "secret_grant list"
  rk_ttl :: duration
  rk_reusable_uses :: int
  rk_override_env :: bool
  rk_overridden :: "string list"

record reusable_approval =
  ra_id :: string
  ra_nonce :: string
  ra_key :: reuse_key
  ra_expires_at :: go_time
  ra_max_uses :: int
  ra_uses :: int
  ra_reserved :: int

record reuse_metadata =
  rm_approval_id :: string
  rm_remaining_ttl :: duration
  rm_remaining_uses :: int

record approval_spec =
  as_request :: exec_request
  as_id :: string
  as_nonce :: string
  as_max_uses :: int
  as_reserved :: int

text \<open>
  \<open>ReusableApprovalError\<close>: an error, with the snapshot of the stale approval when there is one.
\<close>

type_synonym policy_failure = "reusable_approval option \<times> err"

text \<open>\<open>Store.approvals\<close>; the clock and the random source are arguments of the operations.\<close>

type_synonym policy_store = "string \<rightharpoonup> reusable_approval"

text \<open>\<open>DeliveryResult\<close> is a string type; its two constants.\<close>

definition delivery_pre_payload_failure :: string where
  "delivery_pre_payload_failure = ''pre_payload_failure''"

definition delivery_payload_delivered :: string where
  "delivery_payload_delivered = ''payload_delivered''"

lemmas delivery_defs = delivery_pre_payload_failure_def delivery_payload_delivered_def

lemma delivery_distinct [simp]:
  "delivery_pre_payload_failure \<noteq> delivery_payload_delivered"
  "delivery_payload_delivered \<noteq> delivery_pre_payload_failure"
  by (simp_all add: delivery_defs)

abbreviation policy_error_of :: "policy_error \<Rightarrow> err" where
  "policy_error_of e \<equiv> Err (PolicyErr e)"

section \<open>The reuse key\<close>

definition grant_of_secret :: "secret \<Rightarrow> secret_grant" where
  "grant_of_secret s =
     SecretGrant (se_alias s) (rf_raw (se_ref s)) (se_account s) (se_source s)
       (bw_token_alias (se_bitwarden s)) (bw_api_url (se_bitwarden s))
       (bw_identity_url (se_bitwarden s))"

definition new_reuse_key :: "exec_request \<Rightarrow> reuse_key" where
  "new_reuse_key r =
     \<lparr>rk_reason = er_reason r, rk_command = er_command r, rk_executable = er_executable r,
      rk_identity = er_identity r, rk_cwd = er_cwd r, rk_env_fingerprint = er_env_fingerprint r,
      rk_secrets = sort (map grant_of_secret (er_secrets r)), rk_ttl = er_ttl r,
      rk_reusable_uses = reusable_uses_or_default (er_reusable_uses r),
      rk_override_env = er_override_env r, rk_overridden = sort (er_overridden r)\<rparr>"

definition reuse_key_equal :: "reuse_key \<Rightarrow> reuse_key \<Rightarrow> bool" where
  "reuse_key_equal k k' \<longleftrightarrow>
     rk_reason k = rk_reason k' \<and> rk_command k = rk_command k' \<and>
     rk_executable k = rk_executable k' \<and> rk_identity k = rk_identity k' \<and>
     rk_cwd k = rk_cwd k' \<and> rk_env_fingerprint k = rk_env_fingerprint k' \<and>
     rk_secrets k = rk_secrets k' \<and> rk_ttl k = rk_ttl k' \<and>
     rk_reusable_uses k = rk_reusable_uses k' \<and> rk_override_env k = rk_override_env k' \<and>
     rk_overridden k = rk_overridden k'"

section \<open>Adding an approval\<close>

text \<open>
  \<open>AddReusable\<close>. \<open>rid\<close> and \<open>rnonce\<close> are the reads of the random source that \<open>randomID\<close> makes
  for the id and for the nonce, when the spec leaves them empty.
\<close>

definition id_or_random :: "random_read \<Rightarrow> string \<Rightarrow> string \<Rightarrow> err + string" where
  "id_or_random r prefix given = (if given = '''' then generate_id r prefix else Inr given)"

definition add_reusable ::
  "random_read \<Rightarrow> random_read \<Rightarrow> policy_store \<Rightarrow> approval_spec \<Rightarrow>
   policy_store \<times> (err + reusable_approval)" where
  "add_reusable rid rnonce st spec =
     (let max0 = (if as_max_uses spec = 0 then er_reusable_uses (as_request spec)
                  else as_max_uses spec);
          max_uses = reusable_uses_or_default max0;
          reserved = as_reserved spec
      in if max_uses < 1 \<or> max_uses > max_reusable_uses
         then (st, Inl (Err (RequestErr ErrInvalidReusableUses)))
         else if reserved < 0 \<or> reserved > max_uses
         then (st, Inl (policy_error_of ErrUseExhausted))
         else
           (let req = (as_request spec)\<lparr>er_reusable_uses := max_uses\<rparr>
            in case id_or_random rid ''appr'' (as_id spec) of
                 Inl e \<Rightarrow> (st, Inl e)
               | Inr i \<Rightarrow>
                   (case id_or_random rnonce ''nonce'' (as_nonce spec) of
                      Inl e \<Rightarrow> (st, Inl e)
                    | Inr n \<Rightarrow>
                        (let a = \<lparr>ra_id = i, ra_nonce = n, ra_key = new_reuse_key req,
                               ra_expires_at = er_expires_at req, ra_max_uses = max_uses,
                               ra_uses = 0, ra_reserved = reserved\<rparr>
                         in (st(i \<mapsto> a), Inr a)))))"

section \<open>Looking up an approval\<close>

definition remaining_uses :: "reusable_approval \<Rightarrow> int" where
  "remaining_uses a = ra_max_uses a - ra_uses a - ra_reserved a"

definition spent :: "reusable_approval \<Rightarrow> bool" where
  "spent a \<longleftrightarrow> ra_uses a \<ge> ra_max_uses a \<and> ra_reserved a = 0"

definition first_some :: "'a option \<Rightarrow> 'a \<Rightarrow> 'a option" where
  "first_some o1 x = (case o1 of None \<Rightarrow> Some x | Some y \<Rightarrow> Some y)"

text \<open>
  The loop of \<open>findReusableLocked\<close> over the ids in the order the map iteration visits them; the
  accumulators are \<open>expired\<close> and \<open>exhausted\<close>. A hit is the id with its approval.
\<close>

fun find_loop ::
  "reuse_key \<Rightarrow> go_time \<Rightarrow> string list \<Rightarrow> policy_store \<Rightarrow> reusable_approval option \<Rightarrow>
   reusable_approval option \<Rightarrow>
   policy_store \<times> (policy_failure + string \<times> reusable_approval \<times> reuse_metadata)" where
  "find_loop key now [] st expired exhausted =
     (st,
      (case expired of
         Some a \<Rightarrow> Inl (Some a, policy_error_of ErrExpired)
       | None \<Rightarrow>
           (case exhausted of
              Some a \<Rightarrow> Inl (Some a, policy_error_of ErrUseExhausted)
            | None \<Rightarrow> Inl (None, policy_error_of ErrMismatch))))"
| "find_loop key now (i # is) st expired exhausted =
     (case st i of
        None \<Rightarrow> find_loop key now is st expired exhausted
      | Some a \<Rightarrow>
          if \<not> reuse_key_equal (ra_key a) key then find_loop key now is st expired exhausted
          else if \<not> now < ra_expires_at a
          then find_loop key now is (st(i := None)) (first_some expired a) exhausted
          else if remaining_uses a \<le> 0
          then find_loop key now is (if spent a then st(i := None) else st) expired
                 (first_some exhausted a)
          else (st, Inr (i, a, \<lparr>rm_approval_id = ra_id a,
                               rm_remaining_ttl = time_sub (ra_expires_at a) now,
                               rm_remaining_uses = remaining_uses a\<rparr>)))"

definition find_reusable ::
  "string list \<Rightarrow> go_time \<Rightarrow> policy_store \<Rightarrow> exec_request \<Rightarrow>
   policy_store \<times> (policy_failure + string \<times> reusable_approval \<times> reuse_metadata)" where
  "find_reusable order now st r = find_loop (new_reuse_key r) now order st None None"

definition match_reusable ::
  "string list \<Rightarrow> go_time \<Rightarrow> policy_store \<Rightarrow> exec_request \<Rightarrow>
   policy_store \<times> (policy_failure + reusable_approval \<times> reuse_metadata)" where
  "match_reusable order now st r =
     (case find_reusable order now st r of
        (st', Inl f) \<Rightarrow> (st', Inl f)
      | (st', Inr (i, a, m)) \<Rightarrow> (st', Inr (a, m)))"

definition reserve_reusable ::
  "string list \<Rightarrow> go_time \<Rightarrow> policy_store \<Rightarrow> exec_request \<Rightarrow>
   policy_store \<times> (policy_failure + reusable_approval \<times> reuse_metadata)" where
  "reserve_reusable order now st r =
     (case find_reusable order now st r of
        (st', Inl f) \<Rightarrow> (st', Inl f)
      | (st', Inr (i, a, m)) \<Rightarrow>
          (let a' = a\<lparr>ra_reserved := ra_reserved a + 1\<rparr> in (st'(i \<mapsto> a'), Inr (a', m))))"

section \<open>Finishing, removing, clearing\<close>

definition give_back :: "reusable_approval \<Rightarrow> reusable_approval" where
  "give_back a = (if ra_reserved a > 0 then a\<lparr>ra_reserved := ra_reserved a - 1\<rparr> else a)"

definition use_up :: "reusable_approval \<Rightarrow> reusable_approval" where
  "use_up a = (give_back a)\<lparr>ra_uses := ra_uses a + 1\<rparr>"

definition finish_reusable_attempt ::
  "go_time \<Rightarrow> policy_store \<Rightarrow> string \<Rightarrow> string \<Rightarrow>
   policy_store \<times> (policy_failure + reusable_approval)" where
  "finish_reusable_attempt now st i result =
     (case st i of
        None \<Rightarrow> (st, Inl (None, policy_error_of ErrMismatch))
      | Some a \<Rightarrow>
          if \<not> now < ra_expires_at a
          then (st(i := None), Inl (Some a, policy_error_of ErrExpired))
          else if result = delivery_payload_delivered then
            (let a' = use_up a
             in (if spent a' then st(i := None) else st(i \<mapsto> a'), Inr a'))
          else if result = delivery_pre_payload_failure then
            (let a' = give_back a
             in (if spent a' then st(i := None) else st(i \<mapsto> a'), Inr a'))
          else (st, Inl (None, policy_error_of ErrInvalidDeliveryResult)))"

definition remove_reusable :: "policy_store \<Rightarrow> string \<Rightarrow> policy_store \<times> bool" where
  "remove_reusable st i = (case st i of None \<Rightarrow> (st, False) | Some _ \<Rightarrow> (st(i := None), True))"

definition clear_reusable :: "policy_store \<Rightarrow> policy_store" where
  "clear_reusable st = Map.empty"

section \<open>The lookup\<close>

lemma reuse_key_equal_iff [simp]: "reuse_key_equal k k' \<longleftrightarrow> k = k'"
  by (auto simp: reuse_key_equal_def intro: reuse_key.equality)

definition live_match :: "reuse_key \<Rightarrow> go_time \<Rightarrow> reusable_approval \<Rightarrow> bool" where
  "live_match key now a \<longleftrightarrow> ra_key a = key \<and> now < ra_expires_at a \<and> 0 < remaining_uses a"

definition expired_match :: "reuse_key \<Rightarrow> go_time \<Rightarrow> reusable_approval \<Rightarrow> bool" where
  "expired_match key now a \<longleftrightarrow> ra_key a = key \<and> \<not> now < ra_expires_at a"

definition exhausted_match :: "reuse_key \<Rightarrow> go_time \<Rightarrow> reusable_approval \<Rightarrow> bool" where
  "exhausted_match key now a \<longleftrightarrow> ra_key a = key \<and> now < ra_expires_at a \<and> remaining_uses a \<le> 0"

lemmas match_defs = live_match_def expired_match_def exhausted_match_def

lemma first_some_neq [simp]: "first_some o1 x \<noteq> None"
  by (cases o1) (simp_all add: first_some_def)

lemma first_some_set [simp]: "set_option (first_some o1 x) = (if o1 = None then {x} else set_option o1)"
  by (cases o1) (simp_all add: first_some_def)

text \<open>What the pruning removes: the expired matches and the used-up ones, nothing else.\<close>

definition pruned :: "reuse_key \<Rightarrow> go_time \<Rightarrow> reusable_approval \<Rightarrow> bool" where
  "pruned key now a \<longleftrightarrow> expired_match key now a \<or> exhausted_match key now a \<and> spent a"

lemma find_loop_ConsE:
  assumes "find_loop key now (i # is) st o1 o2 = (st', r)"
  obtains (skip) "\<And>a. st i = Some a \<Longrightarrow> ra_key a \<noteq> key" "find_loop key now is st o1 o2 = (st', r)"
  | (expired) a where "st i = Some a" "expired_match key now a"
      "find_loop key now is (st(i := None)) (first_some o1 a) o2 = (st', r)"
  | (exhausted) a where "st i = Some a" "exhausted_match key now a"
      "find_loop key now is (if spent a then st(i := None) else st) o1 (first_some o2 a) = (st', r)"
  | (hit) a where "st i = Some a" "live_match key now a" "st' = st"
      "r = Inr (i, a, \<lparr>rm_approval_id = ra_id a, rm_remaining_ttl = time_sub (ra_expires_at a) now,
          rm_remaining_uses = remaining_uses a\<rparr>)"
proof (cases "st i")
  case None
  then show thesis using assms skip by simp
next
  case (Some a)
  consider "ra_key a \<noteq> key" | "expired_match key now a" | "exhausted_match key now a"
    | "live_match key now a" by (force simp: match_defs)
  then show thesis
    using assms Some skip expired [OF Some] exhausted [OF Some] hit [OF Some]
    by cases (simp_all add: match_defs)
qed

lemma not_live [dest]:
  "expired_match key now a \<Longrightarrow> \<not> live_match key now a"
  "exhausted_match key now a \<Longrightarrow> \<not> live_match key now a"
  "exhausted_match key now a \<Longrightarrow> \<not> expired_match key now a"
  "pruned key now a \<Longrightarrow> ra_key a = key \<and> \<not> live_match key now a"
  by (auto simp: match_defs pruned_def)

lemma find_loop_dropped:
  "find_loop key now is st o1 o2 = (st', r) \<Longrightarrow>
     st' j = st j \<or> (\<exists>a. st j = Some a \<and> pruned key now a \<and> st' j = None \<and> j \<in> set is)"
proof (induction "is" arbitrary: st o1 o2)
  case (Cons i "is")
  from Cons.prems show ?case
  proof (cases rule: find_loop_ConsE)
    case (expired a)
    with Cons.IH [OF expired(3)] show ?thesis by (cases "j = i") (auto simp: pruned_def)
  next
    case (exhausted a)
    with Cons.IH [OF exhausted(3)] show ?thesis
      by (cases "j = i"; cases "spent a") (auto simp: pruned_def)
  next
    case skip
    with Cons.IH [OF skip(2)] show ?thesis by auto
  qed auto
qed simp

lemma find_loop_hit:
  "find_loop key now is st o1 o2 = (st', Inr (i, a, m)) \<Longrightarrow>
     i \<in> set is \<and> st i = Some a \<and> st' i = Some a \<and> live_match key now a \<and>
     m = \<lparr>rm_approval_id = ra_id a, rm_remaining_ttl = time_sub (ra_expires_at a) now,
          rm_remaining_uses = remaining_uses a\<rparr>"
proof (induction "is" arbitrary: st o1 o2)
  case Nil
  then show ?case by (auto split: option.splits)
next
  case (Cons j "is")
  from Cons.prems show ?case
  proof (cases rule: find_loop_ConsE)
    case (expired b)
    with Cons.IH [OF expired(3)] show ?thesis by (auto split: if_splits)
  next
    case (exhausted b)
    with Cons.IH [OF exhausted(3)] show ?thesis by (auto split: if_splits)
  qed (use Cons.IH in auto)
qed

lemma find_loop_miss:
  "find_loop key now is st o1 o2 = (st', Inl f) \<Longrightarrow> i \<in> set is \<Longrightarrow> st i = Some a \<Longrightarrow>
     \<not> live_match key now a \<and> (pruned key now a \<longrightarrow> st' i = None)"
proof (induction "is" arbitrary: st o1 o2)
  case (Cons j "is")
  from Cons.prems(1) show ?case
  proof (cases rule: find_loop_ConsE)
    case skip
    show ?thesis
    proof (cases "i \<in> set is")
      case True
      with Cons.IH [OF skip(2)] Cons.prems show ?thesis by simp
    next
      case False
      with Cons.prems skip(1) show ?thesis by (auto simp: live_match_def dest: not_live(4))
    qed
  next
    case (expired b)
    show ?thesis
    proof (cases "i = j")
      case True
      with find_loop_dropped [OF expired(3), of i] expired Cons.prems show ?thesis by auto
    next
      case False
      with Cons.IH [OF expired(3)] Cons.prems show ?thesis by simp
    qed
  next
    case (exhausted b)
    show ?thesis
    proof (cases "i = j")
      case True
      with find_loop_dropped [OF exhausted(3), of i] exhausted Cons.prems show ?thesis
        by (auto simp: pruned_def)
    next
      case False
      with Cons.IH [OF exhausted(3)] Cons.prems show ?thesis by simp
    qed
  qed auto
qed simp

text \<open>The error of a miss does not depend on the order of the iteration.\<close>

definition some_match :: "(reusable_approval \<Rightarrow> bool) \<Rightarrow> string set \<Rightarrow> policy_store \<Rightarrow> bool" where
  "some_match P I st \<longleftrightarrow> (\<exists>i \<in> I. \<exists>a. st i = Some a \<and> P a)"

lemma some_match_simps [simp]:
  "\<not> some_match P {} st"
  "some_match P (insert i I) st \<longleftrightarrow> (\<exists>a. st i = Some a \<and> P a) \<or> some_match P I st"
  "i \<notin> I \<Longrightarrow> some_match P I (st(i := x)) \<longleftrightarrow> some_match P I st"
  by (auto simp: some_match_def)

lemma find_loop_error:
  "find_loop key now is st o1 o2 = (st', Inl (s, e)) \<Longrightarrow> distinct is \<Longrightarrow>
   e = policy_error_of
      (if o1 \<noteq> None \<or> some_match (expired_match key now) (set is) st then ErrExpired
       else if o2 \<noteq> None \<or> some_match (exhausted_match key now) (set is) st
       then ErrUseExhausted else ErrMismatch)"
proof (induction "is" arbitrary: st o1 o2)
  case Nil
  then show ?case by (auto split: option.splits)
next
  case (Cons i "is")
  from Cons.prems(1) show ?case
  proof (cases rule: find_loop_ConsE)
    case skip
    then have "\<And>a. st i = Some a \<Longrightarrow> \<not> expired_match key now a \<and> \<not> exhausted_match key now a"
      by (auto simp: match_defs)
    with Cons.IH [OF skip(2)] Cons.prems(2) show ?thesis by auto
  next
    case (expired a)
    with Cons.IH [OF expired(3)] Cons.prems(2) show ?thesis by simp
  next
    case (exhausted a)
    have *: "some_match P (set is) (if spent a then st(i := None) else st) = some_match P (set is) st"
      for P using Cons.prems(2) by simp
    show ?thesis
      using Cons.IH [OF exhausted(3), unfolded *] Cons.prems(2) not_live(3) [OF exhausted(2)] exhausted
      by simp
  qed auto
qed

lemma find_reusable_cases:
  assumes "distinct order" "set order = dom st" "find_reusable order now st r = (st', res)"
  shows "(\<exists>i a m. res = Inr (i, a, m) \<and> st i = Some a \<and> live_match (new_reuse_key r) now a) \<or>
    (\<exists>s e. res = Inl (s, e) \<and> (\<forall>a \<in> ran st. \<not> live_match (new_reuse_key r) now a))"
proof (cases res)
  case (Inl f)
  obtain s e where f: "f = (s, e)" by (cases f)
  have "\<not> live_match (new_reuse_key r) now a" if a: "a \<in> ran st" for a
  proof -
    from a obtain i where i: "st i = Some a" by (auto simp: ran_def)
    with assms(2) have "i \<in> set order" by auto
    then show ?thesis
      using find_loop_miss [of "new_reuse_key r" now order st None None st' f i a] i assms(3) Inl
      by (simp add: find_reusable_def)
  qed
  with Inl f show ?thesis by blast
next
  case (Inr x)
  obtain i a m where "x = (i, a, m)" by (cases x)
  with find_loop_hit [of "new_reuse_key r" now order st None None st' i a m] assms(3) Inr
  show ?thesis by (auto simp: find_reusable_def)
qed

section \<open>The counters\<close>

definition approval_ok :: "string \<Rightarrow> reusable_approval \<Rightarrow> bool" where
  "approval_ok i a \<longleftrightarrow> ra_id a = i \<and> 1 \<le> ra_max_uses a \<and> ra_max_uses a \<le> max_reusable_uses \<and>
     0 \<le> ra_uses a \<and> 0 \<le> ra_reserved a \<and> ra_uses a + ra_reserved a \<le> ra_max_uses a \<and> \<not> spent a"

definition policy_ok :: "policy_store \<Rightarrow> bool" where
  "policy_ok st \<longleftrightarrow> (\<forall>i a. st i = Some a \<longrightarrow> approval_ok i a)"

definition policy_meter :: "policy_store \<Rightarrow> string \<Rightarrow> (int \<times> int \<times> int) option" where
  "policy_meter st i = map_option (\<lambda>a. (ra_max_uses a, ra_uses a, ra_reserved a)) (st i)"

lemma policy_ok_upd: "policy_ok st \<Longrightarrow> approval_ok i a \<Longrightarrow> policy_ok (st(i \<mapsto> a))"
  by (simp add: policy_ok_def)

lemma policy_ok_sub: "policy_ok st \<Longrightarrow> (\<And>j. st' j = None \<or> st' j = st j) \<Longrightarrow> policy_ok st'"
  unfolding policy_ok_def by (metis option.distinct(1))

lemma policy_ok_drop: "policy_ok st \<Longrightarrow> policy_ok (st(i := None))"
  by (simp add: policy_ok_def)

lemma policy_okD: "policy_ok st \<Longrightarrow> st i = Some a \<Longrightarrow> approval_ok i a"
  by (simp add: policy_ok_def)

lemma sub_meter:
  "(\<And>j. st' j = None \<or> st' j = st j) \<Longrightarrow> kept_or_dropped (policy_meter st) (policy_meter st') K"
  by (force simp: kept_or_dropped_def policy_meter_def)

lemma meter_upd:
  "kept_or_dropped (policy_meter st) (policy_meter (st(i := x))) {i}"
  by (simp add: kept_or_dropped_def policy_meter_def)

lemma find_reusable_sub:
  "find_reusable order now st r = (st', res) \<Longrightarrow> st' j = None \<or> st' j = st j"
  unfolding find_reusable_def by (drule find_loop_dropped [where j = j]) blast

text \<open>Adding.\<close>

lemma add_reusable_Inr:
  assumes "add_reusable rid rnonce st spec = (st', Inr a)"
  shows "st' = st(ra_id a \<mapsto> a)" "approval_ok (ra_id a) a" "ra_uses a = 0" "ra_reserved a = as_reserved spec" "0 \<le> ra_reserved a"
    "ra_reserved a \<le> ra_max_uses a" "ra_expires_at a = er_expires_at (as_request spec)"
    "ra_key a = new_reuse_key ((as_request spec)\<lparr>er_reusable_uses := ra_max_uses a\<rparr>)"
proof -
  define max_uses where "max_uses = reusable_uses_or_default
    (if as_max_uses spec = 0 then er_reusable_uses (as_request spec) else as_max_uses spec)"
  define req where "req = (as_request spec)\<lparr>er_reusable_uses := max_uses\<rparr>"
  have "\<not> (max_uses < 1 \<or> max_uses > max_reusable_uses)"
    "\<not> (as_reserved spec < 0 \<or> as_reserved spec > max_uses)"
    using assms unfolding add_reusable_def Let_def max_uses_def [symmetric]
    by (auto split: if_splits)
  moreover from this assms obtain i n where
    "st' = st(i \<mapsto> a)" "a = \<lparr>ra_id = i, ra_nonce = n, ra_key = new_reuse_key req,
       ra_expires_at = er_expires_at req, ra_max_uses = max_uses, ra_uses = 0,
       ra_reserved = as_reserved spec\<rparr>"
    unfolding add_reusable_def Let_def max_uses_def [symmetric] req_def [symmetric]
    by (auto split: sum.splits)
  ultimately show "st' = st(ra_id a \<mapsto> a)" "approval_ok (ra_id a) a" "ra_uses a = 0"
    "ra_reserved a = as_reserved spec" "0 \<le> ra_reserved a"
    "ra_reserved a \<le> ra_max_uses a" "ra_expires_at a = er_expires_at (as_request spec)"
    "ra_key a = new_reuse_key ((as_request spec)\<lparr>er_reusable_uses := ra_max_uses a\<rparr>)"
    by (simp_all add: approval_ok_def spent_def req_def)
qed

lemma add_reusable_Inl: "add_reusable rid rnonce st spec = (st', Inl e) \<Longrightarrow> st' = st"
  unfolding add_reusable_def Let_def
  by (auto split: if_split_asm sum.split_asm)

lemma add_reusable_ok: "policy_ok st \<Longrightarrow> policy_ok (fst (add_reusable rid rnonce st spec))"
proof (cases "add_reusable rid rnonce st spec")
  case (Pair st' res)
  assume ok: "policy_ok st"
  show ?thesis
  proof (cases res)
    case (Inl e)
    with Pair ok show ?thesis using add_reusable_Inl [of rid rnonce st spec st' e] by simp
  next
    case (Inr a)
    with Pair have "add_reusable rid rnonce st spec = (st', Inr a)" by simp
    from add_reusable_Inr [OF this] ok Pair show ?thesis by (auto intro: policy_ok_upd)
  qed
qed

text \<open>Matching and reserving.\<close>

lemma match_reusable_sub:
  "match_reusable order now st r = (st', res) \<Longrightarrow> st' j = None \<or> st' j = st j"
  using find_reusable_sub [of order now st r]
  by (auto simp: match_reusable_def split: prod.splits sum.splits)

lemma reserve_reusable_Inl:
  "reserve_reusable order now st r = (st', Inl f) \<Longrightarrow> st' j = None \<or> st' j = st j"
  using find_reusable_sub [of order now st r]
  by (auto simp: reserve_reusable_def Let_def split: prod.splits sum.splits)

lemma reserve_reusable_Inr:
  assumes "reserve_reusable order now st r = (st', Inr (a', m))"
  shows "\<exists>i a st1. find_reusable order now st r = (st1, Inr (i, a, m)) \<and> st i = Some a \<and>
    live_match (new_reuse_key r) now a \<and> a' = a\<lparr>ra_reserved := ra_reserved a + 1\<rparr> \<and>
    st' = st1(i \<mapsto> a')"
proof -
  from assms obtain i a st1 where f: "find_reusable order now st r = (st1, Inr (i, a, m))"
    and "a' = a\<lparr>ra_reserved := ra_reserved a + 1\<rparr>" "st' = st1(i \<mapsto> a')"
    by (auto simp: reserve_reusable_def Let_def split: prod.splits sum.splits)
  with find_loop_hit [OF f [unfolded find_reusable_def]] show ?thesis by blast
qed

lemma reserve_reusable_ok:
  assumes "policy_ok st"
  shows "policy_ok (fst (reserve_reusable order now st r))"
proof (cases "reserve_reusable order now st r")
  case (Pair st' res)
  show ?thesis
  proof (cases res)
    case (Inl f)
    with Pair reserve_reusable_Inl [of order now st r st' f] assms show ?thesis
      by (auto intro: policy_ok_sub)
  next
    case (Inr x)
    obtain a' m where "x = (a', m)" by (cases x)
    with Pair Inr reserve_reusable_Inr [of order now st r st' a' m]
    obtain i a st1 where f: "find_reusable order now st r = (st1, Inr (i, a, m))"
      and a: "st i = Some a" "live_match (new_reuse_key r) now a"
        "a' = a\<lparr>ra_reserved := ra_reserved a + 1\<rparr>" "st' = st1(i \<mapsto> a')" by auto
    have "policy_ok st1" using assms find_reusable_sub [OF f] by (rule policy_ok_sub)
    moreover have "approval_ok i a'"
      using policy_okD [OF assms a(1)] a(2,3)
      by (auto simp: approval_ok_def live_match_def remaining_uses_def spent_def)
    ultimately show ?thesis using Pair a(4) policy_ok_upd by simp
  qed
qed

text \<open>Finishing.\<close>

lemma finish_reusable_attempt_ok:
  assumes "policy_ok st"
  shows "policy_ok (fst (finish_reusable_attempt now st i result))"
proof (cases "st i")
  case None
  with assms show ?thesis by (simp add: finish_reusable_attempt_def)
next
  case (Some a)
  have "spent (give_back a) \<or> approval_ok i (give_back a)" "spent (use_up a) \<or> approval_ok i (use_up a)"
    using policy_okD [OF assms Some]
    by (auto simp: approval_ok_def give_back_def use_up_def spent_def)
  with assms Some show ?thesis
    by (auto simp: finish_reusable_attempt_def Let_def policy_ok_drop policy_ok_upd)
qed

lemma finish_delivered_meter:
  assumes "st i = Some a" "0 < ra_reserved a"
  shows "policy_meter (fst (finish_reusable_attempt now st i delivery_payload_delivered)) i
      \<in> {None, Some (ra_max_uses a, ra_uses a + 1, ra_reserved a - 1)}"
  using assms
  by (auto simp: finish_reusable_attempt_def policy_meter_def Let_def use_up_def give_back_def)

section \<open>The store keeps the contract\<close>

text \<open>The operations as steps, labelled with what they do to the uses of an approval.\<close>

inductive policy_step :: "policy_store \<Rightarrow> string label \<Rightarrow> policy_store \<Rightarrow> bool" where
  step_add: "add_reusable rid rnonce st spec = (st', Inr a) \<Longrightarrow>
     policy_step st (Opened (ra_id a) (ra_max_uses a) (ra_reserved a)) st'"
| step_add_fails: "add_reusable rid rnonce st spec = (st', Inl e) \<Longrightarrow> policy_step st Quiet st'"
| step_reserve: "reserve_reusable order now st r = (st', Inr (a, m)) \<Longrightarrow>
     policy_step st (Granted (ra_id a)) st'"
| step_reserve_fails: "reserve_reusable order now st r = (st', Inl f) \<Longrightarrow> policy_step st Quiet st'"
| step_match: "match_reusable order now st r = (st', res) \<Longrightarrow> policy_step st Quiet st'"
| step_delivered: "finish_reusable_attempt now st i delivery_payload_delivered = (st', res) \<Longrightarrow>
     policy_step st (Delivered i) st'"
| step_returned: "finish_reusable_attempt now st i delivery_pre_payload_failure = (st', res) \<Longrightarrow>
     policy_step st (Returned i) st'"
| step_remove: "remove_reusable st i = (st', b) \<Longrightarrow> policy_step st Quiet st'"
| step_clear: "policy_step st Quiet (clear_reusable st)"

inductive_cases policy_step_openedE: "policy_step st (Opened i n h) st'"
inductive_cases policy_step_grantedE: "policy_step st (Granted i) st'"


lemma remove_reusable_sub: "remove_reusable st i = (st', b) \<Longrightarrow> st' j = None \<or> st' j = st j"
  by (auto simp: remove_reusable_def split: option.splits if_splits)

lemma policy_step_ok: "policy_step st l st' \<Longrightarrow> policy_ok st \<Longrightarrow> policy_ok st'"
proof (induction rule: policy_step.induct)
  case (step_add rid rnonce st spec st' a)
  with add_reusable_ok [of st rid rnonce spec] show ?case by simp
next
  case (step_reserve order now st r st' a m)
  with reserve_reusable_ok [of st order now r] show ?case by simp
next
  case (step_delivered now st i st' res)
  with finish_reusable_attempt_ok [of st now i delivery_payload_delivered] show ?case by simp
next
  case (step_returned now st i st' res)
  with finish_reusable_attempt_ok [of st now i delivery_pre_payload_failure] show ?case by simp
next
  case (step_add_fails rid rnonce st spec st' e)
  with add_reusable_Inl [of rid rnonce st spec st' e] show ?case by simp
next
  case (step_clear st)
  then show ?case by (simp add: policy_ok_def clear_reusable_def)
qed (blast intro: policy_ok_sub dest: reserve_reusable_Inl match_reusable_sub remove_reusable_sub)+

lemma finish_meter_others:
  "finish_reusable_attempt now st i result = (st', res) \<Longrightarrow>
     kept_or_dropped (policy_meter st) (policy_meter st') {i}"
  by (auto simp: finish_reusable_attempt_def Let_def meter_upd split: option.splits if_splits)

interpretation approvals: metered_store policy_meter policy_ok policy_step
proof unfold_locales
  fix s l s'
  assume "policy_ok s" "policy_step s l s'"
  then show "policy_ok s'" using policy_step_ok by blast
next
  fix s k n h s'
  assume ok: "policy_ok s" and "policy_step s (Opened k n h) s'"
  from this(2) obtain rid rnonce spec a where add: "add_reusable rid rnonce s spec = (s', Inr a)"
    and k: "k = ra_id a" "n = ra_max_uses a" "h = ra_reserved a"
    by (auto elim: policy_step_openedE)
  have "s' = s(k \<mapsto> a)" using add_reusable_Inr(1) [OF add] k(1) by simp
  then show "kept_or_dropped (policy_meter s) (policy_meter s') {k} \<and> 0 \<le> h \<and> h \<le> n \<and>
      policy_meter s' k = Some (n, 0, h)"
    using add_reusable_Inr(3,5,6) [OF add] k(2,3) meter_upd [of s k "Some a"]
    by (simp add: policy_meter_def)
next
  fix s k s'
  assume ok: "policy_ok s" and "policy_step s (Granted k) s'"
  from this(2) obtain order now r a' m
    where res: "reserve_reusable order now s r = (s', Inr (a', m))" and k: "k = ra_id a'"
    by (auto elim: policy_step_grantedE)
  from reserve_reusable_Inr [OF res] obtain i a st1
    where f: "find_reusable order now s r = (st1, Inr (i, a, m))" and a: "s i = Some a"
      "live_match (new_reuse_key r) now a" "a' = a\<lparr>ra_reserved := ra_reserved a + 1\<rparr>"
      "s' = st1(i \<mapsto> a')" by blast
  have i: "i = k" using policy_okD [OF ok a(1)] a(3) k by (simp add: approval_ok_def)
  have "kept_or_dropped (policy_meter s) (policy_meter s') {k}"
    using find_reusable_sub [OF f] by (force simp: kept_or_dropped_def policy_meter_def a(4) i)
  then show "kept_or_dropped (policy_meter s) (policy_meter s') {k} \<and>
      (\<exists>n u h. policy_meter s k = Some (n, u, h) \<and> u + h < n \<and> policy_meter s' k = Some (n, u, h + 1))"
    using a i by (auto simp: policy_meter_def live_match_def remaining_uses_def)
next
  fix s k s'
  assume "policy_step s (Delivered k) s'"
  then show "kept_or_dropped (policy_meter s) (policy_meter s') {k} \<and>
      (policy_meter s' k = None \<or> (\<exists>n u h. policy_meter s k = Some (n, u, h) \<and>
        (0 < h \<longrightarrow> policy_meter s' k = Some (n, u + 1, h - 1))))"
  proof (cases rule: policy_step.cases)
    case (step_delivered now res)
    then show ?thesis
      using finish_meter_others [of now s k _ s' res]
      by (auto simp: finish_reusable_attempt_def policy_meter_def Let_def use_up_def give_back_def
          split: option.splits if_splits)
  qed
next
  fix s k s'
  assume "policy_step s (Returned k) s'"
  then show "kept_or_dropped (policy_meter s) (policy_meter s') {k} \<and>
      (policy_meter s' k = None \<or> (\<exists>n u h. policy_meter s k = Some (n, u, h) \<and>
        (0 < h \<longrightarrow> policy_meter s' k = Some (n, u, h - 1))))"
  proof (cases rule: policy_step.cases)
    case (step_returned now res)
    then show ?thesis
      using finish_meter_others [of now s k _ s' res]
      by (auto simp: finish_reusable_attempt_def policy_meter_def Let_def give_back_def
          split: option.splits if_splits)
  qed
next
  fix s s'
  assume "policy_step s Quiet s'"
  then show "kept_or_dropped (policy_meter s) (policy_meter s') {}"
  proof (cases rule: policy_step.cases)
    case (step_add_fails rid rnonce spec e)
    then show ?thesis using add_reusable_Inl [of rid rnonce s spec s' e] by simp
  next
    case step_clear
    then show ?thesis by (simp add: clear_reusable_def sub_meter)
  qed (blast intro: sub_meter dest: reserve_reusable_Inl match_reusable_sub remove_reusable_sub)+
qed

end
