(* ===== verification/PolicyProperties.thy ===== *)
theory PolicyProperties
  imports Policy RequestProperties
begin

text \<open>
  The properties of the reusable-approval store, with instances on the sample request.
\<close>

section \<open>The bound on deliveries\<close>

lemma opened_capacity:
  assumes "trace policy_step st0 ls st" "policy_ok st0"
  shows "Opened i n h \<in> set ls \<Longrightarrow> 1 \<le> n \<and> n \<le> max_reusable_uses"
  using assms
proof (induction rule: trace.induct)
  case (trace_snoc ls s l s')
  show ?case
  proof (cases "l = Opened i n h")
    case True
    with trace_snoc.hyps(2) obtain rid rnonce spec a
      where "add_reusable rid rnonce s spec = (s', Inr a)" "n = ra_max_uses a"
      by (auto elim: policy_step_openedE)
    with add_reusable_Inr(2) show ?thesis by (auto simp: approval_ok_def)
  next
    case False
    with trace_snoc show ?thesis by auto
  qed
qed simp

lemma capacity_of_bound:
  "(\<And>n h. Opened i n h \<in> set ls \<Longrightarrow> n \<le> m) \<Longrightarrow> 0 \<le> m \<Longrightarrow> capacity_of i ls \<le> m"
proof (induction ls)
  case (Cons l ls)
  then have "capacity_of i ls \<le> m" by (meson list.set_intros(2))
  with Cons.prems(1) show ?case by (cases l) auto
qed simp

text \<open>
C12: Starting from an empty store, along every sequence of store operations in which a use is
delivered or returned only while it is held and ids are not reused, the payloads delivered under
an approval plus the uses still held stay within the capacity granted to it, which is at most 20;
and the counters in the store are exactly those numbers.
\<close>
theorem approval_deliveries_bounded:
  assumes "trace policy_step Map.empty ls st" "disciplined ls"
  shows "0 \<le> held_in i ls \<and> delivered_in i ls + held_in i ls \<le> capacity_of i ls \<and>
    capacity_of i ls \<le> 20 \<and>
    (\<forall>a. st i = Some a \<longrightarrow>
       ra_max_uses a = capacity_of i ls \<and> ra_uses a = delivered_in i ls \<and>
       ra_reserved a = held_in i ls)"
proof -
  have ok: "policy_ok Map.empty" "policy_meter Map.empty = (\<lambda>_. None)"
    by (simp_all add: policy_ok_def policy_meter_def fun_eq_iff)
  have "capacity_of i ls \<le> 20"
    by (rule capacity_of_bound) (auto dest: opened_capacity [OF assms(1) ok(1)] simp: max_reusable_uses_def)
  then show ?thesis
    using approvals.deliveries_bounded [OF assms(1) ok assms(2), of i]
      approvals.meter_agrees [OF assms(1) ok assms(2), of i]
    by (auto simp: policy_meter_def)
qed

definition sample_approval_spec :: approval_spec where
  "sample_approval_spec = \<lparr>as_request = exec_with_receipt_time sample_exec 1000, as_id = ''appr_1'',
     as_nonce = ''nonce_1'', as_max_uses = 2, as_reserved = 1\<rparr>"

definition sample_approval :: reusable_approval where
  "sample_approval = (case snd (add_reusable (Inl (Text '''')) (Inl (Text '''')) Map.empty
       sample_approval_spec) of
     Inr a \<Rightarrow> a
   | Inl e \<Rightarrow> \<lparr>ra_id = '''', ra_nonce = '''', ra_key = new_reuse_key sample_exec, ra_expires_at = 0,
        ra_max_uses = 0, ra_uses = 0, ra_reserved = 0\<rparr>)"

lemma sample_add:
  "add_reusable (Inl (Text '''')) (Inl (Text '''')) Map.empty sample_approval_spec =
     ([''appr_1'' \<mapsto> sample_approval], Inr sample_approval)"
proof -
  let ?r = "add_reusable (Inl (Text '''')) (Inl (Text '''')) Map.empty sample_approval_spec"
  have "\<not> isl (snd ?r)" by code_simp
  then have r: "?r = (fst ?r, Inr sample_approval)"
    by (cases "snd ?r") (simp_all add: sample_approval_def prod_eq_iff)
  moreover have "ra_id sample_approval = ''appr_1''" by code_simp
  ultimately show ?thesis using add_reusable_Inr(1) [OF r] by metis
qed

theorem approval_deliveries_bounded_witness:
  "delivered_in ''appr_1'' [Opened ''appr_1'' 2 1, Delivered ''appr_1''] \<le> 20"
proof -
  have c: "ra_id sample_approval = ''appr_1''" "ra_max_uses sample_approval = 2"
    "ra_reserved sample_approval = 1" by code_simp+
  have s1: "policy_step Map.empty (Opened ''appr_1'' 2 1) [''appr_1'' \<mapsto> sample_approval]"
    using step_add [OF sample_add] unfolding c .
  obtain st' where s2: "policy_step [''appr_1'' \<mapsto> sample_approval] (Delivered ''appr_1'') st'"
    using step_delivered [OF surjective_pairing] by blast
  note t = trace_snoc [where step = policy_step,
      OF trace_snoc [where step = policy_step, OF trace_Nil [where step = policy_step] s1] s2]
  have "disciplined (([] @ [Opened ''appr_1'' 2 1]) @ [Delivered ''appr_1''])"
    unfolding disciplined_snoc by (simp add: held_in_def)
  from approval_deliveries_bounded [OF t this, of "''appr_1''"] show ?thesis by simp
qed

section \<open>The lookup\<close>

text \<open>
  The lookup does not depend on the order in which the map is iterated: it finds an approval
exactly when the store holds a live one with the key of the request, and otherwise reports
ErrExpired when some approval with the key has expired, else ErrUseExhausted when some is used up,
else ErrMismatch.
\<close>
theorem lookup_order_independent:
  assumes "distinct order" "set order = dom st"
  shows "(if some_match (live_match (new_reuse_key r) now) (dom st) st
     then \<exists>a m. snd (match_reusable order now st r) = Inr (a, m)
     else \<exists>s. snd (match_reusable order now st r) = Inl (s, policy_error_of
       (if some_match (expired_match (new_reuse_key r) now) (dom st) st then ErrExpired
        else if some_match (exhausted_match (new_reuse_key r) now) (dom st) st then ErrUseExhausted
        else ErrMismatch)))"
proof -
  obtain st' res where f: "find_reusable order now st r = (st', res)"
    by (cases "find_reusable order now st r")
  from find_reusable_cases [OF assms f] show ?thesis
  proof (elim disjE exE conjE)
    fix i a m assume "res = Inr (i, a, m)" "st i = Some a" "live_match (new_reuse_key r) now a"
    then show ?thesis by (auto simp: match_reusable_def f some_match_def)
  next
    fix s e assume res: "res = Inl (s, e)" and no: "\<forall>a \<in> ran st. \<not> live_match (new_reuse_key r) now a"
    then have "\<not> some_match (live_match (new_reuse_key r) now) (dom st) st"
      by (auto simp: some_match_def ran_def)
    moreover have L: "find_loop (new_reuse_key r) now order st None None = (st', Inl (s, e))"
      using f res by (simp add: find_reusable_def)
    ultimately show ?thesis using find_loop_error [OF L assms(1)] assms(2) f res
      by (simp add: match_reusable_def)
  qed
qed

theorem lookup_order_independent_witness:
  "\<exists>a m. snd (match_reusable [''appr_1''] 1001 [''appr_1'' \<mapsto> sample_approval]
     ((exec_with_receipt_time sample_exec 1000)\<lparr>er_reusable_uses := 2\<rparr>)) = Inr (a, m)"
proof -
  have "live_match (new_reuse_key ((exec_with_receipt_time sample_exec 1000)\<lparr>er_reusable_uses := 2\<rparr>))
      1001 sample_approval" by code_simp
  then show ?thesis
    using lookup_order_independent [of "[''appr_1'']" "[''appr_1'' \<mapsto> sample_approval]"]
    by (simp add: some_match_def split: if_splits)
qed

text \<open>
  The reuse key identifies a request up to the order of its secrets and overridden aliases:
two requests that agree on everything else and whose lists are permutations of each other get
equal keys.
\<close>
theorem reuse_key_order_independent:
  assumes "mset ss = mset (er_secrets r)" "mset os = mset (er_overridden r)"
  shows "reuse_key_equal (new_reuse_key (r\<lparr>er_secrets := ss, er_overridden := os\<rparr>)) (new_reuse_key r)"
proof -
  have "sort (map grant_of_secret ss) = sort (map grant_of_secret (er_secrets r))"
    using assms(1) by (intro sort_perm_eq) simp
  moreover have "sort os = sort (er_overridden r)" using assms(2) by (rule sort_perm_eq)
  ultimately show ?thesis by (simp add: new_reuse_key_def)
qed

theorem reuse_key_order_independent_witness:
  "reuse_key_equal
     (new_reuse_key (sample_exec\<lparr>er_secrets := er_secrets sample_exec, er_overridden := []\<rparr>))
     (new_reuse_key sample_exec)"
  by (rule reuse_key_order_independent) (simp, code_simp)

text \<open>
A use that is reserved and then returned before any payload went out leaves the approval
as it was, so a failed attempt costs nothing.
\<close>
theorem reserve_return_neutral:
  assumes "policy_ok st" "reserve_reusable order now st r = (st1, Inr (a, m))"
    and "now' < ra_expires_at a"
  shows "fst (finish_reusable_attempt now' st1 (ra_id a) delivery_pre_payload_failure) (ra_id a)
      = st (ra_id a)"
proof -
  from reserve_reusable_Inr [OF assms(2)] obtain i b st2
    where i: "st i = Some b" and l: "live_match (new_reuse_key r) now b"
      and a: "a = b\<lparr>ra_reserved := ra_reserved b + 1\<rparr>" and st1: "st1 = st2(i \<mapsto> a)" by blast
  from policy_okD [OF assms(1) i] have ok: "ra_id b = i" "0 \<le> ra_reserved b" "\<not> spent b"
    by (simp_all add: approval_ok_def)
  have "give_back a = b" using ok(2) by (simp add: give_back_def a)
  then show ?thesis
    using assms(3) ok i by (simp add: finish_reusable_attempt_def st1 a Let_def)
qed

theorem reserve_return_neutral_witness:
  "fst (finish_reusable_attempt 1002 [''appr_1'' \<mapsto> sample_approval\<lparr>ra_reserved := 2\<rparr>] ''appr_1''
      delivery_pre_payload_failure) ''appr_1'' = Some sample_approval"
proof -
  let ?st = "[''appr_1'' \<mapsto> sample_approval]"
  let ?r = "(exec_with_receipt_time sample_exec 1000)\<lparr>er_reusable_uses := 2\<rparr>"
  let ?a = "sample_approval\<lparr>ra_reserved := 2\<rparr>"
  have ok: "policy_ok ?st"
    using add_reusable_ok [of Map.empty] sample_add by (metis fst_conv policy_ok_def option.distinct(1))
  have l: "reuse_key_equal (ra_key sample_approval) (new_reuse_key ?r)" "ra_reserved sample_approval = 1"
    "ra_expires_at sample_approval = 120000001000" "remaining_uses sample_approval = 1"
    "ra_id sample_approval = ''appr_1''" by code_simp+
  have "\<exists>m. reserve_reusable [''appr_1''] 1001 ?st ?r = (?st(''appr_1'' \<mapsto> ?a), Inr (?a, m))"
    using l by (simp add: reserve_reusable_def find_reusable_def Let_def)
  then obtain m where "reserve_reusable [''appr_1''] 1001 ?st ?r = (?st(''appr_1'' \<mapsto> ?a), Inr (?a, m))" ..
  from reserve_return_neutral [OF ok this, of 1002] show ?thesis using l by simp
qed

end
