(* ===== verification/PeerAuth.thy ===== *)
theory PeerAuth
  imports SessionRequest
begin

text \<open>
  Which process a session is bound to and who may use it:
  \<open>internal/daemon/broker/session_peer_authorizer.go\<close>. The process table, that is
  \<open>peercred.ProcessAncestry\<close>, is an argument: the ancestry found and the error, since the code
  uses the part found even when the walk failed.
\<close>

section \<open>Data\<close>

record peer_binding =
  pb_creator :: peer_info
  pb_anchor :: process_identity
  pb_policy :: binding_policy

definition process_name :: "string \<Rightarrow> string" where
  "process_name path =
     (if path = '''' then ''unknown''
      else let name = path_base path in if name = ''.'' \<or> name = ''/'' then path else name)"

definition process_info_from_identity :: "process_identity \<Rightarrow> binding_process" where
  "process_info_from_identity i = \<lparr>bp_pid = pr_pid i, bp_parent_pid = pr_parent_pid i,
     bp_name = process_name (pr_exe i), bp_path = pr_exe i\<rparr>"

definition process_info_from_peer :: "peer_info \<Rightarrow> binding_process" where
  "process_info_from_peer p = \<lparr>bp_pid = pi_pid p, bp_parent_pid = 0,
     bp_name = process_name (pi_exe p), bp_path = pi_exe p\<rparr>"

definition binding_info_of :: "peer_binding \<Rightarrow> binding_info" where
  "binding_info_of b = \<lparr>bi_mode = bd_mode (pb_policy b), bi_depth = bd_depth (pb_policy b),
     bi_name = bd_name (pb_policy b), bi_names = bd_names (pb_policy b),
     bi_bound = process_info_from_identity (pb_anchor b),
     bi_creator = process_info_from_peer (pb_creator b)\<rparr>"

abbreviation peer_mismatch :: err where
  "peer_mismatch \<equiv> Err (StoreErr ErrSessionPeerMismatch)"

section \<open>Choosing the anchor\<close>

definition eligible_anchor :: "peer_info \<Rightarrow> process_identity \<Rightarrow> bool" where
  "eligible_anchor peer c \<longleftrightarrow>
     \<not> (pr_pid c \<le> 1 \<or> pr_uid c \<noteq> pi_uid peer \<or> pr_gid c \<noteq> pi_gid peer \<or>
        pr_start_time c = zero_time) \<and>
     path_base (pr_exe c) \<noteq> ''launchd''"

fun next_eligible_anchor :: "peer_info \<Rightarrow> process_identity list \<Rightarrow> process_identity option" where
  "next_eligible_anchor peer [] = None"
| "next_eligible_anchor peer (c # cs) =
     (if eligible_anchor peer c then Some c else next_eligible_anchor peer cs)"

definition same_executable_ancestor :: "process_identity \<Rightarrow> process_identity \<Rightarrow> bool" where
  "same_executable_ancestor c a \<longleftrightarrow>
     pr_uid c = pr_uid a \<and> pr_gid c = pr_gid a \<and> pr_exe c \<noteq> '''' \<and> pr_exe c = pr_exe a"

text \<open>The loop of \<open>automaticSessionPeerAnchor\<close> over \<open>ancestry[1:]\<close>.\<close>

fun automatic_loop :: "peer_info \<Rightarrow> process_identity list \<Rightarrow> err + process_identity" where
  "automatic_loop peer [] = Inl peer_mismatch"
| "automatic_loop peer (c # cs) =
     (if eligible_anchor peer c then
        (case next_eligible_anchor peer cs of
           Some n \<Rightarrow> if same_executable_ancestor c n then automatic_loop peer cs else Inr c
         | None \<Rightarrow> Inr c)
      else automatic_loop peer cs)"

definition automatic_anchor :: "peer_info \<Rightarrow> process_identity list \<Rightarrow> err + process_identity" where
  "automatic_anchor peer ancestry = automatic_loop peer (drop 1 ancestry)"

definition ancestor_anchor ::
  "peer_info \<Rightarrow> process_identity list \<Rightarrow> int \<Rightarrow> err + process_identity" where
  "ancestor_anchor peer ancestry depth =
     (if depth < 1 \<or> depth \<ge> int (length ancestry) then Inl peer_mismatch
      else
        (let anchor = ancestry ! nat depth
         in if \<not> eligible_anchor peer anchor then Inl peer_mismatch else Inr anchor))"

text \<open>
  The loop of \<open>ancestorNamesSessionPeerAnchor\<close>. The first ineligible match only chooses the text
  of the error.
\<close>

fun ancestor_names_loop ::
  "peer_info \<Rightarrow> string list \<Rightarrow> int \<Rightarrow> process_identity list \<Rightarrow> err + process_identity \<times> int \<times> string" where
  "ancestor_names_loop peer names depth [] = Inl peer_mismatch"
| "ancestor_names_loop peer names depth (a # as) =
     (let name = process_name (pr_exe a)
      in if name \<notin> set names then ancestor_names_loop peer names (depth + 1) as
         else if \<not> eligible_anchor peer a then ancestor_names_loop peer names (depth + 1) as
         else Inr (a, depth, name))"

definition ancestor_names_anchor ::
  "peer_info \<Rightarrow> process_identity list \<Rightarrow> string list \<Rightarrow> err + process_identity \<times> int \<times> string" where
  "ancestor_names_anchor peer ancestry names = ancestor_names_loop peer names 1 (drop 1 ancestry)"

definition session_peer_anchor ::
  "peer_info \<Rightarrow> process_identity list \<Rightarrow> binding_policy \<Rightarrow> err + process_identity \<times> binding_policy" where
  "session_peer_anchor peer ancestry policy =
     (if ancestry = [] \<or> pr_pid (hd ancestry) \<noteq> pi_pid peer then Inl peer_mismatch
      else if bd_mode policy = mode_auto then
        (case automatic_anchor peer ancestry of
           Inl e \<Rightarrow> Inl e | Inr anchor \<Rightarrow> Inr (anchor, policy))
      else if bd_mode policy = mode_ancestor then
        (case ancestor_anchor peer ancestry (bd_depth policy) of
           Inl e \<Rightarrow> Inl e | Inr anchor \<Rightarrow> Inr (anchor, policy))
      else if bd_mode policy = mode_ancestor_name then
        (case ancestor_names_anchor peer ancestry (bd_names policy) of
           Inl e \<Rightarrow> Inl e
         | Inr (anchor, depth, name) \<Rightarrow>
             Inr (anchor, policy\<lparr>bd_depth := depth, bd_name := name\<rparr>))
      else Inl bind_error)"

section \<open>Binding and validating\<close>

type_synonym ancestry = "process_identity list \<times> err option"

definition bind_session_peer ::
  "ancestry \<Rightarrow> peer_info \<Rightarrow> binding_policy \<Rightarrow> err + peer_binding" where
  "bind_session_peer tree peer policy0 =
     (case normalize_binding policy0 of
        Inl e \<Rightarrow> Inl e
      | Inr policy \<Rightarrow>
          (case session_peer_anchor peer (fst tree) policy of
             Inl e \<Rightarrow>
               (case snd tree of
                  Some inspect \<Rightarrow> Inl (Wrap (StoreErr ErrSessionPeerMismatch) inspect)
                | None \<Rightarrow> Inl e)
           | Inr (anchor, policy') \<Rightarrow>
               Inr \<lparr>pb_creator = peer, pb_anchor = anchor, pb_policy = policy'\<rparr>))"

definition same_process_identity :: "process_identity \<Rightarrow> process_identity \<Rightarrow> bool" where
  "same_process_identity a b \<longleftrightarrow>
     pr_pid a = pr_pid b \<and> pr_uid a = pr_uid b \<and> pr_gid a = pr_gid b \<and>
     pr_start_time a = pr_start_time b \<and> pr_exe a = pr_exe b"

definition ancestry_contains :: "process_identity list \<Rightarrow> process_identity \<Rightarrow> bool" where
  "ancestry_contains ancestry anchor \<longleftrightarrow> list_ex (\<lambda>c. same_process_identity c anchor) ancestry"

definition validate_session_peer :: "ancestry \<Rightarrow> peer_binding \<Rightarrow> peer_info \<Rightarrow> err option" where
  "validate_session_peer tree b peer =
     (if pr_pid (pb_anchor b) \<le> 0 \<or> pr_start_time (pb_anchor b) = zero_time
      then Some peer_mismatch
      else if ancestry_contains (fst tree) (pb_anchor b) then None
      else
        (case snd tree of
           Some e \<Rightarrow> Some (Wrap (StoreErr ErrSessionPeerMismatch) e)
         | None \<Rightarrow> Some peer_mismatch))"

section \<open>Facts\<close>

lemma next_eligible_anchor_Some:
  "next_eligible_anchor peer cs = Some c \<Longrightarrow> c \<in> set cs \<and> eligible_anchor peer c"
  by (induction cs) (auto split: if_splits)

lemma automatic_loop_Inr:
  "automatic_loop peer cs = Inr a \<Longrightarrow> a \<in> set cs \<and> eligible_anchor peer a"
  by (induction cs) (auto split: if_splits option.splits)

text \<open>The automatic anchor is found whenever some ancestor is eligible at all.\<close>

lemma automatic_loop_total:
  "(\<exists>c \<in> set cs. eligible_anchor peer c) \<Longrightarrow> \<exists>a. automatic_loop peer cs = Inr a"
proof (induction cs)
  case (Cons c cs)
  show ?case
  proof (cases "eligible_anchor peer c")
    case False
    with Cons show ?thesis by auto
  next
    case True
    show ?thesis
    proof (cases "next_eligible_anchor peer cs")
      case None
      with True show ?thesis by simp
    next
      case (Some n)
      with next_eligible_anchor_Some [OF Some] Cons.IH True show ?thesis by auto
    qed
  qed
qed simp

lemma ancestor_names_loop_Inr:
  "ancestor_names_loop peer names d as = Inr (a, d', n) \<Longrightarrow>
     a \<in> set as \<and> eligible_anchor peer a \<and> n = process_name (pr_exe a) \<and> n \<in> set names \<and>
     d \<le> d' \<and> nat (d' - d) < length as \<and> as ! nat (d' - d) = a"
proof (induction as arbitrary: d)
  case (Cons b as)
  show ?case
  proof (cases "process_name (pr_exe b) \<in> set names \<and> eligible_anchor peer b")
    case True
    with Cons.prems show ?thesis by (auto simp: Let_def)
  next
    case False
    with Cons.prems have "ancestor_names_loop peer names (d + 1) as = Inr (a, d', n)"
      by (auto simp: Let_def split: if_splits)
    from Cons.IH [OF this] have *: "a \<in> set as" "eligible_anchor peer a"
      "n = process_name (pr_exe a)" "n \<in> set names" "d + 1 \<le> d'" "nat (d' - (d + 1)) < length as"
      "as ! nat (d' - (d + 1)) = a" by auto
    then have "nat (d' - d) = Suc (nat (d' - (d + 1)))" by simp
    with * show ?thesis by simp
  qed
qed simp

lemma session_peer_anchor_Inr:
  assumes "session_peer_anchor peer ancestry policy = Inr (a, p)"
  shows "a \<in> set (drop 1 ancestry)" "eligible_anchor peer a" "pr_pid (hd ancestry) = pi_pid peer"
    "ancestry \<noteq> []"
proof -
  from assms show "pr_pid (hd ancestry) = pi_pid peer" "ancestry \<noteq> []"
    by (auto simp: session_peer_anchor_def split: if_splits)
  have nth: "ancestry ! nat d \<in> set (drop 1 ancestry)" if "1 \<le> d" "d < int (length ancestry)" for d
  proof -
    from that have "nat d = 1 + (nat d - 1)" "nat d - 1 < length (drop 1 ancestry)" by auto
    then show ?thesis using nth_mem [of "nat d - 1" "drop 1 ancestry"] that by simp
  qed
  from assms have "automatic_loop peer (drop 1 ancestry) = Inr a \<or>
      ancestor_anchor peer ancestry (bd_depth policy) = Inr a \<or>
      (\<exists>d n. ancestor_names_loop peer (bd_names policy) 1 (drop 1 ancestry) = Inr (a, d, n))"
    by (auto simp: session_peer_anchor_def automatic_anchor_def ancestor_names_anchor_def
        split: if_splits sum.splits)
  then have "a \<in> set (drop 1 ancestry) \<and> eligible_anchor peer a"
    using automatic_loop_Inr [of peer "drop 1 ancestry" a] nth
      ancestor_names_loop_Inr [of peer "bd_names policy" 1 "drop 1 ancestry" a]
    by (elim disjE) (fastforce simp: ancestor_anchor_def Let_def split: if_splits)+
  then show "a \<in> set (drop 1 ancestry)" "eligible_anchor peer a" by blast+
qed

lemma bind_session_peer_Inr:
  assumes "bind_session_peer tree peer policy = Inr b"
  shows "pb_creator b = peer" "pb_anchor b \<in> set (drop 1 (fst tree))"
    "eligible_anchor peer (pb_anchor b)"
proof -
  from assms obtain q p where "session_peer_anchor peer (fst tree) q = Inr (pb_anchor b, p)"
    and "pb_creator b = peer"
    by (auto simp: bind_session_peer_def split: sum.splits option.splits)
  with session_peer_anchor_Inr show "pb_creator b = peer" "pb_anchor b \<in> set (drop 1 (fst tree))"
    "eligible_anchor peer (pb_anchor b)" by blast+
qed

lemma ancestry_contains_mem: "a \<in> set as \<Longrightarrow> ancestry_contains as a"
  by (auto simp: ancestry_contains_def list_ex_iff same_process_identity_def)

text \<open>The creator itself, and every later process with the anchor among its ancestors, may resolve.\<close>

lemma validate_after_bind:
  assumes "bind_session_peer tree peer policy = Inr b" "pb_anchor b \<in> set (fst tree')"
  shows "validate_session_peer tree' b peer' = None"
proof -
  have "eligible_anchor peer (pb_anchor b)" using bind_session_peer_Inr(3) [OF assms(1)] .
  then have "\<not> pr_pid (pb_anchor b) \<le> 0" "pr_start_time (pb_anchor b) \<noteq> zero_time"
    by (auto simp: eligible_anchor_def)
  then show ?thesis using ancestry_contains_mem [OF assms(2)] by (simp add: validate_session_peer_def)
qed

lemma validate_session_peer_None:
  "validate_session_peer tree b peer = None \<longleftrightarrow>
     0 < pr_pid (pb_anchor b) \<and> pr_start_time (pb_anchor b) \<noteq> zero_time \<and>
     ancestry_contains (fst tree) (pb_anchor b)"
  by (auto simp: validate_session_peer_def split: option.splits)

section \<open>The interface of the session store\<close>

text \<open>
  \<open>SessionPeerAuthorizer\<close>: what a client may rely on is that a binding made for a peer accepts
  the processes that descend from the bound one, and no process without it among its ancestors.
\<close>

locale peer_authorizer =
  fixes bind_peer :: "ancestry \<Rightarrow> peer_info \<Rightarrow> binding_policy \<Rightarrow> err + 'b"
    and validate_by :: "ancestry \<Rightarrow> 'b \<Rightarrow> peer_info \<Rightarrow> err option"
    and anchor_of :: "'b \<Rightarrow> process_identity"
  assumes bound_ancestor: "bind_peer tree peer policy = Inr b \<Longrightarrow> anchor_of b \<in> set (drop 1 (fst tree))"
    and bound_user: "bind_peer tree peer policy = Inr b \<Longrightarrow>
      pr_uid (anchor_of b) = pi_uid peer \<and> pr_gid (anchor_of b) = pi_gid peer"
    and accepts: "bind_peer tree peer policy = Inr b \<Longrightarrow> anchor_of b \<in> set (fst tree') \<Longrightarrow>
      validate_by tree' b peer' = None"
    and rejects: "validate_by tree' b peer' = None \<Longrightarrow> ancestry_contains (fst tree') (anchor_of b)"
begin

text \<open>The process that creates a session can use it.\<close>

lemma creator_accepted:
  "bind_peer tree peer policy = Inr b \<Longrightarrow> validate_by tree b peer = None"
  using accepts bound_ancestor in_set_dropD by metis

text \<open>A process tree without the bound process is refused.\<close>

lemma stranger_refused:
  "\<forall>c \<in> set (fst tree'). pr_pid c = pr_pid (anchor_of b) \<longrightarrow>
      pr_start_time c \<noteq> pr_start_time (anchor_of b) \<Longrightarrow>
    validate_by tree' b peer' \<noteq> None"
  using rejects [of tree' b peer']
  by (auto simp: ancestry_contains_def list_ex_iff same_process_identity_def)

end

interpretation process_tree: peer_authorizer bind_session_peer validate_session_peer pb_anchor
proof unfold_locales
  fix tree peer policy b
  assume b: "bind_session_peer tree peer policy = Inr b"
  show "pb_anchor b \<in> set (drop 1 (fst tree))" by (rule bind_session_peer_Inr(2) [OF b])
  show "pr_uid (pb_anchor b) = pi_uid peer \<and> pr_gid (pb_anchor b) = pi_gid peer"
    using bind_session_peer_Inr(3) [OF b] by (simp add: eligible_anchor_def)
qed (simp_all add: validate_after_bind validate_session_peer_None)

end
