(* ===== verification/SecretCache.thy ===== *)
theory SecretCache
  imports GoErrors
begin

text \<open>
  Approved values in memory: \<open>internal/secretmem/value.go\<close> and \<open>internal/secretcache/cache.go\<close>.
  The operating system's answers to \<open>mmap\<close>, \<open>mlock\<close>, \<open>munlock\<close> and \<open>munmap\<close> are arguments.
  The locale \<open>secret_cache\<close> is the interface \<open>broker.SecretCache\<close> with the laws its client, the
  grant manager, relies on.
\<close>

section \<open>Locked values\<close>

text \<open>\<open>Value\<close>: \<open>mv_data\<close> is None once the value is destroyed (\<open>v.data == nil\<close>).\<close>

record mem_value =
  mv_data :: "string option"
  mv_length :: nat

definition zero_bytes :: "string \<Rightarrow> string" where
  "zero_bytes data = map (\<lambda>_. CHR 0x00) data"

text \<open>\<open>New\<close>: a fresh mapping holds zero bytes; \<open>copy\<close> overwrites its beginning.\<close>

definition new_value :: "err option \<Rightarrow> err option \<Rightarrow> string \<Rightarrow> err + mem_value" where
  "new_value mmap mlock value =
     (let size = (if length value = 0 then 1 else length value);
          data = replicate size CHR 0x00
      in case mmap of
           Some e \<Rightarrow> Inl e
         | None \<Rightarrow>
             (case mlock of
                Some e \<Rightarrow> Inl e
              | None \<Rightarrow> Inr \<lparr>mv_data = Some (value @ drop (length value) data),
                              mv_length = length value\<rparr>))"

definition reveal :: "mem_value \<Rightarrow> err + string" where
  "reveal v =
     (case mv_data v of
        None \<Rightarrow> Inl (Err (MemoryErr ErrDestroyed))
      | Some data \<Rightarrow> Inr (take (mv_length v) data))"

text \<open>\<open>Destroy\<close>: the value afterwards, the bytes left in the mapping, and the error.\<close>

definition destroy :: "err option \<Rightarrow> err option \<Rightarrow> mem_value \<Rightarrow> mem_value \<times> string \<times> err option" where
  "destroy munlock munmap v =
     (case mv_data v of
        None \<Rightarrow> (v, '''', None)
      | Some data \<Rightarrow>
          (v\<lparr>mv_data := None, mv_length := 0\<rparr>, zero_bytes data, or_else munlock munmap))"

lemma reveal_new_value: "new_value a b value = Inr v \<Longrightarrow> reveal v = Inr value"
  by (auto simp: new_value_def reveal_def Let_def split: option.splits)

lemma new_value_Inl_iff: "(\<exists>e. new_value a b value = Inl e) \<longleftrightarrow> a \<noteq> None \<or> b \<noteq> None"
  by (auto simp: new_value_def Let_def split: option.splits)

lemma destroy_wipes:
  assumes "destroy a b v = (v', bytes, e)"
  shows "reveal v' = Inl (Err (MemoryErr ErrDestroyed))" "set bytes \<subseteq> {CHR 0x00}"
    "destroy c d v' = (v', '''', None)"
  using assms by (auto simp: destroy_def reveal_def zero_bytes_def split: option.splits)

section \<open>The cache\<close>

record cache_key =
  ck_scope :: string
  ck_ref :: string
  ck_account :: string
  ck_source :: string
  ck_token_alias :: string
  ck_api_url :: string
  ck_identity_url :: string

type_synonym cache = "cache_key \<rightharpoonup> mem_value"

text \<open>The answers of the operating system to one \<open>Put\<close>.\<close>

type_synonym alloc = "err option \<times> err option"

definition cache_put :: "alloc \<Rightarrow> cache \<Rightarrow> cache_key \<Rightarrow> string \<Rightarrow> cache \<times> err option" where
  "cache_put al c k value =
     (case new_value (fst al) (snd al) value of
        Inl e \<Rightarrow> (c, Some e)
      | Inr v \<Rightarrow> (c(k \<mapsto> v), None))"

definition cache_get :: "cache \<Rightarrow> cache_key \<Rightarrow> string option" where
  "cache_get c k =
     (case c k of
        None \<Rightarrow> None
      | Some v \<Rightarrow> (case reveal v of Inl e \<Rightarrow> None | Inr s \<Rightarrow> Some s))"

text \<open>\<open>ClearScope\<close> and \<open>Clear\<close> destroy and delete; the order of the map iteration is immaterial.\<close>

definition cache_clear_scope :: "cache \<Rightarrow> string \<Rightarrow> cache" where
  "cache_clear_scope c scope = (\<lambda>k. if ck_scope k = scope then None else c k)"

definition cache_clear :: "cache \<Rightarrow> cache" where
  "cache_clear c = Map.empty"

section \<open>The interface of the grant manager\<close>

locale secret_cache =
  fixes put :: "'a \<Rightarrow> 'c \<Rightarrow> cache_key \<Rightarrow> string \<Rightarrow> 'c \<times> err option"
    and get :: "'c \<Rightarrow> cache_key \<Rightarrow> string option"
    and clear_scope :: "'c \<Rightarrow> string \<Rightarrow> 'c"
    and clear_all :: "'c \<Rightarrow> 'c"
  assumes put_get: "put al c k v = (c', None) \<Longrightarrow> get c' j = (if j = k then Some v else get c j)"
    and put_fails: "put al c k v = (c', Some e) \<Longrightarrow> c' = c"
    and clear_scope_get: "get (clear_scope c s) k = (if ck_scope k = s then None else get c k)"
    and clear_all_get: "get (clear_all c) k = None"
begin

text \<open>Storing a list of values one by one, as the grant manager does, up to the first failure.\<close>

fun put_all :: "'a list \<Rightarrow> 'c \<Rightarrow> (cache_key \<times> string) list \<Rightarrow> 'c \<times> err option" where
  "put_all als c [] = (c, None)"
| "put_all als c ((k, v) # kvs) =
     (case put (hd als) c k v of
        (c', Some e) \<Rightarrow> (c', Some e)
      | (c', None) \<Rightarrow> put_all (tl als) c' kvs)"

lemma put_other_scope: "put al c k v = (c', r) \<Longrightarrow> ck_scope j \<noteq> ck_scope k \<Longrightarrow> get c' j = get c j"
  using put_get [of al c k v c' j] put_fails [of al c k v c'] by (cases r) auto

lemma put_all_get:
  "put_all als c kvs = (c', None) \<Longrightarrow>
     get c' k = (case map_of (rev kvs) k of Some v \<Rightarrow> Some v | None \<Rightarrow> get c k)"
proof (induction kvs arbitrary: als c)
  case (Cons kv kvs)
  obtain j v where kv: "kv = (j, v)" by (cases kv)
  from Cons.prems kv obtain c1 where p: "put (hd als) c j v = (c1, None)"
    and r: "put_all (tl als) c1 kvs = (c', None)"
    by (auto split: prod.splits option.splits)
  show ?case
    unfolding Cons.IH [OF r] kv using put_get [OF p, of k]
    by (auto simp: map_add_def split: option.splits)
qed simp

lemma put_all_other_scope:
  "put_all als c kvs = (c', r) \<Longrightarrow> \<forall>(j, v) \<in> set kvs. ck_scope j = s \<Longrightarrow> ck_scope k \<noteq> s \<Longrightarrow>
     get c' k = get c k"
proof (induction kvs arbitrary: als c)
  case (Cons kv kvs)
  obtain j v where kv: "kv = (j, v)" by (cases kv)
  obtain c1 r1 where p: "put (hd als) c j v = (c1, r1)" by (cases "put (hd als) c j v")
  have o: "get c1 k = get c k" using put_other_scope [OF p] Cons.prems(2,3) kv by simp
  show ?case
  proof (cases r1)
    case None
    with Cons p kv o show ?thesis by simp
  next
    case (Some e)
    with Cons.prems(1) p kv o show ?thesis by simp
  qed
qed simp

lemma cleared_scope_unreadable:
  "ck_scope k = s \<Longrightarrow> get (clear_scope c s) k = None"
  by (simp add: clear_scope_get)

end

interpretation memory_cache: secret_cache cache_put cache_get cache_clear_scope cache_clear
proof unfold_locales
  fix al c k v c' j
  assume "cache_put al c k v = (c', None)"
  then show "cache_get c' j = (if j = k then Some v else cache_get c j)"
    by (auto simp: cache_put_def cache_get_def reveal_new_value split: sum.splits)
next
  fix al c k v c' e
  assume "cache_put al c k v = (c', Some e)"
  then show "c' = c" by (auto simp: cache_put_def split: sum.splits)
qed (simp_all add: cache_get_def cache_clear_scope_def cache_clear_def)

end
