(* ===== verification/GrantValues.thy ===== *)
theory GrantValues
  imports Policy SecretCache
begin

text \<open>
  Secret identities: \<open>internal/daemon/broker/grant_values.go\<close>. Requests may use one secret under
  several aliases; the daemon resolves each identity once and fans the values out to the aliases.
\<close>

section \<open>Identities\<close>

record secret_identity =
  si_ref :: secret_ref
  si_account :: string
  si_source :: string
  si_bitwarden :: bitwarden_source

definition identity_for_secret :: "secret \<Rightarrow> secret_identity" where
  "identity_for_secret s = \<lparr>si_ref = se_ref s, si_account = se_account s, si_source = se_source s,
     si_bitwarden = se_bitwarden s\<rparr>"

definition secret_of_identity :: "secret_identity \<Rightarrow> secret" where
  "secret_of_identity i = \<lparr>se_alias = '''', se_ref = si_ref i, se_account = si_account i,
     se_source = si_source i, se_bitwarden = si_bitwarden i\<rparr>"

text \<open>The loop with \<open>seen\<close>: the first occurrence of each identity, in order.\<close>

fun distinct_identities :: "secret_identity list \<Rightarrow> secret list \<Rightarrow> secret_identity list" where
  "distinct_identities seen [] = []"
| "distinct_identities seen (s # ss) =
     (let i = identity_for_secret s
      in if i \<in> set seen then distinct_identities seen ss
         else i # distinct_identities (i # seen) ss)"

text \<open>The fields that the comparison function looks at, in its order.\<close>

definition identity_order :: "secret_identity \<Rightarrow> string list" where
  "identity_order i = [rf_raw (si_ref i), si_account i, si_source i,
     bw_token_alias (si_bitwarden i), bw_api_url (si_bitwarden i),
     bw_identity_url (si_bitwarden i)]"

text \<open>
  \<open>slices.SortFunc\<close> is not stable: identities that compare equal may come out in any order. Here
  they keep the order of their first occurrence.
\<close>

definition unique_secret_identities :: "secret list \<Rightarrow> secret_identity list" where
  "unique_secret_identities ss = sort_key identity_order (distinct_identities [] ss)"

definition pending_identities ::
  "secret_identity list \<Rightarrow> secret_identity set \<Rightarrow> secret_identity list" where
  "pending_identities ordered pending = filter (\<lambda>i. i \<in> pending) ordered"

text \<open>
  \<open>refValues[identityForSecret(secret)]\<close> reads the empty string for an identity without a value.
\<close>

definition identity_value :: "(secret_identity \<rightharpoonup> string) \<Rightarrow> secret \<Rightarrow> string" where
  "identity_value vals s = (case vals (identity_for_secret s) of Some v \<Rightarrow> v | None \<Rightarrow> '''')"

definition fanout_values :: "secret list \<Rightarrow> (secret_identity \<rightharpoonup> string) \<Rightarrow> (string \<rightharpoonup> string)" where
  "fanout_values ss vals = fold (\<lambda>s m. m(se_alias s \<mapsto> identity_value vals s)) ss Map.empty"

section \<open>Facts\<close>

lemma set_distinct_identities:
  "set (distinct_identities seen ss) = identity_for_secret ` set ss - set seen"
  by (induction seen ss rule: distinct_identities.induct) (auto simp: Let_def)

lemma distinct_distinct_identities: "distinct (distinct_identities seen ss)"
  by (induction seen ss rule: distinct_identities.induct)
    (auto simp: Let_def set_distinct_identities)

lemma set_unique_secret_identities [simp]:
  "set (unique_secret_identities ss) = identity_for_secret ` set ss"
  by (simp add: unique_secret_identities_def set_distinct_identities)

lemma distinct_unique_secret_identities [simp]: "distinct (unique_secret_identities ss)"
  by (simp add: unique_secret_identities_def distinct_distinct_identities)

lemma length_unique_secret_identities:
  "length (unique_secret_identities ss) = card (identity_for_secret ` set ss)"
  using distinct_card [OF distinct_unique_secret_identities, of ss] by simp

text \<open>Filling a map alias by alias, as \<open>fanoutValues\<close> and \<open>cachedValues\<close> do.\<close>

lemma fold_alias_dom:
  "dom (fold (\<lambda>s m. m(se_alias s \<mapsto> f s)) ss m0) = dom m0 \<union> se_alias ` set ss"
  by (induction ss arbitrary: m0) auto

lemma fold_alias_other:
  "a \<notin> se_alias ` set ss \<Longrightarrow> fold (\<lambda>s m. m(se_alias s \<mapsto> f s)) ss m0 a = m0 a"
  by (induction ss arbitrary: m0) auto

lemma fold_alias_distinct:
  "distinct (map se_alias ss) \<Longrightarrow> s \<in> set ss \<Longrightarrow>
     fold (\<lambda>s m. m(se_alias s \<mapsto> f s)) ss m0 (se_alias s) = Some (f s)"
  by (induction ss arbitrary: m0) (auto simp: fold_alias_other)

lemma fanout_values_dom: "dom (fanout_values ss vals) = se_alias ` set ss"
  by (simp add: fanout_values_def fold_alias_dom)

lemma fanout_values_distinct:
  "distinct (map se_alias ss) \<Longrightarrow> s \<in> set ss \<Longrightarrow>
     fanout_values ss vals (se_alias s) = Some (identity_value vals s)"
  unfolding fanout_values_def by (rule fold_alias_distinct)

lemma identity_of_secret_of_identity [simp]: "identity_for_secret (secret_of_identity i) = i"
  by (simp add: identity_for_secret_def secret_of_identity_def)

end
