(* ===== verification/SessionStore.thy ===== *)
theory SessionStore
  imports PeerAuth GrantValues Metered "HOL-Library.Product_Lexorder"
begin

text \<open>
  Sessions: \<open>internal/daemon/broker/session_store.go\<close>. Two Go maps, by id and by token, point to
  the same mutable records; the model keeps the pointers: both maps lead to addresses of a heap of
  records, so a change through one is seen through the other.
\<close>

section \<open>Data\<close>

record session_record =
  sr_id :: string
  sr_token :: string
  sr_reason :: string
  sr_cwd :: string
  sr_secrets :: "secret list"
  sr_env :: "string \<rightharpoonup> string"
  sr_aliases :: "string list"
  sr_expires_at :: go_time
  sr_max_reads :: int
  sr_binding :: peer_binding
  sr_reads :: int
  sr_reserved :: int
  sr_override_env :: bool

record session_reservation =
  sx_session_id :: string
  sx_token :: string
  sx_reason :: string
  sx_cwd :: string
  sx_secrets :: "secret list"
  sx_env :: "string \<rightharpoonup> string"
  sx_aliases :: "string list"
  sx_expires_at :: go_time
  sx_max_reads :: int
  sx_remaining :: int
  sx_override_env :: bool

record session_store =
  ss_sessions :: "string \<rightharpoonup> nat"
  ss_tokens :: "string \<rightharpoonup> nat"
  ss_heap :: "nat \<Rightarrow> session_record"
  ss_next :: nat

definition empty_heap_record :: session_record where
  "empty_heap_record = \<lparr>sr_id = '''', sr_token = '''', sr_reason = '''', sr_cwd = '''', sr_secrets = [],
     sr_env = Map.empty, sr_aliases = [], sr_expires_at = 0, sr_max_reads = 0,
     sr_binding = \<lparr>pb_creator = \<lparr>pi_uid = 0, pi_gid = 0, pi_pid = 0, pi_exe = '''', pi_cwd = ''''\<rparr>,
       pb_anchor = \<lparr>pr_uid = 0, pr_gid = 0, pr_pid = 0, pr_parent_pid = 0, pr_exe = '''',
         pr_start_time = 0\<rparr>,
       pb_policy = default_binding_policy\<rparr>,
     sr_reads = 0, sr_reserved = 0, sr_override_env = False\<rparr>"

definition new_session_store :: session_store where
  "new_session_store = \<lparr>ss_sessions = Map.empty, ss_tokens = Map.empty,
     ss_heap = (\<lambda>_. empty_heap_record), ss_next = 0\<rparr>"

text \<open>The record behind a session id and behind a token.\<close>

definition by_id :: "session_store \<Rightarrow> string \<Rightarrow> session_record option" where
  "by_id s i = map_option (ss_heap s) (ss_sessions s i)"

definition by_token :: "session_store \<Rightarrow> string \<Rightarrow> session_record option" where
  "by_token s t = map_option (ss_heap s) (ss_tokens s t)"

section \<open>Operations\<close>

definition remaining_reads :: "session_record \<Rightarrow> int" where
  "remaining_reads r = (let n = sr_max_reads r - sr_reads r - sr_reserved r in if n < 0 then 0 else n)"

definition session_summary_of :: "session_record \<Rightarrow> session_summary" where
  "session_summary_of r = \<lparr>sm_session_id = sr_id r, sm_session_token = sr_token r,
     sm_reason = sr_reason r, sm_cwd = sr_cwd r, sm_secret_aliases = sr_aliases r,
     sm_expires_at = sr_expires_at r, sm_max_reads = sr_max_reads r,
     sm_remaining_reads = remaining_reads r, sm_override_env = sr_override_env r,
     sm_binding = binding_info_of (sr_binding r)\<rparr>"

definition delete_record :: "session_store \<Rightarrow> session_record \<Rightarrow> session_store" where
  "delete_record s r = s\<lparr>ss_sessions := (ss_sessions s)(sr_id r := None),
     ss_tokens := (ss_tokens s)(sr_token r := None)\<rparr>"

text \<open>\<open>create\<close>: \<open>rid\<close> and \<open>rtoken\<close> are the reads of the random source.\<close>

definition session_create ::
  "random_read \<Rightarrow> random_read \<Rightarrow> session_store \<Rightarrow> session_create_request \<Rightarrow>
   (string \<rightharpoonup> string) \<Rightarrow> peer_binding \<Rightarrow> session_store \<times> (err + session_summary)" where
  "session_create rid rtoken s r env binding =
     (case generate_id rid ''asid'' of
        Inl e \<Rightarrow> (s, Inl e)
      | Inr i \<Rightarrow>
          (case generate_id rtoken ''astok'' of
             Inl e \<Rightarrow> (s, Inl e)
           | Inr token \<Rightarrow>
               (let rec = \<lparr>sr_id = i, sr_token = token, sr_reason = sc_reason r, sr_cwd = sc_cwd r,
                      sr_secrets = sc_secrets r, sr_env = env,
                      sr_aliases = secret_aliases (sc_secrets r), sr_expires_at = sc_expires_at r,
                      sr_max_reads = sc_max_reads r, sr_binding = binding, sr_reads = 0,
                      sr_reserved = 0, sr_override_env = sc_override_env r\<rparr>
                in (\<lparr>ss_sessions = (ss_sessions s)(i \<mapsto> ss_next s),
                     ss_tokens = (ss_tokens s)(token \<mapsto> ss_next s),
                     ss_heap = (ss_heap s)(ss_next s := rec), ss_next = ss_next s + 1\<rparr>,
                    Inr (session_summary_of rec)))))"

text \<open>
  \<open>selectSessionAliases\<close>: \<open>find_secret\<close> reads the map that the loop over \<open>record.Secrets\<close> fills,
  where a later secret with the same alias wins.
\<close>

definition find_secret :: "secret list \<Rightarrow> string \<Rightarrow> secret option" where
  "find_secret ss a = map_of (rev (map (\<lambda>s. (se_alias s, s)) ss)) a"

fun select_loop ::
  "session_record \<Rightarrow> string list \<Rightarrow> secret list \<Rightarrow> (string \<rightharpoonup> string) \<Rightarrow>
   err + secret list \<times> (string \<rightharpoonup> string)" where
  "select_loop r [] ss env = Inr (ss, env)"
| "select_loop r (a # as) ss env =
     (case find_secret (sr_secrets r) a of
        None \<Rightarrow> Inl (Err (RequestErr ErrInvalidAlias))
      | Some s \<Rightarrow>
          (case sr_env r a of
             None \<Rightarrow> Inl (Err (RequestErr ErrInvalidAlias))
           | Some v \<Rightarrow> select_loop r as (ss @ [s]) (env(a \<mapsto> v))))"

definition select_session_aliases ::
  "session_record \<Rightarrow> string list \<Rightarrow> err + secret list \<times> (string \<rightharpoonup> string) \<times> string list" where
  "select_session_aliases r requested =
     (case normalize_aliases requested of
        Inl e \<Rightarrow> Inl e
      | Inr as0 \<Rightarrow>
          (let as = sort (if as0 = [] then sr_aliases r else as0)
           in case select_loop r as [] Map.empty of
                Inl e \<Rightarrow> Inl e
              | Inr (ss, env) \<Rightarrow> Inr (ss, env, as)))"

definition session_reserve ::
  "file_system \<Rightarrow> ancestry \<Rightarrow> go_time \<Rightarrow> session_store \<Rightarrow> session_resolve_request \<Rightarrow> peer_info \<Rightarrow>
   session_store \<times> (err + session_reservation)" where
  "session_reserve fs tree now s q peer =
     (case validate_peer fs peer (sv_expected_peer q) of
        Some e \<Rightarrow> (s, Inl (Wrap (StoreErr ErrSessionPeerMismatch) e))
      | None \<Rightarrow>
     (case ss_tokens s (sv_token q) of
        None \<Rightarrow> (s, Inl (Err (StoreErr ErrSessionNotFound)))
      | Some a \<Rightarrow>
          (let r = ss_heap s a
           in if \<not> now < sr_expires_at r
              then (delete_record s r, Inl (Err (ApprovalErr ErrRequestExpired)))
              else if sr_cwd r \<noteq> sv_cwd q then (s, Inl peer_mismatch)
              else
                (case validate_session_peer tree (sr_binding r) peer of
                   Some e \<Rightarrow> (s, Inl e)
                 | None \<Rightarrow>
                     if sr_reads r + sr_reserved r \<ge> sr_max_reads r
                     then (delete_record s r, Inl (Err (StoreErr ErrSessionReadExhausted)))
                     else
                       (case select_session_aliases r (sv_aliases q) of
                          Inl e \<Rightarrow> (s, Inl e)
                        | Inr (ss, env, as) \<Rightarrow>
                            (let r' = r\<lparr>sr_reserved := sr_reserved r + 1\<rparr>
                             in (s\<lparr>ss_heap := (ss_heap s)(a := r')\<rparr>,
                                 Inr \<lparr>sx_session_id = sr_id r, sx_token = sr_token r,
                                   sx_reason = sr_reason r, sx_cwd = sr_cwd r, sx_secrets = ss,
                                   sx_env = env, sx_aliases = as,
                                   sx_expires_at = sr_expires_at r, sx_max_reads = sr_max_reads r,
                                   sx_remaining = remaining_reads r',
                                   sx_override_env = sr_override_env r\<rparr>)))))))"

definition session_finish :: "go_time \<Rightarrow> session_store \<Rightarrow> string \<Rightarrow> bool \<Rightarrow> session_store" where
  "session_finish now s token delivered =
     (case ss_tokens s token of
        None \<Rightarrow> s
      | Some a \<Rightarrow>
          (let r = ss_heap s a
           in if sr_reserved r \<le> 0 then s
              else
                (let r' = r\<lparr>sr_reserved := sr_reserved r - 1,
                            sr_reads := (if delivered then sr_reads r + 1 else sr_reads r)\<rparr>;
                     s' = s\<lparr>ss_heap := (ss_heap s)(a := r')\<rparr>
                 in if sr_reads r' \<ge> sr_max_reads r' \<or> \<not> now < sr_expires_at r'
                    then delete_record s' r' else s')))"

definition session_destroy :: "session_store \<Rightarrow> string \<Rightarrow> session_store \<times> bool" where
  "session_destroy s i =
     (case ss_sessions s i of
        None \<Rightarrow> (s, False)
      | Some a \<Rightarrow> (delete_record s (ss_heap s a), True))"

definition session_clear :: "session_store \<Rightarrow> session_store" where
  "session_clear s = s\<lparr>ss_sessions := Map.empty, ss_tokens := Map.empty\<rparr>"

definition session_destroy_all :: "session_store \<Rightarrow> session_store \<times> int" where
  "session_destroy_all s = (session_clear s, int (card (dom (ss_sessions s))))"

text \<open>The loop of \<open>list\<close> over the ids in the order of the map iteration.\<close>

fun list_loop ::
  "go_time \<Rightarrow> string list \<Rightarrow> session_store \<Rightarrow> session_summary list \<Rightarrow>
   session_store \<times> session_summary list" where
  "list_loop now [] s out = (s, out)"
| "list_loop now (i # is) s out =
     (case by_id s i of
        None \<Rightarrow> list_loop now is s out
      | Some r \<Rightarrow>
          if \<not> now < sr_expires_at r \<or> sr_reads r + sr_reserved r \<ge> sr_max_reads r
          then list_loop now is (delete_record s r) out
          else list_loop now is s (out @ [session_summary_of r]))"

definition session_list ::
  "string list \<Rightarrow> go_time \<Rightarrow> session_store \<Rightarrow> session_store \<times> session_summary list" where
  "session_list order now s =
     (case list_loop now order s [] of
        (s', out) \<Rightarrow> (s', sort_key (\<lambda>m. (sm_expires_at m, sm_session_id m)) out))"

section \<open>The counters\<close>

definition reads_ok :: "session_record \<Rightarrow> bool" where
  "reads_ok r \<longleftrightarrow> 0 \<le> sr_reads r \<and> 0 \<le> sr_reserved r \<and> sr_reads r + sr_reserved r \<le> sr_max_reads r"

definition session_ok :: "session_store \<Rightarrow> bool" where
  "session_ok s \<longleftrightarrow>
     (\<forall>t a. ss_tokens s t = Some a \<longrightarrow>
        a < ss_next s \<and> sr_token (ss_heap s a) = t \<and> reads_ok (ss_heap s a))"

definition session_meter :: "session_store \<Rightarrow> string \<Rightarrow> (int \<times> int \<times> int) option" where
  "session_meter s t = map_option (\<lambda>r. (sr_max_reads r, sr_reads r, sr_reserved r)) (by_token s t)"

lemma session_okD:
  "session_ok s \<Longrightarrow> ss_tokens s t = Some a \<Longrightarrow>
     a < ss_next s \<and> sr_token (ss_heap s a) = t \<and> reads_ok (ss_heap s a)"
  by (simp add: session_ok_def)

lemma delete_record_simps [simp]:
  "ss_heap (delete_record s r) = ss_heap s" "ss_next (delete_record s r) = ss_next s"
  "ss_tokens (delete_record s r) = (ss_tokens s)(sr_token r := None)"
  "ss_sessions (delete_record s r) = (ss_sessions s)(sr_id r := None)"
  by (simp_all add: delete_record_def)

lemma delete_record_ok: "session_ok s \<Longrightarrow> session_ok (delete_record s r)"
  by (simp add: session_ok_def)

lemma delete_record_meter:
  "kept_or_dropped (session_meter s) (session_meter (delete_record s r)) K"
  by (auto simp: kept_or_dropped_def session_meter_def by_token_def)

text \<open>A change of the record behind one token is invisible through every other token.\<close>

lemma heap_update_meter:
  assumes "session_ok s" "ss_tokens s t = Some a"
  shows "kept_or_dropped (session_meter s) (session_meter (s\<lparr>ss_heap := (ss_heap s)(a := r)\<rparr>)) {t}"
  unfolding kept_or_dropped_def
proof (intro allI impI)
  fix j assume j: "j \<notin> {t}"
  have "ss_tokens s j \<noteq> Some a"
    using session_okD [OF assms(1), of j a] session_okD [OF assms] j by auto
  then show "session_meter (s\<lparr>ss_heap := (ss_heap s)(a := r)\<rparr>) j = None \<or>
      session_meter (s\<lparr>ss_heap := (ss_heap s)(a := r)\<rparr>) j = session_meter s j"
    by (cases "ss_tokens s j") (auto simp: session_meter_def by_token_def)
qed

lemma heap_update_ok:
  "session_ok s \<Longrightarrow> ss_tokens s t = Some a \<Longrightarrow> sr_token r = t \<Longrightarrow> reads_ok r \<Longrightarrow>
     session_ok (s\<lparr>ss_heap := (ss_heap s)(a := r)\<rparr>)"
proof -
  assume ok: "session_ok s" and t: "ss_tokens s t = Some a" and r: "sr_token r = t" "reads_ok r"
  have "u = t" if "ss_tokens s u = Some a" for u
    using session_okD [OF ok t] session_okD [OF ok that] by simp
  with r session_okD [OF ok] show ?thesis by (auto simp: session_ok_def)
qed

lemma kept_or_dropped_trans:
  "kept_or_dropped m m' K \<Longrightarrow> kept_or_dropped m' m'' K \<Longrightarrow> kept_or_dropped m m'' K"
  unfolding kept_or_dropped_def by metis

text \<open>Creating.\<close>

lemma session_create_Inr:
  assumes "session_create rid rtoken s r env b = (s', Inr sm)"
  shows "generate_id rid ''asid'' = Inr (sm_session_id sm)"
    "generate_id rtoken ''astok'' = Inr (sm_session_token sm)"
    "\<exists>rec. ss_heap s' = (ss_heap s)(ss_next s := rec) \<and> sm = session_summary_of rec \<and>
       sr_max_reads rec = sc_max_reads r \<and> sr_reads rec = 0 \<and> sr_reserved rec = 0 \<and>
       sr_env rec = env \<and> sr_secrets rec = sc_secrets r \<and> sr_expires_at rec = sc_expires_at r \<and>
       sr_binding rec = b \<and> sr_cwd rec = sc_cwd r \<and> sr_aliases rec = secret_aliases (sc_secrets r)"
    "ss_next s' = ss_next s + 1"
    "ss_tokens s' = (ss_tokens s)(sm_session_token sm \<mapsto> ss_next s)"
    "ss_sessions s' = (ss_sessions s)(sm_session_id sm \<mapsto> ss_next s)"
    "sm_max_reads sm = sc_max_reads r"
  using assms by (auto simp: session_create_def session_summary_of_def Let_def split: sum.splits)

lemma session_create_Inl: "session_create rid rtoken s r env b = (s', Inl e) \<Longrightarrow> s' = s"
  by (auto simp: session_create_def Let_def split: sum.splits)

lemma session_create_token:
  "session_create rid rtoken s r env b = (s', Inr sm) \<Longrightarrow>
     ss_heap s' = (ss_heap s)(ss_next s := rec) \<Longrightarrow> sm = session_summary_of rec \<Longrightarrow>
     sr_token rec = sm_session_token sm"
  by (simp add: session_summary_of_def)

lemma session_create_ok:
  assumes "session_ok s" "0 \<le> sc_max_reads r"
  shows "session_ok (fst (session_create rid rtoken s r env b))"
proof (cases "session_create rid rtoken s r env b")
  case (Pair s' res)
  show ?thesis
  proof (cases res)
    case (Inl e)
    with Pair assms session_create_Inl [of rid rtoken s r env b s' e] show ?thesis by simp
  next
    case (Inr sm)
    with Pair have c: "session_create rid rtoken s r env b = (s', Inr sm)" by simp
    from session_create_Inr(3) [OF c] obtain rec where
      h: "ss_heap s' = (ss_heap s)(ss_next s := rec)" "sm = session_summary_of rec"
      and n: "sr_max_reads rec = sc_max_reads r" "sr_reads rec = 0" "sr_reserved rec = 0" by blast
    have "reads_ok rec" using n assms(2) by (simp add: reads_ok_def)
    with h assms(1) session_create_Inr(4,5) [OF c] session_create_token [OF c h] show ?thesis
      by (fastforce simp: session_ok_def Pair)
  qed
qed

lemma session_create_meter:
  assumes "session_ok s" "session_create rid rtoken s r env b = (s', Inr sm)"
  shows "kept_or_dropped (session_meter s) (session_meter s') {sm_session_token sm}"
    "session_meter s' (sm_session_token sm) = Some (sm_max_reads sm, 0, 0)"
proof -
  from session_create_Inr(3) [OF assms(2)] obtain rec where
    h: "ss_heap s' = (ss_heap s)(ss_next s := rec)"
    and n: "sr_max_reads rec = sc_max_reads r" "sr_reads rec = 0" "sr_reserved rec = 0" by blast
  note t = session_create_Inr(5) [OF assms(2)] and m = session_create_Inr(7) [OF assms(2)]
  show "session_meter s' (sm_session_token sm) = Some (sm_max_reads sm, 0, 0)"
    by (simp add: session_meter_def by_token_def t h n m)
  show "kept_or_dropped (session_meter s) (session_meter s') {sm_session_token sm}"
    unfolding kept_or_dropped_def
  proof (intro allI impI)
    fix j assume "j \<notin> {sm_session_token sm}"
    moreover have "ss_tokens s j \<noteq> Some (ss_next s)" using session_okD [OF assms(1)] by fastforce
    ultimately show "session_meter s' j = None \<or> session_meter s' j = session_meter s j"
      by (cases "ss_tokens s j") (auto simp: session_meter_def by_token_def t h)
  qed
qed

text \<open>Reserving.\<close>

lemma session_reserve_Inr:
  assumes "session_reserve fs tree now s q peer = (s', Inr x)"
  shows "\<exists>a r. ss_tokens s (sv_token q) = Some a \<and> r = ss_heap s a \<and> now < sr_expires_at r \<and>
    sr_cwd r = sv_cwd q \<and> validate_peer fs peer (sv_expected_peer q) = None \<and>
    validate_session_peer tree (sr_binding r) peer = None \<and>
    sr_reads r + sr_reserved r < sr_max_reads r \<and>
    s' = s\<lparr>ss_heap := (ss_heap s)(a := r\<lparr>sr_reserved := sr_reserved r + 1\<rparr>)\<rparr> \<and>
    select_session_aliases r (sv_aliases q) = Inr (sx_secrets x, sx_env x, sx_aliases x) \<and>
    sx_token x = sr_token r \<and> sx_session_id x = sr_id r \<and> sx_expires_at x = sr_expires_at r \<and>
    sx_max_reads x = sr_max_reads r \<and>
    sx_remaining x = sr_max_reads r - sr_reads r - sr_reserved r - 1"
  using assms
  by (auto simp: session_reserve_def Let_def remaining_reads_def
      split: option.splits if_splits sum.splits)

lemma session_reserve_Inl:
  "session_reserve fs tree now s q peer = (s', Inl e) \<Longrightarrow>
     s' = s \<or> (\<exists>a. ss_tokens s (sv_token q) = Some a \<and> s' = delete_record s (ss_heap s a))"
  by (auto simp: session_reserve_def Let_def split: option.splits if_splits sum.splits)

lemma session_reserve_ok:
  assumes "session_ok s"
  shows "session_ok (fst (session_reserve fs tree now s q peer))"
proof (cases "session_reserve fs tree now s q peer")
  case (Pair s' res)
  show ?thesis
  proof (cases res)
    case (Inl e)
    with Pair session_reserve_Inl [of fs tree now s q peer s' e] assms delete_record_ok
    show ?thesis by auto
  next
    case (Inr x)
    with Pair session_reserve_Inr [of fs tree now s q peer s' x] obtain a
      where a: "ss_tokens s (sv_token q) = Some a"
        "sr_reads (ss_heap s a) + sr_reserved (ss_heap s a) < sr_max_reads (ss_heap s a)"
        "s' = s\<lparr>ss_heap := (ss_heap s)(a := (ss_heap s a)\<lparr>sr_reserved := sr_reserved (ss_heap s a) + 1\<rparr>)\<rparr>"
      by auto
    from session_okD [OF assms a(1)] a(2) show ?thesis unfolding Pair a(3)
      by (simp add: heap_update_ok [OF assms a(1)] reads_ok_def)
  qed
qed

text \<open>Finishing.\<close>

definition finished_record :: "session_record \<Rightarrow> bool \<Rightarrow> session_record" where
  "finished_record r delivered = r\<lparr>sr_reserved := sr_reserved r - 1,
     sr_reads := (if delivered then sr_reads r + 1 else sr_reads r)\<rparr>"

lemma session_finish_cases:
  "session_finish now s t d = s \<and> (\<forall>a. ss_tokens s t = Some a \<longrightarrow> sr_reserved (ss_heap s a) \<le> 0) \<or>
   (\<exists>a. ss_tokens s t = Some a \<and> 0 < sr_reserved (ss_heap s a) \<and>
      (let s1 = s\<lparr>ss_heap := (ss_heap s)(a := finished_record (ss_heap s a) d)\<rparr>
       in session_finish now s t d = s1 \<or>
          session_finish now s t d = delete_record s1 (finished_record (ss_heap s a) d)))"
  by (auto simp: session_finish_def finished_record_def Let_def split: option.splits)

lemma session_finish_ok: "session_ok s \<Longrightarrow> session_ok (session_finish now s t d)"
proof -
  assume ok: "session_ok s"
  consider "session_finish now s t d = s"
    | a where "ss_tokens s t = Some a" "0 < sr_reserved (ss_heap s a)"
      "session_finish now s t d = s\<lparr>ss_heap := (ss_heap s)(a := finished_record (ss_heap s a) d)\<rparr> \<or>
       session_finish now s t d = delete_record (s\<lparr>ss_heap := (ss_heap s)(a := finished_record (ss_heap s a) d)\<rparr>)
         (finished_record (ss_heap s a) d)"
    using session_finish_cases [of now s t d] by (auto simp: Let_def)
  then show ?thesis
  proof cases
    case 1
    with ok show ?thesis by simp
  next
    case (2 a)
    have "session_ok (s\<lparr>ss_heap := (ss_heap s)(a := finished_record (ss_heap s a) d)\<rparr>)"
      using session_okD [OF ok 2(1)] 2(2)
      by (intro heap_update_ok [OF ok 2(1)]) (auto simp: finished_record_def reads_ok_def)
    with 2(3) delete_record_ok show ?thesis by metis
  qed
qed

lemma session_finish_meter:
  assumes "session_ok s"
  shows "kept_or_dropped (session_meter s) (session_meter (session_finish now s t d)) {t}"
    "session_meter (session_finish now s t d) t = None \<or>
       (\<exists>n u h. session_meter s t = Some (n, u, h) \<and>
         (0 < h \<longrightarrow> session_meter (session_finish now s t d) t =
            Some (n, if d then u + 1 else u, h - 1)))"
proof -
  consider (same) "session_finish now s t d = s"
      "\<forall>a. ss_tokens s t = Some a \<longrightarrow> sr_reserved (ss_heap s a) \<le> 0"
    | (kept) a where "ss_tokens s t = Some a" "0 < sr_reserved (ss_heap s a)"
      "session_finish now s t d = s\<lparr>ss_heap := (ss_heap s)(a := finished_record (ss_heap s a) d)\<rparr>"
    | (gone) a where "ss_tokens s t = Some a" "0 < sr_reserved (ss_heap s a)"
       "session_finish now s t d = delete_record (s\<lparr>ss_heap := (ss_heap s)(a := finished_record (ss_heap s a) d)\<rparr>)
         (finished_record (ss_heap s a) d)"
    using session_finish_cases [of now s t d] by (auto simp: Let_def)
  then have "kept_or_dropped (session_meter s) (session_meter (session_finish now s t d)) {t} \<and>
    (session_meter (session_finish now s t d) t = None \<or>
       (\<exists>n u h. session_meter s t = Some (n, u, h) \<and>
         (0 < h \<longrightarrow> session_meter (session_finish now s t d) t =
            Some (n, if d then u + 1 else u, h - 1))))"
  proof cases
    case same
    then show ?thesis
      by (cases "ss_tokens s t") (auto simp: session_meter_def by_token_def)
  next
    case kept
    then show ?thesis
      using heap_update_meter [OF assms kept(1), of "finished_record (ss_heap s a) d"]
      by (auto simp: session_meter_def by_token_def finished_record_def)
  next
    case gone
    then show ?thesis
      using heap_update_meter [OF assms gone(1), of "finished_record (ss_heap s a) d"]
        kept_or_dropped_trans delete_record_meter session_okD [OF assms gone(1)]
      by (auto simp: session_meter_def by_token_def finished_record_def kept_or_dropped_def)
  qed
  then show "kept_or_dropped (session_meter s) (session_meter (session_finish now s t d)) {t}"
    "session_meter (session_finish now s t d) t = None \<or>
       (\<exists>n u h. session_meter s t = Some (n, u, h) \<and>
         (0 < h \<longrightarrow> session_meter (session_finish now s t d) t =
            Some (n, if d then u + 1 else u, h - 1)))" by blast+
qed

text \<open>Listing.\<close>

lemma list_loop_ok:
  "session_ok s \<Longrightarrow> list_loop now is s out = (s', out') \<Longrightarrow>
     session_ok s' \<and> kept_or_dropped (session_meter s) (session_meter s') {}"
proof (induction "is" arbitrary: s out)
  case (Cons i "is")
  consider (skip) out1 where "list_loop now is s out1 = (s', out')"
    | (delete) r where "list_loop now is (delete_record s r) out = (s', out')"
    using Cons.prems(2) by (auto split: option.splits if_splits)
  then show ?case
  proof cases
    case skip
    with Cons.IH [OF Cons.prems(1)] show ?thesis by blast
  next
    case delete
    from Cons.IH [OF delete_record_ok [OF Cons.prems(1)] this]
    show ?thesis using kept_or_dropped_trans [OF delete_record_meter] by blast
  qed
qed simp

lemma session_list_ok:
  "session_ok s \<Longrightarrow> session_list order now s = (s', out) \<Longrightarrow>
     session_ok s' \<and> kept_or_dropped (session_meter s) (session_meter s') {}"
  using list_loop_ok [of s now order "[]"] by (auto simp: session_list_def split: prod.splits)

section \<open>The store keeps the contract\<close>

inductive session_step :: "session_store \<Rightarrow> string label \<Rightarrow> session_store \<Rightarrow> bool" where
  step_create: "session_create rid rtoken s r env b = (s', Inr sm) \<Longrightarrow>
     validate_max_reads (sc_max_reads r) = None \<Longrightarrow>
     session_step s (Opened (sm_session_token sm) (sm_max_reads sm) 0) s'"
| step_create_fails: "session_create rid rtoken s r env b = (s', Inl e) \<Longrightarrow> session_step s Quiet s'"
| step_reserve: "session_reserve fs tree now s q peer = (s', Inr x) \<Longrightarrow>
     session_step s (Granted (sx_token x)) s'"
| step_reserve_fails: "session_reserve fs tree now s q peer = (s', Inl e) \<Longrightarrow> session_step s Quiet s'"
| step_delivered: "session_step s (Delivered t) (session_finish now s t True)"
| step_returned: "session_step s (Returned t) (session_finish now s t False)"
| step_destroy: "session_destroy s i = (s', d) \<Longrightarrow> session_step s Quiet s'"
| step_destroy_all: "session_destroy_all s = (s', n) \<Longrightarrow> session_step s Quiet s'"
| step_list: "session_list order now s = (s', out) \<Longrightarrow> session_step s Quiet s'"
| step_clear: "session_step s Quiet (session_clear s)"

inductive_cases session_step_openedE: "session_step s (Opened t n h) s'"
inductive_cases session_step_grantedE: "session_step s (Granted t) s'"

lemma session_clear_ok [simp]: "session_ok (session_clear s)"
  by (simp add: session_clear_def session_ok_def)

lemma session_clear_meter [simp]: "session_meter (session_clear s) t = None"
  by (simp add: session_clear_def session_meter_def by_token_def)

lemma session_destroy_shape:
  "session_destroy s i = (s', d) \<Longrightarrow> s' = s \<or> (\<exists>r. s' = delete_record s r)"
  by (auto simp: session_destroy_def split: option.splits)

lemma session_step_ok: "session_step s l s' \<Longrightarrow> session_ok s \<Longrightarrow> session_ok s'"
proof (induction rule: session_step.induct)
  case (step_create rid rtoken s r env b s' sm)
  with session_create_ok [of s r rid rtoken env b] show ?case by (simp add: validate_max_reads_None)
next
  case (step_create_fails rid rtoken s r env b s' e)
  with session_create_Inl [of rid rtoken s r env b s' e] show ?case by simp
next
  case (step_reserve fs tree now s q peer s' x)
  with session_reserve_ok [of s fs tree now q peer] show ?case by simp
next
  case (step_reserve_fails fs tree now s q peer s' e)
  with session_reserve_ok [of s fs tree now q peer] show ?case by simp
next
  case (step_destroy s i s' d)
  with session_destroy_shape [of s i s' d] delete_record_ok show ?case by metis
next
  case (step_destroy_all s s' n)
  then show ?case by (auto simp: session_destroy_all_def)
next
  case (step_list order now s s' out)
  with session_list_ok [of s order now s' out] show ?case by simp
qed (simp_all add: session_finish_ok)

lemma quiet_session_step:
  assumes "session_ok s" "session_step s Quiet s'"
  shows "kept_or_dropped (session_meter s) (session_meter s') {}"
  using assms(2)
proof (cases rule: session_step.cases)
  case (step_create_fails rid rtoken r env b e)
  then show ?thesis using session_create_Inl [of rid rtoken s r env b s' e] by simp
next
  case (step_reserve_fails fs tree now q peer e)
  then show ?thesis
    using session_reserve_Inl [of fs tree now s q peer s' e] delete_record_meter by auto
next
  case (step_destroy i d)
  then show ?thesis using session_destroy_shape [of s i s' d] delete_record_meter by auto
next
  case (step_destroy_all n)
  then show ?thesis by (auto simp: session_destroy_all_def kept_or_dropped_def)
next
  case (step_list order now out)
  then show ?thesis using session_list_ok [OF assms(1)] by blast
next
  case step_clear
  then show ?thesis by (simp add: kept_or_dropped_def)
qed

interpretation sessions: metered_store session_meter session_ok session_step
proof unfold_locales
  fix s l s'
  assume "session_ok s" "session_step s l s'"
  then show "session_ok s'" using session_step_ok by blast
next
  fix s k n h s'
  assume ok: "session_ok s" and "session_step s (Opened k n h) s'"
  from this(2) obtain rid rtoken r env b sm
    where c: "session_create rid rtoken s r env b = (s', Inr sm)"
      and k: "k = sm_session_token sm" "n = sm_max_reads sm" "h = 0"
      and v: "validate_max_reads (sc_max_reads r) = None"
    by (auto elim: session_step_openedE)
  have "0 \<le> n" using v session_create_Inr(7) [OF c] k by (simp add: validate_max_reads_None)
  then show "kept_or_dropped (session_meter s) (session_meter s') {k} \<and> 0 \<le> h \<and> h \<le> n \<and>
      session_meter s' k = Some (n, 0, h)"
    using session_create_meter [OF ok c] k by simp
next
  fix s k s'
  assume ok: "session_ok s" and "session_step s (Granted k) s'"
  from this(2) obtain fs tree now q peer x
    where x: "session_reserve fs tree now s q peer = (s', Inr x)" and k: "k = sx_token x"
    by (auto elim: session_step_grantedE)
  from session_reserve_Inr [OF x] obtain a where a: "ss_tokens s (sv_token q) = Some a"
    and room: "sr_reads (ss_heap s a) + sr_reserved (ss_heap s a) < sr_max_reads (ss_heap s a)"
    and s': "s' = s\<lparr>ss_heap := (ss_heap s)(a := (ss_heap s a)\<lparr>sr_reserved := sr_reserved (ss_heap s a) + 1\<rparr>)\<rparr>"
    and t: "sx_token x = sr_token (ss_heap s a)" by auto
  have kq: "k = sv_token q" using session_okD [OF ok a] t k by simp
  then show "kept_or_dropped (session_meter s) (session_meter s') {k} \<and>
      (\<exists>n u h. session_meter s k = Some (n, u, h) \<and> u + h < n \<and> session_meter s' k = Some (n, u, h + 1))"
    using heap_update_meter [OF ok a] room a by (auto simp: s' session_meter_def by_token_def)
next
  fix s k s'
  assume ok: "session_ok s" and "session_step s (Delivered k) s'"
  from this(2) obtain now where "s' = session_finish now s k True" by (auto elim: session_step.cases)
  then show "kept_or_dropped (session_meter s) (session_meter s') {k} \<and>
      (session_meter s' k = None \<or> (\<exists>n u h. session_meter s k = Some (n, u, h) \<and>
        (0 < h \<longrightarrow> session_meter s' k = Some (n, u + 1, h - 1))))"
    using session_finish_meter [OF ok, of now k True] by simp
next
  fix s k s'
  assume ok: "session_ok s" and "session_step s (Returned k) s'"
  from this(2) obtain now where "s' = session_finish now s k False" by (auto elim: session_step.cases)
  then show "kept_or_dropped (session_meter s) (session_meter s') {k} \<and>
      (session_meter s' k = None \<or> (\<exists>n u h. session_meter s k = Some (n, u, h) \<and>
        (0 < h \<longrightarrow> session_meter s' k = Some (n, u, h - 1))))"
    using session_finish_meter [OF ok, of now k False] by simp
next
  fix s s'
  assume "session_ok s" "session_step s Quiet s'"
  then show "kept_or_dropped (session_meter s) (session_meter s') {}" by (rule quiet_session_step)
qed

end
