(* ===== verification/AuditLog.thy ===== *)
theory AuditLog
  imports GrantValues Identity
begin

text \<open>
  The audit log: \<open>internal/audit/audit.go\<close> and the references of
  \<open>internal/daemon/broker/grant_values.go\<close>. The locale \<open>audit_sink\<close> is the interface
  \<open>broker.AuditSink\<close>; the writer implements it.
\<close>

section \<open>Events\<close>

text \<open>\<open>EventType\<close> and \<open>ErrorCode\<close> are string types; each constructor is a constant, the first of
  each the empty string.\<close>

datatype event_type =
    NoEventType
  | EventApprovalRequested | EventApprovalGranted | EventApprovalDenied | EventApprovalTimedOut
  | EventApprovalReused | EventApprovalReuseMissed | EventApprovalRefreshed
  | EventSecretFetchStarted | EventSecretFetchFailed
  | EventItemMetadataRequested | EventItemMetadataGranted | EventItemMetadataFetchStarted
  | EventItemMetadataFetchCompleted | EventItemMetadataFetchFailed
  | EventSessionCreated | EventSessionResolved | EventSessionDestroyed
  | EventCommandStarting | EventCommandStarted | EventCommandCompleted
  | EventExecClientDisconnectedAfterPayload | EventExecClientDisconnectedAfterStart
  | EventDaemonStop

datatype error_code =
    NoErrorCode
  | ApprovalDenied | ApprovalUnavailable | ApproverIdentityMismatch | ApproverPeerMismatch
  | AuditFailed | BadApprovalDecision | BadCommandCompleted | BadCommandStarted | BadEnvelope
  | BadRequest | BadType | ContextCanceled | ContextDeadlineExceeded | DaemonStopped
  | FrameTooLarge | InvalidNonce | NoPendingApproval | NoReusableApproval | PeerRejected
  | RequestActive | RequestExpired | RequestFailed | ResolveFailed | SessionNotFound
  | SessionPeerMismatch | SessionReadExhausted | StaleApproval | UntrustedClient

record audit_ref =
  af_alias :: string
  af_ref :: string
  af_account :: string
  af_source :: string
  af_token_alias :: string

record event =
  ev_timestamp :: go_time
  ev_type :: event_type
  ev_request_id :: string
  ev_approval_id :: string
  ev_session_id :: string
  ev_reason :: string
  ev_command :: "string list"
  ev_executable :: string
  ev_cwd :: string
  ev_secret_refs :: "audit_ref list"
  ev_item_ref :: string
  ev_account :: string
  ev_child_pid :: "int option"
  ev_exit_code :: "int option"
  ev_signal :: string
  ev_error_code :: error_code
  ev_requester_pid :: "int option"
  ev_requester_uid :: "int option"
  ev_requester_path :: string
  ev_remaining_ttl_ms :: "int option"
  ev_remaining_uses :: "int option"
  ev_max_reads :: "int option"
  ev_remaining_reads :: "int option"
  ev_force_refresh :: bool
  ev_reuse_only :: bool
  ev_override_env :: bool
  ev_overridden :: "string list"

text \<open>\<open>audit.Event{Type: t}\<close>.\<close>

definition event_of_type :: "event_type \<Rightarrow> event" where
  "event_of_type t = \<lparr>ev_timestamp = zero_time, ev_type = t, ev_request_id = '''',
     ev_approval_id = '''', ev_session_id = '''', ev_reason = '''', ev_command = [],
     ev_executable = '''', ev_cwd = '''', ev_secret_refs = [], ev_item_ref = '''', ev_account = '''',
     ev_child_pid = None, ev_exit_code = None, ev_signal = '''', ev_error_code = NoErrorCode,
     ev_requester_pid = None, ev_requester_uid = None, ev_requester_path = '''',
     ev_remaining_ttl_ms = None, ev_remaining_uses = None, ev_max_reads = None,
     ev_remaining_reads = None, ev_force_refresh = False, ev_reuse_only = False,
     ev_override_env = False, ev_overridden = []\<rparr>"

definition audit_ref_of_secret :: "secret \<Rightarrow> audit_ref" where
  "audit_ref_of_secret s = \<lparr>af_alias = se_alias s, af_ref = rf_raw (se_ref s),
     af_account = se_account s, af_source = se_source s,
     af_token_alias = bw_token_alias (se_bitwarden s)\<rparr>"

definition secret_refs :: "secret list \<Rightarrow> audit_ref list" where
  "secret_refs ss = map audit_ref_of_secret ss"

definition from_session_create_request ::
  "event_type \<Rightarrow> string \<Rightarrow> session_create_request \<Rightarrow> event" where
  "from_session_create_request t rid r = (event_of_type t)\<lparr>ev_request_id := rid,
     ev_reason := sc_reason r, ev_command := sc_command r, ev_executable := sc_executable r,
     ev_cwd := sc_cwd r, ev_secret_refs := secret_refs (sc_secrets r),
     ev_max_reads := Some (sc_max_reads r), ev_override_env := sc_override_env r\<rparr>"

definition from_session_resolve_request ::
  "event_type \<Rightarrow> string \<Rightarrow> session_resolve_request \<Rightarrow> audit_ref list \<Rightarrow> event" where
  "from_session_resolve_request t rid r refs = (event_of_type t)\<lparr>ev_request_id := rid,
     ev_command := sv_command r, ev_executable := sv_executable r, ev_cwd := sv_cwd r,
     ev_secret_refs := refs\<rparr>"

definition from_exec_request :: "event_type \<Rightarrow> string \<Rightarrow> exec_request \<Rightarrow> event" where
  "from_exec_request t rid r = (event_of_type t)\<lparr>ev_request_id := rid,
     ev_reason := er_reason r, ev_command := er_command r, ev_executable := er_executable r,
     ev_cwd := er_cwd r, ev_secret_refs := secret_refs (er_secrets r),
     ev_force_refresh := er_force_refresh r, ev_reuse_only := er_reuse_only r,
     ev_override_env := er_override_env r, ev_overridden := er_overridden r\<rparr>"

definition from_item_describe_request :: "event_type \<Rightarrow> string \<Rightarrow> item_describe_request \<Rightarrow> event" where
  "from_item_describe_request t rid r = (event_of_type t)\<lparr>ev_request_id := rid,
     ev_reason := it_reason r, ev_command := it_command r, ev_executable := it_executable r,
     ev_cwd := it_cwd r, ev_item_ref := ir_raw (it_ref r), ev_account := it_account r\<rparr>"

lemma event_types [simp]:
  "ev_type (event_of_type t) = t"
  "ev_type (from_session_create_request t rid sr) = t"
  "ev_type (from_session_resolve_request t rid rr refs) = t"
  "ev_type (from_exec_request t rid er) = t"
  "ev_type (from_item_describe_request t rid ir) = t"
  by (simp_all add: event_of_type_def from_session_create_request_def
      from_session_resolve_request_def from_exec_request_def from_item_describe_request_def)

lemma event_request_ids [simp]:
  "ev_request_id (from_session_create_request t rid sr) = rid"
  "ev_request_id (from_session_resolve_request t rid rr refs) = rid"
  "ev_request_id (from_exec_request t rid er) = rid"
  "ev_request_id (from_item_describe_request t rid ir) = rid"
  by (simp_all add: from_session_create_request_def
      from_session_resolve_request_def from_exec_request_def from_item_describe_request_def)

section \<open>References of a failed fetch\<close>

definition bare_audit_ref :: "secret_identity \<Rightarrow> audit_ref" where
  "bare_audit_ref i = \<lparr>af_alias = '''', af_ref = rf_raw (si_ref i), af_account = si_account i,
     af_source = si_source i, af_token_alias = bw_token_alias (si_bitwarden i)\<rparr>"

definition audit_refs_for_identity :: "secret list \<Rightarrow> secret_identity \<Rightarrow> audit_ref list" where
  "audit_refs_for_identity ss i =
     (let refs = map audit_ref_of_secret (filter (\<lambda>s. identity_for_secret s = i) ss)
      in if refs = [] then [bare_audit_ref i] else refs)"

definition audit_refs_for_identities :: "secret list \<Rightarrow> secret_identity list \<Rightarrow> audit_ref list" where
  "audit_refs_for_identities ss is =
     (let matched = filter (\<lambda>s. identity_for_secret s \<in> set is) ss
      in map audit_ref_of_secret matched
         @ map bare_audit_ref (filter (\<lambda>i. i \<notin> set (map identity_for_secret matched)) is))"

lemma audit_refs_for_unique_identities:
  "audit_refs_for_identities ss (unique_secret_identities ss) = secret_refs ss"
proof -
  have a: "filter (\<lambda>s. identity_for_secret s \<in> set (unique_secret_identities ss)) ss = ss"
    by (simp add: filter_id_conv)
  have b: "filter (\<lambda>i. i \<notin> set (map identity_for_secret ss)) (unique_secret_identities ss) = []"
    by (simp add: filter_empty_conv)
  show ?thesis unfolding audit_refs_for_identities_def a Let_def b by (simp add: secret_refs_def)
qed

section \<open>The writer\<close>

text \<open>
  \<open>Writer\<close>: whether its file is open, and the lines written. A failing write may leave a torn
  line behind; a failing sync leaves a whole one.
\<close>

datatype log_line = Line event | Torn

record audit_writer =
  aw_open :: bool
  aw_lines :: "log_line list"

datatype io_result = IoOk | EncodeFails err | SyncFails err

definition writer_preflight :: "err option \<Rightarrow> audit_writer \<Rightarrow> err option" where
  "writer_preflight ctx w =
     or_else ctx (require (aw_open w) (Err (AuditErr ErrClosed)))"

definition writer_record ::
  "err option \<Rightarrow> go_time \<Rightarrow> io_result \<Rightarrow> audit_writer \<Rightarrow> event \<Rightarrow> audit_writer \<times> err option" where
  "writer_record ctx now io w ev =
     (if ev_type ev = NoEventType then (w, Some (Err (AuditErr ErrInvalidAuditEvent)))
      else
        (case ctx of
           Some e \<Rightarrow> (w, Some e)
         | None \<Rightarrow>
             if \<not> aw_open w then (w, Some (Err (AuditErr ErrClosed)))
             else
               (let ev' = (if ev_timestamp ev = zero_time then ev\<lparr>ev_timestamp := now\<rparr> else ev)
                in case io of
                     EncodeFails e \<Rightarrow> (w\<lparr>aw_lines := aw_lines w @ [Torn]\<rparr>, Some e)
                   | SyncFails e \<Rightarrow> (w\<lparr>aw_lines := aw_lines w @ [Line ev']\<rparr>, Some e)
                   | IoOk \<Rightarrow> (w\<lparr>aw_lines := aw_lines w @ [Line ev']\<rparr>, None))))"

definition writer_close :: "err option \<Rightarrow> audit_writer \<Rightarrow> audit_writer \<times> err option" where
  "writer_close err w = (if \<not> aw_open w then (w, None) else (w\<lparr>aw_open := False\<rparr>, err))"

text \<open>An event up to its time stamp, which the writer fills in.\<close>

definition same_event :: "event \<Rightarrow> event \<Rightarrow> bool" where
  "same_event a b \<longleftrightarrow> a\<lparr>ev_timestamp := zero_time\<rparr> = b\<lparr>ev_timestamp := zero_time\<rparr>"

definition line_holds :: "event \<Rightarrow> log_line \<Rightarrow> bool" where
  "line_holds e l \<longleftrightarrow> (case l of Line e' \<Rightarrow> same_event e e' | Torn \<Rightarrow> False)"

locale audit_sink =
  fixes record_event :: "'a \<Rightarrow> 's \<Rightarrow> event \<Rightarrow> 's \<times> err option"
    and entries :: "'s \<Rightarrow> log_line list"
  assumes record_ok: "record_event a s e = (s', None) \<Longrightarrow>
      \<exists>l. entries s' = entries s @ [l] \<and> line_holds e l"
    and record_keeps: "record_event a s e = (s', r) \<Longrightarrow> \<exists>ls. entries s' = entries s @ ls"
begin

text \<open>A run of required records, stopping at the first failure.\<close>

fun record_all :: "'a list \<Rightarrow> 's \<Rightarrow> event list \<Rightarrow> 's \<times> err option" where
  "record_all as s [] = (s, None)"
| "record_all as s (e # es) =
     (case record_event (hd as) s e of
        (s', Some x) \<Rightarrow> (s', Some x)
      | (s', None) \<Rightarrow> record_all (tl as) s' es)"

lemma record_all_ok:
  "record_all as s es = (s', None) \<Longrightarrow>
     \<exists>ls. entries s' = entries s @ ls \<and> list_all2 line_holds es ls"
proof (induction es arbitrary: as s)
  case (Cons e es)
  then obtain s1 where r: "record_event (hd as) s e = (s1, None)"
    and rest: "record_all (tl as) s1 es = (s', None)"
    by (auto split: prod.splits option.splits)
  from record_ok [OF r] obtain l where l: "entries s1 = entries s @ [l]" "line_holds e l" by blast
  from Cons.IH [OF rest] obtain ls where "entries s' = entries s1 @ ls" "list_all2 line_holds es ls"
    by blast
  with l show ?case by (intro exI [of _ "l # ls"]) simp
qed simp

lemma record_all_keeps:
  "record_all as s es = (s', r) \<Longrightarrow> \<exists>ls. entries s' = entries s @ ls"
proof (induction es arbitrary: as s)
  case (Cons e es)
  obtain s1 r1 where r: "record_event (hd as) s e = (s1, r1)" by (cases "record_event (hd as) s e")
  from record_keeps [OF r] obtain ls where l: "entries s1 = entries s @ ls" ..
  show ?case
  proof (cases r1)
    case None
    with Cons.prems r have "record_all (tl as) s1 es = (s', r)" by simp
    from Cons.IH [OF this] l show ?thesis by auto
  next
    case (Some e)
    with Cons.prems r l show ?thesis by auto
  qed
qed simp

end

lemma line_holds_stamp [simp]:
  "line_holds e (Line e)" "line_holds e (Line (e\<lparr>ev_timestamp := t\<rparr>))"
  by (simp_all add: line_holds_def same_event_def)

interpretation log_file: audit_sink
  "\<lambda>(ctx, now, io) w e. writer_record ctx now io w e" aw_lines
proof unfold_locales
  fix a s e s'
  assume "(case a of (ctx, now, io) \<Rightarrow> \<lambda>w e. writer_record ctx now io w e) s e = (s', None)"
  then show "\<exists>l. aw_lines s' = aw_lines s @ [l] \<and> line_holds e l"
    by (cases a) (auto simp: writer_record_def Let_def split: if_splits option.splits io_result.splits)
next
  fix a s e s' r
  assume "(case a of (ctx, now, io) \<Rightarrow> \<lambda>w e. writer_record ctx now io w e) s e = (s', r)"
  then show "\<exists>ls. aw_lines s' = aw_lines s @ ls"
    by (cases a) (auto simp: writer_record_def Let_def split: if_splits option.splits io_result.splits)
qed

section \<open>Opening the log\<close>

text \<open>What \<open>os.Lstat\<close> and \<open>File.Stat\<close> say; \<open>uid\<close> is None when \<open>Sys()\<close> is not a stat buffer.\<close>

record lstat_info =
  ls_symlink :: bool
  ls_dir :: bool
  ls_regular :: bool
  ls_perm :: "32 word"
  ls_uid :: "int option"

datatype lstat_result = Found lstat_info | NotExist | StatFails err

abbreviation insecure :: err where
  "insecure \<equiv> Err (AuditErr ErrInsecureAuditLog)"

definition allowed_root_alias :: "string \<Rightarrow> bool" where
  "allowed_root_alias p \<longleftrightarrow> p = ''/etc'' \<or> p = ''/tmp'' \<or> p = ''/var''"

definition reject_ancestor_info :: "string \<Rightarrow> lstat_info \<Rightarrow> err option" where
  "reject_ancestor_info current info =
     (if ls_symlink info then (if allowed_root_alias current then None else Some insecure)
      else if \<not> ls_dir info then Some insecure
      else None)"

function reject_ancestry_loop :: "(string \<Rightarrow> lstat_result) \<Rightarrow> string \<Rightarrow> err option" where
  "reject_ancestry_loop lstat current =
     or_else (case lstat current of
                StatFails e \<Rightarrow> Some e
              | NotExist \<Rightarrow> None
              | Found info \<Rightarrow> reject_ancestor_info current info)
       (let parent = path_dir current
        in if parent = current then None else reject_ancestry_loop lstat parent)"
  by pat_completeness auto
termination
  by (relation "measure (\<lambda>(l, d). path_weight d)") (auto simp: path_dir_weight)

declare reject_ancestry_loop.simps [simp del]

definition reject_directory_ancestry :: "(string \<Rightarrow> lstat_result) \<Rightarrow> string \<Rightarrow> err option" where
  "reject_directory_ancestry lstat dir = reject_ancestry_loop lstat (path_clean dir)"

definition owner_ok :: "int \<Rightarrow> lstat_info \<Rightarrow> bool" where
  "owner_ok uid info \<longleftrightarrow> (case ls_uid info of Some u \<Rightarrow> u = uid | None \<Rightarrow> True)"

definition reject_insecure_directory ::
  "int \<Rightarrow> (string \<Rightarrow> lstat_result) \<Rightarrow> string \<Rightarrow> err option" where
  "reject_insecure_directory uid lstat dir =
     or_else (reject_directory_ancestry lstat dir)
     (case lstat dir of
        NotExist \<Rightarrow> Some (Text ''stat audit directory'')
      | StatFails e \<Rightarrow> Some e
      | Found info \<Rightarrow>
          if ls_symlink info then Some insecure
          else if \<not> ls_dir info then Some insecure
          else if ls_perm info \<noteq> 0x1C0 then Some insecure
          else if \<not> owner_ok uid info then Some insecure
          else None)"

text \<open>
  \<open>prepareAuditDirectory\<close>: \<open>mkdir\<close> is the outcome of \<open>os.MkdirAll\<close>, an error or the file system
  as it is afterwards. The result also has the file system that the later checks see.
\<close>

definition prepare_directory ::
  "int \<Rightarrow> (string \<Rightarrow> lstat_result) \<Rightarrow> err + (string \<Rightarrow> lstat_result) \<Rightarrow> string \<Rightarrow>
   (string \<Rightarrow> lstat_result) \<times> err option" where
  "prepare_directory uid lstat mkdir dir =
     (case reject_directory_ancestry lstat dir of
        Some e \<Rightarrow> (lstat, Some e)
      | None \<Rightarrow>
          (case lstat dir of
             NotExist \<Rightarrow>
               (case mkdir of
                  Inl e \<Rightarrow> (lstat, Some e)
                | Inr lstat' \<Rightarrow> (lstat', reject_insecure_directory uid lstat' dir))
           | StatFails e \<Rightarrow> (lstat, Some e)
           | Found info \<Rightarrow> (lstat, reject_insecure_directory uid lstat dir)))"

definition secure_file_info :: "int \<Rightarrow> lstat_info \<Rightarrow> err option" where
  "secure_file_info uid info =
     (if \<not> ls_regular info then Some insecure
      else if ls_perm info \<noteq> 0x180 then Some insecure
      else if \<not> owner_ok uid info then Some insecure
      else None)"

definition reject_insecure_file :: "int \<Rightarrow> (string \<Rightarrow> lstat_result) \<Rightarrow> string \<Rightarrow> err option" where
  "reject_insecure_file uid lstat path =
     (case lstat path of
        NotExist \<Rightarrow> None
      | StatFails e \<Rightarrow> Some e
      | Found info \<Rightarrow> if ls_symlink info then Some insecure else secure_file_info uid info)"

text \<open>\<open>openAuditLog\<close>: \<open>opened\<close> is the outcome of \<open>os.OpenFile\<close>, and then of \<open>file.Stat\<close>.\<close>

definition open_audit_log :: "int \<Rightarrow> err + (err + lstat_info) \<Rightarrow> err option" where
  "open_audit_log uid opened =
     (case opened of
        Inl e \<Rightarrow> Some e
      | Inr (Inl e) \<Rightarrow> Some e
      | Inr (Inr info) \<Rightarrow> secure_file_info uid info)"

definition open_path ::
  "int \<Rightarrow> (string \<Rightarrow> lstat_result) \<Rightarrow> err + (string \<Rightarrow> lstat_result) \<Rightarrow> err + (err + lstat_info) \<Rightarrow>
   string \<Rightarrow> err + audit_writer" where
  "open_path uid lstat mkdir opened path =
     (let dir = path_dir path; (lstat', r) = prepare_directory uid lstat mkdir dir
      in case or_else r
           (or_else (reject_insecure_file uid lstat' path)
           (or_else (reject_directory_ancestry lstat' dir)
             (open_audit_log uid opened))) of
           Some e \<Rightarrow> Inl e
         | None \<Rightarrow> Inr \<lparr>aw_open = True, aw_lines = []\<rparr>)"

text \<open>An ancestor that the check lets pass.\<close>

definition plain_ancestor :: "(string \<Rightarrow> lstat_result) \<Rightarrow> string \<Rightarrow> bool" where
  "plain_ancestor lstat d \<longleftrightarrow>
     (case lstat d of
        NotExist \<Rightarrow> True
      | StatFails e \<Rightarrow> False
      | Found info \<Rightarrow> if ls_symlink info then allowed_root_alias d else ls_dir info)"

lemma reject_ancestry_loop_None:
  "reject_ancestry_loop lstat d = None \<longleftrightarrow>
     plain_ancestor lstat d \<and> (path_dir d \<noteq> d \<longrightarrow> reject_ancestry_loop lstat (path_dir d) = None)"
  by (subst reject_ancestry_loop.simps)
    (auto simp: plain_ancestor_def reject_ancestor_info_def Let_def split: lstat_result.splits)

lemma reject_ancestry_abs_path:
  "list_all clean_elem ps \<Longrightarrow>
     reject_ancestry_loop lstat (abs_path ps) = None \<longleftrightarrow>
       (\<forall>n \<le> length ps. plain_ancestor lstat (abs_path (take n ps)))"
proof (induction ps rule: rev_induct)
  case Nil
  then show ?case by (subst reject_ancestry_loop_None) (simp add: path_dir_root)
next
  case (snoc p ps)
  have pd: "path_dir (abs_path (ps @ [p])) = abs_path ps"
    by (rule path_dir_abs_path) (rule snoc.prems)
  have ne: "abs_path ps \<noteq> abs_path (ps @ [p])"
    using snoc.prems abs_path_snoc_neq [of ps p] by auto
  have split: "(\<forall>n \<le> length (ps @ [p]). plain_ancestor lstat (abs_path (take n (ps @ [p])))) \<longleftrightarrow>
      plain_ancestor lstat (abs_path (ps @ [p])) \<and>
      (\<forall>n \<le> length ps. plain_ancestor lstat (abs_path (take n ps)))"
    by (auto simp: le_Suc_eq)
  show ?case
    unfolding split by (subst reject_ancestry_loop_None) (use snoc ne in \<open>simp add: pd\<close>)
qed

end
