(* ===== verification/Approval.thy ===== *)
theory Approval
  imports PeerAuth AuditLog
begin

text \<open>
  What the daemon asks the approver and what it accepts back:
  \<open>internal/daemon/approval/approval_protocol.go\<close>, \<open>approval_contracts.go\<close>, \<open>errors.go\<close>.
\<close>

section \<open>Messages\<close>

record correlation =
  co_request_id :: string
  co_nonce :: string

datatype operation = OpExec | OpItemDescribe | OpSessionCreate

record requested_resource =
  rr_alias :: string
  rr_ref :: string
  rr_account :: string
  rr_source :: string
  rr_token_alias :: string

text \<open>
  \<open>RequestTTLSeconds\<close> is a float of the same duration; the model keeps the duration itself.
\<close>

record approval_payload =
  ap_operation :: operation
  ap_allows_reusable :: bool
  ap_request_id :: string
  ap_nonce :: string
  ap_reason :: string
  ap_command :: "string list"
  ap_cwd :: string
  ap_executable :: string
  ap_allow_mutable :: bool
  ap_expires_at :: go_time
  ap_request_ttl :: duration
  ap_session_max_reads :: int
  ap_access_seconds :: int
  ap_resources :: "requested_resource list"
  ap_override_env :: bool
  ap_overridden :: "string list"
  ap_reusable_uses :: int
  ap_session_binding :: "binding_info option"

text \<open>\<open>ApprovalDecisionKind\<close> is a string type: its four constants, and any other string.\<close>

datatype decision_kind =
  ApproveOnce | ApproveReusable | Deny | DecisionTimeout | OtherKind string

record decision_payload =
  dp_request_id :: string
  dp_nonce :: string
  dp_decision :: decision_kind
  dp_reusable_uses :: "int option"
  dp_denial_reason :: string

record decision =
  de_approved :: bool
  de_reusable :: bool
  de_reusable_uses :: int
  de_denial_reason :: string

definition zero_decision :: decision where
  "zero_decision = \<lparr>de_approved = False, de_reusable = False, de_reusable_uses = 0,
     de_denial_reason = ''''\<rparr>"

section \<open>Payloads\<close>

definition resource_of_secret :: "secret \<Rightarrow> requested_resource" where
  "resource_of_secret s = \<lparr>rr_alias = se_alias s, rr_ref = rf_raw (se_ref s),
     rr_account = se_account s, rr_source = se_source s,
     rr_token_alias = bw_token_alias (se_bitwarden s)\<rparr>"

definition duration_seconds :: "duration \<Rightarrow> int" where
  "duration_seconds d = (if d \<le> 0 then 0 else (d + seconds 1 - 1) div seconds 1)"

definition session_binding_pointer :: "binding_info \<Rightarrow> binding_info option" where
  "session_binding_pointer b =
     (if bi_mode b = '''' \<and> bp_pid (bi_bound b) = 0 \<and> bp_pid (bi_creator b) = 0 then None else Some b)"

definition new_exec_payload :: "correlation \<Rightarrow> exec_request \<Rightarrow> approval_payload" where
  "new_exec_payload c r = \<lparr>ap_operation = OpExec, ap_allows_reusable = True,
     ap_request_id = co_request_id c, ap_nonce = co_nonce c, ap_reason = er_reason r,
     ap_command = er_command r, ap_cwd = er_cwd r, ap_executable = er_executable r,
     ap_allow_mutable = er_allow_mutable r, ap_expires_at = er_expires_at r,
     ap_request_ttl = er_ttl r, ap_session_max_reads = 0, ap_access_seconds = 0,
     ap_resources = map resource_of_secret (er_secrets r), ap_override_env = er_override_env r,
     ap_overridden = er_overridden r,
     ap_reusable_uses = reusable_uses_or_default (er_reusable_uses r),
     ap_session_binding = None\<rparr>"

definition new_item_describe_payload :: "correlation \<Rightarrow> item_describe_request \<Rightarrow> approval_payload" where
  "new_item_describe_payload c r = \<lparr>ap_operation = OpItemDescribe, ap_allows_reusable = False,
     ap_request_id = co_request_id c, ap_nonce = co_nonce c, ap_reason = it_reason r,
     ap_command = it_command r, ap_cwd = it_cwd r, ap_executable = it_executable r,
     ap_allow_mutable = False, ap_expires_at = it_expires_at r,
     ap_request_ttl = it_ttl r, ap_session_max_reads = 0, ap_access_seconds = 0,
     ap_resources = [\<lparr>rr_alias = ir_item (it_ref r), rr_ref = ir_raw (it_ref r),
       rr_account = it_account r, rr_source = '''', rr_token_alias = ''''\<rparr>],
     ap_override_env = False, ap_overridden = [], ap_reusable_uses = 1,
     ap_session_binding = None\<rparr>"

definition new_session_create_payload ::
  "correlation \<Rightarrow> session_create_request \<Rightarrow> binding_info \<Rightarrow> approval_payload" where
  "new_session_create_payload c r b = \<lparr>ap_operation = OpSessionCreate, ap_allows_reusable = False,
     ap_request_id = co_request_id c, ap_nonce = co_nonce c, ap_reason = sc_reason r,
     ap_command = sc_command r, ap_cwd = sc_cwd r, ap_executable = sc_executable r,
     ap_allow_mutable = False, ap_expires_at = sc_expires_at r,
     ap_request_ttl = sc_ttl r, ap_session_max_reads = sc_max_reads r,
     ap_access_seconds = duration_seconds (sc_ttl r),
     ap_resources = map resource_of_secret (sc_secrets r), ap_override_env = sc_override_env r,
     ap_overridden = [], ap_reusable_uses = 1,
     ap_session_binding = session_binding_pointer b\<rparr>"

section \<open>Decisions\<close>

definition denial_reason_computer_locked :: string where
  "denial_reason_computer_locked = ''computer_locked''"

definition denial_error :: "string \<Rightarrow> err" where
  "denial_error reason =
     (if reason = '''' then Err (ApprovalErr ErrApprovalDenied) else Denied reason)"

abbreviation malformed :: err where
  "malformed \<equiv> Err (ProtocolErr ErrMalformedEnvelope)"

definition validate_decision_reusable_uses :: "decision_payload \<Rightarrow> int \<Rightarrow> bool \<Rightarrow> err option" where
  "validate_decision_reusable_uses d expected allows =
     (if dp_decision d \<noteq> ApproveReusable then
        (if dp_reusable_uses d \<noteq> None then Some malformed else None)
      else if \<not> allows then Some malformed
      else if expected \<le> 0 then Some malformed
      else
        (case dp_reusable_uses d of
           None \<Rightarrow> Some malformed
         | Some n \<Rightarrow> if n \<noteq> expected then Some malformed else None))"

definition validate_decision_denial_reason :: "decision_payload \<Rightarrow> err option" where
  "validate_decision_denial_reason d =
     (if dp_decision d \<noteq> Deny then
        (if dp_denial_reason d \<noteq> '''' then Some malformed else None)
      else if dp_denial_reason d = '''' \<or> dp_denial_reason d = denial_reason_computer_locked then None
      else Some malformed)"

definition validate_decision :: "decision_payload \<Rightarrow> int \<Rightarrow> bool \<Rightarrow> err option" where
  "validate_decision d expected allows =
     or_else (validate_decision_reusable_uses d expected allows) (validate_decision_denial_reason d)"

lemma denial_error_is [simp]: "err_is (denial_error r) (ApprovalErr ErrApprovalDenied)"
  by (simp add: denial_error_def)

lemma validate_decision_None:
  assumes "validate_decision d expected allows = None"
  shows "dp_decision d = ApproveReusable \<Longrightarrow> allows \<and> 0 < expected \<and> dp_reusable_uses d = Some expected"
    "dp_decision d \<noteq> Deny \<Longrightarrow> dp_denial_reason d = ''''"
  using assms
  by (auto simp: validate_decision_def validate_decision_reusable_uses_def
      validate_decision_denial_reason_def split: if_splits option.splits)

lemma duration_seconds_bounds:
  "0 < d \<Longrightarrow> d \<le> seconds (duration_seconds d) \<and> seconds (duration_seconds d) < d + seconds 1"
proof -
  assume d: "0 < d"
  have "(d + seconds 1 - 1) = seconds 1 * ((d + seconds 1 - 1) div seconds 1) + (d + seconds 1 - 1) mod seconds 1"
    by simp
  moreover have "0 \<le> (d + seconds 1 - 1) mod seconds 1" "(d + seconds 1 - 1) mod seconds 1 < seconds 1"
    by simp_all
  ultimately show ?thesis using d by (simp add: duration_seconds_def) linarith
qed

end
