(* ===== verification/Effects.thy ===== *)
theory Effects
  imports SessionStore Approval
begin

text \<open>
  The state of the broker and how its handlers act on it. A handler is a function of an
  environment and the world; it threads the world and returns a value or an error. The environment
  answers everything the program reads from outside (the clock, contexts, the audit file, the
  approver, the resolver, random bytes, the process table, the order of map iterations): the
  \<open>w_tick\<close>-th question gets the \<open>w_tick\<close>-th answer, so two reads of the clock may differ. The list
  \<open>w_trace\<close> records what the handlers do to the outside, latest first. The rules for \<open>triple\<close> are a
  Hoare logic over these actions.
\<close>

section \<open>World and environment\<close>

record active_exec =
  ae_nonce :: string
  ae_request :: exec_request
  ae_started :: bool
  ae_child_pid :: "int option"

text \<open>\<open>itemmetadata.Metadata\<close> is only passed through by the broker.\<close>

type_synonym item_metadata = string

datatype effect =
    Audited event
  | Asked approval_payload "err + decision"
  | FetchBegan "secret_identity list"
  | Fetched secret_identity "err + string"
  | DescribeBegan item_ref string

record world =
  w_tick :: nat
  w_stopped :: bool
  w_store :: policy_store
  w_cache :: cache
  w_timers :: "string \<rightharpoonup> go_time"
  w_sessions :: session_store
  w_active :: "string \<rightharpoonup> active_exec"
  w_trace :: "effect list"

text \<open>
  \<open>en_ctx\<close> is \<open>ctx.Err()\<close> with \<open>context.Cause(ctx)\<close>. \<open>en_stopped\<close> lets the stop channel be closed
  by another goroutine while a handler runs.
\<close>

record env =
  en_now :: "nat \<Rightarrow> go_time"
  en_ctx :: "nat \<Rightarrow> (err \<times> err) option"
  en_stopped :: "nat \<Rightarrow> bool"
  en_preflight :: "nat \<Rightarrow> err option"
  en_record :: "nat \<Rightarrow> err option"
  en_approve :: "nat \<Rightarrow> err + decision"
  en_pick :: "nat \<Rightarrow> nat"
  en_resolve :: "nat \<Rightarrow> secret \<Rightarrow> err + string"
  en_describe :: "nat \<Rightarrow> err + item_metadata"
  en_random :: "nat \<Rightarrow> random_read"
  en_alloc :: "nat \<Rightarrow> alloc"
  en_order :: "nat \<Rightarrow> string list"
  en_identity_order :: "nat \<Rightarrow> secret_identity list"
  en_tree :: "nat \<Rightarrow> ancestry"
  en_fs :: file_system

section \<open>Actions\<close>

type_synonym 'a act = "env \<Rightarrow> world \<Rightarrow> world \<times> (err + 'a)"

definition ret :: "'a \<Rightarrow> 'a act" where
  "ret x = (\<lambda>e w. (w, Inr x))"

definition fail :: "err \<Rightarrow> 'a act" where
  "fail x = (\<lambda>e w. (w, Inl x))"

text \<open>\<open>x, err := a(); if err != nil { return err }; f(x)\<close>.\<close>

definition andthen :: "'a act \<Rightarrow> ('a \<Rightarrow> 'b act) \<Rightarrow> 'b act" where
  "andthen a f = (\<lambda>e w. case a e w of (w', Inl x) \<Rightarrow> (w', Inl x) | (w', Inr v) \<Rightarrow> f v e w')"

text \<open>\<open>x, err := a()\<close> with the error looked at by the code that follows.\<close>

definition attempt :: "'a act \<Rightarrow> (err + 'a \<Rightarrow> 'b act) \<Rightarrow> 'b act" where
  "attempt a f = (\<lambda>e w. case a e w of (w', r) \<Rightarrow> f r e w')"

text \<open>An answer of the environment, and a change of the world.\<close>

definition ask :: "(env \<Rightarrow> nat \<Rightarrow> 'a) \<Rightarrow> 'a act" where
  "ask f = (\<lambda>e w. (w\<lparr>w_tick := Suc (w_tick w)\<rparr>, Inr (f e (w_tick w))))"

definition modify :: "(world \<Rightarrow> world) \<Rightarrow> unit act" where
  "modify f = (\<lambda>e w. (f w, Inr ()))"

definition gets :: "(world \<Rightarrow> 'a) \<Rightarrow> 'a act" where
  "gets f = (\<lambda>e w. (w, Inr (f w)))"

definition lift_error :: "err option \<Rightarrow> unit act" where
  "lift_error r = (case r of None \<Rightarrow> ret () | Some e \<Rightarrow> fail e)"

definition emit :: "effect \<Rightarrow> unit act" where
  "emit x = modify (\<lambda>w. w\<lparr>w_trace := x # w_trace w\<rparr>)"

lemmas act_defs = ret_def fail_def andthen_def attempt_def ask_def modify_def gets_def
  lift_error_def emit_def

section \<open>A Hoare logic\<close>

definition triple :: "(world \<Rightarrow> bool) \<Rightarrow> 'a act \<Rightarrow> (err + 'a \<Rightarrow> world \<Rightarrow> bool) \<Rightarrow> bool" where
  "triple P a Q \<longleftrightarrow> (\<forall>e w. P w \<longrightarrow> Q (snd (a e w)) (fst (a e w)))"

text \<open>An assertion on results that depends on whether the action failed.\<close>

definition outcome ::
  "(err \<Rightarrow> world \<Rightarrow> bool) \<Rightarrow> ('a \<Rightarrow> world \<Rightarrow> bool) \<Rightarrow> err + 'a \<Rightarrow> world \<Rightarrow> bool" where
  "outcome E Q r w = (case r of Inl x \<Rightarrow> E x w | Inr v \<Rightarrow> Q v w)"

lemma outcome_simps [simp]: "outcome E Q (Inl x) w = E x w" "outcome E Q (Inr v) w = Q v w"
  by (simp_all add: outcome_def)

lemma tripleD: "triple P a Q \<Longrightarrow> P w \<Longrightarrow> a e w = (w', r) \<Longrightarrow> Q r w'"
  unfolding triple_def by (metis fst_conv snd_conv)

lemma tripleI: "(\<And>e w w' r. P w \<Longrightarrow> a e w = (w', r) \<Longrightarrow> Q r w') \<Longrightarrow> triple P a Q"
  by (simp add: triple_def)

lemma triple_conseq:
  "triple P' a Q' \<Longrightarrow> (\<And>w. P w \<Longrightarrow> P' w) \<Longrightarrow> (\<And>r w. Q' r w \<Longrightarrow> Q r w) \<Longrightarrow> triple P a Q"
  by (auto simp: triple_def)

lemma triple_pre: "triple P' a Q \<Longrightarrow> (\<And>w. P w \<Longrightarrow> P' w) \<Longrightarrow> triple P a Q"
  by (auto simp: triple_def)

lemma triple_ret: "(\<And>w. P w \<Longrightarrow> Q (Inr x) w) \<Longrightarrow> triple P (ret x) Q"
  by (simp add: triple_def ret_def)

lemma triple_fail: "(\<And>w. P w \<Longrightarrow> Q (Inl x) w) \<Longrightarrow> triple P (fail x) Q"
  by (simp add: triple_def fail_def)

lemma triple_andthen:
  assumes "triple P a (outcome E R)" "\<And>x. triple (R x) (f x) Q" "\<And>x w. E x w \<Longrightarrow> Q (Inl x) w"
  shows "triple P (andthen a f) Q"
proof (rule tripleI)
  fix e w w' r assume P: "P w" and r: "andthen a f e w = (w', r)"
  obtain w1 r1 where a: "a e w = (w1, r1)" by (cases "a e w")
  from tripleD [OF assms(1) P a] have o: "outcome E R r1 w1" .
  show "Q r w'"
  proof (cases r1)
    case (Inl x)
    with a r o assms(3) show ?thesis by (auto simp: andthen_def)
  next
    case (Inr v)
    with a r have "f v e w1 = (w', r)" by (simp add: andthen_def)
    with tripleD [OF assms(2) _ this] o Inr show ?thesis by simp
  qed
qed

lemma triple_attempt:
  assumes "triple P a R" "\<And>r. triple (R r) (f r) Q"
  shows "triple P (attempt a f) Q"
proof (rule tripleI)
  fix e w w' r assume P: "P w" and r: "attempt a f e w = (w', r)"
  obtain w1 r1 where a: "a e w = (w1, r1)" by (cases "a e w")
  with r have "f r1 e w1 = (w', r)" by (simp add: attempt_def)
  from tripleD [OF assms(2) tripleD [OF assms(1) P a] this] show "Q r w'" .
qed

lemma triple_ask:
  "(\<And>w x. P w \<Longrightarrow> Q (Inr x) (w\<lparr>w_tick := Suc (w_tick w)\<rparr>)) \<Longrightarrow> triple P (ask f) Q"
  by (simp add: triple_def ask_def)

lemma triple_modify: "(\<And>w. P w \<Longrightarrow> Q (Inr ()) (f w)) \<Longrightarrow> triple P (modify f) Q"
  by (simp add: triple_def modify_def)

lemma triple_gets: "(\<And>w. P w \<Longrightarrow> Q (Inr (f w)) w) \<Longrightarrow> triple P (gets f) Q"
  by (simp add: triple_def gets_def)

lemma triple_emit:
  "(\<And>w. P w \<Longrightarrow> Q (Inr ()) (w\<lparr>w_trace := x # w_trace w\<rparr>)) \<Longrightarrow> triple P (emit x) Q"
  by (simp add: triple_def emit_def modify_def)

lemma triple_lift_error:
  "(\<And>w e. P w \<Longrightarrow> Q (Inl e) w) \<Longrightarrow> (\<And>w. P w \<Longrightarrow> Q (Inr ()) w) \<Longrightarrow> triple P (lift_error r) Q"
  by (cases r) (auto simp: triple_def lift_error_def ret_def fail_def)

lemma triple_if:
  "(b \<Longrightarrow> triple P x Q) \<Longrightarrow> (\<not> b \<Longrightarrow> triple P y Q) \<Longrightarrow> triple P (if b then x else y) Q"
  by simp

lemma triple_False [simp]: "triple (\<lambda>w. False) a Q"
  by (simp add: triple_def)

lemma triple_conj_pre: "(b \<Longrightarrow> triple P a Q) \<Longrightarrow> triple (\<lambda>w. b \<and> P w) a Q"
  by (auto simp: triple_def)

lemma triple_conj:
  "triple P a Q \<Longrightarrow> triple P a Q' \<Longrightarrow> triple P a (\<lambda>r w. Q r w \<and> Q' r w)"
  by (simp add: triple_def)

text \<open>An action keeps a predicate of the world, whatever its result.\<close>

definition keeps :: "(world \<Rightarrow> bool) \<Rightarrow> 'a act \<Rightarrow> bool" where
  "keeps I a \<longleftrightarrow> triple I a (\<lambda>_. I)"

lemma keepsD: "keeps I a \<Longrightarrow> I w \<Longrightarrow> a e w = (w', r) \<Longrightarrow> I w'"
  using tripleD [of I a "\<lambda>_. I"] by (simp add: keeps_def)

lemma keepsI: "(\<And>e w w' r. I w \<Longrightarrow> a e w = (w', r) \<Longrightarrow> I w') \<Longrightarrow> keeps I a"
  unfolding keeps_def by (rule tripleI)

lemma keeps_ret [intro]: "keeps I (ret x)"
  by (simp add: keeps_def triple_ret)

lemma keeps_fail [intro]: "keeps I (fail x)"
  by (simp add: keeps_def triple_fail)

lemma keeps_gets [intro]: "keeps I (gets f)"
  by (simp add: keeps_def triple_gets)

lemma keeps_lift_error [intro]: "keeps I (lift_error r)"
  by (simp add: keeps_def triple_lift_error)

lemma keeps_andthen [intro]:
  assumes "keeps I a" "\<And>x. keeps I (f x)"
  shows "keeps I (andthen a f)"
  unfolding keeps_def
proof (rule triple_andthen)
  show "triple I a (outcome (\<lambda>_. I) (\<lambda>_. I))"
    using assms(1) unfolding keeps_def by (rule triple_conseq) (auto simp: outcome_def split: sum.splits)
  show "triple I (f x) (\<lambda>_. I)" for x using assms(2) by (simp add: keeps_def)
qed

lemma keeps_attempt [intro]:
  "keeps I a \<Longrightarrow> (\<And>r. keeps I (f r)) \<Longrightarrow> keeps I (attempt a f)"
  unfolding keeps_def by (rule triple_attempt)

lemma keeps_if [intro]: "keeps I x \<Longrightarrow> keeps I y \<Longrightarrow> keeps I (if b then x else y)"
  by simp

text \<open>A predicate that does not look at the tick and survives a longer trace.\<close>

definition tickless :: "(world \<Rightarrow> bool) \<Rightarrow> bool" where
  "tickless I \<longleftrightarrow> (\<forall>w n. I (w\<lparr>w_tick := n\<rparr>) = I w)"

definition steady :: "(world \<Rightarrow> bool) \<Rightarrow> bool" where
  "steady I \<longleftrightarrow> tickless I \<and> (\<forall>w x. I w \<longrightarrow> I (w\<lparr>w_trace := x # w_trace w\<rparr>))"

lemma steady_tickless [intro]: "steady I \<Longrightarrow> tickless I"
  by (simp add: steady_def)

lemma steady_conj: "steady I \<Longrightarrow> steady J \<Longrightarrow> steady (\<lambda>w. I w \<and> J w)"
  by (auto simp: steady_def tickless_def)

lemma keeps_ask [intro]: "tickless I \<Longrightarrow> keeps I (ask f)"
  by (simp add: keeps_def triple_ask tickless_def)

lemma keeps_emit [intro]: "steady I \<Longrightarrow> keeps I (emit x)"
  by (simp add: keeps_def triple_emit steady_def)

lemma outcome_const: "outcome (\<lambda>_. I) (\<lambda>_. I) = (\<lambda>_. I)"
  by (auto simp: outcome_def fun_eq_iff split: sum.splits)

lemma keeps_triple: "keeps I a \<Longrightarrow> triple I a (outcome (\<lambda>_. I) (\<lambda>_. I))"
  by (simp add: keeps_def outcome_const)

lemma triple_keeps: "triple I a (outcome (\<lambda>_. I) (\<lambda>_. I)) \<Longrightarrow> keeps I a"
  by (simp add: keeps_def outcome_const)

lemma keeps_modify: "(\<And>w. I w \<Longrightarrow> I (f w)) \<Longrightarrow> keeps I (modify f)"
  by (simp add: keeps_def triple_modify)

section \<open>Auditing\<close>

text \<open>\<open>AuditSink\<close>: a recorded event is appended to the trace; a failed one is not.\<close>

definition sink_preflight :: "unit act" where
  "sink_preflight = andthen (ask en_preflight) lift_error"

definition sink_record :: "event \<Rightarrow> unit act" where
  "sink_record ev =
     andthen (ask en_record) (\<lambda>r. case r of Some e \<Rightarrow> fail e | None \<Rightarrow> emit (Audited ev))"

text \<open>\<open>requiredAuditError\<close>.\<close>

definition required_audit_error :: "err \<Rightarrow> err" where
  "required_audit_error e = Wrap (BrokerErr ErrAuditRequired) e"

definition with_error :: "(err \<Rightarrow> err) \<Rightarrow> 'a act \<Rightarrow> 'a act" where
  "with_error f a = attempt a (\<lambda>r. case r of Inl e \<Rightarrow> fail (f e) | Inr v \<Rightarrow> ret v)"

definition preflight_required_audit :: "unit act" where
  "preflight_required_audit = with_error required_audit_error sink_preflight"

definition record_required_audit :: "event \<Rightarrow> unit act" where
  "record_required_audit ev = with_error required_audit_error (sink_record ev)"

text \<open>
  \<open>recordTerminalRequiredAudit\<close> records under a context of its own, detached from the request; the
  answer of the sink is the environment's in both cases.
\<close>

definition record_terminal_required_audit :: "event \<Rightarrow> unit act" where
  "record_terminal_required_audit ev = record_required_audit ev"

lemma keeps_with_error [intro]: "keeps I a \<Longrightarrow> keeps I (with_error f a)"
  unfolding with_error_def by (rule keeps_attempt) (auto split: sum.splits)

lemma triple_with_error:
  "triple P a (outcome (\<lambda>x w. E (f x) w) Q) \<Longrightarrow> triple P (with_error f a) (outcome E Q)"
  unfolding with_error_def
proof (rule triple_attempt, assumption)
  fix r
  show "triple (outcome (\<lambda>x w. E (f x) w) Q r)
      (case r of Inl e \<Rightarrow> fail (f e) | Inr v \<Rightarrow> ret v) (outcome E Q)"
    by (cases r) (auto intro: triple_fail triple_ret)
qed

lemma triple_record_required_audit:
  assumes "tickless P" "\<And>x w. P w \<Longrightarrow> E x w"
    "\<And>w. P w \<Longrightarrow> Q () (w\<lparr>w_trace := Audited ev # w_trace w\<rparr>)"
  shows "triple P (record_required_audit ev) (outcome E Q)"
  unfolding record_required_audit_def sink_record_def
proof (intro triple_with_error triple_andthen)
  show "triple P (ask en_record) (outcome (\<lambda>_. P) (\<lambda>_. P))"
    using assms(1) by (simp add: triple_ask tickless_def)
  show "triple P (case r of None \<Rightarrow> emit (Audited ev) | Some e \<Rightarrow> fail e)
      (outcome (\<lambda>x. E (required_audit_error x)) Q)" for r
    using assms(2,3) by (cases r) (simp_all add: triple_fail triple_emit)
qed (simp add: assms(2))

lemma keeps_sink_record [intro]: "steady I \<Longrightarrow> keeps I (sink_record ev)"
  unfolding sink_record_def by (intro keeps_andthen keeps_ask) (auto split: option.splits)

lemma keeps_record_required_audit [intro]: "steady I \<Longrightarrow> keeps I (record_required_audit ev)"
  unfolding record_required_audit_def by (intro keeps_with_error keeps_sink_record)

lemma keeps_record_terminal [intro]: "steady I \<Longrightarrow> keeps I (record_terminal_required_audit ev)"
  unfolding record_terminal_required_audit_def by (rule keeps_record_required_audit)

lemma keeps_preflight [intro]: "tickless I \<Longrightarrow> keeps I preflight_required_audit"
  unfolding preflight_required_audit_def sink_preflight_def
  by (intro keeps_with_error keeps_andthen keeps_ask keeps_lift_error)

end
