(* ===== verification/ReusableGrants.thy ===== *)
theory ReusableGrants
  imports Effects
begin

text \<open>
  The reusable-grant manager: \<open>internal/daemon/broker/reusable_grants.go\<close>. It joins the approval
  store with the cache of approved values and the expiry timers.
\<close>

section \<open>Reading the environment\<close>

definition read_now :: "go_time act" where
  "read_now = ask en_now"

definition read_stopped :: "bool act" where
  "read_stopped = andthen (ask en_stopped) (\<lambda>b. gets (\<lambda>w. b \<or> w_stopped w))"

text \<open>An operation of the approval store, of the cache.\<close>

definition on_store :: "(policy_store \<Rightarrow> policy_store \<times> 'a) \<Rightarrow> 'a act" where
  "on_store f = (\<lambda>e w. case f (w_store w) of (st, r) \<Rightarrow> (w\<lparr>w_store := st\<rparr>, Inr r))"

definition on_cache :: "(cache \<Rightarrow> cache \<times> 'a) \<Rightarrow> 'a act" where
  "on_cache f = (\<lambda>e w. case f (w_cache w) of (c, r) \<Rightarrow> (w\<lparr>w_cache := c\<rparr>, Inr r))"

definition finish_attempt :: "string \<Rightarrow> string \<Rightarrow> (policy_failure + reusable_approval) act" where
  "finish_attempt i result =
     andthen read_now (\<lambda>now. on_store (\<lambda>st. finish_reusable_attempt now st i result))"

section \<open>Clearing\<close>

definition manager_clear :: "unit act" where
  "manager_clear = modify (\<lambda>w. w\<lparr>w_timers := Map.empty, w_cache := cache_clear (w_cache w),
     w_store := clear_reusable (w_store w)\<rparr>)"

definition clear_scope :: "string \<Rightarrow> unit act" where
  "clear_scope i = modify (\<lambda>w. w\<lparr>w_timers := (w_timers w)(i := None),
     w_cache := cache_clear_scope (w_cache w) i\<rparr>)"

definition clear_scope_for_reusable_error :: "reusable_approval \<Rightarrow> err \<Rightarrow> unit act" where
  "clear_scope_for_reusable_error a x =
     (if ra_id a = '''' then ret ()
      else if err_is x (PolicyErr ErrExpired) then clear_scope (ra_id a)
      else if err_is x (PolicyErr ErrUseExhausted) \<and> ra_uses a \<ge> ra_max_uses a \<and> ra_reserved a = 0
      then clear_scope (ra_id a)
      else ret ())"

definition rollback_approval :: "string \<Rightarrow> unit act" where
  "rollback_approval i =
     (if i = '''' then ret ()
      else andthen (on_store (\<lambda>st. remove_reusable st i)) (\<lambda>_. clear_scope i))"

section \<open>Reserving and finishing\<close>

text \<open>\<open>Duration.Milliseconds\<close> truncates toward zero.\<close>

definition milliseconds :: "duration \<Rightarrow> int" where
  "milliseconds d = (if d \<ge> 0 then d div 1000000 else - (- d div 1000000))"

definition record_reuse_audit :: "reuse_metadata \<Rightarrow> unit act" where
  "record_reuse_audit m = record_required_audit
     ((event_of_type EventApprovalReused)\<lparr>ev_approval_id := rm_approval_id m,
        ev_remaining_ttl_ms := Some (milliseconds (rm_remaining_ttl m)),
        ev_remaining_uses := Some (rm_remaining_uses m)\<rparr>)"

text \<open>
  \<open>reserve\<close>: a lookup that misses is no error; the zero approval that Go returns then is
  \<^const>\<open>None\<close>.
\<close>

definition manager_reserve :: "exec_request \<Rightarrow> reusable_approval option act" where
  "manager_reserve r =
     andthen (ask en_order) (\<lambda>order.
     andthen read_now (\<lambda>now.
     andthen (on_store (\<lambda>st. reserve_reusable order now st r)) (\<lambda>res.
       case res of
         Inl (snapshot, x) \<Rightarrow>
           andthen (case snapshot of
                      Some a \<Rightarrow> clear_scope_for_reusable_error a x
                    | None \<Rightarrow> ret ()) (\<lambda>_. ret None)
       | Inr (a, m) \<Rightarrow>
           attempt (record_reuse_audit m) (\<lambda>audited.
             case audited of
               Inl x \<Rightarrow>
                 andthen (finish_attempt (ra_id a) delivery_pre_payload_failure) (\<lambda>_. fail x)
             | Inr _ \<Rightarrow> ret (Some a)))))"

definition finish_delivery_error :: "string \<Rightarrow> string \<Rightarrow> policy_failure \<Rightarrow> unit act" where
  "finish_delivery_error i result f =
     (let (snapshot, x) = f
      in if err_is x (PolicyErr ErrInvalidDeliveryResult) then fail x
         else
           (let clear_id = (case snapshot of
                  Some a \<Rightarrow> if ra_id a \<noteq> '''' then ra_id a else i
                | None \<Rightarrow> i)
            in if result = delivery_payload_delivered then
                 andthen (clear_scope clear_id) (\<lambda>_.
                   if err_is x (PolicyErr ErrExpired) then fail (Err (ApprovalErr ErrRequestExpired))
                   else fail x)
               else
                 (case snapshot of
                    Some a \<Rightarrow> clear_scope_for_reusable_error a x
                  | None \<Rightarrow> ret ())))"

definition finish_delivery :: "string \<Rightarrow> string \<Rightarrow> unit act" where
  "finish_delivery i result =
     (if i = '''' then ret ()
      else
        andthen (finish_attempt i result) (\<lambda>res.
          case res of
            Inl f \<Rightarrow> finish_delivery_error i result f
          | Inr a \<Rightarrow> if ra_uses a \<ge> ra_max_uses a then clear_scope (ra_id a) else ret ()))"

section \<open>Activity and expiry\<close>

definition ensure_approval_active :: "string \<Rightarrow> go_time \<Rightarrow> unit act" where
  "ensure_approval_active i expires =
     (if i = '''' \<or> expires = zero_time then ret ()
      else
        andthen read_stopped (\<lambda>stopped.
          if stopped then
            andthen (rollback_approval i) (\<lambda>_. fail (Err (BrokerErr ErrDaemonStopped)))
          else
            andthen read_now (\<lambda>now.
              if now < expires then ret ()
              else andthen (rollback_approval i) (\<lambda>_. fail (Err (ApprovalErr ErrRequestExpired))))))"

text \<open>The function that the timer of an approval runs when it fires.\<close>

definition expiry_fires :: "string \<Rightarrow> unit act" where
  "expiry_fires i = andthen (on_store (\<lambda>st. remove_reusable st i)) (\<lambda>_. clear_scope i)"

definition schedule_expiry :: "string \<Rightarrow> go_time \<Rightarrow> unit act" where
  "schedule_expiry i expires =
     andthen read_now (\<lambda>now.
       if time_sub expires now \<le> 0 then expiry_fires i
       else modify (\<lambda>w. w\<lparr>w_timers := (w_timers w)(i \<mapsto> now + time_sub expires now)\<rparr>))"

section \<open>Values\<close>

definition cache_key_of_identity :: "string \<Rightarrow> secret_identity \<Rightarrow> cache_key" where
  "cache_key_of_identity scope i = \<lparr>ck_scope = scope, ck_ref = rf_raw (si_ref i),
     ck_account = si_account i, ck_source = si_source i,
     ck_token_alias = bw_token_alias (si_bitwarden i), ck_api_url = bw_api_url (si_bitwarden i),
     ck_identity_url = bw_identity_url (si_bitwarden i)\<rparr>"

definition cache_key_of_secret :: "string \<Rightarrow> secret \<Rightarrow> cache_key" where
  "cache_key_of_secret scope s = \<lparr>ck_scope = scope, ck_ref = rf_raw (se_ref s),
     ck_account = se_account s, ck_source = se_source s,
     ck_token_alias = bw_token_alias (se_bitwarden s), ck_api_url = bw_api_url (se_bitwarden s),
     ck_identity_url = bw_identity_url (se_bitwarden s)\<rparr>"

text \<open>The loop of \<open>cacheResolvedValues\<close> over the identities in the order of the map iteration.\<close>

fun cache_loop ::
  "string \<Rightarrow> go_time \<Rightarrow> secret_identity list \<Rightarrow> (secret_identity \<rightharpoonup> string) \<Rightarrow> unit act" where
  "cache_loop scope expires [] vals = ret ()"
| "cache_loop scope expires (i # is) vals =
     (case vals i of
        None \<Rightarrow> cache_loop scope expires is vals
      | Some v \<Rightarrow>
          andthen (ensure_approval_active scope expires) (\<lambda>_.
          andthen (ask en_alloc) (\<lambda>al.
          andthen (on_cache (\<lambda>c. cache_put al c (cache_key_of_identity scope i) v)) (\<lambda>r.
          andthen (lift_error r) (\<lambda>_. cache_loop scope expires is vals)))))"

definition cache_resolved_values ::
  "string \<Rightarrow> go_time \<Rightarrow> (secret_identity \<rightharpoonup> string) \<Rightarrow> unit act" where
  "cache_resolved_values scope expires vals =
     andthen (ask en_identity_order) (\<lambda>order.
     andthen (cache_loop scope expires order vals) (\<lambda>_.
       ensure_approval_active scope expires))"

fun cached_loop ::
  "cache \<Rightarrow> string \<Rightarrow> secret list \<Rightarrow> (string \<rightharpoonup> string) \<Rightarrow> err + (string \<rightharpoonup> string)" where
  "cached_loop c scope [] out = Inr out"
| "cached_loop c scope (s # ss) out =
     (case cache_get c (cache_key_of_secret scope s) of
        None \<Rightarrow> Inl (Err (BrokerErr ErrMissingCache))
      | Some v \<Rightarrow> cached_loop c scope ss (out(se_alias s \<mapsto> v)))"

definition cached_values :: "string \<Rightarrow> secret list \<Rightarrow> (string \<rightharpoonup> string) act" where
  "cached_values scope ss =
     andthen (gets (\<lambda>w. cached_loop (w_cache w) scope ss Map.empty)) (\<lambda>r.
       case r of Inl x \<Rightarrow> fail x | Inr m \<Rightarrow> ret m)"

definition create_grant ::
  "exec_request \<Rightarrow> decision \<Rightarrow> (secret_identity \<rightharpoonup> string) \<Rightarrow> (string \<times> go_time) act" where
  "create_grant r d vals =
     (if \<not> de_reusable d then ret ('''', zero_time)
      else
        andthen (ask en_random) (\<lambda>rid.
        andthen (ask en_random) (\<lambda>rnonce.
        andthen (on_store (\<lambda>st. add_reusable rid rnonce st
            \<lparr>as_request = r, as_id = '''', as_nonce = '''', as_max_uses = de_reusable_uses d,
             as_reserved = 1\<rparr>)) (\<lambda>res.
          case res of
            Inl x \<Rightarrow> fail x
          | Inr a \<Rightarrow>
              attempt (cache_resolved_values (ra_id a) (ra_expires_at a) vals) (\<lambda>cached.
                case cached of
                  Inl x \<Rightarrow> andthen (rollback_approval (ra_id a)) (\<lambda>_. fail x)
                | Inr _ \<Rightarrow>
                    andthen (schedule_expiry (ra_id a) (ra_expires_at a)) (\<lambda>_.
                      ret (ra_id a, ra_expires_at a)))))))"

end
