(* ===== verification/GrantIssuer.thy ===== *)
theory GrantIssuer
  imports ReusableGrants
begin

text \<open>
  Issuing a grant for an exec request: \<open>internal/daemon/broker/grant_issuer.go\<close>, with
  \<open>audit_required.go\<close> in \<open>Effects\<close>. The workers that resolve secrets concurrently appear as the
  sequence of results that the collecting loop receives; the environment chooses which pending
  identity answers next, what it answers, and when the context ends.
\<close>

section \<open>Data\<close>

record grant =
  gr_env :: "string \<rightharpoonup> string"
  gr_aliases :: "string list"
  gr_approval_id :: string
  gr_payload_expires_at :: go_time

record grant_delivery =
  gd_approval_id :: string
  gd_mutation_id :: string
  gd_expires_at :: go_time

type_synonym issued_grant = "grant \<times> grant_delivery"

datatype fetch_result =
    FetchOk "secret_identity \<rightharpoonup> string"
  | FetchFailed secret_identity err
  | FetchCanceled "secret_identity list" err

definition ignore_error :: "'a act \<Rightarrow> unit act" where
  "ignore_error a = attempt a (\<lambda>_. ret ())"

section \<open>Is the request still active?\<close>

text \<open>
  The body that \<open>ensureRequestActive\<close>, \<open>ensureSessionCreateActive\<close> and \<open>ensureItemDescribeActive\<close>
  share; \<open>expired\<close> is the \<open>Expired\<close> method of the request.
\<close>

definition ensure_active :: "(go_time \<Rightarrow> bool) \<Rightarrow> unit act" where
  "ensure_active expired =
     andthen (ask en_ctx) (\<lambda>ctx.
       case ctx of
         Some (x, cause) \<Rightarrow>
           if err_is cause (BrokerErr ErrDaemonStopped) then fail (Err (BrokerErr ErrDaemonStopped))
           else if err_is x (ContextErr CtxDeadlineExceeded) then
             andthen read_now (\<lambda>now.
               if expired now then fail (Err (ApprovalErr ErrRequestExpired)) else fail x)
           else fail x
       | None \<Rightarrow>
           andthen read_stopped (\<lambda>stopped.
             if stopped then fail (Err (BrokerErr ErrDaemonStopped))
             else
               andthen read_now (\<lambda>now.
                 if expired now then fail (Err (ApprovalErr ErrRequestExpired)) else ret ())))"

definition ensure_request_active :: "exec_request \<Rightarrow> unit act" where
  "ensure_request_active r = ensure_active (exec_expired r)"

definition ensure_grant_still_active :: "exec_request \<Rightarrow> string \<Rightarrow> go_time \<Rightarrow> unit act" where
  "ensure_grant_still_active r i expires =
     andthen (ensure_request_active r) (\<lambda>_. ensure_approval_active i expires)"

definition stop_or_expiry :: "err \<Rightarrow> bool" where
  "stop_or_expiry x \<longleftrightarrow>
     err_is x (BrokerErr ErrDaemonStopped) \<or> err_is x (ApprovalErr ErrRequestExpired)"

text \<open>\<open>requestError\<close>: the handler fails with \<open>x\<close>, or with the reason why it could not go on.\<close>

definition request_error :: "exec_request \<Rightarrow> err \<Rightarrow> 'a act" where
  "request_error r x =
     (if err_is x (ApprovalErr ErrApprovalDenied) \<or> err_is x (ApprovalErr ErrRequestExpired)
      then fail x
      else
        attempt (ensure_request_active r) (\<lambda>res.
          case res of
            Inl active \<Rightarrow> if stop_or_expiry active then fail active else fail x
          | Inr _ \<Rightarrow> fail x))"

definition or_request_error :: "exec_request \<Rightarrow> 'a act \<Rightarrow> 'a act" where
  "or_request_error r a =
     attempt a (\<lambda>res. case res of Inl x \<Rightarrow> request_error r x | Inr v \<Rightarrow> ret v)"

section \<open>Ending a delivery\<close>

definition ensure_payload_writable :: "exec_request \<Rightarrow> grant_delivery \<Rightarrow> unit act" where
  "ensure_payload_writable r d = ensure_grant_still_active r (gd_approval_id d) (gd_expires_at d)"

definition finish_delivery_before_payload :: "grant_delivery \<Rightarrow> unit act" where
  "finish_delivery_before_payload d =
     (if gd_approval_id d = '''' then ret ()
      else ignore_error (finish_delivery (gd_approval_id d) delivery_pre_payload_failure))"

definition finish_delivery_after_payload :: "grant_delivery \<Rightarrow> unit act" where
  "finish_delivery_after_payload d =
     (if gd_approval_id d = '''' then ret ()
      else ignore_error (finish_delivery (gd_approval_id d) delivery_payload_delivered))"

definition rollback_delivery :: "grant_delivery \<Rightarrow> unit act" where
  "rollback_delivery d =
     (if gd_mutation_id d \<noteq> '''' then rollback_approval (gd_mutation_id d)
      else finish_delivery_before_payload d)"

section \<open>Resolving the secrets\<close>

definition resolve_failure_error_code :: "err \<Rightarrow> error_code" where
  "resolve_failure_error_code x =
     (if err_is x (BrokerErr ErrDaemonStopped) then DaemonStopped
      else if err_is x (ContextErr CtxCanceled) then ContextCanceled
      else if err_is x (ContextErr CtxDeadlineExceeded) then ContextDeadlineExceeded
      else ResolveFailed)"

definition record_secret_fetch_failure_event :: "string \<Rightarrow> audit_ref list \<Rightarrow> err \<Rightarrow> unit act" where
  "record_secret_fetch_failure_event rid refs x = record_terminal_required_audit
     ((event_of_type EventSecretFetchFailed)\<lparr>ev_request_id := rid, ev_secret_refs := refs,
        ev_error_code := resolve_failure_error_code x\<rparr>)"

text \<open>
  The collecting loop of \<open>fetchUniqueRefs\<close>: \<open>pending\<close> are the identities without a result yet, in
  the order of the jobs.
\<close>

fun fetch_loop ::
  "nat \<Rightarrow> secret_identity list \<Rightarrow> secret_identity list \<Rightarrow> (secret_identity \<rightharpoonup> string) \<Rightarrow> fetch_result act" where
  "fetch_loop 0 ordered pending resolved = ret (FetchOk resolved)"
| "fetch_loop (Suc remaining) ordered pending resolved =
     andthen (ask en_ctx) (\<lambda>ctx.
       case ctx of
         Some (x, cause) \<Rightarrow> ret (FetchCanceled (pending_identities ordered (set pending)) cause)
       | None \<Rightarrow>
           andthen (ask en_pick) (\<lambda>k.
             let i = pending ! (k mod length pending)
             in andthen (ask (\<lambda>e n. en_resolve e n (secret_of_identity i))) (\<lambda>got.
                andthen (emit (Fetched i got)) (\<lambda>_.
                  case got of
                    Inl x \<Rightarrow> ret (FetchFailed i x)
                  | Inr v \<Rightarrow>
                      fetch_loop remaining ordered (remove1 i pending) (resolved(i \<mapsto> v))))))"

definition fetch_unique_refs :: "secret_identity list \<Rightarrow> fetch_result act" where
  "fetch_unique_refs is =
     andthen (emit (FetchBegan is)) (\<lambda>_. fetch_loop (length is) is is Map.empty)"

definition resolve_unique_refs ::
  "string \<Rightarrow> exec_request \<Rightarrow> (secret_identity \<rightharpoonup> string) act" where
  "resolve_unique_refs rid r =
     (let ss = er_secrets r; is = unique_secret_identities ss
      in andthen (record_required_audit (from_exec_request EventSecretFetchStarted rid r)) (\<lambda>_.
         andthen (fetch_unique_refs is) (\<lambda>fetch.
           case fetch of
             FetchOk resolved \<Rightarrow> ret resolved
           | FetchFailed i x \<Rightarrow>
               andthen (record_secret_fetch_failure_event rid (audit_refs_for_identity ss i) x) (\<lambda>_.
                 fail (Wrap (BrokerErr ErrSecretResolveFailed) x))
           | FetchCanceled pending x \<Rightarrow>
               andthen (record_secret_fetch_failure_event rid (audit_refs_for_identities ss pending) x)
                 (\<lambda>_. fail (Wrap (BrokerErr ErrSecretResolveFailed) x)))))"

section \<open>A grant from a reusable approval\<close>

definition record_reusable_refresh :: "exec_request \<Rightarrow> reusable_approval \<Rightarrow> unit act" where
  "record_reusable_refresh r a = record_required_audit
     ((from_exec_request EventApprovalRefreshed '''' r)\<lparr>ev_approval_id := ra_id a\<rparr>)"

definition record_reusable_miss :: "string \<Rightarrow> exec_request \<Rightarrow> unit act" where
  "record_reusable_miss rid r = record_required_audit
     ((from_exec_request EventApprovalReuseMissed rid r)\<lparr>ev_error_code := NoReusableApproval\<rparr>)"

definition or_rollback :: "string \<Rightarrow> 'a act \<Rightarrow> 'a act" where
  "or_rollback i a = attempt a (\<lambda>res.
     case res of Inl x \<Rightarrow> andthen (rollback_approval i) (\<lambda>_. fail x) | Inr v \<Rightarrow> ret v)"

definition refreshed_reusable_values ::
  "reusable_approval \<Rightarrow> exec_request \<Rightarrow> (secret_identity \<rightharpoonup> string) \<Rightarrow> (string \<rightharpoonup> string) act" where
  "refreshed_reusable_values a r vals =
     andthen (ensure_grant_still_active r (ra_id a) (ra_expires_at a)) (\<lambda>_.
     andthen (or_rollback (ra_id a) (cache_resolved_values (ra_id a) (ra_expires_at a) vals)) (\<lambda>_.
     andthen (or_rollback (ra_id a) (record_reusable_refresh r a)) (\<lambda>_.
     andthen (or_rollback (ra_id a) (ensure_grant_still_active r (ra_id a) (ra_expires_at a))) (\<lambda>_.
       ret (fanout_values (er_secrets r) vals)))))"

definition reusable_values :: "reusable_approval \<Rightarrow> exec_request \<Rightarrow> (string \<rightharpoonup> string) act" where
  "reusable_values a r =
     (if er_force_refresh r then
        andthen (or_request_error r (resolve_unique_refs '''' r)) (\<lambda>vals.
          refreshed_reusable_values a r vals)
      else cached_values (ra_id a) (er_secrets r))"

definition issue_reusable_grant :: "exec_request \<Rightarrow> issued_grant option act" where
  "issue_reusable_grant r =
     andthen (manager_reserve r) (\<lambda>found.
       case found of
         None \<Rightarrow> ret None
       | Some a \<Rightarrow>
           if ra_id a = '''' then ret None
           else
             (let d = \<lparr>gd_approval_id = ra_id a,
                       gd_mutation_id = (if er_force_refresh r then ra_id a else ''''),
                       gd_expires_at = ra_expires_at a\<rparr>
              in attempt
                   (andthen (ensure_grant_still_active r (ra_id a) (ra_expires_at a)) (\<lambda>_.
                    andthen (reusable_values a r) (\<lambda>values.
                    andthen (ensure_grant_still_active r (ra_id a) (ra_expires_at a)) (\<lambda>_.
                      ret values))))
                   (\<lambda>res.
                     case res of
                       Inl x \<Rightarrow> andthen (finish_delivery_before_payload d) (\<lambda>_. fail x)
                     | Inr values \<Rightarrow>
                         ret (Some (\<lparr>gr_env = values, gr_aliases = secret_aliases (er_secrets r),
                             gr_approval_id = ra_id a, gr_payload_expires_at = zero_time\<rparr>, d)))))"

section \<open>A fresh grant\<close>

definition record_approval_error :: "string \<Rightarrow> exec_request \<Rightarrow> err \<Rightarrow> unit act" where
  "record_approval_error rid r x =
     (if err_is x (ApprovalErr ErrRequestExpired) then
        record_terminal_required_audit
          ((from_exec_request EventApprovalTimedOut rid r)\<lparr>ev_error_code := RequestExpired\<rparr>)
      else ret ())"

definition record_approval_denied :: "string \<Rightarrow> exec_request \<Rightarrow> unit act" where
  "record_approval_denied rid r = record_terminal_required_audit
     ((from_exec_request EventApprovalDenied rid r)\<lparr>ev_error_code := ApprovalDenied\<rparr>)"

text \<open>A call of the \<open>Approver\<close>, which answers a decision or an error.\<close>

definition ask_approver :: "approval_payload \<Rightarrow> (err + decision) act" where
  "ask_approver p = andthen (ask en_approve) (\<lambda>a. andthen (emit (Asked p a)) (\<lambda>_. ret a))"

definition fresh_grant :: "correlation \<Rightarrow> exec_request \<Rightarrow> issued_grant act" where
  "fresh_grant c r =
     andthen (record_required_audit (from_exec_request EventApprovalRequested (co_request_id c) r)) (\<lambda>_.
     andthen (ask_approver (new_exec_payload c r)) (\<lambda>answer.
       case answer of
         Inl x \<Rightarrow> andthen (record_approval_error (co_request_id c) r x) (\<lambda>_. fail x)
       | Inr d \<Rightarrow>
           if \<not> de_approved d then
             andthen (record_approval_denied (co_request_id c) r) (\<lambda>_.
               fail (denial_error (de_denial_reason d)))
           else
             andthen (ensure_request_active r) (\<lambda>_.
             andthen (record_required_audit
                 (from_exec_request EventApprovalGranted (co_request_id c) r)) (\<lambda>_.
             andthen (ensure_request_active r) (\<lambda>_.
             andthen (or_request_error r (resolve_unique_refs (co_request_id c) r)) (\<lambda>vals.
             andthen (ensure_request_active r) (\<lambda>_.
             andthen (create_grant r d vals) (\<lambda>(i, expires).
               ret (\<lparr>gr_env = fanout_values (er_secrets r) vals,
                     gr_aliases = secret_aliases (er_secrets r), gr_approval_id = i,
                     gr_payload_expires_at = zero_time\<rparr>,
                    \<lparr>gd_approval_id = i, gd_mutation_id = i, gd_expires_at = expires\<rparr>)))))))))"

section \<open>Issuing\<close>

definition grant_payload_expires_at :: "exec_request \<Rightarrow> go_time \<Rightarrow> go_time" where
  "grant_payload_expires_at r approval_expires =
     (if approval_expires \<noteq> zero_time \<and> approval_expires < er_expires_at r then approval_expires
      else er_expires_at r)"

definition or_rollback_delivery :: "grant_delivery \<Rightarrow> 'a act \<Rightarrow> 'a act" where
  "or_rollback_delivery d a = attempt a (\<lambda>res.
     case res of Inl x \<Rightarrow> andthen (rollback_delivery d) (\<lambda>_. fail x) | Inr v \<Rightarrow> ret v)"

definition reused_or_fresh_grant :: "correlation \<Rightarrow> exec_request \<Rightarrow> issued_grant act" where
  "reused_or_fresh_grant c r =
     andthen (or_request_error r (issue_reusable_grant r)) (\<lambda>reused.
       case reused of
         Some g \<Rightarrow> ret g
       | None \<Rightarrow>
           if er_reuse_only r then
             andthen (or_request_error r (record_reusable_miss (co_request_id c) r)) (\<lambda>_.
               fail (Err (BrokerErr ErrNoReusableApproval)))
           else or_request_error r (fresh_grant c r))"

definition issue :: "correlation \<Rightarrow> exec_request \<Rightarrow> issued_grant act" where
  "issue c r =
     andthen (ensure_request_active r) (\<lambda>_.
     andthen (reused_or_fresh_grant c r) (\<lambda>(g, d).
     andthen (or_rollback_delivery d
         (ensure_grant_still_active r (gd_approval_id d) (gd_expires_at d))) (\<lambda>_.
     andthen (or_rollback_delivery d (record_required_audit
         (from_exec_request EventCommandStarting (co_request_id c) r))) (\<lambda>_.
     andthen (or_rollback_delivery d
         (ensure_grant_still_active r (gd_approval_id d) (gd_expires_at d))) (\<lambda>_.
       ret (g\<lparr>gr_payload_expires_at := grant_payload_expires_at r (gd_expires_at d)\<rparr>, d))))))"

end
