(* ===== verification/Broker.thy ===== *)
theory Broker
  imports GrantIssuer
begin

text \<open>
  The broker's handlers: \<open>internal/daemon/broker/broker.go\<close>. Each exported method is one action.
  A context that \<open>requestContext\<close> derives ends by the deadline of the request, by the caller or by
  the stop of the daemon; which of these has happened at a step is the environment's \<open>en_ctx\<close>.
\<close>

section \<open>Responses and deliveries\<close>

record session_create_response =
  cr_session_id :: string
  cr_session_token :: string
  cr_aliases :: "string list"
  cr_expires_at :: go_time
  cr_max_reads :: int
  cr_remaining :: int
  cr_binding :: binding_info

record session_info =
  sf_session_id :: string
  sf_reason :: string
  sf_cwd :: string
  sf_aliases :: "string list"
  sf_expires_at :: go_time
  sf_max_reads :: int
  sf_remaining :: int
  sf_override_env :: bool
  sf_binding :: binding_info

record session_destroy_response =
  ds_session_id :: string
  ds_destroyed :: bool
  ds_count :: int

text \<open>\<open>ed_finalized\<close> and \<open>sl_finalized\<close> say whether \<open>finalizeOnce\<close> has run.\<close>

record exec_delivery =
  ed_correlation :: correlation
  ed_request :: exec_request
  ed_grant :: grant
  ed_delivery :: grant_delivery
  ed_finalized :: bool

record session_resolve_delivery =
  sl_correlation :: correlation
  sl_request :: session_resolve_request
  sl_active_request :: exec_request
  sl_reservation :: session_reservation
  sl_finalized :: bool

definition session_create_payload :: "session_summary \<Rightarrow> session_create_response" where
  "session_create_payload m = \<lparr>cr_session_id = sm_session_id m, cr_session_token = sm_session_token m,
     cr_aliases = sm_secret_aliases m, cr_expires_at = sm_expires_at m,
     cr_max_reads = sm_max_reads m, cr_remaining = sm_remaining_reads m, cr_binding = sm_binding m\<rparr>"

text \<open>A listed session does not show its token.\<close>

definition session_info_payload :: "session_summary \<Rightarrow> session_info" where
  "session_info_payload m = \<lparr>sf_session_id = sm_session_id m, sf_reason = sm_reason m,
     sf_cwd = sm_cwd m, sf_aliases = sm_secret_aliases m, sf_expires_at = sm_expires_at m,
     sf_max_reads = sm_max_reads m, sf_remaining = sm_remaining_reads m,
     sf_override_env = sm_override_env m, sf_binding = sm_binding m\<rparr>"

definition exec_request_from_session_create :: "session_create_request \<Rightarrow> exec_request" where
  "exec_request_from_session_create r = \<lparr>er_reason = sc_reason r, er_command = sc_command r,
     er_executable = sc_executable r, er_identity = sc_identity r, er_allow_mutable = False,
     er_cwd = sc_cwd r, er_env_fingerprint = '''', er_secrets = sc_secrets r, er_ttl = sc_ttl r,
     er_received_at = sc_received_at r, er_expires_at = sc_expires_at r, er_reusable_uses = 0,
     er_override_env = sc_override_env r, er_overridden = [], er_force_refresh = False,
     er_reuse_only = False\<rparr>"

text \<open>\<open>until\<close> and \<open>now\<close> are the two reads of the wall clock.\<close>

definition exec_request_from_session_resolve ::
  "go_time \<Rightarrow> go_time \<Rightarrow> session_resolve_request \<Rightarrow> session_reservation \<Rightarrow> exec_request" where
  "exec_request_from_session_resolve until now q x = \<lparr>er_reason = sx_reason x,
     er_command = sv_command q, er_executable = sv_executable q, er_identity = sv_identity q,
     er_allow_mutable = False, er_cwd = sv_cwd q, er_env_fingerprint = sv_env_fingerprint q,
     er_secrets = sx_secrets x, er_ttl = time_sub (sx_expires_at x) until, er_received_at = now,
     er_expires_at = sx_expires_at x, er_reusable_uses = 0, er_override_env = sx_override_env x,
     er_overridden = [], er_force_refresh = False, er_reuse_only = False\<rparr>"

section \<open>Active executions\<close>

abbreviation stopped_error :: err where
  "stopped_error \<equiv> Err (BrokerErr ErrDaemonStopped)"

definition refuse_if_stopped :: "unit act" where
  "refuse_if_stopped = andthen read_stopped (\<lambda>b. if b then fail stopped_error else ret ())"

definition require_correlation :: "correlation \<Rightarrow> unit act" where
  "require_correlation c =
     (if co_request_id c = '''' \<or> co_nonce c = '''' then fail (Err (ProtocolErr ErrInvalidNonce))
      else ret ())"

definition activate_exec :: "correlation \<Rightarrow> exec_request \<Rightarrow> unit act" where
  "activate_exec c r =
     andthen refuse_if_stopped (\<lambda>_.
     andthen refuse_if_stopped (\<lambda>_.
       modify (\<lambda>w. w\<lparr>w_active := (w_active w)(co_request_id c \<mapsto>
         \<lparr>ae_nonce = co_nonce c, ae_request = r, ae_started = False, ae_child_pid = None\<rparr>)\<rparr>)))"

definition deactivate_exec :: "correlation \<Rightarrow> unit act" where
  "deactivate_exec c = modify (\<lambda>w.
     case w_active w (co_request_id c) of
       Some a \<Rightarrow> if ae_nonce a = co_nonce c
                 then w\<lparr>w_active := (w_active w)(co_request_id c := None)\<rparr> else w
     | None \<Rightarrow> w)"

definition active_request :: "correlation \<Rightarrow> active_exec act" where
  "active_request c =
     andthen refuse_if_stopped (\<lambda>_.
     andthen (gets (\<lambda>w. w_active w (co_request_id c))) (\<lambda>found.
       case found of
         None \<Rightarrow> fail (Err (BrokerErr ErrUnknownRequest))
       | Some a \<Rightarrow>
           if ae_nonce a \<noteq> co_nonce c then fail (Err (ProtocolErr ErrInvalidNonce)) else ret a))"

definition record_best_effort_audit :: "event \<Rightarrow> unit act" where
  "record_best_effort_audit ev = ignore_error (sink_record ev)"

definition report_started :: "correlation \<Rightarrow> int \<Rightarrow> unit act" where
  "report_started c pid =
     andthen (active_request c) (\<lambda>a.
     andthen (record_required_audit
         ((from_exec_request EventCommandStarted (co_request_id c) (ae_request a))
            \<lparr>ev_child_pid := Some pid\<rparr>)) (\<lambda>_.
       modify (\<lambda>w.
         case w_active w (co_request_id c) of
           None \<Rightarrow> w
         | Some cur \<Rightarrow> w\<lparr>w_active := (w_active w)(co_request_id c \<mapsto>
             cur\<lparr>ae_started := True, ae_child_pid := Some pid\<rparr>)\<rparr>)))"

definition report_completed :: "correlation \<Rightarrow> int \<Rightarrow> string \<Rightarrow> unit act" where
  "report_completed c exit_code signal =
     andthen (active_request c) (\<lambda>a.
     andthen (record_required_audit
         ((from_exec_request EventCommandCompleted (co_request_id c) (ae_request a))
            \<lparr>ev_exit_code := Some exit_code, ev_signal := signal\<rparr>)) (\<lambda>_.
       modify (\<lambda>w. w\<lparr>w_active := (w_active w)(co_request_id c := None)\<rparr>)))"

definition client_disconnected :: "string \<Rightarrow> unit act" where
  "client_disconnected rid =
     andthen (gets (\<lambda>w. w_active w rid)) (\<lambda>found.
     andthen (modify (\<lambda>w. w\<lparr>w_active := (w_active w)(rid := None)\<rparr>)) (\<lambda>_.
       case found of
         None \<Rightarrow> ret ()
       | Some a \<Rightarrow> record_best_effort_audit
           ((from_exec_request
               (if ae_started a then EventExecClientDisconnectedAfterStart
                else EventExecClientDisconnectedAfterPayload) rid (ae_request a))
              \<lparr>ev_child_pid := ae_child_pid a\<rparr>)))"

definition record_stop_attempt :: "event \<Rightarrow> unit act" where
  "record_stop_attempt ev = record_best_effort_audit
     (if ev_type ev = NoEventType then ev\<lparr>ev_type := EventDaemonStop\<rparr> else ev)"

definition stop_with_audit_event :: "event \<Rightarrow> unit act" where
  "stop_with_audit_event ev =
     andthen (modify (\<lambda>w. w\<lparr>w_stopped := True\<rparr>)) (\<lambda>_.
     andthen (record_stop_attempt ev) (\<lambda>_.
     andthen (modify (\<lambda>w. w\<lparr>w_active := Map.empty\<rparr>)) (\<lambda>_.
     andthen manager_clear (\<lambda>_.
       modify (\<lambda>w. w\<lparr>w_sessions := session_clear (w_sessions w)\<rparr>)))))"

section \<open>Exec requests\<close>

definition prepare_exec_delivery :: "correlation \<Rightarrow> exec_request \<Rightarrow> exec_delivery act" where
  "prepare_exec_delivery c r =
     andthen (require_correlation c) (\<lambda>_.
     andthen refuse_if_stopped (\<lambda>_.
     andthen preflight_required_audit (\<lambda>_.
     andthen read_now (\<lambda>now.
       if exec_expired r now then fail (Err (ApprovalErr ErrRequestExpired))
       else
         andthen (issue c r) (\<lambda>(g, d).
         attempt (activate_exec c r) (\<lambda>res.
           case res of
             Inl x \<Rightarrow> andthen (finish_delivery_before_payload d) (\<lambda>_. fail x)
           | Inr _ \<Rightarrow> ret \<lparr>ed_correlation = c, ed_request = r, ed_grant = g, ed_delivery = d,
                           ed_finalized = False\<rparr>))))))"

definition exec_before_write :: "exec_delivery \<Rightarrow> unit act" where
  "exec_before_write x = ensure_payload_writable (ed_request x) (ed_delivery x)"

definition exec_commit_delivered :: "exec_delivery \<Rightarrow> exec_delivery act" where
  "exec_commit_delivered x =
     (if ed_finalized x then ret x
      else andthen (finish_delivery_after_payload (ed_delivery x)) (\<lambda>_.
             ret (x\<lparr>ed_finalized := True\<rparr>)))"

definition exec_abort_before_payload :: "exec_delivery \<Rightarrow> exec_delivery act" where
  "exec_abort_before_payload x =
     (if ed_finalized x then ret x
      else andthen (deactivate_exec (ed_correlation x)) (\<lambda>_.
           andthen (finish_delivery_before_payload (ed_delivery x)) (\<lambda>_.
             ret (x\<lparr>ed_finalized := True\<rparr>))))"

section \<open>Sessions\<close>

definition on_sessions :: "(session_store \<Rightarrow> session_store \<times> 'a) \<Rightarrow> 'a act" where
  "on_sessions f = (\<lambda>e w. case f (w_sessions w) of (s, r) \<Rightarrow> (w\<lparr>w_sessions := s\<rparr>, Inr r))"

definition lift_result :: "err + 'a \<Rightarrow> 'a act" where
  "lift_result r = (case r of Inl x \<Rightarrow> fail x | Inr v \<Rightarrow> ret v)"

definition ensure_session_create_active :: "session_create_request \<Rightarrow> unit act" where
  "ensure_session_create_active r = ensure_active (session_expired r)"

definition record_session_create_approval_error ::
  "string \<Rightarrow> session_create_request \<Rightarrow> err \<Rightarrow> unit act" where
  "record_session_create_approval_error rid r x =
     (if err_is x (ApprovalErr ErrRequestExpired) then
        record_terminal_required_audit
          ((from_session_create_request EventApprovalTimedOut rid r)\<lparr>ev_error_code := RequestExpired\<rparr>)
      else ret ())"

definition record_session_create_denied :: "string \<Rightarrow> session_create_request \<Rightarrow> unit act" where
  "record_session_create_denied rid r = record_terminal_required_audit
     ((from_session_create_request EventApprovalDenied rid r)\<lparr>ev_error_code := ApprovalDenied\<rparr>)"

definition finish_reservation :: "string \<Rightarrow> bool \<Rightarrow> unit act" where
  "finish_reservation token delivered =
     andthen read_now (\<lambda>now. on_sessions (\<lambda>s. (session_finish now s token delivered, ())))"

definition destroy_session :: "string \<Rightarrow> bool act" where
  "destroy_session i = on_sessions (\<lambda>s. session_destroy s i)"

text \<open>The part of \<open>HandleSessionCreate\<close> after the approval.\<close>

definition create_approved_session ::
  "correlation \<Rightarrow> session_create_request \<Rightarrow> peer_binding \<Rightarrow> session_create_response act" where
  "create_approved_session c r binding =
     (let x = exec_request_from_session_create r
      in andthen (record_required_audit
             (from_session_create_request EventApprovalGranted (co_request_id c) r)) (\<lambda>_.
         andthen (or_request_error x (resolve_unique_refs (co_request_id c) x)) (\<lambda>vals.
         andthen (ensure_session_create_active r) (\<lambda>_.
         andthen (ask en_random) (\<lambda>rid.
         andthen (ask en_random) (\<lambda>rtoken.
         andthen (on_sessions (\<lambda>s. session_create rid rtoken s r
             (fanout_values (sc_secrets r) vals) binding)) (\<lambda>created.
         andthen (lift_result created) (\<lambda>m.
         attempt (record_required_audit
             ((from_session_create_request EventSessionCreated (co_request_id c) r)
                \<lparr>ev_session_id := sm_session_id m,
                 ev_remaining_reads := Some (sm_remaining_reads m),
                 ev_max_reads := Some (sm_max_reads m)\<rparr>)) (\<lambda>audited.
           case audited of
             Inl e \<Rightarrow> andthen (destroy_session (sm_session_id m)) (\<lambda>_. fail e)
           | Inr _ \<Rightarrow> ret (session_create_payload m))))))))))"

definition handle_session_create ::
  "correlation \<Rightarrow> session_create_request \<Rightarrow> peer_info \<Rightarrow> session_create_response act" where
  "handle_session_create c r peer =
     andthen (require_correlation c) (\<lambda>_.
     andthen refuse_if_stopped (\<lambda>_.
     andthen preflight_required_audit (\<lambda>_.
     andthen (ask en_tree) (\<lambda>tree.
     andthen (lift_result (bind_session_peer tree peer (sc_binding r))) (\<lambda>binding.
     andthen read_now (\<lambda>now.
       if session_expired r now then fail (Err (ApprovalErr ErrRequestExpired))
       else
         andthen (record_required_audit
             (from_session_create_request EventApprovalRequested (co_request_id c) r)) (\<lambda>_.
         andthen (ask_approver (new_session_create_payload c r (binding_info_of binding))) (\<lambda>answer.
           case answer of
             Inl x \<Rightarrow>
               andthen (record_session_create_approval_error (co_request_id c) r x) (\<lambda>_. fail x)
           | Inr d \<Rightarrow>
               if \<not> de_approved d then
                 andthen (record_session_create_denied (co_request_id c) r) (\<lambda>_.
                   fail (denial_error (de_denial_reason d)))
               else
                 andthen (ensure_session_create_active r) (\<lambda>_.
                 andthen read_now (\<lambda>approved_at.
                   create_approved_session c (session_with_receipt_time r approved_at) binding))))))))))"

definition prepare_session_resolve ::
  "correlation \<Rightarrow> session_resolve_request \<Rightarrow> peer_info \<Rightarrow> session_resolve_delivery act" where
  "prepare_session_resolve c q peer =
     andthen (require_correlation c) (\<lambda>_.
     andthen refuse_if_stopped (\<lambda>_.
     andthen preflight_required_audit (\<lambda>_.
     andthen (ask (\<lambda>e n. (en_fs e, en_tree e n))) (\<lambda>(fs, tree).
     andthen read_now (\<lambda>now.
     andthen (on_sessions (\<lambda>s. session_reserve fs tree now s q peer)) (\<lambda>reserved.
     andthen (lift_result reserved) (\<lambda>x.
     andthen read_now (\<lambda>t1.
     andthen read_now (\<lambda>t2.
       let active = exec_request_from_session_resolve t1 t2 q x
       in attempt (activate_exec c active) (\<lambda>res.
            case res of
              Inl e \<Rightarrow> andthen (finish_reservation (sx_token x) False) (\<lambda>_. fail e)
            | Inr _ \<Rightarrow> ret \<lparr>sl_correlation = c, sl_request = q, sl_active_request = active,
                            sl_reservation = x, sl_finalized = False\<rparr>))))))))))"

definition session_before_write :: "session_resolve_delivery \<Rightarrow> unit act" where
  "session_before_write d =
     (let x = sl_reservation d; rid = co_request_id (sl_correlation d)
      in andthen (record_required_audit
             ((from_session_resolve_request EventSessionResolved rid (sl_request d)
                 (audit_refs_for_identities (sx_secrets x) (unique_secret_identities (sx_secrets x))))
                \<lparr>ev_session_id := sx_session_id x, ev_remaining_reads := Some (sx_remaining x),
                 ev_max_reads := Some (sx_max_reads x)\<rparr>)) (\<lambda>_.
           record_required_audit (from_exec_request EventCommandStarting rid (sl_active_request d))))"

definition session_commit_delivered :: "session_resolve_delivery \<Rightarrow> session_resolve_delivery act" where
  "session_commit_delivered d =
     (if sl_finalized d then ret d
      else andthen (finish_reservation (sx_token (sl_reservation d)) True) (\<lambda>_.
             ret (d\<lparr>sl_finalized := True\<rparr>)))"

definition session_abort_before_payload :: "session_resolve_delivery \<Rightarrow> session_resolve_delivery act" where
  "session_abort_before_payload d =
     (if sl_finalized d then ret d
      else andthen (deactivate_exec (sl_correlation d)) (\<lambda>_.
           andthen (finish_reservation (sx_token (sl_reservation d)) False) (\<lambda>_.
             ret (d\<lparr>sl_finalized := True\<rparr>))))"

definition handle_session_destroy :: "session_destroy_request \<Rightarrow> session_destroy_response act" where
  "handle_session_destroy q =
     andthen refuse_if_stopped (\<lambda>_.
     andthen preflight_required_audit (\<lambda>_.
       if sd_all q then
         andthen (on_sessions session_destroy_all) (\<lambda>n.
         andthen (record_required_audit (event_of_type EventSessionDestroyed)) (\<lambda>_.
           ret \<lparr>ds_session_id = '''', ds_destroyed = True, ds_count = n\<rparr>))
       else
         andthen (destroy_session (sd_session_id q)) (\<lambda>destroyed.
         andthen (record_required_audit
             ((event_of_type EventSessionDestroyed)\<lparr>ev_session_id := sd_session_id q,
                ev_error_code := (if destroyed then NoErrorCode else SessionNotFound)\<rparr>)) (\<lambda>_.
           if \<not> destroyed then fail (Err (StoreErr ErrSessionNotFound))
           else ret \<lparr>ds_session_id = sd_session_id q, ds_destroyed = True, ds_count = 0\<rparr>))))"

definition handle_session_list :: "session_info list act" where
  "handle_session_list =
     andthen refuse_if_stopped (\<lambda>_.
     andthen preflight_required_audit (\<lambda>_.
     andthen (ask en_order) (\<lambda>order.
     andthen read_now (\<lambda>now.
     andthen (on_sessions (session_list order now)) (\<lambda>summaries.
       ret (map session_info_payload summaries))))))"

section \<open>Item descriptions\<close>

definition ensure_item_describe_active :: "item_describe_request \<Rightarrow> unit act" where
  "ensure_item_describe_active r = ensure_active (item_expired r)"

definition item_describe_request_error :: "item_describe_request \<Rightarrow> err \<Rightarrow> 'a act" where
  "item_describe_request_error r x =
     attempt (ensure_item_describe_active r) (\<lambda>res.
       case res of
         Inl active \<Rightarrow>
           if stop_or_expiry active then fail active
           else fail (Wrap (BrokerErr ErrItemMetadataResolveFailed) x)
       | Inr _ \<Rightarrow> fail (Wrap (BrokerErr ErrItemMetadataResolveFailed) x))"

definition item_describe_approval_error :: "item_describe_request \<Rightarrow> err \<Rightarrow> err act" where
  "item_describe_approval_error r x =
     (if err_is x (ApprovalErr ErrRequestExpired) \<or> err_is x (ApprovalErr ErrApprovalDenied) then ret x
      else
        attempt (ensure_item_describe_active r) (\<lambda>res.
          case res of
            Inl active \<Rightarrow> if stop_or_expiry active then ret active else ret x
          | Inr _ \<Rightarrow> ret x))"

definition should_audit_item_describe_approval_error :: "err \<Rightarrow> bool" where
  "should_audit_item_describe_approval_error x \<longleftrightarrow> \<not> err_is x (BrokerErr ErrDaemonStopped)"

definition code_for_item_describe_error :: "err \<Rightarrow> error_code" where
  "code_for_item_describe_error x =
     (if err_is x (BrokerErr ErrDaemonStopped) then DaemonStopped
      else if err_is x (ContextErr CtxCanceled) then ContextCanceled
      else if err_is x (ContextErr CtxDeadlineExceeded) then ContextDeadlineExceeded
      else RequestFailed)"

definition item_describe_error_event :: "string \<Rightarrow> item_describe_request \<Rightarrow> err \<Rightarrow> event" where
  "item_describe_error_event rid r x =
     (if err_is x (ApprovalErr ErrRequestExpired) then
        (from_item_describe_request EventApprovalTimedOut rid r)\<lparr>ev_error_code := RequestExpired\<rparr>
      else
        (from_item_describe_request EventItemMetadataFetchFailed rid r)
          \<lparr>ev_error_code := code_for_item_describe_error x\<rparr>)"

text \<open>\<open>describeItem\<close>: the resolver's answer, or the cause of the context if that ends first.\<close>

definition describe_item :: "item_describe_request \<Rightarrow> item_metadata act" where
  "describe_item r =
     andthen (emit (DescribeBegan (it_ref r) (it_account r))) (\<lambda>_.
     andthen (ask en_ctx) (\<lambda>ctx.
       case ctx of
         Some (x, cause) \<Rightarrow> fail cause
       | None \<Rightarrow> andthen (ask en_describe) lift_result))"

definition handle_item_describe :: "correlation \<Rightarrow> item_describe_request \<Rightarrow> item_metadata act" where
  "handle_item_describe c r =
     (let rid = co_request_id c
      in andthen (require_correlation c) (\<lambda>_.
         andthen refuse_if_stopped (\<lambda>_.
         andthen preflight_required_audit (\<lambda>_.
         andthen read_now (\<lambda>now.
           if item_expired r now then fail (Err (ApprovalErr ErrRequestExpired))
           else
             andthen (record_required_audit
                 (from_item_describe_request EventItemMetadataRequested rid r)) (\<lambda>_.
             andthen (ask_approver (new_item_describe_payload c r)) (\<lambda>answer.
               case answer of
                 Inl x0 \<Rightarrow>
                   andthen (item_describe_approval_error r x0) (\<lambda>x.
                   andthen (if should_audit_item_describe_approval_error x
                            then record_terminal_required_audit (item_describe_error_event rid r x)
                            else ret ()) (\<lambda>_. fail x))
               | Inr d \<Rightarrow>
                   if \<not> de_approved d then
                     andthen (record_terminal_required_audit
                         (from_item_describe_request EventApprovalDenied rid r)) (\<lambda>_.
                       fail (denial_error (de_denial_reason d)))
                   else
                     andthen (ensure_item_describe_active r) (\<lambda>_.
                     andthen (record_required_audit
                         (from_item_describe_request EventItemMetadataGranted rid r)) (\<lambda>_.
                     andthen (record_required_audit
                         (from_item_describe_request EventItemMetadataFetchStarted rid r)) (\<lambda>_.
                     attempt (describe_item r) (\<lambda>described.
                       case described of
                         Inl x \<Rightarrow>
                           andthen (record_terminal_required_audit
                               ((from_item_describe_request EventItemMetadataFetchFailed rid r)
                                  \<lparr>ev_error_code := resolve_failure_error_code x\<rparr>)) (\<lambda>_.
                             item_describe_request_error r x)
                       | Inr m \<Rightarrow>
                           andthen (ensure_item_describe_active r) (\<lambda>_.
                           andthen (record_required_audit
                               (from_item_describe_request EventItemMetadataFetchCompleted rid r)) (\<lambda>_.
                             ret m)))))))))))))"

section \<open>A new broker\<close>

definition new_world :: world where
  "new_world = \<lparr>w_tick = 0, w_stopped = False, w_store = Map.empty, w_cache = Map.empty,
     w_timers = Map.empty, w_sessions = new_session_store, w_active = Map.empty, w_trace = []\<rparr>"

end
