(* ===== verification/EffectTraces.thy ===== *)
theory EffectTraces
  imports Broker
begin

text \<open>
  What the handlers do to the outside: \<open>emits S a\<close> says that the action only adds effects of the
  kind \<open>S\<close> to the trace, and \<open>gated A\<close> that secrets are only read once the effects before it satisfy
  \<open>A\<close>. Once \<open>A\<close> holds, every action keeps the trace gated; until then, those that read no secret do.
\<close>

section \<open>Kinds of effects\<close>

definition emits :: "(effect \<Rightarrow> bool) \<Rightarrow> 'a act \<Rightarrow> bool" where
  "emits S a \<longleftrightarrow> (\<forall>e w. \<exists>l. w_trace (fst (a e w)) = l @ w_trace w \<and> list_all S l)"

abbreviation extends_trace :: "'a act \<Rightarrow> bool" where
  "extends_trace \<equiv> emits (\<lambda>_. True)"

text \<open>A kind that contains every audit record.\<close>

definition audits :: "(effect \<Rightarrow> bool) \<Rightarrow> bool" where
  "audits S \<longleftrightarrow> (\<forall>ev. S (Audited ev))"

fun reads_secret :: "effect \<Rightarrow> bool" where
  "reads_secret (FetchBegan is) = True"
| "reads_secret (Fetched i r) = True"
| "reads_secret (DescribeBegan r a) = True"
| "reads_secret (Audited ev) = False"
| "reads_secret (Asked p r) = False"

definition harmless :: "effect \<Rightarrow> bool" where
  "harmless x \<longleftrightarrow> \<not> reads_secret x"

lemma audits_harmless [intro, simp]: "audits harmless"
  by (simp add: audits_def harmless_def)

lemma audits_True [intro, simp]: "audits (\<lambda>_. True)"
  by (simp add: audits_def)

lemma emitsD: "emits S a \<Longrightarrow> a e w = (w', r) \<Longrightarrow> \<exists>l. w_trace w' = l @ w_trace w \<and> list_all S l"
  unfolding emits_def by (metis fst_conv)

lemma emitsI:
  "(\<And>e w w' r. a e w = (w', r) \<Longrightarrow> \<exists>l. w_trace w' = l @ w_trace w \<and> list_all S l) \<Longrightarrow> emits S a"
  unfolding emits_def by (metis prod.collapse)

lemma emits_silent: "(\<And>e w. w_trace (fst (a e w)) = w_trace w) \<Longrightarrow> emits S a"
  by (simp add: emits_def)

lemma emits_basic:
  "emits S (ret x)" "emits S (fail y)" "emits S (ask f)" "emits S (gets g)" "emits S (lift_error o1)"
  "emits S (on_store h)" "emits S (on_cache j)" "emits S (on_sessions k)" "emits S (lift_result q)"
  by (rule emits_silent, simp add: act_defs on_store_def on_cache_def on_sessions_def lift_result_def
      split: prod.splits option.splits sum.splits)+

lemma emits_modify: "(\<And>w. w_trace (f w) = w_trace w) \<Longrightarrow> emits S (modify f)"
  by (rule emits_silent) (simp add: modify_def)

lemma emits_emit: "S x \<Longrightarrow> emits S (emit x)"
  unfolding emits_def emit_def modify_def by (intro allI exI [of _ "[x]"]) simp

lemma emits_attempt:
  assumes "emits S a" "\<And>r. emits S (f r)"
  shows "emits S (attempt a f)"
proof (rule emitsI)
  fix e w w' r assume run: "attempt a f e w = (w', r)"
  obtain w1 r1 where a: "a e w = (w1, r1)" by (cases "a e w")
  with run have "f r1 e w1 = (w', r)" by (simp add: attempt_def)
  from emitsD [OF assms(1) a] emitsD [OF assms(2) this]
  show "\<exists>l. w_trace w' = l @ w_trace w \<and> list_all S l" by (metis append.assoc list_all_append)
qed

lemma emits_case_sum:
  "(\<And>x. emits S (f x)) \<Longrightarrow> (\<And>y. emits S (g y)) \<Longrightarrow> emits S (case r of Inl x \<Rightarrow> f x | Inr y \<Rightarrow> g y)"
  by (cases r) simp_all

lemma emits_case_option:
  "emits S a \<Longrightarrow> (\<And>y. emits S (g y)) \<Longrightarrow> emits S (case r of None \<Rightarrow> a | Some y \<Rightarrow> g y)"
  by (cases r) simp_all

lemma emits_case_prod: "(\<And>x y. emits S (f x y)) \<Longrightarrow> emits S (case r of (x, y) \<Rightarrow> f x y)"
  by (cases r) simp

lemma emits_case_fetch:
  "(\<And>x. emits S (f x)) \<Longrightarrow> (\<And>x y. emits S (g x y)) \<Longrightarrow> (\<And>x y. emits S (h x y)) \<Longrightarrow>
     emits S (case r of FetchOk x \<Rightarrow> f x | FetchFailed x y \<Rightarrow> g x y | FetchCanceled x y \<Rightarrow> h x y)"
  by (cases r) simp_all

lemma emits_Let: "(\<And>x. emits S (f x)) \<Longrightarrow> emits S (let x = t in f x)"
  by simp

lemma emits_if: "emits S x \<Longrightarrow> emits S y \<Longrightarrow> emits S (if b then x else y)"
  by simp

text \<open>Sequencing is the attempt whose continuation passes a failure on.\<close>

lemma andthen_attempt:
  "andthen a f = attempt a (\<lambda>r. case r of Inl x \<Rightarrow> fail x | Inr v \<Rightarrow> f v)"
  by (auto simp: andthen_def attempt_def fail_def fun_eq_iff split: prod.splits sum.splits)

lemma emits_andthen: "emits S a \<Longrightarrow> (\<And>x. emits S (f x)) \<Longrightarrow> emits S (andthen a f)"
  unfolding andthen_attempt by (intro emits_attempt emits_case_sum emits_basic)

lemma emits_with_error: "emits S a \<Longrightarrow> emits S (with_error f a)"
  unfolding with_error_def by (intro emits_attempt emits_case_sum emits_basic)

lemma emits_ignore_error: "emits S a \<Longrightarrow> emits S (ignore_error a)"
  unfolding ignore_error_def by (intro emits_attempt emits_basic)

lemmas emits_parts = emits_andthen emits_attempt emits_if emits_case_sum emits_case_option
  emits_case_prod emits_case_fetch emits_Let emits_basic emits_with_error emits_ignore_error

lemma emits_mono: "emits S a \<Longrightarrow> (\<And>x. S x \<Longrightarrow> S' x) \<Longrightarrow> emits S' a"
  unfolding emits_def by (metis list.pred_mono_strong)

lemma emits_extends: "emits S a \<Longrightarrow> extends_trace a"
  by (erule emits_mono) simp

section \<open>The operations\<close>

lemma emits_sink_record: "audits S \<Longrightarrow> emits S (sink_record ev)"
  unfolding sink_record_def by (intro emits_parts emits_emit) (simp add: audits_def)

lemma emits_record: "audits S \<Longrightarrow> emits S (record_required_audit ev)"
  unfolding record_required_audit_def by (intro emits_parts emits_sink_record)

lemma emits_record_terminal: "audits S \<Longrightarrow> emits S (record_terminal_required_audit ev)"
  unfolding record_terminal_required_audit_def by (rule emits_record)

lemma emits_preflight: "emits S preflight_required_audit"
  unfolding preflight_required_audit_def sink_preflight_def by (intro emits_parts)

lemma emits_reads: "emits S read_now" "emits S read_stopped"
  unfolding read_now_def read_stopped_def by (intro emits_parts)+

lemma emits_clear_scope: "emits S (clear_scope i)"
  unfolding clear_scope_def by (rule emits_modify) simp

lemma emits_manager_clear: "emits S manager_clear"
  unfolding manager_clear_def by (rule emits_modify) simp

lemma emits_clear_scope_error: "emits S (clear_scope_for_reusable_error a x)"
  unfolding clear_scope_for_reusable_error_def by (intro emits_parts emits_clear_scope)

lemma emits_rollback: "emits S (rollback_approval i)"
  unfolding rollback_approval_def by (intro emits_parts emits_clear_scope)

lemma emits_finish_delivery: "emits S (finish_delivery i result)"
  unfolding finish_delivery_def finish_attempt_def finish_delivery_error_def
  by (intro emits_parts emits_reads emits_clear_scope emits_clear_scope_error)

lemma emits_ensure_approval_active: "emits S (ensure_approval_active i t)"
  unfolding ensure_approval_active_def by (intro emits_parts emits_reads emits_rollback)

lemma emits_schedule_expiry: "emits S (schedule_expiry i t)"
  unfolding schedule_expiry_def expiry_fires_def
  by (intro emits_parts emits_reads emits_clear_scope emits_modify) simp

lemma emits_manager_reserve: "audits S \<Longrightarrow> emits S (manager_reserve r)"
  unfolding manager_reserve_def record_reuse_audit_def finish_attempt_def
  by (intro emits_parts emits_reads emits_clear_scope_error emits_record)

lemma emits_cache_loop: "emits S (cache_loop scope t is vals)"
  by (induction "is") (auto intro!: emits_parts emits_ensure_approval_active split: option.splits)

lemma emits_cache_resolved_values: "emits S (cache_resolved_values scope t vals)"
  unfolding cache_resolved_values_def
  by (intro emits_parts emits_cache_loop emits_ensure_approval_active)

lemma emits_create_grant: "emits S (create_grant r d vals)"
  unfolding create_grant_def
  by (intro emits_parts emits_cache_resolved_values emits_rollback emits_schedule_expiry)

lemma emits_ensure_active: "emits S (ensure_active p)"
  unfolding ensure_active_def by (intro emits_parts emits_reads)

lemma emits_ensure_request_active: "emits S (ensure_request_active r)"
  unfolding ensure_request_active_def by (rule emits_ensure_active)

lemma emits_ensure_session_create_active: "emits S (ensure_session_create_active sr)"
  unfolding ensure_session_create_active_def by (rule emits_ensure_active)

lemma emits_ensure_item_describe_active: "emits S (ensure_item_describe_active ir)"
  unfolding ensure_item_describe_active_def by (rule emits_ensure_active)

lemma emits_ensure_grant: "emits S (ensure_grant_still_active r i t)"
  unfolding ensure_grant_still_active_def
  by (intro emits_parts emits_ensure_request_active emits_ensure_approval_active)

lemma emits_request_error: "emits S (request_error r x)"
  unfolding request_error_def by (intro emits_parts emits_ensure_request_active)

lemma emits_or_request_error: "emits S a \<Longrightarrow> emits S (or_request_error r a)"
  unfolding or_request_error_def by (intro emits_parts emits_request_error)

lemma emits_or_rollback: "emits S a \<Longrightarrow> emits S (or_rollback i a)"
  unfolding or_rollback_def by (intro emits_parts emits_rollback)

lemma emits_finish_before: "emits S (finish_delivery_before_payload d)"
  unfolding finish_delivery_before_payload_def by (intro emits_parts emits_finish_delivery)

lemma emits_finish_after: "emits S (finish_delivery_after_payload d)"
  unfolding finish_delivery_after_payload_def by (intro emits_parts emits_finish_delivery)

lemma emits_rollback_delivery: "emits S (rollback_delivery d)"
  unfolding rollback_delivery_def by (intro emits_parts emits_rollback emits_finish_before)

lemma emits_or_rollback_delivery: "emits S a \<Longrightarrow> emits S (or_rollback_delivery d a)"
  unfolding or_rollback_delivery_def by (intro emits_parts emits_rollback_delivery)

lemma emits_fetch_loop: "extends_trace (fetch_loop n ordered pending out)"
  by (induction n arbitrary: pending out) (auto intro!: emits_parts emits_emit)

lemma emits_resolve: "extends_trace (resolve_unique_refs rid r)"
  unfolding resolve_unique_refs_def fetch_unique_refs_def record_secret_fetch_failure_event_def
  by (intro emits_parts emits_record emits_record_terminal emits_fetch_loop emits_emit
      audits_True TrueI)

lemma emits_refreshed: "audits S \<Longrightarrow> emits S (refreshed_reusable_values a r vals)"
  unfolding refreshed_reusable_values_def record_reusable_refresh_def
  by (intro emits_parts emits_ensure_grant emits_or_rollback emits_cache_resolved_values emits_record)

lemma emits_cached_values: "emits S (cached_values scope ss)"
  unfolding cached_values_def by (intro emits_parts)

lemma emits_reusable_values: "extends_trace (reusable_values a r)"
  unfolding reusable_values_def
  by (intro emits_parts emits_or_request_error emits_resolve emits_refreshed emits_cached_values
      audits_True)

lemma emits_record_approval_error: "audits S \<Longrightarrow> emits S (record_approval_error rid r x)"
  unfolding record_approval_error_def by (intro emits_parts emits_record_terminal)

lemma emits_record_approval_denied: "audits S \<Longrightarrow> emits S (record_approval_denied rid r)"
  unfolding record_approval_denied_def by (rule emits_record_terminal)

lemma emits_record_reusable_miss: "audits S \<Longrightarrow> emits S (record_reusable_miss rid r)"
  unfolding record_reusable_miss_def by (rule emits_record)

lemma emits_require_correlation: "emits S (require_correlation c)"
  unfolding require_correlation_def by (intro emits_parts)

lemma emits_refuse_if_stopped: "emits S refuse_if_stopped"
  unfolding refuse_if_stopped_def by (intro emits_parts emits_reads)

lemma emits_activate: "emits S (activate_exec c r)"
  unfolding activate_exec_def by (intro emits_parts emits_refuse_if_stopped emits_modify) simp

lemma emits_deactivate: "emits S (deactivate_exec c)"
  unfolding deactivate_exec_def by (rule emits_modify) (simp split: option.splits)

section \<open>Keeping a predicate\<close>

lemma outcome_fun [simp]: "outcome E Q (Inl x) = E x" "outcome E Q (Inr v) = Q v"
  by (simp_all add: fun_eq_iff)

text \<open>The rules that take an action apart.\<close>

lemma keeps_case_sum [intro]:
  "(\<And>x. keeps I (f x)) \<Longrightarrow> (\<And>y. keeps I (g y)) \<Longrightarrow> keeps I (case r of Inl x \<Rightarrow> f x | Inr y \<Rightarrow> g y)"
  by (cases r) simp_all

lemma keeps_case_option [intro]:
  "keeps I a \<Longrightarrow> (\<And>y. keeps I (g y)) \<Longrightarrow> keeps I (case r of None \<Rightarrow> a | Some y \<Rightarrow> g y)"
  by (cases r) simp_all

lemma keeps_case_prod [intro]: "(\<And>x y. keeps I (f x y)) \<Longrightarrow> keeps I (case r of (x, y) \<Rightarrow> f x y)"
  by (cases r) simp

lemma keeps_Let [intro]: "(\<And>x. keeps I (f x)) \<Longrightarrow> keeps I (let x = t in f x)"
  by simp

lemmas keeps_parts = keeps_andthen keeps_attempt keeps_if keeps_case_sum keeps_case_option
  keeps_case_prod keeps_Let keeps_ret keeps_fail keeps_gets keeps_lift_error keeps_ask
  keeps_with_error

text \<open>What was true of the trace stays true when it grows.\<close>

definition grows :: "(world \<Rightarrow> bool) \<Rightarrow> bool" where
  "grows J \<longleftrightarrow> (\<forall>w w' l. J w \<longrightarrow> w_trace w' = l @ w_trace w \<longrightarrow> J w')"

lemma keeps_grows: "grows J \<Longrightarrow> extends_trace a \<Longrightarrow> keeps J a"
  by (rule keepsI) (metis emitsD grows_def)

lemma keeps_conj: "keeps I a \<Longrightarrow> keeps J a \<Longrightarrow> keeps (\<lambda>w. I w \<and> J w) a"
  by (rule keepsI) (metis keepsD)

lemma triple_keep:
  assumes "triple P a Q" "grows J" "extends_trace a"
  shows "triple (\<lambda>w. P w \<and> J w) a (\<lambda>r w. Q r w \<and> J w)"
  by (rule tripleI) (metis assms emitsD grows_def tripleD)

lemma triple_keeps_outcome:
  assumes "triple P a (outcome E Q)" "grows J" "extends_trace a"
  shows "triple (\<lambda>w. P w \<and> J w) a (outcome (\<lambda>x w. E x w \<and> J w) (\<lambda>v w. Q v w \<and> J w))"
  using triple_keep [OF assms] by (rule triple_conseq) (auto simp: outcome_def split: sum.splits)

lemmas emits_ops = emits_record emits_record_terminal emits_preflight emits_reads emits_clear_scope
  emits_manager_clear emits_clear_scope_error emits_rollback emits_finish_delivery
  emits_ensure_approval_active emits_schedule_expiry emits_manager_reserve
  emits_cache_resolved_values emits_create_grant emits_ensure_active emits_ensure_request_active
  emits_ensure_session_create_active emits_ensure_item_describe_active emits_ensure_grant
  emits_request_error emits_or_request_error emits_or_rollback emits_finish_before
  emits_finish_after emits_rollback_delivery emits_or_rollback_delivery emits_refreshed
  emits_cached_values emits_record_approval_error emits_record_approval_denied
  emits_record_reusable_miss emits_require_correlation emits_refuse_if_stopped emits_activate
  emits_deactivate emits_sink_record

end
