(* ===== verification/BrokerInvariant.thy ===== *)
theory BrokerInvariant
  imports EffectTraces
begin

text \<open>
  The invariant of the broker: the counters of the approval store and of the session store are
  consistent, and every value held in the cache or in a session is one that the resolver returned
  for that secret. Every handler keeps it.
\<close>

section \<open>The invariant\<close>

text \<open>The identity and the secret have the same reference, account, source and endpoints.\<close>

definition same_secret :: "secret_identity \<Rightarrow> secret \<Rightarrow> bool" where
  "same_secret i s \<longleftrightarrow> cache_key_of_identity '''' i = cache_key_of_secret '''' s"

definition resolved :: "secret_identity \<Rightarrow> string \<Rightarrow> world \<Rightarrow> bool" where
  "resolved i v w \<longleftrightarrow> Fetched i (Inr v) \<in> set (w_trace w)"

definition vals_sound :: "(secret_identity \<rightharpoonup> string) \<Rightarrow> world \<Rightarrow> bool" where
  "vals_sound vals w \<longleftrightarrow> (\<forall>i v. vals i = Some v \<longrightarrow> resolved i v w)"

definition cache_sound :: "world \<Rightarrow> bool" where
  "cache_sound w \<longleftrightarrow>
     (\<forall>k v. cache_get (w_cache w) k = Some v \<longrightarrow>
        (\<exists>i. resolved i v w \<and> cache_key_of_identity (ck_scope k) i = k))"

definition env_sound :: "secret list \<Rightarrow> (string \<rightharpoonup> string) \<Rightarrow> world \<Rightarrow> bool" where
  "env_sound ss env w \<longleftrightarrow> dom env = se_alias ` set ss \<and>
     (\<forall>a v. env a = Some v \<longrightarrow>
        (\<exists>s i. find_secret ss a = Some s \<and> same_secret i s \<and> resolved i v w))"

text \<open>
  \<open>find_secret ss a\<close> is the secret that the alias \<open>a\<close> stands for: the last one of that alias.
\<close>

definition sessions_sound :: "world \<Rightarrow> bool" where
  "sessions_sound w \<longleftrightarrow>
     (\<forall>t a. ss_tokens (w_sessions w) t = Some a \<longrightarrow>
        env_sound (sr_secrets (ss_heap (w_sessions w) a)) (sr_env (ss_heap (w_sessions w) a)) w)"

definition broker_ok :: "world \<Rightarrow> bool" where
  "broker_ok w \<longleftrightarrow> policy_ok (w_store w) \<and> session_ok (w_sessions w) \<and> cache_sound w \<and>
     sessions_sound w"

lemma resolved_trace: "resolved i v w \<Longrightarrow> resolved i v (w\<lparr>w_trace := x # w_trace w\<rparr>)"
  by (simp add: resolved_def)

lemma resolved_simps [simp]:
  "resolved i v (w\<lparr>w_tick := n\<rparr>) = resolved i v w"
  "resolved i v (w\<lparr>w_store := st\<rparr>) = resolved i v w"
  "resolved i v (w\<lparr>w_cache := c\<rparr>) = resolved i v w"
  "resolved i v (w\<lparr>w_timers := ti\<rparr>) = resolved i v w"
  "resolved i v (w\<lparr>w_sessions := s\<rparr>) = resolved i v w"
  "resolved i v (w\<lparr>w_active := ac\<rparr>) = resolved i v w"
  "resolved i v (w\<lparr>w_stopped := b\<rparr>) = resolved i v w"
  by (simp_all add: resolved_def)

lemma env_sound_simps [simp]:
  "env_sound ss m (w\<lparr>w_tick := n\<rparr>) = env_sound ss m w"
  "env_sound ss m (w\<lparr>w_store := st\<rparr>) = env_sound ss m w"
  "env_sound ss m (w\<lparr>w_cache := c\<rparr>) = env_sound ss m w"
  "env_sound ss m (w\<lparr>w_timers := ti\<rparr>) = env_sound ss m w"
  "env_sound ss m (w\<lparr>w_sessions := s\<rparr>) = env_sound ss m w"
  "env_sound ss m (w\<lparr>w_active := ac\<rparr>) = env_sound ss m w"
  "env_sound ss m (w\<lparr>w_stopped := b\<rparr>) = env_sound ss m w"
  by (simp_all add: env_sound_def)

lemma env_sound_trace: "env_sound ss m w \<Longrightarrow> env_sound ss m (w\<lparr>w_trace := x # w_trace w\<rparr>)"
  unfolding env_sound_def using resolved_trace by blast


lemma vals_sound_simps [simp]:
  "vals_sound vals (w\<lparr>w_tick := n\<rparr>) = vals_sound vals w"
  "vals_sound vals (w\<lparr>w_store := st\<rparr>) = vals_sound vals w"
  "vals_sound vals (w\<lparr>w_cache := c\<rparr>) = vals_sound vals w"
  "vals_sound vals (w\<lparr>w_timers := ti\<rparr>) = vals_sound vals w"
  by (simp_all add: vals_sound_def)

lemma vals_sound_trace: "vals_sound vals w \<Longrightarrow> vals_sound vals (w\<lparr>w_trace := x # w_trace w\<rparr>)"
  by (simp add: vals_sound_def resolved_trace)

lemma broker_ok_simps [simp]:
  "broker_ok (w\<lparr>w_tick := n\<rparr>) = broker_ok w"
  "broker_ok (w\<lparr>w_timers := ti\<rparr>) = broker_ok w"
  "broker_ok (w\<lparr>w_active := ac\<rparr>) = broker_ok w"
  "broker_ok (w\<lparr>w_stopped := b\<rparr>) = broker_ok w"
  by (simp_all add: broker_ok_def cache_sound_def sessions_sound_def)

lemma cache_sound_trace: "cache_sound w \<Longrightarrow> cache_sound (w\<lparr>w_trace := x # w_trace w\<rparr>)"
  unfolding cache_sound_def by simp (blast intro: resolved_trace)

lemma sessions_sound_trace: "sessions_sound w \<Longrightarrow> sessions_sound (w\<lparr>w_trace := x # w_trace w\<rparr>)"
  unfolding sessions_sound_def by (auto intro: env_sound_trace)

lemma broker_ok_trace: "broker_ok w \<Longrightarrow> broker_ok (w\<lparr>w_trace := x # w_trace w\<rparr>)"
  by (simp add: broker_ok_def cache_sound_trace sessions_sound_trace)

lemma broker_ok_store:
  "broker_ok w \<Longrightarrow> policy_ok st \<Longrightarrow> broker_ok (w\<lparr>w_store := st\<rparr>)"
  by (simp add: broker_ok_def cache_sound_def sessions_sound_def)

lemma broker_ok_sessions:
  assumes "broker_ok w" "session_ok s"
    and "\<And>t a. ss_tokens s t = Some a \<Longrightarrow> env_sound (sr_secrets (ss_heap s a)) (sr_env (ss_heap s a)) w"
  shows "broker_ok (w\<lparr>w_sessions := s\<rparr>)"
  using assms by (simp add: broker_ok_def cache_sound_def sessions_sound_def)

lemma broker_ok_cache:
  assumes "broker_ok w"
    and "\<And>k v. cache_get c k = Some v \<Longrightarrow>
      cache_get (w_cache w) k = Some v \<or> (\<exists>i. resolved i v w \<and> cache_key_of_identity (ck_scope k) i = k)"
  shows "broker_ok (w\<lparr>w_cache := c\<rparr>)"
  using assms unfolding broker_ok_def cache_sound_def sessions_sound_def by simp blast

lemma steady_broker_ok [intro, simp]: "steady broker_ok"
  by (simp add: steady_def tickless_def broker_ok_trace)

lemma tickless_broker_ok [intro, simp]: "tickless broker_ok"
  by (rule steady_tickless) simp

lemma steady_vals_sound [intro, simp]: "steady (vals_sound vals)"
  by (simp add: steady_def tickless_def vals_sound_trace)

section \<open>The grant manager keeps it\<close>

lemma keeps_read_now [intro]: "tickless I \<Longrightarrow> keeps I read_now"
  by (simp add: read_now_def keeps_ask)

lemma keeps_read_stopped [intro]: "tickless I \<Longrightarrow> keeps I read_stopped"
  unfolding read_stopped_def by (intro keeps_andthen keeps_ask keeps_gets)

lemma keeps_on_store:
  "(\<And>st. policy_ok st \<Longrightarrow> policy_ok (fst (f st))) \<Longrightarrow> keeps broker_ok (on_store f)"
  unfolding keeps_def
proof (rule tripleI)
  fix e w w' r
  assume f: "\<And>st. policy_ok st \<Longrightarrow> policy_ok (fst (f st))"
    and ok: "broker_ok w" and r: "on_store f e w = (w', r)"
  from ok have "policy_ok (fst (f (w_store w)))" by (intro f) (simp add: broker_ok_def)
  then have "broker_ok (w\<lparr>w_store := fst (f (w_store w))\<rparr>)" by (rule broker_ok_store [OF ok])
  with r show "broker_ok w'" by (auto simp: on_store_def split: prod.splits)
qed

lemma keeps_remove [intro]: "keeps broker_ok (on_store (\<lambda>st. remove_reusable st i))"
proof (rule keeps_on_store)
  fix st assume "policy_ok st"
  then show "policy_ok (fst (remove_reusable st i))"
    by (rule policy_ok_sub) (metis remove_reusable_sub prod.collapse)
qed

lemma keeps_finish_attempt [intro]: "keeps broker_ok (finish_attempt i result)"
  unfolding finish_attempt_def
  by (intro keeps_andthen keeps_read_now keeps_on_store finish_reusable_attempt_ok) simp_all

lemma keeps_reserve_store [intro]: "keeps broker_ok (on_store (\<lambda>st. reserve_reusable order now st r))"
  by (intro keeps_on_store reserve_reusable_ok)

lemma keeps_add_store [intro]: "keeps broker_ok (on_store (\<lambda>st. add_reusable rid rnonce st spec))"
  by (intro keeps_on_store add_reusable_ok)

lemma cache_clear_scope_sub:
  "cache_get (cache_clear_scope c s) k = Some v \<Longrightarrow> cache_get c k = Some v"
  by (simp add: memory_cache.clear_scope_get split: if_splits)

lemma broker_ok_clear_scope:
  "broker_ok w \<Longrightarrow>
     broker_ok (w\<lparr>w_timers := ti, w_cache := cache_clear_scope (w_cache w) i\<rparr>)"
  by (rule broker_ok_cache) (auto dest: cache_clear_scope_sub)

lemma keeps_clear_scope [intro]: "keeps broker_ok (clear_scope i)"
  unfolding clear_scope_def by (rule keeps_modify) (rule broker_ok_clear_scope)

lemma keeps_manager_clear [intro]: "keeps broker_ok manager_clear"
  unfolding manager_clear_def
proof (rule keeps_modify)
  fix w assume ok: "broker_ok w"
  then show "broker_ok (w\<lparr>w_timers := Map.empty, w_cache := cache_clear (w_cache w),
      w_store := clear_reusable (w_store w)\<rparr>)"
    by (simp add: broker_ok_def cache_sound_def sessions_sound_def clear_reusable_def policy_ok_def
        memory_cache.clear_all_get)
qed

lemma keeps_clear_scope_error [intro]: "keeps broker_ok (clear_scope_for_reusable_error a x)"
  unfolding clear_scope_for_reusable_error_def by (intro keeps_if keeps_ret keeps_clear_scope)

lemma keeps_rollback [intro]: "keeps broker_ok (rollback_approval i)"
  unfolding rollback_approval_def by (intro keeps_if keeps_ret keeps_andthen keeps_remove keeps_clear_scope)

lemma keeps_expiry_fires [intro]: "keeps broker_ok (expiry_fires i)"
  unfolding expiry_fires_def by (intro keeps_andthen keeps_remove keeps_clear_scope)

lemma keeps_manager_reserve [intro]: "keeps broker_ok (manager_reserve r)"
  unfolding manager_reserve_def record_reuse_audit_def
  by (intro keeps_parts keeps_read_now keeps_reserve_store keeps_clear_scope_error
      keeps_record_required_audit keeps_finish_attempt tickless_broker_ok steady_broker_ok)

lemma keeps_finish_delivery_error [intro]: "keeps broker_ok (finish_delivery_error i result f)"
  unfolding finish_delivery_error_def
  by (intro keeps_parts keeps_clear_scope keeps_clear_scope_error)

lemma keeps_finish_delivery [intro]: "keeps broker_ok (finish_delivery i result)"
  unfolding finish_delivery_def
  by (intro keeps_parts keeps_finish_attempt keeps_finish_delivery_error keeps_clear_scope)

lemma keeps_ensure_approval_active [intro]: "keeps broker_ok (ensure_approval_active i expires)"
  unfolding ensure_approval_active_def
  by (intro keeps_parts keeps_read_stopped keeps_read_now keeps_rollback tickless_broker_ok)

lemma keeps_schedule_expiry [intro]: "keeps broker_ok (schedule_expiry i expires)"
  unfolding schedule_expiry_def
  by (intro keeps_parts keeps_read_now keeps_expiry_fires keeps_modify tickless_broker_ok) simp

section \<open>Values of the resolver\<close>

lemma grows_vals_sound [simp]: "grows (vals_sound vals)"
  by (auto simp: grows_def vals_sound_def resolved_def)

lemma grows_env_sound [simp]: "grows (env_sound ss m)"
  unfolding grows_def env_sound_def resolved_def by fastforce

lemma cache_key_of_identity_scope [simp]: "ck_scope (cache_key_of_identity s i) = s"
  by (simp add: cache_key_of_identity_def)

lemma tickless_vals [simp]: "tickless (\<lambda>w. broker_ok w \<and> vals_sound vals w)"
  by (simp add: tickless_def)

text \<open>A value that is about to be cached is kept in a cache that stays sound.\<close>

lemma keeps_on_cache_put:
  assumes "vals i = Some v"
  shows "keeps (\<lambda>w. broker_ok w \<and> vals_sound vals w)
    (on_cache (\<lambda>c. cache_put al c (cache_key_of_identity scope i) v))"
proof (rule keepsI)
  fix e w w' r
  assume ok: "broker_ok w \<and> vals_sound vals w"
    and run: "on_cache (\<lambda>c. cache_put al c (cache_key_of_identity scope i) v) e w = (w', r)"
  obtain c' x where p: "cache_put al (w_cache w) (cache_key_of_identity scope i) v = (c', x)"
    by (cases "cache_put al (w_cache w) (cache_key_of_identity scope i) v")
  have w': "w' = w\<lparr>w_cache := c'\<rparr>" using run p by (simp add: on_cache_def)
  have i: "resolved i v w" using ok assms by (simp add: vals_sound_def)
  have get: "cache_get (w_cache w) k = Some u \<or>
      (\<exists>i. resolved i u w \<and> cache_key_of_identity (ck_scope k) i = k)"
    if "cache_get c' k = Some u" for k u
  proof (cases x)
    case None
    with p memory_cache.put_get [of al "w_cache w" "cache_key_of_identity scope i" v c' k] that i
    show ?thesis by (cases "k = cache_key_of_identity scope i") auto
  next
    case (Some e)
    with p memory_cache.put_fails that show ?thesis by blast
  qed
  have "broker_ok (w\<lparr>w_cache := c'\<rparr>)" using ok get by (intro broker_ok_cache) auto
  with ok show "broker_ok w' \<and> vals_sound vals w'" by (simp add: w')
qed

lemma keeps_vals:
  "keeps broker_ok a \<Longrightarrow> extends_trace a \<Longrightarrow> keeps (\<lambda>w. broker_ok w \<and> vals_sound vals w) a"
  by (rule keeps_conj) (simp_all add: keeps_grows)

lemma keeps_cache_loop:
  "keeps (\<lambda>w. broker_ok w \<and> vals_sound vals w) (cache_loop scope t is vals)"
proof (induction "is")
  case (Cons i "is")
  have "keeps (\<lambda>w. broker_ok w \<and> vals_sound vals w)
      (andthen (ensure_approval_active scope t) (\<lambda>_.
          andthen (ask en_alloc) (\<lambda>al.
          andthen (on_cache (\<lambda>c. cache_put al c (cache_key_of_identity scope i) v)) (\<lambda>r.
          andthen (lift_error r) (\<lambda>_. cache_loop scope t is vals)))))" if "vals i = Some v" for v
    by (intro keeps_andthen Cons.IH keeps_lift_error keeps_on_cache_put that)
      (intro keeps_vals keeps_ensure_approval_active keeps_ask tickless_broker_ok emits_basic
        emits_ensure_approval_active)+
  with Cons.IH show ?case by (simp split: option.splits)
qed (simp add: keeps_ret)

lemma keeps_cache_resolved_values:
  "keeps (\<lambda>w. broker_ok w \<and> vals_sound vals w) (cache_resolved_values scope t vals)"
  unfolding cache_resolved_values_def
  by (intro keeps_andthen keeps_cache_loop keeps_vals keeps_ask keeps_ensure_approval_active
      emits_basic emits_ensure_approval_active tickless_broker_ok)

lemma keeps_create_grant:
  "keeps (\<lambda>w. broker_ok w \<and> vals_sound vals w) (create_grant r d vals)"
  unfolding create_grant_def
  by (intro keeps_parts keeps_cache_resolved_values tickless_vals)
    (rule keeps_vals, intro keeps_parts keeps_add_store keeps_rollback keeps_schedule_expiry,
      rule emits_basic emits_rollback emits_schedule_expiry)+

text \<open>The collecting loop: what it returns was resolved, and nothing is missing.\<close>

definition all_resolved :: "secret_identity set \<Rightarrow> (secret_identity \<rightharpoonup> string) \<Rightarrow> world \<Rightarrow> bool" where
  "all_resolved S vals w \<longleftrightarrow> broker_ok w \<and> vals_sound vals w \<and> dom vals = S"

definition fetch_sound :: "secret_identity set \<Rightarrow> fetch_result \<Rightarrow> world \<Rightarrow> bool" where
  "fetch_sound S fr w \<longleftrightarrow> broker_ok w \<and> (\<forall>vals. fr = FetchOk vals \<longrightarrow> all_resolved S vals w)"

lemma insert_remove1: "a \<in> set xs \<Longrightarrow> insert a (set (remove1 a xs)) = set xs"
  by (induction xs) auto

lemma triple_fetch_loop:
  "n = length pending \<Longrightarrow> dom out \<union> set pending = S \<Longrightarrow>
     triple (\<lambda>w. broker_ok w \<and> vals_sound out w) (fetch_loop n ordered pending out)
       (outcome (\<lambda>_. broker_ok) (fetch_sound S))"
proof (induction n arbitrary: pending out)
  case 0
  then show ?case by (simp add: triple_ret fetch_sound_def all_resolved_def)
next
  case (Suc n)
  let ?I = "\<lambda>w. broker_ok w \<and> vals_sound out w"
  have ask: "triple ?I (ask f) (outcome (\<lambda>_. broker_ok) (\<lambda>_. ?I))" for f :: "env \<Rightarrow> nat \<Rightarrow> 'b"
    by (rule triple_ask) simp
  define i where "i k = pending ! (k mod length pending)" for k :: nat
  have "0 < length pending" using Suc.prems(1) by (cases pending) simp_all
  then have i: "i k \<in> set pending" for k by (simp add: i_def)
  have next_ok: "triple (\<lambda>w. broker_ok w \<and> vals_sound (out(i k \<mapsto> v)) w)
      (fetch_loop n ordered (remove1 (i k) pending) (out(i k \<mapsto> v)))
      (outcome (\<lambda>_. broker_ok) (fetch_sound S))" for k v
  proof (rule Suc.IH)
    show "n = length (remove1 (i k) pending)" using i [of k] Suc.prems(1) by (simp add: length_remove1)
    show "dom (out(i k \<mapsto> v)) \<union> set (remove1 (i k) pending) = S"
      using insert_remove1 [OF i [of k]] Suc.prems(2) by (auto simp del: fun_upd_apply)
  qed
  show ?case
    unfolding fetch_loop.simps i_def [symmetric] Let_def
  proof (rule triple_andthen [OF ask])
    fix ctx
    show "triple ?I (case ctx of
         Some (x, cause) \<Rightarrow> ret (FetchCanceled (pending_identities ordered (set pending)) cause)
       | None \<Rightarrow> andthen (ask en_pick) (\<lambda>k.
           andthen (ask (\<lambda>e n. en_resolve e n (secret_of_identity (i k)))) (\<lambda>got.
           andthen (emit (Fetched (i k) got)) (\<lambda>_.
             case got of
               Inl x \<Rightarrow> ret (FetchFailed (i k) x)
             | Inr v \<Rightarrow> fetch_loop n ordered (remove1 (i k) pending) (out(i k \<mapsto> v))))))
        (outcome (\<lambda>_. broker_ok) (fetch_sound S))"
    proof (cases ctx)
      case None
      have got: "triple (\<lambda>w. broker_ok w \<and> vals_sound (case got of Inl x \<Rightarrow> out | Inr v \<Rightarrow> out(i k \<mapsto> v)) w)
          (case got of Inl x \<Rightarrow> ret (FetchFailed (i k) x)
           | Inr v \<Rightarrow> fetch_loop n ordered (remove1 (i k) pending) (out(i k \<mapsto> v)))
          (outcome (\<lambda>_. broker_ok) (fetch_sound S))" for got k
        by (cases got) (auto intro!: triple_ret next_ok simp: fetch_sound_def)
      have "triple ?I (emit (Fetched (i k) got)) (outcome (\<lambda>_. broker_ok)
          (\<lambda>_ w. broker_ok w \<and> vals_sound (case got of Inl x \<Rightarrow> out | Inr v \<Rightarrow> out(i k \<mapsto> v)) w))" for got k
        by (rule triple_emit)
          (auto simp: broker_ok_trace vals_sound_trace vals_sound_def resolved_def split: sum.splits)
      then show ?thesis unfolding None option.case
        by (intro triple_andthen [OF ask] triple_andthen [OF _ got]) auto
    qed (auto intro: triple_ret simp: fetch_sound_def)
  qed simp
qed

lemma all_resolved_fun:
  "all_resolved S vals = (\<lambda>w. broker_ok w \<and> vals_sound vals w \<and> dom vals = S)"
  by (simp add: fun_eq_iff all_resolved_def)

text \<open>A step that keeps the invariant, before code that relies on what was resolved.\<close>

lemma then_step:
  assumes "keeps broker_ok a" "extends_trace a" "grows J"
    and "\<And>x. triple (\<lambda>w. broker_ok w \<and> J w) (f x) (outcome (\<lambda>_. broker_ok) Q)"
  shows "triple (\<lambda>w. broker_ok w \<and> J w) (andthen a f) (outcome (\<lambda>_. broker_ok) Q)"
proof (rule triple_andthen)
  have "keeps (\<lambda>w. broker_ok w \<and> J w) a"
    by (rule keeps_conj [OF assms(1) keeps_grows [OF assms(3,2)]])
  then show "triple (\<lambda>w. broker_ok w \<and> J w) a
      (outcome (\<lambda>_ w. broker_ok w \<and> J w) (\<lambda>_ w. broker_ok w \<and> J w))" by (rule keeps_triple)
qed (use assms(4) in simp_all)

lemma then_keep:
  assumes "keeps I a" "\<And>w. I w \<Longrightarrow> broker_ok w"
    and "\<And>x. triple I (f x) (outcome (\<lambda>_. broker_ok) Q)"
  shows "triple I (andthen a f) (outcome (\<lambda>_. broker_ok) Q)"
  by (rule triple_andthen [OF keeps_triple [OF assms(1)]]) (use assms(2,3) in simp_all)

lemma then_first:
  assumes "keeps broker_ok a" "\<And>x. triple broker_ok (f x) (outcome (\<lambda>_. broker_ok) Q)"
  shows "triple broker_ok (andthen a f) (outcome (\<lambda>_. broker_ok) Q)"
  by (rule triple_andthen [OF keeps_triple]) (use assms in simp_all)

lemma keeps_fail_triple: "keeps broker_ok a \<Longrightarrow>
    triple broker_ok (andthen a (\<lambda>_. fail x)) (outcome (\<lambda>_. broker_ok) Q)"
  by (rule then_first) (auto intro: triple_fail)

lemma triple_then:
  assumes "triple P a (outcome (\<lambda>_. broker_ok) R)"
    and "\<And>x. triple (R x) (f x) (outcome (\<lambda>_. broker_ok) Q)"
  shows "triple P (andthen a f) (outcome (\<lambda>_. broker_ok) Q)"
  by (rule triple_andthen [OF assms]) simp

lemma triple_fetch:
  "triple broker_ok (fetch_unique_refs is) (outcome (\<lambda>_. broker_ok) (fetch_sound (set is)))"
  unfolding fetch_unique_refs_def
  by (rule then_first, intro keeps_emit steady_broker_ok, rule triple_pre, rule triple_fetch_loop)
    (simp_all add: vals_sound_def)

lemma triple_resolve:
  "triple broker_ok (resolve_unique_refs rid r)
     (outcome (\<lambda>_. broker_ok) (all_resolved (identity_for_secret ` set (er_secrets r))))"
  unfolding resolve_unique_refs_def Let_def
proof (rule then_first, goal_cases)
  case 1
  show ?case by (intro keeps_record_required_audit steady_broker_ok)
next
  case (2 x)
  have failure: "keeps broker_ok (record_secret_fetch_failure_event rid refs x)" for refs x
    unfolding record_secret_fetch_failure_event_def by (intro keeps_record_terminal steady_broker_ok)
  show ?case
  proof (rule triple_then [OF triple_fetch], goal_cases)
    case (1 fr)
    show ?case
      by (cases fr) (auto intro!: triple_ret triple_pre [OF keeps_fail_triple] failure
          simp: fetch_sound_def)
  qed
qed

section \<open>Values of a request\<close>

lemma find_secret_simps [simp]:
  "find_secret [] a = None"
  "find_secret (ss @ [s]) a = (if se_alias s = a then Some s else find_secret ss a)"
  by (simp_all add: find_secret_def)

lemma find_secret_Some: "find_secret ss a = Some s \<Longrightarrow> s \<in> set ss \<and> se_alias s = a"
  by (induction ss rule: rev_induct) (auto split: if_splits)

lemma fold_alias_find:
  "fold (\<lambda>s m. m(se_alias s \<mapsto> f s)) ss m0 a =
     (case find_secret ss a of Some s \<Rightarrow> Some (f s) | None \<Rightarrow> m0 a)"
  by (induction ss rule: rev_induct) auto

lemma same_secret_identity [simp]: "same_secret (identity_for_secret s) s"
  by (simp add: same_secret_def cache_key_of_identity_def cache_key_of_secret_def identity_for_secret_def)

lemma env_sound_fanout:
  assumes "all_resolved (identity_for_secret ` set ss) vals w"
  shows "env_sound ss (fanout_values ss vals) w"
  unfolding env_sound_def
proof (intro conjI allI impI fanout_values_dom)
  fix a v assume "fanout_values ss vals a = Some v"
  then obtain s where s: "find_secret ss a = Some s" "identity_value vals s = v"
    by (auto simp: fanout_values_def fold_alias_find split: option.splits)
  with assms find_secret_Some [OF s(1)] obtain u where "vals (identity_for_secret s) = Some u" by (auto simp: all_resolved_def)
  with s assms have "resolved (identity_for_secret s) v w"
    by (auto simp: all_resolved_def vals_sound_def identity_value_def)
  with s show "\<exists>s i. find_secret ss a = Some s \<and> same_secret i s \<and> resolved i v w"
    using same_secret_identity by blast
qed

lemma find_secret_Cons:
  "find_secret (s # ss) a =
     (case find_secret ss a of None \<Rightarrow> if se_alias s = a then Some s else None | Some t \<Rightarrow> Some t)"
  by (simp add: find_secret_def map_add_def split: option.splits)

lemma cached_loop_find:
  "cached_loop c scope ss out = Inr m \<Longrightarrow>
     m a = (case find_secret ss a of None \<Rightarrow> out a | Some s \<Rightarrow> cache_get c (cache_key_of_secret scope s))"
  by (induction c scope ss out rule: cached_loop.induct)
    (auto simp: find_secret_Cons split: option.splits if_splits)

lemma cached_loop_dom:
  "cached_loop c scope ss out = Inr m \<Longrightarrow> dom m = dom out \<union> se_alias ` set ss"
  by (induction c scope ss out rule: cached_loop.induct) (auto split: option.splits)

lemma env_sound_cached:
  assumes "broker_ok w" "cached_loop (w_cache w) scope ss Map.empty = Inr m"
  shows "env_sound ss m w"
  unfolding env_sound_def
proof (intro conjI allI impI)
  show "dom m = se_alias ` set ss" using cached_loop_dom [OF assms(2)] by simp
  fix a v assume "m a = Some v"
  with cached_loop_find [OF assms(2), of a] obtain s where
    s: "find_secret ss a = Some s" "cache_get (w_cache w) (cache_key_of_secret scope s) = Some v"
    by (auto split: option.splits)
  with assms(1) obtain i where "resolved i v w"
      "cache_key_of_identity (ck_scope (cache_key_of_secret scope s)) i = cache_key_of_secret scope s"
    unfolding broker_ok_def cache_sound_def by blast
  then have "resolved i v w \<and> same_secret i s"
    by (simp add: same_secret_def cache_key_of_identity_def cache_key_of_secret_def)
  with s show "\<exists>s i. find_secret ss a = Some s \<and> same_secret i s \<and> resolved i v w" by blast
qed

lemma triple_cached_values:
  "triple broker_ok (cached_values scope ss)
     (outcome (\<lambda>_. broker_ok) (\<lambda>m w. broker_ok w \<and> env_sound ss m w))"
  by (rule tripleI) (auto simp: cached_values_def act_defs env_sound_cached split: sum.splits)

section \<open>Issuing keeps it\<close>

lemma keeps_ensure_active [intro]: "keeps broker_ok (ensure_active p)"
  unfolding ensure_active_def
  by (intro keeps_parts keeps_read_now keeps_read_stopped tickless_broker_ok)

lemma keeps_ensure_request_active [intro]: "keeps broker_ok (ensure_request_active r)"
  unfolding ensure_request_active_def by (rule keeps_ensure_active)

lemma keeps_ensure_grant [intro]: "keeps broker_ok (ensure_grant_still_active r i t)"
  unfolding ensure_grant_still_active_def
  by (intro keeps_parts keeps_ensure_request_active keeps_ensure_approval_active)

lemma keeps_request_error [intro]: "keeps broker_ok (request_error r x)"
  unfolding request_error_def by (intro keeps_parts keeps_ensure_request_active)

lemma keeps_or_request_error [intro]: "keeps broker_ok a \<Longrightarrow> keeps broker_ok (or_request_error r a)"
  unfolding or_request_error_def by (intro keeps_parts keeps_request_error)

lemma keeps_or_rollback [intro]: "keeps broker_ok a \<Longrightarrow> keeps broker_ok (or_rollback i a)"
  unfolding or_rollback_def by (intro keeps_parts keeps_rollback)

lemma keeps_ignore_error [intro]: "keeps broker_ok a \<Longrightarrow> keeps broker_ok (ignore_error a)"
  unfolding ignore_error_def by (intro keeps_parts)

lemma keeps_finish_before [intro]: "keeps broker_ok (finish_delivery_before_payload d)"
  unfolding finish_delivery_before_payload_def
  by (intro keeps_parts keeps_ignore_error keeps_finish_delivery)

lemma keeps_finish_after [intro]: "keeps broker_ok (finish_delivery_after_payload d)"
  unfolding finish_delivery_after_payload_def
  by (intro keeps_parts keeps_ignore_error keeps_finish_delivery)

lemma keeps_rollback_delivery [intro]: "keeps broker_ok (rollback_delivery d)"
  unfolding rollback_delivery_def by (intro keeps_parts keeps_rollback keeps_finish_before)

lemma keeps_or_rollback_delivery [intro]:
  "keeps broker_ok a \<Longrightarrow> keeps broker_ok (or_rollback_delivery d a)"
  unfolding or_rollback_delivery_def by (intro keeps_parts keeps_rollback_delivery)

lemma keeps_record [intro]: "keeps broker_ok (record_required_audit ev)"
  by (intro keeps_record_required_audit steady_broker_ok)

lemma keeps_terminal [intro]: "keeps broker_ok (record_terminal_required_audit ev)"
  by (intro keeps_record_terminal steady_broker_ok)

lemmas keeps_ops = keeps_record keeps_terminal keeps_ensure_active keeps_ensure_request_active
  keeps_ensure_grant keeps_request_error keeps_or_request_error keeps_or_rollback
  keeps_ignore_error keeps_finish_before keeps_finish_after keeps_rollback_delivery
  keeps_or_rollback_delivery keeps_read_now keeps_read_stopped keeps_manager_reserve
  keeps_rollback keeps_clear_scope tickless_broker_ok steady_broker_ok

text \<open>Errors keep the invariant, a success promises more.\<close>

lemma triple_or_request_error:
  assumes "triple P a (outcome (\<lambda>_. broker_ok) Q)"
  shows "triple P (or_request_error r a) (outcome (\<lambda>_. broker_ok) Q)"
  unfolding or_request_error_def
proof (rule triple_attempt [OF assms])
  fix res
  show "triple (outcome (\<lambda>_. broker_ok) Q res)
      (case res of Inl x \<Rightarrow> request_error r x | Inr v \<Rightarrow> ret v) (outcome (\<lambda>_. broker_ok) Q)"
  proof (cases res)
    case (Inl x)
    have "triple broker_ok (request_error r x) (outcome (\<lambda>_. broker_ok) Q)"
      unfolding request_error_def
      by (intro triple_if triple_fail)
        (auto intro!: triple_attempt [OF keeps_ensure_request_active [unfolded keeps_def]] triple_fail
          split: sum.splits)
    with Inl show ?thesis by simp
  qed (auto intro: triple_ret)
qed

abbreviation sound_values :: "secret list \<Rightarrow> (string \<rightharpoonup> string) \<Rightarrow> world \<Rightarrow> bool" where
  "sound_values ss m w \<equiv> broker_ok w \<and> env_sound ss m w"

abbreviation sound_grant :: "secret list \<Rightarrow> issued_grant \<Rightarrow> world \<Rightarrow> bool" where
  "sound_grant ss g w \<equiv> broker_ok w \<and> env_sound ss (gr_env (fst g)) w"

lemma grows_sound_vals: "grows (\<lambda>w. vals_sound vals w \<and> dom vals = S)"
  using grows_vals_sound unfolding grows_def by blast

lemma triple_refreshed:
  "triple (all_resolved (identity_for_secret ` set (er_secrets r)) vals)
     (refreshed_reusable_values a r vals) (outcome (\<lambda>_. broker_ok) (sound_values (er_secrets r)))"
proof -
  let ?S = "identity_for_secret ` set (er_secrets r)"
  have "keeps (\<lambda>w. broker_ok w \<and> vals_sound vals w)
      (or_rollback (ra_id a) (cache_resolved_values (ra_id a) (ra_expires_at a) vals))"
    unfolding or_rollback_def
    by (intro keeps_parts keeps_cache_resolved_values keeps_vals keeps_rollback emits_rollback)
  then have c: "keeps (all_resolved ?S vals)
      (or_rollback (ra_id a) (cache_resolved_values (ra_id a) (ra_expires_at a) vals))"
    by (auto simp: keeps_def triple_def all_resolved_def)
  have k: "keeps (all_resolved ?S vals) b" if "keeps broker_ok b" "extends_trace b" for b :: "unit act"
    using keeps_conj [OF that(1) keeps_grows [OF grows_sound_vals that(2)]]
    by (simp add: all_resolved_fun)
  have e: "keeps (all_resolved ?S vals) (ensure_grant_still_active r i t)"
      "keeps (all_resolved ?S vals) (or_rollback i (ensure_grant_still_active r i t))"
      "keeps (all_resolved ?S vals) (or_rollback i (record_required_audit ev))" for i t ev
    by (intro k keeps_ops emits_or_rollback emits_ensure_grant emits_record audits_True)+
  have ok: "broker_ok w" "env_sound (er_secrets r) (fanout_values (er_secrets r) vals) w"
    if "all_resolved ?S vals w" for w
    using that by (simp_all add: all_resolved_def env_sound_fanout)
  show ?thesis
    unfolding refreshed_reusable_values_def record_reusable_refresh_def
    by (intro then_keep [OF e(1)] then_keep [OF c] then_keep [OF e(3)] then_keep [OF e(2)] triple_ret)
      (simp_all add: ok)
qed

lemma triple_reusable_values:
  "triple broker_ok (reusable_values a r) (outcome (\<lambda>_. broker_ok) (sound_values (er_secrets r)))"
  unfolding reusable_values_def
  by (intro triple_if triple_cached_values triple_then [OF triple_or_request_error [OF triple_resolve]]
      triple_refreshed)

lemma triple_issue_reusable:
  "triple broker_ok (issue_reusable_grant r)
     (outcome (\<lambda>_. broker_ok)
        (\<lambda>g w. broker_ok w \<and> (\<forall>x. g = Some x \<longrightarrow> sound_grant (er_secrets r) x w)))"
  unfolding issue_reusable_grant_def Let_def
proof (rule then_first [OF keeps_manager_reserve], goal_cases)
  case (1 found)
  show ?case
  proof (cases "found = None \<or> (\<exists>a. found = Some a \<and> ra_id a = '''')")
    case True
    then show ?thesis by (auto intro!: triple_ret)
  next
    case False
    then obtain a where a: "found = Some a" "ra_id a \<noteq> ''''" by auto
    have "triple broker_ok
        (andthen (ensure_grant_still_active r (ra_id a) (ra_expires_at a)) (\<lambda>_.
         andthen (reusable_values a r) (\<lambda>values.
         andthen (ensure_grant_still_active r (ra_id a) (ra_expires_at a)) (\<lambda>_. ret values))))
        (outcome (\<lambda>_. broker_ok) (sound_values (er_secrets r)))"
      by (intro then_first triple_then [OF triple_reusable_values] then_step grows_env_sound keeps_ops
          emits_ensure_grant triple_ret) simp
    then show ?thesis
      unfolding a(1) option.case if_not_P [OF a(2)]
    proof (rule triple_attempt, goal_cases)
      case (1 res)
      show ?case
        by (cases res) (auto intro!: triple_ret triple_pre [OF keeps_fail_triple] keeps_ops)
    qed
  qed
qed

lemma keeps_ask_approver [intro]: "keeps broker_ok (ask_approver p)"
  unfolding ask_approver_def by (intro keeps_parts keeps_emit keeps_ops)

lemma keeps_approval_error [intro]:
  "keeps broker_ok (record_approval_error rid r x)" "keeps broker_ok (record_approval_denied rid r)"
  "keeps broker_ok (record_reusable_miss rid r)"
  unfolding record_approval_error_def record_approval_denied_def record_reusable_miss_def
  by (intro keeps_parts keeps_ops)+

text \<open>An action that hands out nothing meets every promise about what is handed out.\<close>

lemma triple_failing:
  "keeps broker_ok a \<Longrightarrow> (\<And>e w w' r. a e w = (w', r) \<Longrightarrow> isl r) \<Longrightarrow>
     triple broker_ok a (outcome (\<lambda>_. broker_ok) Q)"
  by (rule tripleI) (metis keepsD isl_def outcome_simps(1))

lemma triple_all_create_grant:
  assumes "\<And>i t w. all_resolved (identity_for_secret ` set (er_secrets r)) vals w \<Longrightarrow> Q (f i t) w"
  shows "triple (all_resolved (identity_for_secret ` set (er_secrets r)) vals)
    (andthen (create_grant r d vals) (\<lambda>(i, t). ret (f i t))) (outcome (\<lambda>_. broker_ok) Q)"
proof (rule then_keep)
  show "keeps (all_resolved (identity_for_secret ` set (er_secrets r)) vals) (create_grant r d vals)"
    using keeps_create_grant by (auto simp: keeps_def triple_def all_resolved_def)
qed (auto intro!: triple_ret assms simp: all_resolved_def split: prod.splits)

lemma triple_fresh_grant:
  "triple broker_ok (fresh_grant c r) (outcome (\<lambda>_. broker_ok) (sound_grant (er_secrets r)))"
  unfolding fresh_grant_def
proof (rule then_first [OF keeps_record], rule then_first [OF keeps_ask_approver], goal_cases)
  case (1 _ answer)
  let ?S = "identity_for_secret ` set (er_secrets r)"
  have active: "keeps (all_resolved ?S vals) (ensure_request_active r)" for vals
    using keeps_conj [OF keeps_ensure_request_active keeps_grows [OF grows_sound_vals], of r vals ?S]
    by (simp add: all_resolved_fun emits_ensure_request_active)
  have "triple broker_ok (andthen (ensure_request_active r) (\<lambda>_.
      andthen (record_required_audit (from_exec_request EventApprovalGranted (co_request_id c) r)) (\<lambda>_.
      andthen (ensure_request_active r) (\<lambda>_.
      andthen (or_request_error r (resolve_unique_refs (co_request_id c) r)) (\<lambda>vals.
      andthen (ensure_request_active r) (\<lambda>_.
      andthen (create_grant r d vals) (\<lambda>(i, expires).
        ret (\<lparr>gr_env = fanout_values (er_secrets r) vals,
              gr_aliases = secret_aliases (er_secrets r), gr_approval_id = i,
              gr_payload_expires_at = zero_time\<rparr>,
             \<lparr>gd_approval_id = i, gd_mutation_id = i, gd_expires_at = expires\<rparr>))))))))
        (outcome (\<lambda>_. broker_ok) (sound_grant (er_secrets r)))" for d
    by (intro then_first [OF keeps_ensure_request_active] then_first [OF keeps_record]
        triple_then [OF triple_or_request_error [OF triple_resolve]] then_keep [OF active]
        triple_all_create_grant)
      (auto simp: env_sound_fanout all_resolved_def)
  then show ?case
    by (cases answer) (auto intro!: keeps_fail_triple keeps_approval_error)
qed

lemma triple_or_rollback_step:
  assumes "keeps broker_ok a" "extends_trace a" "grows J"
    and "\<And>x. triple (\<lambda>w. broker_ok w \<and> J w) (f x) (outcome (\<lambda>_. broker_ok) Q)"
  shows "triple (\<lambda>w. broker_ok w \<and> J w) (andthen (or_rollback_delivery d a) f)
    (outcome (\<lambda>_. broker_ok) Q)"
  by (intro then_step keeps_or_rollback_delivery emits_or_rollback_delivery assms)

lemma triple_reused_or_fresh:
  "triple broker_ok (reused_or_fresh_grant c r)
     (outcome (\<lambda>_. broker_ok) (sound_grant (er_secrets r)))"
  unfolding reused_or_fresh_grant_def
proof (rule triple_then [OF triple_or_request_error [OF triple_issue_reusable]], goal_cases)
  case (1 reused)
  show ?case
  proof (cases reused)
    case None
    have "triple broker_ok (if er_reuse_only r
        then andthen (or_request_error r (record_reusable_miss (co_request_id c) r))
          (\<lambda>_. fail (Err (BrokerErr ErrNoReusableApproval)))
        else or_request_error r (fresh_grant c r))
        (outcome (\<lambda>_. broker_ok) (sound_grant (er_secrets r)))"
      by (intro triple_if keeps_fail_triple keeps_or_request_error keeps_approval_error
          triple_or_request_error triple_fresh_grant)
    then show ?thesis unfolding None option.case by (rule triple_pre) simp
  next
    case (Some g)
    then show ?thesis by (auto intro!: triple_ret)
  qed
qed

lemma triple_issue:
  "triple broker_ok (issue c r) (outcome (\<lambda>_. broker_ok) (sound_grant (er_secrets r)))"
  unfolding issue_def
proof (rule then_first [OF keeps_ensure_request_active],
    rule triple_then [OF triple_reused_or_fresh], goal_cases)
  case (1 _ x)
  show ?case unfolding split_beta
    by (intro triple_or_rollback_step keeps_ops emits_ensure_grant emits_record audits_True
        grows_env_sound triple_ret) simp
qed

end
