(* ===== verification/BrokerHandlers.thy ===== *)
theory BrokerHandlers
  imports BrokerInvariant
begin

text \<open>
  Every handler of the broker keeps the invariant of \<open>BrokerInvariant\<close>, and hands out only values
  that the resolver returned for the secret behind the alias. The step relation \<open>broker_step\<close> lets
  the handlers, the expiry timers and the deliveries run one after the other, in any order and
  under any environment.
\<close>

section \<open>The handlers keep it\<close>

lemma keeps_preflight_ok [intro]: "keeps broker_ok preflight_required_audit"
  by (intro keeps_preflight tickless_broker_ok)

lemma keeps_refuse_if_stopped [intro]: "keeps broker_ok refuse_if_stopped"
  unfolding refuse_if_stopped_def by (intro keeps_parts keeps_ops)

lemma keeps_require_correlation [intro]: "keeps broker_ok (require_correlation c)"
  unfolding require_correlation_def by (intro keeps_parts)

lemma keeps_activate [intro]: "keeps broker_ok (activate_exec c r)"
  unfolding activate_exec_def by (intro keeps_parts keeps_refuse_if_stopped keeps_modify) simp

lemma keeps_deactivate [intro]: "keeps broker_ok (deactivate_exec c)"
  unfolding deactivate_exec_def by (intro keeps_modify) (simp split: option.splits)

lemma keeps_active_request [intro]: "keeps broker_ok (active_request c)"
  unfolding active_request_def by (intro keeps_parts keeps_refuse_if_stopped)

lemma keeps_best_effort [intro]: "keeps broker_ok (record_best_effort_audit ev)"
  unfolding record_best_effort_audit_def by (intro keeps_ops keeps_sink_record)

lemma keeps_report_started: "keeps broker_ok (report_started c pid)"
  unfolding report_started_def
  by (intro keeps_parts keeps_active_request keeps_ops keeps_modify) (simp split: option.splits)

lemma keeps_report_completed: "keeps broker_ok (report_completed c x s)"
  unfolding report_completed_def
  by (intro keeps_parts keeps_active_request keeps_ops keeps_modify) simp

lemma keeps_client_disconnected: "keeps broker_ok (client_disconnected rid)"
  unfolding client_disconnected_def
  by (intro keeps_parts keeps_best_effort keeps_modify) simp

lemma keeps_stop: "keeps broker_ok (stop_with_audit_event ev)"
  unfolding stop_with_audit_event_def record_stop_attempt_def
proof (intro keeps_parts keeps_best_effort keeps_manager_clear keeps_modify, goal_cases)
  case (3 _ _ _ _ w)
  then show ?case
    by (intro broker_ok_sessions) (simp_all add: session_clear_def session_ok_def)
qed simp_all

lemma triple_prepare_exec:
  "triple broker_ok (prepare_exec_delivery c r)
     (outcome (\<lambda>_. broker_ok) (\<lambda>x w. broker_ok w \<and> env_sound (er_secrets r) (gr_env (ed_grant x)) w))"
  unfolding prepare_exec_delivery_def
proof (intro then_first [OF keeps_require_correlation] then_first [OF keeps_refuse_if_stopped]
    then_first [OF keeps_preflight_ok] then_first [OF keeps_read_now] triple_if, goal_cases)
  case (3 _ _ _ now)
  show ?case
  proof (rule triple_then [OF triple_issue], goal_cases)
    case (1 g)
    have "triple (sound_grant (er_secrets r) g)
        (attempt (activate_exec c r) (\<lambda>res.
           case res of
             Inl x \<Rightarrow> andthen (finish_delivery_before_payload (snd g)) (\<lambda>_. fail x)
           | Inr _ \<Rightarrow> ret \<lparr>ed_correlation = c, ed_request = r, ed_grant = fst g, ed_delivery = snd g,
                           ed_finalized = False\<rparr>))
        (outcome (\<lambda>_. broker_ok) (\<lambda>x w. broker_ok w \<and> env_sound (er_secrets r) (gr_env (ed_grant x)) w))"
    proof (rule triple_attempt)
      show "triple (sound_grant (er_secrets r) g) (activate_exec c r) (\<lambda>_. sound_grant (er_secrets r) g)"
        using keeps_conj [OF keeps_activate keeps_grows [OF grows_env_sound emits_activate]]
        by (simp add: keeps_def)
    qed (auto intro!: triple_pre [OF keeps_fail_triple] keeps_finish_before triple_ret split: sum.splits)
    then show ?case by (simp add: split_beta)
  qed
qed (auto intro!: triple_fail)

text \<open>Sessions.\<close>

lemma keeps_lift_result [intro]: "keeps I (lift_result r)"
  unfolding lift_result_def by (cases r) auto

lemma keeps_on_sessions:
  assumes "\<And>s. session_ok s \<Longrightarrow> session_ok (fst (f s))"
    and "\<And>s t a. session_ok s \<Longrightarrow> ss_tokens (fst (f s)) t = Some a \<Longrightarrow>
      ss_tokens s t = Some a \<and> sr_secrets (ss_heap (fst (f s)) a) = sr_secrets (ss_heap s a) \<and>
      sr_env (ss_heap (fst (f s)) a) = sr_env (ss_heap s a)"
  shows "keeps broker_ok (on_sessions f)"
proof (rule keepsI)
  fix e w w' r assume ok: "broker_ok w" and run: "on_sessions f e w = (w', r)"
  have s: "session_ok (w_sessions w)" "sessions_sound w" using ok by (simp_all add: broker_ok_def)
  have "broker_ok (w\<lparr>w_sessions := fst (f (w_sessions w))\<rparr>)"
  proof (rule broker_ok_sessions [OF ok assms(1) [OF s(1)]])
    fix t a assume t: "ss_tokens (fst (f (w_sessions w))) t = Some a"
    from assms(2) [OF s(1) t] s(2)
    show "env_sound (sr_secrets (ss_heap (fst (f (w_sessions w))) a))
        (sr_env (ss_heap (fst (f (w_sessions w))) a)) w" unfolding sessions_sound_def by metis
  qed
  with run show "broker_ok w'" by (auto simp: on_sessions_def split: prod.splits)
qed

lemma delete_record_tokens: "ss_tokens (delete_record s r) t = Some a \<Longrightarrow> ss_tokens s t = Some a"
  by (simp split: if_splits)

lemma session_reserve_shape:
  "ss_tokens (fst (session_reserve fs tree now s q peer)) t = Some a \<Longrightarrow>
     ss_tokens s t = Some a \<and>
     sr_secrets (ss_heap (fst (session_reserve fs tree now s q peer)) a) = sr_secrets (ss_heap s a) \<and>
     sr_env (ss_heap (fst (session_reserve fs tree now s q peer)) a) = sr_env (ss_heap s a)"
  by (auto simp: session_reserve_def Let_def split: option.splits if_splits sum.splits)

lemma session_finish_shape:
  "ss_tokens (session_finish now s k d) t = Some a \<Longrightarrow>
     ss_tokens s t = Some a \<and>
     sr_secrets (ss_heap (session_finish now s k d) a) = sr_secrets (ss_heap s a) \<and>
     sr_env (ss_heap (session_finish now s k d) a) = sr_env (ss_heap s a)"
  by (auto simp: session_finish_def Let_def split: option.splits if_splits)

lemma list_loop_shape:
  "list_loop now is s out = (s', out') \<Longrightarrow> ss_tokens s' t = Some a \<Longrightarrow>
     ss_tokens s t = Some a \<and> ss_heap s' = ss_heap s"
  by (induction now "is" s out rule: list_loop.induct)
    (auto split: option.splits if_splits)

lemma keeps_session_reserve [intro]:
  "keeps broker_ok (on_sessions (\<lambda>s. session_reserve fs tree now s q peer))"
  by (rule keeps_on_sessions) (use session_reserve_ok session_reserve_shape in blast)+

lemma keeps_finish_reservation [intro]: "keeps broker_ok (finish_reservation token d)"
  unfolding finish_reservation_def
proof (intro keeps_parts keeps_ops keeps_on_sessions)
  fix now s assume "session_ok s"
  then show "session_ok (fst (session_finish now s token d, ()))" by (simp add: session_finish_ok)
next
  fix now s t a assume "ss_tokens (fst (session_finish now s token d, ())) t = Some a"
  then have "ss_tokens (session_finish now s token d) t = Some a" by simp
  from session_finish_shape [OF this] show "ss_tokens s t = Some a \<and>
      sr_secrets (ss_heap (fst (session_finish now s token d, ())) a) = sr_secrets (ss_heap s a) \<and>
      sr_env (ss_heap (fst (session_finish now s token d, ())) a) = sr_env (ss_heap s a)" by simp
qed

lemma keeps_destroy_session [intro]: "keeps broker_ok (destroy_session i)"
  unfolding destroy_session_def
  by (rule keeps_on_sessions)
    (auto simp: session_destroy_def delete_record_ok split: option.splits if_splits)

lemma keeps_destroy_all [intro]: "keeps broker_ok (on_sessions session_destroy_all)"
  by (rule keeps_on_sessions) (simp_all add: session_destroy_all_def, simp add: session_clear_def)

lemma keeps_session_list [intro]: "keeps broker_ok (on_sessions (session_list order now))"
proof (rule keeps_on_sessions)
  fix s t a assume ok: "session_ok s"
  obtain s' out where l: "list_loop now order s [] = (s', out)" by (cases "list_loop now order s []")
  show "session_ok (fst (session_list order now s))"
    using list_loop_ok [OF ok l] l by (simp add: session_list_def)
  assume "ss_tokens (fst (session_list order now s)) t = Some a"
  with list_loop_shape [OF l, of t a] l
  show "ss_tokens s t = Some a \<and>
      sr_secrets (ss_heap (fst (session_list order now s)) a) = sr_secrets (ss_heap s a) \<and>
      sr_env (ss_heap (fst (session_list order now s)) a) = sr_env (ss_heap s a)"
    by (simp add: session_list_def)
qed

text \<open>The values of a reservation are those of the session.\<close>

definition selects :: "session_record \<Rightarrow> secret list \<Rightarrow> (string \<rightharpoonup> string) \<Rightarrow> bool" where
  "selects r ss env \<longleftrightarrow> dom env = se_alias ` set ss \<and>
     (\<forall>a v. env a = Some v \<longrightarrow>
        sr_env r a = Some v \<and> find_secret ss a = find_secret (sr_secrets r) a)"

lemma select_loop_selects:
  "select_loop r as ss env = Inr (ss', env') \<Longrightarrow> selects r ss env \<Longrightarrow> selects r ss' env'"
proof (induction r as ss env rule: select_loop.induct)
  case (2 r a as ss env)
  from "2.prems"(1) obtain s v where s: "find_secret (sr_secrets r) a = Some s" "sr_env r a = Some v"
    "select_loop r as (ss @ [s]) (env(a \<mapsto> v)) = Inr (ss', env')"
    by (auto split: option.splits)
  have "selects r (ss @ [s]) (env(a \<mapsto> v))"
    using "2.prems"(2) s find_secret_Some [OF s(1)] by (auto simp: selects_def)
  with "2.IH" [OF s(1,2,3)] show ?case .
qed simp

lemma select_aliases_selects:
  "select_session_aliases r q = Inr (ss, env, as) \<Longrightarrow> selects r ss env"
proof -
  assume "select_session_aliases r q = Inr (ss, env, as)"
  then obtain as' where "select_loop r as' [] Map.empty = Inr (ss, env)"
    by (auto simp: select_session_aliases_def Let_def split: sum.splits)
  then show "selects r ss env" by (rule select_loop_selects) (simp add: selects_def)
qed

text \<open>The selection gives exactly the aliases it was asked for.\<close>

lemma select_loop_exact:
  "select_loop r as ss env = Inr (ss', env') \<Longrightarrow>
     dom env' = dom env \<union> set as \<and> se_alias ` set ss' = se_alias ` set ss \<union> set as \<and>
     set ss \<subseteq> set ss' \<and>
     (\<forall>a \<in> set as. \<exists>s. find_secret (sr_secrets r) a = Some s \<and> s \<in> set ss')"
proof (induction r as ss env rule: select_loop.induct)
  case (2 r a as ss env)
  from "2.prems"(1) obtain s v where s: "find_secret (sr_secrets r) a = Some s" "sr_env r a = Some v"
    "select_loop r as (ss @ [s]) (env(a \<mapsto> v)) = Inr (ss', env')"
    by (auto split: option.splits)
  from "2.IH" [OF s] find_secret_Some [OF s(1)] s(1) show ?case by auto
qed simp

definition asked_aliases :: "session_record \<Rightarrow> session_resolve_request \<Rightarrow> string set" where
  "asked_aliases rec q =
     (if sv_aliases q = [] then set (sr_aliases rec) else trim_space ` set (sv_aliases q))"

lemma select_aliases_exact:
  assumes "select_session_aliases rec (sv_aliases q) = Inr (ss, env, as)"
  shows "dom env = asked_aliases rec q" "se_alias ` set ss = asked_aliases rec q"
    "set as = asked_aliases rec q"
    "a \<in> asked_aliases rec q \<Longrightarrow> \<exists>s \<in> set ss. find_secret (sr_secrets rec) a = Some s"
proof -
  from assms obtain as0 where n: "normalize_aliases (sv_aliases q) = Inr as0"
    and l: "select_loop rec as [] Map.empty = Inr (ss, env)"
    and as: "as = sort (if as0 = [] then sr_aliases rec else as0)"
    by (auto simp: select_session_aliases_def Let_def split: sum.splits)
  have s: "set as = asked_aliases rec q"
    using normalize_aliases_Inr(3) [OF n] by (auto simp: as asked_aliases_def)
  with select_loop_exact [OF l]
  show "dom env = asked_aliases rec q" "se_alias ` set ss = asked_aliases rec q"
    "set as = asked_aliases rec q"
    "a \<in> asked_aliases rec q \<Longrightarrow> \<exists>s \<in> set ss. find_secret (sr_secrets rec) a = Some s" by auto
qed

lemma selects_env_sound: "selects r ss env \<Longrightarrow> env_sound (sr_secrets r) (sr_env r) w \<Longrightarrow> env_sound ss env w"
  unfolding env_sound_def selects_def by metis

lemma triple_lift_result:
  "(\<And>w. P w \<Longrightarrow> outcome E Q r w) \<Longrightarrow> triple P (lift_result r) (outcome E Q)"
  unfolding lift_result_def by (cases r) (auto intro: triple_ret triple_fail)

lemma keeps_session_create:
  assumes "0 \<le> sc_max_reads r"
  shows "keeps (\<lambda>w. broker_ok w \<and> env_sound (sc_secrets r) env w)
    (on_sessions (\<lambda>s. session_create rid rtoken s r env b))"
proof (rule keepsI)
  fix e w w' res
  assume ok: "broker_ok w \<and> env_sound (sc_secrets r) env w"
    and run: "on_sessions (\<lambda>s. session_create rid rtoken s r env b) e w = (w', res)"
  obtain s' q where c: "session_create rid rtoken (w_sessions w) r env b = (s', q)"
    by (cases "session_create rid rtoken (w_sessions w) r env b")
  have s: "session_ok (w_sessions w)" "sessions_sound w" using ok by (simp_all add: broker_ok_def)
  have ok': "session_ok s'" using session_create_ok [OF s(1) assms, of rid rtoken env b] c by simp
  have "env_sound (sr_secrets (ss_heap s' a)) (sr_env (ss_heap s' a)) w"
    if t: "ss_tokens s' t = Some a" for t a
  proof (cases q)
    case (Inl x)
    with c session_create_Inl have "s' = w_sessions w" by blast
    with s(2) t show ?thesis by (simp add: sessions_sound_def)
  next
    case (Inr sm)
    with c have c: "session_create rid rtoken (w_sessions w) r env b = (s', Inr sm)" by simp
    from session_create_Inr(3) [OF c] obtain rec
      where rec: "ss_heap s' = (ss_heap (w_sessions w))(ss_next (w_sessions w) := rec)"
        "sr_env rec = env" "sr_secrets rec = sc_secrets r" by blast
    show ?thesis
    proof (cases "a = ss_next (w_sessions w)")
      case True
      with rec ok show ?thesis by simp
    next
      case False
      with t session_create_Inr(5) [OF c] have "ss_tokens (w_sessions w) t = Some a"
        by (simp split: if_splits)
      with s(2) rec(1) False show ?thesis by (simp add: sessions_sound_def)
    qed
  qed
  then have "broker_ok (w\<lparr>w_sessions := s'\<rparr>)" using ok ok' by (intro broker_ok_sessions) auto
  with run c ok show "broker_ok w' \<and> env_sound (sc_secrets r) env w'"
    by (auto simp: on_sessions_def)
qed

lemma keeps_ensure_session_create_active [intro]: "keeps broker_ok (ensure_session_create_active r)"
  unfolding ensure_session_create_active_def by (rule keeps_ensure_active)

lemma keeps_triple_ok: "keeps broker_ok a \<Longrightarrow> triple broker_ok a (outcome (\<lambda>_. broker_ok) (\<lambda>_. broker_ok))"
  by (rule keeps_triple)

lemma triple_create_approved:
  assumes "0 \<le> sc_max_reads r"
  shows "keeps broker_ok (create_approved_session c r b)"
proof (rule triple_keeps, unfold create_approved_session_def Let_def,
    rule then_first [OF keeps_record],
    rule triple_then [OF triple_or_request_error [OF triple_resolve]], goal_cases)
  case (1 _ vals)
  let ?J = "env_sound (sc_secrets r) (fanout_values (sc_secrets r) vals)"
  have s: "er_secrets (exec_request_from_session_create r) = sc_secrets r"
    by (simp add: exec_request_from_session_create_def)
  have k: "keeps (\<lambda>w. broker_ok w \<and> ?J w) a" if "keeps broker_ok a" "extends_trace a" for a :: "'b act"
    by (rule keeps_conj [OF that(1) keeps_grows [OF grows_env_sound that(2)]])
  have body: "keeps (\<lambda>w. broker_ok w \<and> ?J w) (andthen (ensure_session_create_active r) (\<lambda>_.
         andthen (ask en_random) (\<lambda>rid.
         andthen (ask en_random) (\<lambda>rtoken.
         andthen (on_sessions (\<lambda>s. session_create rid rtoken s r
             (fanout_values (sc_secrets r) vals) b)) (\<lambda>created.
         andthen (lift_result created) (\<lambda>m.
         attempt (record_required_audit
             ((from_session_create_request EventSessionCreated (co_request_id c) r)
                \<lparr>ev_session_id := sm_session_id m,
                 ev_remaining_reads := Some (sm_remaining_reads m),
                 ev_max_reads := Some (sm_max_reads m)\<rparr>)) (\<lambda>audited.
           case audited of
             Inl e \<Rightarrow> andthen (destroy_session (sm_session_id m)) (\<lambda>_. fail e)
           | Inr _ \<Rightarrow> ret (session_create_payload m))))))))"
    by (intro keeps_andthen keeps_attempt keeps_session_create assms keeps_lift_result keeps_case_sum
        keeps_ret keeps_fail k keeps_ops keeps_destroy_session keeps_ask
        keeps_ensure_session_create_active emits_ops emits_basic audits_True)
      (simp add: destroy_session_def emits_basic)
  show ?case
    by (rule triple_conseq [OF keeps_triple [OF body]])
      (auto simp: outcome_def env_sound_fanout s all_resolved_def split: sum.splits)
qed

lemma keeps_handle_session_create:
  assumes "0 \<le> sc_max_reads r"
  shows "keeps broker_ok (handle_session_create c r peer)"
proof -
  have "keeps broker_ok (create_approved_session c (session_with_receipt_time r t) b)" for t b
    by (rule triple_create_approved) (use assms in \<open>simp add: session_with_receipt_time_def\<close>)
  then show ?thesis
    unfolding handle_session_create_def record_session_create_approval_error_def
      record_session_create_denied_def
    by (intro keeps_parts keeps_lift_result keeps_require_correlation keeps_refuse_if_stopped
        keeps_preflight_ok keeps_ops keeps_ask_approver keeps_ensure_session_create_active)
qed

text \<open>Preparing a session read: what may be delivered is what was resolved for the session.\<close>

lemma triple_session_reserve:
  "triple broker_ok (on_sessions (\<lambda>s. session_reserve fs tree now s q peer))
     (outcome (\<lambda>_. broker_ok)
        (\<lambda>res w. broker_ok w \<and> (\<forall>x. res = Inr x \<longrightarrow> env_sound (sx_secrets x) (sx_env x) w)))"
proof (rule tripleI)
  fix e w w' r
  assume ok: "broker_ok w"
    and run: "on_sessions (\<lambda>s. session_reserve fs tree now s q peer) e w = (w', r)"
  obtain s' res where x: "session_reserve fs tree now (w_sessions w) q peer = (s', res)"
    by (cases "session_reserve fs tree now (w_sessions w) q peer")
  with run have w': "w' = w\<lparr>w_sessions := s'\<rparr>" "r = Inr res" by (auto simp: on_sessions_def)
  have "env_sound (sx_secrets y) (sx_env y) w" if y: "res = Inr y" for y
  proof -
    from session_reserve_Inr [OF x [unfolded y]] obtain a
      where a: "ss_tokens (w_sessions w) (sv_token q) = Some a"
        "select_session_aliases (ss_heap (w_sessions w) a) (sv_aliases q) =
           Inr (sx_secrets y, sx_env y, sx_aliases y)" by auto
    from ok a(1) have "env_sound (sr_secrets (ss_heap (w_sessions w) a))
        (sr_env (ss_heap (w_sessions w) a)) w" by (simp add: broker_ok_def sessions_sound_def)
    then show ?thesis by (rule selects_env_sound [OF select_aliases_selects [OF a(2)]])
  qed
  moreover have "broker_ok w'" using keepsD [OF keeps_session_reserve ok run] .
  ultimately show "outcome (\<lambda>_. broker_ok)
      (\<lambda>res w. broker_ok w \<and> (\<forall>x. res = Inr x \<longrightarrow> env_sound (sx_secrets x) (sx_env x) w)) r w'"
    by (simp add: w')
qed

abbreviation sound_reservation :: "session_reservation \<Rightarrow> world \<Rightarrow> bool" where
  "sound_reservation x w \<equiv> broker_ok w \<and> env_sound (sx_secrets x) (sx_env x) w"

lemma triple_activate_session:
  "triple (sound_reservation x)
     (attempt (activate_exec c active) (\<lambda>res.
        case res of
          Inl e \<Rightarrow> andthen (finish_reservation (sx_token x) False) (\<lambda>_. fail e)
        | Inr _ \<Rightarrow> ret (mk x)))
     (outcome (\<lambda>_. broker_ok) (\<lambda>d w. d = mk x \<and> sound_reservation x w))"
proof (rule triple_attempt)
  show "triple (sound_reservation x) (activate_exec c active) (\<lambda>_. sound_reservation x)"
    using keeps_conj [OF keeps_activate keeps_grows [OF grows_env_sound emits_activate]]
    by (simp add: keeps_def)
qed (auto intro!: triple_pre [OF keeps_fail_triple] keeps_finish_reservation triple_ret split: sum.splits)

lemma triple_prepare_session:
  "triple broker_ok (prepare_session_resolve c q peer)
     (outcome (\<lambda>_. broker_ok) (\<lambda>d. sound_reservation (sl_reservation d)))"
  unfolding prepare_session_resolve_def
proof (rule then_first [OF keeps_require_correlation], rule then_first [OF keeps_refuse_if_stopped],
    rule then_first [OF keeps_preflight_ok], rule then_first, goal_cases)
  case 1
  show ?case by (intro keeps_ask tickless_broker_ok)
next
  case (2 _ _ _ x)
  obtain fs tree where x: "x = (fs, tree)" by (cases x)
  show ?case unfolding x case_prod_conv
  proof (rule then_first, goal_cases)
    case 1
    show ?case by (intro keeps_ops)
  next
    case (2 now)
    show ?case
    proof (rule triple_then [OF triple_session_reserve],
        rule triple_then [where R = sound_reservation], goal_cases)
      case (1 res)
      show ?case
        by (rule triple_lift_result) (auto simp: outcome_def split: sum.splits)
    next
      case (2 res y)
      have now: "keeps (sound_reservation y) read_now"
        by (rule keeps_conj [OF keeps_read_now [OF tickless_broker_ok]
              keeps_grows [OF grows_env_sound emits_reads(1)]])
      show ?case unfolding Let_def
        by (intro then_keep [OF now] triple_conseq [OF triple_activate_session])
          (auto simp: outcome_def split: sum.splits)
    qed
  qed
qed

section \<open>Runs of the broker\<close>

text \<open>
  One operation of the broker. The socket server only passes on session requests that the
  validation accepted, which bounds the number of reads.
\<close>

inductive broker_step :: "world \<Rightarrow> world \<Rightarrow> bool" where
  step_exec: "prepare_exec_delivery c r e w = (w', x) \<Longrightarrow> broker_step w w'"
| step_exec_before_write: "exec_before_write d e w = (w', y) \<Longrightarrow> broker_step w w'"
| step_exec_commit: "exec_commit_delivered d e w = (w', x) \<Longrightarrow> broker_step w w'"
| step_exec_abort: "exec_abort_before_payload d e w = (w', x) \<Longrightarrow> broker_step w w'"
| step_started: "report_started c pid e w = (w', y) \<Longrightarrow> broker_step w w'"
| step_completed: "report_completed c n sig e w = (w', y) \<Longrightarrow> broker_step w w'"
| step_disconnected: "client_disconnected rid e w = (w', y) \<Longrightarrow> broker_step w w'"
| step_session_create: "handle_session_create c q peer e w = (w', z) \<Longrightarrow>
     validate_max_reads (sc_max_reads q) = None \<Longrightarrow> broker_step w w'"
| step_session_resolve: "prepare_session_resolve c rq peer e w = (w', s) \<Longrightarrow> broker_step w w'"
| step_session_before_write: "session_before_write sd e w = (w', y) \<Longrightarrow> broker_step w w'"
| step_session_commit: "session_commit_delivered sd e w = (w', s) \<Longrightarrow> broker_step w w'"
| step_session_abort: "session_abort_before_payload sd e w = (w', s) \<Longrightarrow> broker_step w w'"
| step_session_destroy: "handle_session_destroy dq e w = (w', ds) \<Longrightarrow> broker_step w w'"
| step_session_list: "handle_session_list e w = (w', ls) \<Longrightarrow> broker_step w w'"
| step_item_describe: "handle_item_describe c iq e w = (w', m) \<Longrightarrow> broker_step w w'"
| step_expiry: "expiry_fires i e w = (w', y) \<Longrightarrow> broker_step w w'"
| step_stop: "stop_with_audit_event ev e w = (w', y) \<Longrightarrow> broker_step w w'"

inductive_cases broker_stepE: "broker_step w w'"

lemma keeps_exec_before_write: "keeps broker_ok (exec_before_write d)"
  unfolding exec_before_write_def ensure_payload_writable_def by (intro keeps_ops)

lemma keeps_exec_commit: "keeps broker_ok (exec_commit_delivered d)"
  unfolding exec_commit_delivered_def by (intro keeps_parts keeps_ops)

lemma keeps_exec_abort: "keeps broker_ok (exec_abort_before_payload d)"
  unfolding exec_abort_before_payload_def by (intro keeps_parts keeps_ops keeps_deactivate)

lemma keeps_session_before_write: "keeps broker_ok (session_before_write d)"
  unfolding session_before_write_def by (intro keeps_parts keeps_ops)

lemma keeps_session_commit: "keeps broker_ok (session_commit_delivered d)"
  unfolding session_commit_delivered_def by (intro keeps_parts keeps_finish_reservation)

lemma keeps_session_abort: "keeps broker_ok (session_abort_before_payload d)"
  unfolding session_abort_before_payload_def
  by (intro keeps_parts keeps_finish_reservation keeps_deactivate)

lemma keeps_handle_session_destroy: "keeps broker_ok (handle_session_destroy q)"
  unfolding handle_session_destroy_def
  by (intro keeps_parts keeps_refuse_if_stopped keeps_preflight_ok keeps_destroy_all
      keeps_destroy_session keeps_ops)

lemma keeps_handle_session_list: "keeps broker_ok handle_session_list"
  unfolding handle_session_list_def
  by (intro keeps_parts keeps_refuse_if_stopped keeps_preflight_ok keeps_ops keeps_session_list)

lemma keeps_describe: "keeps broker_ok (describe_item r)"
  unfolding describe_item_def by (intro keeps_parts keeps_emit keeps_lift_result keeps_ops)

lemma keeps_ensure_item: "keeps broker_ok (ensure_item_describe_active r)"
  unfolding ensure_item_describe_active_def by (rule keeps_ensure_active)

lemma keeps_handle_item_describe: "keeps broker_ok (handle_item_describe c r)"
  unfolding handle_item_describe_def item_describe_approval_error_def item_describe_request_error_def
  by (intro keeps_parts keeps_require_correlation keeps_refuse_if_stopped keeps_preflight_ok keeps_ops
      keeps_ask_approver keeps_describe keeps_ensure_item)

lemmas keeps_results =
  keepsD [OF keeps_exec_before_write, rotated] keepsD [OF keeps_exec_commit, rotated]
  keepsD [OF keeps_exec_abort, rotated] keepsD [OF keeps_report_started, rotated]
  keepsD [OF keeps_report_completed, rotated] keepsD [OF keeps_client_disconnected, rotated]
  keepsD [OF keeps_session_before_write, rotated] keepsD [OF keeps_session_commit, rotated]
  keepsD [OF keeps_session_abort, rotated] keepsD [OF keeps_handle_session_destroy, rotated]
  keepsD [OF keeps_handle_session_list, rotated] keepsD [OF keeps_handle_item_describe, rotated]
  keepsD [OF keeps_expiry_fires, rotated] keepsD [OF keeps_stop, rotated]

lemma broker_step_ok: "broker_step w w' \<Longrightarrow> broker_ok w \<Longrightarrow> broker_ok w'"
proof (induction rule: broker_step.induct)
  case (step_exec c r e w w' x)
  then show ?case using tripleD [OF triple_prepare_exec step_exec(2,1)]
    by (auto simp: outcome_def split: sum.splits)
next
  case (step_session_create c q peer e w w' z)
  then have "0 \<le> sc_max_reads q" by (simp add: validate_max_reads_None)
  from keepsD [OF keeps_handle_session_create [OF this] step_session_create(3,1)] show ?case .
next
  case (step_session_resolve c rq peer e w w' s)
  then show ?case using tripleD [OF triple_prepare_session step_session_resolve(2,1)]
    by (auto simp: outcome_def split: sum.splits)
qed (auto dest: keeps_results)

lemma new_world_ok: "broker_ok new_world"
  by (simp add: broker_ok_def new_world_def policy_ok_def session_ok_def cache_sound_def
      sessions_sound_def new_session_store_def cache_get_def)

lemma reachable_ok: "broker_step\<^sup>*\<^sup>* new_world w \<Longrightarrow> broker_ok w"
  by (induction rule: rtranclp_induct) (use new_world_ok broker_step_ok in blast)+

end
