(* ===== verification/BrokerSamples.thy ===== *)
theory BrokerSamples
  imports BrokerHandlers PolicyProperties
begin

text \<open>
  Concrete runs of the broker: an environment that approves every request, and what the handlers do
  under it. The properties of the broker are instantiated on these runs.
\<close>

section \<open>The environment\<close>

definition sample_peer :: peer_info where
  "sample_peer = \<lparr>pi_uid = 501, pi_gid = 20, pi_pid = 300, pi_exe = ''/usr/bin/env'', pi_cwd = ''/work''\<rparr>"

definition sample_process :: "int \<Rightarrow> string \<Rightarrow> process_identity" where
  "sample_process pid exe = \<lparr>pr_uid = 501, pr_gid = 20, pr_pid = pid, pr_parent_pid = pid - 100,
     pr_exe = exe, pr_start_time = 5\<rparr>"

definition sample_tree :: ancestry where
  "sample_tree = ([sample_process 300 ''/usr/bin/env'', sample_process 200 ''/bin/zsh'',
     sample_process 1 ''/sbin/launchd''], None)"

text \<open>The clock advances with the questions; identifiers are the number of the question.\<close>

definition sample_env :: "decision \<Rightarrow> env" where
  "sample_env d = \<lparr>en_now = (\<lambda>n. 2000 + int n), en_ctx = (\<lambda>_. None), en_stopped = (\<lambda>_. False),
     en_preflight = (\<lambda>_. None), en_record = (\<lambda>_. None), en_approve = (\<lambda>_. Inr d),
     en_pick = (\<lambda>_. 0), en_resolve = (\<lambda>_ s. Inr ''s3cret''), en_describe = (\<lambda>_. Inr ''login''),
     en_random = (\<lambda>n. Inr [of_nat n]), en_alloc = (\<lambda>_. (None, None)), en_order = (\<lambda>_. []),
     en_identity_order = (\<lambda>_. unique_secret_identities (er_secrets sample_exec)),
     en_tree = (\<lambda>_. sample_tree), en_fs = sample_fs\<rparr>"

definition approve_once :: decision where
  "approve_once = \<lparr>de_approved = True, de_reusable = False, de_reusable_uses = 0, de_denial_reason = ''''\<rparr>"

definition approve_twice :: decision where
  "approve_twice = \<lparr>de_approved = True, de_reusable = True, de_reusable_uses = 2, de_denial_reason = ''''\<rparr>"

definition deny :: decision where
  "deny = \<lparr>de_approved = False, de_reusable = False, de_reusable_uses = 0, de_denial_reason = ''no''\<rparr>"

definition sample_correlation :: correlation where
  "sample_correlation = \<lparr>co_request_id = ''req_1'', co_nonce = ''nonce_1''\<rparr>"

definition sample_request :: exec_request where
  "sample_request = exec_with_receipt_time sample_exec 1000"

section \<open>Exec runs\<close>

definition exec_run :: "decision \<Rightarrow> world \<times> (err + exec_delivery)" where
  "exec_run d = prepare_exec_delivery sample_correlation sample_request (sample_env d) new_world"

lemma run_pair: "\<not> isl (snd p) \<Longrightarrow> p = (fst p, Inr (projr (snd p)))"
  by (cases p) (auto simp: isl_def split: sum.splits)

lemma failing_pair: "isl (snd p) \<Longrightarrow> p = (fst p, Inl (projl (snd p)))"
  by (cases p) (auto simp: isl_def split: sum.splits)

lemma exec_run_ok: "\<not> isl (snd (exec_run approve_twice))"
  by code_simp

lemma exec_run_value:
  "gr_env (ed_grant (projr (snd (exec_run approve_twice)))) ''API_TOKEN'' = Some ''s3cret''"
  by code_simp

lemma exec_run_denied: "isl (snd (exec_run deny))"
  by code_simp

lemma sample_exec_run:
  "prepare_exec_delivery sample_correlation sample_request (sample_env approve_twice) new_world =
     (fst (exec_run approve_twice), Inr (projr (snd (exec_run approve_twice))))"
  using run_pair [OF exec_run_ok] by (simp add: exec_run_def)

lemma sample_exec_denied:
  "prepare_exec_delivery sample_correlation sample_request (sample_env deny) new_world =
     (fst (exec_run deny), Inl (projl (snd (exec_run deny))))"
  using failing_pair [OF exec_run_denied] by (simp add: exec_run_def)

section \<open>Session runs\<close>

definition sample_session_options :: session_create_options where
  "sample_session_options = \<lparr>so_reason = ''deploy'', so_command = [''env''],
     so_executable = ''/usr/bin/env'', so_identity = sample_identity, so_cwd = ''/work'',
     so_secrets = [sample_spec], so_ttl = 0, so_received_at = 1000, so_max_reads = 2,
     so_override_env = False, so_binding = default_binding_policy\<rparr>"

definition sample_session :: session_create_request where
  "sample_session = projr (new_session_create sample_session_options)"

definition session_run :: "decision \<Rightarrow> world \<times> (err + session_create_response)" where
  "session_run d = handle_session_create sample_correlation sample_session sample_peer (sample_env d) new_world"

definition sample_resolve :: session_resolve_request where
  "sample_resolve = \<lparr>sv_token = cr_session_token (projr (snd (session_run approve_once))),
     sv_command = [''env''], sv_executable = ''/usr/bin/env'', sv_identity = sample_identity,
     sv_cwd = ''/work'', sv_env_fingerprint = sample_fingerprint, sv_aliases = [],
     sv_expected_peer = \<lparr>ep_uid = 501, ep_gid = 20, ep_pid = 300, ep_exe = ''/usr/bin/env'',
       ep_cwd = ''/work''\<rparr>\<rparr>"

definition resolve_run :: "world \<times> (err + session_resolve_delivery)" where
  "resolve_run = prepare_session_resolve sample_correlation sample_resolve sample_peer
     (sample_env approve_once) (fst (session_run approve_once))"

lemma sample_session_reads: "sc_max_reads sample_session = 2"
  by code_simp

lemma session_run_ok: "\<not> isl (snd (session_run approve_once))"
  by code_simp

lemma session_run_denied: "isl (snd (session_run deny))"
  by code_simp

lemma resolve_run_ok: "\<not> isl (snd resolve_run)"
  by code_simp

lemma resolve_run_value:
  "sx_env (sl_reservation (projr (snd resolve_run))) ''API_TOKEN'' = Some ''s3cret''"
  by code_simp

lemma sample_session_run:
  "handle_session_create sample_correlation sample_session sample_peer (sample_env approve_once) new_world =
     (fst (session_run approve_once), Inr (projr (snd (session_run approve_once))))"
  using run_pair [OF session_run_ok] by (simp add: session_run_def)

lemma sample_session_denied:
  "handle_session_create sample_correlation sample_session sample_peer (sample_env deny) new_world =
     (fst (session_run deny), Inl (projl (snd (session_run deny))))"
  using failing_pair [OF session_run_denied] by (simp add: session_run_def)

lemma sample_resolve_run:
  "prepare_session_resolve sample_correlation sample_resolve sample_peer (sample_env approve_once)
     (fst (session_run approve_once)) = (fst resolve_run, Inr (projr (snd resolve_run)))"
  using run_pair [OF resolve_run_ok] by (simp add: resolve_run_def)

section \<open>Item descriptions\<close>

definition sample_item_options :: item_describe_options where
  "sample_item_options = \<lparr>io_reason = ''look'', io_command = [''env''], io_cwd = ''/work'',
     io_executable = ''/usr/bin/env'', io_identity = sample_identity, io_ref = ''op://Work/api'',
     io_account = ''acme'', io_ttl = 0, io_received_at = 1000\<rparr>"

definition sample_item :: item_describe_request where
  "sample_item = projr (new_item_describe sample_item_options)"

definition item_run :: "decision \<Rightarrow> world \<times> (err + item_metadata)" where
  "item_run d = handle_item_describe sample_correlation sample_item (sample_env d) new_world"

lemma item_run_ok: "snd (item_run approve_once) = Inr ''login''"
  by code_simp

lemma sample_item_run:
  "handle_item_describe sample_correlation sample_item (sample_env approve_once) new_world =
     (fst (item_run approve_once), Inr ''login'')"
  using item_run_ok by (simp add: item_run_def prod_eq_iff)

end
