(* ===== verification/Observers.thy ===== *)
theory Observers
  imports EffectTraces
begin

text \<open>
  The actions that only ask the environment and record what they do: everything the broker keeps
  (approvals, cache, timers, sessions, active executions) is the same afterwards.
\<close>

definition observer :: "'a act \<Rightarrow> bool" where
  "observer a \<longleftrightarrow> (\<forall>e w. \<exists>n l. fst (a e w) = w\<lparr>w_tick := n, w_trace := l\<rparr>)"

text \<open>A predicate that looks neither at the tick nor at the trace.\<close>

definition inert :: "(world \<Rightarrow> bool) \<Rightarrow> bool" where
  "inert I \<longleftrightarrow> (\<forall>w n l. I (w\<lparr>w_tick := n, w_trace := l\<rparr>) = I w)"

lemma observerI:
  "(\<And>e w w' r. a e w = (w', r) \<Longrightarrow> \<exists>n l. w' = w\<lparr>w_tick := n, w_trace := l\<rparr>) \<Longrightarrow> observer a"
  unfolding observer_def by (metis prod.collapse)

lemma observerD: "observer a \<Longrightarrow> a e w = (w', r) \<Longrightarrow> \<exists>n l. w' = w\<lparr>w_tick := n, w_trace := l\<rparr>"
  unfolding observer_def by (metis fst_conv)

lemma keeps_observer: "inert I \<Longrightarrow> observer a \<Longrightarrow> keeps I a"
  by (rule keepsI) (metis inert_def observerD)

lemma same_world: "\<exists>n l. w = w\<lparr>w_tick := n, w_trace := l\<rparr>" for w :: world
  by (rule exI [of _ "w_tick w"], rule exI [of _ "w_trace w"]) simp

lemma observer_basic:
  "observer (ret x)" "observer (fail y)" "observer (gets g)" "observer (lift_error o1)"
  "observer (lift_result q)"
  using same_world
  by (auto simp: observer_def act_defs lift_result_def split: option.splits sum.splits)

lemma observer_ask: "observer (ask f)"
proof (rule observerI)
  fix e w w' r assume "ask f e w = (w', r)"
  then have "w' = w\<lparr>w_tick := Suc (w_tick w), w_trace := w_trace w\<rparr>"
    by (auto simp: ask_def intro!: world.equality)
  then show "\<exists>n l. w' = w\<lparr>w_tick := n, w_trace := l\<rparr>" by blast
qed

lemma observer_emit: "observer (emit x)"
proof (rule observerI)
  fix e w w' r assume "emit x e w = (w', r)"
  then have "w' = w\<lparr>w_tick := w_tick w, w_trace := x # w_trace w\<rparr>"
    by (simp add: emit_def modify_def)
  then show "\<exists>n l. w' = w\<lparr>w_tick := n, w_trace := l\<rparr>" by blast
qed

lemma observer_attempt:
  assumes "observer a" "\<And>r. observer (f r)"
  shows "observer (attempt a f)"
proof (rule observerI)
  fix e w w' r assume run: "attempt a f e w = (w', r)"
  obtain w1 r1 where a: "a e w = (w1, r1)" by (cases "a e w")
  with run have "f r1 e w1 = (w', r)" by (simp add: attempt_def)
  from observerD [OF assms(1) a] observerD [OF assms(2) this] obtain n l m k
    where "w1 = w\<lparr>w_tick := n, w_trace := l\<rparr>" "w' = w1\<lparr>w_tick := m, w_trace := k\<rparr>" by blast
  then have "w' = w\<lparr>w_tick := m, w_trace := k\<rparr>" by simp
  then show "\<exists>n l. w' = w\<lparr>w_tick := n, w_trace := l\<rparr>" by blast
qed

lemma observer_case_sum:
  "(\<And>x. observer (f x)) \<Longrightarrow> (\<And>y. observer (g y)) \<Longrightarrow> observer (case r of Inl x \<Rightarrow> f x | Inr y \<Rightarrow> g y)"
  by (cases r) simp_all

lemma observer_case_option:
  "observer a \<Longrightarrow> (\<And>y. observer (g y)) \<Longrightarrow> observer (case r of None \<Rightarrow> a | Some y \<Rightarrow> g y)"
  by (cases r) simp_all

lemma observer_case_prod: "(\<And>x y. observer (f x y)) \<Longrightarrow> observer (case r of (x, y) \<Rightarrow> f x y)"
  by (cases r) simp

lemma observer_case_fetch:
  "(\<And>x. observer (f x)) \<Longrightarrow> (\<And>x y. observer (g x y)) \<Longrightarrow> (\<And>x y. observer (h x y)) \<Longrightarrow>
     observer (case r of FetchOk x \<Rightarrow> f x | FetchFailed x y \<Rightarrow> g x y | FetchCanceled x y \<Rightarrow> h x y)"
  by (cases r) simp_all

lemma observer_Let: "(\<And>x. observer (f x)) \<Longrightarrow> observer (let x = t in f x)"
  by simp

lemma observer_if: "observer x \<Longrightarrow> observer y \<Longrightarrow> observer (if b then x else y)"
  by simp

lemma observer_andthen: "observer a \<Longrightarrow> (\<And>x. observer (f x)) \<Longrightarrow> observer (andthen a f)"
  unfolding andthen_attempt by (intro observer_attempt observer_case_sum observer_basic)

lemma observer_with_error: "observer a \<Longrightarrow> observer (with_error f a)"
  unfolding with_error_def by (intro observer_attempt observer_case_sum observer_basic)

lemma observer_ignore_error: "observer a \<Longrightarrow> observer (ignore_error a)"
  unfolding ignore_error_def by (intro observer_attempt observer_basic)

lemmas observer_parts = observer_andthen observer_attempt observer_if observer_case_sum
  observer_case_option observer_case_prod observer_case_fetch observer_Let observer_basic
  observer_ask observer_emit observer_with_error observer_ignore_error

section \<open>The observing operations\<close>

lemma observer_audit [intro]:
  "observer (record_required_audit ev)" "observer (record_terminal_required_audit ev)"
  "observer preflight_required_audit" "observer (sink_record ev)"
  unfolding record_terminal_required_audit_def record_required_audit_def sink_record_def
    preflight_required_audit_def sink_preflight_def
  by (intro observer_parts)+

lemma observer_reads [intro]: "observer read_now" "observer read_stopped"
  unfolding read_now_def read_stopped_def by (intro observer_parts)+

lemma observer_active [intro]:
  "observer (ensure_active p)" "observer (ensure_request_active r)"
  "observer (ensure_session_create_active sr)" "observer (ensure_item_describe_active ir)"
  unfolding ensure_active_def ensure_request_active_def ensure_session_create_active_def
    ensure_item_describe_active_def
  by (intro observer_parts observer_reads)+

lemma observer_request_error [intro]: "observer (request_error r x)"
  unfolding request_error_def by (intro observer_parts observer_active)

lemma observer_or_request_error: "observer a \<Longrightarrow> observer (or_request_error r a)"
  unfolding or_request_error_def by (intro observer_parts observer_request_error)

lemma observer_fetch_loop [intro]: "observer (fetch_loop n ordered pending out)"
  by (induction n arbitrary: pending out) (auto intro!: observer_parts)

lemma observer_resolve [intro]: "observer (resolve_unique_refs rid r)"
  unfolding resolve_unique_refs_def fetch_unique_refs_def record_secret_fetch_failure_event_def
  by (intro observer_parts observer_audit observer_fetch_loop)

lemma observer_cached_values [intro]: "observer (cached_values scope ss)"
  unfolding cached_values_def by (intro observer_parts)

lemma observer_approval [intro]:
  "observer (ask_approver p)" "observer (record_approval_error rid r x)"
  "observer (record_approval_denied rid r)" "observer (record_reusable_miss rid r)"
  "observer (record_reusable_refresh r a)" "observer (record_reuse_audit m)"
  unfolding ask_approver_def record_approval_error_def record_approval_denied_def
    record_reusable_miss_def record_reusable_refresh_def record_reuse_audit_def
  by (intro observer_parts observer_audit)+

lemma observer_guards [intro]:
  "observer (require_correlation c)" "observer refuse_if_stopped" "observer (active_request c)"
  "observer (record_best_effort_audit ev)" "observer (record_stop_attempt ev)"
  unfolding require_correlation_def refuse_if_stopped_def active_request_def
    record_best_effort_audit_def record_stop_attempt_def
  by (intro observer_parts observer_reads observer_audit)+

lemma observer_describe [intro]: "observer (handle_item_describe c r)"
  unfolding handle_item_describe_def item_describe_approval_error_def item_describe_request_error_def
    describe_item_def Let_def
  by (intro observer_parts observer_guards observer_audit observer_reads observer_approval
      observer_active)

lemmas observer_ops = observer_audit observer_reads observer_active observer_request_error
  observer_or_request_error observer_resolve observer_cached_values observer_approval
  observer_guards

text \<open>What an observer leaves alone.\<close>

lemma observer_same:
  assumes "observer a" "a e w = (w', r)"
  shows "w_store w' = w_store w" "w_cache w' = w_cache w" "w_timers w' = w_timers w"
    "w_sessions w' = w_sessions w" "w_active w' = w_active w" "w_stopped w' = w_stopped w"
  using observerD [OF assms] by auto

end
