(* ===== verification/GrantTimers.thy ===== *)
theory GrantTimers
  imports Observers
begin

text \<open>
  Every approval of the store and every value of the cache has a pending expiry timer: the
  invariant \<open>timed {}\<close>. While an approval is being created its id is in the set \<open>X\<close> of exceptions.
\<close>

section \<open>The invariant\<close>

definition timed :: "string set \<Rightarrow> world \<Rightarrow> bool" where
  "timed X w \<longleftrightarrow> policy_ok (w_store w) \<and> w_store w '''' = None \<and>
     (\<forall>i a. i \<notin> X \<longrightarrow> w_store w i = Some a \<longrightarrow> (\<exists>t. w_timers w i = Some t \<and> t \<le> ra_expires_at a)) \<and>
     (\<forall>k. ck_scope k \<notin> X \<longrightarrow> w_cache w k \<noteq> None \<longrightarrow> w_timers w (ck_scope k) \<noteq> None)"

text \<open>Values may be cached for \<open>i\<close>.\<close>

definition open_scope :: "string set \<Rightarrow> string \<Rightarrow> world \<Rightarrow> bool" where
  "open_scope X i w \<longleftrightarrow> timed X w \<and> (i \<in> X \<or> w_timers w i \<noteq> None)"

lemma timed_ok: "timed X w \<Longrightarrow> policy_ok (w_store w)"
  by (simp add: timed_def)

lemma timed_mono: "timed X w \<Longrightarrow> X \<subseteq> Y \<Longrightarrow> timed Y w"
  unfolding timed_def by blast

lemma open_scope_timed: "open_scope X i w \<Longrightarrow> timed X w"
  by (simp add: open_scope_def)

lemma timed_simps [simp]:
  "timed X (w\<lparr>w_tick := n\<rparr>) = timed X w"
  "timed X (w\<lparr>w_trace := l\<rparr>) = timed X w"
  "timed X (w\<lparr>w_sessions := s\<rparr>) = timed X w"
  "timed X (w\<lparr>w_active := ac\<rparr>) = timed X w"
  "timed X (w\<lparr>w_stopped := b\<rparr>) = timed X w"
  by (simp_all add: timed_def)

lemma open_scope_simps [simp]:
  "open_scope X i (w\<lparr>w_tick := n\<rparr>) = open_scope X i w"
  "open_scope X i (w\<lparr>w_trace := l\<rparr>) = open_scope X i w"
  by (simp_all add: open_scope_def)

lemma inert_timed [simp]: "inert (timed X)" "inert (open_scope X i)"
  by (simp_all add: inert_def)

lemma keeps_timed_observer: "observer a \<Longrightarrow> keeps (timed X) a"
  by (rule keeps_observer [OF inert_timed(1)])

lemma keeps_open_observer: "observer a \<Longrightarrow> keeps (open_scope X i) a"
  by (rule keeps_observer [OF inert_timed(2)])

section \<open>Operations of the store\<close>

text \<open>Approvals are dropped, or kept with their deadline.\<close>

definition renews :: "policy_store \<Rightarrow> policy_store \<Rightarrow> bool" where
  "renews st st' \<longleftrightarrow> (\<forall>i a'. st' i = Some a' \<longrightarrow>
     (\<exists>a. st i = Some a \<and> ra_expires_at a = ra_expires_at a'))"

lemma renews_sub: "(\<And>j. st' j = None \<or> st' j = st j) \<Longrightarrow> renews st st'"
  unfolding renews_def by (metis option.distinct(1))

lemma timed_renews: "timed X w \<Longrightarrow> policy_ok st \<Longrightarrow> renews (w_store w) st \<Longrightarrow> timed X (w\<lparr>w_store := st\<rparr>)"
proof -
  assume t: "timed X w" and ok: "policy_ok st" and r: "renews (w_store w) st"
  have "st '''' = None" using t r unfolding timed_def renews_def by (metis not_None_eq)
  moreover have "\<exists>u. w_timers w i = Some u \<and> u \<le> ra_expires_at a"
    if "i \<notin> X" "st i = Some a" for i a
    using t r that unfolding timed_def renews_def by metis
  ultimately show ?thesis using t ok by (simp add: timed_def)
qed

lemma reserve_reusable_renews: "renews st (fst (reserve_reusable order now st r))"
proof (cases "reserve_reusable order now st r")
  case (Pair st' res)
  show ?thesis
  proof (cases res)
    case (Inl f)
    with Pair reserve_reusable_Inl [of order now st r st' f] show ?thesis by (auto intro: renews_sub)
  next
    case (Inr x)
    obtain a' m where "x = (a', m)" by (cases x)
    with Pair Inr reserve_reusable_Inr [of order now st r st' a' m] obtain i a st1
      where f: "find_reusable order now st r = (st1, Inr (i, a, m))" "st i = Some a"
        "a' = a\<lparr>ra_reserved := ra_reserved a + 1\<rparr>" "st' = st1(i \<mapsto> a')" by auto
    with find_reusable_sub [OF f(1)] Pair show ?thesis
      unfolding renews_def by (simp, metis option.distinct(1))
  qed
qed

lemma finish_reusable_renews: "renews st (fst (finish_reusable_attempt now st i result))"
  by (auto simp: renews_def finish_reusable_attempt_def Let_def use_up_def give_back_def
      split: option.splits if_splits)

lemma keeps_timed_store:
  assumes "\<And>st. policy_ok st \<Longrightarrow> policy_ok (fst (f st))" "\<And>st. renews st (fst (f st))"
  shows "keeps (timed X) (on_store f)"
proof (rule keepsI)
  fix e w w' r assume t: "timed X w" and run: "on_store f e w = (w', r)"
  have "timed X (w\<lparr>w_store := fst (f (w_store w))\<rparr>)"
    using timed_renews [OF t assms(1) [OF timed_ok [OF t]] assms(2)] .
  with run show "timed X w'" by (auto simp: on_store_def split: prod.splits)
qed

lemma keeps_timed_remove: "keeps (timed X) (on_store (\<lambda>st. remove_reusable st i))"
proof (rule keeps_timed_store)
  have "fst (remove_reusable st i) j = None \<or> fst (remove_reusable st i) j = st j" for st j
    using remove_reusable_sub [of st i] by (metis prod.collapse)
  then show "policy_ok st \<Longrightarrow> policy_ok (fst (remove_reusable st i))"
      "renews st (fst (remove_reusable st i))" for st
    by (auto intro: policy_ok_sub renews_sub)
qed

section \<open>Clearing\<close>

text \<open>Clearing the scope of an approval that is gone closes the exception for it.\<close>

lemma timed_clear_scope:
  assumes "timed X w" "w_store w i = None \<or> i \<in> Y" "X - {i} \<subseteq> Y"
  shows "timed Y (w\<lparr>w_timers := (w_timers w)(i := None), w_cache := cache_clear_scope (w_cache w) i\<rparr>)"
  using assms unfolding timed_def cache_clear_scope_def
  by (auto split: if_splits)

lemma triple_clear_scope:
  "triple (\<lambda>w. timed X w \<and> w_store w i = None) (clear_scope i) (\<lambda>_. timed (X - {i}))"
  unfolding clear_scope_def by (rule triple_modify) (auto intro: timed_clear_scope)

lemma triple_removed:
  "triple (timed X) (on_store (\<lambda>st. remove_reusable st i)) (\<lambda>_ w. timed X w \<and> w_store w i = None)"
  by (rule tripleI)
    (use keepsD [OF keeps_timed_remove] in \<open>auto simp: on_store_def remove_reusable_def
      split: prod.splits option.splits\<close>)

lemma triple_remove_clear:
  "triple (timed X) (andthen (on_store (\<lambda>st. remove_reusable st i)) (\<lambda>_. clear_scope i))
     (\<lambda>_. timed (X - {i}))"
proof (rule triple_andthen)
  show "triple (timed X) (on_store (\<lambda>st. remove_reusable st i))
      (outcome (\<lambda>_ _. False) (\<lambda>_ w. timed X w \<and> w_store w i = None))"
    using triple_removed [of X i] unfolding triple_def on_store_def by (auto split: prod.splits)
qed (use triple_clear_scope in auto)

lemma triple_rollback: "'''' \<notin> X \<Longrightarrow> triple (timed X) (rollback_approval i) (\<lambda>_. timed (X - {i}))"
  unfolding rollback_approval_def
  by (auto intro!: triple_remove_clear triple_ret)

lemma triple_expiry_fires: "triple (timed X) (expiry_fires i) (\<lambda>_. timed (X - {i}))"
  unfolding expiry_fires_def by (rule triple_remove_clear)

lemma keeps_timed_rollback: "'''' \<notin> X \<Longrightarrow> keeps (timed X) (rollback_approval i)"
  unfolding keeps_def by (rule triple_conseq [OF triple_rollback]) (auto intro: timed_mono)

lemma keeps_timed_manager_clear: "keeps (timed X) manager_clear"
  unfolding manager_clear_def
  by (rule keeps_modify) (simp add: timed_def clear_reusable_def cache_clear_def policy_ok_def)
section \<open>Failures of the store\<close>

text \<open>
  The snapshot that comes with a failure. When the failure makes the manager clear the scope of the
  snapshot, the approval has left the store.
\<close>

definition snapshot_gone :: "policy_store \<Rightarrow> policy_failure \<Rightarrow> bool" where
  "snapshot_gone st f \<longleftrightarrow> (\<forall>a. fst f = Some a \<longrightarrow>
     (err_is (snd f) (PolicyErr ErrExpired) \<or> err_is (snd f) (PolicyErr ErrUseExhausted) \<and> spent a \<longrightarrow>
        st (ra_id a) = None))"

lemma sentinel_is_policy [simp]: "sentinel_is (PolicyErr s) (PolicyErr t) \<longleftrightarrow> s = t"
  by (cases s; cases t) (simp_all add: sentinel_is_def)

lemma find_loop_snapshot:
  assumes "find_loop key now is st o1 o2 = (st', Inl f)" "policy_ok st"
    and "\<forall>a. o1 = Some a \<longrightarrow> st (ra_id a) = None"
    and "\<forall>a. o2 = Some a \<longrightarrow> spent a \<longrightarrow> st (ra_id a) = None"
  shows "snapshot_gone st' f"
  using assms
proof (induction "is" arbitrary: st o1 o2)
  case Nil
  then show ?case by (auto simp: snapshot_gone_def split: option.splits)
next
  case (Cons i "is")
  from Cons.prems(1) show ?case
  proof (cases rule: find_loop_ConsE)
    case skip
    with Cons.IH [OF skip(2)] Cons.prems show ?thesis by blast
  next
    case (expired a)
    have "ra_id a = i" using policy_okD [OF Cons.prems(2) expired(1)] by (simp add: approval_ok_def)
    with Cons.prems(3,4) show ?thesis
      by (intro Cons.IH [OF expired(3) policy_ok_drop [OF Cons.prems(2)]])
        (auto simp: first_some_def split: option.splits)
  next
    case (exhausted a)
    have "\<not> spent a" using policy_okD [OF Cons.prems(2) exhausted(1)] by (simp add: approval_ok_def)
    with exhausted(3) have f: "find_loop key now is st o1 (first_some o2 a) = (st', Inl f)" by simp
    from Cons.prems(4) \<open>\<not> spent a\<close> show ?thesis
      by (intro Cons.IH [OF f Cons.prems(2,3)]) (auto simp: first_some_def split: option.splits)
  qed auto
qed

lemma reserve_snapshot:
  "reserve_reusable order now st r = (st', Inl f) \<Longrightarrow> policy_ok st \<Longrightarrow> snapshot_gone st' f"
  using find_loop_snapshot [of "new_reuse_key r" now order st None None st' f]
  by (auto simp: reserve_reusable_def find_reusable_def Let_def split: prod.splits sum.splits)

lemma triple_clear_scope_error:
  "triple (\<lambda>w. timed X w \<and> snapshot_gone (w_store w) (Some a, x))
     (clear_scope_for_reusable_error a x) (\<lambda>_. timed X)"
proof -
  have "triple (\<lambda>w. timed X w \<and> w_store w (ra_id a) = None) (clear_scope (ra_id a)) (\<lambda>_. timed X)"
    by (rule triple_conseq [OF triple_clear_scope]) (auto intro: timed_mono)
  then show ?thesis
    unfolding clear_scope_for_reusable_error_def snapshot_gone_def spent_def
    by (intro triple_if triple_ret) (auto elim: triple_pre)
qed

text \<open>Finishing: after a failure that is no misuse, the approval is gone.\<close>

lemma finish_reusable_Inl:
  assumes "finish_reusable_attempt now st i result = (st', Inl (s, x))"
  shows "err_is x (PolicyErr ErrInvalidDeliveryResult) \<or>
    st' i = None \<and> (\<forall>a. s = Some a \<longrightarrow> st i = Some a)"
  using assms by (auto simp: finish_reusable_attempt_def Let_def split: option.splits if_splits)

lemma finish_reusable_Inr:
  assumes "finish_reusable_attempt now st i result = (st', Inr a)" "policy_ok st"
  shows "ra_id a = i" "ra_uses a \<ge> ra_max_uses a \<Longrightarrow> st' i = None"
proof -
  from assms(1) obtain b where b: "st i = Some b" "a = use_up b \<or> a = give_back b"
    "st' = (if spent a then st(i := None) else st(i \<mapsto> a))"
    by (auto simp: finish_reusable_attempt_def Let_def split: option.splits if_splits)
  from policy_okD [OF assms(2) b(1)] have ok: "approval_ok i b" .
  with b(2) show "ra_id a = i" by (auto simp: approval_ok_def use_up_def give_back_def)
  assume "ra_uses a \<ge> ra_max_uses a"
  with b(2) ok have "spent a"
    by (auto simp: approval_ok_def use_up_def give_back_def spent_def split: if_splits)
  with b(3) show "st' i = None" by simp
qed

definition finish_outcome :: "string set \<Rightarrow> string \<Rightarrow> policy_failure + reusable_approval \<Rightarrow> world \<Rightarrow> bool" where
  "finish_outcome X i res w \<longleftrightarrow> timed X w \<and>
     (case res of
        Inl (s, x) \<Rightarrow> err_is x (PolicyErr ErrInvalidDeliveryResult) \<or>
          w_store w i = None \<and> (\<forall>a. s = Some a \<longrightarrow> ra_id a = i)
      | Inr a \<Rightarrow> ra_id a = i \<and> (ra_uses a \<ge> ra_max_uses a \<longrightarrow> w_store w i = None))"

lemma triple_finish_attempt:
  "triple (timed X) (finish_attempt i result) (outcome (\<lambda>_. timed X) (finish_outcome X i))"
  unfolding finish_attempt_def
proof (rule triple_andthen [OF keeps_triple [OF keeps_timed_observer [OF observer_reads(1)]]])
  fix now
  show "triple (timed X) (on_store (\<lambda>st. finish_reusable_attempt now st i result))
      (outcome (\<lambda>_. timed X) (finish_outcome X i))"
  proof (rule tripleI)
    fix e w w' r
    assume t: "timed X w" and run: "on_store (\<lambda>st. finish_reusable_attempt now st i result) e w = (w', r)"
    obtain st' res where f: "finish_reusable_attempt now (w_store w) i result = (st', res)"
      by (cases "finish_reusable_attempt now (w_store w) i result")
    with run have w': "w' = w\<lparr>w_store := st'\<rparr>" "r = Inr res" by (auto simp: on_store_def)
    have "timed X w'"
      by (rule keepsD [OF keeps_timed_store t run])
        (simp_all add: finish_reusable_attempt_ok finish_reusable_renews)
    moreover have "case res of
        Inl (s, x) \<Rightarrow> err_is x (PolicyErr ErrInvalidDeliveryResult) \<or>
          w_store w' i = None \<and> (\<forall>a. s = Some a \<longrightarrow> ra_id a = i)
      | Inr a \<Rightarrow> ra_id a = i \<and> (ra_uses a \<ge> ra_max_uses a \<longrightarrow> w_store w' i = None)"
    proof (cases res)
      case (Inl g)
      obtain s x where g: "g = (s, x)" by (cases g)
      from finish_reusable_Inl [OF f [unfolded Inl g]] policy_okD [OF timed_ok [OF t], of i]
      show ?thesis by (auto simp: Inl g w' approval_ok_def)
    next
      case (Inr a)
      from finish_reusable_Inr [OF f [unfolded Inr] timed_ok [OF t]] show ?thesis
        by (simp add: Inr w')
    qed
    ultimately show "outcome (\<lambda>_. timed X) (finish_outcome X i) r w'"
      by (simp add: w'(2) finish_outcome_def)
  qed
qed simp

lemma triple_clear_gone:
  "triple (\<lambda>w. timed X w \<and> w_store w i = None) (clear_scope i) (\<lambda>_. timed X)"
  by (rule triple_conseq [OF triple_clear_scope]) (auto intro: timed_mono)

lemma triple_finish_error:
  "triple (\<lambda>w. timed X w \<and> (err_is x (PolicyErr ErrInvalidDeliveryResult) \<or>
       w_store w i = None \<and> (\<forall>a. s = Some a \<longrightarrow> ra_id a = i)))
     (finish_delivery_error i result (s, x)) (\<lambda>_. timed X)"
proof (cases "err_is x (PolicyErr ErrInvalidDeliveryResult)")
  case True
  then show ?thesis by (auto simp: finish_delivery_error_def intro!: triple_fail)
next
  case False
  note valid = this
  let ?P = "\<lambda>w. timed X w \<and> w_store w i = None"
  show ?thesis
  proof (cases "\<forall>a. s = Some a \<longrightarrow> ra_id a = i")
    case True
    have c: "(case s of Some a \<Rightarrow> if ra_id a \<noteq> '''' then ra_id a else i | None \<Rightarrow> i) = i"
      using True by (cases s) auto
    have 1: "triple ?P (andthen (clear_scope i) (\<lambda>_.
      if err_is x (PolicyErr ErrExpired) then fail (Err (ApprovalErr ErrRequestExpired)) else fail x))
      (\<lambda>_. timed X)"
    by (rule triple_andthen [where E = "\<lambda>_. timed X" and R = "\<lambda>_. timed X"])
      (auto intro!: triple_conseq [OF triple_clear_gone] triple_fail simp: outcome_def split: sum.splits)
    have 2: "triple ?P (case s of Some a \<Rightarrow> clear_scope_for_reusable_error a x | None \<Rightarrow> ret ())
      (\<lambda>_. timed X)"
    by (cases s) (auto intro!: triple_ret triple_pre [OF triple_clear_scope_error]
        simp: snapshot_gone_def True)
    have "triple ?P (finish_delivery_error i result (s, x)) (\<lambda>_. timed X)"
      unfolding finish_delivery_error_def Let_def prod.case c
      using valid by (simp only: if_False) (intro triple_if 1 2)
    then show ?thesis by (rule triple_pre) (use valid in auto)
  qed (use valid in \<open>auto simp: triple_def\<close>)
qed

lemma keeps_timed_finish_attempt: "keeps (timed X) (finish_attempt i result)"
  unfolding keeps_def by (rule triple_conseq [OF triple_finish_attempt])
    (auto simp: outcome_def finish_outcome_def split: sum.splits)

lemma keeps_timed_finish_delivery: "keeps (timed X) (finish_delivery i result)"
  unfolding finish_delivery_def
proof (rule keeps_if [OF keeps_ret], unfold keeps_def, rule triple_andthen [OF triple_finish_attempt])
  fix res
  show "triple (finish_outcome X i res)
      (case res of
         Inl f \<Rightarrow> finish_delivery_error i result f
       | Inr a \<Rightarrow> if ra_uses a \<ge> ra_max_uses a then clear_scope (ra_id a) else ret ()) (\<lambda>_. timed X)"
  proof (cases res)
    case (Inl f)
    obtain s x where f: "f = (s, x)" by (cases f)
    show ?thesis unfolding Inl f sum.case
      by (rule triple_pre [OF triple_finish_error]) (simp add: finish_outcome_def)
  next
    case (Inr a)
    show ?thesis unfolding Inr sum.case
      by (intro triple_if triple_ret triple_pre [OF triple_clear_gone]) (auto simp: finish_outcome_def)
  qed
qed simp

section \<open>Reserving\<close>

text \<open>An approval that the lookup hits has its timer.\<close>

definition reserve_outcome ::
  "policy_failure + reusable_approval \<times> reuse_metadata \<Rightarrow> world \<Rightarrow> bool" where
  "reserve_outcome res w \<longleftrightarrow> timed {} w \<and>
     (case res of
        Inl f \<Rightarrow> snapshot_gone (w_store w) f
      | Inr (a, m) \<Rightarrow> open_scope {} (ra_id a) w)"

lemma triple_reserve_store:
  "triple (timed {}) (on_store (\<lambda>st. reserve_reusable order now st r))
     (outcome (\<lambda>_. timed {}) reserve_outcome)"
proof (rule tripleI)
  fix e w w' q
  assume t: "timed {} w" and run: "on_store (\<lambda>st. reserve_reusable order now st r) e w = (w', q)"
  obtain st' res where f: "reserve_reusable order now (w_store w) r = (st', res)"
    by (cases "reserve_reusable order now (w_store w) r")
  with run have w': "w' = w\<lparr>w_store := st'\<rparr>" "q = Inr res" by (auto simp: on_store_def)
  have t': "timed {} w'"
    by (rule keepsD [OF keeps_timed_store t run]) (simp_all add: reserve_reusable_ok reserve_reusable_renews)
  have "case res of Inl f \<Rightarrow> snapshot_gone (w_store w') f | Inr (a, m) \<Rightarrow> open_scope {} (ra_id a) w'"
  proof (cases res)
    case (Inl g)
    with f t show ?thesis by (simp add: w' reserve_snapshot timed_ok)
  next
    case (Inr x)
    obtain a m where x: "x = (a, m)" by (cases x)
    from reserve_reusable_Inr [OF f [unfolded Inr x]] policy_okD [OF timed_ok [OF t]]
    have "st' (ra_id a) = Some a" by (auto simp: approval_ok_def)
    with t' have "w_timers w' (ra_id a) \<noteq> None" unfolding timed_def w' by fastforce
    with t' show ?thesis by (simp add: Inr x open_scope_def)
  qed
  with t' show "outcome (\<lambda>_. timed {}) reserve_outcome q w'" by (simp add: w'(2) reserve_outcome_def)
qed

definition reserved_open :: "reusable_approval option \<Rightarrow> world \<Rightarrow> bool" where
  "reserved_open found w \<longleftrightarrow> timed {} w \<and> (\<forall>a. found = Some a \<longrightarrow> open_scope {} (ra_id a) w)"

lemma triple_manager_reserve:
  "triple (timed {}) (manager_reserve r) (outcome (\<lambda>_. timed {}) reserved_open)"
  unfolding manager_reserve_def
proof (rule triple_andthen [OF keeps_triple [OF keeps_timed_observer [OF observer_ask]]],
    rule triple_andthen [OF keeps_triple [OF keeps_timed_observer [OF observer_reads(1)]]],
    rule triple_andthen [OF triple_reserve_store], goal_cases)
  case (1 order now res)
  show ?case
  proof (cases res)
    case (Inl f)
    obtain s x where f: "f = (s, x)" by (cases f)
    have "triple (reserve_outcome res)
        (case s of Some a \<Rightarrow> clear_scope_for_reusable_error a x | None \<Rightarrow> ret ()) (\<lambda>_. timed {})"
      by (cases s) (auto intro!: triple_ret triple_pre [OF triple_clear_scope_error]
          simp: reserve_outcome_def Inl f)
    then show ?thesis unfolding Inl f sum.case prod.case
      by (intro triple_andthen [where E = "\<lambda>_. timed {}" and R = "\<lambda>_. timed {}"])
        (auto intro: triple_ret simp: outcome_const reserved_open_def)
  next
    case (Inr y)
    obtain a m where y: "y = (a, m)" by (cases y)
    have "keeps (open_scope {} (ra_id a)) (record_reuse_audit m)"
      by (intro keeps_open_observer observer_approval)
    then have "triple (open_scope {} (ra_id a)) (attempt (record_reuse_audit m) (\<lambda>audited.
        case audited of
          Inl x \<Rightarrow> andthen (finish_attempt (ra_id a) delivery_pre_payload_failure) (\<lambda>_. fail x)
        | Inr _ \<Rightarrow> ret (Some a))) (outcome (\<lambda>_. timed {}) reserved_open)"
      unfolding keeps_def
    proof (rule triple_attempt, goal_cases)
      case (1 audited)
      have undo: "triple (timed {})
          (andthen (finish_attempt (ra_id a) delivery_pre_payload_failure) (\<lambda>_. fail x))
          (outcome (\<lambda>_. timed {}) reserved_open)" for x :: err
        by (rule triple_andthen [OF keeps_triple [OF keeps_timed_finish_attempt]])
          (auto intro: triple_fail)
      show ?case
        by (cases audited) (auto intro!: triple_ret triple_pre [OF undo]
            simp: reserved_open_def open_scope_def)
    qed
    then show ?thesis unfolding Inr y sum.case prod.case
      by (rule triple_pre) (simp add: reserve_outcome_def)
  qed
qed simp_all

section \<open>Caching\<close>

text \<open>While its scope is open, values may be cached for an approval.\<close>

lemma keeps_timed_ensure_approval: "'''' \<notin> X \<Longrightarrow> keeps (timed X) (ensure_approval_active i t)"
  unfolding ensure_approval_active_def
  by (intro keeps_parts keeps_timed_observer observer_reads keeps_timed_rollback)

lemma triple_ensure_approval:
  assumes "'''' \<notin> X"
  shows "triple (open_scope X i) (ensure_approval_active i t)
    (outcome (\<lambda>_. timed X) (\<lambda>_. open_scope X i))"
proof -
  have f: "triple (open_scope X i) (andthen (rollback_approval i) (\<lambda>_. fail x))
      (outcome (\<lambda>_. timed X) (\<lambda>_. open_scope X i))" for x
    by (rule triple_pre [OF triple_andthen [OF keeps_triple [OF keeps_timed_rollback [OF assms]]]])
      (auto intro: triple_fail open_scope_timed)
  have o: "triple (open_scope X i) (andthen a g) Q"
    if "observer a" "\<And>x. triple (open_scope X i) (g x) Q" "\<And>x w. open_scope X i w \<Longrightarrow> Q (Inl x) w"
    for a :: "'b act" and g Q
    by (rule triple_andthen [OF keeps_triple [OF keeps_open_observer [OF that(1)]]]) (use that in auto)
  show ?thesis
    unfolding ensure_approval_active_def
    by (intro triple_if triple_ret o observer_reads f) (auto intro: open_scope_timed)
qed

lemma keeps_open_put:
  "keeps (open_scope X i) (on_cache (\<lambda>c. cache_put al c (cache_key_of_identity i s) v))"
proof (rule keepsI)
  fix e w w' r
  assume o: "open_scope X i w"
    and run: "on_cache (\<lambda>c. cache_put al c (cache_key_of_identity i s) v) e w = (w', r)"
  have "w' = w \<or> (\<exists>m. w' = w\<lparr>w_cache := (w_cache w)(cache_key_of_identity i s \<mapsto> m)\<rparr>)"
    using run by (auto simp: on_cache_def cache_put_def split: sum.splits prod.splits)
  with o show "open_scope X i w'"
    by (auto simp: open_scope_def timed_def cache_key_of_identity_def split: if_splits)
qed

lemma triple_cache_loop:
  assumes "'''' \<notin> X"
  shows "triple (open_scope X i) (cache_loop i t is vals) (outcome (\<lambda>_. timed X) (\<lambda>_. open_scope X i))"
proof (induction "is")
  case (Cons s "is")
  have "triple (open_scope X i) (andthen (ensure_approval_active i t) (\<lambda>_.
      andthen (ask en_alloc) (\<lambda>al.
      andthen (on_cache (\<lambda>c. cache_put al c (cache_key_of_identity i s) v)) (\<lambda>r.
      andthen (lift_error r) (\<lambda>_. cache_loop i t is vals)))))
      (outcome (\<lambda>_. timed X) (\<lambda>_. open_scope X i))" for v
    by (intro triple_andthen [OF triple_ensure_approval [OF assms]]
        triple_andthen [OF keeps_triple [OF keeps_open_observer]]
        triple_andthen [OF keeps_triple [OF keeps_open_put]] observer_ask observer_basic Cons.IH)
      (auto intro: open_scope_timed)
  with Cons.IH show ?case by (simp split: option.splits)
qed (auto intro: triple_ret)

lemma triple_cache_values:
  assumes "'''' \<notin> X"
  shows "triple (open_scope X i) (cache_resolved_values i t vals)
    (outcome (\<lambda>_. timed X) (\<lambda>_. open_scope X i))"
  unfolding cache_resolved_values_def
  by (intro triple_andthen [OF keeps_triple [OF keeps_open_observer]]
      triple_andthen [OF triple_cache_loop [OF assms]] triple_ensure_approval observer_ask assms)
    (auto intro: open_scope_timed)

section \<open>Creating\<close>

text \<open>The approval being created keeps its deadline while its values are cached.\<close>

definition deadline :: "string \<Rightarrow> go_time \<Rightarrow> world \<Rightarrow> bool" where
  "deadline i t w \<longleftrightarrow> (\<forall>a. w_store w i = Some a \<longrightarrow> ra_expires_at a = t)"

lemma keeps_deadline_observer: "observer a \<Longrightarrow> keeps (deadline i t) a"
  by (rule keeps_observer) (simp_all add: inert_def deadline_def)

lemma keeps_deadline_rollback: "keeps (deadline i t) (rollback_approval j)"
  unfolding rollback_approval_def clear_scope_def
proof (intro keeps_parts keeps_modify)
  show "keeps (deadline i t) (on_store (\<lambda>st. remove_reusable st j))"
    by (rule keepsI) (auto simp: on_store_def remove_reusable_def deadline_def
        split: prod.splits option.splits if_splits)
qed (simp add: deadline_def)

lemma keeps_deadline_ensure: "keeps (deadline i t) (ensure_approval_active j u)"
  unfolding ensure_approval_active_def
  by (intro keeps_parts keeps_deadline_observer observer_reads keeps_deadline_rollback)

lemma keeps_deadline_put: "keeps (deadline i t) (on_cache f)"
  by (rule keepsI) (auto simp: on_cache_def deadline_def split: prod.splits)

lemma keeps_deadline_cache: "keeps (deadline i t) (cache_resolved_values j u vals)"
proof -
  have loop: "keeps (deadline i t) (cache_loop j u is vals)" for "is"
  proof (induction "is")
    case (Cons s "is")
    show ?case unfolding cache_loop.simps
      by (intro keeps_case_option keeps_andthen keeps_lift_error Cons.IH keeps_deadline_ensure
          keeps_deadline_observer [OF observer_ask] keeps_deadline_put)
  qed (simp add: keeps_ret)
  show ?thesis
    unfolding cache_resolved_values_def
    by (intro keeps_andthen loop keeps_deadline_ensure keeps_deadline_observer [OF observer_ask])
qed

lemma triple_schedule:
  assumes "i \<noteq> ''''"
  shows "triple (\<lambda>w. timed {i} w \<and> deadline i t w) (schedule_expiry i t) (\<lambda>_. timed {})"
  unfolding schedule_expiry_def
proof (rule triple_andthen)
  let ?P = "\<lambda>w. timed {i} w \<and> deadline i t w"
  show "triple ?P read_now (outcome (\<lambda>_. timed {}) (\<lambda>_. ?P))"
    unfolding read_now_def by (rule triple_ask) (simp add: deadline_def)
  fix now
  have "timed {} (w\<lparr>w_timers := (w_timers w)(i \<mapsto> now + time_sub t now)\<rparr>)"
    if "timed {i} w" "deadline i t w" "0 < time_sub t now" for w
  proof -
    have "now + time_sub t now \<le> t"
      using that(3) by (auto simp: time_sub_def max_duration_def min_duration_def)
    with that show ?thesis by (auto simp: timed_def deadline_def)
  qed
  then show "triple ?P (if time_sub t now \<le> 0 then expiry_fires i
      else modify (\<lambda>w. w\<lparr>w_timers := (w_timers w)(i \<mapsto> now + time_sub t now)\<rparr>)) (\<lambda>_. timed {})"
    using triple_expiry_fires [of "{i}" i]
    by (intro triple_if triple_modify) (auto elim: triple_pre)
qed simp

lemma generate_id_nonempty: "generate_id r p = Inr i \<Longrightarrow> p \<noteq> '''' \<Longrightarrow> i \<noteq> ''''"
  by (auto simp: generate_id_def split: sum.splits option.splits if_splits)

lemma add_reusable_id:
  "add_reusable rid rnonce st spec = (st', Inr a) \<Longrightarrow> as_id spec = '''' \<Longrightarrow> ra_id a \<noteq> ''''"
  by (auto simp: add_reusable_def Let_def id_or_random_def dest!: generate_id_nonempty
      split: sum.splits if_splits)

lemma triple_add:
  assumes "as_id spec = ''''"
  shows "triple (timed {}) (on_store (\<lambda>st. add_reusable rid rnonce st spec))
    (outcome (\<lambda>_. timed {}) (\<lambda>res w. case res of
       Inl x \<Rightarrow> timed {} w
     | Inr a \<Rightarrow> timed {ra_id a} w \<and> deadline (ra_id a) (ra_expires_at a) w \<and> ra_id a \<noteq> ''''))"
proof (rule tripleI)
  fix e w w' q
  assume t: "timed {} w" and run: "on_store (\<lambda>st. add_reusable rid rnonce st spec) e w = (w', q)"
  obtain st' res where f: "add_reusable rid rnonce (w_store w) spec = (st', res)"
    by (cases "add_reusable rid rnonce (w_store w) spec")
  with run have w': "w' = w\<lparr>w_store := st'\<rparr>" "q = Inr res" by (auto simp: on_store_def)
  show "outcome (\<lambda>_. timed {}) (\<lambda>res w. case res of
       Inl x \<Rightarrow> timed {} w
     | Inr a \<Rightarrow> timed {ra_id a} w \<and> deadline (ra_id a) (ra_expires_at a) w \<and> ra_id a \<noteq> '''') q w'"
  proof (cases res)
    case (Inl x)
    with f add_reusable_Inl have "st' = w_store w" by blast
    with t w' Inl show ?thesis by simp
  next
    case (Inr a)
    note f = f [unfolded Inr]
    have "policy_ok st'" using add_reusable_ok [OF timed_ok [OF t], of rid rnonce spec] f by simp
    with t add_reusable_Inr(1) [OF f] add_reusable_id [OF f assms] w' Inr show ?thesis
      by (auto simp: timed_def deadline_def)
  qed
qed

lemma keeps_pair: "keeps I a \<Longrightarrow> keeps J a \<Longrightarrow> triple (\<lambda>w. I w \<and> J w) a (\<lambda>_ w. I w \<and> J w)"
  using keeps_conj by (simp add: keeps_def)

lemma triple_cache_new:
  assumes "i \<noteq> ''''"
  shows "triple (\<lambda>w. timed {i} w \<and> deadline i t w) (cache_resolved_values i u vals)
    (\<lambda>_ w. timed {i} w \<and> deadline i t w)"
proof (rule keeps_pair [OF _ keeps_deadline_cache])
  show "keeps (timed {i}) (cache_resolved_values i u vals)"
    unfolding keeps_def
    by (rule triple_conseq [OF triple_cache_values [of "{i}" i]])
      (use assms in \<open>auto simp: open_scope_def outcome_def split: sum.splits\<close>)
qed

lemma keeps_timed_create: "keeps (timed {}) (create_grant r d vals)"
  unfolding create_grant_def
proof (rule keeps_if [OF keeps_ret], rule keeps_andthen [OF keeps_timed_observer [OF observer_ask]],
    rule keeps_andthen [OF keeps_timed_observer [OF observer_ask]],
    unfold keeps_def, rule triple_andthen [OF triple_add], goal_cases)
  case (2 rid rnonce res)
  show ?case
  proof (cases res)
    case (Inl x)
    then show ?thesis by (auto intro!: triple_fail)
  next
    case (Inr a)
    let ?P = "\<lambda>w. timed {ra_id a} w \<and> deadline (ra_id a) (ra_expires_at a) w"
    show ?thesis
    proof (cases "ra_id a = ''''")
      case False
      have undo: "triple ?P (andthen (rollback_approval (ra_id a)) (\<lambda>_. fail x)) (\<lambda>_. timed {})" for x
      proof (rule triple_andthen [where E = "\<lambda>_. timed {}" and R = "\<lambda>_. timed {}"])
        show "triple ?P (rollback_approval (ra_id a)) (outcome (\<lambda>_. timed {}) (\<lambda>_. timed {}))"
          using triple_rollback [of "{ra_id a}" "ra_id a"] False
          by (simp add: outcome_const) (erule triple_pre, simp)
      qed (auto intro: triple_fail)
      have "triple ?P (attempt (cache_resolved_values (ra_id a) (ra_expires_at a) vals) (\<lambda>cached.
          case cached of
            Inl x \<Rightarrow> andthen (rollback_approval (ra_id a)) (\<lambda>_. fail x)
          | Inr _ \<Rightarrow> andthen (schedule_expiry (ra_id a) (ra_expires_at a)) (\<lambda>_.
              ret (ra_id a, ra_expires_at a)))) (\<lambda>_. timed {})"
      proof (rule triple_attempt [OF triple_cache_new [OF False]], goal_cases)
        case (1 cached)
        have "triple ?P (andthen (schedule_expiry (ra_id a) (ra_expires_at a)) (\<lambda>_.
            ret (ra_id a, ra_expires_at a))) (\<lambda>_. timed {})"
          by (rule triple_andthen [where E = "\<lambda>_. timed {}" and R = "\<lambda>_. timed {}"])
            (auto intro!: triple_ret simp: outcome_const triple_schedule [OF False])
        with undo show ?case by (cases cached) simp_all
      qed
      then show ?thesis unfolding Inr sum.case by (rule triple_pre) simp
    qed (simp add: Inr triple_def)
  qed
qed (auto intro: triple_ret)

section \<open>Issuing\<close>

text \<open>Outside the creation of an approval there is no exception.\<close>

abbreviation all_timed :: "world \<Rightarrow> bool" where
  "all_timed \<equiv> timed {}"

lemma keeps_all_timed:
  "keeps all_timed (rollback_approval i)" "keeps all_timed (ensure_approval_active i t)"
  by (simp_all add: keeps_timed_rollback keeps_timed_ensure_approval)

lemma keeps_timed_ensure_grant: "keeps all_timed (ensure_grant_still_active r i t)"
  unfolding ensure_grant_still_active_def
  by (intro keeps_parts keeps_all_timed keeps_timed_observer observer_active)

lemma keeps_timed_or_rollback: "keeps all_timed a \<Longrightarrow> keeps all_timed (or_rollback i a)"
  unfolding or_rollback_def by (intro keeps_parts keeps_all_timed)

lemma keeps_timed_or_request_error: "keeps all_timed a \<Longrightarrow> keeps all_timed (or_request_error r a)"
  unfolding or_request_error_def
  by (intro keeps_attempt keeps_case_sum keeps_ret keeps_timed_observer [OF observer_request_error])

lemma keeps_timed_finish:
  "keeps all_timed (finish_delivery_before_payload d)"
  "keeps all_timed (finish_delivery_after_payload d)"
  unfolding finish_delivery_before_payload_def finish_delivery_after_payload_def ignore_error_def
  by (intro keeps_parts keeps_timed_finish_delivery)+

lemma keeps_timed_rollback_delivery: "keeps all_timed (rollback_delivery d)"
  unfolding rollback_delivery_def by (intro keeps_parts keeps_all_timed keeps_timed_finish)

lemma keeps_timed_or_rollback_delivery:
  "keeps all_timed a \<Longrightarrow> keeps all_timed (or_rollback_delivery d a)"
  unfolding or_rollback_delivery_def by (intro keeps_parts keeps_timed_rollback_delivery)

lemma triple_open_ensure:
  "triple (open_scope {} i) (ensure_grant_still_active r i t) (outcome (\<lambda>_. all_timed) (\<lambda>_. open_scope {} i))"
  unfolding ensure_grant_still_active_def
  by (rule triple_andthen [OF keeps_triple [OF keeps_open_observer [OF observer_active(2)]]])
    (auto intro: triple_ensure_approval open_scope_timed)

lemma open_then:
  "observer a \<Longrightarrow> (\<And>x. triple (open_scope {} i) (f x) (\<lambda>_. all_timed)) \<Longrightarrow>
     triple (open_scope {} i) (andthen a f) (\<lambda>_. all_timed)"
  by (rule triple_andthen [OF keeps_triple [OF keeps_open_observer]]) (auto intro: open_scope_timed)

lemma triple_open_refreshed:
  "triple (open_scope {} (ra_id a)) (refreshed_reusable_values a r vals) (\<lambda>_. all_timed)"
proof -
  have c: "triple (open_scope {} (ra_id a))
      (or_rollback (ra_id a) (cache_resolved_values (ra_id a) (ra_expires_at a) vals))
      (outcome (\<lambda>_. all_timed) (\<lambda>_. all_timed))"
    unfolding or_rollback_def outcome_const
  proof (rule triple_attempt [OF triple_cache_values], goal_cases)
    case (2 res)
    have undo: "triple all_timed (andthen (rollback_approval (ra_id a)) (\<lambda>_. fail x)) (\<lambda>_. all_timed)" for x
      using keeps_andthen [OF keeps_all_timed(1) keeps_fail] by (simp add: keeps_def)
    then show ?case by (cases res) (auto intro!: triple_ret open_scope_timed)
  qed simp
  have "keeps all_timed (andthen (or_rollback (ra_id a) (record_reusable_refresh r a)) (\<lambda>_.
     andthen (or_rollback (ra_id a) (ensure_grant_still_active r (ra_id a) (ra_expires_at a))) (\<lambda>_.
       ret (fanout_values (er_secrets r) vals))))"
    by (intro keeps_andthen keeps_timed_or_rollback keeps_ret keeps_timed_ensure_grant
        keeps_timed_observer observer_approval)
  then show ?thesis
    unfolding refreshed_reusable_values_def keeps_def
    by (intro triple_andthen [OF triple_open_ensure] triple_andthen [OF c]) auto
qed

lemma triple_open_values:
  "triple (open_scope {} (ra_id a)) (reusable_values a r) (\<lambda>_. all_timed)"
proof -
  have "triple (open_scope {} (ra_id a)) (cached_values (ra_id a) (er_secrets r)) (\<lambda>_. all_timed)"
    by (rule triple_conseq [OF keeps_open_observer [OF observer_cached_values, unfolded keeps_def]])
      (auto intro: open_scope_timed)
  then show ?thesis
    unfolding reusable_values_def
    by (intro triple_if open_then observer_or_request_error observer_resolve triple_open_refreshed)
qed

lemma keeps_timed_issue_reusable: "keeps all_timed (issue_reusable_grant r)"
  unfolding issue_reusable_grant_def Let_def keeps_def
proof (rule triple_andthen [OF triple_manager_reserve], goal_cases)
  case (1 found)
  show ?case
  proof (cases found)
    case (Some a)
    let ?body = "andthen (ensure_grant_still_active r (ra_id a) (ra_expires_at a)) (\<lambda>_.
        andthen (reusable_values a r) (\<lambda>values.
        andthen (ensure_grant_still_active r (ra_id a) (ra_expires_at a)) (\<lambda>_. ret values)))"
    have tail: "keeps all_timed
        (andthen (ensure_grant_still_active r (ra_id a) (ra_expires_at a)) (\<lambda>_. ret v))"
      for v :: "string \<rightharpoonup> string" by (intro keeps_andthen keeps_timed_ensure_grant keeps_ret)
    have body: "triple (open_scope {} (ra_id a)) ?body (\<lambda>_. all_timed)"
      by (rule triple_andthen [OF triple_open_ensure],
          rule triple_andthen [where E = "\<lambda>_. all_timed" and R = "\<lambda>_. all_timed"])
        (simp_all add: outcome_const triple_open_values tail [unfolded keeps_def])
    have all: "triple (open_scope {} (ra_id a)) (attempt ?body (\<lambda>res.
        case res of
          Inl x \<Rightarrow> andthen (finish_delivery_before_payload d) (\<lambda>_. fail x)
        | Inr values \<Rightarrow> ret (g values))) (\<lambda>_. all_timed)" for d and g :: "_ \<Rightarrow> issued_grant option"
    proof (rule triple_attempt [OF body], goal_cases)
      case (1 res)
      have "keeps all_timed (case res of
          Inl x \<Rightarrow> andthen (finish_delivery_before_payload d) (\<lambda>_. fail x)
        | Inr values \<Rightarrow> ret (g values))"
        by (intro keeps_parts keeps_timed_finish)
      then show ?case by (simp add: keeps_def)
    qed
    show ?thesis unfolding Some option.case
      by (intro triple_if triple_ret triple_pre [OF all]) (auto simp: reserved_open_def)
  qed (auto intro!: triple_ret simp: reserved_open_def)
qed simp

lemma keeps_timed_fresh: "keeps all_timed (fresh_grant c r)"
  unfolding fresh_grant_def
  by (intro keeps_andthen keeps_case_sum keeps_case_prod keeps_if keeps_ret keeps_fail
      keeps_timed_create keeps_timed_observer observer_audit observer_approval observer_active
      observer_or_request_error observer_resolve)

lemma keeps_timed_issue: "keeps all_timed (issue c r)"
  unfolding issue_def reused_or_fresh_grant_def
  by (intro keeps_andthen keeps_case_prod keeps_case_option keeps_if keeps_ret keeps_fail
      keeps_timed_or_request_error keeps_timed_issue_reusable keeps_timed_fresh
      keeps_timed_or_rollback_delivery keeps_timed_ensure_grant keeps_timed_observer observer_audit
      observer_active observer_approval)

section \<open>The handlers\<close>

lemma keeps_timed_sessions: "keeps (timed X) (on_sessions f)"
  by (rule keepsI) (auto simp: on_sessions_def split: prod.splits)

lemma keeps_timed_active:
  "keeps (timed X) (activate_exec c r)" "keeps (timed X) (deactivate_exec c)"
  unfolding activate_exec_def deactivate_exec_def
  by (intro keeps_andthen keeps_timed_observer observer_guards keeps_modify,
      simp add: split: option.splits)+

lemmas keeps_timed_ops = keeps_timed_sessions keeps_timed_active keeps_timed_issue
  keeps_timed_finish keeps_timed_ensure_grant keeps_timed_manager_clear

lemma keeps_timed_handlers:
  "keeps all_timed (prepare_exec_delivery c r)"
  "keeps all_timed (exec_before_write d)"
  "keeps all_timed (exec_commit_delivered d)"
  "keeps all_timed (exec_abort_before_payload d)"
  "keeps all_timed (report_started c pid)"
  "keeps all_timed (report_completed c n sig)"
  "keeps all_timed (client_disconnected rid)"
  unfolding prepare_exec_delivery_def exec_before_write_def exec_commit_delivered_def
    exec_abort_before_payload_def report_started_def report_completed_def client_disconnected_def
    ensure_payload_writable_def
  by (intro keeps_andthen keeps_attempt keeps_case_sum keeps_case_prod keeps_case_option keeps_if
      keeps_ret keeps_fail keeps_gets keeps_timed_ops keeps_timed_observer observer_guards
      observer_audit observer_reads keeps_modify; simp split: option.splits)+

lemma keeps_timed_session_handlers:
  "keeps all_timed (handle_session_create c sq peer)"
  "keeps all_timed (prepare_session_resolve c rq peer)"
  "keeps all_timed (session_before_write sd)"
  "keeps all_timed (session_commit_delivered sd)"
  "keeps all_timed (session_abort_before_payload sd)"
  "keeps all_timed (handle_session_destroy dq)"
  "keeps all_timed handle_session_list"
  unfolding handle_session_create_def create_approved_session_def prepare_session_resolve_def
    session_before_write_def session_commit_delivered_def session_abort_before_payload_def
    handle_session_destroy_def handle_session_list_def record_session_create_approval_error_def
    record_session_create_denied_def destroy_session_def finish_reservation_def Let_def
  by (intro keeps_andthen keeps_attempt keeps_case_sum keeps_case_prod keeps_case_option keeps_if
      keeps_ret keeps_fail keeps_gets keeps_timed_ops keeps_timed_observer observer_guards
      observer_audit observer_reads observer_ask observer_approval(1) observer_active
      observer_or_request_error observer_resolve observer_basic)+

lemma keeps_timed_item: "keeps all_timed (handle_item_describe c r)"
  by (rule keeps_timed_observer [OF observer_describe])

lemma keeps_timed_expiry: "keeps all_timed (expiry_fires i)"
  unfolding keeps_def by (rule triple_conseq [OF triple_expiry_fires]) (auto intro: timed_mono)

lemma keeps_timed_stop: "keeps all_timed (stop_with_audit_event ev)"
  unfolding stop_with_audit_event_def
  by (intro keeps_andthen keeps_modify keeps_timed_manager_clear keeps_timed_observer observer_guards)
    simp_all

lemmas keeps_timed_results = keeps_timed_handlers [THEN keepsD, rotated]
  keeps_timed_session_handlers [THEN keepsD, rotated] keeps_timed_item [THEN keepsD, rotated]
  keeps_timed_expiry [THEN keepsD, rotated] keeps_timed_stop [THEN keepsD, rotated]

end
