(* ===== verification/ApprovalGate.thy ===== *)
theory ApprovalGate
  imports Observers
begin

text \<open>
  Secrets are only read after an approval: in what a handler adds to the trace, every read stands
  after the answer of the approver, or after the audit record of a reused approval.
\<close>

section \<open>Gated traces\<close>

text \<open>The trace is latest first, so what precedes an effect is the rest of the list.\<close>

fun gated :: "(effect list \<Rightarrow> bool) \<Rightarrow> effect list \<Rightarrow> bool" where
  "gated A [] \<longleftrightarrow> True"
| "gated A (x # past) \<longleftrightarrow> (reads_secret x \<longrightarrow> A past) \<and> gated A past"

definition lasting :: "(effect list \<Rightarrow> bool) \<Rightarrow> bool" where
  "lasting A \<longleftrightarrow> (\<forall>k l m. A l \<longrightarrow> A (k @ l @ m))"

lemma lasting_more: "lasting A \<Longrightarrow> A l \<Longrightarrow> A (k @ l) \<and> A (l @ m)"
  unfolding lasting_def by (metis append_Nil append_Nil2)

lemma gated_append: "lasting A \<Longrightarrow> A past \<Longrightarrow> gated A past \<Longrightarrow> gated A (l @ past)"
  by (induction l) (auto simp: lasting_more)

lemma gated_harmless: "list_all harmless l \<Longrightarrow> gated A past \<Longrightarrow> gated A (l @ past)"
  by (induction l) (auto simp: harmless_def)

lemma gated_split: "gated A (l @ x # past) \<Longrightarrow> reads_secret x \<Longrightarrow> A past"
  by (induction l) auto

text \<open>What was added to the trace \<open>t0\<close> is gated; it is, and the gate is open.\<close>

definition closed_gate :: "(effect list \<Rightarrow> bool) \<Rightarrow> effect list \<Rightarrow> world \<Rightarrow> bool" where
  "closed_gate A t0 w \<longleftrightarrow> (\<exists>l. w_trace w = l @ t0 \<and> gated A l)"

definition open_gate :: "(effect list \<Rightarrow> bool) \<Rightarrow> effect list \<Rightarrow> world \<Rightarrow> bool" where
  "open_gate A t0 w \<longleftrightarrow> (\<exists>l. w_trace w = l @ t0 \<and> gated A l \<and> A l)"

lemma open_closed: "open_gate A t0 w \<Longrightarrow> closed_gate A t0 w"
  by (auto simp: open_gate_def closed_gate_def)

lemma keeps_closed: "emits harmless a \<Longrightarrow> keeps (closed_gate A t0) a"
proof (rule keepsI)
  fix e w w' r assume "emits harmless a" "closed_gate A t0 w" "a e w = (w', r)"
  then obtain l m where "w_trace w' = m @ w_trace w" "list_all harmless m" "w_trace w = l @ t0" "gated A l"
    by (metis closed_gate_def emitsD)
  then have "w_trace w' = (m @ l) @ t0" "gated A (m @ l)" by (simp_all add: gated_harmless)
  then show "closed_gate A t0 w'" unfolding closed_gate_def by blast
qed

lemma grows_open: "lasting A \<Longrightarrow> grows (open_gate A t0)"
  unfolding grows_def
proof (intro allI impI)
  fix w w' :: world and m assume A: "lasting A" "open_gate A t0 w" "w_trace w' = m @ w_trace w"
  then obtain l where "w_trace w = l @ t0" "gated A l" "A l" by (auto simp: open_gate_def)
  with A have "w_trace w' = (m @ l) @ t0" "gated A (m @ l)" "A (m @ l)"
    by (simp_all add: gated_append lasting_more)
  then show "open_gate A t0 w'" unfolding open_gate_def by blast
qed

lemma keeps_open: "lasting A \<Longrightarrow> extends_trace a \<Longrightarrow> keeps (open_gate A t0) a"
  by (rule keeps_grows [OF grows_open])

text \<open>A harmless step before the gate opens; any step after.\<close>

abbreviation gate :: "(effect list \<Rightarrow> bool) \<Rightarrow> effect list \<Rightarrow> 'a act \<Rightarrow> bool" where
  "gate A t0 a \<equiv> keeps (closed_gate A t0) a"

lemma open_then_all:
  "lasting A \<Longrightarrow> extends_trace a \<Longrightarrow> triple (open_gate A t0) a (\<lambda>_. closed_gate A t0)"
  by (rule triple_conseq [OF keeps_open [unfolded keeps_def]]) (auto intro: open_closed)

text \<open>\<open>a\<close> opens the gate whenever it succeeds with a result in \<open>R\<close>.\<close>

definition opens :: "(effect list \<Rightarrow> bool) \<Rightarrow> 'a act \<Rightarrow> ('a \<Rightarrow> bool) \<Rightarrow> bool" where
  "opens A a R \<longleftrightarrow> (\<forall>e w w' x. a e w = (w', Inr x) \<longrightarrow> R x \<longrightarrow>
     (\<exists>l. w_trace w' = l @ w_trace w \<and> A l))"

lemma gate_opens:
  assumes "lasting A" "emits harmless a" "opens A a R"
    and "\<And>x. R x \<Longrightarrow> extends_trace (f x)" "\<And>x. \<not> R x \<Longrightarrow> gate A t0 (f x)"
  shows "gate A t0 (andthen a f)"
  unfolding keeps_def
proof (rule triple_andthen)
  show "triple (closed_gate A t0) a (outcome (\<lambda>_. closed_gate A t0)
      (\<lambda>x w. if R x then open_gate A t0 w else closed_gate A t0 w))"
  proof (rule tripleI)
    fix e w w' r assume c: "closed_gate A t0 w" and run: "a e w = (w', r)"
    have c': "closed_gate A t0 w'" using keepsD [OF keeps_closed [OF assms(2)] c run] .
    have "open_gate A t0 w'" if r: "r = Inr x" "R x" for x
    proof -
      from run r assms(3) obtain m where m: "w_trace w' = m @ w_trace w" "A m"
        unfolding opens_def by blast
      from emitsD [OF assms(2) run] m(1) have h: "list_all harmless m" by auto
      from c obtain l where l: "w_trace w = l @ t0" "gated A l" by (auto simp: closed_gate_def)
      with m h assms(1) have "w_trace w' = (m @ l) @ t0" "gated A (m @ l)" "A (m @ l)"
        by (simp_all add: gated_harmless lasting_more)
      then show ?thesis unfolding open_gate_def by blast
    qed
    with c' show "outcome (\<lambda>_. closed_gate A t0)
        (\<lambda>x w. if R x then open_gate A t0 w else closed_gate A t0 w) r w'"
      by (simp add: outcome_def split: sum.splits)
  qed
  fix x
  show "triple (\<lambda>w. if R x then open_gate A t0 w else closed_gate A t0 w) (f x)
      (\<lambda>_. closed_gate A t0)"
    using assms(1,4,5) by (cases "R x") (auto simp: keeps_def intro: open_then_all)
qed simp

section \<open>What opens the gate\<close>

definition approved_by :: "approval_payload \<Rightarrow> effect list \<Rightarrow> bool" where
  "approved_by p = list_ex (\<lambda>x. case x of Asked q (Inr d) \<Rightarrow> q = p \<and> de_approved d | _ \<Rightarrow> False)"

definition audited_type :: "event_type \<Rightarrow> effect list \<Rightarrow> bool" where
  "audited_type t = list_ex (\<lambda>x. case x of Audited ev \<Rightarrow> ev_type ev = t | _ \<Rightarrow> False)"

text \<open>An exec request may read secrets when it was approved, or to refresh a reused approval.\<close>

definition exec_authorized :: "correlation \<Rightarrow> exec_request \<Rightarrow> effect list \<Rightarrow> bool" where
  "exec_authorized c r l \<longleftrightarrow> approved_by (new_exec_payload c r) l \<or>
     er_force_refresh r \<and> audited_type EventApprovalReused l"

lemma lasting_list_ex: "lasting (list_ex P)"
  by (auto simp: lasting_def)

lemma lasting_approved [simp]: "lasting (approved_by p)" "lasting (audited_type t)"
  unfolding approved_by_def audited_type_def by (rule lasting_list_ex)+

lemma lasting_exec [simp]: "lasting (exec_authorized c r)"
  using lasting_approved unfolding lasting_def exec_authorized_def by blast

lemma opensI:
  "(\<And>e w w' x. a e w = (w', Inr x) \<Longrightarrow> R x \<Longrightarrow> \<exists>l. w_trace w' = l @ w_trace w \<and> A l) \<Longrightarrow> opens A a R"
  unfolding opens_def by blast

lemma opens_attempt:
  assumes "lasting A" "opens A a (\<lambda>_. True)" "extends_trace a"
    and "\<And>x. opens A (f (Inl x)) R" "\<And>v. extends_trace (f (Inr v))"
  shows "opens A (attempt a f) R"
proof (rule opensI)
  fix e w w' x assume run: "attempt a f e w = (w', Inr x)" and "R x"
  obtain w1 r1 where a: "a e w = (w1, r1)" by (cases "a e w")
  with run have f: "f r1 e w1 = (w', Inr x)" by (simp add: attempt_def)
  show "\<exists>l. w_trace w' = l @ w_trace w \<and> A l"
  proof (cases r1)
    case (Inl y)
    with assms(4) f \<open>R x\<close> obtain l where l: "w_trace w' = l @ w_trace w1" "A l" unfolding opens_def by blast
    moreover obtain m where "w_trace w1 = m @ w_trace w" using emitsD [OF assms(3) a] by blast
    ultimately have "w_trace w' = (l @ m) @ w_trace w" "A (l @ m)" using assms(1) by (simp_all add: lasting_more)
    then show ?thesis by blast
  next
    case (Inr v)
    with assms(2) a obtain l where l: "w_trace w1 = l @ w_trace w" "A l" unfolding opens_def by blast
    moreover obtain m where "w_trace w' = m @ w_trace w1" using emitsD [OF assms(5)] f Inr by blast
    ultimately have "w_trace w' = (m @ l) @ w_trace w" "A (m @ l)" using assms(1) by (simp_all add: lasting_more)
    then show ?thesis by blast
  qed
qed

lemma opens_fail: "opens A (fail x) R" "\<not> R y \<Longrightarrow> opens A (ret y) R"
  by (simp_all add: opens_def fail_def ret_def)

lemma opens_tail:
  assumes "lasting A" "extends_trace a" "\<And>x. opens A (f x) R"
  shows "opens A (andthen a f) R"
proof (rule opensI)
  fix e w w' x assume run: "andthen a f e w = (w', Inr x)" and R: "R x"
  then obtain w1 v where a: "a e w = (w1, Inr v)" and f: "f v e w1 = (w', Inr x)"
    by (auto simp: andthen_def split: prod.splits sum.splits)
  from f R assms(3) obtain l where "w_trace w' = l @ w_trace w1" "A l" unfolding opens_def by blast
  moreover obtain m where "w_trace w1 = m @ w_trace w" using emitsD [OF assms(2) a] by blast
  ultimately have "w_trace w' = (l @ m) @ w_trace w" "A (l @ m)" using assms(1) by (simp_all add: lasting_more)
  then show "\<exists>l. w_trace w' = l @ w_trace w \<and> A l" by blast
qed

lemma opens_record: "A [Audited ev] \<Longrightarrow> opens A (record_required_audit ev) R"
  by (rule opensI) (auto simp: record_required_audit_def with_error_def sink_record_def act_defs
      split: prod.splits sum.splits option.splits)

lemma opens_ask_approver:
  "opens (approved_by p) (ask_approver p) (\<lambda>a. \<exists>d. a = Inr d \<and> de_approved d)"
  by (rule opensI) (auto simp: ask_approver_def act_defs approved_by_def)

lemma opens_exec_approver:
  "opens (exec_authorized c r) (ask_approver (new_exec_payload c r)) (\<lambda>a. \<exists>d. a = Inr d \<and> de_approved d)"
  using opens_ask_approver unfolding opens_def exec_authorized_def by blast

lemma opens_manager_reserve:
  "er_force_refresh r \<Longrightarrow> opens (exec_authorized c r) (manager_reserve r') (\<lambda>found. found \<noteq> None)"
  unfolding manager_reserve_def
proof (intro opens_tail emits_basic emits_reads lasting_exec, goal_cases)
  case (1 order now res)
  have "opens (exec_authorized c r) (record_reuse_audit m) (\<lambda>_. True)" for m
    unfolding record_reuse_audit_def
    by (rule opens_record) (simp add: exec_authorized_def audited_type_def event_of_type_def 1)
  moreover have "extends_trace (record_reuse_audit m)" for m
    unfolding record_reuse_audit_def by (intro emits_record audits_True)
  ultimately show ?case
    by (cases res) (auto intro!: opens_tail opens_attempt opens_fail emits_basic emits_ops
        emits_case_option simp: finish_attempt_def intro: emits_andthen split: option.splits)
qed

section \<open>Exec requests\<close>

lemma gate_or_request_error: "gate A t0 a \<Longrightarrow> gate A t0 (or_request_error r a)"
  unfolding or_request_error_def
  by (intro keeps_attempt keeps_case_sum keeps_ret keeps_closed [OF emits_request_error])

lemma gate_or_rollback_delivery: "gate A t0 a \<Longrightarrow> gate A t0 (or_rollback_delivery d a)"
  unfolding or_rollback_delivery_def
  by (intro keeps_attempt keeps_case_sum keeps_andthen keeps_ret keeps_fail
      keeps_closed [OF emits_rollback_delivery])

lemma gate_step:
  "emits harmless a \<Longrightarrow> (\<And>x. gate A t0 (f x)) \<Longrightarrow> gate A t0 (andthen a f)"
  by (rule keeps_andthen [OF keeps_closed])

lemma extends_issue_body:
  "extends_trace (attempt
     (andthen (ensure_grant_still_active r i t) (\<lambda>_.
      andthen (reusable_values a r) (\<lambda>values.
      andthen (ensure_grant_still_active r i t) (\<lambda>_. ret values))))
     (\<lambda>res. case res of
        Inl x \<Rightarrow> andthen (finish_delivery_before_payload d) (\<lambda>_. fail x)
      | Inr values \<Rightarrow> ret (g values)))"
  by (intro emits_parts emits_ensure_grant emits_reusable_values emits_finish_before)

lemma gate_issue_reusable: "gate (exec_authorized c r) t0 (issue_reusable_grant r)"
proof (cases "er_force_refresh r")
  case True
  show ?thesis
    unfolding issue_reusable_grant_def Let_def
    by (rule gate_opens [OF lasting_exec emits_manager_reserve [OF audits_harmless]
          opens_manager_reserve [OF True]])
      (auto intro!: extends_issue_body emits_basic keeps_ret)
next
  case False
  have "emits harmless (issue_reusable_grant r)"
    unfolding issue_reusable_grant_def reusable_values_def
    by (simp only: False if_False)
      (intro emits_parts emits_manager_reserve emits_ensure_grant emits_cached_values
        emits_finish_before audits_harmless)
  then show ?thesis by (rule keeps_closed)
qed

lemma gate_fresh_grant: "gate (exec_authorized c r) t0 (fresh_grant c r)"
  unfolding fresh_grant_def
proof (rule keeps_andthen [OF keeps_closed [OF emits_record [OF audits_harmless]]],
    rule gate_opens [where R = "\<lambda>a. \<exists>d. a = Inr d \<and> de_approved d"], goal_cases)
  case 2
  show ?case unfolding ask_approver_def
    by (intro emits_parts emits_emit) (simp add: harmless_def)
next
  case (4 _ answer)
  then show ?case
    by (auto intro!: emits_andthen emits_case_prod emits_basic emits_ops emits_resolve audits_True)
next
  case (5 _ answer)
  have "emits harmless (record_approval_error rid r x)" "emits harmless (record_approval_denied rid r)" for rid x
    by (intro emits_ops audits_harmless)+
  with 5 show ?case
    by (cases answer) (auto intro!: gate_step keeps_fail)
qed (simp_all add: opens_exec_approver)

lemma gate_issue: "gate (exec_authorized c r) t0 (issue c r)"
  unfolding issue_def reused_or_fresh_grant_def record_reusable_miss_def
  by (intro keeps_andthen keeps_case_prod keeps_case_option keeps_if keeps_ret keeps_fail
      gate_or_request_error gate_issue_reusable gate_fresh_grant gate_or_rollback_delivery
      keeps_closed emits_ensure_request_active emits_ensure_grant emits_record audits_harmless)

lemma gate_prepare_exec: "gate (exec_authorized c r) t0 (prepare_exec_delivery c r)"
  unfolding prepare_exec_delivery_def
  by (intro keeps_andthen keeps_attempt keeps_case_prod keeps_case_sum keeps_if keeps_ret keeps_fail
      gate_issue keeps_closed emits_require_correlation emits_refuse_if_stopped emits_preflight
      emits_reads emits_activate emits_finish_before)

section \<open>Sessions and items\<close>

lemma extends_create_approved: "extends_trace (create_approved_session c r b)"
  unfolding create_approved_session_def Let_def destroy_session_def
  by (intro emits_andthen emits_attempt emits_case_sum emits_basic emits_ops emits_resolve audits_True)

lemma emits_ask_approver: "emits harmless (ask_approver p)"
  unfolding ask_approver_def by (intro emits_parts emits_emit) (simp add: harmless_def)

lemma gate_session_create:
  "gate (\<lambda>l. \<exists>b. approved_by (new_session_create_payload c r b) l) t0 (handle_session_create c r peer)"
  unfolding handle_session_create_def
proof (rule gate_step [OF emits_require_correlation], rule gate_step [OF emits_refuse_if_stopped],
    rule gate_step [OF emits_preflight], rule gate_step [OF emits_basic(3)],
    rule gate_step [OF emits_basic(9)], rule gate_step [OF emits_reads(1)],
    rule keeps_if [OF keeps_fail], rule gate_step [OF emits_record [OF audits_harmless]],
    rule gate_opens [where R = "\<lambda>a. \<exists>d. a = Inr d \<and> de_approved d"], goal_cases)
  case 1
  show ?case using lasting_approved(1) unfolding lasting_def by blast
next
  case 2
  show ?case by (rule emits_ask_approver)
next
  case 3
  show ?case using opens_ask_approver unfolding opens_def by blast
next
  case (4 _ _ _ _ _ _ _ answer)
  then show ?case
    by (auto intro!: emits_andthen emits_ops emits_reads extends_create_approved)
next
  case (5 _ _ _ _ _ _ _ answer)
  have "emits harmless (record_session_create_approval_error rid r x)"
    "emits harmless (record_session_create_denied rid r)" for rid x
    unfolding record_session_create_approval_error_def record_session_create_denied_def
    by (intro emits_if emits_ops emits_basic audits_harmless)+
  with 5 show ?case
    by (cases answer) (auto intro!: gate_step keeps_fail)
qed

lemma emits_item_request_error: "emits S (item_describe_request_error r x)"
  unfolding item_describe_request_error_def
  by (intro emits_parts emits_ensure_item_describe_active)

lemma emits_item_approval_error: "emits S (item_describe_approval_error r x)"
  unfolding item_describe_approval_error_def by (intro emits_parts emits_ensure_item_describe_active)

lemma gate_item_describe:
  "gate (approved_by (new_item_describe_payload c r)) t0 (handle_item_describe c r)"
  unfolding handle_item_describe_def Let_def
proof (rule gate_step [OF emits_require_correlation], rule gate_step [OF emits_refuse_if_stopped],
    rule gate_step [OF emits_preflight], rule gate_step [OF emits_reads(1)],
    rule keeps_if [OF keeps_fail], rule gate_step [OF emits_record [OF audits_harmless]],
    rule gate_opens [where R = "\<lambda>a. \<exists>d. a = Inr d \<and> de_approved d"], goal_cases)
  case (4 _ _ _ _ _ answer)
  have "extends_trace (describe_item r)"
    unfolding describe_item_def by (intro emits_parts emits_emit) simp_all
  with 4 show ?case
    by (auto intro!: emits_andthen emits_attempt emits_case_sum emits_basic emits_ops
        emits_item_request_error emits_item_approval_error audits_True)
next
  case (5 _ _ _ _ _ answer)
  then show ?case
    by (cases answer) (auto intro!: gate_step keeps_fail emits_ops emits_basic
        emits_item_approval_error)
qed (simp_all add: emits_ask_approver opens_ask_approver)

end
