(* ===== verification/UseAccounting.thy ===== *)
theory UseAccounting
  imports Observers
begin

text \<open>
  What an exec request does to the uses of the approvals. \<open>m0\<close> are the counters before the request.
  A request that fails leaves no use taken or held (\<open>free_uses\<close>); one that succeeds holds exactly
  one use, of the approval that its delivery names (\<open>borrowed\<close>).
\<close>

section \<open>Counters against a start\<close>

type_synonym meters = "string \<Rightarrow> (int \<times> int \<times> int) option"

abbreviation meter :: "world \<Rightarrow> meters" where
  "meter w \<equiv> policy_meter (w_store w)"

definition store_ok :: "world \<Rightarrow> bool" where
  "store_ok w \<longleftrightarrow> policy_ok (w_store w) \<and> w_store w '''' = None"

definition unchanged_uses :: "meters \<Rightarrow> world \<Rightarrow> bool" where
  "unchanged_uses m0 w \<longleftrightarrow> store_ok w \<and> (\<forall>j. meter w j = None \<or> meter w j = m0 j)"

definition free_uses :: "meters \<Rightarrow> world \<Rightarrow> bool" where
  "free_uses m0 w \<longleftrightarrow> store_ok w \<and>
     (\<forall>j. meter w j = None \<or> meter w j = m0 j \<or> (\<exists>n. meter w j = Some (n, 0, 0)))"

definition borrowed :: "meters \<Rightarrow> string \<Rightarrow> world \<Rightarrow> bool" where
  "borrowed m0 i w \<longleftrightarrow> store_ok w \<and>
     (\<forall>j. j \<noteq> i \<longrightarrow> meter w j = None \<or> meter w j = m0 j) \<and>
     (meter w i = None \<or> (\<exists>n. meter w i = Some (n, 0, 1)) \<or>
      (\<exists>n u h. 0 \<le> h \<and> m0 i = Some (n, u, h) \<and> meter w i = Some (n, u, h + 1)))"

lemma unchanged_free: "unchanged_uses m0 w \<Longrightarrow> free_uses m0 w"
  unfolding unchanged_uses_def free_uses_def by blast

lemma free_usesI:
  assumes "store_ok w" "\<And>j. j \<noteq> i \<Longrightarrow> meter w j = None \<or> meter w j = m0 j"
    and "meter w i = None \<or> meter w i = m0 i \<or> (\<exists>n. meter w i = Some (n, 0, 0))"
  shows "free_uses m0 w"
  unfolding free_uses_def using assms by metis

lemma borrowed_gone: "borrowed m0 i w \<Longrightarrow> meter w i = None \<Longrightarrow> free_uses m0 w"
  by (rule free_usesI [of w i]) (auto simp: borrowed_def)

lemma borrowed_empty: "borrowed m0 '''' w \<Longrightarrow> free_uses m0 w"
  by (rule borrowed_gone) (auto simp: borrowed_def store_ok_def policy_meter_def)

lemma borrowed_none:
  assumes "borrowed m0 '''' w"
  shows "unchanged_uses m0 w"
proof -
  have "meter w '''' = None" using assms by (simp add: borrowed_def store_ok_def policy_meter_def)
  then have "meter w j = None \<or> meter w j = m0 j" for j
    using assms by (cases "j = ''''") (auto simp: borrowed_def)
  with assms show ?thesis by (simp add: borrowed_def unchanged_uses_def)
qed

lemma start_unchanged: "store_ok w \<Longrightarrow> unchanged_uses (meter w) w"
  by (simp add: unchanged_uses_def)

section \<open>Actions that only drop approvals\<close>

definition within :: "policy_store \<Rightarrow> world \<Rightarrow> bool" where
  "within st w \<longleftrightarrow> (\<forall>j. w_store w j = None \<or> w_store w j = st j)"

definition drops :: "'a act \<Rightarrow> bool" where
  "drops a \<longleftrightarrow> (\<forall>st. keeps (within st) a)"

definition waning :: "(world \<Rightarrow> bool) \<Rightarrow> bool" where
  "waning I \<longleftrightarrow> (\<forall>w w'. I w \<longrightarrow> within (w_store w) w' \<longrightarrow> I w')"

lemma dropsI: "(\<And>st. keeps (within st) a) \<Longrightarrow> drops a"
  by (simp add: drops_def)

lemma keeps_drops: "waning I \<Longrightarrow> drops a \<Longrightarrow> keeps I a"
proof (rule keepsI)
  fix e w w' r assume "waning I" "drops a" "I w" "a e w = (w', r)"
  moreover have "within (w_store w) w" by (simp add: within_def)
  ultimately have "within (w_store w) w'" using keepsD unfolding drops_def by blast
  with \<open>waning I\<close> \<open>I w\<close> show "I w'" unfolding waning_def by blast
qed

lemma within_ok: "store_ok w \<Longrightarrow> within (w_store w) w' \<Longrightarrow> store_ok w'"
  unfolding store_ok_def within_def by (metis policy_ok_sub)

lemma within_meter: "within (w_store w) w' \<Longrightarrow> meter w' j = None \<or> meter w' j = meter w j"
proof -
  assume "within (w_store w) w'"
  then have "w_store w' j = None \<or> w_store w' j = w_store w j" by (simp add: within_def)
  then show ?thesis by (auto simp: policy_meter_def)
qed

lemma waning_uses [simp]: "waning (unchanged_uses m0)" "waning (free_uses m0)" "waning (borrowed m0 i)"
proof -
  show "waning (unchanged_uses m0)"
    unfolding waning_def unchanged_uses_def using within_ok within_meter by metis
  show "waning (free_uses m0)"
    unfolding waning_def
  proof (intro allI impI)
    fix w w' assume f: "free_uses m0 w" and s: "within (w_store w) w'"
    have "meter w' j = None \<or> meter w' j = m0 j \<or> (\<exists>n. meter w' j = Some (n, 0, 0))" for j
      using f within_meter [OF s, of j] unfolding free_uses_def by metis
    with f within_ok [OF _ s] show "free_uses m0 w'" unfolding free_uses_def by blast
  qed
  show "waning (borrowed m0 i)"
    unfolding waning_def
  proof (intro allI impI)
    fix w w' assume b: "borrowed m0 i w" and s: "within (w_store w) w'"
    note m = within_meter [OF s]
    have "meter w' j = None \<or> meter w' j = m0 j" if "j \<noteq> i" for j
      using b that m [of j] unfolding borrowed_def by metis
    moreover have "meter w' i = None \<or> (\<exists>n. meter w' i = Some (n, 0, 1)) \<or>
      (\<exists>n u h. 0 \<le> h \<and> m0 i = Some (n, u, h) \<and> meter w' i = Some (n, u, h + 1))"
      using b m [of i] unfolding borrowed_def by metis
    moreover have "store_ok w'" using b within_ok [OF _ s] unfolding borrowed_def by blast
    ultimately show "borrowed m0 i w'" unfolding borrowed_def by blast
  qed
qed

lemma inert_within [simp]: "inert (within st)"
  by (simp add: inert_def within_def)

lemma drops_observer: "observer a \<Longrightarrow> drops a"
  by (intro dropsI keeps_observer) simp_all

lemma drops_andthen: "drops a \<Longrightarrow> (\<And>x. drops (f x)) \<Longrightarrow> drops (andthen a f)"
  unfolding drops_def by (auto intro: keeps_andthen)

lemma drops_attempt: "drops a \<Longrightarrow> (\<And>x. drops (f x)) \<Longrightarrow> drops (attempt a f)"
  unfolding drops_def by (auto intro: keeps_attempt)

lemma drops_case_sum:
  "(\<And>x. drops (f x)) \<Longrightarrow> (\<And>y. drops (g y)) \<Longrightarrow> drops (case r of Inl x \<Rightarrow> f x | Inr y \<Rightarrow> g y)"
  by (cases r) simp_all

lemma drops_case_option:
  "drops a \<Longrightarrow> (\<And>y. drops (g y)) \<Longrightarrow> drops (case r of None \<Rightarrow> a | Some y \<Rightarrow> g y)"
  by (cases r) simp_all

lemma drops_if: "drops x \<Longrightarrow> drops y \<Longrightarrow> drops (if b then x else y)"
  by simp

lemma drops_modify: "(\<And>w. w_store (f w) = w_store w) \<Longrightarrow> drops (modify f)"
  by (intro dropsI keeps_modify) (simp add: within_def)

lemma drops_on_cache: "drops (on_cache f)"
  by (intro dropsI keepsI) (auto simp: on_cache_def within_def split: prod.splits)

lemma drops_remove: "drops (on_store (\<lambda>st. remove_reusable st i))"
proof (intro dropsI keepsI)
  fix st e w w' r
  assume "within st w" "on_store (\<lambda>st. remove_reusable st i) e w = (w', r)"
  then obtain b where "remove_reusable (w_store w) i = (w_store w', b)"
    by (auto simp: on_store_def split: prod.splits)
  with remove_reusable_sub \<open>within st w\<close> show "within st w'" unfolding within_def by metis
qed

lemmas drops_parts = drops_andthen drops_attempt drops_if drops_case_sum drops_case_option

lemma drops_basic: "drops (ret x)" "drops (fail y)" "drops (ask f)" "drops (lift_error o1)"
  by (intro drops_observer observer_basic observer_ask)+

lemma drops_clear_scope: "drops (clear_scope i)"
  unfolding clear_scope_def by (rule drops_modify) simp

lemma drops_clear_scope_error: "drops (clear_scope_for_reusable_error a x)"
  unfolding clear_scope_for_reusable_error_def by (intro drops_parts drops_basic drops_clear_scope)

lemma drops_rollback: "drops (rollback_approval i)"
  unfolding rollback_approval_def by (intro drops_parts drops_basic drops_remove drops_clear_scope)

lemma drops_expiry: "drops (expiry_fires i)"
  unfolding expiry_fires_def by (intro drops_parts drops_remove drops_clear_scope)

lemma drops_reads: "drops read_now" "drops read_stopped"
  by (intro drops_observer observer_reads)+

lemma drops_ensure_approval: "drops (ensure_approval_active i t)"
  unfolding ensure_approval_active_def by (intro drops_parts drops_basic drops_reads drops_rollback)

lemma drops_ensure_grant: "drops (ensure_grant_still_active r i t)"
  unfolding ensure_grant_still_active_def
  by (intro drops_andthen drops_ensure_approval drops_observer [OF observer_active(2)])

lemma drops_schedule: "drops (schedule_expiry i t)"
  unfolding schedule_expiry_def by (intro drops_parts drops_reads drops_expiry drops_modify) simp

lemma drops_cache_loop: "drops (cache_loop scope t is vals)"
proof (induction "is")
  case (Cons i "is")
  show ?case unfolding cache_loop.simps
    by (intro drops_parts drops_basic drops_on_cache drops_ensure_approval Cons.IH)
qed (simp add: drops_basic)

lemma drops_cache_values: "drops (cache_resolved_values scope t vals)"
  unfolding cache_resolved_values_def
  by (intro drops_parts drops_basic drops_cache_loop drops_ensure_approval)

lemma drops_or_rollback: "drops a \<Longrightarrow> drops (or_rollback i a)"
  unfolding or_rollback_def by (intro drops_parts drops_basic drops_rollback)

lemma drops_reusable_values: "drops (reusable_values a r)"
  unfolding reusable_values_def refreshed_reusable_values_def
  by (intro drops_andthen drops_if drops_basic drops_ensure_grant drops_or_rollback drops_cache_values
      drops_observer observer_or_request_error observer_resolve observer_cached_values observer_approval)

lemma drops_finish_error: "drops (finish_delivery_error i result f)"
  unfolding finish_delivery_error_def Let_def
  by (cases f) (auto intro!: drops_parts drops_basic drops_clear_scope drops_clear_scope_error
      split: option.splits)
section \<open>Taking and returning a use\<close>

lemma uses_observer:
  "observer a \<Longrightarrow> keeps (unchanged_uses m0) a" "observer a \<Longrightarrow> keeps (free_uses m0) a"
  "observer a \<Longrightarrow> keeps (borrowed m0 i) a"
  by (simp_all add: keeps_drops drops_observer)

lemma store_ok_upd: "store_ok w \<Longrightarrow> policy_ok st \<Longrightarrow> st '''' = None \<Longrightarrow> store_ok (w\<lparr>w_store := st\<rparr>)"
  by (simp add: store_ok_def)

text \<open>Returning the use before the payload.\<close>

lemma finish_returns:
  assumes "policy_ok st" "finish_reusable_attempt now st i delivery_pre_payload_failure = (st', res)"
  shows "policy_ok st'" "j \<noteq> i \<Longrightarrow> st' j = st j"
    "policy_meter st' i = None \<or> (\<exists>a. st i = Some a \<and> policy_meter st' i =
       Some (ra_max_uses a, ra_uses a, if ra_reserved a > 0 then ra_reserved a - 1 else ra_reserved a))"
  using finish_reusable_attempt_ok [OF assms(1), of now i delivery_pre_payload_failure] assms(2)
  by (auto simp: finish_reusable_attempt_def policy_meter_def give_back_def Let_def
      delivery_pre_payload_failure_def delivery_payload_delivered_def split: option.splits if_splits)

lemma triple_finish_returns:
  "triple (borrowed m0 i) (finish_attempt i delivery_pre_payload_failure) (\<lambda>_. free_uses m0)"
  unfolding finish_attempt_def
proof (rule triple_andthen)
  show "triple (borrowed m0 i) read_now (outcome (\<lambda>_ _. False) (\<lambda>_. borrowed m0 i))"
    unfolding read_now_def by (rule triple_ask) (simp add: borrowed_def store_ok_def)
  fix now
  show "triple (borrowed m0 i)
      (on_store (\<lambda>st. finish_reusable_attempt now st i delivery_pre_payload_failure)) (\<lambda>_. free_uses m0)"
  proof (rule tripleI)
    fix e w w' r
    assume b: "borrowed m0 i w"
      and run: "on_store (\<lambda>st. finish_reusable_attempt now st i delivery_pre_payload_failure) e w = (w', r)"
    obtain st' res where f: "finish_reusable_attempt now (w_store w) i delivery_pre_payload_failure = (st', res)"
      by (cases "finish_reusable_attempt now (w_store w) i delivery_pre_payload_failure")
    with run have w': "w' = w\<lparr>w_store := st'\<rparr>" by (auto simp: on_store_def)
    have ok: "policy_ok (w_store w)" "w_store w '''' = None"
      using b by (simp_all add: borrowed_def store_ok_def)
    note fin = finish_returns [OF ok(1) f]
    have "st' '''' = None"
      using fin(2) [of "''''"] fin(3) ok(2) by (cases "i = ''''") (auto simp: policy_meter_def)
    moreover have "policy_meter st' j = None \<or> policy_meter st' j = m0 j" if "j \<noteq> i" for j
      using b that fin(2) [OF that] by (auto simp: borrowed_def policy_meter_def)
    moreover have "policy_meter st' i = None \<or> policy_meter st' i = m0 i \<or>
        (\<exists>n. policy_meter st' i = Some (n, 0, 0))"
    proof (cases "policy_meter st' i")
      case (Some x)
      with fin(3) obtain a where a: "w_store w i = Some a" "policy_meter st' i =
          Some (ra_max_uses a, ra_uses a, if ra_reserved a > 0 then ra_reserved a - 1 else ra_reserved a)"
        by auto
      have "meter w i = Some (ra_max_uses a, ra_uses a, ra_reserved a)" by (simp add: policy_meter_def a(1))
      moreover have "0 \<le> ra_reserved a" using policy_okD [OF ok(1) a(1)] by (simp add: approval_ok_def)
      ultimately show ?thesis using b a(2) unfolding borrowed_def by auto
    qed simp
    ultimately show "free_uses m0 w'"
      using fin(1) by (intro free_usesI [of w' i]) (simp_all add: store_ok_def w')
  qed
qed simp

lemma triple_finish_delivery:
  "triple (borrowed m0 i) (finish_delivery i delivery_pre_payload_failure) (\<lambda>_. free_uses m0)"
proof (cases "i = ''''")
  case True
  then show ?thesis by (auto simp: finish_delivery_def intro!: triple_ret borrowed_empty)
next
  case False
  have "drops (case res of Inl f \<Rightarrow> finish_delivery_error i delivery_pre_payload_failure f
      | Inr a \<Rightarrow> if ra_uses a \<ge> ra_max_uses a then clear_scope (ra_id a) else ret ())" for res
    by (intro drops_parts drops_finish_error drops_clear_scope drops_basic)
  then have "keeps (free_uses m0) (case res of Inl f \<Rightarrow> finish_delivery_error i delivery_pre_payload_failure f
      | Inr a \<Rightarrow> if ra_uses a \<ge> ra_max_uses a then clear_scope (ra_id a) else ret ())" for res
    by (intro keeps_drops) simp_all
  with False show ?thesis
    unfolding finish_delivery_def keeps_def
    by (simp, intro triple_andthen [where E = "\<lambda>_. free_uses m0" and R = "\<lambda>_. free_uses m0"])
      (simp_all add: outcome_const triple_finish_returns)
qed

lemma triple_finish_before:
  "triple (borrowed m0 (gd_approval_id d)) (finish_delivery_before_payload d) (\<lambda>_. free_uses m0)"
proof (cases "gd_approval_id d = ''''")
  case True
  then show ?thesis
    by (auto simp: finish_delivery_before_payload_def intro!: triple_ret borrowed_empty)
next
  case False
  then show ?thesis
    unfolding finish_delivery_before_payload_def ignore_error_def
    by (simp, intro triple_attempt [OF triple_finish_delivery] triple_ret)
qed

text \<open>Rolling back removes the approval.\<close>

lemma triple_rollback_free: "triple (borrowed m0 i) (rollback_approval i) (\<lambda>_. free_uses m0)"
proof (rule tripleI)
  fix e w w' r assume b: "borrowed m0 i w" and run: "rollback_approval i e w = (w', r)"
  have "borrowed m0 i w'" using keepsD [OF keeps_drops [OF waning_uses(3) drops_rollback] b run] .
  moreover have "w_store w' i = None"
    using run b by (auto simp: rollback_approval_def act_defs on_store_def clear_scope_def
        remove_reusable_def borrowed_def store_ok_def split: if_splits prod.splits option.splits)
  ultimately show "free_uses m0 w'" by (intro borrowed_gone) (auto simp: policy_meter_def)
qed

text \<open>A delivery names the use it holds, and whether it is rolled back or returned.\<close>

definition holds_use :: "meters \<Rightarrow> grant_delivery \<Rightarrow> world \<Rightarrow> bool" where
  "holds_use m0 d w \<longleftrightarrow>
     (if gd_approval_id d = '''' then gd_mutation_id d = '''' \<and> free_uses m0 w
      else gd_mutation_id d \<in> {'''', gd_approval_id d} \<and> borrowed m0 (gd_approval_id d) w)"

lemma waning_holds [simp]: "waning (holds_use m0 d)"
  using waning_uses unfolding waning_def holds_use_def by (auto split: if_splits)

lemma triple_holds_rollback: "triple (holds_use m0 d) (rollback_delivery d) (\<lambda>_. free_uses m0)"
proof (cases "gd_approval_id d = ''''")
  case True
  then show ?thesis
    by (auto simp: rollback_delivery_def finish_delivery_before_payload_def holds_use_def triple_def
        ret_def)
next
  case False
  have "triple (borrowed m0 (gd_approval_id d)) (rollback_delivery d) (\<lambda>_. free_uses m0)"
    if "gd_mutation_id d \<in> {'''', gd_approval_id d}"
    using that False unfolding rollback_delivery_def
    by (auto intro: triple_rollback_free triple_finish_before)
  with False show ?thesis by (auto simp: triple_def holds_use_def)
qed

lemma triple_holds_finish:
  "triple (holds_use m0 d) (finish_delivery_before_payload d) (\<lambda>_. free_uses m0)"
proof (cases "gd_approval_id d = ''''")
  case True
  then show ?thesis
    by (auto simp: finish_delivery_before_payload_def holds_use_def triple_def ret_def)
next
  case False
  then show ?thesis by (intro triple_pre [OF triple_finish_before]) (simp add: holds_use_def)
qed

section \<open>Where uses are taken\<close>

lemma triple_reserve_uses:
  "triple (unchanged_uses m0) (on_store (\<lambda>st. reserve_reusable order now st r))
     (outcome (\<lambda>_. free_uses m0) (\<lambda>res w. case res of
        Inl f \<Rightarrow> unchanged_uses m0 w
      | Inr (a, m) \<Rightarrow> borrowed m0 (ra_id a) w))"
proof (rule tripleI)
  fix e w w' q
  assume u: "unchanged_uses m0 w"
    and run: "on_store (\<lambda>st. reserve_reusable order now st r) e w = (w', q)"
  obtain st' res where f: "reserve_reusable order now (w_store w) r = (st', res)"
    by (cases "reserve_reusable order now (w_store w) r")
  with run have w': "w' = w\<lparr>w_store := st'\<rparr>" "q = Inr res" by (auto simp: on_store_def)
  have ok: "policy_ok (w_store w)" "w_store w '''' = None"
    using u by (simp_all add: unchanged_uses_def store_ok_def)
  have pst: "policy_ok st'" using reserve_reusable_ok [OF ok(1), of order now r] f by simp
  have m: "meter w j = None \<or> meter w j = m0 j" for j using u by (simp add: unchanged_uses_def)
  show "outcome (\<lambda>_. free_uses m0) (\<lambda>res w. case res of
        Inl f \<Rightarrow> unchanged_uses m0 w
      | Inr (a, m) \<Rightarrow> borrowed m0 (ra_id a) w) q w'"
  proof (cases res)
    case (Inl g)
    with f reserve_reusable_Inl have "within (w_store w) w'" unfolding within_def w' by simp
    with u waning_uses(1) have "unchanged_uses m0 w'" unfolding waning_def by blast
    then show ?thesis by (simp add: w'(2) Inl)
  next
    case (Inr x)
    obtain a' d where x: "x = (a', d)" by (cases x)
    from reserve_reusable_Inr [OF f [unfolded Inr x]] obtain i a st1
      where s: "find_reusable order now (w_store w) r = (st1, Inr (i, a, d))" "w_store w i = Some a"
        "a' = a\<lparr>ra_reserved := ra_reserved a + 1\<rparr>" "st' = st1(i \<mapsto> a')" by auto
    have a: "ra_id a = i" "0 \<le> ra_reserved a"
      using policy_okD [OF ok(1) s(2)] by (simp_all add: approval_ok_def)
    have "i \<noteq> ''''" using s(2) ok(2) by auto
    with find_reusable_sub [OF s(1), of "''''"] ok(2) s(4) pst have "store_ok w'"
      by (auto simp: store_ok_def w')
    moreover have "meter w' j = None \<or> meter w' j = m0 j" if "j \<noteq> i" for j
      using find_reusable_sub [OF s(1), of j] m [of j] that by (auto simp: w' s(4) policy_meter_def)
    moreover have "meter w i = Some (ra_max_uses a, ra_uses a, ra_reserved a)"
      by (simp add: policy_meter_def s(2))
    ultimately have "borrowed m0 i w'"
      using m [of i] a by (auto simp: borrowed_def w' s(3,4) policy_meter_def)
    then show ?thesis by (simp add: w' Inr x s(3) a)
  qed
qed

lemma uses_then:
  "observer a \<Longrightarrow> (\<And>x. triple (unchanged_uses m0) (f x) (outcome (\<lambda>_. free_uses m0) Q)) \<Longrightarrow>
     triple (unchanged_uses m0) (andthen a f) (outcome (\<lambda>_. free_uses m0) Q)"
  by (rule triple_andthen [OF keeps_triple [OF uses_observer(1)]]) (auto intro: unchanged_free)

lemma drops_then:
  "drops a \<Longrightarrow> (\<And>x. triple (unchanged_uses m0) (f x) (outcome (\<lambda>_. free_uses m0) Q)) \<Longrightarrow>
     triple (unchanged_uses m0) (andthen a f) (outcome (\<lambda>_. free_uses m0) Q)"
  by (rule triple_andthen [OF keeps_triple [OF keeps_drops [OF waning_uses(1)]]])
    (auto intro: unchanged_free)

text \<open>Returning the use and failing.\<close>

lemma triple_undo:
  "triple P a (\<lambda>_. free_uses m0) \<Longrightarrow>
     triple P (andthen a (\<lambda>_. fail x)) (outcome (\<lambda>_. free_uses m0) Q)"
  by (rule triple_andthen [where E = "\<lambda>_. free_uses m0" and R = "\<lambda>_. free_uses m0"])
    (auto simp: outcome_const intro: triple_fail)

definition reserved_use :: "meters \<Rightarrow> reusable_approval option \<Rightarrow> world \<Rightarrow> bool" where
  "reserved_use m0 found w \<longleftrightarrow>
     (case found of None \<Rightarrow> unchanged_uses m0 w | Some a \<Rightarrow> borrowed m0 (ra_id a) w)"

lemma triple_reserve_manager:
  "triple (unchanged_uses m0) (manager_reserve r) (outcome (\<lambda>_. free_uses m0) (reserved_use m0))"
  unfolding manager_reserve_def
proof (rule uses_then [OF observer_ask], rule uses_then [OF observer_reads(1)],
    rule triple_andthen [OF triple_reserve_uses], goal_cases)
  case (1 order now res)
  show ?case
  proof (cases res)
    case (Inl f)
    obtain s x where f: "f = (s, x)" by (cases f)
    have "drops (case s of Some a \<Rightarrow> clear_scope_for_reusable_error a x | None \<Rightarrow> ret ())"
      by (intro drops_case_option drops_basic drops_clear_scope_error)
    then show ?thesis unfolding Inl f sum.case prod.case
      by (intro drops_then triple_ret) (simp_all add: reserved_use_def)
  next
    case (Inr y)
    obtain a m where y: "y = (a, m)" by (cases y)
    have "keeps (borrowed m0 (ra_id a)) (record_reuse_audit m)"
      by (intro uses_observer observer_approval)
    then have "triple (borrowed m0 (ra_id a)) (attempt (record_reuse_audit m) (\<lambda>audited.
        case audited of
          Inl x \<Rightarrow> andthen (finish_attempt (ra_id a) delivery_pre_payload_failure) (\<lambda>_. fail x)
        | Inr _ \<Rightarrow> ret (Some a))) (outcome (\<lambda>_. free_uses m0) (reserved_use m0))"
      unfolding keeps_def
      by (rule triple_attempt)
        (auto intro!: triple_undo triple_finish_returns triple_ret simp: reserved_use_def
          split: sum.splits)
    then show ?thesis by (simp add: Inr y)
  qed
qed (simp_all add: unchanged_free)

text \<open>A reused grant.\<close>

definition issued_use :: "meters \<Rightarrow> issued_grant option \<Rightarrow> world \<Rightarrow> bool" where
  "issued_use m0 g w \<longleftrightarrow>
     (case g of None \<Rightarrow> unchanged_uses m0 w | Some (gr, d) \<Rightarrow> holds_use m0 d w)"

lemma triple_borrowed_keep: "drops a \<Longrightarrow> triple (borrowed m0 i) a (\<lambda>_. borrowed m0 i)"
  using keeps_drops [OF waning_uses(3)] by (simp add: keeps_def)

lemma triple_issue_reusable_uses:
  "triple (unchanged_uses m0) (issue_reusable_grant r) (outcome (\<lambda>_. free_uses m0) (issued_use m0))"
  unfolding issue_reusable_grant_def Let_def
proof (rule triple_andthen [OF triple_reserve_manager], goal_cases)
  case (1 found)
  show ?case
  proof (cases found)
    case None
    then show ?thesis by (auto intro!: triple_ret simp: reserved_use_def issued_use_def)
  next
    case (Some a)
    let ?d = "\<lparr>gd_approval_id = ra_id a, gd_mutation_id = (if er_force_refresh r then ra_id a else ''''),
        gd_expires_at = ra_expires_at a\<rparr>"
    have body: "drops (andthen (ensure_grant_still_active r (ra_id a) (ra_expires_at a)) (\<lambda>_.
        andthen (reusable_values a r) (\<lambda>values.
        andthen (ensure_grant_still_active r (ra_id a) (ra_expires_at a)) (\<lambda>_. ret values))))"
      by (intro drops_andthen drops_ensure_grant drops_reusable_values drops_basic)
    show ?thesis
    proof (cases "ra_id a = ''''")
      case True
      with Some show ?thesis
        by (auto intro!: triple_ret simp: reserved_use_def issued_use_def borrowed_none)
    next
      case False
      have "triple (borrowed m0 (ra_id a)) (finish_delivery_before_payload ?d) (\<lambda>_. free_uses m0)"
        using triple_finish_before [of m0 ?d] by simp
      then have "triple (borrowed m0 (ra_id a))
          (attempt (andthen (ensure_grant_still_active r (ra_id a) (ra_expires_at a)) (\<lambda>_.
            andthen (reusable_values a r) (\<lambda>values.
            andthen (ensure_grant_still_active r (ra_id a) (ra_expires_at a)) (\<lambda>_. ret values))))
           (\<lambda>res. case res of
              Inl x \<Rightarrow> andthen (finish_delivery_before_payload ?d) (\<lambda>_. fail x)
            | Inr values \<Rightarrow> ret (Some (\<lparr>gr_env = values, gr_aliases = secret_aliases (er_secrets r),
                             gr_approval_id = ra_id a, gr_payload_expires_at = zero_time\<rparr>, ?d))))
          (outcome (\<lambda>_. free_uses m0) (issued_use m0))"
        using False
        by (intro triple_attempt [OF triple_borrowed_keep [OF body]])
          (auto intro!: triple_undo triple_ret simp: issued_use_def holds_use_def split: sum.splits)
      with Some False show ?thesis by (simp add: reserved_use_def [abs_def])
    qed
  qed
qed simp

text \<open>A fresh grant.\<close>

lemma triple_add_uses:
  assumes "as_id spec = ''''" "as_reserved spec = 1"
  shows "triple (unchanged_uses m0) (on_store (\<lambda>st. add_reusable rid rnonce st spec))
    (outcome (\<lambda>_. free_uses m0) (\<lambda>res w. case res of
       Inl x \<Rightarrow> unchanged_uses m0 w | Inr a \<Rightarrow> ra_id a \<noteq> '''' \<and> borrowed m0 (ra_id a) w))"
proof (rule tripleI)
  fix e w w' q
  assume u: "unchanged_uses m0 w"
    and run: "on_store (\<lambda>st. add_reusable rid rnonce st spec) e w = (w', q)"
  obtain st' res where f: "add_reusable rid rnonce (w_store w) spec = (st', res)"
    by (cases "add_reusable rid rnonce (w_store w) spec")
  with run have w': "w' = w\<lparr>w_store := st'\<rparr>" "q = Inr res" by (auto simp: on_store_def)
  have ok: "policy_ok (w_store w)" "w_store w '''' = None"
    using u by (simp_all add: unchanged_uses_def store_ok_def)
  have m: "meter w j = None \<or> meter w j = m0 j" for j using u by (simp add: unchanged_uses_def)
  show "outcome (\<lambda>_. free_uses m0) (\<lambda>res w. case res of
       Inl x \<Rightarrow> unchanged_uses m0 w | Inr a \<Rightarrow> ra_id a \<noteq> '''' \<and> borrowed m0 (ra_id a) w) q w'"
  proof (cases res)
    case (Inl x)
    with f add_reusable_Inl have "st' = w_store w" by blast
    with u show ?thesis by (simp add: w' Inl)
  next
    case (Inr a)
    note f = f [unfolded Inr]
    note a = add_reusable_Inr [OF f]
    have "ra_id a \<noteq> ''''"
      using f assms(1) by (auto simp: add_reusable_def Let_def id_or_random_def generate_id_def
          split: sum.splits if_splits)
    moreover have "policy_ok st'" using add_reusable_ok [OF ok(1), of rid rnonce spec] f by simp
    moreover have "meter w' j = None \<or> meter w' j = m0 j" if "j \<noteq> ra_id a" for j
      using m [of j] that by (auto simp: w' a(1) policy_meter_def)
    moreover have "meter w' (ra_id a) = Some (ra_max_uses a, 0, 1)"
      using a(3,4) assms(2) by (simp add: w' a(1) policy_meter_def)
    ultimately show ?thesis using ok(2) by (simp add: w' Inr borrowed_def store_ok_def a(1))
  qed
qed

text \<open>Scheduling the expiry does not fail.\<close>

lemma triple_schedule_runs:
  "triple (borrowed m0 i) (schedule_expiry i t) (outcome (\<lambda>_ _. False) (\<lambda>_. borrowed m0 i))"
proof (rule tripleI)
  fix e w w' r assume b: "borrowed m0 i w" and run: "schedule_expiry i t e w = (w', r)"
  have "borrowed m0 i w'" using keepsD [OF keeps_drops [OF waning_uses(3) drops_schedule] b run] .
  moreover have "\<exists>y. r = Inr y"
    using run by (auto simp: schedule_expiry_def expiry_fires_def clear_scope_def on_store_def
        read_now_def act_defs split: if_splits prod.splits)
  ultimately show "outcome (\<lambda>_ _. False) (\<lambda>_. borrowed m0 i) r w'" by auto
qed

definition created_use :: "meters \<Rightarrow> string \<times> go_time \<Rightarrow> world \<Rightarrow> bool" where
  "created_use m0 x w \<longleftrightarrow>
     (if fst x = '''' then unchanged_uses m0 w else borrowed m0 (fst x) w)"

lemma triple_create_uses:
  "triple (unchanged_uses m0) (create_grant r d vals) (outcome (\<lambda>_. free_uses m0) (created_use m0))"
  unfolding create_grant_def
proof (intro triple_if, goal_cases)
  case 1
  show ?case by (rule triple_ret) (simp add: created_use_def)
next
  case 2
  show ?case
  proof (rule uses_then [OF observer_ask], rule uses_then [OF observer_ask],
      rule triple_andthen [OF triple_add_uses], goal_cases)
    case (3 rid rnonce res)
    show ?case
    proof (cases res)
      case (Inl x)
      then show ?thesis by (auto intro!: triple_fail unchanged_free)
    next
      case (Inr a)
      have cached: "triple (borrowed m0 (ra_id a)) (cache_resolved_values (ra_id a) (ra_expires_at a) vals)
          (\<lambda>_. borrowed m0 (ra_id a))"
        by (intro triple_borrowed_keep drops_cache_values)
      have scheduled: "triple (borrowed m0 (ra_id a)) (andthen (schedule_expiry (ra_id a) (ra_expires_at a))
          (\<lambda>_. ret (ra_id a, ra_expires_at a))) (outcome (\<lambda>_. free_uses m0) (created_use m0))"
        if "ra_id a \<noteq> ''''"
        by (rule triple_andthen [where E = "\<lambda>_ _. False" and R = "\<lambda>_. borrowed m0 (ra_id a)"])
          (use that in \<open>auto intro!: triple_ret triple_schedule_runs simp: created_use_def\<close>)
      have "triple (borrowed m0 (ra_id a))
          (attempt (cache_resolved_values (ra_id a) (ra_expires_at a) vals) (\<lambda>cached.
            case cached of
              Inl x \<Rightarrow> andthen (rollback_approval (ra_id a)) (\<lambda>_. fail x)
            | Inr _ \<Rightarrow> andthen (schedule_expiry (ra_id a) (ra_expires_at a)) (\<lambda>_.
                ret (ra_id a, ra_expires_at a))))
          (outcome (\<lambda>_. free_uses m0) (created_use m0))" if "ra_id a \<noteq> ''''"
        by (rule triple_attempt [OF cached])
          (auto intro!: triple_undo triple_rollback_free scheduled that split: sum.splits)
      then show ?thesis unfolding Inr sum.case by (rule triple_conj_pre)
    qed
  qed simp_all
qed

abbreviation holds :: "meters \<Rightarrow> issued_grant \<Rightarrow> world \<Rightarrow> bool" where
  "holds m0 g \<equiv> holds_use m0 (snd g)"

lemma keeps_free_fail:
  "observer a \<Longrightarrow> triple (unchanged_uses m0) (andthen a (\<lambda>_. fail x)) (outcome (\<lambda>_. free_uses m0) Q)"
  by (rule uses_then) (auto intro!: triple_fail unchanged_free)

lemma triple_or_request_error_uses:
  assumes "triple P a (outcome (\<lambda>_. free_uses m0) Q)"
  shows "triple P (or_request_error r a) (outcome (\<lambda>_. free_uses m0) Q)"
  unfolding or_request_error_def
proof (rule triple_attempt [OF assms])
  fix res
  have "triple (free_uses m0) (request_error r x) (outcome (\<lambda>_. free_uses m0) Q)" for x
    unfolding request_error_def
    by (intro triple_if triple_fail triple_attempt [OF uses_observer(2) [OF observer_active(2), unfolded keeps_def]])
      (auto intro!: triple_fail split: sum.splits)
  then show "triple (outcome (\<lambda>_. free_uses m0) Q res)
      (case res of Inl x \<Rightarrow> request_error r x | Inr v \<Rightarrow> ret v) (outcome (\<lambda>_. free_uses m0) Q)"
    by (cases res) (auto intro: triple_ret)
qed

lemma triple_fresh_uses:
  "triple (unchanged_uses m0) (fresh_grant c r) (outcome (\<lambda>_. free_uses m0) (holds m0))"
  unfolding fresh_grant_def
proof (rule uses_then [OF observer_audit(1)], rule uses_then [OF observer_approval(1)], goal_cases)
  case (1 _ answer)
  have create: "triple (unchanged_uses m0) (andthen (create_grant r d vals) (\<lambda>(i, t). ret (g i,
      \<lparr>gd_approval_id = i, gd_mutation_id = i, gd_expires_at = t\<rparr>)))
      (outcome (\<lambda>_. free_uses m0) (holds m0))" for d vals and g :: "string \<Rightarrow> grant"
  proof (rule triple_andthen [OF triple_create_uses])
    show "triple (created_use m0 x) (case x of (i, t) \<Rightarrow> ret (g i,
        \<lparr>gd_approval_id = i, gd_mutation_id = i, gd_expires_at = t\<rparr>))
        (outcome (\<lambda>_. free_uses m0) (holds m0))" for x
      by (cases x) (auto intro!: triple_ret simp: created_use_def holds_use_def unchanged_free split: if_splits)
  qed simp
  show ?case
    by (cases answer) (auto intro!: keeps_free_fail observer_approval uses_then observer_active
        observer_audit observer_or_request_error observer_resolve create)
qed

lemma triple_reused_or_fresh_uses:
  "triple (unchanged_uses m0) (reused_or_fresh_grant c r) (outcome (\<lambda>_. free_uses m0) (holds m0))"
  unfolding reused_or_fresh_grant_def
proof (rule triple_andthen [OF triple_or_request_error_uses [OF triple_issue_reusable_uses]], goal_cases)
  case (1 reused)
  show ?case
  proof (cases reused)
    case None
    have "triple (unchanged_uses m0) (if er_reuse_only r
        then andthen (or_request_error r (record_reusable_miss (co_request_id c) r))
          (\<lambda>_. fail (Err (BrokerErr ErrNoReusableApproval)))
        else or_request_error r (fresh_grant c r)) (outcome (\<lambda>_. free_uses m0) (holds m0))"
      by (intro triple_if keeps_free_fail observer_or_request_error observer_approval
          triple_or_request_error_uses triple_fresh_uses)
    then show ?thesis unfolding None option.case by (rule triple_pre) (simp add: issued_use_def)
  next
    case (Some g)
    then show ?thesis by (auto intro!: triple_ret simp: issued_use_def split: prod.splits)
  qed
qed simp

lemma triple_or_rollback_uses:
  assumes "drops a" "\<And>x. triple (holds_use m0 d) (f x) (outcome (\<lambda>_. free_uses m0) Q)"
  shows "triple (holds_use m0 d) (andthen (or_rollback_delivery d a) f) (outcome (\<lambda>_. free_uses m0) Q)"
proof (rule triple_andthen)
  have k: "triple (holds_use m0 d) a (\<lambda>_. holds_use m0 d)"
    using keeps_drops [OF waning_holds assms(1)] by (simp add: keeps_def)
  show "triple (holds_use m0 d) (or_rollback_delivery d a)
      (outcome (\<lambda>_. free_uses m0) (\<lambda>_. holds_use m0 d))"
    unfolding or_rollback_delivery_def
    by (rule triple_attempt [OF k])
      (auto intro!: triple_undo triple_holds_rollback triple_ret split: sum.splits)
qed (use assms(2) in auto)

lemma triple_issue_uses:
  "triple (unchanged_uses m0) (issue c r) (outcome (\<lambda>_. free_uses m0) (holds m0))"
  unfolding issue_def
proof (rule uses_then [OF observer_active(2)], rule triple_andthen [OF triple_reused_or_fresh_uses],
    goal_cases)
  case (1 _ g)
  show ?case unfolding split_beta
    by (intro triple_or_rollback_uses drops_ensure_grant drops_observer observer_audit triple_ret) simp
qed simp

lemma triple_prepare_uses:
  "triple (unchanged_uses m0) (prepare_exec_delivery c r)
     (outcome (\<lambda>_. free_uses m0) (\<lambda>x. holds_use m0 (ed_delivery x)))"
  unfolding prepare_exec_delivery_def
proof (rule uses_then [OF observer_guards(1)], rule uses_then [OF observer_guards(2)],
    rule uses_then [OF observer_audit(3)], rule uses_then [OF observer_reads(1)], rule triple_if,
    goal_cases)
  case 1
  show ?case by (auto intro!: triple_fail unchanged_free)
next
  case 2
  show ?case
  proof (rule triple_andthen [OF triple_issue_uses], goal_cases)
    case (1 g)
    have "drops (activate_exec c r)"
      unfolding activate_exec_def
      by (intro drops_andthen drops_observer [OF observer_guards(2)] drops_modify) simp
    then have "triple (holds m0 g) (activate_exec c r) (\<lambda>_. holds m0 g)"
      using keeps_drops [OF waning_holds] by (simp add: keeps_def)
    then have "triple (holds m0 g) (attempt (activate_exec c r) (\<lambda>res.
        case res of
          Inl x \<Rightarrow> andthen (finish_delivery_before_payload (snd g)) (\<lambda>_. fail x)
        | Inr _ \<Rightarrow> ret \<lparr>ed_correlation = c, ed_request = r, ed_grant = fst g, ed_delivery = snd g,
                        ed_finalized = False\<rparr>))
        (outcome (\<lambda>_. free_uses m0) (\<lambda>x. holds_use m0 (ed_delivery x)))"
      by (rule triple_attempt)
        (auto intro!: triple_undo triple_holds_finish triple_ret split: sum.splits)
    then show ?case by (simp add: split_beta)
  qed simp
qed

end
