(* ===== verification/BrokerStop.thy ===== *)
theory BrokerStop
  imports BrokerHandlers Observers
begin

text \<open>
  Stopping the daemon: \<open>Broker.StopWithAuditEvent\<close> forgets everything the broker holds, and no later
  step brings any of it back or reaches the outside for a secret.
\<close>

section \<open>The stopped state\<close>

definition forgotten :: "world \<Rightarrow> bool" where
  "forgotten w \<longleftrightarrow> w_stopped w \<and> w_store w = Map.empty \<and> w_cache w = Map.empty \<and>
     w_timers w = Map.empty \<and> w_active w = Map.empty \<and>
     ss_sessions (w_sessions w) = Map.empty \<and> ss_tokens (w_sessions w) = Map.empty"

lemma inert_forgotten [simp]: "inert forgotten"
  by (simp add: inert_def forgotten_def)

lemma forgotten_tick [simp]: "forgotten (w\<lparr>w_tick := n\<rparr>) = forgotten w"
  by (simp add: forgotten_def)

lemma keeps_forgotten_observer: "observer a \<Longrightarrow> keeps forgotten a"
  by (rule keeps_observer) simp_all

text \<open>A handler that starts with the stop check is refused.\<close>

definition refused :: "'a act \<Rightarrow> bool" where
  "refused a \<longleftrightarrow> (\<forall>e w w' r. forgotten w \<longrightarrow> a e w = (w', r) \<longrightarrow>
     isl r \<and> forgotten w' \<and> w_trace w' = w_trace w)"

lemma refuse_if_stopped_stops:
  "w_stopped w \<Longrightarrow> refuse_if_stopped e w = (w\<lparr>w_tick := Suc (w_tick w)\<rparr>, Inl stopped_error)"
  by (simp add: refuse_if_stopped_def read_stopped_def act_defs)

lemma refused_check: "refused (andthen refuse_if_stopped f)"
  unfolding refused_def
  by (auto simp: andthen_def refuse_if_stopped_stops forgotten_def)

lemma refused_correlation: "refused a \<Longrightarrow> refused (andthen (require_correlation c) (\<lambda>_. a))"
  unfolding refused_def
  by (auto simp: require_correlation_def act_defs)

lemma refused_andthen: "refused a \<Longrightarrow> refused (andthen a f)"
  unfolding refused_def
  by (auto simp: andthen_def isl_def split: prod.splits sum.splits) blast+

lemma refused_handlers:
  "refused (prepare_exec_delivery c r)" "refused (handle_session_create c sq peer)"
  "refused (prepare_session_resolve c rq peer)" "refused (handle_session_destroy dq)"
  "refused handle_session_list" "refused (handle_item_describe c iq)"
  "refused (report_started c pid)" "refused (report_completed c n sig)"
  unfolding prepare_exec_delivery_def handle_session_create_def prepare_session_resolve_def
    handle_session_destroy_def handle_session_list_def handle_item_describe_def Let_def
    report_started_def report_completed_def active_request_def
  by (intro refused_correlation refused_check refused_andthen)+

section \<open>Later steps\<close>

lemma refused_keeps: "refused a \<Longrightarrow> keeps forgotten a"
  unfolding refused_def by (rule keepsI) blast

lemma stop_forgets:
  assumes "stop_with_audit_event ev e w = (w', r)"
  shows "forgotten w'"
proof -
  obtain w1 x where a: "record_stop_attempt ev e (w\<lparr>w_stopped := True\<rparr>) = (w1, x)"
    by (cases "record_stop_attempt ev e (w\<lparr>w_stopped := True\<rparr>)")
  have "x = Inr ()"
    using a by (auto simp: record_stop_attempt_def record_best_effort_audit_def ignore_error_def
        act_defs split: prod.splits)
  moreover have "w_stopped w1" using observer_same(6) [OF observer_guards(5) a] by simp
  ultimately show ?thesis
    using assms a by (auto simp: stop_with_audit_event_def andthen_def modify_def forgotten_def
        manager_clear_def clear_reusable_def cache_clear_def session_clear_def)
qed

lemma keeps_forgotten_rest:
  "keeps forgotten (exec_before_write d)" "keeps forgotten (exec_commit_delivered d)"
  "keeps forgotten (exec_abort_before_payload d)" "keeps forgotten (client_disconnected rid)"
  "keeps forgotten (session_before_write sd)" "keeps forgotten (session_commit_delivered sd)"
  "keeps forgotten (session_abort_before_payload sd)" "keeps forgotten (expiry_fires i)"
proof -
  have store: "keeps forgotten (on_store (\<lambda>st. remove_reusable st i))"
    "keeps forgotten (on_store (\<lambda>st. finish_reusable_attempt now st i result))" for i now result
    by (rule keepsI; auto simp: on_store_def remove_reusable_def finish_reusable_attempt_def
        forgotten_def)+
  have clear: "keeps forgotten (clear_scope i)" for i
    unfolding clear_scope_def by (rule keeps_modify) (auto simp: forgotten_def cache_clear_scope_def)
  have clear_error: "keeps forgotten (clear_scope_for_reusable_error a x)" for a x
    unfolding clear_scope_for_reusable_error_def by (intro keeps_parts clear)
  have rollback: "keeps forgotten (rollback_approval i)" for i
    unfolding rollback_approval_def by (intro keeps_parts store clear)
  have finish: "keeps forgotten (finish_delivery i result)" for i result
    unfolding finish_delivery_def finish_attempt_def finish_delivery_error_def
    by (intro keeps_parts keeps_forgotten_observer observer_reads store clear clear_error)
  have active: "keeps forgotten (ensure_grant_still_active r i t)" for r i t
    unfolding ensure_grant_still_active_def ensure_approval_active_def
    by (intro keeps_parts keeps_forgotten_observer observer_reads observer_active rollback)
  have deliver: "keeps forgotten (finish_delivery_before_payload d)"
    "keeps forgotten (finish_delivery_after_payload d)" for d
    unfolding finish_delivery_before_payload_def finish_delivery_after_payload_def ignore_error_def
    by (intro keeps_parts finish)+
  have session: "keeps forgotten (finish_reservation t b)" for t b
    unfolding finish_reservation_def
    by (intro keeps_andthen keeps_forgotten_observer observer_reads keepsI)
      (auto simp: on_sessions_def session_finish_def forgotten_def split: prod.splits)
  have drop: "keeps forgotten (deactivate_exec c)" for c
    unfolding deactivate_exec_def by (rule keeps_modify) (auto simp: forgotten_def)
  show "keeps forgotten (exec_before_write d)" "keeps forgotten (exec_commit_delivered d)"
    "keeps forgotten (exec_abort_before_payload d)" "keeps forgotten (client_disconnected rid)"
    "keeps forgotten (session_before_write sd)" "keeps forgotten (session_commit_delivered sd)"
    "keeps forgotten (session_abort_before_payload sd)" "keeps forgotten (expiry_fires i)"
    unfolding exec_before_write_def ensure_payload_writable_def exec_commit_delivered_def
      exec_abort_before_payload_def client_disconnected_def session_before_write_def Let_def
      session_commit_delivered_def session_abort_before_payload_def expiry_fires_def
    by (intro keeps_andthen keeps_if keeps_ret keeps_gets keeps_case_option active deliver session drop
        store clear keeps_forgotten_observer observer_audit observer_guards keeps_modify;
        simp add: forgotten_def)+
qed

lemmas forgotten_results = keeps_forgotten_rest [THEN keepsD, rotated]
  refused_handlers [THEN refused_keeps, THEN keepsD, rotated]

lemma forgotten_step: "broker_step w w' \<Longrightarrow> forgotten w \<Longrightarrow> forgotten w'"
proof (induction rule: broker_step.induct)
  case (step_stop ev e w w' y)
  then show ?case using stop_forgets by blast
qed (auto dest: forgotten_results)

lemma forgotten_forever: "broker_step\<^sup>*\<^sup>* w w' \<Longrightarrow> forgotten w \<Longrightarrow> forgotten w'"
  by (induction rule: rtranclp_induct) (auto intro: forgotten_step)

end
