(* ===== verification/BrokerProperties.thy ===== *)
theory BrokerProperties
  imports BrokerSamples GrantTimers ApprovalGate UseAccounting BrokerStop
begin

text \<open>
  The properties of the broker as a whole: what an exec request or a session may hand out, what has
  to happen before a secret is read, what a failed request leaves behind, and what a stop leaves.
\<close>

section \<open>Reachable states\<close>

lemma reachable_timed: "broker_step\<^sup>*\<^sup>* new_world w \<Longrightarrow> timed {} w"
proof (induction rule: rtranclp_induct)
  case base
  show ?case by (simp add: timed_def new_world_def policy_ok_def)
next
  case (step w w')
  from step.hyps(2) step.IH show ?case
    by (induction rule: broker_step.induct) (auto dest: keeps_timed_results)
qed

lemma reachable_store_ok: "broker_step\<^sup>*\<^sup>* new_world w \<Longrightarrow> store_ok w"
  using reachable_timed [of w] by (simp add: timed_def store_ok_def)

lemma reachable_session_run: "broker_step\<^sup>*\<^sup>* new_world (fst (session_run approve_once))"
  by (rule r_into_rtranclp, rule step_session_create [OF sample_session_run])
    (simp add: validate_max_reads_None sample_session_reads max_session_reads_def)

section \<open>Values\<close>

text \<open>
C1: Whatever happened before, the values that an exec request delivers are those of the secrets it
asks for: there is a value for every alias of the request and for nothing else, and each is a value
that the resolver returned for the secret behind that alias (for the same reference, account,
source and endpoints), in this request or, through the cache, in an earlier one.
\<close>
theorem exec_values_resolved:
  assumes "broker_step\<^sup>*\<^sup>* new_world w" "prepare_exec_delivery c r e w = (w', Inr d)"
  shows "dom (gr_env (ed_grant d)) = se_alias ` set (er_secrets r) \<and>
    (\<forall>a v. gr_env (ed_grant d) a = Some v \<longrightarrow>
      (\<exists>s i. find_secret (er_secrets r) a = Some s \<and> same_secret i s \<and>
         Fetched i (Inr v) \<in> set (w_trace w')))"
  using tripleD [OF triple_prepare_exec reachable_ok [OF assms(1)] assms(2)]
  by (simp add: env_sound_def resolved_def)

theorem exec_values_resolved_witness:
  "\<exists>s i. find_secret (er_secrets sample_request) ''API_TOKEN'' = Some s \<and> same_secret i s \<and>
     Fetched i (Inr ''s3cret'') \<in> set (w_trace (fst (exec_run approve_twice)))"
  using exec_values_resolved [OF rtranclp.rtrancl_refl sample_exec_run] exec_run_value by blast

lemma triple_case_prod: "(\<And>x y. triple P (f x y) Q) \<Longrightarrow> triple P (case r of (x, y) \<Rightarrow> f x y) Q"
  by (cases r) simp

text \<open>A successful resolution reserved a read in the session store it found.\<close>

lemma prepare_session_reserves:
  "triple (\<lambda>w. w_sessions w = S) (prepare_session_resolve c q peer)
     (outcome (\<lambda>_ _. True) (\<lambda>d _. \<exists>fs tree now s'.
        session_reserve fs tree now S q peer = (s', Inr (sl_reservation d))))"
proof -
  let ?found = "\<lambda>x. \<exists>fs tree now s'. session_reserve fs tree now S q peer = (s', Inr x)"
  have inert: "inert (\<lambda>w. w_sessions w = S)" by (simp add: inert_def)
  have first: "triple (\<lambda>w. w_sessions w = S) a (outcome (\<lambda>_ _. True) (\<lambda>_ w. w_sessions w = S))"
    if "observer a" for a :: "'b act"
    by (rule triple_conseq [OF keeps_triple [OF keeps_observer [OF inert that]]])
      (auto simp: outcome_def split: sum.splits)
  have reserve: "triple (\<lambda>w. w_sessions w = S) (on_sessions (\<lambda>s. session_reserve fs tree now s q peer))
      (outcome (\<lambda>_ _. True) (\<lambda>res _. \<forall>x. res = Inr x \<longrightarrow> ?found x))" for fs tree now
    by (auto simp: triple_def on_sessions_def outcome_def simp del: split_paired_Ex split: prod.splits)
  have last: "triple (\<lambda>_. ?found x) (attempt (activate_exec c active) (\<lambda>res. case res of
        Inl e \<Rightarrow> andthen (finish_reservation (sx_token x) False) (\<lambda>_. fail e)
      | Inr _ \<Rightarrow> ret \<lparr>sl_correlation = c, sl_request = q, sl_active_request = active,
                      sl_reservation = x, sl_finalized = False\<rparr>))
      (outcome (\<lambda>_ _. True) (\<lambda>d _. ?found (sl_reservation d)))" for x active
    by (auto simp: triple_def attempt_def andthen_def fail_def ret_def outcome_def
        split: prod.splits sum.splits)
  have any: "triple (\<lambda>_. b) a (outcome (\<lambda>_ _. True) (\<lambda>_ _. b))" for b and a :: "'b act"
    by (auto simp: triple_def outcome_def split: sum.splits)
  have go: "triple (\<lambda>w. w_sessions w = S) (andthen a f) (outcome (\<lambda>_ _. True) Q)"
    if "observer a" "\<And>x. triple (\<lambda>w. w_sessions w = S) (f x) (outcome (\<lambda>_ _. True) Q)"
    for a :: "'b act" and f :: "'b \<Rightarrow> 'c act" and Q
    by (rule triple_andthen [OF first [OF that(1)] that(2)]) simp
  have rest: "triple (\<lambda>_. \<forall>x. res = Inr x \<longrightarrow> ?found x) (andthen (lift_result res) f)
      (outcome (\<lambda>_ _. True) (\<lambda>d _. ?found (sl_reservation d)))"
    if "\<And>x. triple (\<lambda>_. ?found x) (f x) (outcome (\<lambda>_ _. True) (\<lambda>d _. ?found (sl_reservation d)))"
    for res and f :: "session_reservation \<Rightarrow> session_resolve_delivery act"
    by (rule triple_andthen [OF triple_lift_result that]) (auto simp: outcome_def split: sum.splits)
  have skip: "triple (\<lambda>_. b) (andthen a f) (outcome (\<lambda>_ _. True) Q)"
    if "\<And>x. triple (\<lambda>_. b) (f x) (outcome (\<lambda>_ _. True) Q)"
    for b and a :: "'b act" and f :: "'b \<Rightarrow> 'c act" and Q
    by (rule triple_andthen [OF any that]) simp
  show ?thesis
    unfolding prepare_session_resolve_def Let_def
    by (intro go observer_guards observer_audit observer_ask observer_reads triple_case_prod
        triple_andthen [OF reserve] rest skip last) simp
qed

text \<open>
C3: The same for a session: a resolution delivers a value for exactly the aliases that the request
names, or for all aliases of the session when it names none, and for nothing else. Each value is one
that the resolver returned for the secret that the session stores behind that alias.
\<close>
theorem session_values_resolved:
  assumes "broker_step\<^sup>*\<^sup>* new_world w" "prepare_session_resolve c q peer e w = (w', Inr d)"
  shows "\<exists>a rec x. ss_tokens (w_sessions w) (sv_token q) = Some a \<and> rec = ss_heap (w_sessions w) a \<and>
    x = sl_reservation d \<and>
    dom (sx_env x) = asked_aliases rec q \<and> set (sx_aliases x) = asked_aliases rec q \<and>
    se_alias ` set (sx_secrets x) = asked_aliases rec q \<and>
    (\<forall>k v. sx_env x k = Some v \<longrightarrow>
      (\<exists>s i. find_secret (sr_secrets rec) k = Some s \<and> s \<in> set (sx_secrets x) \<and> same_secret i s \<and>
         Fetched i (Inr v) \<in> set (w_trace w')))"
proof -
  from tripleD [OF prepare_session_reserves refl assms(2)] obtain fs tree now s'
    where "session_reserve fs tree now (w_sessions w) q peer = (s', Inr (sl_reservation d))" by auto
  from session_reserve_Inr [OF this] obtain a where a: "ss_tokens (w_sessions w) (sv_token q) = Some a"
    and sel: "select_session_aliases (ss_heap (w_sessions w) a) (sv_aliases q) =
      Inr (sx_secrets (sl_reservation d), sx_env (sl_reservation d), sx_aliases (sl_reservation d))"
    by auto
  have "env_sound (sx_secrets (sl_reservation d)) (sx_env (sl_reservation d)) w'"
    using tripleD [OF triple_prepare_session reachable_ok [OF assms(1)] assms(2)] by simp
  moreover have "find_secret (sx_secrets (sl_reservation d)) k = find_secret (sr_secrets (ss_heap (w_sessions w) a)) k"
    if "sx_env (sl_reservation d) k = Some v" for k v
    using select_aliases_selects [OF sel] that by (simp add: selects_def)
  ultimately have "\<exists>s i. find_secret (sr_secrets (ss_heap (w_sessions w) a)) k = Some s \<and>
      s \<in> set (sx_secrets (sl_reservation d)) \<and> same_secret i s \<and> Fetched i (Inr v) \<in> set (w_trace w')"
    if "sx_env (sl_reservation d) k = Some v" for k v
    using that find_secret_Some(1) unfolding env_sound_def resolved_def by metis
  with a select_aliases_exact(1-3) [OF sel] show ?thesis by blast
qed
theorem session_values_resolved_witness:
  "\<exists>a s i. ss_tokens (w_sessions (fst (session_run approve_once))) (sv_token sample_resolve) = Some a \<and>
     dom (sx_env (sl_reservation (projr (snd resolve_run)))) =
       asked_aliases (ss_heap (w_sessions (fst (session_run approve_once))) a) sample_resolve \<and>
     s \<in> set (sx_secrets (sl_reservation (projr (snd resolve_run)))) \<and> same_secret i s \<and>
     Fetched i (Inr ''s3cret'') \<in> set (w_trace (fst resolve_run))"
proof -
  from session_values_resolved [OF reachable_session_run sample_resolve_run] obtain a where
    "ss_tokens (w_sessions (fst (session_run approve_once))) (sv_token sample_resolve) = Some a"
    "dom (sx_env (sl_reservation (projr (snd resolve_run)))) =
       asked_aliases (ss_heap (w_sessions (fst (session_run approve_once))) a) sample_resolve"
    "\<forall>k v. sx_env (sl_reservation (projr (snd resolve_run))) k = Some v \<longrightarrow>
       (\<exists>s i. find_secret (sr_secrets (ss_heap (w_sessions (fst (session_run approve_once))) a)) k = Some s \<and>
          s \<in> set (sx_secrets (sl_reservation (projr (snd resolve_run)))) \<and> same_secret i s \<and>
          Fetched i (Inr v) \<in> set (w_trace (fst resolve_run)))" by metis
  with resolve_run_value show ?thesis by metis
qed

section \<open>Approval before reading\<close>

lemma gate_run:
  assumes "\<And>t0. keeps (closed_gate A t0) a" "a e w = (w', res)"
  shows "\<exists>l. w_trace w' = l @ w_trace w \<and> gated A l"
  using keepsD [OF assms(1) [of "w_trace w"] _ assms(2)] by (auto simp: closed_gate_def)

text \<open>
C2: An exec request reads no secret before it is authorised: in what the request adds to the trace,
every fetch stands after an approval of exactly the payload of this request, or, when the request
forces a refresh, after the audit record of the reused approval.
\<close>
theorem exec_reads_authorized:
  assumes "prepare_exec_delivery c r e w = (w', res)"
  shows "\<exists>l. w_trace w' = l @ w_trace w \<and> gated (exec_authorized c r) l"
  by (rule gate_run [OF gate_prepare_exec assms])

theorem exec_reads_authorized_witness:
  "\<exists>l. w_trace (fst (exec_run approve_twice)) = l @ [] \<and>
     gated (exec_authorized sample_correlation sample_request) l"
  using exec_reads_authorized [OF sample_exec_run] by (simp add: new_world_def)

text \<open>
C4: Creating a session reads no secret before an approval of a payload of this very request.
\<close>
theorem session_reads_authorized:
  assumes "handle_session_create c q peer e w = (w', res)"
  shows "\<exists>l. w_trace w' = l @ w_trace w \<and>
    gated (\<lambda>l. \<exists>b. approved_by (new_session_create_payload c q b) l) l"
  by (rule gate_run [OF gate_session_create assms])

theorem session_reads_authorized_witness:
  "\<exists>l. w_trace (fst (session_run approve_once)) = l @ [] \<and>
     gated (\<lambda>l. \<exists>b. approved_by (new_session_create_payload sample_correlation sample_session b) l) l"
  using session_reads_authorized [OF sample_session_run] by (simp add: new_world_def)

text \<open>
  Describing an item asks the resolver nothing before an approval of exactly this description.
\<close>
theorem item_reads_authorized:
  assumes "handle_item_describe c t e w = (w', res)"
  shows "\<exists>l. w_trace w' = l @ w_trace w \<and> gated (approved_by (new_item_describe_payload c t)) l"
  by (rule gate_run [OF gate_item_describe assms])

theorem item_reads_authorized_witness:
  "\<exists>l. w_trace (fst (item_run approve_once)) = l @ [] \<and>
     gated (approved_by (new_item_describe_payload sample_correlation sample_item)) l"
  using item_reads_authorized [OF sample_item_run] by (simp add: new_world_def)

section \<open>Uses\<close>

text \<open>
C13: An exec request that fails costs no use: afterwards every approval is gone, or has the counters
it had before, or is a new one with nothing used or held. One that succeeds holds at most one use,
of the approval its delivery names.
\<close>
theorem exec_uses_accounted:
  assumes "broker_step\<^sup>*\<^sup>* new_world w" "prepare_exec_delivery c r e w = (w', res)"
  shows "case res of
      Inl x \<Rightarrow> free_uses (meter w) w'
    | Inr d \<Rightarrow> holds_use (meter w) (ed_delivery d) w'"
  using tripleD [OF triple_prepare_uses start_unchanged [OF reachable_store_ok [OF assms(1)]] assms(2)]
  by (simp add: outcome_def)

theorem exec_uses_accounted_witness:
  "free_uses (meter new_world) (fst (exec_run deny)) \<and>
   holds_use (meter new_world) (ed_delivery (projr (snd (exec_run approve_twice))))
     (fst (exec_run approve_twice))"
  using exec_uses_accounted [OF rtranclp.rtrancl_refl sample_exec_denied]
    exec_uses_accounted [OF rtranclp.rtrancl_refl sample_exec_run] by simp

section \<open>Deadlines\<close>



section \<open>Stopping\<close>



end
