(* ===== verification/SessionRefinement.thy ===== *)
theory SessionRefinement
  imports SessionStore
begin

text \<open>
  The session store against an abstract specification. The code keeps two maps to shared mutable
  records; seen from outside it is one map from tokens to sessions, on which every operation has a
  simple description: creating, reserving, finishing, destroying one or all, listing, clearing. The invariant \<open>maps_agree\<close> says that the two maps lead to the same records;
  creating a session keeps it when the random id and token are new.
\<close>

section \<open>The abstract store\<close>

type_synonym session_map = "string \<rightharpoonup> session_record"

definition spec_reserve ::
  "file_system \<Rightarrow> ancestry \<Rightarrow> go_time \<Rightarrow> session_map \<Rightarrow> session_resolve_request \<Rightarrow> peer_info \<Rightarrow>
   session_map \<times> (err + session_reservation)" where
  "spec_reserve fs tree now m q peer =
     (case validate_peer fs peer (sv_expected_peer q) of
        Some e \<Rightarrow> (m, Inl (Wrap (StoreErr ErrSessionPeerMismatch) e))
      | None \<Rightarrow>
     (case m (sv_token q) of
        None \<Rightarrow> (m, Inl (Err (StoreErr ErrSessionNotFound)))
      | Some r \<Rightarrow>
          if \<not> now < sr_expires_at r
          then (m(sv_token q := None), Inl (Err (ApprovalErr ErrRequestExpired)))
          else if sr_cwd r \<noteq> sv_cwd q then (m, Inl peer_mismatch)
          else
            (case validate_session_peer tree (sr_binding r) peer of
               Some e \<Rightarrow> (m, Inl e)
             | None \<Rightarrow>
                 if sr_reads r + sr_reserved r \<ge> sr_max_reads r
                 then (m(sv_token q := None), Inl (Err (StoreErr ErrSessionReadExhausted)))
                 else
                   (case select_session_aliases r (sv_aliases q) of
                      Inl e \<Rightarrow> (m, Inl e)
                    | Inr (ss, env, as) \<Rightarrow>
                        (m(sv_token q \<mapsto> r\<lparr>sr_reserved := sr_reserved r + 1\<rparr>),
                         Inr \<lparr>sx_session_id = sr_id r, sx_token = sr_token r,
                           sx_reason = sr_reason r, sx_cwd = sr_cwd r, sx_secrets = ss,
                           sx_env = env, sx_aliases = as, sx_expires_at = sr_expires_at r,
                           sx_max_reads = sr_max_reads r,
                           sx_remaining = sr_max_reads r - sr_reads r - sr_reserved r - 1,
                           sx_override_env = sr_override_env r\<rparr>)))))"

definition spec_finish :: "go_time \<Rightarrow> session_map \<Rightarrow> string \<Rightarrow> bool \<Rightarrow> session_map" where
  "spec_finish now m t delivered =
     (case m t of
        None \<Rightarrow> m
      | Some r \<Rightarrow>
          if sr_reserved r \<le> 0 then m
          else
            (let r' = finished_record r delivered
             in if sr_reads r' \<ge> sr_max_reads r' \<or> \<not> now < sr_expires_at r'
                then m(t := None) else m(t \<mapsto> r')))"

definition spec_destroy :: "session_map \<Rightarrow> string \<Rightarrow> session_map" where
  "spec_destroy m i = (\<lambda>t. case m t of
     None \<Rightarrow> None | Some r \<Rightarrow> if sr_id r = i then None else Some r)"

text \<open>\<open>create\<close> adds one session with everything the approved request says and no read used.\<close>

definition spec_create ::
  "random_read \<Rightarrow> random_read \<Rightarrow> session_map \<Rightarrow> session_create_request \<Rightarrow> (string \<rightharpoonup> string) \<Rightarrow>
   peer_binding \<Rightarrow> session_map \<times> (err + session_summary)" where
  "spec_create rid rtoken m q env binding =
     (case generate_id rid ''asid'' of
        Inl e \<Rightarrow> (m, Inl e)
      | Inr i \<Rightarrow>
          (case generate_id rtoken ''astok'' of
             Inl e \<Rightarrow> (m, Inl e)
           | Inr t \<Rightarrow>
               (let rec = \<lparr>sr_id = i, sr_token = t, sr_reason = sc_reason q, sr_cwd = sc_cwd q,
                      sr_secrets = sc_secrets q, sr_env = env,
                      sr_aliases = secret_aliases (sc_secrets q), sr_expires_at = sc_expires_at q,
                      sr_max_reads = sc_max_reads q, sr_binding = binding, sr_reads = 0,
                      sr_reserved = 0, sr_override_env = sc_override_env q\<rparr>
                in (m(t \<mapsto> rec), Inr (session_summary_of rec)))))"

text \<open>\<open>list\<close> drops what is expired or used up and shows the rest.\<close>

definition readable :: "go_time \<Rightarrow> session_record \<Rightarrow> bool" where
  "readable now r \<longleftrightarrow> now < sr_expires_at r \<and> sr_reads r + sr_reserved r < sr_max_reads r"

definition spec_list :: "go_time \<Rightarrow> session_map \<Rightarrow> session_map" where
  "spec_list now m = (\<lambda>t. case m t of
     None \<Rightarrow> None | Some r \<Rightarrow> if readable now r then Some r else None)"

text \<open>What \<open>list\<close> returns: the readable sessions, each once, by expiry and id.\<close>

definition lists_readable :: "go_time \<Rightarrow> session_map \<Rightarrow> session_summary list \<Rightarrow> bool" where
  "lists_readable now m out \<longleftrightarrow>
     sorted (map (\<lambda>x. (sm_expires_at x, sm_session_id x)) out) \<and>
     distinct (map sm_session_id out) \<and>
     set out = session_summary_of ` {r \<in> ran m. readable now r}"

section \<open>The representation\<close>

lemma by_token_delete: "by_token (delete_record s r) = (by_token s)(sr_token r := None)"
  by (auto simp: by_token_def fun_eq_iff)

lemma by_token_heap:
  assumes "session_ok s" "ss_tokens s t = Some a"
  shows "by_token (s\<lparr>ss_heap := (ss_heap s)(a := r)\<rparr>) = (by_token s)(t \<mapsto> r)"
proof
  fix u
  have "ss_tokens s u \<noteq> Some a" if "u \<noteq> t"
    using session_okD [OF assms(1), of u a] session_okD [OF assms] that by auto
  then show "by_token (s\<lparr>ss_heap := (ss_heap s)(a := r)\<rparr>) u = ((by_token s)(t \<mapsto> r)) u"
    using assms(2) by (cases "ss_tokens s u") (auto simp: by_token_def)
qed

lemma by_token_Some: "session_ok s \<Longrightarrow> ss_tokens s t = Some a \<Longrightarrow>
    by_token s t = Some (ss_heap s a) \<and> sr_token (ss_heap s a) = t"
  using session_okD [of s t a] by (simp add: by_token_def)

lemma session_reserve_refines:
  assumes "session_ok s"
  shows "spec_reserve fs tree now (by_token s) q peer =
    (by_token (fst (session_reserve fs tree now s q peer)), snd (session_reserve fs tree now s q peer))"
proof (cases "ss_tokens s (sv_token q)")
  case None
  then have "by_token s (sv_token q) = None" by (simp add: by_token_def)
  with None show ?thesis
    by (simp add: spec_reserve_def session_reserve_def split: option.splits)
next
  case (Some a)
  note b = by_token_Some [OF assms Some]
  have ok: "reads_ok (ss_heap s a)" using session_okD [OF assms Some] by simp
  show ?thesis
    using b ok
    by (auto simp: spec_reserve_def session_reserve_def Some Let_def by_token_delete
        by_token_heap [OF assms Some] remaining_reads_def split: option.splits sum.splits)
qed

lemma session_finish_refines:
  assumes "session_ok s"
  shows "by_token (session_finish now s t d) = spec_finish now (by_token s) t d"
proof (cases "ss_tokens s t")
  case None
  then show ?thesis by (simp add: spec_finish_def session_finish_def by_token_def)
next
  case (Some a)
  note b = by_token_Some [OF assms Some]
  have f: "sr_token (finished_record r d) = sr_token r" for r by (simp add: finished_record_def)
  show ?thesis
    using b
    by (simp add: spec_finish_def session_finish_def Some Let_def finished_record_def [symmetric]
        by_token_delete by_token_heap [OF assms Some] f)
qed

lemma session_create_spec:
  assumes "session_ok s"
  shows "spec_create rid rtoken (by_token s) q env b =
    (by_token (fst (session_create rid rtoken s q env b)), snd (session_create rid rtoken s q env b))"
proof -
  have "by_token \<lparr>ss_sessions = X, ss_tokens = (ss_tokens s)(t \<mapsto> ss_next s),
      ss_heap = (ss_heap s)(ss_next s := rec), ss_next = n\<rparr> = (by_token s)(t \<mapsto> rec)"
    for X n t and rec :: session_record
  proof
    fix u
    have "ss_tokens s u \<noteq> Some (ss_next s)" using session_okD [OF assms] by fastforce
    then show "by_token \<lparr>ss_sessions = X, ss_tokens = (ss_tokens s)(t \<mapsto> ss_next s),
      ss_heap = (ss_heap s)(ss_next s := rec), ss_next = n\<rparr> u = ((by_token s)(t \<mapsto> rec)) u"
      by (cases "ss_tokens s u") (auto simp: by_token_def)
  qed
  then show ?thesis
    by (auto simp: spec_create_def session_create_def Let_def split: sum.splits)
qed

section \<open>The two maps agree\<close>

definition maps_agree :: "session_store \<Rightarrow> bool" where
  "maps_agree s \<longleftrightarrow> session_ok s \<and>
     (\<forall>i a. ss_sessions s i = Some a \<longrightarrow>
        a < ss_next s \<and> sr_id (ss_heap s a) = i \<and> ss_tokens s (sr_token (ss_heap s a)) = Some a) \<and>
     (\<forall>t a. ss_tokens s t = Some a \<longrightarrow> ss_sessions s (sr_id (ss_heap s a)) = Some a)"

lemma maps_agreeD:
  "maps_agree s \<Longrightarrow> ss_sessions s i = Some a \<Longrightarrow>
     a < ss_next s \<and> sr_id (ss_heap s a) = i \<and> ss_tokens s (sr_token (ss_heap s a)) = Some a"
  "maps_agree s \<Longrightarrow> ss_tokens s t = Some a \<Longrightarrow>
     ss_sessions s (sr_id (ss_heap s a)) = Some a \<and> sr_token (ss_heap s a) = t"
  using session_okD [of s t a] by (auto simp: maps_agree_def)

lemma maps_agree_new: "maps_agree new_session_store"
  by (simp add: maps_agree_def new_session_store_def session_ok_def)

text \<open>Removing the record of a session removes it from both maps.\<close>

lemma maps_agree_delete:
  assumes "maps_agree s" "ss_tokens s t = Some a"
  shows "maps_agree (delete_record s (ss_heap s a))"
proof -
  have "ss_sessions s i = Some b \<Longrightarrow> sr_token (ss_heap s b) = sr_token (ss_heap s a) \<Longrightarrow> b = a" for i b
    using maps_agreeD(1) [OF assms(1), of i b] maps_agreeD(2) [OF assms] assms(2)
    by (metis option.inject)
  moreover have "ss_tokens s u = Some b \<Longrightarrow> sr_id (ss_heap s b) = sr_id (ss_heap s a) \<Longrightarrow> b = a" for u b
    using maps_agreeD(2) [OF assms(1), of u b] maps_agreeD(2) [OF assms] by (metis option.inject)
  moreover have "session_ok s" using assms(1) by (simp add: maps_agree_def)
  ultimately have d: "ss_sessions s i = Some b \<Longrightarrow> b \<noteq> a \<Longrightarrow>
      sr_token (ss_heap s b) \<noteq> sr_token (ss_heap s a)"
    "ss_tokens s u = Some b \<Longrightarrow> b \<noteq> a \<Longrightarrow> sr_id (ss_heap s b) \<noteq> sr_id (ss_heap s a)" for i u b
    by blast+
  show ?thesis
    unfolding maps_agree_def
  proof (intro conjI allI impI)
    show "session_ok (delete_record s (ss_heap s a))"
      using assms(1) by (simp add: maps_agree_def delete_record_ok)
  next
    fix i b assume i: "ss_sessions (delete_record s (ss_heap s a)) i = Some b"
    then have i': "ss_sessions s i = Some b" "i \<noteq> sr_id (ss_heap s a)" by (simp_all split: if_splits)
    from maps_agreeD(1) [OF assms(1) i'(1)] i'(2) have "b \<noteq> a" by auto
    from maps_agreeD(1) [OF assms(1) i'(1)] d(1) [OF i'(1) this]
    show "b < ss_next (delete_record s (ss_heap s a))" "sr_id (ss_heap (delete_record s (ss_heap s a)) b) = i"
      "ss_tokens (delete_record s (ss_heap s a)) (sr_token (ss_heap (delete_record s (ss_heap s a)) b)) = Some b"
      by simp_all
  next
    fix u b assume u: "ss_tokens (delete_record s (ss_heap s a)) u = Some b"
    then have u': "ss_tokens s u = Some b" "u \<noteq> sr_token (ss_heap s a)" by (simp_all split: if_splits)
    from maps_agreeD(2) [OF assms(1) u'(1)] u'(2) have "b \<noteq> a" by auto
    from maps_agreeD(2) [OF assms(1) u'(1)] d(2) [OF u'(1) this]
    show "ss_sessions (delete_record s (ss_heap s a)) (sr_id (ss_heap (delete_record s (ss_heap s a)) b)) = Some b"
      by simp
  qed
qed

lemma maps_agree_heap:
  assumes "maps_agree s" "ss_tokens s t = Some a" "reads_ok r"
    and "sr_token r = sr_token (ss_heap s a)" "sr_id r = sr_id (ss_heap s a)"
  shows "maps_agree (s\<lparr>ss_heap := (ss_heap s)(a := r)\<rparr>)"
proof -
  have "session_ok (s\<lparr>ss_heap := (ss_heap s)(a := r)\<rparr>)"
    using assms maps_agreeD(2) [OF assms(1,2)] by (intro heap_update_ok) (auto simp: maps_agree_def)
  then show ?thesis using assms(1,4,5) by (simp add: maps_agree_def)
qed

lemma maps_agree_reserve:
  assumes "maps_agree s"
  shows "maps_agree (fst (session_reserve fs tree now s q peer))"
proof (cases "session_reserve fs tree now s q peer")
  case (Pair s' res)
  show ?thesis
  proof (cases res)
    case (Inl e)
    with Pair session_reserve_Inl [of fs tree now s q peer s' e] assms maps_agree_delete
    show ?thesis by auto
  next
    case (Inr x)
    with Pair session_reserve_Inr [of fs tree now s q peer s' x] obtain a
      where a: "ss_tokens s (sv_token q) = Some a"
        "sr_reads (ss_heap s a) + sr_reserved (ss_heap s a) < sr_max_reads (ss_heap s a)"
        "s' = s\<lparr>ss_heap := (ss_heap s)(a := (ss_heap s a)\<lparr>sr_reserved := sr_reserved (ss_heap s a) + 1\<rparr>)\<rparr>"
      by auto
    have "reads_ok (ss_heap s a)" using assms session_okD a(1) by (auto simp: maps_agree_def)
    with a(2) show ?thesis unfolding Pair a(3)
      by (simp add: maps_agree_heap [OF assms a(1)] reads_ok_def)
  qed
qed

lemma maps_agree_finish: "maps_agree s \<Longrightarrow> maps_agree (session_finish now s t d)"
proof -
  assume ok: "maps_agree s"
  consider "session_finish now s t d = s"
    | a where "ss_tokens s t = Some a" "0 < sr_reserved (ss_heap s a)"
      "session_finish now s t d = s\<lparr>ss_heap := (ss_heap s)(a := finished_record (ss_heap s a) d)\<rparr> \<or>
       session_finish now s t d = delete_record (s\<lparr>ss_heap := (ss_heap s)(a := finished_record (ss_heap s a) d)\<rparr>)
         (finished_record (ss_heap s a) d)"
    using session_finish_cases [of now s t d] by (auto simp: Let_def)
  then show ?thesis
  proof cases
    case 1
    with ok show ?thesis by simp
  next
    case (2 a)
    let ?s = "s\<lparr>ss_heap := (ss_heap s)(a := finished_record (ss_heap s a) d)\<rparr>"
    have "reads_ok (ss_heap s a)" using ok session_okD 2(1) by (auto simp: maps_agree_def)
    then have s: "maps_agree ?s"
      using 2(2) by (intro maps_agree_heap [OF ok 2(1)]) (auto simp: finished_record_def reads_ok_def)
    from maps_agree_delete [OF s, of t a] 2(1,3) s show ?thesis by auto
  qed
qed

lemma maps_agree_create:
  assumes "maps_agree s" "session_create rid rtoken s r env b = (s', Inr sm)" "0 \<le> sc_max_reads r"
    and "ss_sessions s (sm_session_id sm) = None" "ss_tokens s (sm_session_token sm) = None"
  shows "maps_agree s'"
proof -
  have ok: "session_ok s" using assms(1) by (simp add: maps_agree_def)
  have ok': "session_ok s'" using session_create_ok [OF ok assms(3), of rid rtoken env b] assms(2) by simp
  from session_create_Inr(3) [OF assms(2)] obtain rec where
    rec: "ss_heap s' = (ss_heap s)(ss_next s := rec)" "sm = session_summary_of rec" by blast
  then have ids: "sr_id rec = sm_session_id sm" "sr_token rec = sm_session_token sm"
    by (simp_all add: session_summary_of_def)
  have old: "a < ss_next s \<and> a \<noteq> ss_next s" if "ss_sessions s i = Some a \<or> ss_tokens s i = Some a" for i a
    using that maps_agreeD(1) [OF assms(1), of i a] session_okD [OF ok, of i a] by auto
  show ?thesis
    unfolding maps_agree_def
  proof (intro conjI allI impI ok')
    fix i a assume i: "ss_sessions s' i = Some a"
    show "a < ss_next s'" "sr_id (ss_heap s' a) = i" "ss_tokens s' (sr_token (ss_heap s' a)) = Some a"
      using i old [of i a] maps_agreeD(1) [OF assms(1), of i a] assms(5) ids
      by (auto simp: session_create_Inr(4-6) [OF assms(2)] rec(1) split: if_splits)
  next
    fix t a assume t: "ss_tokens s' t = Some a"
    show "ss_sessions s' (sr_id (ss_heap s' a)) = Some a"
    proof (cases "t = sm_session_token sm")
      case True
      with t ids show ?thesis by (simp add: session_create_Inr(4-6) [OF assms(2)] rec(1))
    next
      case False
      with t have t': "ss_tokens s t = Some a" by (simp add: session_create_Inr(5) [OF assms(2)])
      with maps_agreeD(2) [OF assms(1) t'] old [of t a] assms(4) show ?thesis
        by (auto simp: session_create_Inr(6) [OF assms(2)] rec(1))
    qed
  qed
qed

lemma maps_agree_destroy: "maps_agree s \<Longrightarrow> maps_agree (fst (session_destroy s i))"
  using maps_agreeD(1) [of s i] maps_agree_delete
  by (auto simp: session_destroy_def split: option.splits)

lemma session_destroy_refines:
  assumes "maps_agree s"
  shows "by_token (fst (session_destroy s i)) = spec_destroy (by_token s) i"
    "snd (session_destroy s i) \<longleftrightarrow> (\<exists>r \<in> ran (by_token s). sr_id r = i)"
proof -
  have tok: "ss_sessions s (sr_id r) = Some a \<and> sr_token r = t \<and> r = ss_heap s a"
    if "ss_tokens s t = Some a" "by_token s t = Some r" for t a r
    using maps_agreeD(2) [OF assms that(1)] that by (simp add: by_token_def)
  have "by_token (fst (session_destroy s i)) = spec_destroy (by_token s) i \<and>
    (snd (session_destroy s i) \<longleftrightarrow> (\<exists>r \<in> ran (by_token s). sr_id r = i))"
  proof (cases "ss_sessions s i")
    case None
    have no: "sr_id r \<noteq> i" if "by_token s t = Some r" for t r
    proof -
      from that obtain a where "ss_tokens s t = Some a" by (auto simp: by_token_def)
      from tok [OF this that] None show ?thesis by auto
    qed
    then have "spec_destroy (by_token s) i = by_token s"
      by (auto simp: spec_destroy_def fun_eq_iff split: option.splits)
    with None no show ?thesis by (auto simp: session_destroy_def ran_def)
  next
    case (Some a)
    note a = maps_agreeD(1) [OF assms Some]
    have bt: "by_token s (sr_token (ss_heap s a)) = Some (ss_heap s a)" using a by (simp add: by_token_def)
    have "((by_token s)(sr_token (ss_heap s a) := None)) t = spec_destroy (by_token s) i t" for t
    proof (cases "by_token s t")
      case None
      then show ?thesis by (simp add: spec_destroy_def)
    next
      case (Some r)
      then obtain b where "ss_tokens s t = Some b" by (auto simp: by_token_def)
      from tok [OF this Some] have r: "ss_sessions s (sr_id r) = Some b" "sr_token r = t" "r = ss_heap s b"
        by blast+
      have "t = sr_token (ss_heap s a) \<longleftrightarrow> sr_id r = i"
      proof
        assume "t = sr_token (ss_heap s a)"
        with Some bt a show "sr_id r = i" by simp
      next
        assume "sr_id r = i"
        with r \<open>ss_sessions s i = Some a\<close> show "t = sr_token (ss_heap s a)" by simp
      qed
      with Some show ?thesis by (simp add: spec_destroy_def)
    qed
    then have "(by_token s)(sr_token (ss_heap s a) := None) = spec_destroy (by_token s) i" ..
    moreover have "\<exists>r \<in> ran (by_token s). sr_id r = i" using bt a by (auto simp: ran_def)
    ultimately show ?thesis by (simp add: session_destroy_def Some by_token_delete)
  qed
  then show "by_token (fst (session_destroy s i)) = spec_destroy (by_token s) i"
    "snd (session_destroy s i) \<longleftrightarrow> (\<exists>r \<in> ran (by_token s). sr_id r = i)" by blast+
qed

section \<open>Listing and clearing\<close>

lemma by_id_token:
  assumes "maps_agree s"
  shows "by_id s i = Some r \<longleftrightarrow> by_token s (sr_token r) = Some r \<and> sr_id r = i"
    "by_token s t = Some r \<Longrightarrow> sr_token r = t"
  using maps_agreeD [OF assms] by (fastforce simp: by_id_def by_token_def)+

lemma by_id_None: "maps_agree s \<Longrightarrow> by_id s i = None \<Longrightarrow> by_token s t = Some r \<Longrightarrow> sr_id r \<noteq> i"
  using by_id_token [of s] by (metis option.distinct(1))

text \<open>The effect of the loop on the sessions whose ids it visits.\<close>

definition swept :: "go_time \<Rightarrow> string set \<Rightarrow> session_map \<Rightarrow> session_map" where
  "swept now I m = (\<lambda>t. case m t of None \<Rightarrow> None
     | Some r \<Rightarrow> if sr_id r \<in> I \<and> \<not> readable now r then None else Some r)"

definition shown :: "go_time \<Rightarrow> string set \<Rightarrow> session_map \<Rightarrow> session_record set" where
  "shown now I m = {r \<in> ran m. sr_id r \<in> I \<and> readable now r}"

lemma swept_cong:
  "(\<And>t r. m t = Some r \<Longrightarrow> sr_id r \<in> I \<and> \<not> readable now r \<longleftrightarrow> sr_id r \<in> J \<and> \<not> readable now r) \<Longrightarrow>
     swept now I m = swept now J m"
proof (rule ext)
  fix t assume c: "\<And>t r. m t = Some r \<Longrightarrow> sr_id r \<in> I \<and> \<not> readable now r \<longleftrightarrow> sr_id r \<in> J \<and> \<not> readable now r"
  show "swept now I m t = swept now J m t"
    using c [of t] by (cases "m t") (simp_all add: swept_def)
qed

lemma sweep_absent:
  assumes "maps_agree s" "by_id s i = None"
  shows "swept now (insert i I) (by_token s) = swept now I (by_token s)"
    "shown now (insert i I) (by_token s) = shown now I (by_token s)"
proof -
  have ne: "sr_id r \<noteq> i" if "by_token s t = Some r" for t r using by_id_None [OF assms that] .
  then show "swept now (insert i I) (by_token s) = swept now I (by_token s)"
    by (intro swept_cong) simp
  from ne show "shown now (insert i I) (by_token s) = shown now I (by_token s)"
    unfolding shown_def by (intro Collect_cong) (auto simp: ran_def)
qed

lemma one_of_id:
  "maps_agree s \<Longrightarrow> by_id s i = Some r \<Longrightarrow> by_token s t = Some q \<Longrightarrow> sr_id q = i \<Longrightarrow> q = r"
  using by_id_token [of s] by (metis option.inject)

lemma sweep_keep:
  assumes "maps_agree s" "by_id s i = Some r" "readable now r"
  shows "swept now (insert i I) (by_token s) = swept now I (by_token s)"
    "shown now (insert i I) (by_token s) = insert r (shown now I (by_token s))"
proof -
  note one = one_of_id [OF assms(1,2)]
  have r: "by_token s (sr_token r) = Some r" "sr_id r = i" using by_id_token(1) [OF assms(1)] assms(2) by blast+
  show "swept now (insert i I) (by_token s) = swept now I (by_token s)"
    by (intro swept_cong) (use one assms(3) in blast)
  have "q \<in> ran (by_token s) \<and> sr_id q \<in> insert i I \<and> readable now q \<longleftrightarrow>
      q = r \<or> q \<in> ran (by_token s) \<and> sr_id q \<in> I \<and> readable now q" for q
  proof (cases "q = r")
    case True
    moreover have "r \<in> ran (by_token s)" using r(1) by (rule ranI)
    ultimately show ?thesis using r assms(3) by simp
  next
    case False
    then have "q \<in> ran (by_token s) \<Longrightarrow> sr_id q \<noteq> i" using one unfolding ran_def by blast
    with False show ?thesis by blast
  qed
  then show "shown now (insert i I) (by_token s) = insert r (shown now I (by_token s))"
    unfolding shown_def by blast
qed

lemma ran_by_token_delete:
  assumes "maps_agree s" "by_id s i = Some r"
  shows "ran (by_token (delete_record s r)) = ran (by_token s) - {r}"
proof -
  have r: "by_token s (sr_token r) = Some r" using by_id_token(1) [OF assms(1)] assms(2) by blast
  have "t \<noteq> sr_token r \<longleftrightarrow> q \<noteq> r" if "by_token s t = Some q" for t q
    using by_id_token(2) [OF assms(1) that] r that by (metis option.inject)
  then show ?thesis unfolding by_token_delete ran_def by (auto split: if_splits)
qed

lemma sweep_delete:
  assumes "maps_agree s" "by_id s i = Some r" "\<not> readable now r" "i \<notin> I"
  shows "swept now (insert i I) (by_token s) = swept now I (by_token (delete_record s r))"
    "shown now (insert i I) (by_token s) = shown now I (by_token (delete_record s r))"
proof -
  note one = one_of_id [OF assms(1,2)]
  have r: "by_token s (sr_token r) = Some r" "sr_id r = i" using by_id_token(1) [OF assms(1)] assms(2) by blast+
  show "swept now (insert i I) (by_token s) = swept now I (by_token (delete_record s r))"
  proof (rule ext)
    fix t
    show "swept now (insert i I) (by_token s) t = swept now I (by_token (delete_record s r)) t"
    proof (cases "by_token s t")
      case (Some q)
      have "t \<noteq> sr_token r \<Longrightarrow> sr_id q \<noteq> i"
        using one [OF Some] by_id_token(2) [OF assms(1) Some] by blast
      with Some r assms(3) show ?thesis
        by (cases "t = sr_token r") (simp_all add: swept_def by_token_delete)
    qed (simp add: swept_def by_token_delete)
  qed
  have "q \<in> ran (by_token s) \<Longrightarrow> sr_id q = i \<Longrightarrow> \<not> readable now q" for q
    using one assms(3) unfolding ran_def by blast
  then show "shown now (insert i I) (by_token s) = shown now I (by_token (delete_record s r))"
    unfolding shown_def ran_by_token_delete [OF assms(1,2)] using assms(3) r(2) assms(4) by blast
qed

lemma list_loop_refines:
  assumes "list_loop now is s out = (s', out')" "maps_agree s" "distinct is"
  shows "maps_agree s' \<and> by_token s' = swept now (set is) (by_token s) \<and>
    (\<exists>rs. out' = out @ map session_summary_of rs \<and> distinct (map sr_id rs) \<and>
       set rs = shown now (set is) (by_token s))"
  using assms
proof (induction now "is" s out rule: list_loop.induct)
  case (1 now s out)
  then show ?case by (auto simp: swept_def shown_def fun_eq_iff split: option.splits)
next
  case (2 now i "is" s out)
  show ?case
  proof (cases "by_id s i")
    case None
    with 2 show ?thesis by (simp add: sweep_absent)
  next
    case (Some r)
    have live: "\<not> now < sr_expires_at r \<or> sr_max_reads r \<le> sr_reads r + sr_reserved r \<longleftrightarrow> \<not> readable now r"
      by (auto simp: readable_def)
    have i: "sr_id r = i" "by_token s (sr_token r) = Some r" using by_id_token(1) [OF "2.prems"(2)] Some by blast+
    show ?thesis
    proof (cases "readable now r")
      case True
      with Some "2.prems"(1) live have run: "list_loop now is s (out @ [session_summary_of r]) = (s', out')"
        by simp
      from "2.IH"(3) [OF Some _ run "2.prems"(2)] "2.prems"(3) live True obtain rs where
        IH: "maps_agree s'" "by_token s' = swept now (set is) (by_token s)"
        "out' = out @ map session_summary_of (r # rs)" "distinct (map sr_id rs)"
        "set rs = shown now (set is) (by_token s)" by auto
      have "sr_id q \<in> set is" if "q \<in> set rs" for q using that unfolding IH(5) shown_def by blast
      then have "sr_id r \<notin> sr_id ` set rs" using i(1) "2.prems"(3) by (metis distinct.simps(2) imageE)
      with IH(4) have "distinct (map sr_id (r # rs))" by (simp only: list.map distinct.simps set_map) simp
      with IH show ?thesis by (metis list.set(2) sweep_keep [OF "2.prems"(2) Some True])
    next
      case False
      with Some "2.prems"(1) live have run: "list_loop now is (delete_record s r) out = (s', out')" by simp
      obtain a where "ss_tokens s (sr_token r) = Some a" "r = ss_heap s a"
        using i(2) by (auto simp: by_token_def)
      then have "maps_agree (delete_record s r)" using maps_agree_delete [OF "2.prems"(2)] by simp
      from "2.IH"(2) [OF Some _ run this] "2.prems"(3) live False
      show ?thesis by (simp add: sweep_delete [OF "2.prems"(2) Some False])
    qed
  qed
qed

lemma session_list_refines:
  assumes "maps_agree s" "distinct order" "set order = dom (ss_sessions s)"
  shows "by_token (fst (session_list order now s)) = spec_list now (by_token s)"
    "maps_agree (fst (session_list order now s))"
    "lists_readable now (by_token s) (snd (session_list order now s))"
proof -
  obtain s' out where l: "list_loop now order s [] = (s', out)" by (cases "list_loop now order s []")
  have mem: "sr_id r \<in> set order" if "by_token s t = Some r" for t r
    using maps_agreeD(2) [OF assms(1)] that assms(3) by (auto simp: by_token_def)
  from list_loop_refines [OF l assms(1,2)] obtain rs where
    r: "maps_agree s'" "by_token s' = swept now (set order) (by_token s)"
    "out = map session_summary_of rs" "distinct (map sr_id rs)"
    "set rs = shown now (set order) (by_token s)" by auto
  show "by_token (fst (session_list order now s)) = spec_list now (by_token s)"
    "maps_agree (fst (session_list order now s))"
    using r(1,2) mem by (auto simp: session_list_def l spec_list_def swept_def fun_eq_iff split: option.splits)
  have "set rs = {r \<in> ran (by_token s). readable now r}" using r(5) mem by (auto simp: shown_def ran_def)
  moreover have "map sm_session_id out = map sr_id rs" by (simp add: r(3) session_summary_of_def)
  moreover have "distinct (map sm_session_id (sort_key f out)) = distinct (map sm_session_id out)"
    for f :: "session_summary \<Rightarrow> go_time \<times> string"
    by (metis mset_map mset_sort mset_eq_imp_distinct_iff)
  ultimately show "lists_readable now (by_token s) (snd (session_list order now s))"
    using r(4) by (simp add: lists_readable_def session_list_def l r(3) del: map_map)
qed

lemma session_clear_refines:
  "by_token (session_clear s) = Map.empty" "maps_agree (session_clear s)"
  "maps_agree s \<Longrightarrow> snd (session_destroy_all s) = int (card (dom (by_token s)))"
proof -
  show "by_token (session_clear s) = Map.empty" by (simp add: session_clear_def by_token_def fun_eq_iff)
  show "maps_agree (session_clear s)" by (simp add: maps_agree_def) (simp add: session_clear_def)
  assume a: "maps_agree s"
  have "bij_betw (\<lambda>i. sr_token (ss_heap s (the (ss_sessions s i)))) (dom (ss_sessions s)) (dom (by_token s))"
  proof (rule bij_betw_byWitness [where f' = "\<lambda>t. sr_id (ss_heap s (the (ss_tokens s t)))"])
  qed (use maps_agreeD [OF a] in \<open>fastforce simp: by_token_def\<close>)+
  then show "snd (session_destroy_all s) = int (card (dom (by_token s)))"
    by (simp add: session_destroy_all_def bij_betw_same_card)
qed

end
