(* ===== verification/SessionProperties.thy ===== *)
theory SessionProperties
  imports SessionRefinement BrokerSamples
begin

text \<open>
  The session store implements its abstract specification: one map from tokens to sessions.
\<close>

text \<open>
C16: The session store, with its two maps to shared records, refines one map from tokens to sessions.
While the two maps agree, every operation (create, reserve, finish, destroy, destroy all, list, clear)
does to \<open>by_token\<close> of the store what the abstract operation says, with the same result, and the maps
agree afterwards. The order of \<open>list\<close> is that of the map iteration, which visits every id once; a
created session keeps the maps in agreement when its random id and token are new.
\<close>
theorem session_store_refines:
  assumes "maps_agree s" "distinct order" "set order = dom (ss_sessions s)"
  shows "spec_create rid rtoken (by_token s) r env b =
      (by_token (fst (session_create rid rtoken s r env b)), snd (session_create rid rtoken s r env b)) \<and>
    (\<forall>s' res. session_create rid rtoken s r env b = (s', res) \<longrightarrow>
       (\<forall>sm. res = Inr sm \<longrightarrow> 0 \<le> sc_max_reads r \<and> ss_sessions s (sm_session_id sm) = None \<and>
          ss_tokens s (sm_session_token sm) = None) \<longrightarrow> maps_agree s') \<and>
    spec_reserve fs tree now (by_token s) q peer =
      (by_token (fst (session_reserve fs tree now s q peer)), snd (session_reserve fs tree now s q peer)) \<and>
    maps_agree (fst (session_reserve fs tree now s q peer)) \<and>
    by_token (session_finish now s t delivered) = spec_finish now (by_token s) t delivered \<and>
    maps_agree (session_finish now s t delivered) \<and>
    by_token (fst (session_destroy s i)) = spec_destroy (by_token s) i \<and>
    (snd (session_destroy s i) \<longleftrightarrow> (\<exists>r \<in> ran (by_token s). sr_id r = i)) \<and>
    maps_agree (fst (session_destroy s i)) \<and>
    by_token (fst (session_list order now s)) = spec_list now (by_token s) \<and>
    lists_readable now (by_token s) (snd (session_list order now s)) \<and>
    maps_agree (fst (session_list order now s)) \<and>
    by_token (fst (session_destroy_all s)) = Map.empty \<and>
    snd (session_destroy_all s) = int (card (dom (by_token s))) \<and>
    maps_agree (fst (session_destroy_all s)) \<and>
    by_token (session_clear s) = Map.empty \<and> maps_agree (session_clear s)"
proof -
  have ok: "session_ok s" using assms(1) by (simp add: maps_agree_def)
  have create: "maps_agree s'"
    if run: "session_create rid rtoken s r env b = (s', res)"
      and new: "\<forall>sm. res = Inr sm \<longrightarrow> 0 \<le> sc_max_reads r \<and> ss_sessions s (sm_session_id sm) = None \<and>
          ss_tokens s (sm_session_token sm) = None" for s' res
  proof (cases res)
    case (Inl e)
    with run session_create_Inl assms(1) show ?thesis by blast
  next
    case (Inr sm)
    with new show ?thesis by (intro maps_agree_create [OF assms(1) run [unfolded Inr]]) simp_all
  qed
  note list = session_list_refines [OF assms]
  have all: "by_token (fst (session_destroy_all s)) = Map.empty" "maps_agree (fst (session_destroy_all s))"
    by (simp_all add: session_destroy_all_def session_clear_refines)
  show ?thesis
    by (intro conjI allI impI session_reserve_refines [OF ok] maps_agree_reserve [OF assms(1)]
        session_finish_refines [OF ok] maps_agree_finish [OF assms(1)]
        session_destroy_refines [OF assms(1)] maps_agree_destroy [OF assms(1)] session_create_spec [OF ok]
        list all session_clear_refines session_clear_refines(3) [OF assms(1)])
      (rule create)
qed

definition sample_session_binding :: peer_binding where
  "sample_session_binding = \<lparr>pb_creator = sample_peer, pb_anchor = sample_process 200 ''/bin/zsh'',
     pb_policy = default_binding_policy\<rparr>"

definition sample_created :: "session_store \<times> (err + session_summary)" where
  "sample_created = session_create (Inr [1]) (Inr [2]) new_session_store sample_session
     [''API_TOKEN'' \<mapsto> ''s3cret''] sample_session_binding"

lemma sample_ids:
  "generate_id (Inr [1]) ''asid'' = Inr ''asid_01''" "generate_id (Inr [2]) ''astok'' = Inr ''astok_02''"
  by code_simp+

theorem session_store_refines_witness:
  "(\<exists>rec. by_token (fst sample_created) = [''astok_02'' \<mapsto> rec] \<and> sr_cwd rec = sc_cwd sample_session \<and>
      sr_max_reads rec = 2) \<and>
   by_token (fst (session_list [''asid_01''] (sc_expires_at sample_session) (fst sample_created))) = Map.empty \<and>
   by_token (fst (session_destroy (fst sample_created) ''asid_01'')) = Map.empty \<and>
   snd (session_destroy_all (fst sample_created)) = 1"
proof -
  have new: "by_token new_session_store = Map.empty" "ss_sessions new_session_store = Map.empty"
      "ss_tokens new_session_store = Map.empty"
    by (auto simp: by_token_def new_session_store_def)
  have "distinct ([] :: string list)" "set [] = dom (ss_sessions new_session_store)" by (simp_all add: new)
  note empty = session_store_refines [OF maps_agree_new this, of "Inr [1]" "Inr [2]" sample_session
      "[''API_TOKEN'' \<mapsto> ''s3cret'']" sample_session_binding]
  from empty have spec: "spec_create (Inr [1]) (Inr [2]) Map.empty sample_session
      [''API_TOKEN'' \<mapsto> ''s3cret''] sample_session_binding = (by_token (fst sample_created), snd sample_created)"
    unfolding new(1) sample_created_def by blast
  have "\<exists>rec q. spec_create (Inr [1]) (Inr [2]) Map.empty sample_session [''API_TOKEN'' \<mapsto> ''s3cret'']
      sample_session_binding = ([''astok_02'' \<mapsto> rec], q) \<and> sr_id rec = ''asid_01'' \<and>
      sr_cwd rec = sc_cwd sample_session \<and> sr_max_reads rec = 2 \<and>
      sr_expires_at rec = sc_expires_at sample_session"
    unfolding spec_create_def sample_ids sum.case Let_def
    by (rule exI, rule exI, rule conjI, rule refl) (simp add: sample_session_reads)
  with spec obtain rec where rec: "by_token (fst sample_created) = [''astok_02'' \<mapsto> rec]" "sr_id rec = ''asid_01''"
      "sr_cwd rec = sc_cwd sample_session" "sr_max_reads rec = 2" "sr_expires_at rec = sc_expires_at sample_session"
    by auto
  have run: "session_create (Inr [1]) (Inr [2]) new_session_store sample_session
      [''API_TOKEN'' \<mapsto> ''s3cret''] sample_session_binding = (fst sample_created, snd sample_created)"
    by (simp add: sample_created_def)
  from empty run have agree: "maps_agree (fst sample_created)"
    unfolding new(2,3) by (metis (no_types, lifting) sample_session_reads zero_le_numeral)
  have dom: "distinct [''asid_01'']" "set [''asid_01''] = dom (ss_sessions (fst sample_created))"
    by (simp_all add: sample_created_def session_create_def sample_ids new_session_store_def Let_def)
  note full = session_store_refines [OF agree dom]
  have "\<not> readable (sc_expires_at sample_session) rec" by (simp add: readable_def rec(5))
  then have "spec_list (sc_expires_at sample_session) (by_token (fst sample_created)) = Map.empty"
    by (auto simp: spec_list_def rec(1) fun_eq_iff)
  moreover have "spec_destroy (by_token (fst sample_created)) ''asid_01'' = Map.empty"
    by (auto simp: spec_destroy_def rec(1,2) fun_eq_iff)
  moreover have "int (card (dom (by_token (fst sample_created)))) = 1" by (simp add: rec(1))
  ultimately show ?thesis using full rec by metis
qed

end
