(* ===== verification/PeerTrust.thy ===== *)
theory PeerTrust
  imports Identity
begin

text \<open>
  Who may talk to whom: \<open>internal/daemon/trust\<close> (code signatures and property lists) and
  \<open>internal/daemon/peertrust\<close> (the clients the daemon accepts, the daemons a client accepts). The
  system's \<open>codesign\<close> tool, the bytes of property lists and the ids of the process are fields of
  \<open>trust_env\<close>.
\<close>

section \<open>Code signatures\<close>

text \<open>\<open>codesign\<close> with its arguments: the combined output and the error of the command.\<close>

type_synonym command_runner = "string list \<Rightarrow> string \<times> err option"

record signature_verifier =
  sv_path :: "string \<Rightarrow> err + string"
  sv_process :: "int \<Rightarrow> err + string"

text \<open>The texts of the two errors are dropped; they wrap nothing.\<close>

fun team_id_of_lines :: "string list \<Rightarrow> err + string" where
  "team_id_of_lines [] = Inl (Text ''codesign output missing TeamIdentifier'')"
| "team_id_of_lines (l # ls) =
     (if has_prefix (trim_space l) ''TeamIdentifier='' then
        (let team = trim_space (trim_prefix (trim_space l) ''TeamIdentifier='')
         in if team = '''' then Inl (Text ''codesign output has empty TeamIdentifier'') else Inr team)
      else team_id_of_lines ls)"

definition team_id_from_output :: "string \<Rightarrow> err + string" where
  "team_id_from_output out = team_id_of_lines (split_byte (char_of (10::nat)) out)"

definition verify_target_with_runner :: "command_runner \<Rightarrow> string \<Rightarrow> err + string" where
  "verify_target_with_runner run target =
     (case run [''--verify'', ''--strict'', ''--deep'', target] of
        (out, Some e) \<Rightarrow> Inl e
      | (out, None) \<Rightarrow>
     (case run [''-dv'', ''--verbose=4'', target] of
        (out, Some e) \<Rightarrow> Inl e
      | (out, None) \<Rightarrow> team_id_from_output out))"

definition verify_code_signature :: "command_runner \<Rightarrow> string \<Rightarrow> err + string" where
  "verify_code_signature run path = verify_target_with_runner run path"

definition verify_process_code_signature :: "command_runner \<Rightarrow> int \<Rightarrow> err + string" where
  "verify_process_code_signature run pid =
     (if pid \<le> 0 then Inl (Text ''invalid process id'')
      else verify_target_with_runner run (CHR ''+'' # int_text pid))"

definition codesign_verifier :: "command_runner \<Rightarrow> signature_verifier" where
  "codesign_verifier run = \<lparr>sv_path = verify_code_signature run,
     sv_process = verify_process_code_signature run\<rparr>"

definition development_team_id :: string where
  "development_team_id = ''-''"

text \<open>The team id to require, and whether to enforce it.\<close>

definition expected_team_id :: "string \<Rightarrow> sentinel \<Rightarrow> err + string \<times> bool" where
  "expected_team_id team kind =
     (let t = trim_space team
      in if t = '''' then Inl (Err kind)
         else if t = development_team_id then Inr (t, False) else Inr (t, True))"

definition validate_peer_signature ::
  "peer_info \<Rightarrow> string \<Rightarrow> string \<Rightarrow> signature_verifier \<Rightarrow> sentinel \<Rightarrow> err option" where
  "validate_peer_signature info path team v kind =
     (if pi_pid info \<le> 0 then Some (Err kind)
      else case sv_path v path of
        Inl e \<Rightarrow> Some (Wrap kind e)
      | Inr t \<Rightarrow>
          if t \<noteq> team then Some (Err kind)
          else case sv_process v (pi_pid info) of
            Inl e \<Rightarrow> Some (Wrap kind e)
          | Inr t' \<Rightarrow> if t' \<noteq> team then Some (Err kind) else None)"

definition signed_by :: "signature_verifier \<Rightarrow> string \<Rightarrow> string \<Rightarrow> peer_info \<Rightarrow> bool" where
  "signed_by v team path info \<longleftrightarrow>
     0 < pi_pid info \<and> sv_path v path = Inr team \<and> sv_process v (pi_pid info) = Inr team"

lemma validate_peer_signature_None_iff:
  "validate_peer_signature info path team v kind = None \<longleftrightarrow> signed_by v team path info"
  by (auto simp: validate_peer_signature_def signed_by_def split: sum.splits)

lemma expected_team_id_Inr:
  "expected_team_id team kind = Inr (t, enforce) \<Longrightarrow>
     t = trim_space team \<and> t \<noteq> '''' \<and> (enforce \<longleftrightarrow> t \<noteq> development_team_id)"
  by (auto simp: expected_team_id_def Let_def split: if_splits)

lemma team_id_of_lines_Inr: "team_id_of_lines ls = Inr t \<Longrightarrow> t \<noteq> ''''"
  by (induction ls) (auto simp: Let_def split: if_splits)

lemma codesign_verifier_process:
  "sv_process (codesign_verifier run) pid = Inr t \<Longrightarrow> 0 < pid"
  by (auto simp: codesign_verifier_def verify_process_code_signature_def split: if_splits)

section \<open>Property lists\<close>

text \<open>
  \<open>PlistString\<close> reads the tokens of Go's XML decoder: a start element carries its local name and
  what \<open>DecodeElement\<close> reads of it (the elements \<open>key\<close> and \<open>string\<close> are consumed with their
  contents), \<open>PlistBad\<close> is a syntax error, the end of the list is \<open>io.EOF\<close>.
\<close>

datatype plist_token = PlistStart string "err + string" | PlistOther | PlistBad err

fun plist_find :: "sentinel \<Rightarrow> string \<Rightarrow> string \<Rightarrow> plist_token list \<Rightarrow> err + string" where
  "plist_find kind key current [] = Inl (Err kind)"
| "plist_find kind key current (PlistBad e # ts) = Inl (Wrap kind e)"
| "plist_find kind key current (PlistOther # ts) = plist_find kind key current ts"
| "plist_find kind key current (PlistStart name body # ts) =
     (if name = ''key'' then
        (case body of Inl e \<Rightarrow> Inl (Wrap kind e) | Inr v \<Rightarrow> plist_find kind key v ts)
      else if name = ''string'' then
        (case body of
           Inl e \<Rightarrow> Inl (Wrap kind e)
         | Inr v \<Rightarrow> if current = key then Inr v else plist_find kind key '''' ts)
      else plist_find kind key current ts)"

definition plist_string ::
  "(string \<Rightarrow> err + plist_token list) \<Rightarrow> string \<Rightarrow> string \<Rightarrow> sentinel \<Rightarrow> err + string" where
  "plist_string rd path key kind =
     (case rd path of Inl e \<Rightarrow> Inl (Wrap kind e) | Inr ts \<Rightarrow> plist_find kind key '''' ts)"

text \<open>A property list whose dictionary has string values only, as the decoder sees it.\<close>

definition plist_tokens :: "(string \<times> string) list \<Rightarrow> plist_token list" where
  "plist_tokens kvs =
     PlistStart ''plist'' (Inr '''') # PlistStart ''dict'' (Inr '''') #
     concat (map (\<lambda>(k, v). [PlistOther, PlistStart ''key'' (Inr k), PlistOther, PlistStart ''string'' (Inr v)]) kvs)"

lemma plist_find_tokens:
  "key \<noteq> '''' \<Longrightarrow>
   plist_find kind key current (concat (map (\<lambda>(k, v).
      [PlistOther, PlistStart ''key'' (Inr k), PlistOther, PlistStart ''string'' (Inr v)]) kvs)) =
     (case map_of kvs key of None \<Rightarrow> Inl (Err kind) | Some v \<Rightarrow> Inr v)"
  by (induction kvs arbitrary: current) auto

text \<open>Reading back a dictionary of strings gives the first value of the key.\<close>

lemma plist_string_dict:
  "rd path = Inr (plist_tokens kvs) \<Longrightarrow> key \<noteq> '''' \<Longrightarrow>
   plist_string rd path key kind = (case map_of kvs key of None \<Rightarrow> Inl (Err kind) | Some v \<Rightarrow> Inr v)"
  by (simp add: plist_string_def plist_tokens_def plist_find_tokens)


section \<open>App bundles\<close>

function enclosing_app :: "string \<Rightarrow> string option" where
  "enclosing_app dir =
     (if path_ext dir = ''.app'' then Some dir
      else let parent = path_dir dir in if parent = dir then None else enclosing_app parent)"
  by pat_completeness auto
termination
  by (relation "measure path_weight") (auto simp: path_dir_weight)

declare enclosing_app.simps [simp del]

definition containing_app_bundle_path :: "string \<Rightarrow> string option" where
  "containing_app_bundle_path path = map_option path_clean (enclosing_app (path_dir path))"

definition bundled_cli_path_for_daemon :: "string \<Rightarrow> string option" where
  "bundled_cli_path_for_daemon exe =
     (case containing_app_bundle_path exe of
        None \<Rightarrow> None
      | Some bundle \<Rightarrow>
          if path_base bundle \<noteq> ''AgentSecretDaemon.app'' then None
          else let host = path_dir (path_dir (path_dir (path_dir bundle)))
               in if path_ext host \<noteq> ''.app'' then None
                  else Some (path_join [host, ''Contents'', ''Resources'', ''bin'', ''agent-secret'']))"

definition client_bundle_path :: "string \<Rightarrow> string option" where
  "client_bundle_path path =
     (if path_base path \<noteq> ''agent-secret'' then None
      else let bin = path_dir path in
        if path_base bin \<noteq> ''bin'' then None
        else let resources = path_dir bin in
          if path_base resources \<noteq> ''Resources'' then None
          else let contents = path_dir resources in
            if path_base contents \<noteq> ''Contents'' then None
            else let app = path_dir contents in
              if path_ext app \<noteq> ''.app'' then None else Some (path_clean app))"

definition client_paths_for_executable :: "string \<Rightarrow> string list" where
  "client_paths_for_executable exe =
     path_join [path_dir exe, ''agent-secret'']
       # (if path_base exe = ''agent-secret'' then [exe] else [])
       @ (case bundled_cli_path_for_daemon exe of None \<Rightarrow> [] | Some p \<Rightarrow> [p])"

definition default_client_paths :: "err + string \<Rightarrow> err + string list" where
  "default_client_paths executable =
     (case executable of Inl e \<Rightarrow> Inl e | Inr exe \<Rightarrow> Inr (client_paths_for_executable exe))"

definition current_executable_client_paths :: "err + string \<Rightarrow> err + string list" where
  "current_executable_client_paths executable =
     (case executable of Inl e \<Rightarrow> Inl e | Inr exe \<Rightarrow> Inr [exe])"

section \<open>Trusted executables\<close>

record executable =
  ex_path :: string
  ex_identity :: identity
  ex_bundle :: string

record executable_set =
  es_entries :: "executable list"
  es_team :: string
  es_kind :: "sentinel option"
  es_candidate_errs :: "err list"
  es_verifier :: signature_verifier
  es_verify :: bool

text \<open>
  The loop of \<open>newExecutableSetWithVerifier\<close>, with the paths seen so far: the entries and the
  candidate errors it collects, in order.
\<close>

fun candidate_loop ::
  "file_system \<Rightarrow> string set \<Rightarrow> string list \<Rightarrow> executable list \<times> err list" where
  "candidate_loop fs seen [] = ([], [])"
| "candidate_loop fs seen (p # ps) =
     (let raw = trim_space p in
      if raw = '''' then candidate_loop fs seen ps
      else case strict_path fs raw of
        Inl e \<Rightarrow> apsnd (Cons e) (candidate_loop fs seen ps)
      | Inr path \<Rightarrow>
          if path \<in> seen then candidate_loop fs seen ps
          else case fs_stat fs path of
            Inl e \<Rightarrow> apsnd (Cons e) (candidate_loop fs (insert path seen) ps)
          | Inr info \<Rightarrow>
              if fi_is_dir info
              then apsnd (Cons (Text ''trusted executable is a directory''))
                     (candidate_loop fs (insert path seen) ps)
              else case capture fs path of
                Inl e \<Rightarrow> apsnd (Cons e) (candidate_loop fs (insert path seen) ps)
              | Inr i \<Rightarrow>
                  apfst (Cons \<lparr>ex_path = path, ex_identity = i,
                      ex_bundle = (case client_bundle_path path of None \<Rightarrow> '''' | Some b \<Rightarrow> b)\<rparr>)
                    (candidate_loop fs (insert path seen) ps))"

definition new_executable_set_with_verifier ::
  "file_system \<Rightarrow> string list \<Rightarrow> string \<Rightarrow> sentinel option \<Rightarrow> signature_verifier \<Rightarrow> bool \<Rightarrow> executable_set" where
  "new_executable_set_with_verifier fs paths team kind v verify =
     (case candidate_loop fs {} paths of
        (entries, errs) \<Rightarrow>
          \<lparr>es_entries = entries, es_team = trim_space team, es_kind = kind,
           es_candidate_errs = errs, es_verifier = v, es_verify = verify\<rparr>)"

text \<open>On Darwin signatures are verified with \<open>codesign\<close>.\<close>

definition new_executable_set ::
  "file_system \<Rightarrow> command_runner \<Rightarrow> string list \<Rightarrow> string \<Rightarrow> sentinel \<Rightarrow> executable_set" where
  "new_executable_set fs run paths team kind =
     new_executable_set_with_verifier fs paths team (Some kind) (codesign_verifier run) True"

definition new_executable_validator ::
  "file_system \<Rightarrow> command_runner \<Rightarrow> string list \<Rightarrow> string \<Rightarrow> executable_set" where
  "new_executable_validator fs run paths team =
     new_executable_set fs run paths team (ClientErr ErrUntrustedClient)"

definition is_bundled_path :: "executable \<Rightarrow> string \<Rightarrow> bool" where
  "is_bundled_path e path \<longleftrightarrow> ex_bundle e \<noteq> '''' \<or> containing_app_bundle_path path \<noteq> None"

definition validate_executable_peer ::
  "file_system \<Rightarrow> executable \<Rightarrow> peer_info \<Rightarrow> string \<Rightarrow> string \<Rightarrow> signature_verifier \<Rightarrow> bool \<Rightarrow>
     sentinel \<Rightarrow> err option" where
  "validate_executable_peer fs x info path team v verify kind =
     (case verify_identity fs path (ex_identity x) of
        Some e \<Rightarrow> Some (Wrap kind e)
      | None \<Rightarrow>
          if ex_bundle x \<noteq> '''' \<and> client_bundle_path path \<noteq> Some (ex_bundle x) then Some (Err kind)
          else if \<not> verify \<or> (team = '''' \<and> \<not> is_bundled_path x path) then None
          else case expected_team_id team kind of
            Inl e \<Rightarrow> Some e
          | Inr (t, enforce) \<Rightarrow> if enforce then validate_peer_signature info path t v kind else None)"

definition validate_set_peer :: "file_system \<Rightarrow> executable_set \<Rightarrow> peer_info \<Rightarrow> err option" where
  "validate_set_peer fs s info =
     (let kind = (case es_kind s of None \<Rightarrow> ClientErr ErrUntrustedClient | Some k \<Rightarrow> k) in
      if pi_exe info = '''' then Some (Err kind)
      else if es_entries s = [] then
        Some (if es_candidate_errs s \<noteq> [] then Wrap kind (Joined (es_candidate_errs s)) else Err kind)
      else case strict_path fs (pi_exe info) of
        Inl e \<Rightarrow> Some (Wrap kind e)
      | Inr got \<Rightarrow>
          (case find (\<lambda>x. ex_path x = got) (es_entries s) of
             None \<Rightarrow> Some (Err kind)
           | Some x \<Rightarrow>
               validate_executable_peer fs x info got (es_team s) (es_verifier s) (es_verify s) kind))"


section \<open>Daemon peers\<close>

abbreviation untrusted_daemon :: sentinel where
  "untrusted_daemon \<equiv> ClientErr ErrUntrustedDaemon"

record trust_env =
  te_fs :: file_system
  te_plist :: "string \<Rightarrow> err + plist_token list"
  te_uid :: int
  te_gid :: int

definition default_daemon_bundle_id :: string where
  "default_daemon_bundle_id = ''com.kovyrin.agent-secret.daemon''"

definition bundle_executable_path :: "trust_env \<Rightarrow> string \<Rightarrow> err + string" where
  "bundle_executable_path te bundle =
     (case plist_string (te_plist te) (path_join [bundle, ''Contents'', ''Info.plist''])
             ''CFBundleExecutable'' untrusted_daemon of
        Inl e \<Rightarrow> Inl e
      | Inr name \<Rightarrow> Inr (path_join [bundle, ''Contents'', ''MacOS'', name]))"

definition daemon_paths_for_path :: "trust_env \<Rightarrow> string \<Rightarrow> err + string list" where
  "daemon_paths_for_path te path =
     (let p = trim_space path in
      if p = '''' then Inr []
      else if path_ext p \<noteq> ''.app'' then Inr [p]
      else case bundle_executable_path te p of Inl e \<Rightarrow> Inl e | Inr x \<Rightarrow> Inr [x])"

definition validate_daemon_peer_owner :: "trust_env \<Rightarrow> peer_info \<Rightarrow> err option" where
  "validate_daemon_peer_owner te info =
     (if pi_uid info \<noteq> te_uid te then Some (Err untrusted_daemon)
      else if pi_gid info \<noteq> te_gid te then Some (Err untrusted_daemon) else None)"

definition daemon_product_bundle_path :: "trust_env \<Rightarrow> string \<Rightarrow> err + string" where
  "daemon_product_bundle_path te path =
     (case strict_path (te_fs te) path of
        Inl e \<Rightarrow> Inl (Wrap untrusted_daemon e)
      | Inr exe \<Rightarrow>
          (case containing_app_bundle_path exe of
             None \<Rightarrow> Inl (Err untrusted_daemon)
           | Some bundle \<Rightarrow>
               if path_base bundle \<noteq> ''AgentSecretDaemon.app'' then Inl (Err untrusted_daemon)
               else case plist_string (te_plist te) (path_join [bundle, ''Contents'', ''Info.plist''])
                      ''CFBundleIdentifier'' untrusted_daemon of
                 Inl e \<Rightarrow> Inl e
               | Inr i \<Rightarrow>
                   if i \<noteq> default_daemon_bundle_id then Inl (Err untrusted_daemon) else Inr bundle))"

definition new_daemon_validator ::
  "trust_env \<Rightarrow> command_runner \<Rightarrow> string list \<Rightarrow> string \<Rightarrow> executable_set" where
  "new_daemon_validator te run paths team =
     new_executable_set (te_fs te) run paths team untrusted_daemon"

definition validate_daemon_peer :: "trust_env \<Rightarrow> executable_set \<Rightarrow> peer_info \<Rightarrow> err option" where
  "validate_daemon_peer te s info =
     or_else (validate_daemon_peer_owner te info) (validate_set_peer (te_fs te) s info)"

record daemon_product_validator =
  dv_current :: executable_set
  dv_team :: string
  dv_verifier :: signature_verifier
  dv_verify :: bool

definition new_daemon_product_validator ::
  "trust_env \<Rightarrow> command_runner \<Rightarrow> string list \<Rightarrow> string \<Rightarrow> signature_verifier \<Rightarrow> bool \<Rightarrow>
     daemon_product_validator" where
  "new_daemon_product_validator te run paths team v verify =
     \<lparr>dv_current = new_daemon_validator te run paths team, dv_team = trim_space team,
      dv_verifier = v, dv_verify = verify\<rparr>"

text \<open>\<open>releaseTeamIDRequiredError\<close>: its three texts differ, its two wrapped errors do not.\<close>

definition release_team_id_required_error :: err where
  "release_team_id_required_error = Wrap untrusted_daemon (Err (ClientErr ErrReleaseTeamIDRequired))"

definition validate_daemon_product :: "trust_env \<Rightarrow> daemon_product_validator \<Rightarrow> peer_info \<Rightarrow> err option" where
  "validate_daemon_product te v info =
     (if validate_daemon_peer te (dv_current v) info = None then None
      else case validate_daemon_peer_owner te info of
        Some e \<Rightarrow> Some e
      | None \<Rightarrow>
          if \<not> dv_verify v then Some (Err untrusted_daemon)
          else case expected_team_id (dv_team v) untrusted_daemon of
            Inl e \<Rightarrow> Some (if trim_space (dv_team v) = '''' then release_team_id_required_error else e)
          | Inr (team, enforce) \<Rightarrow>
              if \<not> enforce then Some release_team_id_required_error
              else case daemon_product_bundle_path te (pi_exe info) of
                Inl e \<Rightarrow> Some e
              | Inr bundle \<Rightarrow>
                  validate_peer_signature info bundle team (dv_verifier v) untrusted_daemon)"

definition validate_daemon_repair :: "trust_env \<Rightarrow> peer_info \<Rightarrow> err option" where
  "validate_daemon_repair te info =
     (case validate_daemon_peer_owner te info of
        Some e \<Rightarrow> Some e
      | None \<Rightarrow>
          (case daemon_product_bundle_path te (pi_exe info) of Inl e \<Rightarrow> Some e | Inr b \<Rightarrow> None))"

section \<open>What acceptance means\<close>

text \<open>An entry is what the file system said of one of the candidate paths.\<close>

lemma candidate_loop_entries:
  "x \<in> set (fst (candidate_loop fs seen ps)) \<Longrightarrow>
     (\<exists>p \<in> set ps. strict_path fs (trim_space p) = Inr (ex_path x)) \<and>
     capture fs (ex_path x) = Inr (ex_identity x) \<and> ex_path x \<notin> seen"
proof (induction ps arbitrary: seen)
  case (Cons p ps)
  then show ?case by (auto simp: Let_def split: if_splits sum.splits)
qed simp

text \<open>
  Acceptance by a set that a validator was built with, in the file system \<open>fs0\<close> of the start and
  the one, \<open>fs\<close>, of the connection.
\<close>

lemma validate_set_peer_None:
  assumes "validate_set_peer fs (new_executable_set_with_verifier fs0 paths team kind v verify) info = None"
  shows "\<exists>p \<in> set paths. \<exists>path i. strict_path fs0 (trim_space p) = Inr path \<and>
     strict_path fs (pi_exe info) = Inr path \<and> capture fs0 path = Inr i \<and> capture fs path = Inr i \<and>
     (verify \<and> trim_space team \<noteq> '''' \<and> trim_space team \<noteq> development_team_id \<longrightarrow>
        signed_by v (trim_space team) path info) \<and>
     (verify \<and> containing_app_bundle_path path \<noteq> None \<longrightarrow> trim_space team \<noteq> '''')"
proof -
  obtain entries errs where c: "candidate_loop fs0 {} paths = (entries, errs)" by fastforce
  from assms c obtain path x where sp: "strict_path fs (pi_exe info) = Inr path"
    and x: "find (\<lambda>x. ex_path x = path) entries = Some x"
    and v: "\<exists>k. validate_executable_peer fs x info path (trim_space team) v verify k = None"
    by (auto simp: validate_set_peer_def new_executable_set_with_verifier_def Let_def
        split: if_splits sum.splits option.splits)
  from x have "x \<in> set entries" "ex_path x = path" by (auto simp: find_Some_iff)
  with candidate_loop_entries [of x fs0 "{}" paths] c
  obtain p where p: "p \<in> set paths" "strict_path fs0 (trim_space p) = Inr path"
    and i: "capture fs0 path = Inr (ex_identity x)" by auto
  from v have "verify_identity fs path (ex_identity x) = None"
    by (auto simp: validate_executable_peer_def split: option.splits)
  then have i': "capture fs path = Inr (ex_identity x)" by (simp add: verify_identity_None_iff)
  from v have "signed_by v (trim_space team) path info"
    if "verify" "trim_space team \<noteq> ''''" "trim_space team \<noteq> development_team_id"
    using that by (auto simp: validate_executable_peer_def validate_peer_signature_None_iff
        expected_team_id_def Let_def split: option.splits if_splits)
  moreover from v have "trim_space team \<noteq> ''''"
    if "verify" "containing_app_bundle_path path \<noteq> None"
    using that by (auto simp: validate_executable_peer_def is_bundled_path_def
        expected_team_id_def Let_def split: option.splits if_splits)
  ultimately show ?thesis using p sp i i' by blast
qed

end
