(* ===== verification/ApproverTrust.thy ===== *)
theory ApproverTrust
  imports PeerTrust Approval
begin

text \<open>
  The approver process: which executable may be launched and which peer may answer.
  \<open>internal/daemon/approval/approval_peer.go\<close>, \<open>approver_identity.go\<close> and the decisions of
  \<open>approval_launcher.go\<close>. Starting the process is the operating system's.
\<close>

record expected_approver =
  ea_pid :: int
  ea_exe :: string
  ea_team :: string
  ea_verify :: bool
  ea_verifier :: signature_verifier

record approver_identity =
  ai_exe :: string
  ai_bundle :: string
  ai_bundle_id :: string
  ai_team :: string
  ai_expected_team :: string
  ai_verify :: bool

abbreviation peer_mismatch_error :: sentinel where
  "peer_mismatch_error \<equiv> ApprovalErr ErrApproverPeerMismatch"

abbreviation approver_identity_error :: sentinel where
  "approver_identity_error \<equiv> ApprovalErr ErrApproverIdentity"

section \<open>The peer that answers\<close>

definition validate_expected_approver :: "expected_approver \<Rightarrow> err option" where
  "validate_expected_approver x =
     (if ea_pid x \<le> 0 then Some (Err (ApprovalErr ErrApproverLaunchFailed))
      else if trim_space (ea_exe x) = '''' then Some (Err (ApprovalErr ErrApproverLaunchFailed))
      else None)"

definition comparable_approver_path :: "file_system \<Rightarrow> string \<Rightarrow> sentinel \<Rightarrow> err + string" where
  "comparable_approver_path fs path kind =
     (case strict_path fs path of Inl e \<Rightarrow> Inl (Wrap kind e) | Inr p \<Rightarrow> Inr p)"

definition validate_approver_peer ::
  "file_system \<Rightarrow> expected_approver \<Rightarrow> peer_info \<Rightarrow> err option" where
  "validate_approver_peer fs x got =
     (if ea_pid x \<noteq> 0 \<and> pi_pid got \<noteq> ea_pid x then Some (Err peer_mismatch_error)
      else case (if ea_verify x then expected_team_id (trim_space (ea_team x)) peer_mismatch_error
                 else Inr (trim_space (ea_team x), False)) of
        Inl e \<Rightarrow> Some e
      | Inr (team, enforce) \<Rightarrow>
          if ea_exe x = '''' then (if enforce then Some (Err peer_mismatch_error) else None)
          else case comparable_approver_path fs (ea_exe x) peer_mismatch_error of
            Inl e \<Rightarrow> Some e
          | Inr want \<Rightarrow>
         (case comparable_approver_path fs (pi_exe got) peer_mismatch_error of
            Inl e \<Rightarrow> Some e
          | Inr path \<Rightarrow>
              if path \<noteq> want then Some (Err peer_mismatch_error)
              else if enforce
                then validate_peer_signature got want team (ea_verifier x) peer_mismatch_error
                else None))"

text \<open>What a peer that passes the check is.\<close>

definition genuine_approver :: "file_system \<Rightarrow> expected_approver \<Rightarrow> peer_info \<Rightarrow> bool" where
  "genuine_approver fs x got \<longleftrightarrow>
     pi_pid got = ea_pid x \<and>
     (\<exists>p. strict_path fs (ea_exe x) = Inr p \<and> strict_path fs (pi_exe got) = Inr p \<and>
        (ea_verify x \<longrightarrow> trim_space (ea_team x) \<noteq> '''' \<and>
           (trim_space (ea_team x) \<noteq> development_team_id \<longrightarrow>
              signed_by (ea_verifier x) (trim_space (ea_team x)) p got)))"

lemma validate_approver_peer_None_iff:
  assumes "validate_expected_approver x = None"
  shows "validate_approver_peer fs x got = None \<longleftrightarrow> genuine_approver fs x got"
proof -
  have pid: "0 < ea_pid x" and exe: "ea_exe x \<noteq> ''''"
    using assms by (auto simp: validate_expected_approver_def split: if_splits)
  show ?thesis
    using pid exe
    by (auto simp: validate_approver_peer_def genuine_approver_def comparable_approver_path_def
        expected_team_id_def Let_def validate_peer_signature_None_iff split: sum.splits if_splits)
qed

section \<open>The executable that is launched\<close>

definition approver_executables_in_app :: "string \<Rightarrow> string list" where
  "approver_executables_in_app app = [path_join [app, ''Contents'', ''MacOS'', ''Agent Secret'']]"

definition executable_exists :: "file_system \<Rightarrow> string \<Rightarrow> bool" where
  "executable_exists fs path =
     (case fs_stat fs path of Inl e \<Rightarrow> False | Inr i \<Rightarrow> \<not> fi_is_dir i \<and> any_exec i)"

definition approver_candidates_for_executable :: "file_system \<Rightarrow> string \<Rightarrow> string list" where
  "approver_candidates_for_executable fs exe =
     (let resolved = best_effort_path fs exe;
          exes = exe # (if resolved \<noteq> exe then [resolved] else [])
      in fold (\<lambda>p acc. if p \<in> set acc then acc else acc @ [p])
           (concat (map (\<lambda>c.
              [path_clean (path_join [path_dir c, ''..'', ''..'', ''MacOS'', ''Agent Secret'']),
               path_clean (path_join [path_dir c, ''..'', ''..'', ''..'', ''..'', ''..'', ''MacOS'', ''Agent Secret''])])
              exes)) [])"

definition default_approver_path ::
  "file_system \<Rightarrow> err + string \<Rightarrow> err + string \<Rightarrow> err + string" where
  "default_approver_path fs executable home =
     (case executable of
        Inl e \<Rightarrow> Inl (Wrap (ApprovalErr ErrApproverLaunchFailed) e)
      | Inr exe \<Rightarrow>
          (let candidates = approver_candidates_for_executable fs exe @
             (case home of
                Inl e \<Rightarrow> []
              | Inr h \<Rightarrow> [path_join [h, ''Applications'', ''Agent Secret.app'', ''Contents'', ''MacOS'', ''Agent Secret'']])
           in case find (executable_exists fs) candidates of
                Some p \<Rightarrow> Inr p
              | None \<Rightarrow> Inr (hd candidates)))"

lemma approver_candidates_ne: "approver_candidates_for_executable fs exe \<noteq> []"
proof -
  have "acc \<noteq> [] \<Longrightarrow> fold (\<lambda>p acc. if p \<in> set acc then acc else acc @ [p]) ps acc \<noteq> []"
    for ps and acc :: "string list"
    by (induction ps arbitrary: acc) auto
  then show ?thesis by (simp add: approver_candidates_for_executable_def Let_def)
qed

definition launcher_executable_path ::
  "file_system \<Rightarrow> err + string \<Rightarrow> err + string \<Rightarrow> string \<Rightarrow> err + string" where
  "launcher_executable_path fs executable home app =
     (if app = '''' then default_approver_path fs executable home
      else if path_ext app = ''.app'' then
        (case find (executable_exists fs) (approver_executables_in_app app) of
           Some p \<Rightarrow> Inr p
         | None \<Rightarrow> Inr (hd (approver_executables_in_app app)))
      else Inr app)"

record bundle_policy =
  bu_bundle_id :: string
  bu_executable :: string
  bu_team :: string
  bu_verify :: bool

text \<open>\<open>DefaultApproverIdentityPolicy\<close> on Darwin.\<close>

definition default_bundle_policy :: "string \<Rightarrow> bundle_policy" where
  "default_bundle_policy team = \<lparr>bu_bundle_id = ''com.kovyrin.agent-secret'',
     bu_executable = ''Agent Secret'', bu_team = trim_space team, bu_verify = True\<rparr>"

definition app_bundle_for_executable :: "file_system \<Rightarrow> string \<Rightarrow> err + string" where
  "app_bundle_for_executable fs path =
     (case enclosing_app (path_dir path) of
        None \<Rightarrow> Inl (Err approver_identity_error)
      | Some dir \<Rightarrow> comparable_approver_path fs dir approver_identity_error)"

definition team_of_bundle ::
  "command_runner \<Rightarrow> bundle_policy \<Rightarrow> string \<Rightarrow> err + string \<times> string" where
  "team_of_bundle run p bundle =
     (if \<not> bu_verify p then Inr ('''', trim_space (bu_team p))
      else case expected_team_id (trim_space (bu_team p)) approver_identity_error of
        Inl e \<Rightarrow> Inl e
      | Inr (want, enforce) \<Rightarrow>
          (case verify_code_signature run bundle of
             Inl e \<Rightarrow> Inl (Wrap approver_identity_error e)
           | Inr team \<Rightarrow>
               if enforce \<and> team \<noteq> want then Inl (Err approver_identity_error)
               else Inr (team, want)))"

definition validate_approver_executable ::
  "trust_env \<Rightarrow> command_runner \<Rightarrow> bundle_policy \<Rightarrow> string \<Rightarrow> err + approver_identity" where
  "validate_approver_executable te run p path0 =
     (case comparable_approver_path (te_fs te) path0 approver_identity_error of
        Inl e \<Rightarrow> Inl e
      | Inr path \<Rightarrow>
     (case app_bundle_for_executable (te_fs te) path of
        Inl e \<Rightarrow> Inl e
      | Inr bundle \<Rightarrow>
     (let info = path_join [bundle, ''Contents'', ''Info.plist''] in
      case plist_string (te_plist te) info ''CFBundleIdentifier'' approver_identity_error of
        Inl e \<Rightarrow> Inl e
      | Inr bundle_id \<Rightarrow>
     (if bundle_id \<noteq> (if bu_bundle_id p = '''' then ''com.kovyrin.agent-secret'' else bu_bundle_id p)
      then Inl (Err approver_identity_error)
      else case plist_string (te_plist te) info ''CFBundleExecutable'' approver_identity_error of
        Inl e \<Rightarrow> Inl e
      | Inr name \<Rightarrow>
     (if name \<noteq> (if bu_executable p = '''' then ''Agent Secret'' else bu_executable p)
      then Inl (Err approver_identity_error)
      else case comparable_approver_path (te_fs te) (path_join [bundle, ''Contents'', ''MacOS'', name])
             approver_identity_error of
        Inl e \<Rightarrow> Inl e
      | Inr inner \<Rightarrow>
          if path \<noteq> inner then Inl (Err approver_identity_error)
          else case team_of_bundle run p bundle of
            Inl e \<Rightarrow> Inl e
          | Inr (team, want) \<Rightarrow>
              Inr \<lparr>ai_exe = path, ai_bundle = bundle, ai_bundle_id = bundle_id, ai_team = team,
                   ai_expected_team = want, ai_verify = bu_verify p\<rparr>)))))"

text \<open>
  \<open>Launch\<close>: the launch context is checked before and after the start of the process; \<open>start\<close> is
  the pid of the started process or the error of starting it.
\<close>

definition launch_approver ::
  "trust_env \<Rightarrow> command_runner \<Rightarrow> bundle_policy \<Rightarrow> err + string \<Rightarrow> err + string \<Rightarrow> string \<Rightarrow>
     err option \<Rightarrow> err option \<Rightarrow> err + int \<Rightarrow> err option \<Rightarrow> err + expected_approver" where
  "launch_approver te run p executable home app ctx_before devnull start ctx_after =
     (case launcher_executable_path (te_fs te) executable home app of
        Inl e \<Rightarrow> Inl e
      | Inr exe \<Rightarrow>
     (case validate_approver_executable te run p exe of
        Inl e \<Rightarrow> Inl e
      | Inr i \<Rightarrow>
     (case ctx_before of
        Some e \<Rightarrow> Inl e
      | None \<Rightarrow>
     (case devnull of
        Some e \<Rightarrow> Inl (Wrap (ApprovalErr ErrApproverLaunchFailed) e)
      | None \<Rightarrow>
     (case start of
        Inl e \<Rightarrow> Inl (Wrap (ApprovalErr ErrApproverLaunchFailed) e)
      | Inr pid \<Rightarrow>
     (case ctx_after of
        Some e \<Rightarrow> Inl e
      | None \<Rightarrow>
          Inr \<lparr>ea_pid = pid, ea_exe = ai_exe i, ea_team = ai_expected_team i,
               ea_verify = ai_verify i, ea_verifier = codesign_verifier run\<rparr>))))))"

text \<open>\<open>CheckHealth\<close>: \<open>outcome\<close> is the output or error of the helper, \<open>ctx_err\<close> the context's error then.\<close>

definition check_health ::
  "trust_env \<Rightarrow> command_runner \<Rightarrow> bundle_policy \<Rightarrow> err + string \<Rightarrow> err + string \<Rightarrow> string \<Rightarrow>
     err + string \<Rightarrow> err option \<Rightarrow> err option" where
  "check_health te run p executable home app outcome ctx_err =
     (case launcher_executable_path (te_fs te) executable home app of
        Inl e \<Rightarrow> Some e
      | Inr exe \<Rightarrow>
     (case validate_approver_executable te run p exe of
        Inl e \<Rightarrow> Some e
      | Inr i \<Rightarrow>
     (case outcome of
        Inl e \<Rightarrow>
          (case ctx_err of
             Some c \<Rightarrow> Some (Wrap (ApprovalErr ErrApproverLaunchFailed) c)
           | None \<Rightarrow> Some (Wrap (ApprovalErr ErrApproverLaunchFailed) e))
      | Inr out \<Rightarrow>
          if trim_space out \<noteq> ''Agent Secret: ok'' then Some (Err (ApprovalErr ErrApproverLaunchFailed))
          else None)))"

section \<open>From the bundle to the peer\<close>

lemma result_Inr_iff:
  "(case r of Inl e \<Rightarrow> Inl (g e) | Inr v \<Rightarrow> f v) = Inr x \<longleftrightarrow> (\<exists>v. r = Inr v \<and> f v = Inr x)"
  by (auto split: sum.splits)

lemma result_if_Inr_iff: "(if b then Inl e else r) = Inr x \<longleftrightarrow> \<not> b \<and> r = Inr x"
  by simp

lemma team_of_bundle_Inr:
  assumes "team_of_bundle run p bundle = Inr (team, want)"
  shows "want = trim_space (bu_team p)"
    and "bu_verify p \<Longrightarrow> trim_space (bu_team p) \<noteq> '''' \<and> verify_code_signature run bundle = Inr team \<and>
      (trim_space (bu_team p) \<noteq> development_team_id \<longrightarrow> team = trim_space (bu_team p))"
  using assms by (auto simp: team_of_bundle_def expected_team_id_def Let_def split: sum.splits if_splits)

text \<open>What a validated executable is.\<close>

lemma validate_approver_executable_Inr:
  assumes "validate_approver_executable te run p exe = Inr i"
  shows "strict_path (te_fs te) exe = Inr (ai_exe i)"
    and "app_bundle_for_executable (te_fs te) (ai_exe i) = Inr (ai_bundle i)"
    and "plist_string (te_plist te) (path_join [ai_bundle i, ''Contents'', ''Info.plist''])
           ''CFBundleIdentifier'' approver_identity_error =
         Inr (if bu_bundle_id p = '''' then ''com.kovyrin.agent-secret'' else bu_bundle_id p)"
    and "\<exists>name. strict_path (te_fs te) (path_join [ai_bundle i, ''Contents'', ''MacOS'', name]) = Inr (ai_exe i)"
    and "ai_verify i = bu_verify p" "ai_expected_team i = trim_space (bu_team p)"
    and "bu_verify p \<Longrightarrow> trim_space (bu_team p) \<noteq> '''' \<and>
      verify_code_signature run (ai_bundle i) = Inr (ai_team i) \<and>
      (trim_space (bu_team p) \<noteq> development_team_id \<longrightarrow> ai_team i = trim_space (bu_team p))"
proof -
  note d = assms [unfolded validate_approver_executable_def comparable_approver_path_def Let_def]
  from d obtain path where path: "strict_path (te_fs te) exe = Inr path"
    by (cases "strict_path (te_fs te) exe") simp_all
  note d = d [unfolded path sum.case]
  from d obtain bnd where bnd: "app_bundle_for_executable (te_fs te) path = Inr bnd"
    by (cases "app_bundle_for_executable (te_fs te) path") simp_all
  note d = d [unfolded bnd sum.case result_Inr_iff result_if_Inr_iff]
  from d obtain bid name inner where
    bid: "plist_string (te_plist te) (path_join [bnd, ''Contents'', ''Info.plist''])
      ''CFBundleIdentifier'' approver_identity_error = Inr bid"
      "bid = (if bu_bundle_id p = '''' then ''com.kovyrin.agent-secret'' else bu_bundle_id p)"
    and inner: "strict_path (te_fs te) (path_join [bnd, ''Contents'', ''MacOS'', name]) = Inr path"
    and t: "\<exists>tw. team_of_bundle run p bnd = Inr tw \<and> (case tw of (team, want) \<Rightarrow>
      Inr \<lparr>ai_exe = path, ai_bundle = bnd, ai_bundle_id = bid, ai_team = team,
           ai_expected_team = want, ai_verify = bu_verify p\<rparr>) = (Inr i :: err + approver_identity)"
    by (elim exE conjE) (metis Inr_inject)
  from t obtain team want where t: "team_of_bundle run p bnd = Inr (team, want)"
    and i: "i = \<lparr>ai_exe = path, ai_bundle = bnd, ai_bundle_id = bid, ai_team = team,
           ai_expected_team = want, ai_verify = bu_verify p\<rparr>" by auto
  show "strict_path (te_fs te) exe = Inr (ai_exe i)"
    "app_bundle_for_executable (te_fs te) (ai_exe i) = Inr (ai_bundle i)"
    "plist_string (te_plist te) (path_join [ai_bundle i, ''Contents'', ''Info.plist''])
           ''CFBundleIdentifier'' approver_identity_error =
         Inr (if bu_bundle_id p = '''' then ''com.kovyrin.agent-secret'' else bu_bundle_id p)"
    "\<exists>name. strict_path (te_fs te) (path_join [ai_bundle i, ''Contents'', ''MacOS'', name]) = Inr (ai_exe i)"
    "ai_verify i = bu_verify p" "ai_expected_team i = trim_space (bu_team p)"
    using path bnd bid inner team_of_bundle_Inr(1) [OF t] by (auto simp: i)
  show "bu_verify p \<Longrightarrow> trim_space (bu_team p) \<noteq> '''' \<and>
      verify_code_signature run (ai_bundle i) = Inr (ai_team i) \<and>
      (trim_space (bu_team p) \<noteq> development_team_id \<longrightarrow> ai_team i = trim_space (bu_team p))"
    using team_of_bundle_Inr(2) [OF t] by (simp add: i)
qed

lemma launch_approver_Inr:
  assumes "launch_approver te run p executable home app cb dn start ca = Inr x"
  obtains exe i pid where "launcher_executable_path (te_fs te) executable home app = Inr exe"
    "validate_approver_executable te run p exe = Inr i" "start = Inr pid" "ea_pid x = pid"
    "ea_exe x = ai_exe i" "ea_team x = ai_expected_team i" "ea_verify x = ai_verify i"
    "ea_verifier x = codesign_verifier run"
  using assms by (auto simp: launch_approver_def split: sum.splits option.splits)

lemma accepted_approver:
  assumes l: "launch_approver te run p executable home app cb dn (Inr pid) ca = Inr x"
    and x: "validate_expected_approver x = None" and v: "validate_approver_peer fs x got = None"
    and stable: "strict_path fs (ea_exe x) = Inr (ea_exe x)"
  shows "pi_pid got = pid \<and> strict_path fs (pi_exe got) = Inr (ea_exe x) \<and>
    (\<exists>bundle. app_bundle_for_executable (te_fs te) (ea_exe x) = Inr bundle \<and>
       plist_string (te_plist te) (path_join [bundle, ''Contents'', ''Info.plist''])
           ''CFBundleIdentifier'' approver_identity_error =
         Inr (if bu_bundle_id p = '''' then ''com.kovyrin.agent-secret'' else bu_bundle_id p) \<and>
       (bu_verify p \<and> trim_space (bu_team p) \<noteq> development_team_id \<longrightarrow>
          verify_code_signature run bundle = Inr (trim_space (bu_team p)) \<and>
          verify_process_code_signature run pid = Inr (trim_space (bu_team p))))"
proof -
  from l obtain exe i where i: "validate_approver_executable te run p exe = Inr i" "ea_pid x = pid"
      "ea_exe x = ai_exe i" "ea_team x = ai_expected_team i" "ea_verify x = ai_verify i"
      "ea_verifier x = codesign_verifier run"
    by (auto elim: launch_approver_Inr)
  note f = validate_approver_executable_Inr [OF i(1)]
  from v x have "genuine_approver fs x got" by (simp add: validate_approver_peer_None_iff)
  then have g: "pi_pid got = pid" "strict_path fs (pi_exe got) = Inr (ea_exe x)"
      "bu_verify p \<and> trim_space (bu_team p) \<noteq> development_team_id \<Longrightarrow>
         verify_process_code_signature run pid = Inr (trim_space (bu_team p))"
    using i f(5,6) stable by (auto simp: genuine_approver_def signed_by_def codesign_verifier_def)
  then show ?thesis using f(2,3,7) i(3) by auto
qed

end
