(* ===== verification/SocketApprover.thy ===== *)
theory SocketApprover
  imports ApproverTrust
begin

text \<open>
  The approver that asks a local process: \<open>internal/daemon/approval/socket_approver.go\<close>. Requests
  wait in a queue; one at a time is active, an approver process is launched for it, that process
  fetches the payload and submits a decision. The goroutines the code starts are pending tasks,
  which may run in any order; the jobs are heap objects named by numbers, since several goroutines
  hold a pointer to the same job. Each function is one step: its critical section, with the sends
  that follow it. A goroutine that looked up a job before another one changed the state is covered
  by letting the second half of \<open>FetchPending\<close> and \<open>SubmitDecision\<close> run on any job that is or was
  ready.
\<close>

section \<open>State\<close>

text \<open>
  \<open>jb_expected\<close> is \<open>expected\<close> guarded by \<open>expectedReady\<close>; \<open>jb_result\<close> is the first value sent on
  the channel \<open>result\<close>, whose only reader takes one value.
\<close>

record approval_job =
  jb_payload :: approval_payload
  jb_done :: bool
  jb_expected :: "expected_approver option"
  jb_used :: bool
  jb_result :: "(err + decision) option"

datatype task = Promote | Launch nat | Watch nat

record approver =
  sa_jobs :: "nat \<rightharpoonup> approval_job"
  sa_next :: nat
  sa_queue :: "nat list"
  sa_active :: "nat option"
  sa_tasks :: "task list"

definition new_approver :: approver where
  "new_approver = \<lparr>sa_jobs = Map.empty, sa_next = 0, sa_queue = [], sa_active = None, sa_tasks = []\<rparr>"

abbreviation request_expired :: err where
  "request_expired \<equiv> Err (ApprovalErr ErrRequestExpired)"

abbreviation no_pending :: err where
  "no_pending \<equiv> Err (ApprovalErr ErrNoPendingApproval)"

abbreviation launch_failed :: sentinel where
  "launch_failed \<equiv> ApprovalErr ErrApproverLaunchFailed"

definition new_job :: "approval_payload \<Rightarrow> approval_job" where
  "new_job p = \<lparr>jb_payload = p, jb_done = False, jb_expected = None, jb_used = False, jb_result = None\<rparr>"

definition update_job :: "nat \<Rightarrow> (approval_job \<Rightarrow> approval_job) \<Rightarrow> approver \<Rightarrow> approver" where
  "update_job j f s = s\<lparr>sa_jobs := (sa_jobs s)(j := map_option f (sa_jobs s j))\<rparr>"

definition spawn :: "task \<Rightarrow> approver \<Rightarrow> approver" where
  "spawn t s = s\<lparr>sa_tasks := sa_tasks s @ [t]\<rparr>"

section \<open>Ending a job\<close>

definition job_cancel :: "nat \<Rightarrow> approver \<Rightarrow> approver" where
  "job_cancel j s = update_job j (\<lambda>b. b\<lparr>jb_done := True\<rparr>) s"

definition send_result :: "nat \<Rightarrow> err + decision \<Rightarrow> approver \<Rightarrow> approver" where
  "send_result j r s =
     update_job j (\<lambda>b. case jb_result b of None \<Rightarrow> b\<lparr>jb_result := Some r\<rparr> | Some x \<Rightarrow> b) s"

definition finish_job :: "nat \<Rightarrow> err + decision \<Rightarrow> approver \<Rightarrow> approver" where
  "finish_job j r s =
     spawn Promote (send_result j r
       (s\<lparr>sa_active := if sa_active s = Some j then None else sa_active s\<rparr>))"

definition complete_job :: "nat \<Rightarrow> err + decision \<Rightarrow> approver \<Rightarrow> approver" where
  "complete_job j r s = finish_job j r (job_cancel j s)"

definition cancel_job :: "nat \<Rightarrow> err \<Rightarrow> approver \<Rightarrow> approver" where
  "cancel_job j e s =
     (let s1 = job_cancel j s in
      if j \<in> set (sa_queue s1) then s1\<lparr>sa_queue := remove1 j (sa_queue s1)\<rparr>
      else finish_job j (Inl e) s1)"

section \<open>Waiting for a decision\<close>

definition enqueue_job :: "approval_payload \<Rightarrow> approver \<Rightarrow> approver" where
  "enqueue_job p s =
     (let q = sa_queue s @ [sa_next s];
          s1 = s\<lparr>sa_jobs := (sa_jobs s)(sa_next s \<mapsto> new_job p), sa_queue := q, sa_next := Suc (sa_next s)\<rparr>
      in if sa_active s = None \<and> length q = 1 then spawn Promote s1 else s1)"

text \<open>
  \<open>Approve\<close> up to its \<open>select\<close>: an error when the request has expired, otherwise the job to wait
  for.
\<close>

definition approve_begin :: "go_time \<Rightarrow> approval_payload \<Rightarrow> approver \<Rightarrow> approver \<times> (err + nat)" where
  "approve_begin now p s =
     (let j = sa_next s; s1 = enqueue_job p s in
      if time_sub (ap_expires_at p) now \<le> 0 then (cancel_job j request_expired s1, Inl request_expired)
      else (s1, Inr j))"

text \<open>The three cases of the \<open>select\<close>; \<open>None\<close> while the chosen channel has nothing.\<close>

datatype wake = Received | ContextDone err | TimerFired

definition approve_wake :: "wake \<Rightarrow> nat \<Rightarrow> approver \<Rightarrow> approver \<times> (err + decision) option" where
  "approve_wake w j s =
     (case w of
        Received \<Rightarrow> (s, case sa_jobs s j of None \<Rightarrow> None | Some b \<Rightarrow> jb_result b)
      | ContextDone e \<Rightarrow> (cancel_job j e s, Some (Inl e))
      | TimerFired \<Rightarrow> (cancel_job j request_expired s, Some (Inl request_expired)))"

section \<open>Launching\<close>

text \<open>\<open>promoteNext\<close> up to the unlock, and from the launch on.\<close>

definition promote_next :: "approver \<Rightarrow> approver" where
  "promote_next s =
     (if sa_active s \<noteq> None then s
      else case sa_queue s of
        [] \<Rightarrow> s
      | j # q \<Rightarrow> spawn (Launch j) (s\<lparr>sa_queue := q, sa_active := Some j\<rparr>))"

definition classify_launcher_error :: "err \<Rightarrow> err" where
  "classify_launcher_error e =
     (if err_is e launch_failed \<or> err_is e approver_identity_error then e else Wrap launch_failed e)"

definition launch_job ::
  "go_time \<Rightarrow> err + expected_approver \<times> bool \<Rightarrow> nat \<Rightarrow> approver \<Rightarrow> approver" where
  "launch_job now out j s =
     (case sa_jobs s j of
        None \<Rightarrow> s
      | Some b \<Rightarrow>
          if \<not> now < ap_expires_at (jb_payload b) then complete_job j (Inl request_expired) s
          else case out of
            Inl e \<Rightarrow>
              if jb_done b then cancel_job j (Err (ContextErr CtxCanceled)) s
              else complete_job j (Inl (classify_launcher_error e)) s
          | Inr (x, exits) \<Rightarrow>
              (case validate_expected_approver x of
                 Some e \<Rightarrow> complete_job j (Inl e) s
               | None \<Rightarrow>
                   let s1 = (if sa_active s = Some j
                             then update_job j (\<lambda>b. b\<lparr>jb_expected := Some x\<rparr>) s else s)
                   in if exits then spawn (Watch j) s1 else s1))"

definition job_ready :: "approver \<Rightarrow> nat \<Rightarrow> bool" where
  "job_ready s j \<longleftrightarrow> (case sa_jobs s j of None \<Rightarrow> False | Some b \<Rightarrow> jb_expected b \<noteq> None)"

text \<open>\<open>monitorExpectedApprover\<close> once the process has exited.\<close>

definition expected_exited :: "nat \<Rightarrow> approver \<Rightarrow> approver" where
  "expected_exited j s =
     (if sa_active s \<noteq> Some j \<or> \<not> job_ready s j then s
      else complete_job j (Inl (Err launch_failed)) s)"

section \<open>The approver's calls\<close>

text \<open>\<open>activeWhenExpectedReady\<close>: \<open>None\<close> while it waits.\<close>

definition active_when_ready :: "err option \<Rightarrow> approver \<Rightarrow> (err + nat option) option" where
  "active_when_ready ctx s =
     (case ctx of
        Some e \<Rightarrow> Some (Inl e)
      | None \<Rightarrow>
          (case sa_active s of
             None \<Rightarrow> if sa_queue s \<noteq> [] then None else Some (Inr None)
           | Some j \<Rightarrow> if job_ready s j then Some (Inr (Some j)) else None))"

definition mark_expected_used :: "nat \<Rightarrow> approver \<Rightarrow> approver \<times> bool" where
  "mark_expected_used j s =
     (if sa_active s \<noteq> Some j then (s, False) else (update_job j (\<lambda>b. b\<lparr>jb_used := True\<rparr>) s, True))"

definition fetch_job ::
  "file_system \<Rightarrow> go_time \<Rightarrow> peer_info \<Rightarrow> nat \<Rightarrow> approver \<Rightarrow> approver \<times> (err + approval_payload)" where
  "fetch_job fs now peer j s =
     (case sa_jobs s j of
        None \<Rightarrow> (s, Inl no_pending)
      | Some b \<Rightarrow>
     (case jb_expected b of
        None \<Rightarrow> (s, Inl no_pending)
      | Some x \<Rightarrow>
          if \<not> now < ap_expires_at (jb_payload b)
          then (complete_job j (Inl request_expired) s, Inl request_expired)
          else case validate_approver_peer fs x peer of
            Some e \<Rightarrow> (s, Inl e)
          | None \<Rightarrow>
              (case mark_expected_used j s of
                 (s1, False) \<Rightarrow> (s1, Inl no_pending)
               | (s1, True) \<Rightarrow> (s1, Inr (jb_payload b)))))"

definition fetch_pending ::
  "err option \<Rightarrow> file_system \<Rightarrow> go_time \<Rightarrow> peer_info \<Rightarrow> approver \<Rightarrow>
     (approver \<times> (err + approval_payload)) option" where
  "fetch_pending ctx fs now peer s =
     (case active_when_ready ctx s of
        None \<Rightarrow> None
      | Some (Inl e) \<Rightarrow> Some (s, Inl e)
      | Some (Inr None) \<Rightarrow> Some (s, Inl no_pending)
      | Some (Inr (Some j)) \<Rightarrow> Some (fetch_job fs now peer j s))"

definition complete_if_expired :: "go_time \<Rightarrow> nat \<Rightarrow> approval_job \<Rightarrow> approver \<Rightarrow> approver \<times> bool" where
  "complete_if_expired now j b s =
     (if now < ap_expires_at (jb_payload b) then (s, False)
      else (complete_job j (Inl request_expired) s, True))"

definition submit_job ::
  "file_system \<Rightarrow> go_time \<Rightarrow> peer_info \<Rightarrow> decision_payload \<Rightarrow> nat \<Rightarrow> approver \<Rightarrow> approver \<times> err option" where
  "submit_job fs now peer d j s =
     (case sa_jobs s j of
        None \<Rightarrow> (s, Some no_pending)
      | Some b \<Rightarrow>
     (case jb_expected b of
        None \<Rightarrow> (s, Some no_pending)
      | Some x \<Rightarrow>
     (case validate_approver_peer fs x peer of
        Some e \<Rightarrow> (s, Some e)
      | None \<Rightarrow>
          if dp_request_id d \<noteq> ap_request_id (jb_payload b) \<or> dp_nonce d \<noteq> ap_nonce (jb_payload b)
          then (s, Some (Err (ApprovalErr ErrStaleApproval)))
          else case validate_decision d (ap_reusable_uses (jb_payload b)) (ap_allows_reusable (jb_payload b)) of
            Some e \<Rightarrow> (s, Some e)
          | None \<Rightarrow>
              (case dp_decision d of
                 ApproveOnce \<Rightarrow>
                   (case complete_if_expired now j b s of
                      (s1, True) \<Rightarrow> (s1, None)
                    | (s1, False) \<Rightarrow>
                        (complete_job j (Inr (zero_decision\<lparr>de_approved := True\<rparr>)) s1, None))
               | ApproveReusable \<Rightarrow>
                   (case complete_if_expired now j b s of
                      (s1, True) \<Rightarrow> (s1, None)
                    | (s1, False) \<Rightarrow>
                        (complete_job j (Inr (zero_decision\<lparr>de_approved := True, de_reusable := True,
                           de_reusable_uses := ap_reusable_uses (jb_payload b)\<rparr>)) s1, None))
               | Deny \<Rightarrow>
                   (complete_job j (Inr (zero_decision\<lparr>de_denial_reason := dp_denial_reason d\<rparr>)) s, None)
               | DecisionTimeout \<Rightarrow> (complete_job j (Inl request_expired) s, None)
               | OtherKind k \<Rightarrow> (s, Some malformed)))))"

definition submit_decision ::
  "err option \<Rightarrow> file_system \<Rightarrow> go_time \<Rightarrow> peer_info \<Rightarrow> decision_payload \<Rightarrow> approver \<Rightarrow>
     (approver \<times> err option) option" where
  "submit_decision ctx fs now peer d s =
     (case active_when_ready ctx s of
        None \<Rightarrow> None
      | Some (Inl e) \<Rightarrow> Some (s, Some e)
      | Some (Inr None) \<Rightarrow> Some (s, Some no_pending)
      | Some (Inr (Some j)) \<Rightarrow> Some (submit_job fs now peer d j s))"
end
