(* ===== verification/ApproverRuns.thy ===== *)
theory ApproverRuns
  imports SocketApprover
begin

text \<open>
  Runs of the socket approver: requests arrive and stop waiting, pending tasks run, approver
  processes call, in any order. No request is lost, they are served in the order of arrival, and a
  decision comes from the launched process.
\<close>

section \<open>Steps\<close>

datatype approver_event =
    Arrived nat approval_payload
  | Launched nat expected_approver
  | Submitted nat file_system go_time peer_info decision_payload
  | Internal

definition take_task :: "task \<Rightarrow> approver \<Rightarrow> approver" where
  "take_task t s = s\<lparr>sa_tasks := remove1 t (sa_tasks s)\<rparr>"

inductive approver_step :: "approver \<Rightarrow> approver_event \<Rightarrow> approver \<Rightarrow> bool" where
  arrive: "approve_begin now p s = (s', r) \<Longrightarrow> approver_step s (Arrived (sa_next s) p) s'"
| wake: "j < sa_next s \<Longrightarrow> approve_wake w j s = (s', Some r) \<Longrightarrow> approver_step s Internal s'"
| promote: "Promote \<in> set (sa_tasks s) \<Longrightarrow>
    approver_step s Internal (promote_next (take_task Promote s))"
| launched: "Launch j \<in> set (sa_tasks s) \<Longrightarrow>
    approver_step s (Launched j x) (launch_job now (Inr (x, exits)) j (take_task (Launch j) s))"
| not_launched: "Launch j \<in> set (sa_tasks s) \<Longrightarrow>
    approver_step s Internal (launch_job now (Inl e) j (take_task (Launch j) s))"
| exited: "Watch j \<in> set (sa_tasks s) \<Longrightarrow>
    approver_step s Internal (expected_exited j (take_task (Watch j) s))"
| unwatched: "Watch j \<in> set (sa_tasks s) \<Longrightarrow> sa_jobs s j = Some b \<Longrightarrow> jb_done b \<Longrightarrow>
    approver_step s Internal (take_task (Watch j) s)"
| fetched: "job_ready s j \<Longrightarrow> fetch_job fs now peer j s = (s', r) \<Longrightarrow> approver_step s Internal s'"
| submitted: "job_ready s j \<Longrightarrow> submit_job fs now peer d j s = (s', r) \<Longrightarrow>
    approver_step s (Submitted j fs now peer d) s'"

inductive approver_run :: "approver_event list \<Rightarrow> approver \<Rightarrow> bool" where
  approver_run_new: "approver_run [] new_approver"
| approver_run_step: "approver_run tr s \<Longrightarrow> approver_step s x s' \<Longrightarrow> approver_run (x # tr) s'"

text \<open>A call of the approver process is a step, or waits, or changes nothing.\<close>

lemma active_when_ready_job: "active_when_ready ctx s = Some (Inr (Some j)) \<Longrightarrow> job_ready s j"
  by (auto simp: active_when_ready_def split: option.splits if_splits)

lemma fetch_pending_step:
  "fetch_pending ctx fs now peer s = Some (s', r) \<Longrightarrow> s' = s \<or> approver_step s Internal s'"
  by (auto simp: fetch_pending_def split: option.splits sum.splits
      dest!: active_when_ready_job intro: fetched)

lemma submit_decision_step:
  "submit_decision ctx fs now peer d s = Some (s', r) \<Longrightarrow>
     s' = s \<or> (\<exists>j. approver_step s (Submitted j fs now peer d) s')"
  by (auto simp: submit_decision_def split: option.splits sum.splits
      dest!: active_when_ready_job intro: submitted)

section \<open>The fields after an operation\<close>

definition job_open :: "approver \<Rightarrow> nat \<Rightarrow> bool" where
  "job_open s j \<longleftrightarrow> (case sa_jobs s j of None \<Rightarrow> False | Some b \<Rightarrow> \<not> jb_done b)"

definition end_job :: "err + decision \<Rightarrow> approval_job \<Rightarrow> approval_job" where
  "end_job r b = b\<lparr>jb_done := True, jb_result := (case jb_result b of None \<Rightarrow> Some r | Some x \<Rightarrow> Some x)\<rparr>"

lemma end_job_simps [simp]:
  "jb_payload (end_job r b) = jb_payload b" "jb_done (end_job r b)"
  "jb_expected (end_job r b) = jb_expected b"
  "jb_result (end_job r b) = (case jb_result b of None \<Rightarrow> Some r | Some x \<Rightarrow> Some x)"
  by (simp_all add: end_job_def)

lemmas job_ops = update_job_def spawn_def job_cancel_def send_result_def finish_job_def

lemma complete_job_fields [simp]:
  "sa_queue (complete_job j r s) = sa_queue s"
  "sa_next (complete_job j r s) = sa_next s"
  "sa_active (complete_job j r s) = (if sa_active s = Some j then None else sa_active s)"
  "sa_tasks (complete_job j r s) = sa_tasks s @ [Promote]"
  "sa_jobs (complete_job j r s) = (sa_jobs s)(j := map_option (end_job r) (sa_jobs s j))"
  by (auto simp: complete_job_def job_ops end_job_def option.map_comp o_def fun_eq_iff
      split: option.splits intro!: option.map_cong)

lemma cancel_job_cases:
  "cancel_job j e s =
     (if j \<in> set (sa_queue s) then (job_cancel j s)\<lparr>sa_queue := remove1 j (sa_queue s)\<rparr>
      else complete_job j (Inl e) s)"
  by (simp add: cancel_job_def complete_job_def Let_def job_ops)

lemma job_cancel_fields [simp]:
  "sa_queue (job_cancel j s) = sa_queue s" "sa_next (job_cancel j s) = sa_next s"
  "sa_active (job_cancel j s) = sa_active s" "sa_tasks (job_cancel j s) = sa_tasks s"
  "sa_jobs (job_cancel j s) = (sa_jobs s)(j := map_option (jb_done_update (\<lambda>_. True)) (sa_jobs s j))"
  by (simp_all add: job_ops)

lemma take_task_fields [simp]:
  "sa_queue (take_task t s) = sa_queue s" "sa_next (take_task t s) = sa_next s"
  "sa_active (take_task t s) = sa_active s" "sa_jobs (take_task t s) = sa_jobs s"
  "sa_tasks (take_task t s) = remove1 t (sa_tasks s)"
  by (simp_all add: take_task_def)

lemma job_open_simps [simp]:
  "job_open (complete_job j r s) k \<longleftrightarrow> job_open s k \<and> k \<noteq> j"
  "job_open (job_cancel j s) k \<longleftrightarrow> job_open s k \<and> k \<noteq> j"
  "job_open (s\<lparr>sa_queue := q\<rparr>) k \<longleftrightarrow> job_open s k"
  "job_open (take_task t s) k \<longleftrightarrow> job_open s k"
  by (auto simp: job_open_def split: option.splits)

lemma job_ready_simps [simp]:
  "job_ready (complete_job j r s) k \<longleftrightarrow> job_ready s k"
  "job_ready (job_cancel j s) k \<longleftrightarrow> job_ready s k"
  "job_ready (s\<lparr>sa_queue := q\<rparr>) k \<longleftrightarrow> job_ready s k"
  "job_ready (take_task t s) k \<longleftrightarrow> job_ready s k"
  by (auto simp: job_ready_def split: option.splits)

definition results_final :: "approver \<Rightarrow> bool" where
  "results_final s \<longleftrightarrow> (\<forall>j b. sa_jobs s j = Some b \<longrightarrow> jb_result b \<noteq> None \<longrightarrow> jb_done b)"

lemma results_final_simps [simp]:
  "results_final s \<Longrightarrow> results_final (complete_job j r s)"
  "results_final s \<Longrightarrow> results_final (job_cancel j s)"
  "results_final (s\<lparr>sa_queue := q\<rparr>) = results_final s"
  "results_final (take_task t s) = results_final s"
  by (auto simp: results_final_def split: if_splits)

section \<open>The invariant\<close>

definition approver_ok :: "approver \<Rightarrow> bool" where
  "approver_ok s \<longleftrightarrow>
     (\<forall>j. sa_jobs s j = None \<longleftrightarrow> sa_next s \<le> j) \<and>
     sorted_wrt (<) (sa_queue s) \<and>
     (\<forall>j. job_open s j \<longleftrightarrow> j \<in> set (sa_queue s) \<or> sa_active s = Some j) \<and>
     (\<forall>j. sa_active s = Some j \<or> job_ready s j \<or> Launch j \<in> set (sa_tasks s) \<longrightarrow>
        (\<forall>k \<in> set (sa_queue s). j < k)) \<and>
     (\<forall>j. Launch j \<in> set (sa_tasks s) \<longrightarrow> j < sa_next s) \<and>
     results_final s"

lemma approver_okI:
  assumes "\<And>j. sa_jobs s j = None \<longleftrightarrow> sa_next s \<le> j" "sorted_wrt (<) (sa_queue s)"
    "\<And>j. job_open s j \<longleftrightarrow> j \<in> set (sa_queue s) \<or> sa_active s = Some j"
    "\<And>j k. sa_active s = Some j \<Longrightarrow> k \<in> set (sa_queue s) \<Longrightarrow> j < k"
    "\<And>j k. job_ready s j \<Longrightarrow> k \<in> set (sa_queue s) \<Longrightarrow> j < k"
    "\<And>j k. Launch j \<in> set (sa_tasks s) \<Longrightarrow> k \<in> set (sa_queue s) \<Longrightarrow> j < k"
    "\<And>j. Launch j \<in> set (sa_tasks s) \<Longrightarrow> j < sa_next s"
    "results_final s"
  shows "approver_ok s"
  using assms unfolding approver_ok_def by blast

lemma approver_okD:
  assumes "approver_ok s"
  shows "sa_jobs s j = None \<longleftrightarrow> sa_next s \<le> j" "sorted_wrt (<) (sa_queue s)" "distinct (sa_queue s)"
    "job_open s j \<longleftrightarrow> j \<in> set (sa_queue s) \<or> sa_active s = Some j"
    "sa_active s = Some j \<Longrightarrow> k \<in> set (sa_queue s) \<Longrightarrow> j < k"
    "job_ready s j \<Longrightarrow> k \<in> set (sa_queue s) \<Longrightarrow> j < k"
    "Launch j \<in> set (sa_tasks s) \<Longrightarrow> k \<in> set (sa_queue s) \<Longrightarrow> j < k"
    "results_final s" "Launch j \<in> set (sa_tasks s) \<Longrightarrow> j < sa_next s"
    "k \<in> set (sa_queue s) \<Longrightarrow> k < sa_next s" "sa_active s = Some j \<Longrightarrow> j < sa_next s"
    "job_ready s j \<Longrightarrow> j < sa_next s"
proof -
  note a = assms [unfolded approver_ok_def]
  from conjunct1 [OF a] have lt: "sa_jobs s i \<noteq> None \<Longrightarrow> i < sa_next s" for i
    by (metis not_le)
  then have o: "job_open s i \<Longrightarrow> i < sa_next s" and r: "job_ready s i \<Longrightarrow> i < sa_next s" for i
    by (auto simp: job_open_def job_ready_def split: option.splits)
  show "sa_jobs s j = None \<longleftrightarrow> sa_next s \<le> j" "sorted_wrt (<) (sa_queue s)" "results_final s"
    "job_open s j \<longleftrightarrow> j \<in> set (sa_queue s) \<or> sa_active s = Some j"
    using a by simp_all
  then show "distinct (sa_queue s)" by (simp add: strict_sorted_iff)
  show "sa_active s = Some j \<Longrightarrow> k \<in> set (sa_queue s) \<Longrightarrow> j < k"
    "job_ready s j \<Longrightarrow> k \<in> set (sa_queue s) \<Longrightarrow> j < k"
    "Launch j \<in> set (sa_tasks s) \<Longrightarrow> k \<in> set (sa_queue s) \<Longrightarrow> j < k"
    "Launch j \<in> set (sa_tasks s) \<Longrightarrow> j < sa_next s"
    using a by simp_all
  show "k \<in> set (sa_queue s) \<Longrightarrow> k < sa_next s" "sa_active s = Some j \<Longrightarrow> j < sa_next s"
    using a by (simp_all add: o)
  show "job_ready s j \<Longrightarrow> j < sa_next s" by (rule r)
qed

text \<open>What keeps the queue moving.\<close>

definition approver_live :: "approver \<Rightarrow> bool" where
  "approver_live s \<longleftrightarrow>
     (sa_active s = None \<and> sa_queue s \<noteq> [] \<longrightarrow> Promote \<in> set (sa_tasks s)) \<and>
     (\<forall>j. sa_active s = Some j \<longrightarrow> job_ready s j \<or> Launch j \<in> set (sa_tasks s))"

lemma approver_ok_complete:
  assumes "approver_ok s" "j \<notin> set (sa_queue s)"
  shows "approver_ok (complete_job j r s)"
proof -
  note ok = approver_okD [OF assms(1)]
  show ?thesis
    by (rule approver_okI)
      (use assms(2) ok(2,8) in \<open>auto simp: ok(1,4) dest: ok(5-7,9) split: if_splits\<close>)
qed

lemma approver_live_complete: "approver_live s \<Longrightarrow> approver_live (complete_job j r s)"
  by (auto simp: approver_live_def)

lemma approver_ok_remove:
  assumes "approver_ok s" "j \<in> set (sa_queue s)"
  shows "approver_ok ((job_cancel j s)\<lparr>sa_queue := remove1 j (sa_queue s)\<rparr>)"
proof -
  note ok = approver_okD [OF assms(1)]
  have "sorted_wrt (<) (remove1 j (sa_queue s))"
    using ok(2,3) by (simp add: strict_sorted_iff sorted_remove1)
  moreover have "sa_active s \<noteq> Some j" using ok(5) [of j j] assms(2) by auto
  ultimately show ?thesis using assms(2) ok(3)
    by (intro approver_okI) (auto simp: ok(1,4,8) dest: ok(5,6,7,9))
qed

lemma approver_ok_cancel: "approver_ok s \<Longrightarrow> approver_ok (cancel_job j e s)"
  by (simp add: cancel_job_cases approver_ok_complete approver_ok_remove)

lemma approver_live_cancel: "approver_live s \<Longrightarrow> approver_live (cancel_job j e s)"
  by (cases "sa_queue s") (auto simp: cancel_job_cases approver_live_complete, auto simp: approver_live_def)

lemma approver_ok_take: "approver_ok s \<Longrightarrow> approver_ok (take_task t s)"
  using set_remove1_subset [of t "sa_tasks s"] unfolding approver_ok_def by (simp add: subset_iff)

lemma spawn_fields [simp]:
  "sa_queue (spawn t s) = sa_queue s" "sa_next (spawn t s) = sa_next s"
  "sa_active (spawn t s) = sa_active s" "sa_jobs (spawn t s) = sa_jobs s"
  "sa_tasks (spawn t s) = sa_tasks s @ [t]"
  "job_open (spawn t s) k = job_open s k" "job_ready (spawn t s) k = job_ready s k"
  "results_final (spawn t s) = results_final s"
  by (simp_all add: spawn_def job_open_def job_ready_def results_final_def)

lemma approver_ok_spawn:
  assumes "approver_ok s" "\<And>j. t = Launch j \<Longrightarrow> sa_active s = Some j"
  shows "approver_ok (spawn t s)"
proof -
  note ok = approver_okD [OF assms(1)]
  show ?thesis
    by (rule approver_okI) (use ok(2,8) assms(2) in \<open>auto simp: ok(1,4) dest: ok(5-7,9,11)\<close>)
qed

lemma update_job_fields [simp]:
  "sa_queue (update_job j f s) = sa_queue s" "sa_next (update_job j f s) = sa_next s"
  "sa_active (update_job j f s) = sa_active s" "sa_tasks (update_job j f s) = sa_tasks s"
  "sa_jobs (update_job j f s) = (sa_jobs s)(j := map_option f (sa_jobs s j))"
  by (simp_all add: update_job_def)

text \<open>A change of the active job that leaves \<open>done\<close> and \<open>result\<close> alone.\<close>

lemma approver_ok_update:
  assumes "approver_ok s" "sa_active s = Some j"
    "\<And>b. jb_done (f b) = jb_done b" "\<And>b. jb_result (f b) = jb_result b"
  shows "approver_ok (update_job j f s)"
proof -
  note ok = approver_okD [OF assms(1)]
  have "job_open (update_job j f s) k = job_open s k" for k
    using assms(3) by (auto simp: job_open_def split: option.splits)
  moreover have "job_ready (update_job j f s) k \<Longrightarrow> job_ready s k \<or> k = j" for k
    by (auto simp: job_ready_def split: option.splits if_splits)
  moreover have "results_final (update_job j f s)"
    using ok(8) assms(3,4) by (auto simp: results_final_def)
  ultimately show ?thesis
    by (intro approver_okI) (use ok assms(2) in \<open>auto simp: ok(1,4) dest: ok(5,6,7,9)\<close>)
qed

lemma approver_ok_enqueue:
  assumes "approver_ok s"
  shows "approver_ok (enqueue_job p s)"
proof -
  note ok = approver_okD [OF assms]
  define s1 where "s1 = s\<lparr>sa_jobs := (sa_jobs s)(sa_next s \<mapsto> new_job p),
      sa_queue := sa_queue s @ [sa_next s], sa_next := Suc (sa_next s)\<rparr>"
  have f [simp]: "job_open s1 k \<longleftrightarrow> job_open s k \<or> k = sa_next s" "job_ready s1 k \<longleftrightarrow> job_ready s k" for k
    using ok(1) [of "sa_next s"] by (auto simp: s1_def job_open_def job_ready_def new_job_def)
  have "results_final s1"
    using ok(8) by (auto simp: s1_def results_final_def new_job_def split: if_splits)
  moreover have "sorted_wrt (<) (sa_queue s @ [sa_next s])"
    using ok(2,10) by (simp add: sorted_wrt_append)
  ultimately have "approver_ok s1"
    by (intro approver_okI, unfold f) (auto simp: s1_def ok(1,4) dest: ok(5-7,9-12) split: if_splits)
  moreover have "enqueue_job p s =
      (if sa_active s = None \<and> length (sa_queue s @ [sa_next s]) = 1 then spawn Promote s1 else s1)"
    by (simp add: enqueue_job_def Let_def s1_def)
  ultimately show ?thesis by (auto intro!: approver_ok_spawn)
qed

lemma approver_ok_promote:
  assumes "approver_ok s"
  shows "approver_ok (promote_next s)"
proof (cases "sa_active s = None \<and> sa_queue s \<noteq> []")
  case True
  then obtain j q where q: "sa_queue s = j # q" by (cases "sa_queue s") auto
  note ok = approver_okD [OF assms]
  define s1 where "s1 = s\<lparr>sa_queue := q, sa_active := Some j\<rparr>"
  have f [simp]: "job_open s1 k = job_open s k" "job_ready s1 k = job_ready s k" for k
    by (simp_all add: s1_def job_open_def job_ready_def)
  have "results_final s1" using ok(8) by (simp add: s1_def results_final_def)
  then have "approver_ok s1"
    by (intro approver_okI, unfold f)
      (use True q ok(2) in \<open>auto simp: s1_def ok(1,4) dest: ok(6,7,9)\<close>)
  moreover have "promote_next s = spawn (Launch j) s1" "sa_active s1 = Some j"
    using True q by (simp_all add: promote_next_def s1_def)
  ultimately show ?thesis by (auto intro!: approver_ok_spawn)
qed (auto simp: promote_next_def assms split: list.splits)


section \<open>What a submission does\<close>

text \<open>
  The result that a submission sends, if it sends one: \<open>None\<close> when the call is refused.
\<close>

definition decided :: "go_time \<Rightarrow> approval_payload \<Rightarrow> decision_payload \<Rightarrow> (err + decision) option" where
  "decided now p d =
     (case dp_decision d of
        ApproveOnce \<Rightarrow>
          Some (if now < ap_expires_at p then Inr (zero_decision\<lparr>de_approved := True\<rparr>) else Inl request_expired)
      | ApproveReusable \<Rightarrow>
          Some (if now < ap_expires_at p
            then Inr (zero_decision\<lparr>de_approved := True, de_reusable := True,
                        de_reusable_uses := ap_reusable_uses p\<rparr>)
            else Inl request_expired)
      | Deny \<Rightarrow> Some (Inr (zero_decision\<lparr>de_denial_reason := dp_denial_reason d\<rparr>))
      | DecisionTimeout \<Rightarrow> Some (Inl request_expired)
      | OtherKind k \<Rightarrow> None)"

definition accepted_submission ::
  "file_system \<Rightarrow> expected_approver \<Rightarrow> peer_info \<Rightarrow> approval_payload \<Rightarrow> decision_payload \<Rightarrow> bool" where
  "accepted_submission fs x peer p d \<longleftrightarrow>
     validate_approver_peer fs x peer = None \<and>
     dp_request_id d = ap_request_id p \<and> dp_nonce d = ap_nonce p \<and>
     validate_decision d (ap_reusable_uses p) (ap_allows_reusable p) = None"

definition submitted_result ::
  "file_system \<Rightarrow> go_time \<Rightarrow> peer_info \<Rightarrow> decision_payload \<Rightarrow> approval_job \<Rightarrow> (err + decision) option" where
  "submitted_result fs now peer d b =
     (case jb_expected b of
        None \<Rightarrow> None
      | Some x \<Rightarrow> if accepted_submission fs x peer (jb_payload b) d then decided now (jb_payload b) d else None)"

lemma submit_job_result:
  assumes "sa_jobs s j = Some b"
  shows "fst (submit_job fs now peer d j s) =
    (case submitted_result fs now peer d b of None \<Rightarrow> s | Some r \<Rightarrow> complete_job j r s)"
  using assms
  by (cases "jb_expected b"; cases "dp_decision d")
    (simp_all add: submit_job_def submitted_result_def accepted_submission_def decided_def
      complete_if_expired_def split: option.split)

section \<open>Every step keeps it\<close>

lemma not_queued:
  assumes "approver_ok s"
  shows "sa_active s = Some j \<Longrightarrow> j \<notin> set (sa_queue s)" "job_ready s j \<Longrightarrow> j \<notin> set (sa_queue s)"
    "Launch j \<in> set (sa_tasks s) \<Longrightarrow> j \<notin> set (sa_queue s)"
  using approver_okD(5-7) [OF assms, of j j] by auto

lemma job_ready_update [simp]:
  "job_ready (update_job j (jb_expected_update (\<lambda>_. Some x)) s) k \<longleftrightarrow>
     job_ready s k \<or> k = j \<and> sa_jobs s j \<noteq> None"
  "job_ready (update_job j (jb_used_update f) s) k \<longleftrightarrow> job_ready s k"
  by (auto simp: job_ready_def split: option.splits)

text \<open>What \<open>launch_job\<close>, \<open>fetch_job\<close> and \<open>submit_job\<close> can do to the state.\<close>

definition set_expected :: "nat \<Rightarrow> expected_approver \<Rightarrow> approver \<Rightarrow> approver" where
  "set_expected j x s =
     (if sa_active s = Some j then update_job j (jb_expected_update (\<lambda>_. Some x)) s else s)"

lemma complete_some: "\<exists>r. complete_job j (Inl e) s = complete_job j (Inl r) s"
  by blast

lemma launch_job_result:
  assumes "j \<notin> set (sa_queue s)"
  shows "launch_job now out j s = s \<and> sa_jobs s j = None \<or>
    (\<exists>r. launch_job now out j s = complete_job j (Inl r) s) \<or>
    (\<exists>x exits. out = Inr (x, exits) \<and> validate_expected_approver x = None \<and>
       launch_job now out j s =
         (if exits then spawn (Watch j) (set_expected j x s) else set_expected j x s))"
proof (cases "sa_jobs s j")
  case (Some b)
  note d = launch_job_def cancel_job_cases Some assms Let_def
  show ?thesis
  proof (cases "now < ap_expires_at (jb_payload b)")
    case True
    show ?thesis
    proof (cases out)
      case (Inl e)
      then show ?thesis by (simp add: d True complete_some)
    next
      case (Inr p)
      show ?thesis
        by (cases p; cases "validate_expected_approver (fst p)")
          (auto simp: d True Inr set_expected_def complete_some)
    qed
  qed (simp add: d complete_some)
qed (simp add: launch_job_def)

lemma fetch_job_result:
  "fst (fetch_job fs now peer j s) = s \<or>
   (\<exists>e. fst (fetch_job fs now peer j s) = complete_job j (Inl e) s) \<or>
   sa_active s = Some j \<and> fst (fetch_job fs now peer j s) = update_job j (jb_used_update (\<lambda>_. True)) s"
proof (cases "sa_jobs s j")
  case (Some b)
  show ?thesis
  proof (cases "jb_expected b")
    case (Some x)
    with \<open>sa_jobs s j = Some b\<close> show ?thesis
      by (cases "validate_approver_peer fs x peer")
        (simp_all add: fetch_job_def mark_expected_used_def complete_some)
  qed (simp add: fetch_job_def Some)
qed (simp add: fetch_job_def)

lemma approver_ok_step: "approver_step s l s' \<Longrightarrow> approver_ok s \<Longrightarrow> approver_ok s'"
proof (induction rule: approver_step.induct)
  case (arrive now p s s' r)
  then show ?case
    by (auto simp: approve_begin_def Let_def approver_ok_cancel approver_ok_enqueue split: if_splits)
next
  case (wake j s w s' r)
  then show ?case
    by (auto simp: approve_wake_def approver_ok_cancel split: wake.splits)
next
  case (launched j s x now exits)
  let ?s = "take_task (Launch j) s"
  from launched have ok: "approver_ok ?s" by (simp add: approver_ok_take)
  then have e: "approver_ok (set_expected j x ?s)" by (simp add: set_expected_def approver_ok_update)
  from launched have q: "j \<notin> set (sa_queue ?s)" by (simp add: not_queued)
  from launch_job_result [OF q, of now "Inr (x, exits)"] show ?case
    by (auto simp: ok approver_ok_complete [OF ok q] e intro!: approver_ok_spawn)
next
  case (not_launched j s now e)
  let ?s = "take_task (Launch j) s"
  from not_launched have ok: "approver_ok ?s" by (simp add: approver_ok_take)
  from not_launched have q: "j \<notin> set (sa_queue ?s)" by (simp add: not_queued)
  from launch_job_result [OF q, of now "Inl e"] show ?case
    by (auto simp: ok approver_ok_complete [OF ok q])
next
  case (exited j s)
  then show ?case by (auto simp: expected_exited_def approver_ok_take approver_ok_complete not_queued)
next
  case (fetched s j fs now peer s' r)
  with fetch_job_result [of fs now peer j s] show ?case
    by (auto simp: approver_ok_complete not_queued approver_ok_update)
next
  case (submitted s j fs now peer d s' r)
  from submitted(1) obtain b where "sa_jobs s j = Some b" by (auto simp: job_ready_def split: option.splits)
  from submit_job_result [OF this, of fs now peer d] submitted show ?case
    by (auto simp: approver_ok_complete not_queued split: option.splits)
qed (simp_all add: approver_ok_take approver_ok_promote)


lemma approver_live_spawn: "approver_live s \<Longrightarrow> approver_live (spawn t s)"
  by (auto simp: approver_live_def)

lemma approver_live_enqueue:
  assumes "approver_ok s" "approver_live s"
  shows "approver_live (enqueue_job p s)"
proof -
  have "sa_active s \<noteq> Some (sa_next s)" using approver_okD(11) [OF assms(1)] by auto
  then show ?thesis
    using assms(2) by (auto simp: approver_live_def enqueue_job_def Let_def job_ready_def)
qed

lemma approver_live_update:
  "approver_live s \<Longrightarrow> (\<And>k. job_ready s k \<Longrightarrow> job_ready (update_job j f s) k) \<Longrightarrow>
     approver_live (update_job j f s)"
  by (auto simp: approver_live_def)

text \<open>Running a task keeps the queue moving, although the task is gone.\<close>

lemma approver_live_promote:
  assumes "approver_live s"
  shows "approver_live (promote_next (take_task Promote s))"
proof -
  have "Launch k \<in> set (remove1 Promote ts) \<longleftrightarrow> Launch k \<in> set ts" for k ts
    by (simp add: in_set_remove1)
  then show ?thesis using assms
    by (auto simp: approver_live_def promote_next_def job_ready_def split: list.splits)
qed

lemma approver_live_launch:
  assumes "approver_ok s" "approver_live s" "Launch j \<in> set (sa_tasks s)"
  shows "approver_live (launch_job now out j (take_task (Launch j) s))"
proof -
  let ?s = "take_task (Launch j) s"
  have q: "j \<notin> set (sa_queue ?s)" using assms by (simp add: not_queued)
  have j: "sa_jobs s j \<noteq> None" using approver_okD(1,9) [OF assms(1), of j] assms(3) by auto
  have l: "Launch k \<in> set (remove1 (Launch j) (sa_tasks s))" if "Launch k \<in> set (sa_tasks s)" "k \<noteq> j" for k
    using that by (simp add: in_set_remove1)
  have "approver_live (complete_job j r ?s)" for r
    using assms(2) l by (auto simp: approver_live_def in_set_remove1)
  moreover have "approver_live (set_expected j x ?s)" for x
    using assms(2) l j by (auto simp: approver_live_def set_expected_def in_set_remove1)
  ultimately show ?thesis
    using launch_job_result [OF q, of now out] j by (auto intro!: approver_live_spawn)
qed

lemma approver_live_other:
  assumes "approver_live s"
  shows "approver_live (take_task (Watch j) s)"
  using assms by (simp add: approver_live_def in_set_remove1)

lemma approver_live_step: "approver_step s l s' \<Longrightarrow> approver_ok s \<Longrightarrow> approver_live s \<Longrightarrow> approver_live s'"
proof (induction rule: approver_step.induct)
  case (arrive now p s s' r)
  then show ?case
    by (auto simp: approve_begin_def Let_def approver_live_cancel approver_live_enqueue split: if_splits)
next
  case (wake j s w s' r)
  then show ?case
    by (auto simp: approve_wake_def approver_live_cancel split: wake.splits)
next
  case (exited j s)
  then show ?case by (simp add: expected_exited_def approver_live_other approver_live_complete)
next
  case (fetched s j fs now peer s' r)
  with fetch_job_result [of fs now peer j s] show ?case
    by (auto simp: approver_live_complete intro!: approver_live_update)
next
  case (submitted s j fs now peer d s' r)
  from submitted(1) obtain b where "sa_jobs s j = Some b" by (auto simp: job_ready_def split: option.splits)
  from submit_job_result [OF this, of fs now peer d] submitted show ?case
    by (auto simp: approver_live_complete split: option.splits)
qed (simp_all add: approver_live_promote approver_live_launch approver_live_other)

lemma approver_run_ok: "approver_run tr s \<Longrightarrow> approver_ok s \<and> approver_live s"
proof (induction rule: approver_run.induct)
  case approver_run_new
  show ?case
    by (auto simp: new_approver_def approver_ok_def approver_live_def job_open_def job_ready_def
        results_final_def)
qed (use approver_ok_step approver_live_step in blast)

section \<open>Where decisions come from\<close>

text \<open>The submission that stands behind the result of a job.\<close>

definition vouched :: "approver_event list \<Rightarrow> nat \<Rightarrow> approval_payload \<Rightarrow> decision \<Rightarrow> bool" where
  "vouched tr j p d \<longleftrightarrow>
     (\<exists>x fs now peer dp. Submitted j fs now peer dp \<in> set tr \<and> Launched j x \<in> set tr \<and>
        validate_expected_approver x = None \<and> accepted_submission fs x peer p dp \<and>
        decided now p dp = Some (Inr d))"

definition traced :: "approver_event list \<Rightarrow> approver \<Rightarrow> bool" where
  "traced tr s \<longleftrightarrow>
     (\<forall>j b. sa_jobs s j = Some b \<longrightarrow>
        Arrived j (jb_payload b) \<in> set tr \<and>
        (\<forall>x. jb_expected b = Some x \<longrightarrow> Launched j x \<in> set tr \<and> validate_expected_approver x = None) \<and>
        (\<forall>d. jb_result b = Some (Inr d) \<longrightarrow> vouched tr j (jb_payload b) d))"

lemma vouched_Cons: "vouched tr j p d \<Longrightarrow> vouched (x # tr) j p d"
  unfolding vouched_def by (metis list.set_intros(2))

lemma traced_Cons: "traced tr s \<Longrightarrow> traced (x # tr) s"
  by (auto simp: traced_def vouched_Cons)

lemma traced_jobs: "traced tr s \<Longrightarrow> sa_jobs s' = sa_jobs s \<Longrightarrow> traced tr s'"
  by (simp add: traced_def)

lemma traced_complete_error: "traced tr s \<Longrightarrow> traced tr (complete_job j (Inl e) s)"
  by (auto simp: traced_def split: option.splits)

lemma traced_cancel: "traced tr s \<Longrightarrow> traced tr (cancel_job j e s)"
  by (auto simp: cancel_job_cases traced_complete_error) (auto simp: traced_def)


lemma traced_update:
  assumes "traced tr s" "\<And>b. jb_payload (f b) = jb_payload b" "\<And>b. jb_result (f b) = jb_result b"
    "\<And>b x. sa_jobs s j = Some b \<Longrightarrow> jb_expected (f b) = Some x \<Longrightarrow>
       Launched j x \<in> set tr \<and> validate_expected_approver x = None"
  shows "traced tr (update_job j f s)"
  using assms by (auto simp: traced_def)

lemma traced_enqueue:
  assumes "traced tr s"
  shows "traced (Arrived (sa_next s) p # tr) (enqueue_job p s)"
  using traced_Cons [OF assms, of "Arrived (sa_next s) p"]
  by (auto simp: traced_def enqueue_job_def Let_def new_job_def)

lemma traced_launch:
  assumes "traced tr s" "Launched j x \<in> set tr" "j \<notin> set (sa_queue s)"
  shows "traced tr (launch_job now (Inr (x, e)) j s)"
proof -
  have "validate_expected_approver x = None \<Longrightarrow> traced tr (set_expected j x s)"
    using assms(1,2) by (auto simp: set_expected_def intro!: traced_update)
  then show ?thesis
    using launch_job_result [OF assms(3), of now "Inr (x, e)"] assms(1)
    by (auto simp: traced_complete_error intro: traced_jobs [of _ "set_expected j x s"])
qed

lemma traced_submit:
  assumes t: "traced tr s" and b: "sa_jobs s j = Some b" and m: "Submitted j fs now peer d \<in> set tr"
  shows "traced tr (fst (submit_job fs now peer d j s))"
proof (cases "submitted_result fs now peer d b")
  case None
  with submit_job_result [OF b, of fs now peer d] t show ?thesis by simp
next
  case (Some r)
  then obtain x where x: "jb_expected b = Some x" "accepted_submission fs x peer (jb_payload b) d"
    "decided now (jb_payload b) d = Some r"
    by (auto simp: submitted_result_def split: option.splits if_splits)
  from t b x(1) have l: "Launched j x \<in> set tr" "validate_expected_approver x = None"
    by (auto simp: traced_def)
  have "vouched tr j (jb_payload b) v" if "r = Inr v" for v
    unfolding vouched_def using m l x that by blast
  with t b have "traced tr (complete_job j r s)"
    by (auto simp: traced_def split: option.splits)
  with submit_job_result [OF b, of fs now peer d] Some show ?thesis by simp
qed

lemma traced_step:
  assumes "approver_step s l s'" "approver_ok s" "traced tr s"
  shows "traced (l # tr) s'"
  using assms
proof (induction rule: approver_step.induct)
  case (arrive now p s s' r)
  then show ?case
    by (auto simp: approve_begin_def Let_def traced_cancel traced_enqueue split: if_splits)
next
  case (wake j s w s' r)
  then show ?case
    by (auto simp: approve_wake_def traced_cancel traced_Cons split: wake.splits)
next
  case (promote s)
  then show ?case
    by (intro traced_Cons) (auto intro: traced_jobs simp: promote_next_def split: list.splits)
next
  case (launched j s x now exits)
  then have "traced (Launched j x # tr) (take_task (Launch j) s)" "j \<notin> set (sa_queue (take_task (Launch j) s))"
    by (auto intro: traced_Cons traced_jobs simp: not_queued)
  then show ?case by (intro traced_launch) simp_all
next
  case (not_launched j s now e)
  let ?s = "take_task (Launch j) s"
  have "traced tr ?s" "j \<notin> set (sa_queue ?s)"
    using not_launched by (auto intro: traced_jobs simp: not_queued)
  with launch_job_result [of j ?s now "Inl e"] show ?case
    by (auto intro!: traced_Cons simp: traced_complete_error)
next
  case (exited j s)
  then have "traced tr (take_task (Watch j) s)" by (auto intro: traced_jobs)
  then show ?case by (auto intro!: traced_Cons simp: expected_exited_def traced_complete_error)
next
  case (unwatched j s b)
  then show ?case by (auto intro: traced_Cons traced_jobs)
next
  case (fetched s j fs now peer s' r)
  then have "traced tr (update_job j (jb_used_update (\<lambda>_. True)) s)"
    by (intro traced_update) (auto simp: traced_def)
  with fetched fetch_job_result [of fs now peer j s] show ?case
    by (auto intro!: traced_Cons simp: traced_complete_error)
next
  case (submitted s j fs now peer d s' r)
  from submitted(1) obtain b where b: "sa_jobs s j = Some b" by (auto simp: job_ready_def split: option.splits)
  have "traced (Submitted j fs now peer d # tr) s" using submitted by (simp add: traced_Cons)
  from traced_submit [OF this b, of fs now peer d] submitted(2) show ?case by simp
qed

lemma approver_run_traced: "approver_run tr s \<Longrightarrow> traced tr s"
proof (induction rule: approver_run.induct)
  case approver_run_new
  show ?case by (simp add: traced_def new_approver_def)
qed (use traced_step approver_run_ok in blast)

end
