(* ===== verification/ApproverProperties.thy ===== *)
theory ApproverProperties
  imports ApproverRuns BrokerSamples
begin

text \<open>
  Properties of the processes the daemon trusts: the clients it serves, the approver it launches,
  and the decisions it takes from it.
\<close>

section \<open>A signed client and a signed approver\<close>

text \<open>A \<open>codesign\<close> that finds the same team on everything.\<close>

definition sample_codesign :: command_runner where
  "sample_codesign args =
     (if hd args = ''-dv'' then (''Identifier=app'' @ [char_of (10::nat)] @ ''TeamIdentifier=TEAM1'', None)
      else ('''', None))"

definition sample_set :: executable_set where
  "sample_set = new_executable_validator sample_fs sample_codesign ['' /usr/bin/env''] ''TEAM1''"

lemma sample_set_accepts: "validate_set_peer sample_fs sample_set sample_peer = None"
  by code_simp

definition sample_app_fs :: file_system where
  "sample_app_fs = \<lparr>fs_stat = (\<lambda>p. Inr \<lparr>fi_is_dir = False, fi_mode = 0x1ED, fi_size = 1, fi_mod_time = 1,
       fi_sys = None\<rparr>),
     fs_eval_symlinks = (\<lambda>p. Inr p), fs_abs = (\<lambda>p. Inr p), fs_euid = 501\<rparr>"

definition sample_trust :: trust_env where
  "sample_trust = \<lparr>te_fs = sample_app_fs,
     te_plist = (\<lambda>p. if p = ''/Applications/Agent Secret.app/Contents/Info.plist''
        then Inr (plist_tokens [(''CFBundleExecutable'', ''Agent Secret''),
                                (''CFBundleIdentifier'', ''com.kovyrin.agent-secret'')])
        else Inl (Text ''no such file'')),
     te_uid = 501, te_gid = 20\<rparr>"

definition sample_launch :: "err + expected_approver" where
  "sample_launch = launch_approver sample_trust sample_codesign (default_bundle_policy ''TEAM1'')
     (Inr ''/bin/agent-secretd'') (Inr ''/Users/me'') ''/Applications/Agent Secret.app''
     None None (Inr 4711) None"

definition sample_approver :: expected_approver where
  "sample_approver = projr sample_launch"

definition sample_approver_peer :: peer_info where
  "sample_approver_peer = \<lparr>pi_uid = 501, pi_gid = 20, pi_pid = 4711,
     pi_exe = ''/Applications/Agent Secret.app/Contents/MacOS/Agent Secret'', pi_cwd = ''/''\<rparr>"




section \<open>A decided request\<close>

definition sample_payload :: approval_payload where
  "sample_payload = new_exec_payload sample_correlation sample_request"

definition sample_answer :: decision_payload where
  "sample_answer = \<lparr>dp_request_id = ''req_1'', dp_nonce = ''nonce_1'', dp_decision = ApproveReusable,
     dp_reusable_uses = Some (ap_reusable_uses sample_payload), dp_denial_reason = ''''\<rparr>"

definition asked :: approver where
  "asked = fst (approve_begin 2000 sample_payload new_approver)"

definition promoted :: approver where
  "promoted = promote_next (take_task Promote asked)"

definition launched_for :: approver where
  "launched_for = launch_job 2001 (Inr (sample_approver, True)) 0 (take_task (Launch 0) promoted)"

definition answered :: approver where
  "answered = fst (submit_job sample_app_fs 2002 sample_approver_peer sample_answer 0 launched_for)"

definition answered_trace :: "approver_event list" where
  "answered_trace = [Submitted 0 sample_app_fs 2002 sample_approver_peer sample_answer,
     Launched 0 sample_approver, Internal, Arrived 0 sample_payload]"

lemma asked_tasks: "Promote \<in> set (sa_tasks asked)"
  by code_simp

lemma promoted_tasks: "Launch 0 \<in> set (sa_tasks promoted)"
  by code_simp

lemma launched_ready: "job_ready launched_for 0"
  by code_simp

lemma answered_result:
  "map_option (\<lambda>b. (jb_payload b, jb_result b)) (sa_jobs answered 0) =
     Some (sample_payload, Some (Inr \<lparr>de_approved = True, de_reusable = True,
       de_reusable_uses = ap_reusable_uses sample_payload, de_denial_reason = ''''\<rparr>))"
  by code_simp

lemma answered_run: "approver_run answered_trace answered"
proof -
  have "approver_run [Arrived 0 sample_payload] asked"
    using approver_run_step [OF approver_run_new arrive, of 2000 sample_payload]
    by (metis asked_def new_approver_def prod.collapse approver.select_convs(2))
  from approver_run_step [OF this promote [OF asked_tasks]]
  have "approver_run [Internal, Arrived 0 sample_payload] promoted" by (simp add: promoted_def)
  from approver_run_step [OF this launched [OF promoted_tasks]]
  have "approver_run [Launched 0 sample_approver, Internal, Arrived 0 sample_payload] launched_for"
    unfolding launched_for_def .
  from approver_run_step [OF this submitted [OF launched_ready prod.collapse [symmetric]]]
  show ?thesis unfolding answered_trace_def answered_def .
qed

section \<open>The properties\<close>

text \<open>
C7: A client that the daemon serves runs the very executable that was trusted when the daemon
started: the path of the peer resolves to one of the trusted paths, and the identity of the file
there (device, inode, mode, size and times) is still the one captured at the start. With a release
team configured, both the file and the running process carry that team's signature; and a client
inside an app bundle is refused when no team is configured.
\<close>
theorem trusted_client_genuine:
  assumes "validate_set_peer fs (new_executable_validator fs0 run paths team) info = None"
  shows "\<exists>p \<in> set paths. \<exists>path i. strict_path fs0 (trim_space p) = Inr path \<and>
     strict_path fs (pi_exe info) = Inr path \<and> capture fs0 path = Inr i \<and> capture fs path = Inr i \<and>
     (trim_space team \<noteq> '''' \<and> trim_space team \<noteq> development_team_id \<longrightarrow>
        verify_code_signature run path = Inr (trim_space team) \<and>
        verify_process_code_signature run (pi_pid info) = Inr (trim_space team)) \<and>
     (containing_app_bundle_path path \<noteq> None \<longrightarrow> trim_space team \<noteq> '''')"
  using validate_set_peer_None [OF assms [unfolded new_executable_validator_def new_executable_set_def]]
  by (auto simp: signed_by_def codesign_verifier_def)

theorem trusted_client_genuine_witness:
  "verify_process_code_signature sample_codesign 300 = Inr ''TEAM1''"
proof -
  have "trim_space ''TEAM1'' = ''TEAM1''" "''TEAM1'' \<noteq> development_team_id" by code_simp+
  with trusted_client_genuine [OF sample_set_accepts [unfolded sample_set_def]] show ?thesis
    by (auto simp: sample_peer_def)
qed



text \<open>
C5: Whatever the order in which requests arrive, time out and are cancelled, approver processes
start, die, fetch and answer: a decision that a waiting request receives was submitted for that very
request (its id and nonce) by the process launched for it, was a well-formed answer to its payload,
and an approval came before the request expired. A reusable approval is granted only when the
payload allows it, with exactly the number of uses that the payload asked for.
\<close>
theorem decisions_from_launched_approver:
  assumes "approver_run tr s" "sa_jobs s j = Some b" "jb_result b = Some (Inr d)"
  shows "\<exists>x fs now peer dp. Launched j x \<in> set tr \<and> Submitted j fs now peer dp \<in> set tr \<and>
     genuine_approver fs x peer \<and>
     dp_request_id dp = ap_request_id (jb_payload b) \<and> dp_nonce dp = ap_nonce (jb_payload b) \<and>
     (de_approved d \<longrightarrow> now < ap_expires_at (jb_payload b)) \<and>
     (de_reusable d \<longrightarrow> de_approved d \<and> ap_allows_reusable (jb_payload b) \<and>
        de_reusable_uses d = ap_reusable_uses (jb_payload b) \<and> 0 < de_reusable_uses d)"
proof -
  from approver_run_traced [OF assms(1)] assms(2,3)
  have "vouched tr j (jb_payload b) d" by (simp add: traced_def)
  then obtain x fs now peer dp where m: "Submitted j fs now peer dp \<in> set tr" "Launched j x \<in> set tr"
    and x: "validate_expected_approver x = None"
    and a: "accepted_submission fs x peer (jb_payload b) dp"
    and d: "decided now (jb_payload b) dp = Some (Inr d)"
    unfolding vouched_def by blast
  from a have g: "genuine_approver fs x peer"
    by (simp add: accepted_submission_def validate_approver_peer_None_iff [OF x])
  have "de_approved d \<longrightarrow> now < ap_expires_at (jb_payload b)"
    "de_reusable d \<longrightarrow> de_approved d \<and> dp_decision dp = ApproveReusable \<and>
       de_reusable_uses d = ap_reusable_uses (jb_payload b)"
    using d by (auto simp: decided_def zero_decision_def split: decision_kind.splits if_splits)
  moreover have "dp_decision dp = ApproveReusable \<Longrightarrow>
      ap_allows_reusable (jb_payload b) \<and> 0 < ap_reusable_uses (jb_payload b)"
    using a by (auto simp: accepted_submission_def dest: validate_decision_None)
  moreover have "dp_request_id dp = ap_request_id (jb_payload b)" "dp_nonce dp = ap_nonce (jb_payload b)"
    using a by (simp_all add: accepted_submission_def)
  ultimately show ?thesis using m g
    by (intro exI [of _ x] exI [of _ fs] exI [of _ now] exI [of _ peer] exI [of _ dp]) auto
qed

theorem decisions_from_launched_approver_witness:
  "\<exists>x fs now peer dp. Launched 0 x \<in> set answered_trace \<and> Submitted 0 fs now peer dp \<in> set answered_trace \<and>
     genuine_approver fs x peer \<and> now < ap_expires_at sample_payload"
proof -
  from answered_result obtain b d where b: "sa_jobs answered 0 = Some b" "jb_payload b = sample_payload"
    "jb_result b = Some (Inr d)" "de_approved d" by auto
  show ?thesis using decisions_from_launched_approver [OF answered_run b(1,3)] b(2,4) by metis
qed

text \<open>
C31: No request is forgotten and none overtakes another: in every reachable state a request whose
waiting has not ended is the active one or in the queue, the queue is in the order of arrival and
behind the active request; when something is queued and nothing is active a promotion is pending,
and an active request has its approver or a pending launch. A request that has a result is over.
\<close>
theorem approver_queue_moves:
  assumes "approver_run tr s"
  shows "(\<forall>j. job_open s j \<longleftrightarrow> j \<in> set (sa_queue s) \<or> sa_active s = Some j) \<and>
    sorted_wrt (<) (sa_queue s) \<and>
    (\<forall>j k. sa_active s = Some j \<and> k \<in> set (sa_queue s) \<longrightarrow> j < k) \<and>
    (sa_active s = None \<and> sa_queue s \<noteq> [] \<longrightarrow> Promote \<in> set (sa_tasks s)) \<and>
    (\<forall>j. sa_active s = Some j \<longrightarrow> job_ready s j \<or> Launch j \<in> set (sa_tasks s)) \<and>
    (\<forall>j b. sa_jobs s j = Some b \<and> jb_result b \<noteq> None \<longrightarrow> \<not> job_open s j)"
proof -
  note inv = approver_run_ok [OF assms]
  note ok = approver_okD [OF conjunct1 [OF inv]]
  have "\<not> job_open s j" if "sa_jobs s j = Some b" "jb_result b \<noteq> None" for j b
    using ok(8) that by (auto simp: results_final_def job_open_def)
  with ok(2,4,5) conjunct2 [OF inv] show ?thesis unfolding approver_live_def by blast
qed

theorem approver_queue_moves_witness: "\<not> job_open answered 0"
proof -
  from answered_result obtain b where "sa_jobs answered 0 = Some b" "jb_result b \<noteq> None" by auto
  with approver_queue_moves [OF answered_run] show ?thesis by blast
qed

end
