(* ===== verification/Protocol.thy ===== *)
theory Protocol
  imports Approval
begin

text \<open>
  The wire protocol: \<open>internal/daemon/protocol/protocol.go\<close>. A frame is a line of JSON. The reader
  is a \<open>bufio.Reader\<close> of Go's default size over the bytes of the connection; decoding a line into
  an envelope is an argument. A payload is represented by what it decodes to.
\<close>

section \<open>Envelopes\<close>

text \<open>\<open>MessageType\<close> is a string type: its constants, and any other string.\<close>

datatype message_type =
    TypeHelperHello | TypeDaemonStatus | TypeDaemonStop | TypeOnePasswordStatus
  | TypeApprovalPending | TypeApprovalDecision | TypeRequestExec | TypeItemDescribe
  | TypeSessionCreate | TypeSessionResolve | TypeSessionDestroy | TypeSessionList
  | TypeCommandStarted | TypeCommandCompleted | TypeOK | TypeError | TypeOther string

text \<open>
  The payload of an envelope: absent (or \<open>null\<close>), or the results of unmarshalling it into each of
  the types that the server asks for.
\<close>

record raw_payload =
  rp_exec :: "err + exec_request"
  rp_item :: "err + item_describe_request"
  rp_session_create :: "err + session_create_request"
  rp_session_resolve :: "err + session_resolve_request"
  rp_session_destroy :: "err + session_destroy_request"
  rp_decision :: "err + decision_payload"
  rp_account :: "err + string"
  rp_child_pid :: "err + int"
  rp_completed :: "err + int \<times> string"

record envelope =
  nv_version :: int
  nv_type :: message_type
  nv_request_id :: string
  nv_nonce :: string
  nv_payload :: "raw_payload option"

definition protocol_version :: int where
  "protocol_version = 1"

definition default_max_frame_bytes :: int where
  "default_max_frame_bytes = 2 ^ 20"

definition envelope_correlation :: "envelope \<Rightarrow> correlation" where
  "envelope_correlation v = \<lparr>co_request_id = nv_request_id v, co_nonce = nv_nonce v\<rparr>"

definition decode_required :: "(raw_payload \<Rightarrow> err + 'a) \<Rightarrow> envelope \<Rightarrow> err + 'a" where
  "decode_required f v =
     (case nv_payload v of
        None \<Rightarrow> Inl malformed
      | Some p \<Rightarrow> (case f p of Inl e \<Rightarrow> Inl (Wrap (ProtocolErr ErrMalformedEnvelope) e) | Inr x \<Rightarrow> Inr x))"

definition validate_envelope :: "envelope \<Rightarrow> err option" where
  "validate_envelope v =
     (if nv_version v \<noteq> protocol_version then Some (Err (ProtocolErr ErrProtocolVersion))
      else if nv_type v = TypeOther '''' then Some malformed
      else None)"

section \<open>Reading a frame\<close>

text \<open>
  A reader: the bytes that are still to come and how the stream ends. \<open>ReadSlice\<close> returns the bytes
  up to the delimiter when it is among the next 4096 bytes, else a full buffer, else what is left
  with the error of the stream.
\<close>

datatype stream_end = StreamEof | StreamError err

record reader =
  rd_bytes :: string
  rd_end :: stream_end

datatype slice_end = Delimiter | BufferFull | SliceEof | SliceError err

definition buffer_size :: nat where
  "buffer_size = 4096"

abbreviation newline :: char where
  "newline \<equiv> CHR 0x0A"

definition read_slice :: "reader \<Rightarrow> string \<times> slice_end \<times> reader" where
  "read_slice r =
     (let window = take buffer_size (rd_bytes r) in
      if newline \<in> set window then
        (let line = takeWhile (\<lambda>c. c \<noteq> newline) window @ [newline]
         in (line, Delimiter, r\<lparr>rd_bytes := drop (length line) (rd_bytes r)\<rparr>))
      else if buffer_size \<le> length (rd_bytes r) then
        (window, BufferFull, r\<lparr>rd_bytes := drop buffer_size (rd_bytes r)\<rparr>)
      else (rd_bytes r, case rd_end r of StreamEof \<Rightarrow> SliceEof | StreamError e \<Rightarrow> SliceError e,
            r\<lparr>rd_bytes := []\<rparr>))"

text \<open>
  The error of a frame: \<open>io.EOF\<close> between frames, or an error of the protocol or of the connection.
\<close>

datatype frame_error = FrameEof | FrameError err

abbreviation frame_too_large :: frame_error where
  "frame_too_large \<equiv> FrameError (Err (ProtocolErr ErrProtocolFrameSize))"

lemma read_slice_full_shorter:
  "read_slice r = (chunk, BufferFull, r') \<Longrightarrow> length (rd_bytes r') < length (rd_bytes r)"
  by (auto simp: read_slice_def Let_def buffer_size_def split: if_splits stream_end.splits)

function read_line :: "int \<Rightarrow> string \<Rightarrow> reader \<Rightarrow> reader \<times> (frame_error + string)" where
  "read_line limit line r =
     (case read_slice r of
        (chunk, e, r') \<Rightarrow>
          if chunk \<noteq> [] \<and> limit < int (length line) + int (length chunk) then (r', Inl frame_too_large)
          else (let line' = line @ chunk in
            case e of
              Delimiter \<Rightarrow> (r', Inr line')
            | BufferFull \<Rightarrow> read_line limit line' r'
            | SliceEof \<Rightarrow>
                (r', Inl (if line' = [] then FrameEof else FrameError malformed))
            | SliceError x \<Rightarrow> (r', Inl (FrameError x))))"
  by pat_completeness auto
termination
  by (relation "measure (\<lambda>(limit, line, r). length (rd_bytes r))")
    (auto dest!: read_slice_full_shorter [OF sym])

declare read_line.simps [simp del]

definition read_envelope_frame ::
  "(string \<Rightarrow> err + envelope) \<Rightarrow> int \<Rightarrow> reader \<Rightarrow> reader \<times> (frame_error + envelope)" where
  "read_envelope_frame decode max_bytes r =
     (let limit = (if max_bytes \<le> 0 then default_max_frame_bytes else max_bytes) in
      case read_line limit [] r of
        (r', Inl e) \<Rightarrow> (r', Inl e)
      | (r', Inr line) \<Rightarrow>
          (let text = trim_space line in
           if text = [] then (r', Inl (FrameError malformed))
           else case decode text of
             Inl e \<Rightarrow> (r', Inl (FrameError (Wrap (ProtocolErr ErrMalformedEnvelope) e)))
           | Inr v \<Rightarrow> (r', Inr v)))"

section \<open>The reader cuts lines, whatever the buffer\<close>

definition cut_line :: "string \<Rightarrow> (string \<times> string) option" where
  "cut_line s = (if newline \<in> set s
     then Some (takeWhile (\<lambda>c. c \<noteq> newline) s @ [newline], tl (dropWhile (\<lambda>c. c \<noteq> newline) s))
     else None)"

text \<open>
  What one frame is, without a buffer: the first line of the stream if it is short enough, else an
  error that depends on how the stream ends.
\<close>

definition line_of_stream :: "int \<Rightarrow> reader \<Rightarrow> frame_error + string" where
  "line_of_stream limit r =
     (case cut_line (rd_bytes r) of
        Some (line, rest) \<Rightarrow> if int (length line) \<le> limit then Inr line else Inl frame_too_large
      | None \<Rightarrow>
          if limit < int (length (rd_bytes r)) \<and> rd_bytes r \<noteq> [] then Inl frame_too_large
          else case rd_end r of
            StreamEof \<Rightarrow> Inl (if rd_bytes r = [] then FrameEof else FrameError malformed)
          | StreamError x \<Rightarrow> Inl (FrameError x))"

lemma takeWhile_take:
  "c \<in> set (take n xs) \<Longrightarrow> takeWhile (\<lambda>x. x \<noteq> c) (take n xs) = takeWhile (\<lambda>x. x \<noteq> c) xs"
proof (induction xs arbitrary: n)
  case (Cons x xs)
  then show ?case by (cases n) auto
qed simp

lemma takeWhile_append_free: "c \<notin> set xs \<Longrightarrow> takeWhile (\<lambda>x. x \<noteq> c) (xs @ ys) = xs @ takeWhile (\<lambda>x. x \<noteq> c) ys"
  by (induction xs) auto

lemma dropWhile_append_free: "c \<notin> set xs \<Longrightarrow> dropWhile (\<lambda>x. x \<noteq> c) (xs @ ys) = dropWhile (\<lambda>x. x \<noteq> c) ys"
  by (induction xs) auto

lemma cut_line_append:
  "newline \<notin> set acc \<Longrightarrow> cut_line (acc @ s) = map_option (\<lambda>(l, rest). (acc @ l, rest)) (cut_line s)"
  by (auto simp: cut_line_def takeWhile_append_free dropWhile_append_free)

lemma cut_line_eq: "cut_line s = Some (l, rest) \<Longrightarrow> s = l @ rest \<and> newline \<in> set l"
proof -
  assume c: "cut_line s = Some (l, rest)"
  then have n: "newline \<in> set s" and l: "l = takeWhile (\<lambda>c. c \<noteq> newline) s @ [newline]"
    and rest: "rest = tl (dropWhile (\<lambda>c. c \<noteq> newline) s)" by (auto simp: cut_line_def split: if_splits)
  from n have "dropWhile (\<lambda>c. c \<noteq> newline) s \<noteq> []" by (auto simp: dropWhile_eq_Nil_conv)
  moreover from this have "hd (dropWhile (\<lambda>c. c \<noteq> newline) s) = newline"
    using hd_dropWhile by blast
  ultimately have "dropWhile (\<lambda>c. c \<noteq> newline) s = newline # rest"
    using rest by (metis list.collapse)
  with takeWhile_dropWhile_id [of "\<lambda>c. c \<noteq> newline" s] have "s = l @ rest" by (simp add: l)
  moreover have "newline \<in> set l" unfolding l by simp
  ultimately show ?thesis by blast
qed

lemma cut_line_long:
  assumes "newline \<notin> set (take n s)" "cut_line s = Some (l, rest)" "n \<le> length s"
  shows "n < length l"
proof (rule ccontr)
  assume "\<not> n < length l"
  with cut_line_eq [OF assms(2)] have "set l \<subseteq> set (take n s)" by auto
  with cut_line_eq [OF assms(2)] assms(1) show False by auto
qed

text \<open>The three outcomes of \<open>ReadSlice\<close> over a stream.\<close>

lemma read_slice_cases:
  obtains l rest where "cut_line (rd_bytes r) = Some (l, rest)"
      "read_slice r = (l, Delimiter, r\<lparr>rd_bytes := rest\<rparr>)"
  | "newline \<notin> set (take buffer_size (rd_bytes r))" "buffer_size \<le> length (rd_bytes r)"
      "read_slice r = (take buffer_size (rd_bytes r), BufferFull, r\<lparr>rd_bytes := drop buffer_size (rd_bytes r)\<rparr>)"
  | "cut_line (rd_bytes r) = None"
      "read_slice r = (rd_bytes r, case rd_end r of StreamEof \<Rightarrow> SliceEof | StreamError e \<Rightarrow> SliceError e,
         r\<lparr>rd_bytes := []\<rparr>)"
proof -
  let ?s = "rd_bytes r" and ?w = "take buffer_size (rd_bytes r)"
  consider "newline \<in> set ?w" | "newline \<notin> set ?w" "buffer_size \<le> length ?s"
    | "newline \<notin> set ?w" "\<not> buffer_size \<le> length ?s" by blast
  then show thesis
  proof cases
    case 1
    then have "newline \<in> set ?s" by (auto dest: in_set_takeD)
    then obtain l rest where c: "cut_line ?s = Some (l, rest)" by (auto simp: cut_line_def)
    then have "l = takeWhile (\<lambda>c. c \<noteq> newline) ?s @ [newline]" by (auto simp: cut_line_def split: if_splits)
    moreover have "drop (length l) ?s = rest" using cut_line_eq [OF c] by simp
    ultimately show thesis using that(1) [OF c] 1
      by (simp add: read_slice_def Let_def takeWhile_take)
  next
    case 2
    then show thesis using that(2) by (simp add: read_slice_def Let_def)
  next
    case 3
    then show thesis using that(3) by (simp add: read_slice_def Let_def cut_line_def)
  qed
qed

lemma read_line_spec:
  assumes "newline \<notin> set acc" "int (length acc) \<le> limit"
  shows "snd (read_line limit acc r) = line_of_stream limit (r\<lparr>rd_bytes := acc @ rd_bytes r\<rparr>) \<and>
    (\<forall>l. snd (read_line limit acc r) = Inr l \<longrightarrow> acc @ rd_bytes r = l @ rd_bytes (fst (read_line limit acc r)))"
  using assms
proof (induction limit acc r rule: read_line.induct)
  case (1 limit acc r)
  show ?case
  proof (cases rule: read_slice_cases [of r])
    case (1 l rest)
    have "acc @ rd_bytes r = (acc @ l) @ rest" using cut_line_eq [OF 1(1)] by simp
    then show ?thesis
      using "1.prems" 1 cut_line_eq [OF 1(1)]
      by (subst (1 2 3) read_line.simps) (auto simp: line_of_stream_def cut_line_append Let_def)
  next
    case 2
    let ?w = "take buffer_size (rd_bytes r)" and ?r = "r\<lparr>rd_bytes := drop buffer_size (rd_bytes r)\<rparr>"
    have w: "length ?w = buffer_size" "?w \<noteq> []" using 2(2) by (auto simp: buffer_size_def)
    show ?thesis
    proof (cases "limit < int (length acc) + int buffer_size")
      case True
      have "line_of_stream limit (r\<lparr>rd_bytes := acc @ rd_bytes r\<rparr>) = Inl frame_too_large"
        using True "1.prems" 2 w cut_line_long [OF 2(1) _ 2(2)]
        by (auto simp: line_of_stream_def cut_line_append split: option.splits)
      moreover have "read_line limit acc r = (?r, Inl frame_too_large)"
        using True w by (subst read_line.simps) (simp add: 2(3))
      ultimately show ?thesis by simp
    next
      case False
      have "read_line limit acc r = read_line limit (acc @ ?w) ?r"
        using False w by (subst read_line.simps) (simp add: 2(3) Let_def)
      moreover have "snd (read_line limit (acc @ ?w) ?r) =
            line_of_stream limit (?r\<lparr>rd_bytes := (acc @ ?w) @ rd_bytes ?r\<rparr>) \<and>
          (\<forall>l. snd (read_line limit (acc @ ?w) ?r) = Inr l \<longrightarrow>
             (acc @ ?w) @ rd_bytes ?r = l @ rd_bytes (fst (read_line limit (acc @ ?w) ?r)))"
        by (rule "1.IH" [OF 2(3) [symmetric] refl _ refl refl])
          (use False w 2(1) "1.prems" in \<open>auto\<close>)
      ultimately show ?thesis by simp
    qed
  next
    case 3
    then show ?thesis
      using "1.prems"
      by (subst (1 2 3) read_line.simps)
        (auto simp: line_of_stream_def cut_line_append Let_def split: stream_end.splits)
  qed
qed

end
