(* ===== verification/Server.thy ===== *)
theory Server
  imports Broker Protocol
begin

text \<open>
  The server: \<open>internal/daemon/server.go\<close>. A connection reads one envelope at a time; the server
  checks the peer, decodes the payload, calls the broker or the approval endpoint and writes one
  response. The actions thread the server's state, whose part \<open>sr_world\<close> is the broker's; what the
  server reads from outside (the peer of the connection, the validators, the results of writes, the
  self check, the approval endpoint) is answered by a \<open>server_env\<close>, counted by the same tick.
\<close>

section \<open>State\<close>

datatype reply =
    ReplyEmpty
  | ReplyPid
  | ReplyHello
  | ReplyExec "string \<rightharpoonup> string" "string list"
  | ReplySession "string \<rightharpoonup> string" "string list" bool
  | ReplyCreated session_create_response
  | ReplyDestroyed session_destroy_response
  | ReplyList "session_info list"
  | ReplyItem item_metadata
  | ReplyPending approval_payload

datatype response =
    Replied correlation reply
  | Refused correlation error_code

record server =
  sr_world :: world
  sr_retire :: bool
  sr_stopped :: bool
  sr_out :: "response list"

record endpoint =
  ep_fetch :: "nat \<Rightarrow> peer_info \<Rightarrow> err + approval_payload"
  ep_submit :: "nat \<Rightarrow> peer_info \<Rightarrow> decision_payload \<Rightarrow> err option"

record server_env =
  se_broker :: env
  se_approvals :: "endpoint option"
  se_peer :: "nat \<Rightarrow> err + peer_info"
  se_client :: "nat \<Rightarrow> peer_info \<Rightarrow> err option"
  se_account_check :: "nat \<Rightarrow> string \<Rightarrow> err option"
  se_self_check :: "(nat \<Rightarrow> err option) option"
  se_write :: "nat \<Rightarrow> err option"
  se_deadline :: "nat \<Rightarrow> err option"
  se_now :: "nat \<Rightarrow> go_time"
  se_read_timeout :: duration

type_synonym 'a sact = "server_env \<Rightarrow> server \<Rightarrow> server \<times> 'a"

definition sret :: "'a \<Rightarrow> 'a sact" where
  "sret x = (\<lambda>se s. (s, x))"

definition sbind :: "'a sact \<Rightarrow> ('a \<Rightarrow> 'b sact) \<Rightarrow> 'b sact" where
  "sbind m f = (\<lambda>se s. case m se s of (s', x) \<Rightarrow> f x se s')"

definition sask :: "(server_env \<Rightarrow> nat \<Rightarrow> 'a) \<Rightarrow> 'a sact" where
  "sask f = (\<lambda>se s. (s\<lparr>sr_world := (sr_world s)\<lparr>w_tick := Suc (w_tick (sr_world s))\<rparr>\<rparr>,
     f se (w_tick (sr_world s))))"

definition smodify :: "(server \<Rightarrow> server) \<Rightarrow> unit sact" where
  "smodify f = (\<lambda>se s. (f s, ()))"

definition sgets :: "(server \<Rightarrow> 'a) \<Rightarrow> 'a sact" where
  "sgets f = (\<lambda>se s. (s, f s))"

text \<open>A call of the broker.\<close>

definition on_broker :: "'a act \<Rightarrow> (err + 'a) sact" where
  "on_broker a = (\<lambda>se s. case a (se_broker se) (sr_world s) of (w, r) \<Rightarrow> (s\<lparr>sr_world := w\<rparr>, r))"

lemmas sact_defs = sret_def sbind_def sask_def smodify_def sgets_def on_broker_def

section \<open>Error codes\<close>

text \<open>\<open>codeForError\<close>: the first sentinel of the list that the error is.\<close>

definition code_table :: "(sentinel \<times> error_code) list" where
  "code_table =
     [(ApprovalErr ErrApprovalDenied, ApprovalDenied),
      (BrokerErr ErrAuditRequired, AuditFailed),
      (ProtocolErr ErrInvalidNonce, InvalidNonce),
      (ApprovalErr ErrApproverPeerMismatch, ApproverPeerMismatch),
      (ApprovalErr ErrApproverIdentity, ApproverIdentityMismatch),
      (ApprovalErr ErrNoPendingApproval, NoPendingApproval),
      (BrokerErr ErrNoReusableApproval, NoReusableApproval),
      (StoreErr ErrSessionNotFound, SessionNotFound),
      (StoreErr ErrSessionPeerMismatch, SessionPeerMismatch),
      (StoreErr ErrSessionReadExhausted, SessionReadExhausted),
      (RequestErr ErrInvalidAlias, BadRequest),
      (ServerErr ErrRequestAlreadyActive, RequestActive),
      (BrokerErr ErrDaemonStopped, DaemonStopped),
      (ApprovalErr ErrRequestExpired, RequestExpired),
      (ApprovalErr ErrStaleApproval, StaleApproval),
      (ClientErr ErrUntrustedClient, UntrustedClient),
      (ContextErr CtxCanceled, ContextCanceled),
      (ContextErr CtxDeadlineExceeded, ContextDeadlineExceeded),
      (BrokerErr ErrSecretResolveFailed, ResolveFailed),
      (BrokerErr ErrItemMetadataResolveFailed, ResolveFailed)]"

definition code_for_error :: "err \<Rightarrow> error_code" where
  "code_for_error e =
     (case find (\<lambda>(s, c). err_is e s) code_table of Some (s, c) \<Rightarrow> c | None \<Rightarrow> RequestFailed)"

section \<open>Connections\<close>

record connection =
  cs_default :: duration
  cs_next :: duration
  cs_active :: string
  cs_started :: bool

definition new_connection :: "duration \<Rightarrow> connection" where
  "new_connection t = \<lparr>cs_default = t, cs_next = t, cs_active = '''', cs_started = False\<rparr>"

definition reset_read_timeout :: "connection \<Rightarrow> connection" where
  "reset_read_timeout c = c\<lparr>cs_next := if cs_started c then 0 else cs_default c\<rparr>"

definition set_decision_timeout :: "duration \<Rightarrow> connection \<Rightarrow> connection" where
  "set_decision_timeout t c = c\<lparr>cs_next := t\<rparr>"

definition begin_exec :: "string \<Rightarrow> connection \<Rightarrow> connection" where
  "begin_exec rid c = c\<lparr>cs_active := rid, cs_started := False, cs_next := cs_default c\<rparr>"

definition mark_started :: "connection \<Rightarrow> connection" where
  "mark_started c = c\<lparr>cs_started := True, cs_next := 0\<rparr>"

definition mark_completed :: "connection \<Rightarrow> connection" where
  "mark_completed c = c\<lparr>cs_active := '''', cs_started := False, cs_next := cs_default c\<rparr>"

definition has_active_request :: "connection \<Rightarrow> bool" where
  "has_active_request c \<longleftrightarrow> cs_active c \<noteq> ''''"

definition matches_request :: "string \<Rightarrow> connection \<Rightarrow> bool" where
  "matches_request rid c \<longleftrightarrow> cs_active c \<noteq> '''' \<and> rid = cs_active c"

record dispatch_action =
  da_accepted :: bool
  da_close :: bool
  da_decision_timeout :: duration
  da_begin :: string
  da_started :: bool
  da_completed :: bool

definition no_action :: dispatch_action where
  "no_action = \<lparr>da_accepted = False, da_close = False, da_decision_timeout = 0, da_begin = '''',
     da_started = False, da_completed = False\<rparr>"

abbreviation accepted_action :: dispatch_action where
  "accepted_action \<equiv> no_action\<lparr>da_accepted := True\<rparr>"

definition apply_action :: "dispatch_action \<Rightarrow> connection \<Rightarrow> connection" where
  "apply_action a c0 =
     (let c1 = (if 0 < da_decision_timeout a then set_decision_timeout (da_decision_timeout a) c0 else c0);
          c2 = (if da_begin a \<noteq> '''' then begin_exec (da_begin a) c1 else c1);
          c3 = (if da_started a then mark_started c2 else c2)
      in if da_completed a then mark_completed c3 else c3)"

section \<open>Writing and checking\<close>

text \<open>A response whose write fails is not in \<open>sr_out\<close>.\<close>

definition write_response :: "response \<Rightarrow> err option sact" where
  "write_response x =
     sbind (sask se_write) (\<lambda>r. case r of
       Some e \<Rightarrow> sret (Some e)
     | None \<Rightarrow> sbind (smodify (\<lambda>s. s\<lparr>sr_out := x # sr_out s\<rparr>)) (\<lambda>_. sret None))"

definition write_ok :: "correlation \<Rightarrow> reply \<Rightarrow> err option sact" where
  "write_ok c r = write_response (Replied c r)"

definition write_error :: "correlation \<Rightarrow> error_code \<Rightarrow> unit sact" where
  "write_error c code = sbind (write_response (Refused c code)) (\<lambda>_. sret ())"

definition say_ok :: "correlation \<Rightarrow> reply \<Rightarrow> unit sact" where
  "say_ok c r = sbind (write_ok c r) (\<lambda>_. sret ())"

definition validate_trusted_client :: "err option sact" where
  "validate_trusted_client =
     sbind (sask se_peer) (\<lambda>r. case r of
       Inl e \<Rightarrow> sret (Some e)
     | Inr p \<Rightarrow> sask (\<lambda>se n. se_client se n p))"

text \<open>The idiom \<open>if err := s.validateTrustedClientPeer(conn); err != nil \<lbrace> ...; return d \<rbrace>\<close>.\<close>

definition if_trusted :: "correlation \<Rightarrow> 'a \<Rightarrow> 'a sact \<Rightarrow> 'a sact" where
  "if_trusted c d k =
     sbind validate_trusted_client (\<lambda>r. case r of
       Some e \<Rightarrow> sbind (write_error c (code_for_error e)) (\<lambda>_. sret d)
     | None \<Rightarrow> k)"

definition or_refuse :: "correlation \<Rightarrow> (err \<Rightarrow> error_code) \<Rightarrow> 'd \<Rightarrow> err + 'a \<Rightarrow> ('a \<Rightarrow> 'd sact) \<Rightarrow> 'd sact" where
  "or_refuse c code d r k =
     (case r of Inl e \<Rightarrow> sbind (write_error c (code e)) (\<lambda>_. sret d) | Inr x \<Rightarrow> k x)"

definition valid_or_refuse :: "correlation \<Rightarrow> error_code \<Rightarrow> 'd \<Rightarrow> err option \<Rightarrow> 'd sact \<Rightarrow> 'd sact" where
  "valid_or_refuse c code d r k =
     (case r of Some e \<Rightarrow> sbind (write_error c code) (\<lambda>_. sret d) | None \<Rightarrow> k)"

abbreviation bad_request :: "err \<Rightarrow> error_code" where
  "bad_request \<equiv> \<lambda>_. BadRequest"

abbreviation peer_rejected :: "err \<Rightarrow> error_code" where
  "peer_rejected \<equiv> \<lambda>_. PeerRejected"

section \<open>Handlers\<close>

definition decode_trusted :: "(raw_payload \<Rightarrow> err + 'a) \<Rightarrow> envelope \<Rightarrow> 'd \<Rightarrow> ('a \<Rightarrow> 'd sact) \<Rightarrow> 'd sact" where
  "decode_trusted f v d k =
     if_trusted (envelope_correlation v) d
       (or_refuse (envelope_correlation v) bad_request d (decode_required f v) k)"

definition broker_now :: "go_time sact" where
  "broker_now = sask (\<lambda>se n. en_now (se_broker se) n)"

definition ask_fs :: "file_system sact" where
  "ask_fs = (\<lambda>se s. (s, en_fs (se_broker se)))"

definition answer :: "correlation \<Rightarrow> ('a \<Rightarrow> reply) \<Rightarrow> err + 'a \<Rightarrow> unit sact" where
  "answer c f r = or_refuse c code_for_error () r (\<lambda>x. say_ok c (f x))"

definition serve_item_describe :: "envelope \<Rightarrow> unit sact" where
  "serve_item_describe v =
     (let c = envelope_correlation v in
      decode_trusted rp_item v () (\<lambda>q0.
      sbind broker_now (\<lambda>now.
      sbind ask_fs (\<lambda>fs.
      let q = item_with_receipt_time q0 now in
      valid_or_refuse c BadRequest () (validate_item_describe fs q)
        (sbind (on_broker (handle_item_describe c q)) (answer c ReplyItem))))))"

definition serve_session_create :: "envelope \<Rightarrow> unit sact" where
  "serve_session_create v =
     (let c = envelope_correlation v in
      decode_trusted rp_session_create v () (\<lambda>q0.
      sbind broker_now (\<lambda>now.
      sbind ask_fs (\<lambda>fs.
      let q = session_with_receipt_time q0 now in
      valid_or_refuse c BadRequest () (validate_session_create fs q)
        (sbind (sask se_peer) (\<lambda>p.
         or_refuse c peer_rejected () p (\<lambda>peer.
         sbind (on_broker (handle_session_create c q peer)) (answer c ReplyCreated))))))))"

text \<open>\<open>setExecResponseWriteDeadline\<close>; the returned function only clears the deadline again.\<close>

definition set_write_deadline :: "go_time \<Rightarrow> err option sact" where
  "set_write_deadline expires =
     (if expires = zero_time then sret None
      else sbind broker_now (\<lambda>now.
        if time_sub expires now \<le> 0 then sret (Some (Err (ApprovalErr ErrRequestExpired)))
        else sask se_deadline))"

text \<open>
  The delivery of a payload: the deadline, the last checks, the write, the commit; every failure is
  reported and then, by the deferred call, the delivery is aborted. The result is the request id
  when the payload was written.
\<close>

definition deliver ::
  "envelope \<Rightarrow> go_time \<Rightarrow> unit act \<Rightarrow> reply \<Rightarrow> 'd act \<Rightarrow> 'd act \<Rightarrow> string sact" where
  "deliver v expires before payload commit abort =
     (let c = envelope_correlation v;
          failed = (\<lambda>e. sbind (write_error c (code_for_error e)) (\<lambda>_.
             sbind (on_broker abort) (\<lambda>_. sret '''')))
      in sbind (set_write_deadline expires) (\<lambda>r. case r of
           Some e \<Rightarrow> failed e
         | None \<Rightarrow>
        sbind (on_broker before) (\<lambda>r. case r of
           Inl e \<Rightarrow> failed e
         | Inr _ \<Rightarrow>
        sbind (write_ok c payload) (\<lambda>r. case r of
           Some e \<Rightarrow> failed e
         | None \<Rightarrow>
        sbind (on_broker commit) (\<lambda>_. sret (nv_request_id v))))))"

definition serve_request_exec :: "envelope \<Rightarrow> string sact" where
  "serve_request_exec v =
     (let c = envelope_correlation v in
      decode_trusted rp_exec v '''' (\<lambda>q0.
      sbind broker_now (\<lambda>now.
      sbind ask_fs (\<lambda>fs.
      let q = exec_with_receipt_time q0 now in
      valid_or_refuse c BadRequest '''' (validate_exec fs q)
        (sbind (on_broker (prepare_exec_delivery c q)) (\<lambda>r.
         or_refuse c code_for_error '''' r (\<lambda>d.
           deliver v (gr_payload_expires_at (ed_grant d)) (exec_before_write d)
             (ReplyExec (gr_env (ed_grant d)) (gr_aliases (ed_grant d)))
             (exec_commit_delivered d) (exec_abort_before_payload d))))))))"

definition serve_session_resolve :: "envelope \<Rightarrow> string sact" where
  "serve_session_resolve v =
     (let c = envelope_correlation v in
      decode_trusted rp_session_resolve v '''' (\<lambda>q.
      sbind ask_fs (\<lambda>fs.
      valid_or_refuse c BadRequest '''' (validate_session_resolve fs q)
        (sbind (sask se_peer) (\<lambda>p.
         or_refuse c peer_rejected '''' p (\<lambda>peer.
         sbind (on_broker (prepare_session_resolve c q peer)) (\<lambda>r.
         or_refuse c code_for_error '''' r (\<lambda>d.
           let x = sl_reservation d in
           deliver v (sx_expires_at x) (session_before_write d)
             (ReplySession (sx_env x) (sx_aliases x) (sx_override_env x))
             (session_commit_delivered d) (session_abort_before_payload d)))))))))"

definition serve_session_destroy :: "envelope \<Rightarrow> unit sact" where
  "serve_session_destroy v =
     (let c = envelope_correlation v in
      decode_trusted rp_session_destroy v () (\<lambda>q.
      valid_or_refuse c BadRequest () (validate_session_destroy q)
        (sbind (on_broker (handle_session_destroy q)) (answer c ReplyDestroyed))))"

definition serve_session_list :: "envelope \<Rightarrow> unit sact" where
  "serve_session_list v =
     (let c = envelope_correlation v in
      if_trusted c () (sbind (on_broker handle_session_list) (answer c ReplyList)))"

definition serve_daemon_status :: "envelope \<Rightarrow> unit sact" where
  "serve_daemon_status v = say_ok (envelope_correlation v) ReplyPid"

definition serve_helper_hello :: "envelope \<Rightarrow> unit sact" where
  "serve_helper_hello v = say_ok (envelope_correlation v) ReplyHello"

definition serve_account_status :: "envelope \<Rightarrow> unit sact" where
  "serve_account_status v =
     (let c = envelope_correlation v in
      decode_trusted rp_account v () (\<lambda>account.
      sbind (sask (\<lambda>se n. se_account_check se n (trim_space account))) (\<lambda>r.
      valid_or_refuse c ResolveFailed () r (say_ok c ReplyEmpty))))"

definition serve_approval_pending :: "envelope \<Rightarrow> approval_payload option sact" where
  "serve_approval_pending v =
     (let c = envelope_correlation v in
      sbind (\<lambda>se s. (s, se_approvals se)) (\<lambda>a. case a of
        None \<Rightarrow> sbind (write_error c ApprovalUnavailable) (\<lambda>_. sret None)
      | Some endpoint \<Rightarrow>
          sbind (sask se_peer) (\<lambda>p.
          or_refuse c peer_rejected None p (\<lambda>peer.
          sbind (sask (\<lambda>se n. ep_fetch endpoint n peer)) (\<lambda>r.
          or_refuse c code_for_error None r (\<lambda>payload.
          sbind (write_ok \<lparr>co_request_id = ap_request_id payload, co_nonce = ap_nonce payload\<rparr>
                   (ReplyPending payload)) (\<lambda>w.
            case w of Some e \<Rightarrow> sret None | None \<Rightarrow> sret (Some payload))))))))"

definition serve_approval_decision :: "envelope \<Rightarrow> unit sact" where
  "serve_approval_decision v =
     (let c = envelope_correlation v in
      sbind (\<lambda>se s. (s, se_approvals se)) (\<lambda>a. case a of
        None \<Rightarrow> write_error c ApprovalUnavailable
      | Some endpoint \<Rightarrow>
          or_refuse c (\<lambda>_. BadApprovalDecision) () (decode_required rp_decision v) (\<lambda>d.
          sbind (sask se_peer) (\<lambda>p.
          or_refuse c peer_rejected () p (\<lambda>peer.
          sbind (sask (\<lambda>se n. ep_submit endpoint n peer d)) (\<lambda>r.
            case r of
              Some e \<Rightarrow> write_error c (code_for_error e)
            | None \<Rightarrow> say_ok c ReplyEmpty))))))"

section \<open>Stopping and retiring\<close>

definition daemon_stop_event :: "peer_info \<Rightarrow> err option \<Rightarrow> event" where
  "daemon_stop_event peer e =
     (event_of_type EventDaemonStop)\<lparr>ev_requester_pid := Some (pi_pid peer),
        ev_requester_uid := Some (pi_uid peer), ev_requester_path := pi_exe peer,
        ev_error_code := (case e of None \<Rightarrow> NoErrorCode | Some x \<Rightarrow> code_for_error x)\<rparr>"

definition stop_with_audit :: "event \<Rightarrow> unit sact" where
  "stop_with_audit ev =
     sbind (on_broker (stop_with_audit_event ev)) (\<lambda>_. smodify (\<lambda>s. s\<lparr>sr_stopped := True\<rparr>))"

definition server_stop :: "unit sact" where
  "server_stop = stop_with_audit (event_of_type EventDaemonStop)"

definition stop_for_executable_change :: "unit sact" where
  "stop_for_executable_change =
     stop_with_audit ((event_of_type EventDaemonStop)\<lparr>ev_error_code := DaemonStopped\<rparr>)"

definition broker_idle :: "server \<Rightarrow> bool" where
  "broker_idle s \<longleftrightarrow> w_active (sr_world s) = Map.empty"

definition stop_if_retired_and_idle :: "unit sact" where
  "stop_if_retired_and_idle =
     sbind (sgets (\<lambda>s. sr_retire s \<and> \<not> sr_stopped s \<and> broker_idle s)) (\<lambda>stop.
       if stop then stop_for_executable_change else sret ())"

definition checks_executable_identity :: "message_type \<Rightarrow> bool" where
  "checks_executable_identity t \<longleftrightarrow>
     t \<in> {TypeDaemonStatus, TypeOnePasswordStatus, TypeRequestExec, TypeItemDescribe,
          TypeSessionCreate, TypeSessionResolve, TypeSessionDestroy, TypeSessionList}"

definition retire_if_executable_changed :: "envelope \<Rightarrow> bool sact" where
  "retire_if_executable_changed v =
     sbind (\<lambda>se s. (s, if sr_stopped s \<or> \<not> checks_executable_identity (nv_type v) then None
                        else se_self_check se)) (\<lambda>check. case check of
       None \<Rightarrow> sret False
     | Some f \<Rightarrow>
         sbind (sask (\<lambda>se n. f n)) (\<lambda>r. case r of
           None \<Rightarrow> sret False
         | Some e \<Rightarrow>
             sbind (smodify (\<lambda>s. s\<lparr>sr_retire := True\<rparr>)) (\<lambda>_.
             sbind (sgets broker_idle) (\<lambda>idle.
             sbind (if idle then stop_for_executable_change else sret ()) (\<lambda>_.
             sbind (write_error (envelope_correlation v) DaemonStopped) (\<lambda>_. sret True))))))"

definition serve_daemon_stop :: "envelope \<Rightarrow> bool sact" where
  "serve_daemon_stop v =
     (let c = envelope_correlation v in
      sbind (sask se_peer) (\<lambda>p.
      or_refuse c peer_rejected False p (\<lambda>peer.
      sbind (sask (\<lambda>se n. se_client se n peer)) (\<lambda>r. case r of
        Some e \<Rightarrow>
          sbind (on_broker (record_stop_attempt (daemon_stop_event peer (Some e)))) (\<lambda>_.
          sbind (write_error c (code_for_error e)) (\<lambda>_. sret False))
      | None \<Rightarrow>
          sbind (stop_with_audit (daemon_stop_event peer None)) (\<lambda>_.
          sbind (say_ok c ReplyPid) (\<lambda>_. sret True))))))"

definition serve_command_started :: "envelope \<Rightarrow> bool sact" where
  "serve_command_started v =
     (let c = envelope_correlation v in
      if_trusted c False
        (or_refuse c (\<lambda>_. BadCommandStarted) False (decode_required rp_child_pid v) (\<lambda>pid.
         if pid \<le> 0 then sbind (write_error c BadCommandStarted) (\<lambda>_. sret False)
         else sbind (on_broker (report_started c pid)) (\<lambda>r.
           or_refuse c code_for_error False r (\<lambda>_.
             sbind (say_ok c ReplyEmpty) (\<lambda>_. sret True))))))"

definition serve_command_completed :: "envelope \<Rightarrow> bool sact" where
  "serve_command_completed v =
     (let c = envelope_correlation v in
      if_trusted c False
        (or_refuse c (\<lambda>_. BadCommandCompleted) False (decode_required rp_completed v) (\<lambda>(code, signal).
         sbind (on_broker (report_completed c code signal)) (\<lambda>r.
           or_refuse c code_for_error False r (\<lambda>_.
             sbind (say_ok c ReplyEmpty) (\<lambda>_.
             sbind stop_if_retired_and_idle (\<lambda>_. sret True)))))))"


section \<open>Dispatch\<close>

definition approval_decision_timeout :: "go_time \<Rightarrow> duration sact" where
  "approval_decision_timeout expires =
     (\<lambda>se. if se_read_timeout se \<le> 0 then sret 0 se
       else sbind (sask (\<lambda>se n. time_sub expires (se_now se n))) (\<lambda>remaining.
              sret (if remaining \<le> 0 then se_read_timeout se else remaining + se_read_timeout se)) se)"

definition accept_after :: "unit sact \<Rightarrow> dispatch_action sact" where
  "accept_after m = sbind m (\<lambda>_. sret accepted_action)"

definition refuse_active :: "envelope \<Rightarrow> dispatch_action sact" where
  "refuse_active v =
     sbind (write_error (envelope_correlation v)
              (code_for_error (Err (ServerErr ErrRequestAlreadyActive)))) (\<lambda>_. sret no_action)"

definition begin_after :: "string sact \<Rightarrow> dispatch_action sact" where
  "begin_after m =
     sbind m (\<lambda>rid. sret (no_action\<lparr>da_accepted := rid \<noteq> '''', da_begin := rid\<rparr>))"

text \<open>\<open>lifecycleRequestMatchesConnection\<close> and the two messages it guards.\<close>

definition if_matching :: "envelope \<Rightarrow> connection \<Rightarrow> dispatch_action sact \<Rightarrow> dispatch_action sact" where
  "if_matching v conn k =
     (if matches_request (nv_request_id v) conn then k
      else sbind (write_error (envelope_correlation v)
                    (code_for_error (Err (ProtocolErr ErrInvalidNonce)))) (\<lambda>_. sret no_action))"

definition dispatch :: "envelope \<Rightarrow> connection \<Rightarrow> dispatch_action sact" where
  "dispatch v conn =
     (case nv_type v of
        TypeHelperHello \<Rightarrow> accept_after (serve_helper_hello v)
      | TypeDaemonStatus \<Rightarrow> accept_after (serve_daemon_status v)
      | TypeOnePasswordStatus \<Rightarrow> accept_after (serve_account_status v)
      | TypeDaemonStop \<Rightarrow>
          sbind (serve_daemon_stop v) (\<lambda>close. sret (accepted_action\<lparr>da_close := close\<rparr>))
      | TypeApprovalPending \<Rightarrow>
          sbind (serve_approval_pending v) (\<lambda>r. case r of
            None \<Rightarrow> sret no_action
          | Some p \<Rightarrow>
              sbind (approval_decision_timeout (ap_expires_at p)) (\<lambda>t.
                sret (accepted_action\<lparr>da_decision_timeout := t\<rparr>)))
      | TypeApprovalDecision \<Rightarrow> accept_after (serve_approval_decision v)
      | TypeRequestExec \<Rightarrow>
          if has_active_request conn then refuse_active v else begin_after (serve_request_exec v)
      | TypeItemDescribe \<Rightarrow> accept_after (serve_item_describe v)
      | TypeSessionCreate \<Rightarrow> accept_after (serve_session_create v)
      | TypeSessionResolve \<Rightarrow>
          if has_active_request conn then refuse_active v else begin_after (serve_session_resolve v)
      | TypeSessionDestroy \<Rightarrow> accept_after (serve_session_destroy v)
      | TypeSessionList \<Rightarrow> accept_after (serve_session_list v)
      | TypeCommandStarted \<Rightarrow>
          if_matching v conn (sbind (serve_command_started v) (\<lambda>ok.
            sret (no_action\<lparr>da_accepted := ok, da_started := True\<rparr>)))
      | TypeCommandCompleted \<Rightarrow>
          if_matching v conn (sbind (serve_command_completed v) (\<lambda>ok.
            sret (no_action\<lparr>da_accepted := ok, da_completed := True\<rparr>)))
      | _ \<Rightarrow> sbind (write_error (envelope_correlation v) BadType) (\<lambda>_. sret no_action))"

text \<open>
  One round of the loop of \<open>handleConn\<close> on an envelope that was read: \<open>None\<close> when the connection is
  closed.
\<close>

definition serve_envelope :: "envelope \<Rightarrow> connection \<Rightarrow> connection option sact" where
  "serve_envelope v conn =
     (case validate_envelope v of
        Some e \<Rightarrow> sbind (write_error (envelope_correlation v) BadEnvelope) (\<lambda>_. sret (Some conn))
      | None \<Rightarrow>
          sbind (retire_if_executable_changed v) (\<lambda>retired.
          if retired then sret None
          else sbind (sgets sr_stopped) (\<lambda>stopped.
            if stopped \<and> nv_type v \<noteq> TypeDaemonStatus then
              sbind (write_error (envelope_correlation v)
                       (code_for_error (Err (BrokerErr ErrDaemonStopped)))) (\<lambda>_. sret None)
            else
              (let conn1 = reset_read_timeout conn in
               sbind (dispatch v conn1) (\<lambda>a.
                 sret (if da_close a then None
                       else if \<not> da_accepted a then Some conn1
                       else Some (apply_action a conn1)))))))"

text \<open>The end of a connection whose read failed.\<close>

definition serve_disconnect :: "frame_error \<Rightarrow> connection \<Rightarrow> unit sact" where
  "serve_disconnect e conn =
     (let none = \<lparr>co_request_id = '''', co_nonce = ''''\<rparr> in
      sbind (if has_active_request conn
             then sbind (on_broker (client_disconnected (cs_active conn))) (\<lambda>_. stop_if_retired_and_idle)
             else sret ()) (\<lambda>_.
        case e of
          FrameEof \<Rightarrow> sret ()
        | FrameError x \<Rightarrow>
            if err_is x (ProtocolErr ErrProtocolFrameSize) then write_error none FrameTooLarge
            else if err_is x (ProtocolErr ErrMalformedEnvelope) then write_error none BadEnvelope
            else sret ()))"

text \<open>
  A connection: the frames of its reader, the decoder of envelopes, the result of checking the peer.
  \<open>serve_frames\<close> runs the loop for at most \<open>n\<close> frames.
\<close>

fun serve_frames ::
  "(string \<Rightarrow> err + envelope) \<Rightarrow> int \<Rightarrow> nat \<Rightarrow> reader \<Rightarrow> connection \<Rightarrow> (reader \<times> connection option) sact" where
  "serve_frames decode max_bytes 0 r conn = sret (r, Some conn)"
| "serve_frames decode max_bytes (Suc n) r conn =
     (case read_envelope_frame decode max_bytes r of
        (r', Inl e) \<Rightarrow> sbind (serve_disconnect e conn) (\<lambda>_. sret (r', None))
      | (r', Inr v) \<Rightarrow>
          sbind (serve_envelope v conn) (\<lambda>c. case c of
            None \<Rightarrow> sret (r', None)
          | Some conn' \<Rightarrow> serve_frames decode max_bytes n r' conn'))"

definition handle_conn ::
  "err option \<Rightarrow> (string \<Rightarrow> err + envelope) \<Rightarrow> int \<Rightarrow> nat \<Rightarrow> reader \<Rightarrow> (reader \<times> connection option) sact" where
  "handle_conn peer_check decode max_bytes n r =
     (case peer_check of
        Some e \<Rightarrow>
          sbind (write_error \<lparr>co_request_id = '''', co_nonce = ''''\<rparr> PeerRejected) (\<lambda>_. sret (r, None))
      | None \<Rightarrow> (\<lambda>se. serve_frames decode max_bytes n r (new_connection (se_read_timeout se)) se))"

end
