(* ===== verification/ServerLogic.thy ===== *)
theory ServerLogic
  imports Server UseAccounting BrokerStop ApprovalGate
begin

text \<open>
  Rules for the actions of the server, in the shape of those for the broker, and what the delivery of
  a payload guarantees: it was audited, and what it took is given back when it fails.
\<close>

section \<open>Triples of the server\<close>

definition striple :: "server_env \<Rightarrow> (server \<Rightarrow> bool) \<Rightarrow> 'a sact \<Rightarrow> ('a \<Rightarrow> server \<Rightarrow> bool) \<Rightarrow> bool" where
  "striple se P m Q \<longleftrightarrow> (\<forall>s. P s \<longrightarrow> Q (snd (m se s)) (fst (m se s)))"

abbreviation skeeps :: "server_env \<Rightarrow> (server \<Rightarrow> bool) \<Rightarrow> 'a sact \<Rightarrow> bool" where
  "skeeps se I m \<equiv> striple se I m (\<lambda>_. I)"

lemma stripleD: "striple se P m Q \<Longrightarrow> P s \<Longrightarrow> m se s = (s', x) \<Longrightarrow> Q x s'"
  unfolding striple_def by (metis fst_conv snd_conv)

lemma stripleI: "(\<And>s s' x. P s \<Longrightarrow> m se s = (s', x) \<Longrightarrow> Q x s') \<Longrightarrow> striple se P m Q"
  by (simp add: striple_def)

lemma striple_conseq:
  "striple se P' m Q' \<Longrightarrow> (\<And>s. P s \<Longrightarrow> P' s) \<Longrightarrow> (\<And>x s. Q' x s \<Longrightarrow> Q x s) \<Longrightarrow> striple se P m Q"
  by (simp add: striple_def)

lemma striple_ret: "(\<And>s. P s \<Longrightarrow> Q x s) \<Longrightarrow> striple se P (sret x) Q"
  by (simp add: striple_def sret_def)

lemma striple_bind:
  assumes "striple se P m R" "\<And>x. striple se (R x) (f x) Q"
  shows "striple se P (sbind m f) Q"
proof (rule stripleI)
  fix s s' x assume P: "P s" and run: "sbind m f se s = (s', x)"
  obtain s1 y where m: "m se s = (s1, y)" by (cases "m se s")
  with run have "f y se s1 = (s', x)" by (simp add: sbind_def)
  from stripleD [OF assms(2) stripleD [OF assms(1) P m] this] show "Q x s'" .
qed

lemma skeeps_bind: "skeeps se I m \<Longrightarrow> (\<And>x. striple se I (f x) Q) \<Longrightarrow> striple se I (sbind m f) Q"
  by (rule striple_bind)

definition unticked :: "(server \<Rightarrow> bool) \<Rightarrow> bool" where
  "unticked I \<longleftrightarrow> (\<forall>s n. I (s\<lparr>sr_world := (sr_world s)\<lparr>w_tick := n\<rparr>\<rparr>) = I s)"

lemma striple_ask: "unticked I \<Longrightarrow> (\<And>x s. I s \<Longrightarrow> Q x s) \<Longrightarrow> striple se I (sask f) Q"
  by (simp add: striple_def sask_def unticked_def)

lemma striple_gets: "(\<And>s. P s \<Longrightarrow> Q (f s) s) \<Longrightarrow> striple se P (sgets f) Q"
  by (simp add: striple_def sgets_def)

lemma striple_pure: "(\<And>s. P s \<Longrightarrow> Q (f se s) s) \<Longrightarrow> striple se P (\<lambda>se s. (s, f se s)) Q"
  by (simp add: striple_def)

lemma striple_modify: "(\<And>s. P s \<Longrightarrow> Q () (f s)) \<Longrightarrow> striple se P (smodify f) Q"
  by (simp add: striple_def smodify_def)

text \<open>A predicate of the broker's world and of the responses; a call of the broker.\<close>

definition both :: "(world \<Rightarrow> bool) \<Rightarrow> (response list \<Rightarrow> bool) \<Rightarrow> server \<Rightarrow> bool" where
  "both I O' s \<longleftrightarrow> I (sr_world s) \<and> O' (sr_out s)"

lemma striple_broker: "triple P a Q \<Longrightarrow> striple se (both P O') (on_broker a) (\<lambda>r. both (Q r) O')"
  unfolding striple_def triple_def both_def on_broker_def
  by (simp split: prod.splits) (metis fst_conv snd_conv)

lemma skeeps_broker: "keeps I a \<Longrightarrow> skeeps se (both I O') (on_broker a)"
  unfolding keeps_def by (rule striple_broker)

lemma striple_case_sum:
  "(\<And>x. striple se (P (Inl x)) (f x) Q) \<Longrightarrow> (\<And>y. striple se (P (Inr y)) (g y) Q) \<Longrightarrow>
     striple se (P r) (case r of Inl x \<Rightarrow> f x | Inr y \<Rightarrow> g y) Q"
  by (cases r) simp_all

lemma striple_case_option:
  "striple se (P None) f Q \<Longrightarrow> (\<And>y. striple se (P (Some y)) (g y) Q) \<Longrightarrow>
     striple se (P r) (case r of None \<Rightarrow> f | Some y \<Rightarrow> g y) Q"
  by (cases r) simp_all

lemma striple_if:
  "(b \<Longrightarrow> striple se P x Q) \<Longrightarrow> (\<not> b \<Longrightarrow> striple se P y Q) \<Longrightarrow> striple se P (if b then x else y) Q"
  by simp

section \<open>Writing\<close>

lemma both_unticked [simp]: "tickless I \<Longrightarrow> unticked (both I O')"
  by (simp add: both_def tickless_def unticked_def)

text \<open>What a failed or a successful write does to a predicate that allows the response.\<close>

definition allows :: "(server \<Rightarrow> bool) \<Rightarrow> response \<Rightarrow> bool" where
  "allows I x \<longleftrightarrow> (\<forall>s. I s \<longrightarrow> I (s\<lparr>sr_out := x # sr_out s\<rparr>))"

lemma allows_both: "(\<And>out. O' out \<Longrightarrow> O' (x # out)) \<Longrightarrow> allows (both I O') x"
  by (simp add: allows_def both_def)

lemma skeeps_write: "unticked I \<Longrightarrow> allows I x \<Longrightarrow> skeeps se I (write_response x)"
  unfolding write_response_def
proof (rule skeeps_bind, rule striple_ask)
  fix r assume "unticked I" "allows I x"
  show "skeeps se I (case r of None \<Rightarrow> sbind (smodify (\<lambda>s. s\<lparr>sr_out := x # sr_out s\<rparr>)) (\<lambda>_. sret None)
      | Some e \<Rightarrow> sret (Some e))"
    using \<open>allows I x\<close>
    by (cases r) (auto intro!: striple_ret skeeps_bind striple_modify simp: allows_def)
qed


lemma skeeps_write_error:
  "unticked I \<Longrightarrow> allows I (Refused c code) \<Longrightarrow> skeeps se I (write_error c code)"
  unfolding write_error_def by (intro skeeps_bind skeeps_write striple_ret)

lemma skeeps_say_ok: "unticked I \<Longrightarrow> allows I (Replied c r) \<Longrightarrow> skeeps se I (say_ok c r)"
  unfolding say_ok_def write_ok_def by (intro skeeps_bind skeeps_write striple_ret)

lemma striple_refuse:
  "unticked I \<Longrightarrow> allows I (Refused c code) \<Longrightarrow> (\<And>s. I s \<Longrightarrow> Q d s) \<Longrightarrow>
     striple se I (sbind (write_error c code) (\<lambda>_. sret d)) Q"
  by (intro skeeps_bind skeeps_write_error striple_ret)

section \<open>Only trusted clients get past the check\<close>

text \<open>What a validated client is, for the rest of a handler.\<close>

definition client_trusted :: "server_env \<Rightarrow> bool" where
  "client_trusted se \<longleftrightarrow> (\<exists>n m p. se_peer se n = Inr p \<and> se_client se m p = None)"

lemma striple_validate_client:
  assumes "unticked I"
  shows "striple se I validate_trusted_client (\<lambda>r s. I s \<and> (r = None \<longrightarrow> client_trusted se))"
proof (rule stripleI)
  fix s s' x assume I: "I s" and run: "validate_trusted_client se s = (s', x)"
  have step: "I (s0\<lparr>sr_world := (sr_world s0)\<lparr>w_tick := n\<rparr>\<rparr>)" if "I s0" for s0 n
    using assms that by (simp add: unticked_def)
  show "I s' \<and> (x = None \<longrightarrow> client_trusted se)"
    using run step [OF I] step [OF step [OF I]]
    by (auto simp: validate_trusted_client_def sact_defs client_trusted_def split: sum.splits)
qed

lemma striple_if_trusted:
  assumes "unticked I" "\<And>code. allows I (Refused c code)" "\<And>s. I s \<Longrightarrow> Q d s"
    and "client_trusted se \<Longrightarrow> striple se I k Q"
  shows "striple se I (if_trusted c d k) Q"
  unfolding if_trusted_def
proof (rule striple_bind [OF striple_validate_client [OF assms(1)]])
  fix r
  show "striple se (\<lambda>s. I s \<and> (r = None \<longrightarrow> client_trusted se))
      (case r of None \<Rightarrow> k | Some e \<Rightarrow> sbind (write_error c (code_for_error e)) (\<lambda>_. sret d)) Q"
  proof (cases r)
    case None
    then show ?thesis using assms(4) by (cases "client_trusted se") (simp_all add: striple_def)
  next
    case (Some e)
    have "striple se I (sbind (write_error c (code_for_error e)) (\<lambda>_. sret d)) Q"
      by (rule striple_refuse) (use assms in auto)
    then show ?thesis by (simp add: Some)
  qed
qed

lemma striple_or_refuse:
  assumes "unticked I" "\<And>code. allows I (Refused c code)" "\<And>s. I s \<Longrightarrow> Q d s"
    and "\<And>x. r = Inr x \<Longrightarrow> striple se I (k x) Q"
  shows "striple se I (or_refuse c code d r k) Q"
  using assms unfolding or_refuse_def by (cases r) (auto intro: striple_refuse)

lemma striple_valid_or_refuse:
  assumes "unticked I" "\<And>code. allows I (Refused c code)" "\<And>s. I s \<Longrightarrow> Q d s"
    and "r = None \<Longrightarrow> striple se I k Q"
  shows "striple se I (valid_or_refuse c code d r k) Q"
  using assms unfolding valid_or_refuse_def by (cases r) (auto intro: striple_refuse)

lemma striple_decode_trusted:
  assumes "unticked I" "\<And>c code. allows I (Refused c code)" "\<And>s. I s \<Longrightarrow> Q d s"
    and "\<And>x. client_trusted se \<Longrightarrow> decode_required f v = Inr x \<Longrightarrow> striple se I (k x) Q"
  shows "striple se I (decode_trusted f v d k) Q"
  unfolding decode_trusted_def
  by (intro striple_if_trusted striple_or_refuse assms)

lemma striple_ask_fs:
  "striple se I (f (en_fs (se_broker se))) Q \<Longrightarrow> striple se I (sbind ask_fs f) Q"
  by (simp add: striple_def sbind_def ask_fs_def)

lemma striple_broker_now:
  "unticked I \<Longrightarrow> (\<And>now. striple se I (f now) Q) \<Longrightarrow> striple se I (sbind broker_now f) Q"
  unfolding broker_now_def by (rule skeeps_bind [OF striple_ask]) auto

section \<open>Audited before delivered\<close>

definition command_audited :: "correlation \<Rightarrow> exec_request \<Rightarrow> effect list \<Rightarrow> bool" where
  "command_audited c r =
     list_ex (\<lambda>x. x = Audited (from_exec_request EventCommandStarting (co_request_id c) r))"

lemma lasting_command [simp]: "lasting (command_audited c r)"
  unfolding command_audited_def by (rule lasting_list_ex)

lemma opens_head:
  assumes "lasting A" "opens A a (\<lambda>_. True)" "\<And>x. extends_trace (f x)"
  shows "opens A (andthen a f) R"
proof (rule opensI)
  fix e w w' x assume run: "andthen a f e w = (w', Inr x)"
  then obtain w1 v where a: "a e w = (w1, Inr v)" and f: "f v e w1 = (w', Inr x)"
    by (auto simp: andthen_def split: prod.splits sum.splits)
  from assms(2) a obtain l where l: "w_trace w1 = l @ w_trace w" "A l" unfolding opens_def by blast
  moreover obtain m where "w_trace w' = m @ w_trace w1" using emitsD [OF assms(3) f] by blast
  ultimately have "w_trace w' = (m @ l) @ w_trace w" "A (m @ l)" using assms(1) by (simp_all add: lasting_more)
  then show "\<exists>l. w_trace w' = l @ w_trace w \<and> A l" by blast
qed

lemma opens_or_rollback_delivery:
  "lasting A \<Longrightarrow> opens A a (\<lambda>_. True) \<Longrightarrow> extends_trace a \<Longrightarrow> opens A (or_rollback_delivery d a) R"
  unfolding or_rollback_delivery_def
  by (rule opens_attempt) (auto intro!: opens_tail opens_fail emits_ops emits_basic)

lemma extends_reused_or_fresh: "extends_trace (reused_or_fresh_grant c r)"
  unfolding reused_or_fresh_grant_def fresh_grant_def issue_reusable_grant_def Let_def ask_approver_def
  by (intro emits_parts emits_ops emits_resolve emits_reusable_values emits_emit audits_True) simp_all

lemma opens_issue: "opens (command_audited c r) (issue c r) (\<lambda>_. True)"
  unfolding issue_def
proof (rule opens_tail [OF lasting_command], goal_cases)
  case 1
  show ?case by (rule emits_ensure_request_active)
next
  case (2 x)
  show ?case
  proof (rule opens_tail [OF lasting_command extends_reused_or_fresh])
    fix y :: issued_grant
    obtain g d where y: "y = (g, d)" by (cases y)
    have "opens (command_audited c r) (record_required_audit
        (from_exec_request EventCommandStarting (co_request_id c) r)) R" for R
      by (rule opens_record) (simp add: command_audited_def)
    then show "opens (command_audited c r) (case y of (g, d) \<Rightarrow>
        andthen (or_rollback_delivery d (ensure_grant_still_active r (gd_approval_id d) (gd_expires_at d))) (\<lambda>_.
        andthen (or_rollback_delivery d (record_required_audit
            (from_exec_request EventCommandStarting (co_request_id c) r))) (\<lambda>_.
        andthen (or_rollback_delivery d (ensure_grant_still_active r (gd_approval_id d) (gd_expires_at d))) (\<lambda>_.
          ret (g\<lparr>gr_payload_expires_at := grant_payload_expires_at r (gd_expires_at d)\<rparr>, d))))) (\<lambda>_. True)"
      unfolding y prod.case
      by (intro opens_tail [OF lasting_command] opens_head [OF lasting_command]
          opens_or_rollback_delivery [OF lasting_command])
        (auto intro!: emits_ops emits_andthen emits_basic audits_True emits_or_rollback_delivery)
  qed
qed


text \<open>A successful action has its audit record in the trace.\<close>

lemma opens_triple:
  assumes "lasting A" "opens A a (\<lambda>_. True)"
  shows "triple P a (outcome (\<lambda>_ _. True) (\<lambda>_ w. A (w_trace w)))"
proof (rule tripleI)
  fix e w w' r assume run: "a e w = (w', r)"
  show "outcome (\<lambda>_ _. True) (\<lambda>_ w. A (w_trace w)) r w'"
  proof (cases r)
    case (Inr x)
    with run assms(2) obtain l where "w_trace w' = l @ w_trace w" "A l" unfolding opens_def by blast
    with assms(1) Inr show ?thesis by (simp add: lasting_more)
  qed simp
qed

text \<open>What a prepared delivery carries.\<close>

definition delivery_for :: "correlation \<Rightarrow> exec_request \<Rightarrow> exec_delivery \<Rightarrow> bool" where
  "delivery_for c r d \<longleftrightarrow> ed_correlation d = c \<and> ed_request d = r \<and> \<not> ed_finalized d \<and>
     co_request_id c \<noteq> ''''"

lemma triple_True: "triple P a (\<lambda>_ _. True)"
  by (simp add: triple_def)

lemma triple_true_then:
  "(\<And>x. triple (\<lambda>_. True) (f x) (outcome (\<lambda>_ _. True) Q)) \<Longrightarrow>
     triple (\<lambda>_. True) (andthen a f) (outcome (\<lambda>_ _. True) Q)"
  by (rule triple_andthen [where E = "\<lambda>_ _. True" and R = "\<lambda>_ _. True"])
    (auto simp: triple_def outcome_def split: sum.splits)

lemma triple_prepare_delivery:
  "triple (\<lambda>_. True) (prepare_exec_delivery c r) (outcome (\<lambda>_ _. True) (\<lambda>d w. delivery_for c r d))"
proof (cases "co_request_id c = ''''")
  case True
  then show ?thesis
    by (auto simp: triple_def prepare_exec_delivery_def require_correlation_def act_defs outcome_def)
next
  case False
  have fin: "triple (\<lambda>_. True) (case x of (g, d) \<Rightarrow> attempt (activate_exec c r) (\<lambda>res. case res of
        Inl y \<Rightarrow> andthen (finish_delivery_before_payload d) (\<lambda>_. fail y)
      | Inr _ \<Rightarrow> ret \<lparr>ed_correlation = c, ed_request = r, ed_grant = g, ed_delivery = d, ed_finalized = False\<rparr>))
     (outcome (\<lambda>_ _. True) (\<lambda>d w. delivery_for c r d))" for x
  proof (cases x)
    case (Pair g d)
    have "triple (\<lambda>_. True) (case res of
        Inl y \<Rightarrow> andthen (finish_delivery_before_payload d) (\<lambda>_. fail y)
      | Inr _ \<Rightarrow> ret \<lparr>ed_correlation = c, ed_request = r, ed_grant = g, ed_delivery = d, ed_finalized = False\<rparr>)
     (outcome (\<lambda>_ _. True) (\<lambda>d w. delivery_for c r d))" for res :: "err + unit"
      using False
      by (cases res) (auto intro!: triple_true_then triple_fail triple_ret simp: delivery_for_def)
    then show ?thesis unfolding Pair prod.case by (intro triple_attempt [OF triple_True])
  qed
  show ?thesis unfolding prepare_exec_delivery_def
    by (intro triple_true_then triple_if fin) (auto intro: triple_fail)
qed

section \<open>Delivering\<close>

definition payload_reply :: "response \<Rightarrow> bool" where
  "payload_reply x \<longleftrightarrow> (case x of
     Replied c (ReplyExec a b) \<Rightarrow> True | Replied c (ReplySession a b o1) \<Rightarrow> True | _ \<Rightarrow> False)"

definition quiet :: "response list \<Rightarrow> response list \<Rightarrow> bool" where
  "quiet out0 out \<longleftrightarrow> (\<exists>l. out = l @ out0 \<and> list_all (\<lambda>x. \<not> payload_reply x) l)"

lemma quiet_refl [simp]: "quiet out out"
  by (simp add: quiet_def)

lemma quiet_Cons: "\<not> payload_reply x \<Longrightarrow> quiet out0 out \<Longrightarrow> quiet out0 (x # out)"
  unfolding quiet_def by (metis append_Cons list.pred_inject(2))

lemma quiet_refused: "quiet out0 out \<Longrightarrow> quiet out0 (Refused c code # out)"
  by (rule quiet_Cons) (simp_all add: payload_reply_def)

lemma allows_quiet [simp]: "allows (both I (quiet out0)) (Refused c code)"
  by (rule allows_both) (rule quiet_refused)

lemma striple_write:
  assumes "tickless I"
  shows "striple se (both I O') (write_response x) (\<lambda>r. case r of
     Some e \<Rightarrow> both I O' | None \<Rightarrow> both I (\<lambda>out. \<exists>l. out = x # l \<and> O' l))"
  using assms
  by (auto simp: striple_def write_response_def sact_defs both_def tickless_def split: option.splits)

lemma striple_deadline: "unticked I \<Longrightarrow> skeeps se I (set_write_deadline t)"
  unfolding set_write_deadline_def broker_now_def
  by (intro striple_if striple_ret skeeps_bind striple_ask) auto

lemma striple_deliver:
  assumes tl: "tickless H" "tickless A"
    and before: "triple H before (outcome (\<lambda>_. H) (\<lambda>_ w. H w \<and> A w))"
    and abort: "triple H abort (\<lambda>_. G)" and commit: "keeps A commit"
    and rid: "nv_request_id v \<noteq> ''''"
  shows "striple se (both H (quiet out0)) (deliver v expires before payload commit abort)
    (\<lambda>i s. if i = '''' then both G (quiet out0) s
       else i = nv_request_id v \<and>
         both A (\<lambda>out. \<exists>l. out = Replied (envelope_correlation v) payload # l \<and> quiet out0 l) s)"
proof -
  let ?Q = "\<lambda>i s. if i = '''' then both G (quiet out0) s
       else i = nv_request_id v \<and>
         both A (\<lambda>out. \<exists>l. out = Replied (envelope_correlation v) payload # l \<and> quiet out0 l) s"
  let ?failed = "\<lambda>e. sbind (write_error (envelope_correlation v) (code_for_error e))
      (\<lambda>_. sbind (on_broker abort) (\<lambda>_. sret ''''))"
  have failed: "striple se (both H (quiet out0)) (?failed e) ?Q" for e
    by (rule skeeps_bind [OF skeeps_write_error], simp add: tl, simp,
        rule striple_bind [OF striple_broker [OF abort]], rule striple_ret, simp)
  have finished: "striple se (both (\<lambda>w. H w \<and> A w) (\<lambda>out. \<exists>l. out = Replied (envelope_correlation v) payload # l \<and> quiet out0 l))
      (sbind (on_broker commit) (\<lambda>_. sret (nv_request_id v))) ?Q"
  proof (rule striple_conseq)
    show "striple se (both A (\<lambda>out. \<exists>l. out = Replied (envelope_correlation v) payload # l \<and> quiet out0 l))
        (sbind (on_broker commit) (\<lambda>_. sret (nv_request_id v))) ?Q"
      by (rule skeeps_bind [OF skeeps_broker [OF commit]], rule striple_ret) (simp add: rid)
  qed (simp_all add: both_def)
  have tHA: "tickless (\<lambda>w. H w \<and> A w)" using tl by (simp add: tickless_def)
  have written: "striple se (both (\<lambda>w. H w \<and> A w) (quiet out0))
      (sbind (write_ok (envelope_correlation v) payload) (\<lambda>r. case r of
         None \<Rightarrow> sbind (on_broker commit) (\<lambda>_. sret (nv_request_id v)) | Some e \<Rightarrow> ?failed e)) ?Q"
    unfolding write_ok_def
  proof (rule striple_bind [OF striple_write [OF tHA]], rule striple_case_option)
    show "striple se (case Some y of Some e \<Rightarrow> both (\<lambda>w. H w \<and> A w) (quiet out0)
        | None \<Rightarrow> both (\<lambda>w. H w \<and> A w) (\<lambda>out. \<exists>l. out = Replied (envelope_correlation v) payload # l \<and> quiet out0 l))
        (?failed y) ?Q" for y
      by (rule striple_conseq [OF failed]) (auto simp: both_def)
  qed (simp add: finished)
  have checked: "striple se (both H (quiet out0))
      (sbind (on_broker before) (\<lambda>r. case r of Inl e \<Rightarrow> ?failed e
         | Inr _ \<Rightarrow> sbind (write_ok (envelope_correlation v) payload) (\<lambda>r. case r of
             None \<Rightarrow> sbind (on_broker commit) (\<lambda>_. sret (nv_request_id v)) | Some e \<Rightarrow> ?failed e))) ?Q"
    by (rule striple_bind [OF striple_broker [OF before]], rule striple_case_sum)
      (simp_all add: failed written)
  show ?thesis
    unfolding deliver_def Let_def
    by (rule skeeps_bind [OF striple_deadline], simp add: tl, rule striple_case_option)
      (simp_all add: failed checked)
qed


lemma triple_both_outcomes:
  assumes "triple P a (outcome E Q)" "triple P a (outcome (\<lambda>_ _. True) R)"
  shows "triple P a (outcome E (\<lambda>x w. Q x w \<and> R x w))"
proof (rule tripleI)
  fix e w w' r assume "P w" "a e w = (w', r)"
  with tripleD [OF assms(1)] tripleD [OF assms(2)]
  show "outcome E (\<lambda>x w. Q x w \<and> R x w) r w'" by (cases r) fastforce+
qed

section \<open>The exec exchange\<close>

definition traced_command :: "correlation \<Rightarrow> exec_request \<Rightarrow> world \<Rightarrow> bool" where
  "traced_command c r w \<longleftrightarrow> command_audited c r (w_trace w)"

lemma traced_command_grows: "grows (traced_command c r)"
  unfolding grows_def traced_command_def by (metis lasting_command lasting_more)

lemma keeps_traced: "extends_trace a \<Longrightarrow> keeps (traced_command c r) a"
  by (rule keeps_grows [OF traced_command_grows])

lemma tickless_traced [simp]: "tickless (traced_command c r)"
  by (simp add: tickless_def traced_command_def)

lemma tickless_holds [simp]: "tickless (holds_use m0 d)" "tickless (free_uses m0)"
  by (simp_all add: tickless_def holds_use_def free_uses_def borrowed_def store_ok_def)

lemma drops_before_write: "drops (exec_before_write d)"
  unfolding exec_before_write_def ensure_payload_writable_def
  by (intro drops_parts drops_basic drops_ensure_grant drops_rollback)

lemma extends_deliveries:
  "extends_trace (exec_before_write d)" "extends_trace (exec_commit_delivered d)"
  unfolding exec_before_write_def ensure_payload_writable_def exec_commit_delivered_def
  by (intro emits_parts emits_ops audits_True)+

lemma triple_abort:
  assumes "\<not> ed_finalized d"
  shows "triple (holds_use m0 (ed_delivery d)) (exec_abort_before_payload d) (\<lambda>_. free_uses m0)"
proof -
  have "holds_use m0 (ed_delivery d) (w\<lparr>w_active := x\<rparr>) = holds_use m0 (ed_delivery d) w" for w x
    by (simp add: holds_use_def free_uses_def borrowed_def store_ok_def)
  then have off: "triple (holds_use m0 (ed_delivery d)) (deactivate_exec (ed_correlation d))
      (outcome (\<lambda>_ _. False) (\<lambda>_. holds_use m0 (ed_delivery d)))"
    unfolding deactivate_exec_def by (intro triple_modify) (simp split: option.splits)
  have "triple (holds_use m0 (ed_delivery d))
      (andthen (finish_delivery_before_payload (ed_delivery d)) (\<lambda>_. ret (d\<lparr>ed_finalized := True\<rparr>)))
      (\<lambda>_. free_uses m0)"
    by (rule triple_andthen [where E = "\<lambda>_. free_uses m0" and R = "\<lambda>_. free_uses m0"])
      (simp_all add: outcome_const triple_holds_finish triple_ret)
  with off show ?thesis
    using assms by (simp add: exec_abort_before_payload_def triple_andthen [OF off])
qed

text \<open>
  The result of serving an exec request: either the client got the payload, after the start of the
  command was audited, or it got none and every use is where it was.
\<close>

definition exec_served ::
  "server_env \<Rightarrow> envelope \<Rightarrow> server \<Rightarrow> string \<Rightarrow> server \<Rightarrow> bool" where
  "exec_served se v s i s' \<longleftrightarrow>
     (if i = '''' then free_uses (meter (sr_world s)) (sr_world s') \<and> quiet (sr_out s) (sr_out s')
      else i = nv_request_id v \<and> client_trusted se \<and>
        (\<exists>q env aliases l.
           validate_exec (en_fs (se_broker se)) q = None \<and>
           (\<exists>q0 now. decode_required rp_exec v = Inr q0 \<and> q = exec_with_receipt_time q0 now) \<and>
           sr_out s' = Replied (envelope_correlation v) (ReplyExec env aliases) # l \<and>
           quiet (sr_out s) l \<and> traced_command (envelope_correlation v) q (sr_world s')))"

lemma striple_exec_delivery:
  assumes "delivery_for (envelope_correlation v) q d"
  shows "striple se
    (both (\<lambda>w. holds_use m0 (ed_delivery d) w \<and> traced_command (envelope_correlation v) q w) (quiet out0))
    (deliver v t (exec_before_write d) payload (exec_commit_delivered d) (exec_abort_before_payload d))
    (\<lambda>i s. if i = '''' then both (free_uses m0) (quiet out0) s
       else i = nv_request_id v \<and> both (traced_command (envelope_correlation v) q)
         (\<lambda>out. \<exists>l. out = Replied (envelope_correlation v) payload # l \<and> quiet out0 l) s)"
proof (rule striple_deliver)
  let ?c = "envelope_correlation v" and ?H = "holds_use m0 (ed_delivery d)"
  have fin: "\<not> ed_finalized d" and id: "nv_request_id v \<noteq> ''''"
    using assms by (simp_all add: delivery_for_def envelope_correlation_def)
  show "nv_request_id v \<noteq> ''''" by (rule id)
  have "keeps ?H (exec_before_write d)" by (rule keeps_drops [OF _ drops_before_write]) simp
  with keeps_traced [OF extends_deliveries(1)] have "keeps (\<lambda>w. ?H w \<and> traced_command ?c q w) (exec_before_write d)"
    by (auto simp: keeps_def triple_def)
  then show "triple (\<lambda>w. ?H w \<and> traced_command ?c q w) (exec_before_write d)
      (outcome (\<lambda>_ w. ?H w \<and> traced_command ?c q w)
        (\<lambda>_ w. (?H w \<and> traced_command ?c q w) \<and> traced_command ?c q w))"
    by (auto simp: keeps_def triple_def outcome_def split: sum.splits)
  show "triple (\<lambda>w. ?H w \<and> traced_command ?c q w) (exec_abort_before_payload d) (\<lambda>_. free_uses m0)"
    by (rule triple_pre [OF triple_abort [OF fin]]) simp
  show "keeps (traced_command ?c q) (exec_commit_delivered d)"
    by (rule keeps_traced [OF extends_deliveries(2)])
qed (simp_all add: tickless_def holds_use_def free_uses_def borrowed_def store_ok_def traced_command_def)


lemma exec_exchange_served:
  assumes ok: "store_ok (sr_world s)" and run: "serve_request_exec v se s = (s', i)"
  shows "exec_served se v s i s'"
proof -
  let ?c = "envelope_correlation v" and ?out = "sr_out s"
  let ?m0 = "meter (sr_world s)"
  let ?I = "both (unchanged_uses ?m0) (quiet ?out)"
  have tI [simp]: "tickless (unchanged_uses ?m0)"
    by (simp add: tickless_def unchanged_uses_def store_ok_def)
  have free: "?I s1 \<Longrightarrow> both (free_uses ?m0) (quiet ?out) s1" for s1
    by (simp add: both_def unchanged_free)
  define Q where "Q = (\<lambda>i s1. if i = '''' then both (free_uses ?m0) (quiet ?out) s1
    else i = nv_request_id v \<and> client_trusted se \<and>
        (\<exists>q env aliases l.
           validate_exec (en_fs (se_broker se)) q = None \<and>
           (\<exists>q0 now. decode_required rp_exec v = Inr q0 \<and> q = exec_with_receipt_time q0 now) \<and>
           sr_out s1 = Replied ?c (ReplyExec env aliases) # l \<and>
           quiet ?out l \<and> traced_command ?c q (sr_world s1)))"
  have Qempty: "Q '''' s1 \<longleftrightarrow> both (free_uses ?m0) (quiet ?out) s1" for s1 by (simp add: Q_def)
  have prepared: "striple se ?I (on_broker (prepare_exec_delivery ?c q))
      (\<lambda>r. case r of Inl e \<Rightarrow> both (free_uses ?m0) (quiet ?out)
         | Inr d \<Rightarrow> both (\<lambda>w. (holds_use ?m0 (ed_delivery d) w \<and> traced_command ?c q w) \<and>
             delivery_for ?c q d) (quiet ?out))" for q
  proof (rule striple_conseq [OF striple_broker])
    have "triple (unchanged_uses ?m0) (prepare_exec_delivery ?c q) (outcome (\<lambda>_ _. True)
        (\<lambda>_. traced_command ?c q))"
      unfolding traced_command_def prepare_exec_delivery_def
      by (rule opens_triple [OF lasting_command], intro opens_tail [OF lasting_command])
        (auto intro!: emits_ops emits_basic opens_fail opens_head opens_issue emits_attempt emits_andthen
          emits_case_sum split: prod.splits)
    moreover have "triple (unchanged_uses ?m0) (prepare_exec_delivery ?c q) (outcome (\<lambda>_ _. True)
        (\<lambda>d w. delivery_for ?c q d))"
      by (rule triple_pre [OF triple_prepare_delivery]) simp
    ultimately show "triple (unchanged_uses ?m0) (prepare_exec_delivery ?c q)
      (outcome (\<lambda>_. free_uses ?m0) (\<lambda>d w. (holds_use ?m0 (ed_delivery d) w \<and> traced_command ?c q w) \<and>
             delivery_for ?c q d))"
      by (intro triple_both_outcomes triple_prepare_uses)
  qed (auto simp: both_def outcome_def split: sum.splits)
  have delivered: "striple se (both (\<lambda>w. (holds_use ?m0 (ed_delivery d) w \<and> traced_command ?c q w) \<and>
        delivery_for ?c q d) (quiet ?out))
      (deliver v t (exec_before_write d) (ReplyExec env aliases) (exec_commit_delivered d)
        (exec_abort_before_payload d)) Q"
    if "validate_exec (en_fs (se_broker se)) q = None" "client_trusted se"
      "decode_required rp_exec v = Inr q0" "q = exec_with_receipt_time q0 now"
    for d q q0 now t env aliases
  proof (cases "delivery_for ?c q d")
    case True
    show ?thesis
      by (rule striple_conseq [OF striple_exec_delivery [OF True]])
        (use that in \<open>auto simp: Q_def both_def split: if_splits\<close>)
  qed (simp add: striple_def both_def)
  have "striple se ?I (serve_request_exec v) Q"
    unfolding serve_request_exec_def Let_def
  proof (intro striple_decode_trusted striple_broker_now striple_ask_fs striple_valid_or_refuse)
    fix q0 now
    assume t: "client_trusted se" "decode_required rp_exec v = Inr q0"
    let ?q = "exec_with_receipt_time q0 now"
    assume valid: "validate_exec (en_fs (se_broker se)) ?q = None"
    show "striple se ?I (sbind (on_broker (prepare_exec_delivery ?c ?q))
        (\<lambda>r. or_refuse ?c code_for_error '''' r (\<lambda>d. deliver v (gr_payload_expires_at (ed_grant d))
          (exec_before_write d) (ReplyExec (gr_env (ed_grant d)) (gr_aliases (ed_grant d)))
          (exec_commit_delivered d) (exec_abort_before_payload d)))) Q"
    proof (rule striple_bind [OF prepared])
      fix r
      show "striple se (case r of Inl e \<Rightarrow> both (free_uses ?m0) (quiet ?out)
         | Inr d \<Rightarrow> both (\<lambda>w. (holds_use ?m0 (ed_delivery d) w \<and> traced_command ?c ?q w) \<and>
             delivery_for ?c ?q d) (quiet ?out))
        (or_refuse ?c code_for_error '''' r (\<lambda>d. deliver v (gr_payload_expires_at (ed_grant d))
          (exec_before_write d) (ReplyExec (gr_env (ed_grant d)) (gr_aliases (ed_grant d)))
          (exec_commit_delivered d) (exec_abort_before_payload d))) Q"
      proof (cases r)
        case (Inr d)
        show ?thesis
          unfolding Inr or_refuse_def sum.case by (rule delivered [OF valid t refl])
      qed (simp add: or_refuse_def striple_refuse Qempty)
    qed
  qed (simp_all add: Qempty free)
  from stripleD [OF this _ run] ok have "Q i s'" by (simp add: both_def start_unchanged)
  then show ?thesis by (auto simp: Q_def exec_served_def both_def split: if_splits)
qed

end
