(* ===== verification/Connections.thy ===== *)
theory Connections
  imports ServerLogic Observers
begin

text \<open>
  What a connection can do: a client that is not trusted disturbs nothing, and the state that the
  server keeps of a connection stays well formed.
\<close>

section \<open>Connections of untrusted clients\<close>

text \<open>Replies that carry nothing of a client's request, session or item.\<close>

definition uninformative :: "response \<Rightarrow> bool" where
  "uninformative x = (case x of
     Refused c code \<Rightarrow> True
   | Replied c r \<Rightarrow> (case r of ReplyEmpty \<Rightarrow> True | ReplyPid \<Rightarrow> True | ReplyHello \<Rightarrow> True
       | ReplyPending p \<Rightarrow> True | _ \<Rightarrow> False))"

definition is_audit_record :: "effect \<Rightarrow> bool" where
  "is_audit_record x = (case x of Audited ev \<Rightarrow> True | _ \<Rightarrow> False)"

text \<open>A list that grew at its front, by elements of a kind.\<close>

definition added :: "('a \<Rightarrow> bool) \<Rightarrow> 'a list \<Rightarrow> 'a list \<Rightarrow> bool" where
  "added S l0 l \<longleftrightarrow> (\<exists>m. l = m @ l0 \<and> list_all S m)"

lemma added_refl [simp]: "added S l l"
  by (simp add: added_def)

lemma added_append: "added S l0 l \<Longrightarrow> list_all S m \<Longrightarrow> added S l0 (m @ l)"
  unfolding added_def by (metis append_assoc list_all_append)

lemma added_Cons: "added S l0 l \<Longrightarrow> S x \<Longrightarrow> added S l0 (x # l)"
  using added_append [of S l0 l "[x]"] by simp

text \<open>Only the tick, audit records and uninformative responses were added.\<close>

definition undisturbed :: "server \<Rightarrow> server \<Rightarrow> bool" where
  "undisturbed s0 s \<longleftrightarrow>
     (sr_world s)\<lparr>w_tick := 0, w_trace := []\<rparr> = (sr_world s0)\<lparr>w_tick := 0, w_trace := []\<rparr> \<and>
     added is_audit_record (w_trace (sr_world s0)) (w_trace (sr_world s)) \<and>
     sr_retire s = sr_retire s0 \<and> sr_stopped s = sr_stopped s0 \<and>
     added uninformative (sr_out s0) (sr_out s)"

lemma undisturbed_refl [simp]: "undisturbed s s"
  by (simp add: undisturbed_def)

lemma undisturbed_tick:
  "undisturbed s0 (s\<lparr>sr_world := (sr_world s)\<lparr>w_tick := n\<rparr>\<rparr>) \<longleftrightarrow> undisturbed s0 s"
  by (simp add: undisturbed_def)

lemma unticked_undisturbed [simp]: "unticked (undisturbed s0)"
  by (simp add: unticked_def undisturbed_tick)

lemma allows_undisturbed: "uninformative x \<Longrightarrow> allows (undisturbed s0) x"
  by (simp add: allows_def undisturbed_def added_Cons)

lemma allows_undisturbed_refused [simp]: "allows (undisturbed s0) (Refused c code)"
  by (rule allows_undisturbed) (simp add: uninformative_def)

lemma stop_attempt_records:
  "record_stop_attempt ev e w = (w', r) \<Longrightarrow>
     \<exists>n l. w' = w\<lparr>w_tick := n, w_trace := l @ w_trace w\<rparr> \<and> list_all is_audit_record l"
proof -
  assume run: "record_stop_attempt ev e w = (w', r)"
  have "emits is_audit_record (record_stop_attempt ev)"
    unfolding record_stop_attempt_def record_best_effort_audit_def ignore_error_def
    by (intro emits_parts emits_ops emits_basic) (simp_all add: audits_def is_audit_record_def)
  from emitsD [OF this run] obtain l where "w_trace w' = l @ w_trace w" "list_all is_audit_record l" by blast
  moreover obtain n k where "w' = w\<lparr>w_tick := n, w_trace := k\<rparr>"
    using observerD [OF observer_guards(5) run] by blast
  ultimately show ?thesis by auto
qed

lemma skeeps_stop_attempt: "skeeps se (undisturbed s0) (on_broker (record_stop_attempt ev))"
proof (rule stripleI)
  fix s s' x assume I: "undisturbed s0 s" and run: "on_broker (record_stop_attempt ev) se s = (s', x)"
  then obtain w' where b: "record_stop_attempt ev (se_broker se) (sr_world s) = (w', x)"
    and s': "s' = s\<lparr>sr_world := w'\<rparr>" by (auto simp: on_broker_def split: prod.splits)
  from stop_attempt_records [OF b] obtain n l where w': "w' = (sr_world s)\<lparr>w_tick := n, w_trace := l @ w_trace (sr_world s)\<rparr>"
    and l: "list_all is_audit_record l" by blast
  from I l show "undisturbed s0 s'"
    by (simp add: undisturbed_def s' w' added_append)
qed

text \<open>Handlers behind the check of the client, when no client is trusted.\<close>

lemma striple_untrusted:
  assumes "\<not> client_trusted se" "\<And>s. undisturbed s0 s \<Longrightarrow> Q d s"
  shows "striple se (undisturbed s0) (if_trusted c d k) Q"
  by (rule striple_if_trusted) (use assms in auto)

lemma striple_decode_untrusted:
  assumes "\<not> client_trusted se" "\<And>s. undisturbed s0 s \<Longrightarrow> Q d s"
  shows "striple se (undisturbed s0) (decode_trusted f v d k) Q"
  unfolding decode_trusted_def by (rule striple_untrusted) (use assms in auto)

lemma skeeps_say_undisturbed:
  "uninformative (Replied c r) \<Longrightarrow> skeeps se (undisturbed s0) (say_ok c r)"
  by (intro skeeps_say_ok allows_undisturbed) simp_all

lemma skeeps_or_refuse:
  assumes "\<And>x. r = Inr x \<Longrightarrow> striple se (undisturbed s0) (k x) Q" "\<And>s. undisturbed s0 s \<Longrightarrow> Q d s"
  shows "striple se (undisturbed s0) (or_refuse c code d r k) Q"
  by (rule striple_or_refuse) (use assms in auto)

lemma skeeps_daemon_stop_untrusted:
  assumes "\<not> client_trusted se"
  shows "striple se (undisturbed s0) (serve_daemon_stop v) (\<lambda>close s. undisturbed s0 s \<and> \<not> close)"
proof -
  have known: "striple se (undisturbed s0) (sbind (sask (\<lambda>se n. se_client se n p)) (\<lambda>r. case r of
        Some e \<Rightarrow>
          sbind (on_broker (record_stop_attempt (daemon_stop_event p (Some e)))) (\<lambda>_.
          sbind (write_error (envelope_correlation v) (code_for_error e)) (\<lambda>_. sret False))
      | None \<Rightarrow>
          sbind (stop_with_audit (daemon_stop_event p None)) (\<lambda>_.
          sbind (say_ok (envelope_correlation v) ReplyPid) (\<lambda>_. sret True))))
      (\<lambda>close s. undisturbed s0 s \<and> \<not> close)"
    if "\<exists>n. se_peer se n = Inr p" for p
  proof (rule striple_bind)
    show "striple se (undisturbed s0) (sask (\<lambda>se n. se_client se n p)) (\<lambda>r s. undisturbed s0 s \<and> r \<noteq> None)"
      using assms that unticked_undisturbed [of s0]
      by (auto simp: striple_def sask_def unticked_def client_trusted_def)
  next
    fix r
    show "striple se (\<lambda>s. undisturbed s0 s \<and> r \<noteq> None) (case r of
        Some e \<Rightarrow>
          sbind (on_broker (record_stop_attempt (daemon_stop_event p (Some e)))) (\<lambda>_.
          sbind (write_error (envelope_correlation v) (code_for_error e)) (\<lambda>_. sret False))
      | None \<Rightarrow>
          sbind (stop_with_audit (daemon_stop_event p None)) (\<lambda>_.
          sbind (say_ok (envelope_correlation v) ReplyPid) (\<lambda>_. sret True)))
      (\<lambda>close s. undisturbed s0 s \<and> \<not> close)"
    proof (cases r)
      case (Some e)
      have "striple se (undisturbed s0) (sbind (on_broker (record_stop_attempt (daemon_stop_event p (Some e)))) (\<lambda>_.
          sbind (write_error (envelope_correlation v) (code_for_error e)) (\<lambda>_. sret False)))
          (\<lambda>close s. undisturbed s0 s \<and> \<not> close)"
        by (intro skeeps_bind skeeps_stop_attempt striple_refuse) simp_all
      then show ?thesis by (simp add: Some)
    qed (simp add: striple_def)
  qed
  show ?thesis
    unfolding serve_daemon_stop_def Let_def
  proof (rule striple_bind)
    show "striple se (undisturbed s0) (sask se_peer) (\<lambda>r s. undisturbed s0 s \<and> (\<exists>n. r = se_peer se n))"
      using unticked_undisturbed [of s0] by (auto simp: striple_def sask_def unticked_def)
  next
    fix r
    show "striple se (\<lambda>s. undisturbed s0 s \<and> (\<exists>n. r = se_peer se n))
      (or_refuse (envelope_correlation v) peer_rejected False r (\<lambda>p.
        sbind (sask (\<lambda>se n. se_client se n p)) (\<lambda>r. case r of
        Some e \<Rightarrow>
          sbind (on_broker (record_stop_attempt (daemon_stop_event p (Some e)))) (\<lambda>_.
          sbind (write_error (envelope_correlation v) (code_for_error e)) (\<lambda>_. sret False))
      | None \<Rightarrow>
          sbind (stop_with_audit (daemon_stop_event p None)) (\<lambda>_.
          sbind (say_ok (envelope_correlation v) ReplyPid) (\<lambda>_. sret True)))))
      (\<lambda>close s. undisturbed s0 s \<and> \<not> close)"
    proof (cases "\<exists>n. r = se_peer se n")
      case True
      then show ?thesis
        by (intro striple_conseq [OF skeeps_or_refuse [OF known]]) (auto dest: sym)
    qed (simp add: striple_def)
  qed
qed

lemma skeeps_undisturbed_own_handlers:
  "skeeps se (undisturbed s0) (serve_helper_hello v)"
  "skeeps se (undisturbed s0) (serve_daemon_status v)"
  unfolding serve_helper_hello_def serve_daemon_status_def
  by (rule skeeps_say_undisturbed, simp add: uninformative_def)+

lemma skeeps_undisturbed_approvals:
  "skeeps se (undisturbed s0) (serve_approval_pending v)"
  "skeeps se (undisturbed s0) (serve_approval_decision v)"
proof -
  note rules = skeeps_bind [OF skeeps_write] skeeps_bind [OF striple_pure] skeeps_bind [OF striple_ask]
    skeeps_or_refuse skeeps_write_error striple_refuse striple_ret striple_case_option
  show "skeeps se (undisturbed s0) (serve_approval_pending v)"
    unfolding serve_approval_pending_def Let_def write_ok_def
    by (intro rules) (simp_all add: allows_undisturbed uninformative_def)
  show "skeeps se (undisturbed s0) (serve_approval_decision v)"
    unfolding serve_approval_decision_def Let_def
    by (intro rules skeeps_say_undisturbed) (simp_all add: uninformative_def)
qed

text \<open>Anything a handler does after a successful check is out of reach.\<close>

lemma skeeps_untrusted_handlers:
  assumes "\<not> client_trusted se"
  shows "skeeps se (undisturbed s0) (serve_item_describe v)"
    "skeeps se (undisturbed s0) (serve_session_create v)"
    "skeeps se (undisturbed s0) (serve_session_destroy v)"
    "skeeps se (undisturbed s0) (serve_session_list v)"
    "skeeps se (undisturbed s0) (serve_account_status v)"
    "striple se (undisturbed s0) (serve_request_exec v) (\<lambda>i s. undisturbed s0 s \<and> i = '''')"
    "striple se (undisturbed s0) (serve_session_resolve v) (\<lambda>i s. undisturbed s0 s \<and> i = '''')"
    "striple se (undisturbed s0) (serve_command_started v) (\<lambda>ok s. undisturbed s0 s \<and> \<not> ok)"
    "striple se (undisturbed s0) (serve_command_completed v) (\<lambda>ok s. undisturbed s0 s \<and> \<not> ok)"
  unfolding serve_item_describe_def serve_session_create_def serve_session_destroy_def
    serve_session_list_def serve_account_status_def serve_request_exec_def serve_session_resolve_def
    serve_command_started_def serve_command_completed_def Let_def
  by (rule striple_decode_untrusted striple_untrusted, use assms in auto)+

lemma dispatch_untrusted:
  assumes "\<not> client_trusted se"
  shows "striple se (undisturbed s0) (dispatch v conn)
    (\<lambda>a s. undisturbed s0 s \<and> da_begin a = '''' \<and> \<not> da_close a)"
proof -
  let ?Q = "\<lambda>a s. undisturbed s0 s \<and> da_begin a = '''' \<and> \<not> da_close a"
  note untrusted = skeeps_untrusted_handlers [OF assms]
  have after: "striple se (undisturbed s0) (accept_after m) ?Q" if "skeeps se (undisturbed s0) m" for m
    unfolding accept_after_def by (intro skeeps_bind that striple_ret) (simp_all add: no_action_def)
  have begun: "striple se (undisturbed s0) (begin_after m) ?Q"
    if "striple se (undisturbed s0) m (\<lambda>i s. undisturbed s0 s \<and> i = '''')" for m
    unfolding begin_after_def
    by (rule striple_bind [OF that], rule striple_ret) (simp add: no_action_def)
  have refused: "striple se (undisturbed s0) (sbind (write_error c code) (\<lambda>_. sret no_action)) ?Q" for c code
    by (intro striple_refuse) (simp_all add: no_action_def)
  have matching: "striple se (undisturbed s0) (if_matching v conn (sbind m (\<lambda>ok. sret (f ok)))) ?Q"
    if "striple se (undisturbed s0) m (\<lambda>ok s. undisturbed s0 s \<and> \<not> ok)"
      "\<And>ok. da_begin (f ok) = '''' \<and> \<not> da_close (f ok)" for m :: "bool sact" and f
    unfolding if_matching_def
    by (intro striple_if refused striple_bind [OF that(1)] striple_ret) (simp add: that(2))
  have pending: "striple se (undisturbed s0) (sbind (serve_approval_pending v) (\<lambda>r. case r of
            None \<Rightarrow> sret no_action
          | Some p \<Rightarrow>
              sbind (approval_decision_timeout (ap_expires_at p)) (\<lambda>t.
                sret (accepted_action\<lparr>da_decision_timeout := t\<rparr>)))) ?Q"
  proof (rule skeeps_bind [OF skeeps_undisturbed_approvals(1)], rule striple_case_option)
    show "striple se (undisturbed s0) (sbind (approval_decision_timeout (ap_expires_at p)) (\<lambda>t.
                sret (accepted_action\<lparr>da_decision_timeout := t\<rparr>))) ?Q" for p
    proof (rule skeeps_bind)
      show "skeeps se (undisturbed s0) (approval_decision_timeout (ap_expires_at p))"
        by (auto simp: striple_def approval_decision_timeout_def sact_defs undisturbed_tick)
    qed (intro striple_ret, simp add: no_action_def)
  qed (intro striple_ret, simp add: no_action_def)
  have stop: "striple se (undisturbed s0) (sbind (serve_daemon_stop v)
      (\<lambda>close. sret (accepted_action\<lparr>da_close := close\<rparr>))) ?Q"
    by (rule striple_bind [OF skeeps_daemon_stop_untrusted [OF assms]], rule striple_ret)
      (simp add: no_action_def)
  show ?thesis
    unfolding dispatch_def refuse_active_def
    by (cases "nv_type v")
      (simp_all only: message_type.case, (intro after begun refused pending stop striple_if matching untrusted
        skeeps_undisturbed_own_handlers skeeps_undisturbed_approvals | simp add: no_action_def)+)
qed

text \<open>A whole connection of an untrusted client, when the executable of the daemon is not checked.\<close>

definition still_idle :: "connection option \<Rightarrow> bool" where
  "still_idle c \<longleftrightarrow> (case c of None \<Rightarrow> True | Some x \<Rightarrow> \<not> has_active_request x)"

lemma idle_action:
  "da_begin a = '''' \<Longrightarrow> \<not> has_active_request c \<Longrightarrow> \<not> has_active_request (apply_action a c)"
  by (simp add: apply_action_def Let_def has_active_request_def set_decision_timeout_def
      mark_started_def mark_completed_def)

lemma idle_reset [simp]: "has_active_request (reset_read_timeout c) = has_active_request c"
  by (simp add: has_active_request_def reset_read_timeout_def)

lemma serve_envelope_untrusted:
  assumes "\<not> client_trusted se" "se_self_check se = None" "\<not> has_active_request conn"
  shows "striple se (undisturbed s0) (serve_envelope v conn) (\<lambda>c s. undisturbed s0 s \<and> still_idle c)"
proof -
  have retire: "striple se (undisturbed s0) (retire_if_executable_changed v) (\<lambda>b s. undisturbed s0 s \<and> \<not> b)"
    using assms(2)
    by (auto simp: striple_def retire_if_executable_changed_def sact_defs)
  have handled: "striple se (undisturbed s0)
      (sbind (dispatch v (reset_read_timeout conn)) (\<lambda>a. sret
        (if da_close a then None else if \<not> da_accepted a then Some (reset_read_timeout conn)
         else Some (apply_action a (reset_read_timeout conn)))))
      (\<lambda>c s. undisturbed s0 s \<and> still_idle c)"
    by (rule striple_bind [OF dispatch_untrusted [OF assms(1)]], rule striple_ret)
      (use assms(3) in \<open>auto simp: still_idle_def idle_action\<close>)
  have checked: "striple se (undisturbed s0) (sbind (sgets sr_stopped) (\<lambda>stopped.
            if stopped \<and> nv_type v \<noteq> TypeDaemonStatus then
              sbind (write_error (envelope_correlation v)
                       (code_for_error (Err (BrokerErr ErrDaemonStopped)))) (\<lambda>_. sret None)
            else
              (let conn1 = reset_read_timeout conn in
               sbind (dispatch v conn1) (\<lambda>a.
                 sret (if da_close a then None
                       else if \<not> da_accepted a then Some conn1
                       else Some (apply_action a conn1))))))
      (\<lambda>c s. undisturbed s0 s \<and> still_idle c)"
    unfolding Let_def
    by (intro skeeps_bind [OF striple_gets] striple_if striple_refuse handled)
      (simp_all add: still_idle_def)
  have served: "striple se (undisturbed s0) (sbind (retire_if_executable_changed v) (\<lambda>retired.
          if retired then sret None
          else sbind (sgets sr_stopped) (\<lambda>stopped.
            if stopped \<and> nv_type v \<noteq> TypeDaemonStatus then
              sbind (write_error (envelope_correlation v)
                       (code_for_error (Err (BrokerErr ErrDaemonStopped)))) (\<lambda>_. sret None)
            else
              (let conn1 = reset_read_timeout conn in
               sbind (dispatch v conn1) (\<lambda>a.
                 sret (if da_close a then None
                       else if \<not> da_accepted a then Some conn1
                       else Some (apply_action a conn1)))))))
      (\<lambda>c s. undisturbed s0 s \<and> still_idle c)"
  proof (rule striple_bind [OF retire], rule striple_if, goal_cases)
    case (2 retired)
    then show ?case by (intro striple_conseq [OF checked]) simp_all
  qed (simp add: striple_def)
  have invalid: "striple se (undisturbed s0)
      (sbind (write_error (envelope_correlation v) BadEnvelope) (\<lambda>_. sret (Some conn)))
      (\<lambda>c s. undisturbed s0 s \<and> still_idle c)"
    by (intro striple_refuse) (simp_all add: still_idle_def assms(3))
  show ?thesis
    unfolding serve_envelope_def
    by (rule striple_case_option) (fact served, fact invalid)
qed

lemma serve_frames_untrusted:
  assumes "\<not> client_trusted se" "se_self_check se = None" "\<not> has_active_request conn"
  shows "skeeps se (undisturbed s0) (serve_frames decode max_bytes n r conn)"
  using assms(3)
proof (induction n arbitrary: r conn)
  case 0
  show ?case by (auto intro: striple_ret)
next
  case (Suc n)
  obtain r' x where frame: "read_envelope_frame decode max_bytes r = (r', x)"
    by (cases "read_envelope_frame decode max_bytes r")
  show ?case
  proof (cases x)
    case (Inl e)
    have "skeeps se (undisturbed s0) (serve_disconnect e conn)"
      using Suc.prems unfolding serve_disconnect_def Let_def
      by (cases e) (auto intro!: skeeps_bind striple_ret striple_if skeeps_write_error)
    then have "skeeps se (undisturbed s0) (sbind (serve_disconnect e conn) (\<lambda>_. sret (r', None)))"
      by (rule skeeps_bind) (simp add: striple_ret)
    then show ?thesis by (simp add: frame Inl)
  next
    case (Inr v)
    have "skeeps se (undisturbed s0) (sbind (serve_envelope v conn) (\<lambda>c. case c of
            None \<Rightarrow> sret (r', None) | Some conn' \<Rightarrow> serve_frames decode max_bytes n r' conn'))"
    proof (rule striple_bind [OF serve_envelope_untrusted [OF assms(1,2) Suc.prems]])
      fix c
      show "striple se (\<lambda>s. undisturbed s0 s \<and> still_idle c) (case c of
            None \<Rightarrow> sret (r', None) | Some conn' \<Rightarrow> serve_frames decode max_bytes n r' conn')
          (\<lambda>_. undisturbed s0)"
      proof (cases c)
        case (Some conn')
        show ?thesis
        proof (cases "has_active_request conn'")
          case False
          have "skeeps se (undisturbed s0) (serve_frames decode max_bytes n r' conn')"
            by (rule Suc.IH [OF False])
          then show ?thesis by (simp add: Some striple_def)
        qed (simp add: Some striple_def still_idle_def)
      qed (simp add: striple_def sret_def)
    qed
    then show ?thesis by (simp add: frame Inr)
  qed
qed

section \<open>The state of a connection\<close>

text \<open>
  A command has started only under an active request; unless it has, a read waits for a bounded time.
\<close>

definition connection_ok :: "duration \<Rightarrow> connection \<Rightarrow> bool" where
  "connection_ok t c \<longleftrightarrow> cs_default c = t \<and> (cs_started c \<longrightarrow> has_active_request c) \<and>
     (0 < t \<longrightarrow> \<not> cs_started c \<longrightarrow> 0 < cs_next c)"

text \<open>The actions that a dispatch may return for a connection.\<close>

definition action_ok :: "connection \<Rightarrow> dispatch_action \<Rightarrow> bool" where
  "action_ok c a \<longleftrightarrow> (da_started a \<longrightarrow> has_active_request c) \<and>
     (da_begin a \<noteq> '''' \<longrightarrow> \<not> has_active_request c \<and> \<not> da_started a)"

lemma connection_ok_new: "0 \<le> t \<Longrightarrow> connection_ok t (new_connection t)"
  by (simp add: connection_ok_def new_connection_def)

lemma connection_ok_reset: "connection_ok t c \<Longrightarrow> connection_ok t (reset_read_timeout c)"
  by (auto simp: connection_ok_def reset_read_timeout_def has_active_request_def)

lemma connection_ok_apply:
  "connection_ok t c \<Longrightarrow> action_ok c a \<Longrightarrow> connection_ok t (apply_action a c)"
  by (auto simp: connection_ok_def action_ok_def apply_action_def Let_def has_active_request_def
      set_decision_timeout_def begin_exec_def mark_started_def mark_completed_def)

lemma striple_const: "(\<And>x s. Q x s) \<Longrightarrow> striple se P m Q"
  by (simp add: striple_def)

lemma striple_drop:
  "(\<And>x. striple se (\<lambda>_. True) (f x) Q) \<Longrightarrow> striple se (\<lambda>_. True) (sbind m f) Q"
  by (rule striple_bind [where R = "\<lambda>_ _. True"]) (simp_all add: striple_const)

lemma dispatch_action_ok: "striple se (\<lambda>_. True) (dispatch v conn) (\<lambda>a _. action_ok conn a)"
  unfolding dispatch_def refuse_active_def accept_after_def begin_after_def if_matching_def
  by (cases "nv_type v"; simp only: message_type.case;
      (intro striple_drop striple_ret striple_if striple_case_option
       | simp add: action_ok_def no_action_def matches_request_def has_active_request_def)+)

lemma serve_envelope_connection:
  assumes "connection_ok t conn" "serve_envelope v conn se s = (s', Some conn')"
  shows "connection_ok t conn'"
proof -
  let ?Q = "\<lambda>c s. \<forall>x. c = Some x \<longrightarrow> connection_ok t x"

  have handled: "striple se (\<lambda>_. True) (sbind (dispatch v (reset_read_timeout conn)) (\<lambda>a. sret
        (if da_close a then None else if \<not> da_accepted a then Some (reset_read_timeout conn)
         else Some (apply_action a (reset_read_timeout conn))))) ?Q"
    by (rule striple_bind [OF dispatch_action_ok], rule striple_ret)
      (use assms(1) in \<open>auto simp: connection_ok_reset connection_ok_apply\<close>)
  have "striple se (\<lambda>_. True) (serve_envelope v conn) ?Q"
    unfolding serve_envelope_def Let_def
    by (auto intro!: striple_drop handled striple_ret striple_if striple_case_option simp: assms(1))
  from stripleD [OF this TrueI assms(2)] show ?thesis by simp
qed

lemma serve_frames_connection:
  assumes "connection_ok t conn" "serve_frames decode max_bytes n r conn se s = (s', (r', Some conn'))"
  shows "connection_ok t conn'"
  using assms
proof (induction n arbitrary: r conn s)
  case 0
  then show ?case by (simp add: sret_def)
next
  case (Suc n)
  obtain r1 x where frame: "read_envelope_frame decode max_bytes r = (r1, x)"
    by (cases "read_envelope_frame decode max_bytes r")
  obtain s1 c where run: "serve_envelope (projr x) conn se s = (s1, c)"
    by (cases "serve_envelope (projr x) conn se s")
  from Suc.prems(2) frame obtain conn1 where "c = Some conn1"
    "serve_frames decode max_bytes n r1 conn1 se s1 = (s', (r', Some conn'))"
    by (cases x; cases c) (use run in \<open>auto simp: sbind_def sret_def split: prod.splits\<close>)
  with Suc.IH [OF serve_envelope_connection [OF Suc.prems(1)]] run show ?case by blast
qed

section \<open>Every connection ends\<close>

lemma frame_consumes:
  assumes "read_envelope_frame decode max_bytes r = (r', Inr v)"
  shows "length (rd_bytes r') < length (rd_bytes r)"
proof -
  define limit where "limit = (if max_bytes \<le> 0 then default_max_frame_bytes else max_bytes)"
  then have limit: "0 \<le> limit" by (simp add: default_max_frame_bytes_def)
  obtain line where line: "read_line limit [] r = (r', Inr line)"
    using assms by (auto simp: read_envelope_frame_def Let_def limit_def
        split: prod.splits sum.splits if_splits)
  have spec: "snd (read_line limit [] r) = line_of_stream limit r"
    "rd_bytes r = line @ rd_bytes r'"
    using read_line_spec [of "[]" limit r] limit line by simp_all
  then have "line_of_stream limit r = Inr line" using line by simp
  then have "line \<noteq> []"
    by (auto simp: line_of_stream_def cut_line_def split: if_splits stream_end.splits)
  with spec show ?thesis by simp
qed

lemma serve_frames_ends:
  "length (rd_bytes r) < n \<Longrightarrow>
     \<exists>s' r'. serve_frames decode max_bytes n r conn se s = (s', (r', None)) \<and>
       (\<forall>m. serve_frames decode max_bytes (n + m) r conn se s = (s', (r', None)))"
proof (induction n arbitrary: r conn s)
  case (Suc n)
  obtain r1 x where frame: "read_envelope_frame decode max_bytes r = (r1, x)"
    by (cases "read_envelope_frame decode max_bytes r")
  show ?case
  proof (cases x)
    case (Inl e)
    then show ?thesis by (auto simp: frame sbind_def sret_def split: prod.splits)
  next
    case (Inr v)
    from frame_consumes [of decode max_bytes r r1 v] frame Inr Suc.prems
    have shorter: "length (rd_bytes r1) < n" by simp
    obtain s1 c where run: "serve_envelope v conn se s = (s1, c)" by (cases "serve_envelope v conn se s")
    show ?thesis
    proof (cases c)
      case None
      then show ?thesis using run by (simp add: frame Inr sbind_def sret_def)
    next
      case (Some conn1)
      from Suc.IH [OF shorter, of conn1 s1] Some run show ?thesis
        by (simp add: frame Inr sbind_def)
    qed
  qed
qed simp

end
