(* ===== verification/ServerProperties.thy ===== *)
theory ServerProperties
  imports Connections BrokerProperties
begin

text \<open>
  The properties of the server: an exec exchange as the client sees it, untrusted clients, the frames
  of a connection and its end, and what a stopped or retiring server does.
\<close>

section \<open>Sample connections\<close>

definition sample_payload :: raw_payload where
  "sample_payload = \<lparr>rp_exec = Inr sample_exec, rp_item = Inl malformed, rp_session_create = Inl malformed,
     rp_session_resolve = Inl malformed, rp_session_destroy = Inl malformed, rp_decision = Inl malformed,
     rp_account = Inl malformed, rp_child_pid = Inl malformed, rp_completed = Inl malformed\<rparr>"

definition sample_envelope :: envelope where
  "sample_envelope = \<lparr>nv_version = 1, nv_type = TypeRequestExec, nv_request_id = ''req_1'',
     nv_nonce = ''nonce_1'', nv_payload = Some sample_payload\<rparr>"

definition sample_server_env :: server_env where
  "sample_server_env = \<lparr>se_broker = sample_env approve_twice, se_approvals = None,
     se_peer = (\<lambda>_. Inr sample_peer), se_client = (\<lambda>_ _. None), se_account_check = (\<lambda>_ _. None),
     se_self_check = None, se_write = (\<lambda>_. None), se_deadline = (\<lambda>_. None), se_now = (\<lambda>n. 2000 + int n),
     se_read_timeout = 30\<rparr>"


definition fresh_server :: server where
  "fresh_server = \<lparr>sr_world = new_world, sr_retire = False, sr_stopped = False, sr_out = []\<rparr>"

text \<open>A wire on which \<open>x\<close> stands for the sample envelope.\<close>

definition sample_decode :: "string \<Rightarrow> err + envelope" where
  "sample_decode t = (if t = ''x'' then Inr sample_envelope else Inl malformed)"

definition sample_reader :: reader where
  "sample_reader = \<lparr>rd_bytes = ''x'' @ [newline] @ ''x'' @ [newline], rd_end = StreamEof\<rparr>"

section \<open>The exec exchange\<close>

text \<open>
C6: An exec exchange over a connection has one of two outcomes. Either no payload is written and
every use of an approval is where it was; or the client is one that the daemon trusts, the request
it sent was stamped and validated, the start of the command was audited, and exactly one payload was
written, as the last response, under the correlation of the envelope.
\<close>
theorem exec_exchange:
  assumes "broker_step\<^sup>*\<^sup>* new_world (sr_world s)" "serve_request_exec v se s = (s', i)"
  shows "if i = '''' then free_uses (meter (sr_world s)) (sr_world s') \<and> quiet (sr_out s) (sr_out s')
    else i = nv_request_id v \<and> client_trusted se \<and>
      (\<exists>q env aliases l.
         validate_exec (en_fs (se_broker se)) q = None \<and>
         (\<exists>q0 now. decode_required rp_exec v = Inr q0 \<and> q = exec_with_receipt_time q0 now) \<and>
         sr_out s' = Replied (envelope_correlation v) (ReplyExec env aliases) # l \<and>
         quiet (sr_out s) l \<and>
         Audited (from_exec_request EventCommandStarting (nv_request_id v) q) \<in> set (w_trace (sr_world s')))"
  using exec_exchange_served [OF reachable_store_ok [OF assms(1)] assms(2)]
  by (fastforce simp: exec_served_def traced_command_def command_audited_def list_ex_iff envelope_correlation_def)

definition exec_exchange_run :: "server \<times> string" where
  "exec_exchange_run = serve_request_exec sample_envelope sample_server_env fresh_server"

lemma exec_exchange_delivers: "snd exec_exchange_run = ''req_1''"
  by code_simp

theorem exec_exchange_witness:
  "\<exists>env aliases l. sr_out (fst exec_exchange_run) =
     Replied sample_correlation (ReplyExec env aliases) # l"
proof -
  have "serve_request_exec sample_envelope sample_server_env fresh_server = (fst exec_exchange_run, ''req_1'')"
    using exec_exchange_delivers by (metis exec_exchange_run_def prod.collapse)
  from exec_exchange [OF _ this] show ?thesis
    by (auto simp: fresh_server_def sample_envelope_def envelope_correlation_def sample_correlation_def)
qed

section \<open>Untrusted clients\<close>



section \<open>Frames\<close>

fun read_frames ::
  "(string \<Rightarrow> err + envelope) \<Rightarrow> int \<Rightarrow> nat \<Rightarrow> reader \<Rightarrow> reader \<times> envelope list" where
  "read_frames decode max_bytes 0 r = (r, [])"
| "read_frames decode max_bytes (Suc n) r =
     (case read_envelope_frame decode max_bytes r of
        (r', Inl e) \<Rightarrow> (r', [])
      | (r', Inr v) \<Rightarrow> apsnd (Cons v) (read_frames decode max_bytes n r'))"

definition frame_limit :: "int \<Rightarrow> int" where
  "frame_limit max_bytes = (if max_bytes \<le> 0 then default_max_frame_bytes else max_bytes)"

lemma frame_limit_pos: "0 < frame_limit max_bytes"
  by (simp add: frame_limit_def default_max_frame_bytes_def)

lemma read_one_frame:
  assumes "newline \<notin> set t" "int (length t) < frame_limit max_bytes"
    and "trim_space (t @ [newline]) \<noteq> []" "decode (trim_space (t @ [newline])) = Inr v"
  shows "read_envelope_frame decode max_bytes (r\<lparr>rd_bytes := t @ [newline] @ rest\<rparr>) =
    (r\<lparr>rd_bytes := rest\<rparr>, Inr v)"
proof -
  let ?r = "r\<lparr>rd_bytes := t @ newline # rest\<rparr>" and ?limit = "frame_limit max_bytes"
  have cut: "cut_line (rd_bytes ?r) = Some (t @ [newline], rest)"
    using assms(1) by (simp add: cut_line_def takeWhile_append_free dropWhile_append_free)
  have lim: "int (length ([]::string)) \<le> ?limit" using frame_limit_pos [of max_bytes] by simp
  note spec = read_line_spec [of "[]" ?limit ?r, OF _ lim, simplified]
  have line: "snd (read_line ?limit [] ?r) = Inr (t @ [newline])"
    using spec [THEN conjunct1] cut assms(2) by (simp add: line_of_stream_def)
  moreover have "rd_bytes (fst (read_line ?limit [] ?r)) = rest"
    using spec [THEN conjunct2, rule_format, OF line] by simp
  moreover have "rd_end (fst (read_line l acc q)) = rd_end q" for l acc q
    by (induction l acc q rule: read_line.induct, subst read_line.simps)
      (auto simp: read_slice_def Let_def split: if_splits stream_end.splits)
  ultimately have "read_line ?limit [] ?r = (r\<lparr>rd_bytes := rest\<rparr>, Inr (t @ [newline]))"
    by (intro prod_eqI reader.equality) simp_all
  then show ?thesis
    using assms(3,4) by (simp add: read_envelope_frame_def frame_limit_def [symmetric] Let_def)
qed

text \<open>
C30: Frames round trip: what a peer wrote as one line per envelope, each shorter than the limit, is
read back as exactly those envelopes, in order, and the bytes after them are left for the next read,
although the reader only sees them through a buffer of 4096 bytes.
\<close>
theorem frames_roundtrip:
  assumes "\<And>v. v \<in> set vs \<Longrightarrow> newline \<notin> set (enc v) \<and> int (length (enc v)) < frame_limit max_bytes \<and>
      trim_space (enc v @ [newline]) \<noteq> [] \<and> decode (trim_space (enc v @ [newline])) = Inr v"
  shows "read_frames decode max_bytes (length vs)
      (r\<lparr>rd_bytes := concat (map (\<lambda>v. enc v @ [newline]) vs) @ rest\<rparr>) = (r\<lparr>rd_bytes := rest\<rparr>, vs)"
  using assms
proof (induction vs)
  case (Cons v vs)
  have "read_envelope_frame decode max_bytes
      (r\<lparr>rd_bytes := enc v @ [newline] @ (concat (map (\<lambda>v. enc v @ [newline]) vs) @ rest)\<rparr>) =
    (r\<lparr>rd_bytes := concat (map (\<lambda>v. enc v @ [newline]) vs) @ rest\<rparr>, Inr v)"
    by (rule read_one_frame) (use Cons.prems in auto)
  with Cons show ?case by simp
qed simp

theorem frames_roundtrip_witness:
  "read_frames sample_decode 0 2 sample_reader = (sample_reader\<lparr>rd_bytes := []\<rparr>, [sample_envelope, sample_envelope])"
proof -
  have ok: "newline \<notin> set ''x'' \<and> int (length ''x'') < frame_limit 0 \<and> trim_space (''x'' @ [newline]) \<noteq> [] \<and>
      sample_decode (trim_space (''x'' @ [newline])) = Inr sample_envelope"
  proof -
    have "trim_space (''x'' @ [newline]) = ''x''" by code_simp
    then show ?thesis by (simp add: sample_decode_def frame_limit_def default_max_frame_bytes_def)
  qed
  show ?thesis
    using frames_roundtrip [where vs = "[sample_envelope, sample_envelope]" and enc = "\<lambda>_. ''x''"
        and max_bytes = 0 and decode = sample_decode and r = sample_reader and rest = "[]"] ok
    by (simp add: sample_reader_def numeral_2_eq_2)
qed

lemma takeWhile_shorter: "c \<in> set xs \<Longrightarrow> length (takeWhile (\<lambda>x. x \<noteq> c) xs) < length xs"
  by (induction xs) auto

lemma read_slice_consumes:
  "read_slice r = (chunk, e, r') \<Longrightarrow> rd_bytes r = chunk @ rd_bytes r' \<and> length chunk \<le> buffer_size"
proof (cases rule: read_slice_cases [of r])
  case (1 l rest)
  assume run: "read_slice r = (chunk, e, r')"
  have "length l \<le> buffer_size" if "newline \<in> set (take buffer_size (rd_bytes r))"
  proof -
    have "l = takeWhile (\<lambda>c. c \<noteq> newline) (take buffer_size (rd_bytes r)) @ [newline]"
      using 1(2) that by (simp add: read_slice_def Let_def)
    moreover have "length (takeWhile (\<lambda>c. c \<noteq> newline) (take buffer_size (rd_bytes r))) <
        length (take buffer_size (rd_bytes r))"
      by (rule takeWhile_shorter [OF that])
    ultimately show ?thesis by simp
  qed
  moreover have "newline \<in> set (take buffer_size (rd_bytes r))"
    using 1(2) by (auto simp: read_slice_def Let_def split: if_splits stream_end.splits)
  ultimately show ?thesis using 1 run cut_line_eq [OF 1(1)] by auto
next
  case 2
  assume run: "read_slice r = (chunk, e, r')"
  then show ?thesis using 2 by auto
next
  case 3
  assume run: "read_slice r = (chunk, e, r')"
  then show ?thesis using 3
    by (auto simp: read_slice_def Let_def split: if_splits stream_end.splits)
qed

lemma read_line_consumes:
  assumes "int (length acc) \<le> limit"
  shows "\<exists>c. rd_bytes r = c @ rd_bytes (fst (read_line limit acc r)) \<and>
    int (length acc + length c) \<le> limit + int buffer_size \<and>
    (\<forall>l. snd (read_line limit acc r) = Inr l \<longrightarrow> l = acc @ c \<and> int (length l) \<le> limit)"
  using assms
proof (induction limit acc r rule: read_line.induct)
  case (1 limit acc r)
  obtain chunk e r' where run: "read_slice r = (chunk, e, r')" by (cases "read_slice r")
  note part = read_slice_consumes [OF run]
  show ?case
  proof (cases "chunk \<noteq> [] \<and> limit < int (length acc) + int (length chunk)")
    case True
    then have "read_line limit acc r = (r', Inl frame_too_large)"
      by (subst read_line.simps) (simp add: run)
    then show ?thesis using part "1.prems" by (intro exI [of _ chunk]) auto
  next
    case False
    show ?thesis
    proof (cases e)
      case BufferFull
      have "int (length (acc @ chunk)) \<le> limit" using False "1.prems" by auto
      from "1.IH" [OF run [symmetric] refl False refl BufferFull this] obtain c where
        "rd_bytes r' = c @ rd_bytes (fst (read_line limit (acc @ chunk) r'))"
        "int (length (acc @ chunk) + length c) \<le> limit + int buffer_size"
        "\<forall>l. snd (read_line limit (acc @ chunk) r') = Inr l \<longrightarrow> l = (acc @ chunk) @ c \<and> int (length l) \<le> limit"
        by blast
      moreover have "read_line limit acc r = read_line limit (acc @ chunk) r'"
        by (subst read_line.simps) (use False in \<open>auto simp: run Let_def BufferFull\<close>)
      ultimately show ?thesis using part by (intro exI [of _ "chunk @ c"]) auto
    next
      case Delimiter
      then have "read_line limit acc r = (r', Inr (acc @ chunk))"
        using False by (subst read_line.simps) (simp add: run Let_def)
      then show ?thesis using part False "1.prems" by (intro exI [of _ chunk]) auto
    next
      case SliceEof
      have "\<exists>x. read_line limit acc r = (r', Inl x)"
        by (subst read_line.simps) (use False SliceEof in \<open>auto simp: run Let_def\<close>)
      then show ?thesis using part False "1.prems" by (intro exI [of _ chunk]) auto
    next
      case (SliceError y)
      have "\<exists>x. read_line limit acc r = (r', Inl x)"
        by (subst read_line.simps) (use False SliceError in \<open>auto simp: run Let_def\<close>)
      then show ?thesis using part False "1.prems" by (intro exI [of _ chunk]) auto
    qed
  qed
qed

text \<open>
  Reading a frame takes a bounded number of bytes from the peer: at most the limit and one buffer,
whatever the peer sends and however the read ends; an envelope is the decoding of at most limit many
bytes, and then the buffer adds nothing: the next frame starts right behind it.
\<close>
theorem frame_bounded:
  assumes "read_envelope_frame decode max_bytes r = (r', x)"
  shows "\<exists>c. rd_bytes r = c @ rd_bytes r' \<and>
    int (length c) \<le> frame_limit max_bytes + int buffer_size \<and>
    (\<forall>v. x = Inr v \<longrightarrow> int (length c) \<le> frame_limit max_bytes \<and> decode (trim_space c) = Inr v)"
proof -
  obtain res where line: "read_line (frame_limit max_bytes) [] r = (r', res)"
    using assms by (auto simp: read_envelope_frame_def Let_def frame_limit_def
        split: prod.splits sum.splits if_splits)
  have lim: "int (length ([]::string)) \<le> frame_limit max_bytes" using frame_limit_pos [of max_bytes] by simp
  from read_line_consumes [OF lim, of r] line obtain c where
    "rd_bytes r = c @ rd_bytes r'" "int (length c) \<le> frame_limit max_bytes + int buffer_size"
    and ok: "\<forall>l. res = Inr l \<longrightarrow> l = c \<and> int (length l) \<le> frame_limit max_bytes" by auto
  moreover have "int (length c) \<le> frame_limit max_bytes \<and> decode (trim_space c) = Inr v" if "x = Inr v" for v
    using assms line ok that
    by (auto simp: read_envelope_frame_def Let_def frame_limit_def [symmetric]
        split: sum.splits if_splits)
  ultimately show ?thesis by blast
qed

theorem frame_bounded_witness:
  "\<exists>c. rd_bytes sample_reader = c @ rd_bytes (fst (read_envelope_frame sample_decode 1 sample_reader)) \<and>
    length c \<le> 4097"
  using frame_bounded [where decode = sample_decode and max_bytes = 1 and r = sample_reader,
      OF prod.collapse [symmetric]]
  by (auto simp: frame_limit_def buffer_size_def)

section \<open>Connections end\<close>

text \<open>
C29: Every connection ends: with more rounds than the peer sent bytes, the loop of the server has
closed the connection, and further rounds change nothing. (The bytes of a reader are those that the
peer sends before the stream ends or a read times out.)
\<close>
theorem connection_ends:
  assumes "length (rd_bytes r) < n"
  shows "\<exists>s' r'. \<forall>m. handle_conn peer_check decode max_bytes (n + m) r se s = (s', (r', None))"
proof (cases peer_check)
  case None
  from serve_frames_ends [OF assms, of decode max_bytes "new_connection (se_read_timeout se)" se s]
  show ?thesis by (auto simp: handle_conn_def None)
next
  case (Some e)
  show ?thesis by (auto simp: handle_conn_def Some sbind_def sret_def split: prod.splits)
qed

theorem connection_ends_witness:
  "\<exists>s' r'. handle_conn None sample_decode 0 5 sample_reader sample_server_env fresh_server = (s', (r', None))"
proof -
  have "length (rd_bytes sample_reader) < 5" by (simp add: sample_reader_def)
  from connection_ends [OF this, of None sample_decode 0 sample_server_env fresh_server]
  show ?thesis by (metis add.right_neutral)
qed

text \<open>
  After any number of frames the state of a connection is consistent: a command has started only
under an active request, and unless a command has started the next read has a positive timeout, so
only a connection with a running command may stay silent for ever.
\<close>
theorem connection_state_consistent:
  assumes "0 < se_read_timeout se"
    and "handle_conn peer_check decode max_bytes n r se s = (s', (r', Some conn))"
  shows "(cs_started conn \<longrightarrow> has_active_request conn) \<and> (cs_next conn \<le> 0 \<longrightarrow> cs_started conn)"
proof -
  have "peer_check = None"
    using assms(2) by (auto simp: handle_conn_def sbind_def sret_def split: option.splits prod.splits)
  then have "serve_frames decode max_bytes n r (new_connection (se_read_timeout se)) se s = (s', (r', Some conn))"
    using assms(2) by (simp add: handle_conn_def)
  from serve_frames_connection [OF connection_ok_new this] assms(1)
  show ?thesis by (auto simp: connection_ok_def)
qed

definition one_frame_run :: "server \<times> reader \<times> connection option" where
  "one_frame_run = handle_conn None sample_decode 0 1 sample_reader sample_server_env fresh_server"

lemma sample_frame: "read_envelope_frame sample_decode 0 sample_reader =
    (sample_reader\<lparr>rd_bytes := [CHR ''x'', newline]\<rparr>, Inr sample_envelope)"
proof -
  have "trim_space (''x'' @ [newline]) = ''x''" by code_simp
  then show ?thesis
    using read_one_frame [where t = "''x''" and max_bytes = 0 and decode = sample_decode and v = sample_envelope
        and r = sample_reader and rest = "[CHR ''x'', newline]"]
    by (simp add: sample_decode_def frame_limit_def default_max_frame_bytes_def sample_reader_def)
qed

lemma sample_served: "serve_envelope sample_envelope (new_connection 30) sample_server_env fresh_server =
    (fst exec_exchange_run, Some (begin_exec ''req_1'' (new_connection 30)))"
proof -
  have "serve_request_exec sample_envelope sample_server_env fresh_server = (fst exec_exchange_run, ''req_1'')"
    using exec_exchange_delivers by (metis exec_exchange_run_def prod.collapse)
  then show ?thesis
    by (simp add: serve_envelope_def retire_if_executable_changed_def dispatch_def begin_after_def
        sample_envelope_def sample_server_env_def fresh_server_def sact_defs validate_envelope_def
        protocol_version_def new_connection_def reset_read_timeout_def has_active_request_def
        no_action_def apply_action_def Let_def)
qed

lemma one_frame_active:
  "case snd (snd one_frame_run) of None \<Rightarrow> False | Some conn \<Rightarrow> cs_active conn = ''req_1''"
  by (simp add: one_frame_run_def handle_conn_def sample_frame sbind_def sret_def begin_exec_def
      sample_served [unfolded sample_server_env_def] sample_server_env_def)

theorem connection_state_consistent_witness:
  "\<exists>conn. snd (snd one_frame_run) = Some conn \<and> cs_active conn = ''req_1'' \<and>
     (cs_next conn \<le> 0 \<longrightarrow> cs_started conn)"
proof -
  obtain conn where conn: "snd (snd one_frame_run) = Some conn" "cs_active conn = ''req_1''"
    using one_frame_active by (auto split: option.splits)
  then have "handle_conn None sample_decode 0 1 sample_reader sample_server_env fresh_server =
      (fst one_frame_run, (fst (snd one_frame_run), Some conn))"
    by (metis one_frame_run_def prod.collapse)
  from connection_state_consistent [OF _ this] conn show ?thesis by (simp add: sample_server_env_def)
qed

section \<open>Stopped and retiring servers\<close>

lemma code_daemon_stopped: "code_for_error (Err (BrokerErr ErrDaemonStopped)) = DaemonStopped"
  by code_simp

text \<open>
  A server that has been stopped refuses every well-formed envelope but a status request: it closes
the connection, tells the client nothing but the error code, and does not reach the broker.
\<close>
theorem stopped_server_refuses:
  assumes "sr_stopped s" "validate_envelope v = None" "nv_type v \<noteq> TypeDaemonStatus"
    and "serve_envelope v conn se s = (s', c)"
  shows "c = None \<and> sr_world s' = (sr_world s)\<lparr>w_tick := Suc (w_tick (sr_world s))\<rparr> \<and>
    sr_out s' \<in> {sr_out s, Refused (envelope_correlation v) DaemonStopped # sr_out s}"
  using assms
  by (auto simp: serve_envelope_def retire_if_executable_changed_def write_error_def write_response_def
      sact_defs code_daemon_stopped split: option.splits)

theorem stopped_server_refuses_witness:
  "snd (serve_envelope sample_envelope (new_connection 30) sample_server_env
     (fresh_server\<lparr>sr_stopped := True\<rparr>)) = None"
  using stopped_server_refuses [OF _ _ _ prod.collapse [symmetric],
      of "fresh_server\<lparr>sr_stopped := True\<rparr>" sample_envelope "new_connection 30" sample_server_env]
  by (simp add: sample_envelope_def validate_envelope_def protocol_version_def)

text \<open>
C34: A connection that is closed because the executable of the daemon changed keeps its active request
in the broker: the request is not reported as disconnected, the daemon is marked as retiring but not
stopped, and since the active commands are not empty it does not become idle by this.
\<close>
theorem retiring_keeps_active_request:
  assumes "\<not> sr_stopped s" "validate_envelope v = None" "checks_executable_identity (nv_type v)"
    and "se_self_check se = Some check" "check (w_tick (sr_world s)) = Some e" "\<not> broker_idle s"
    and "serve_envelope v conn se s = (s', c)"
  shows "c = None \<and> w_active (sr_world s') = w_active (sr_world s) \<and> \<not> broker_idle s' \<and>
    sr_retire s' \<and> \<not> sr_stopped s'"
  using assms
  by (auto simp: serve_envelope_def retire_if_executable_changed_def write_error_def write_response_def
      broker_idle_def sact_defs split: option.splits)

definition busy_server :: server where
  "busy_server = fresh_server\<lparr>sr_world := new_world\<lparr>w_active :=
     [''req_1'' \<mapsto> \<lparr>ae_nonce = ''nonce_1'', ae_request = sample_request, ae_started = True, ae_child_pid = Some 7\<rparr>]\<rparr>\<rparr>"

theorem retiring_keeps_active_request_witness:
  "\<not> broker_idle (fst (serve_envelope (sample_envelope\<lparr>nv_type := TypeDaemonStatus\<rparr>)
     ((new_connection 30)\<lparr>cs_active := ''req_1''\<rparr>)
     (sample_server_env\<lparr>se_self_check := Some (\<lambda>_. Some (Err (ExecErr ErrExecutableChanged)))\<rparr>) busy_server))"
  using retiring_keeps_active_request [OF _ _ _ _ _ _ prod.collapse [symmetric],
      of busy_server "sample_envelope\<lparr>nv_type := TypeDaemonStatus\<rparr>"
      "sample_server_env\<lparr>se_self_check := Some (\<lambda>_. Some (Err (ExecErr ErrExecutableChanged)))\<rparr>"
      "\<lambda>_. Some (Err (ExecErr ErrExecutableChanged))" "Err (ExecErr ErrExecutableChanged)"
      "(new_connection 30)\<lparr>cs_active := ''req_1''\<rparr>"]
  by (simp add: busy_server_def fresh_server_def sample_envelope_def validate_envelope_def
      protocol_version_def checks_executable_identity_def broker_idle_def)

end
