(* ===== verification/ProfileConfig.thy ===== *)
theory ProfileConfig
  imports SessionRequest "HOL-Library.AList"
begin

text \<open>
  Project profiles: \<open>internal/profileconfig/profileconfig.go\<close>. A configuration file names profiles
  of secrets that include each other. The YAML library decodes the document and scalars; the
  program's own unmarshalling of secrets and bindings runs over the nodes it hands out. A Go map is
  an association list in the order of its iteration, with distinct keys.
\<close>

section \<open>Data\<close>

definition max_config_file_bytes :: int where "max_config_file_bytes = 2 ^ 20"
definition max_profile_include_depth :: nat where "max_profile_include_depth = 32"
definition max_profile_include_count :: int where "max_profile_include_count = 128"

lemmas profile_limits = max_config_file_bytes_def max_profile_include_depth_def
  max_profile_include_count_def

record load_options =
  lo_name :: string
  lo_config :: string
  lo_start :: string

text \<open>A node of the YAML library; the value of a key that is not a scalar is empty.\<close>

datatype yaml_node =
    YamlScalar string
  | YamlMapping "(string \<times> yaml_node) list"
  | YamlSequence "yaml_node list"
  | YamlDocument "yaml_node list"
  | YamlAlias yaml_node

record yaml_decoders =
  yd_string :: "yaml_node \<Rightarrow> err + string"
  yd_int :: "yaml_node \<Rightarrow> err + int"
  yd_strings :: "yaml_node \<Rightarrow> err + string list"

record secret_yaml =
  sy_ref :: string
  sy_account :: string
  sy_source :: string

type_synonym bind_yaml = "binding_policy option"

record bitwarden_source_yaml =
  by_kind :: string
  by_token_alias :: string
  by_api_url :: string
  by_identity_url :: string

record profile_yaml =
  py_account :: string
  py_include :: "string list"
  py_reason :: string
  py_bind :: bind_yaml
  py_secrets :: "(string \<times> secret_yaml) list"
  py_ttl :: string

record config_file =
  cf_version :: int
  cf_account :: string
  cf_default :: string
  cf_bitwarden :: "(string \<times> bitwarden_source_yaml) list"
  cf_profiles :: "(string \<times> profile_yaml) list"

text \<open>\<open>Sources\<close>: the configured Bitwarden sources by alias.\<close>

type_synonym sources = "(string \<times> bitwarden_source) list"

record resolved_secret =
  rs_account :: string
  rs_ref :: string
  rs_source :: string
  rs_bitwarden :: bitwarden_source

record resolved_profile =
  pf_account :: string
  pf_reason :: string
  pf_secrets :: "(string \<times> resolved_secret) list"
  pf_ttl :: duration
  pf_binding :: "binding_policy option"

record profile =
  pr_name :: string
  pr_path :: string
  pr_account :: string
  pr_sources :: sources
  pr_reason :: string
  pr_secrets :: "secret_spec list"
  pr_ttl :: duration
  pr_binding :: "binding_policy option"

record config_metadata =
  cm_path :: string
  cm_account :: string
  cm_sources :: sources

record profile_info =
  pi_name :: string
  pi_default :: bool
  pi_account :: string
  pi_reason :: string
  pi_ttl :: string
  pi_include :: "string list"
  pi_session :: "binding_policy option"
  pi_secrets :: "secret_spec list"

record config_info =
  ci_path :: string
  ci_version :: int
  ci_account :: string
  ci_default :: string
  ci_sources :: sources
  ci_profiles :: "profile_info list"

abbreviation invalid_config :: err where
  "invalid_config \<equiv> Err (ConfigErr ErrInvalidConfig)"

section \<open>Unmarshalling\<close>

text \<open>A secret is a reference, or a mapping of the three fields, read in the order of the file.\<close>

fun secret_fields ::
  "yaml_decoders \<Rightarrow> (string \<times> yaml_node) list \<Rightarrow> secret_yaml \<Rightarrow> err + secret_yaml" where
  "secret_fields yd [] s = Inr s"
| "secret_fields yd ((key, item) # kvs) s =
     (if key = ''ref'' then
        (case yd_string yd item of Inl e \<Rightarrow> Inl e | Inr v \<Rightarrow> secret_fields yd kvs (s\<lparr>sy_ref := v\<rparr>))
      else if key = ''account'' then
        (case yd_string yd item of Inl e \<Rightarrow> Inl e | Inr v \<Rightarrow> secret_fields yd kvs (s\<lparr>sy_account := v\<rparr>))
      else if key = ''source'' then
        (case yd_string yd item of Inl e \<Rightarrow> Inl e | Inr v \<Rightarrow> secret_fields yd kvs (s\<lparr>sy_source := v\<rparr>))
      else Inl (Text ''unknown secret field''))"

definition unmarshal_secret :: "yaml_decoders \<Rightarrow> yaml_node \<Rightarrow> err + secret_yaml" where
  "unmarshal_secret yd value =
     (let zero = \<lparr>sy_ref = '''', sy_account = '''', sy_source = ''''\<rparr> in
      case value of
        YamlScalar s \<Rightarrow>
          (case yd_string yd value of Inl e \<Rightarrow> Inl e | Inr ref \<Rightarrow> Inr (zero\<lparr>sy_ref := ref\<rparr>))
      | YamlMapping kvs \<Rightarrow> secret_fields yd kvs zero
      | _ \<Rightarrow> Inl (Text ''secret must be a ref string or mapping''))"

abbreviation bad_bind :: err where
  "bad_bind \<equiv> Text ''session bind must be auto, parent, or a mapping''"

definition bind_from_scalar :: "string \<Rightarrow> err + binding_policy" where
  "bind_from_scalar raw =
     (let t = trim_space raw in
      if t = ''auto'' then Inr default_binding_policy
      else if t = ''parent'' then new_ancestor_binding 1
      else Inl bad_bind)"

text \<open>The three fields that a binding mapping may set, each with whether it was set.\<close>

record bind_fields =
  bf_depth :: "int option"
  bf_name :: "string option"
  bf_names :: "string list option"

fun read_bind_fields ::
  "yaml_decoders \<Rightarrow> (string \<times> yaml_node) list \<Rightarrow> bind_fields \<Rightarrow> err + bind_fields" where
  "read_bind_fields yd [] b = Inr b"
| "read_bind_fields yd ((key, item) # kvs) b =
     (if key = ''ancestor'' then
        (case yd_int yd item of Inl e \<Rightarrow> Inl e | Inr v \<Rightarrow> read_bind_fields yd kvs (b\<lparr>bf_depth := Some v\<rparr>))
      else if key = ''ancestor_name'' then
        (case yd_string yd item of Inl e \<Rightarrow> Inl e | Inr v \<Rightarrow> read_bind_fields yd kvs (b\<lparr>bf_name := Some v\<rparr>))
      else if key = ''ancestor_names'' then
        (case yd_strings yd item of Inl e \<Rightarrow> Inl e | Inr v \<Rightarrow> read_bind_fields yd kvs (b\<lparr>bf_names := Some v\<rparr>))
      else Inl (Text ''unknown session bind field''))"

definition bind_from_fields :: "bind_fields \<Rightarrow> err + binding_policy" where
  "bind_from_fields b =
     (case (bf_depth b, bf_name b, bf_names b) of
        (Some d, None, None) \<Rightarrow> new_ancestor_binding d
      | (None, Some n, None) \<Rightarrow> new_ancestor_name_binding n
      | (None, None, Some ns) \<Rightarrow> new_ancestor_names_binding ns
      | _ \<Rightarrow> Inl (Text ''session bind mapping must set exactly one field''))"

definition unmarshal_bind :: "yaml_decoders \<Rightarrow> yaml_node \<Rightarrow> err + binding_policy" where
  "unmarshal_bind yd value =
     (case value of
        YamlScalar s \<Rightarrow> (case yd_string yd value of Inl e \<Rightarrow> Inl e | Inr raw \<Rightarrow> bind_from_scalar raw)
      | YamlMapping kvs \<Rightarrow>
          (case read_bind_fields yd kvs \<lparr>bf_depth = None, bf_name = None, bf_names = None\<rparr> of
             Inl e \<Rightarrow> Inl e
           | Inr b \<Rightarrow> bind_from_fields b)
      | _ \<Rightarrow> Inl bad_bind)"

section \<open>Sources\<close>

definition effective_account :: "string \<Rightarrow> string \<Rightarrow> string" where
  "effective_account fallback override =
     (if trim_space override \<noteq> '''' then trim_space override else trim_space fallback)"

definition trimmed_list :: "string list \<Rightarrow> string list" where
  "trimmed_list values = filter (\<lambda>v. v \<noteq> '''') (map trim_space values)"

definition bitwarden_kind :: string where
  "bitwarden_kind = ''bitwarden-secrets-manager''"

definition normalize_bitwarden_source ::
  "string \<Rightarrow> bitwarden_source_yaml \<Rightarrow> err + bitwarden_source" where
  "normalize_bitwarden_source raw_alias spec =
     (case normalize_source_alias raw_alias of
        Inl e \<Rightarrow> Inl e
      | Inr a \<Rightarrow>
          (let kind0 = trim_space (by_kind spec);
               kind = (if kind0 = '''' then bitwarden_kind else kind0)
           in if kind \<noteq> bitwarden_kind then Inl (Text ''bitwarden source kind'')
              else
                (let token0 = trim_space (by_token_alias spec);
                     token = (if token0 = '''' then a else token0)
                 in case normalize_source_alias token of
                      Inl e \<Rightarrow> Inl e
                    | Inr token' \<Rightarrow>
                        if trim_space (by_api_url spec) \<noteq> '''' \<or> trim_space (by_identity_url spec) \<noteq> ''''
                        then Inl (Text ''bitwarden source custom endpoints'')
                        else Inr (bitwarden_zero\<lparr>bw_alias := a, bw_token_alias := token'\<rparr>))))"

fun normalize_sources_into ::
  "sources \<Rightarrow> (string \<times> bitwarden_source_yaml) list \<Rightarrow> err + sources" where
  "normalize_sources_into out [] = Inr out"
| "normalize_sources_into out ((raw_alias, spec) # raw) =
     (case normalize_bitwarden_source raw_alias spec of
        Inl e \<Rightarrow> Inl e
      | Inr source \<Rightarrow> normalize_sources_into (AList.update (bw_alias source) source out) raw)"

definition normalize_sources :: "(string \<times> bitwarden_source_yaml) list \<Rightarrow> err + sources" where
  "normalize_sources raw = normalize_sources_into [] raw"

definition single_bitwarden_source :: "sources \<Rightarrow> bitwarden_source option" where
  "single_bitwarden_source ss = (case ss of [(a, s)] \<Rightarrow> Some s | _ \<Rightarrow> None)"

text \<open>The source of a secret: its normalised alias and what is configured for it.\<close>

definition resolve_secret_source ::
  "secret_yaml \<Rightarrow> sources \<Rightarrow> err + string \<times> bitwarden_source" where
  "resolve_secret_source spec ss =
     (let source0 = trim_space (sy_source spec) in
      case parse_reference (sy_ref spec) of
        Inl e \<Rightarrow>
          (if is_bitwarden (sy_ref spec) then Inl (Wrap (ConfigErr ErrInvalidConfig) e)
           else if source0 \<noteq> '''' then Inl invalid_config
           else Inr ('''', bitwarden_zero))
      | Inr parsed \<Rightarrow>
          if sref_provider parsed \<noteq> provider_bitwarden then
            (if source0 \<noteq> '''' then Inl invalid_config else Inr ('''', bitwarden_zero))
          else if sref_source parsed \<noteq> '''' \<and> source0 \<noteq> '''' \<and> source0 \<noteq> sref_source parsed
          then Inl invalid_config
          else
            (let source1 = (if sref_source parsed \<noteq> '''' then sref_source parsed else source0) in
             if source1 = '''' \<and> single_bitwarden_source ss = None \<and> 1 < length ss then Inl invalid_config
             else
               (let source = (if source1 = '''' then
                    (case single_bitwarden_source ss of Some s \<Rightarrow> bw_alias s | None \<Rightarrow> '''')
                  else source1)
                in if source = '''' then Inr ('''', bitwarden_zero)
                   else case normalize_source_alias source of
                     Inl e \<Rightarrow> Inl (Wrap (ConfigErr ErrInvalidConfig) e)
                   | Inr n \<Rightarrow>
                       (case map_of ss n of
                          Some configured \<Rightarrow> Inr (n, configured)
                        | None \<Rightarrow>
                            if ss \<noteq> [] then Inl invalid_config
                            else Inr (n, bitwarden_zero\<lparr>bw_alias := n, bw_token_alias := n\<rparr>)))))"

section \<open>Merging\<close>

fun merge_secrets ::
  "(string \<times> resolved_secret) list \<Rightarrow> (string \<times> secret_yaml) list \<Rightarrow> string \<Rightarrow> sources \<Rightarrow>
   err + (string \<times> resolved_secret) list" where
  "merge_secrets secrets [] account ss = Inr secrets"
| "merge_secrets secrets ((a, spec) # raw) account ss =
     (if sy_ref spec = '''' then Inl invalid_config
      else case resolve_secret_source spec ss of
        Inl e \<Rightarrow> Inl e
      | Inr (source, bitwarden) \<Rightarrow>
          merge_secrets
            (AList.update a \<lparr>rs_account = effective_account account (sy_account spec),
               rs_ref = sy_ref spec, rs_source = source, rs_bitwarden = bitwarden\<rparr> secrets)
            raw account ss)"

text \<open>\<open>maps.Copy(result.secrets, included.secrets)\<close> and the fields that an include sets.\<close>

definition copy_secrets ::
  "(string \<times> resolved_secret) list \<Rightarrow> (string \<times> resolved_secret) list \<Rightarrow>
   (string \<times> resolved_secret) list" where
  "copy_secrets dst src = fold (\<lambda>(a, s) m. AList.update a s m) src dst"

definition include_profile :: "resolved_profile \<Rightarrow> resolved_profile \<Rightarrow> resolved_profile" where
  "include_profile result included =
     result\<lparr>pf_secrets := copy_secrets (pf_secrets result) (pf_secrets included),
        pf_reason := (if pf_reason included \<noteq> '''' then pf_reason included else pf_reason result),
        pf_ttl := (if pf_ttl included \<noteq> 0 then pf_ttl included else pf_ttl result),
        pf_binding := (case pf_binding included of None \<Rightarrow> pf_binding result | Some b \<Rightarrow> Some b)\<rparr>"

text \<open>\<open>time.ParseDuration\<close> is an argument.\<close>

definition parse_ttl :: "(string \<Rightarrow> err + duration) \<Rightarrow> string \<Rightarrow> err + duration" where
  "parse_ttl parse raw =
     (if raw = '''' then Inr 0
      else case parse raw of Inl e \<Rightarrow> Inl (Wrap (ConfigErr ErrInvalidConfig) e) | Inr t \<Rightarrow> Inr t)"

text \<open>What a profile adds to its includes: the part of \<open>resolve\<close> after the loop.\<close>

definition own_profile ::
  "(string \<Rightarrow> err + duration) \<Rightarrow> sources \<Rightarrow> profile_yaml \<Rightarrow> resolved_profile \<Rightarrow> err + resolved_profile" where
  "own_profile parse ss raw result =
     (case parse_ttl parse (py_ttl raw) of
        Inl e \<Rightarrow> Inl e
      | Inr ttl \<Rightarrow>
          (let r = result\<lparr>
               pf_reason := (if py_reason raw \<noteq> '''' then py_reason raw else pf_reason result),
               pf_ttl := (if ttl \<noteq> 0 then ttl else pf_ttl result),
               pf_binding := (case py_bind raw of None \<Rightarrow> pf_binding result | Some b \<Rightarrow> Some b)\<rparr>
           in case merge_secrets (pf_secrets r) (py_secrets raw) (pf_account r) ss of
                Inl e \<Rightarrow> Inl e
              | Inr secrets \<Rightarrow>
                  if secrets = [] then Inl invalid_config else Inr (r\<lparr>pf_secrets := secrets\<rparr>)))"

section \<open>Resolving\<close>

record profile_env =
  pe_doc :: config_file
  pe_sources :: sources
  pe_parse :: "string \<Rightarrow> err + duration"

record resolver =
  rv_memo :: "string \<rightharpoonup> resolved_profile"
  rv_count :: int

definition new_resolver :: resolver where
  "new_resolver = \<lparr>rv_memo = Map.empty, rv_count = 0\<rparr>"

text \<open>The loop over the includes of a profile; \<open>f\<close> resolves one of them.\<close>

fun include_loop ::
  "(string \<Rightarrow> resolver \<Rightarrow> resolver \<times> (err + resolved_profile)) \<Rightarrow> string list \<Rightarrow>
   resolved_profile \<Rightarrow> resolver \<Rightarrow> resolver \<times> (err + resolved_profile)" where
  "include_loop f [] result st = (st, Inr result)"
| "include_loop f (raw # names) result st =
     (let name = trim_space raw in
      if name = '''' then (st, Inl invalid_config)
      else
        (let st1 = st\<lparr>rv_count := rv_count st + 1\<rparr> in
         if max_profile_include_count < rv_count st1 then (st1, Inl invalid_config)
         else case f name st1 of
           (st2, Inl e) \<Rightarrow> (st2, Inl e)
         | (st2, Inr included) \<Rightarrow> include_loop f names (include_profile result included) st2))"

lemma include_loop_cong [fundef_cong]:
  "names = names' \<Longrightarrow> result = result' \<Longrightarrow> st = st' \<Longrightarrow> (\<And>x s. f x s = g x s) \<Longrightarrow>
     include_loop f names result st = include_loop g names' result' st'"
  by (metis ext)

definition empty_profile :: "profile_env \<Rightarrow> profile_yaml \<Rightarrow> resolved_profile" where
  "empty_profile e raw = \<lparr>pf_account = effective_account (cf_account (pe_doc e)) (py_account raw),
     pf_reason = '''', pf_secrets = [], pf_ttl = 0, pf_binding = None\<rparr>"

function resolve_profile ::
  "profile_env \<Rightarrow> string list \<Rightarrow> string \<Rightarrow> resolver \<Rightarrow> resolver \<times> (err + resolved_profile)" where
  "resolve_profile e stack name st =
     (case rv_memo st name of
        Some p \<Rightarrow> (st, Inr p)
      | None \<Rightarrow>
          if max_profile_include_depth \<le> length stack then (st, Inl invalid_config)
          else case map_of (cf_profiles (pe_doc e)) name of
            None \<Rightarrow> (st, Inl (Err (ConfigErr ErrProfileNotFound)))
          | Some raw \<Rightarrow>
              if name \<in> set stack then (st, Inl invalid_config)
              else case include_loop (\<lambda>n s. resolve_profile e (stack @ [name]) n s) (py_include raw)
                       (empty_profile e raw) st of
                (st1, Inl x) \<Rightarrow> (st1, Inl x)
              | (st1, Inr result) \<Rightarrow>
                  (case own_profile (pe_parse e) (pe_sources e) raw result of
                     Inl x \<Rightarrow> (st1, Inl x)
                   | Inr p \<Rightarrow> (st1\<lparr>rv_memo := (rv_memo st1)(name \<mapsto> p)\<rparr>, Inr p)))"
  by pat_completeness auto
termination
  by (relation "measure (\<lambda>(e, stack, name, st). max_profile_include_depth - length stack)") auto

declare resolve_profile.simps [simp del]

definition spec_of_resolved :: "string \<times> resolved_secret \<Rightarrow> secret_spec" where
  "spec_of_resolved x = (case x of (a, s) \<Rightarrow> \<lparr>sp_alias = a, sp_ref = rs_ref s,
     sp_account = rs_account s, sp_source = rs_source s, sp_bitwarden = rs_bitwarden s\<rparr>)"

definition sorted_secrets :: "(string \<times> resolved_secret) list \<Rightarrow> err + secret_spec list" where
  "sorted_secrets raw =
     (if raw = [] then Inl invalid_config
      else Inr (map (\<lambda>a. spec_of_resolved (a, the (map_of raw a))) (sort (map fst raw))))"

section \<open>Finding and reading the file\<close>

text \<open>\<open>os.Open\<close> with what \<open>Stat\<close> and \<open>ReadAll\<close> on the open file give.\<close>

record open_file =
  of_stat :: "err + file_info"
  of_read :: "err + string"

record config_env =
  ce_fs :: file_system
  ce_getwd :: "err + string"
  ce_not_exist :: "err \<Rightarrow> bool"
  ce_open :: "string \<Rightarrow> err + open_file"
  ce_decode :: "string \<Rightarrow> err + config_file"
  ce_parse_duration :: "string \<Rightarrow> err + duration"
  ce_duration_text :: "duration \<Rightarrow> string"

text \<open>\<open>FileMode.IsRegular\<close>: none of Go's type bits.\<close>

definition is_regular :: "file_info \<Rightarrow> bool" where
  "is_regular info \<longleftrightarrow> fi_mode info AND 0x8F280000 = 0"

definition find_explicit :: "config_env \<Rightarrow> string \<Rightarrow> err + string" where
  "find_explicit ce config_path =
     (case fs_abs (ce_fs ce) config_path of
        Inl e \<Rightarrow> Inl e
      | Inr path \<Rightarrow>
          (case fs_stat (ce_fs ce) path of
             Inl e \<Rightarrow> if \<not> ce_not_exist ce e then Inl e else Inl (Err (ConfigErr ErrConfigNotFound))
           | Inr info \<Rightarrow> if \<not> is_regular info then Inl invalid_config else Inr path))"

text \<open>The two candidates of one directory; \<open>None\<close> when the search goes on.\<close>

fun find_in_dir :: "config_env \<Rightarrow> string \<Rightarrow> string list \<Rightarrow> (err + string) option" where
  "find_in_dir ce dir [] = None"
| "find_in_dir ce dir (name # names) =
     (let candidate = path_join [dir, name] in
      case fs_stat (ce_fs ce) candidate of
        Inr info \<Rightarrow>
          if is_regular info then Some (Inr candidate)
          else if \<not> fi_is_dir info then Some (Inl invalid_config)
          else find_in_dir ce dir names
      | Inl e \<Rightarrow> if \<not> ce_not_exist ce e then Some (Inl e) else find_in_dir ce dir names)"

function find_upwards :: "config_env \<Rightarrow> string \<Rightarrow> err + string" where
  "find_upwards ce dir =
     (case find_in_dir ce dir [''agent-secret.yml'', ''.agent-secret.yml''] of
        Some r \<Rightarrow> r
      | None \<Rightarrow>
          (let parent = path_dir dir in
           if parent = dir then Inl (Err (ConfigErr ErrConfigNotFound)) else find_upwards ce parent))"
  by pat_completeness auto
termination
  by (relation "measure (\<lambda>(ce, dir). path_weight dir)") (auto simp: path_dir_weight)

declare find_upwards.simps [simp del]

definition find_config :: "config_env \<Rightarrow> string \<Rightarrow> string \<Rightarrow> err + string" where
  "find_config ce config_path start =
     (if config_path \<noteq> '''' then find_explicit ce config_path
      else case (if start = '''' then ce_getwd ce else Inr start) of
        Inl e \<Rightarrow> Inl e
      | Inr dir \<Rightarrow> (case fs_abs (ce_fs ce) dir of Inl e \<Rightarrow> Inl e | Inr d \<Rightarrow> find_upwards ce d))"

definition read_config_file :: "config_env \<Rightarrow> string \<Rightarrow> err + string" where
  "read_config_file ce path =
     (case ce_open ce path of
        Inl e \<Rightarrow> Inl e
      | Inr f \<Rightarrow>
     (case of_stat f of
        Inl e \<Rightarrow> Inl e
      | Inr info \<Rightarrow>
          if \<not> is_regular info then Inl invalid_config
          else if max_config_file_bytes < sint (fi_size info) then Inl invalid_config
          else case of_read f of
            Inl e \<Rightarrow> Inl e
          | Inr content \<Rightarrow>
              (let data = take (nat (max_config_file_bytes + 1)) content in
               if max_config_file_bytes < int (length data) then Inl invalid_config else Inr data)))"

definition load_config_file :: "config_env \<Rightarrow> load_options \<Rightarrow> err + string \<times> config_file" where
  "load_config_file ce opts =
     (case find_config ce (lo_config opts) (lo_start opts) of
        Inl e \<Rightarrow> Inl e
      | Inr path \<Rightarrow>
     (case read_config_file ce path of
        Inl e \<Rightarrow> Inl e
      | Inr data \<Rightarrow>
     (case ce_decode ce data of
        Inl e \<Rightarrow> Inl (Wrap (ConfigErr ErrInvalidConfig) e)
      | Inr doc \<Rightarrow> if cf_version doc \<noteq> 1 then Inl invalid_config else Inr (path, doc))))"

section \<open>Loading and inspecting\<close>

definition load_profile :: "config_env \<Rightarrow> load_options \<Rightarrow> err + profile" where
  "load_profile ce opts =
     (case load_config_file ce opts of
        Inl e \<Rightarrow> Inl e
      | Inr (path, doc) \<Rightarrow>
          if cf_profiles doc = [] then Inl invalid_config
          else case normalize_sources (cf_bitwarden doc) of
            Inl e \<Rightarrow> Inl (Wrap (ConfigErr ErrInvalidConfig) e)
          | Inr ss \<Rightarrow>
              (let name = (if lo_name opts = '''' then cf_default doc else lo_name opts) in
               if name = '''' then Inl (Err (ConfigErr ErrProfileNotFound))
               else case snd (resolve_profile \<lparr>pe_doc = doc, pe_sources = ss, pe_parse = ce_parse_duration ce\<rparr>
                       [] name new_resolver) of
                 Inl e \<Rightarrow> Inl e
               | Inr resolved \<Rightarrow>
                   (case sorted_secrets (pf_secrets resolved) of
                      Inl e \<Rightarrow> Inl e
                    | Inr secrets \<Rightarrow>
                        Inr \<lparr>pr_name = name, pr_path = path, pr_account = pf_account resolved,
                          pr_sources = ss, pr_reason = pf_reason resolved, pr_secrets = secrets,
                          pr_ttl = pf_ttl resolved, pr_binding = pf_binding resolved\<rparr>)))"

definition load_metadata :: "config_env \<Rightarrow> load_options \<Rightarrow> err + config_metadata" where
  "load_metadata ce opts =
     (case load_config_file ce opts of
        Inl e \<Rightarrow> Inl e
      | Inr (path, doc) \<Rightarrow>
          (case normalize_sources (cf_bitwarden doc) of
             Inl e \<Rightarrow> Inl (Wrap (ConfigErr ErrInvalidConfig) e)
           | Inr ss \<Rightarrow> Inr \<lparr>cm_path = path, cm_account = trim_space (cf_account doc), cm_sources = ss\<rparr>))"

text \<open>The loop of \<open>Inspect\<close> over the sorted names, with one resolver for all of them.\<close>

fun inspect_profiles ::
  "profile_env \<Rightarrow> (duration \<Rightarrow> string) \<Rightarrow> string \<Rightarrow> string list \<Rightarrow> resolver \<Rightarrow> err + profile_info list" where
  "inspect_profiles e show_ttl dname [] st = Inr []"
| "inspect_profiles e show_ttl dname (name # names) st =
     (case resolve_profile e [] name st of
        (st1, Inl x) \<Rightarrow> Inl x
      | (st1, Inr resolved) \<Rightarrow>
          (case sorted_secrets (pf_secrets resolved) of
             Inl x \<Rightarrow> Inl x
           | Inr secrets \<Rightarrow>
               (case inspect_profiles e show_ttl dname names st1 of
                  Inl x \<Rightarrow> Inl x
                | Inr infos \<Rightarrow>
                    Inr (\<lparr>pi_name = name, pi_default = (name = dname), pi_account = pf_account resolved,
                      pi_reason = pf_reason resolved,
                      pi_ttl = (if pf_ttl resolved \<noteq> 0 then show_ttl (pf_ttl resolved) else ''''),
                      pi_include = (case map_of (cf_profiles (pe_doc e)) name of
                          None \<Rightarrow> [] | Some raw \<Rightarrow> trimmed_list (py_include raw)),
                      pi_session = pf_binding resolved, pi_secrets = secrets\<rparr> # infos))))"

definition inspect_config :: "config_env \<Rightarrow> load_options \<Rightarrow> err + config_info" where
  "inspect_config ce opts =
     (case load_config_file ce opts of
        Inl e \<Rightarrow> Inl e
      | Inr (path, doc) \<Rightarrow>
     (case normalize_sources (cf_bitwarden doc) of
        Inl e \<Rightarrow> Inl (Wrap (ConfigErr ErrInvalidConfig) e)
      | Inr ss \<Rightarrow>
     (case inspect_profiles \<lparr>pe_doc = doc, pe_sources = ss, pe_parse = ce_parse_duration ce\<rparr>
             (ce_duration_text ce) (trim_space (cf_default doc)) (sort (map fst (cf_profiles doc))) new_resolver of
        Inl e \<Rightarrow> Inl e
      | Inr infos \<Rightarrow>
          Inr \<lparr>ci_path = path, ci_version = cf_version doc, ci_account = trim_space (cf_account doc),
            ci_default = trim_space (cf_default doc), ci_sources = ss, ci_profiles = infos\<rparr>)))"

end
