(* ===== verification/EnvFile.thy ===== *)
theory EnvFile
  imports GoErrors
begin

text \<open>
  Environment files: \<open>internal/envfile/envfile.go\<close>. The bytes of the file and the error that ends
  reading are arguments; lines are cut as \<open>bufio.Scanner\<close> cuts them.
\<close>

section \<open>Data\<close>

record env_entry =
  ent_key :: string
  ent_value :: string
  ent_source :: string
  ent_line :: nat

abbreviation line_error :: err where
  "line_error \<equiv> Err (ConfigErr ErrInvalidEnvFile)"

section \<open>Lines\<close>

text \<open>
  \<open>bufio.ScanLines\<close> drops one carriage return at the end of a line; a line of 65536 bytes or more
  does not fit the scanner's buffer and ends the scan with an error, as does the error of the reader
  after what was read before it.
\<close>

definition max_token :: nat where
  "max_token = 65536"

definition drop_cr :: "string \<Rightarrow> string" where
  "drop_cr l = (if l \<noteq> [] \<and> last l = CHR 0x0D then butlast l else l)"

function scan_lines :: "err option \<Rightarrow> string \<Rightarrow> string list \<times> err option" where
  "scan_lines e s =
     (if s = [] then ([], e)
      else
        (let l = takeWhile (\<lambda>c. c \<noteq> CHR 0x0A) s; rest = dropWhile (\<lambda>c. c \<noteq> CHR 0x0A) s in
         if max_token \<le> length l then ([], Some (Text ''bufio.Scanner: token too long''))
         else if rest = [] then ([drop_cr l], e)
         else apfst (Cons (drop_cr l)) (scan_lines e (tl rest))))"
  by pat_completeness auto
termination
proof (relation "measure (\<lambda>(e, s). length s)", goal_cases)
  case (2 e s l rest)
  have "0 < length s" using 2 by simp
  moreover have "length rest \<le> length s" using 2 by (simp add: length_dropWhile_le)
  ultimately have "length (tl rest) < length s" unfolding length_tl by linarith
  then show ?case by simp
qed simp

declare scan_lines.simps [simp del]

section \<open>Values\<close>

definition validate_trailing :: "string \<Rightarrow> bool" where
  "validate_trailing rest \<longleftrightarrow> trim_space rest = '''' \<or> has_prefix (trim_space rest) ''#''"

definition read_single_quoted :: "string \<Rightarrow> (string \<times> string) option" where
  "read_single_quoted raw = cut_byte (CHR 0x27) raw"

text \<open>The bytes that \<open>WriteRune\<close> writes for the first rune: U+FFFD for an invalid encoding.\<close>

definition rune_bytes :: "string \<Rightarrow> string" where
  "rune_bytes s =
     (let n = max 1 (rune_size s) in
      if n = 1 \<and> s \<noteq> [] \<and> 128 \<le> (of_char (hd s) :: nat) then [CHR 0xEF, CHR 0xBF, CHR 0xBD]
      else take n s)"

definition escape_byte :: "char \<Rightarrow> char" where
  "escape_byte c =
     (if c = CHR ''n'' then CHR 0x0A else if c = CHR ''r'' then CHR 0x0D
      else if c = CHR ''t'' then CHR 0x09 else c)"

text \<open>The loop over the runes; \<open>out\<close> is what the builder holds.\<close>

function double_quoted :: "bool \<Rightarrow> string \<Rightarrow> string \<Rightarrow> (string \<times> string) option" where
  "double_quoted escaped out raw =
     (if raw = [] then None
      else
        (let rest = drop (max 1 (rune_size raw)) raw in
         if escaped then
           double_quoted False
             (out @ (if hd raw \<in> {CHR ''n'', CHR ''r'', CHR ''t''} then [escape_byte (hd raw)] else rune_bytes raw)) rest
         else if hd raw = CHR 0x5C then double_quoted True out rest
         else if hd raw = CHR 0x22 then Some (out, tl raw)
         else double_quoted False (out @ rune_bytes raw) rest))"
  by pat_completeness auto
termination
  by (relation "measure (\<lambda>(escaped, out, raw). length raw)") auto

declare double_quoted.simps [simp del]

definition read_double_quoted :: "string \<Rightarrow> (string \<times> string) option" where
  "read_double_quoted raw = double_quoted False [] raw"

text \<open>The first \<open>#\<close> at the start or after a space or a tab ends the value; \<open>seen\<close> is what stands before.\<close>

fun inline_comment :: "string \<Rightarrow> string \<Rightarrow> string" where
  "inline_comment seen [] = trim_space seen"
| "inline_comment seen (c # cs) =
     (if c = CHR ''#'' \<and> (seen = [] \<or> last seen = CHR '' '' \<or> last seen = CHR 0x09) then trim_space seen
      else inline_comment (seen @ [c]) cs)"

definition strip_inline_comment :: "string \<Rightarrow> string" where
  "strip_inline_comment raw = inline_comment [] raw"

definition parse_value :: "string \<Rightarrow> string option" where
  "parse_value raw =
     (case raw of
        [] \<Rightarrow> Some []
      | c # cs \<Rightarrow>
          if c = CHR 0x27 then
            (case read_single_quoted cs of
               None \<Rightarrow> None
             | Some (value, rest) \<Rightarrow> if validate_trailing rest then Some value else None)
          else if c = CHR 0x22 then
            (case read_double_quoted cs of
               None \<Rightarrow> None
             | Some (value, rest) \<Rightarrow> if validate_trailing rest then Some value else None)
          else Some (strip_inline_comment raw))"

section \<open>Parsing\<close>

definition parse_env_line :: "string \<Rightarrow> nat \<Rightarrow> string \<Rightarrow> err + env_entry option" where
  "parse_env_line source number line =
     (let t0 = trim_space line in
      if t0 = '''' \<or> has_prefix t0 ''#'' then Inr None
      else
        (let t = (if has_prefix t0 ''export '' then trim_space (trim_prefix t0 ''export '') else t0) in
         case cut_byte (CHR ''='') t of
           None \<Rightarrow> Inl line_error
         | Some (k, raw) \<Rightarrow>
             (let key = trim_space k in
              if key = '''' \<or> CHR ''='' \<in> set key \<or> CHR 0x00 \<in> set key then Inl line_error
              else case parse_value (trim_space raw) of
                None \<Rightarrow> Inl line_error
              | Some value \<Rightarrow>
                  Inr (Some \<lparr>ent_key = key, ent_value = value, ent_source = source, ent_line = number\<rparr>))))"

fun parse_env_lines :: "string \<Rightarrow> nat \<Rightarrow> string list \<Rightarrow> err + env_entry list" where
  "parse_env_lines source n [] = Inr []"
| "parse_env_lines source n (l # ls) =
     (case parse_env_line source n l of
        Inl e \<Rightarrow> Inl e
      | Inr x \<Rightarrow>
          (case parse_env_lines source (Suc n) ls of
             Inl e \<Rightarrow> Inl e
           | Inr xs \<Rightarrow> Inr (case x of None \<Rightarrow> xs | Some y \<Rightarrow> y # xs)))"

definition parse_env_file :: "string \<Rightarrow> string \<Rightarrow> err option \<Rightarrow> err + env_entry list" where
  "parse_env_file source content read_error =
     (case scan_lines read_error content of
        (lines, e) \<Rightarrow>
          (case parse_env_lines source 1 lines of
             Inl x \<Rightarrow> Inl x
           | Inr entries \<Rightarrow> (case e of Some x \<Rightarrow> Inl x | None \<Rightarrow> Inr entries)))"

text \<open>\<open>os.Open\<close> and what reading the open file gives.\<close>

definition load_env_file ::
  "(string \<Rightarrow> err + string \<times> err option) \<Rightarrow> string \<Rightarrow> err + env_entry list" where
  "load_env_file open_file path =
     (case open_file path of Inl e \<Rightarrow> Inl e | Inr (content, e) \<Rightarrow> parse_env_file path content e)"

section \<open>Quoted values round trip\<close>

text \<open>A value as it can be written between double quotes.\<close>

definition quote_byte :: "char \<Rightarrow> string" where
  "quote_byte c =
     (if c = CHR 0x0A then [CHR 0x5C, CHR ''n''] else if c = CHR 0x0D then [CHR 0x5C, CHR ''r'']
      else if c = CHR 0x22 \<or> c = CHR 0x5C then [CHR 0x5C, c] else [c])"

definition quote_value :: "string \<Rightarrow> string" where
  "quote_value v = CHR 0x22 # concat (map quote_byte v) @ [CHR 0x22]"

definition ascii :: "char \<Rightarrow> bool" where
  "ascii c \<longleftrightarrow> (of_char c :: nat) < 128"

lemma rune_size_ascii: "ascii c \<Longrightarrow> rune_size (c # s) = 1"
  by (simp add: rune_size_def rune_need_def in_range_def ascii_def)

lemma rune_bytes_ascii: "ascii c \<Longrightarrow> rune_bytes (c # s) = [c]"
  by (simp add: rune_bytes_def rune_size_ascii) (simp add: ascii_def)

lemma double_quoted_ascii:
  assumes "ascii c"
  shows "double_quoted escaped out (c # s) =
    (if escaped then double_quoted False (out @ [escape_byte c]) s
     else if c = CHR 0x5C then double_quoted True out s
     else if c = CHR 0x22 then Some (out, s)
     else double_quoted False (out @ [c]) s)"
  using assms
  by (subst double_quoted.simps) (auto simp: rune_size_ascii rune_bytes_ascii escape_byte_def)

lemma double_quoted_quote:
  "list_all ascii v \<Longrightarrow>
     double_quoted False out (concat (map quote_byte v) @ CHR 0x22 # rest) = Some (out @ v, rest)"
proof (induction v arbitrary: out)
  case Nil
  then show ?case by (simp add: double_quoted_ascii ascii_def)
next
  case (Cons c v)
  have "ascii c" "ascii (CHR 0x5C)" "ascii (CHR ''n'')" "ascii (CHR ''r'')" "ascii (CHR 0x22)"
    using Cons.prems by (simp_all add: ascii_def)
  with Cons show ?case by (simp add: quote_byte_def double_quoted_ascii escape_byte_def)
qed

lemma parse_value_quote: "list_all ascii v \<Longrightarrow> parse_value (quote_value v) = Some v"
proof -
  assume "list_all ascii v"
  then have "read_double_quoted (concat (map quote_byte v) @ [CHR 0x22]) = Some (v, [])"
    by (simp add: read_double_quoted_def double_quoted_quote)
  moreover have "validate_trailing []" by code_simp
  ultimately show ?thesis by (simp add: parse_value_def quote_value_def)
qed

end
