(* ===== verification/ClientRequest.thy ===== *)
theory ClientRequest
  imports SessionRequest
begin

text \<open>
  Building requests in the client: \<open>internal/cli/request_builder.go\<close> and the flag values of
  \<open>internal/cli/flag_values.go\<close>. The file system, the working directory, the path of the running
  executable and SHA-256 are arguments.
\<close>

record client_env =
  cl_fs :: file_system
  cl_getwd :: "err + string"
  cl_executable :: "err + string"
  cl_sha256 :: "string \<Rightarrow> 8 word list"

section \<open>Flag values\<close>

abbreviation invalid_arguments :: err where
  "invalid_arguments \<equiv> Err (CliErr ErrInvalidArguments)"

datatype json_mode = JsonOff | JsonPretty | JsonCompact

definition json_enabled :: "json_mode \<Rightarrow> bool" where
  "json_enabled m \<longleftrightarrow> m = JsonPretty \<or> m = JsonCompact"

definition set_json_flag :: "string \<Rightarrow> err + json_mode" where
  "set_json_flag value =
     (let v = trim_space value in
      if v = '''' \<or> v = ''true'' \<or> v = ''pretty'' then Inr JsonPretty
      else if v = ''compact'' then Inr JsonCompact
      else if v = ''false'' then Inr JsonOff
      else Inl invalid_arguments)"

definition spec_of_ref :: "string \<Rightarrow> string \<Rightarrow> secret_spec" where
  "spec_of_ref a ref = \<lparr>sp_alias = a, sp_ref = ref, sp_account = '''', sp_source = '''',
     sp_bitwarden = bitwarden_zero\<rparr>"

definition set_secret_flag :: "string \<Rightarrow> secret_spec list \<Rightarrow> err + secret_spec list" where
  "set_secret_flag value specs =
     (case cut_byte (CHR ''='') value of
        None \<Rightarrow> Inl invalid_arguments
      | Some (a, ref) \<Rightarrow>
          if a = '''' \<or> ref = '''' then Inl invalid_arguments else Inr (specs @ [spec_of_ref a ref]))"

fun add_only :: "string list \<Rightarrow> string list \<Rightarrow> err + string list" where
  "add_only aliases [] = Inr aliases"
| "add_only aliases (raw # raws) =
     (if trim_space raw = '''' then Inl invalid_arguments else add_only (aliases @ [trim_space raw]) raws)"

definition set_only_flag :: "string \<Rightarrow> string list \<Rightarrow> err + string list" where
  "set_only_flag value aliases = add_only aliases (split_byte (CHR '','') value)"

definition set_env_file_flag :: "string \<Rightarrow> string list \<Rightarrow> err + string list" where
  "set_env_file_flag value paths =
     (if trim_space value = '''' then Inl invalid_arguments else Inr (paths @ [trim_space value]))"

fun index_of :: "string list \<Rightarrow> string \<Rightarrow> int" where
  "index_of [] target = -1"
| "index_of (v # vs) target =
     (if v = target then 0 else (let i = index_of vs target in if i < 0 then -1 else i + 1))"

section \<open>Paths and the command\<close>

definition normalize_cwd :: "client_env \<Rightarrow> string \<Rightarrow> err + string" where
  "normalize_cwd ce cwd =
     (case (if cwd = '''' then cl_getwd ce else Inr cwd) of
        Inl e \<Rightarrow> Inl e
      | Inr dir \<Rightarrow>
     (case strict_path (cl_fs ce) dir of
        Inl e \<Rightarrow> Inl e
      | Inr resolved \<Rightarrow>
     (case fs_stat (cl_fs ce) resolved of
        Inl e \<Rightarrow> Inl e
      | Inr info \<Rightarrow>
          if \<not> fi_is_dir info then Inl (Text ''cwd is not a directory'') else Inr resolved)))"

definition validate_executable :: "file_system \<Rightarrow> string \<Rightarrow> err + string" where
  "validate_executable fs path =
     (case strict_path fs path of
        Inl e \<Rightarrow> Inl (Wrap (RequestErr ErrInvalidCommand) e)
      | Inr resolved \<Rightarrow>
     (case fs_stat fs resolved of
        Inl e \<Rightarrow> Inl (Wrap (RequestErr ErrInvalidCommand) e)
      | Inr info \<Rightarrow>
          if fi_is_dir info \<or> \<not> any_exec info then Inl (Err (RequestErr ErrInvalidCommand))
          else Inr resolved))"

fun lookup_env :: "string list \<Rightarrow> string \<Rightarrow> string" where
  "lookup_env [] key = ''''"
| "lookup_env (e # es) key =
     (case cut_byte (CHR ''='') e of
        None \<Rightarrow> lookup_env es key
      | Some (k, v) \<Rightarrow> if k = key then v else lookup_env es key)"

text \<open>\<open>filepath.SplitList\<close>.\<close>

definition split_list :: "string \<Rightarrow> string list" where
  "split_list s = (if s = '''' then [] else split_byte (CHR '':'') s)"

fun search_path :: "file_system \<Rightarrow> string \<Rightarrow> string \<Rightarrow> string list \<Rightarrow> err + string" where
  "search_path fs cwd executable [] = Inl (Err (RequestErr ErrInvalidCommand))"
| "search_path fs cwd executable (d # dirs) =
     (let candidate0 = path_join [if d = '''' then ''.'' else d, executable];
          candidate = (if is_abs candidate0 then candidate0 else path_join [cwd, candidate0])
      in case validate_executable fs candidate of
           Inr resolved \<Rightarrow> Inr resolved
         | Inl e \<Rightarrow> search_path fs cwd executable dirs)"

definition resolve_command ::
  "file_system \<Rightarrow> string \<Rightarrow> string list \<Rightarrow> string list \<Rightarrow> err + string list \<times> string" where
  "resolve_command fs cwd env command =
     (if command = [] \<or> hd command = '''' then Inl (Err (RequestErr ErrInvalidCommand))
      else
        (let executable = hd command in
         if CHR ''/'' \<in> set executable then
           (case validate_executable fs (if is_abs executable then executable else path_join [cwd, executable]) of
              Inl e \<Rightarrow> Inl e
            | Inr resolved \<Rightarrow> Inr (command, resolved))
         else
           (case search_path fs cwd executable (split_list (lookup_env env ''PATH'')) of
              Inl e \<Rightarrow> Inl e
            | Inr resolved \<Rightarrow> Inr (command, resolved))))"

fun collect_overrides :: "string list \<Rightarrow> secret list \<Rightarrow> bool \<Rightarrow> err + string list" where
  "collect_overrides present [] override = Inr []"
| "collect_overrides present (s # ss) override =
     (if se_alias s \<in> set present then
        (if \<not> override then Inl (Err (RequestErr ErrInvalidAlias))
         else case collect_overrides present ss override of
           Inl e \<Rightarrow> Inl e
         | Inr as \<Rightarrow> Inr (se_alias s # as))
      else collect_overrides present ss override)"

definition detect_overrides :: "string list \<Rightarrow> secret list \<Rightarrow> bool \<Rightarrow> err + string list" where
  "detect_overrides env ss override =
     (case collect_overrides (env_keys env) ss override of Inl e \<Rightarrow> Inl e | Inr as \<Rightarrow> Inr (sort as))"

section \<open>Requests\<close>

record exec_build =
  xb_reason :: string
  xb_command :: "string list"
  xb_cwd :: string
  xb_env :: "string list"
  xb_secrets :: "secret_spec list"
  xb_ttl :: duration
  xb_override_env :: bool
  xb_force_refresh :: bool
  xb_reuse_only :: bool
  xb_allow_mutable :: bool

definition stable_or_allowed :: "file_system \<Rightarrow> bool \<Rightarrow> string \<Rightarrow> err option" where
  "stable_or_allowed fs allow path = (if allow then None else validate_stable_executable fs path)"

definition build_exec_request :: "client_env \<Rightarrow> exec_build \<Rightarrow> err + exec_request" where
  "build_exec_request ce b =
     (case validate_reason (xb_reason b) of
        Inl e \<Rightarrow> Inl e
      | Inr _ \<Rightarrow>
     (case normalize_cwd ce (xb_cwd b) of
        Inl e \<Rightarrow> Inl e
      | Inr cwd \<Rightarrow>
     (case resolve_command (cl_fs ce) cwd (xb_env b) (xb_command b) of
        Inl e \<Rightarrow> Inl e
      | Inr (command, executable) \<Rightarrow>
     (case stable_or_allowed (cl_fs ce) (xb_allow_mutable b) executable of
        Some e \<Rightarrow> Inl e
      | None \<Rightarrow>
     (case capture (cl_fs ce) executable of
        Inl e \<Rightarrow> Inl (Wrap (RequestErr ErrInvalidCommand) e)
      | Inr i \<Rightarrow>
     (case parse_secrets (xb_secrets b) of
        Inl e \<Rightarrow> Inl e
      | Inr ss \<Rightarrow>
     (case detect_overrides (xb_env b) ss (xb_override_env b) of
        Inl e \<Rightarrow> Inl e
      | Inr overridden \<Rightarrow>
          new_exec \<lparr>eo_reason = xb_reason b, eo_command = command, eo_executable = executable,
            eo_identity = i, eo_allow_mutable = xb_allow_mutable b, eo_cwd = cwd,
            eo_env_fingerprint = environment_fingerprint (cl_sha256 ce) (xb_env b),
            eo_secrets = xb_secrets b, eo_ttl = xb_ttl b, eo_received_at = zero_time,
            eo_reusable_uses = 0, eo_override_env = xb_override_env b, eo_overridden = overridden,
            eo_force_refresh = xb_force_refresh b, eo_reuse_only = xb_reuse_only b\<rparr>)))))))"

record session_build =
  sb_reason :: string
  sb_command :: "string list"
  sb_cwd :: string
  sb_executable :: string
  sb_secrets :: "secret_spec list"
  sb_ttl :: duration
  sb_max_reads :: int
  sb_override_env :: bool
  sb_binding :: binding_policy

text \<open>The executable of the client itself, as both other builders determine it.\<close>

definition own_executable :: "client_env \<Rightarrow> string \<Rightarrow> err + string \<times> identity" where
  "own_executable ce path =
     (case (if path = '''' then cl_executable ce else Inr path) of
        Inl e \<Rightarrow> Inl e
      | Inr exe \<Rightarrow>
     (case validate_executable (cl_fs ce) exe of
        Inl e \<Rightarrow> Inl e
      | Inr resolved \<Rightarrow>
     (case capture (cl_fs ce) resolved of
        Inl e \<Rightarrow> Inl (Wrap (RequestErr ErrInvalidCommand) e)
      | Inr i \<Rightarrow> Inr (resolved, i))))"

definition build_session_create :: "client_env \<Rightarrow> session_build \<Rightarrow> err + session_create_request" where
  "build_session_create ce b =
     (case normalize_cwd ce (sb_cwd b) of
        Inl e \<Rightarrow> Inl e
      | Inr cwd \<Rightarrow>
     (case own_executable ce (sb_executable b) of
        Inl e \<Rightarrow> Inl e
      | Inr (executable, i) \<Rightarrow>
          new_session_create \<lparr>so_reason = sb_reason b, so_command = sb_command b,
            so_executable = executable, so_identity = i, so_cwd = cwd, so_secrets = sb_secrets b,
            so_ttl = sb_ttl b, so_received_at = zero_time, so_max_reads = sb_max_reads b,
            so_override_env = sb_override_env b, so_binding = sb_binding b\<rparr>))"

record resolve_build =
  vb_token :: string
  vb_command :: "string list"
  vb_cwd :: string
  vb_env :: "string list"
  vb_allow_mutable :: bool
  vb_aliases :: "string list"

definition build_session_resolve :: "client_env \<Rightarrow> resolve_build \<Rightarrow> err + session_resolve_request" where
  "build_session_resolve ce b =
     (case validate_session_token (vb_token b) of
        Some e \<Rightarrow> Inl e
      | None \<Rightarrow>
     (case normalize_cwd ce (vb_cwd b) of
        Inl e \<Rightarrow> Inl e
      | Inr cwd \<Rightarrow>
     (case resolve_command (cl_fs ce) cwd (vb_env b) (vb_command b) of
        Inl e \<Rightarrow> Inl e
      | Inr (command, executable) \<Rightarrow>
     (case stable_or_allowed (cl_fs ce) (vb_allow_mutable b) executable of
        Some e \<Rightarrow> Inl e
      | None \<Rightarrow>
     (case capture (cl_fs ce) executable of
        Inl e \<Rightarrow> Inl (Wrap (RequestErr ErrInvalidCommand) e)
      | Inr i \<Rightarrow>
     (case new_session_resolve (vb_token b) command executable i cwd
             (environment_fingerprint (cl_sha256 ce) (vb_env b)) of
        Inl e \<Rightarrow> Inl e
      | Inr q \<Rightarrow> with_requested_aliases q (vb_aliases b)))))))"

record item_build =
  ib_reason :: string
  ib_command :: "string list"
  ib_cwd :: string
  ib_executable :: string
  ib_ref :: string
  ib_account :: string
  ib_ttl :: duration

definition build_item_describe :: "client_env \<Rightarrow> item_build \<Rightarrow> err + item_describe_request" where
  "build_item_describe ce b =
     (case normalize_cwd ce (ib_cwd b) of
        Inl e \<Rightarrow> Inl e
      | Inr cwd \<Rightarrow>
     (case own_executable ce (ib_executable b) of
        Inl e \<Rightarrow> Inl e
      | Inr (executable, i) \<Rightarrow>
          new_item_describe \<lparr>io_reason = ib_reason b, io_command = ib_command b, io_cwd = cwd,
            io_executable = executable, io_identity = i, io_ref = ib_ref b, io_account = ib_account b,
            io_ttl = ib_ttl b, io_received_at = zero_time\<rparr>))"

section \<open>What the builders check on disk\<close>

text \<open>The path that \<open>filepath.EvalSymlinks\<close> returns has no symbolic links left.\<close>

definition links_resolved :: "file_system \<Rightarrow> bool" where
  "links_resolved fs \<longleftrightarrow> (\<forall>p r. fs_eval_symlinks fs p = Inr r \<longrightarrow> fs_eval_symlinks fs r = Inr r)"

lemma strict_path_resolved:
  "links_resolved fs \<Longrightarrow> strict_path fs p = Inr r \<Longrightarrow> fs_eval_symlinks fs r = Inr r"
  by (auto simp: links_resolved_def strict_path_def split: sum.splits)

lemma normalize_cwd_on_disk:
  "normalize_cwd ce cwd = Inr r \<Longrightarrow> links_resolved (cl_fs ce) \<Longrightarrow> path_on_disk (cl_fs ce) r False"
  by (auto simp: normalize_cwd_def path_on_disk_def strict_path_resolved split: sum.splits if_splits)

lemma validate_executable_on_disk:
  "validate_executable fs p = Inr r \<Longrightarrow> links_resolved fs \<Longrightarrow> path_on_disk fs r True"
  by (auto simp: validate_executable_def path_on_disk_def strict_path_resolved split: sum.splits if_splits)

lemma search_path_on_disk:
  "search_path fs cwd x dirs = Inr r \<Longrightarrow> links_resolved fs \<Longrightarrow> path_on_disk fs r True"
  by (induction dirs) (auto simp: Let_def validate_executable_on_disk split: sum.splits)

lemma resolve_command_on_disk:
  "resolve_command fs cwd env command = Inr (c, r) \<Longrightarrow> links_resolved fs \<Longrightarrow>
     c = command \<and> command \<noteq> [] \<and> hd command \<noteq> '''' \<and> path_on_disk fs r True"
  by (auto simp: resolve_command_def Let_def validate_executable_on_disk search_path_on_disk
      split: sum.splits if_splits)

lemma own_executable_on_disk:
  "own_executable ce p = Inr (r, i) \<Longrightarrow> links_resolved (cl_fs ce) \<Longrightarrow>
     path_on_disk (cl_fs ce) r True \<and> capture (cl_fs ce) r = Inr i"
  by (auto simp: own_executable_def validate_executable_on_disk split: sum.splits if_splits)

lemma collect_overrides_Inr:
  "collect_overrides present ss override = Inr as \<Longrightarrow>
     as = map se_alias (filter (\<lambda>s. se_alias s \<in> set present) ss) \<and> (as \<noteq> [] \<longrightarrow> override)"
  by (induction ss arbitrary: as) (auto split: if_splits sum.splits)

end
