(* ===== verification/ItemAliases.thy ===== *)
theory ItemAliases
  imports Request
begin

text \<open>
  The output side of \<open>internal/itemmetadata/itemmetadata.go\<close>: formats, and the environment aliases
  generated for the fields of an item, which are distinct and well formed.
\<close>

section \<open>Upper case\<close>

text \<open>
  \<open>strings.ToUpper\<close> as far as ASCII can tell: the letters, and the two other runes whose upper case
  is an ASCII letter (U+0131 and U+017F). The other runes stay outside ASCII.
\<close>

definition upper_byte :: "char \<Rightarrow> char" where
  "upper_byte c = (if is_lower c then char_of (of_char c - 32 :: nat) else c)"

fun to_upper :: "string \<Rightarrow> string" where
  "to_upper [] = []"
| "to_upper [c] = [upper_byte c]"
| "to_upper (c # d # cs) =
     (if c = CHR 0xC4 \<and> d = CHR 0xB1 then CHR ''I'' # to_upper cs
      else if c = CHR 0xC5 \<and> d = CHR 0xBF then CHR ''S'' # to_upper cs
      else upper_byte c # to_upper (d # cs))"

section \<open>Formats\<close>

datatype format = FormatText | FormatJson | FormatEnvRefs

definition parse_format :: "string \<Rightarrow> err + format" where
  "parse_format value =
     (let f = trim_space value in
      if f = '''' \<or> f = ''text'' then Inr FormatText
      else if f = ''json'' then Inr FormatJson
      else if f = ''env-refs'' then Inr FormatEnvRefs
      else Inl (Err (ItemErr ErrInvalidFormat)))"

section \<open>Aliases\<close>

record item_field =
  if_id :: string
  if_label :: string
  if_type :: string
  if_section_id :: string
  if_section :: string
  if_concealed :: bool
  if_ref :: string
  if_alias :: string

record full_metadata =
  md_account :: string
  md_vault_id :: string
  md_vault :: string
  md_item_id :: string
  md_item :: string
  md_category :: string
  md_fields :: "item_field list"

abbreviation underscore :: char where
  "underscore \<equiv> CHR ''_''"

definition env_char :: "char \<Rightarrow> bool" where
  "env_char c \<longleftrightarrow> is_upper c \<or> is_digit c \<or> c = underscore"

definition trim_underscores :: "string \<Rightarrow> string" where
  "trim_underscores s =
     rev (dropWhile (\<lambda>c. c = underscore) (rev (dropWhile (\<lambda>c. c = underscore) s)))"

text \<open>\<open>envAliasUnsafePattern.ReplaceAllString(value, "_")\<close>: each maximal unsafe run is one \<open>_\<close>.\<close>

fun replace_unsafe :: "bool \<Rightarrow> string \<Rightarrow> string" where
  "replace_unsafe in_run [] = []"
| "replace_unsafe in_run (c # cs) =
     (if env_char c then c # replace_unsafe False cs
      else if in_run then replace_unsafe True cs
      else underscore # replace_unsafe True cs)"

text \<open>\<open>strings.ReplaceAll(value, "__", "_")\<close>, repeated while there is a pair.\<close>

fun halve_underscores :: "string \<Rightarrow> string" where
  "halve_underscores [] = []"
| "halve_underscores [c] = [c]"
| "halve_underscores (c # d # cs) =
     (if c = underscore \<and> d = underscore then underscore # halve_underscores cs
      else c # halve_underscores (d # cs))"

lemma halve_underscores_le: "length (halve_underscores s) \<le> length s"
  by (induction s rule: halve_underscores.induct) auto

lemma halve_underscores_less: "contains_sub s ''__'' \<Longrightarrow> length (halve_underscores s) < length s"
proof (induction s rule: halve_underscores.induct)
  case (3 c d cs)
  show ?case
  proof (cases "c = underscore \<and> d = underscore")
    case True
    with halve_underscores_le [of cs] show ?thesis by simp
  next
    case False
    with 3 show ?thesis by (auto simp: has_prefix_def)
  qed
qed (auto simp: has_prefix_def)

function collapse_underscores :: "string \<Rightarrow> string" where
  "collapse_underscores s =
     (if contains_sub s ''__'' then collapse_underscores (halve_underscores s) else s)"
  by pat_completeness auto
termination
  by (relation "measure length") (simp_all add: halve_underscores_less)

declare collapse_underscores.simps [simp del]

definition upper_snake :: "string \<Rightarrow> string" where
  "upper_snake value =
     collapse_underscores (trim_underscores (replace_unsafe False (to_upper (trim_space value))))"

definition env_alias :: "string \<Rightarrow> string \<Rightarrow> string \<Rightarrow> string" where
  "env_alias prefix label fallback =
     (let p = trim_space prefix;
          a0 = upper_snake label;
          a1 = (if a0 = '''' then upper_snake fallback else a0);
          a2 = (if a1 = '''' then ''FIELD'' else a1);
          a3 = trim_underscores (trim_underscores p @ underscore # a2);
          a4 = (if a3 = '''' then ''FIELD'' else a3)
      in if is_digit (hd a4) then underscore # a4 else a4)"

text \<open>Decimal numbers are told apart by their digits.\<close>

definition digits_value :: "string \<Rightarrow> int" where
  "digits_value s = foldl (\<lambda>v c. 10 * v + (of_char c - 48)) 0 s"

lemma digits_value_text: "0 \<le> n \<Longrightarrow> digits_value (digits_text n) = n"
proof (induction n rule: digits_text.induct)
  case (1 n)
  show ?case
  proof (cases "n < 10")
    case True
    with 1 show ?thesis
      by (subst digits_text.simps) (simp add: digits_value_def of_char_of take_bit_eq_mod)
  next
    case False
    have "0 \<le> n div 10" using 1(2) by simp
    with 1(1) [OF False] have "digits_value (digits_text (n div 10)) = n div 10" by simp
    moreover have "of_char (char_of (48 + n mod 10) :: char) = 48 + n mod 10"
      using pos_mod_bound [of 10 n] pos_mod_sign [of 10 n] by (simp add: of_char_of take_bit_eq_mod)
    ultimately show ?thesis
      using False by (subst digits_text.simps) (simp add: digits_value_def)
  qed
qed

lemma int_text_inj: "0 \<le> m \<Longrightarrow> 0 \<le> n \<Longrightarrow> int_text m = int_text n \<Longrightarrow> m = n"
  by (metis digits_value_text int_text_def not_less)

text \<open>
  The search for an alias that is not used: the first candidate is the base, then the base with
  suffixes from 2 on. It ends since the used aliases are finitely many.
\<close>

definition suffixed :: "string \<Rightarrow> nat \<Rightarrow> string" where
  "suffixed base n = base @ underscore # int_text (int n)"

lemma suffixed_inj: "suffixed base m = suffixed base n \<Longrightarrow> m = n"
  using int_text_inj [of "int m" "int n"] by (simp add: suffixed_def)

definition left_suffixes :: "string list \<Rightarrow> string \<Rightarrow> nat \<Rightarrow> string list" where
  "left_suffixes used base n = filter (\<lambda>u. \<exists>m \<ge> n. u = suffixed base m) used"

lemma filter_le:
  assumes "\<And>y. P y \<Longrightarrow> Q y"
  shows "length (filter P xs) \<le> length (filter Q xs)"
  using assms by (induction xs) auto

lemma filter_less:
  assumes "\<And>y. P y \<Longrightarrow> Q y" "x \<in> set xs" "Q x" "\<not> P x"
  shows "length (filter P xs) < length (filter Q xs)"
  using assms(2)
proof (induction xs)
  case (Cons y ys)
  have le: "length (filter P ys) \<le> length (filter Q ys)"
    by (rule filter_le) (rule assms(1))
  show ?case
  proof (cases "x = y")
    case True
    with le assms(3,4) show ?thesis by simp
  next
    case False
    with Cons have "length (filter P ys) < length (filter Q ys)" by simp
    with assms(1) [of y] show ?thesis by simp
  qed
qed simp

lemma left_suffixes_le: "length (left_suffixes used base (Suc n)) \<le> length (left_suffixes used base n)"
  unfolding left_suffixes_def by (rule filter_le) (blast dest: Suc_leD)

lemma left_suffixes_less:
  assumes "suffixed base n \<in> set used"
  shows "length (left_suffixes used base (Suc n)) < length (left_suffixes used base n)"
  unfolding left_suffixes_def
proof (rule filter_less [OF _ assms])
  show "\<not> (\<exists>m \<ge> Suc n. suffixed base n = suffixed base m)"
    using suffixed_inj [of base n] by fastforce
  show "\<exists>m \<ge> n. y = suffixed base m" if "\<exists>m \<ge> Suc n. y = suffixed base m" for y
    using that Suc_leD by blast
qed auto

function next_alias :: "string list \<Rightarrow> string \<Rightarrow> string \<Rightarrow> nat \<Rightarrow> string" where
  "next_alias used base a suffix =
     (if a \<notin> set used then a else next_alias used base (suffixed base suffix) (Suc suffix))"
  by pat_completeness auto

termination
proof (relation "measure (\<lambda>(used, base, a, n).
    length (left_suffixes used base n) + (if a \<in> set used then 1 else 0))")
  fix base a :: "string" and used :: "string list" and n :: nat
  assume "\<not> a \<notin> set used"
  then show "((used, base, suffixed base n, Suc n), used, base, a, n)
      \<in> measure (\<lambda>(used, base, a, n).
          length (left_suffixes used base n) + (if a \<in> set used then 1 else 0))"
    using left_suffixes_le [of used base n] left_suffixes_less [of base n used] by auto
qed simp

declare next_alias.simps [simp del]

lemma next_alias_fresh: "next_alias used base a n \<notin> set used"
proof (induction used base a n rule: next_alias.induct)
  case (1 used base a n)
  then show ?case by (subst next_alias.simps) simp
qed

lemma next_alias_form:
  "next_alias used base a n = a \<or> (\<exists>m \<ge> n. next_alias used base a n = suffixed base m)"
proof (induction used base a n rule: next_alias.induct)
  case (1 used base a n)
  show ?case
  proof (cases "a \<in> set used")
    case True
    then have "next_alias used base a n = next_alias used base (suffixed base n) (Suc n)"
      by (subst next_alias.simps) simp
    with 1 True show ?thesis by (metis Suc_leD order_refl)
  qed (subst next_alias.simps, simp)
qed

fun unique_from :: "string list \<Rightarrow> string \<Rightarrow> item_field list \<Rightarrow> item_field list" where
  "unique_from used prefix [] = []"
| "unique_from used prefix (f # fs) =
     (let base = env_alias prefix (if_label f) (if_id f);
          a = next_alias used base base 2
      in f\<lparr>if_alias := a\<rparr> # unique_from (a # used) prefix fs)"

definition unique_aliases :: "item_field list \<Rightarrow> string \<Rightarrow> item_field list" where
  "unique_aliases fs prefix = unique_from [] prefix fs"

lemma unique_from_distinct:
  "distinct (map if_alias (unique_from used prefix fs)) \<and>
   set (map if_alias (unique_from used prefix fs)) \<inter> set used = {}"
proof (induction fs arbitrary: used)
  case (Cons f fs)
  show ?case
    using Cons [of "next_alias used (env_alias prefix (if_label f) (if_id f))
      (env_alias prefix (if_label f) (if_id f)) 2 # used"] next_alias_fresh
    by (auto simp: Let_def)
qed simp

section \<open>Generated aliases are environment names\<close>

lemma trim_underscores_chars: "list_all env_char s \<Longrightarrow> list_all env_char (trim_underscores s)"
  by (auto simp: trim_underscores_def list_all_iff dest!: set_dropWhileD)

lemma upper_snake_chars: "list_all env_char (upper_snake value)"
proof -
  have replace: "list_all env_char (replace_unsafe b s)" for b s
    by (induction b s rule: replace_unsafe.induct) (auto simp: env_char_def)
  have halve: "list_all env_char (halve_underscores s)" if "list_all env_char s" for s
    using that by (induction s rule: halve_underscores.induct) auto
  have collapse: "list_all env_char (collapse_underscores s)" if "list_all env_char s" for s
    using that
  proof (induction s rule: collapse_underscores.induct)
    case (1 s)
    then show ?case by (subst collapse_underscores.simps) (simp add: halve)
  qed
  show ?thesis
    unfolding upper_snake_def by (intro collapse trim_underscores_chars replace)
qed

lemma field_chars: "list_all env_char ''FIELD''"
  by code_simp

lemma env_alias_ok:
  assumes "list_all env_char (trim_space prefix)"
  shows "alias_ok (env_alias prefix label fallback)"
proof -
  have ok: "alias_ok (if is_digit (hd s) then underscore # s else s)"
    if "list_all env_char s" "s \<noteq> []" for s
    using that by (cases s) (auto simp: alias_ok_def env_char_def list_all_iff)
  define a0 a1 a2 a3 where "a0 = upper_snake label"
    and "a1 = (if a0 = [] then upper_snake fallback else a0)"
    and "a2 = (if a1 = [] then ''FIELD'' else a1)"
    and "a3 = trim_underscores (trim_underscores (trim_space prefix) @ underscore # a2)"
  have "list_all env_char a2"
    using field_chars by (simp add: a0_def a1_def a2_def upper_snake_chars)
  then have "list_all env_char a3"
    unfolding a3_def using trim_underscores_chars [OF assms]
    by (intro trim_underscores_chars) (simp add: env_char_def)
  then have "alias_ok (if is_digit (hd (if a3 = [] then ''FIELD'' else a3))
      then underscore # (if a3 = [] then ''FIELD'' else a3) else (if a3 = [] then ''FIELD'' else a3))"
    using field_chars by (intro ok) simp_all
  then show ?thesis
    unfolding env_alias_def Let_def a0_def a1_def a2_def a3_def .
qed

lemma digits_text_chars: "0 \<le> n \<Longrightarrow> list_all is_digit (digits_text n)"
proof (induction n rule: digits_text.induct)
  case (1 n)
  have digit: "is_digit (char_of (48 + d))" if "0 \<le> d" "d < 10" for d :: int
  proof -
    have "(of_char (char_of (48 + d) :: char) :: nat) = nat (of_char (char_of (48 + d) :: char))"
      by (rule nat_of_char [symmetric])
    also have "\<dots> = nat (48 + d)"
      using that by (simp add: of_char_of)
    finally show ?thesis
      using that by (simp add: is_digit_def less_eq_char_def le_nat_iff nat_le_iff)
  qed
  have "is_digit (char_of (48 + n mod 10))"
    using pos_mod_bound [of 10 n] pos_mod_sign [of 10 n] by (intro digit) auto
  with 1 digit [of n] show ?case by (subst digits_text.simps) auto
qed

lemma suffixed_ok: "alias_ok base \<Longrightarrow> alias_ok (suffixed base n)"
  using digits_text_chars [of "int n"]
  by (cases base) (auto simp: alias_ok_def suffixed_def int_text_def list_all_iff)

lemma unique_from_ok:
  assumes "list_all env_char (trim_space prefix)"
  shows "\<forall>f \<in> set (unique_from used prefix fs). alias_ok (if_alias f)"
proof (induction fs arbitrary: used)
  case (Cons f fs)
  have "alias_ok (next_alias used (env_alias prefix (if_label f) (if_id f))
      (env_alias prefix (if_label f) (if_id f)) 2)"
    using next_alias_form [of used] env_alias_ok [OF assms] suffixed_ok by metis
  with Cons show ?case by (simp add: Let_def)
qed simp

lemma unique_from_fields:
  "map (\<lambda>f. f\<lparr>if_alias := []\<rparr>) (unique_from used prefix fs) = map (\<lambda>f. f\<lparr>if_alias := []\<rparr>) fs"
  by (induction fs arbitrary: used) (simp_all add: Let_def)

end
