(* ===== verification/ExecInputs.thy ===== *)
theory ExecInputs
  imports ProfileConfig EnvFile ClientRequest ItemAliases
begin

text \<open>
  What an exec request or a session is built from: \<open>internal/cli/exec_parse.go\<close> after the flags,
  the account choice of \<open>internal/opaccount/account.go\<close>, the binding of \<open>session_parse.go\<close> and the
  account of \<open>item_parse.go\<close>. The environment of the process, the files and the local Bitwarden token
  aliases are arguments. Go's maps that are filled and then read in sorted order are association lists.
\<close>

section \<open>The 1Password account\<close>

text \<open>
  \<open>strings.EqualFold(s, t)\<close> for an ASCII \<open>t\<close>: besides the letters of the other case, U+017F folds to
  \<open>s\<close> and U+212A (the Kelvin sign) folds to \<open>k\<close>.
\<close>

fun fold_ascii :: "string \<Rightarrow> string" where
  "fold_ascii [] = []"
| "fold_ascii (c # cs) =
     (case cs of
        [] \<Rightarrow> [lower_byte c]
      | d # ds \<Rightarrow>
          if c = CHR 0xC5 \<and> d = CHR 0xBF then CHR ''s'' # fold_ascii ds
          else if c = CHR 0xE2 \<and> d = CHR 0x84 \<and> ds \<noteq> [] \<and> hd ds = CHR 0xAA
          then CHR ''k'' # fold_ascii (tl ds)
          else lower_byte c # fold_ascii cs)"

definition equal_fold :: "string \<Rightarrow> string \<Rightarrow> bool" where
  "equal_fold s t \<longleftrightarrow> fold_ascii s = fold_ascii t"

record desktop_account =
  da_uuid :: string
  da_state :: string
  da_user_state :: string
  da_type :: string
  da_url :: string

definition select_desktop_account :: "string \<Rightarrow> string \<Rightarrow> string" where
  "select_desktop_account override op_account =
     (if trim_space override \<noteq> '''' then trim_space override
      else if trim_space op_account \<noteq> '''' then trim_space op_account else '''')"

definition select_concrete_account :: "string \<Rightarrow> string \<Rightarrow> string option \<Rightarrow> string" where
  "select_concrete_account override op_account detected =
     (if select_desktop_account override op_account \<noteq> '''' then select_desktop_account override op_account
      else case detected of None \<Rightarrow> '''' | Some d \<Rightarrow> trim_space d)"

definition blank_or_active :: "string \<Rightarrow> bool" where
  "blank_or_active s \<longleftrightarrow> trim_space s = '''' \<or> equal_fold (trim_space s) ''A''"

definition active_accounts :: "desktop_account list \<Rightarrow> desktop_account list" where
  "active_accounts accounts =
     filter (\<lambda>a. da_uuid a \<noteq> '''' \<and> blank_or_active (da_state a) \<and> blank_or_active (da_user_state a))
       (map (\<lambda>a. a\<lparr>da_uuid := trim_space (da_uuid a)\<rparr>) accounts)"

definition the_only :: "string list \<Rightarrow> string" where
  "the_only xs = (case xs of [x] \<Rightarrow> x | _ \<Rightarrow> '''')"

definition select_matching :: "desktop_account list \<Rightarrow> (desktop_account \<Rightarrow> bool) \<Rightarrow> string" where
  "select_matching accounts match = the_only (map da_uuid (filter match accounts))"

definition select_single :: "string list \<Rightarrow> string" where
  "select_single accounts = the_only (filter (\<lambda>a. a \<noteq> '''') (map trim_space accounts))"

text \<open>The host name of a URL is what \<open>url.Parse\<close> and \<open>Hostname\<close> give.\<close>

definition personal_url :: "(string \<Rightarrow> string option) \<Rightarrow> desktop_account \<Rightarrow> bool" where
  "personal_url hostname a \<longleftrightarrow>
     trim_space (da_url a) \<noteq> '''' \<and>
     (case hostname (trim_space (da_url a)) of None \<Rightarrow> False | Some h \<Rightarrow> equal_fold h ''my.1password.com'')"

definition personal_type :: "desktop_account \<Rightarrow> bool" where
  "personal_type a \<longleftrightarrow> to_upper (trim_space (da_type a)) \<in> {''F'', ''I'', ''P''}"

definition select_default_account :: "(string \<Rightarrow> string option) \<Rightarrow> desktop_account list \<Rightarrow> string" where
  "select_default_account hostname accounts =
     (let active = active_accounts accounts;
          by_url = select_matching active (personal_url hostname);
          by_type = select_matching active personal_type
      in if by_url \<noteq> '''' then by_url
         else if by_type \<noteq> '''' then by_type
         else select_single (map da_uuid active))"

section \<open>Environments\<close>

definition entry_key :: "string \<Rightarrow> string option" where
  "entry_key entry = map_option fst (cut_byte (CHR ''='') entry)"

text \<open>\<open>positions[key]\<close>: the last entry of a key.\<close>

fun last_position :: "string list \<Rightarrow> string \<Rightarrow> nat option" where
  "last_position [] key = None"
| "last_position (e # es) key =
     (case last_position es key of
        Some i \<Rightarrow> Some (Suc i)
      | None \<Rightarrow> if entry_key e = Some key then Some 0 else None)"

definition env_entry_text :: "string \<Rightarrow> string \<Rightarrow> string" where
  "env_entry_text key value = key @ ''='' @ value"

definition merge_env :: "string list \<Rightarrow> (string \<times> string) list \<Rightarrow> string list" where
  "merge_env base overlay =
     fold (\<lambda>key out.
         let entry = env_entry_text key (the (map_of overlay key)) in
         case last_position base key of Some i \<Rightarrow> out[i := entry] | None \<Rightarrow> out @ [entry])
       (sort (map fst overlay)) base"

definition remove_env_keys :: "string list \<Rightarrow> string list \<Rightarrow> string list" where
  "remove_env_keys env keys =
     filter (\<lambda>e. case entry_key e of None \<Rightarrow> True | Some k \<Rightarrow> k \<notin> set keys) env"

section \<open>Environment files\<close>

record env_file_values =
  ev_plain :: "(string \<times> string) list"
  ev_secrets :: "secret_spec list"
  ev_aliases :: "string list"

definition without_key :: "string \<Rightarrow> (string \<times> 'a) list \<Rightarrow> (string \<times> 'a) list" where
  "without_key k m = filter (\<lambda>p. fst p \<noteq> k) m"

text \<open>One entry of a file: a supported reference is a secret, anything else a plain value.\<close>

fun add_env_entry ::
  "env_entry \<Rightarrow> (string \<times> string) list \<times> (string \<times> secret_spec) list \<Rightarrow>
   (string \<times> string) list \<times> (string \<times> secret_spec) list" where
  "add_env_entry e (plain, secrets) =
     (if is_supported (ent_value e) then
        (without_key (ent_key e) plain,
         (ent_key e, spec_of_ref (ent_key e) (ent_value e)) # without_key (ent_key e) secrets)
      else
        ((ent_key e, ent_value e) # without_key (ent_key e) plain, without_key (ent_key e) secrets))"

fun read_env_files ::
  "(string \<Rightarrow> err + string \<times> err option) \<Rightarrow> string list \<Rightarrow>
   (string \<times> string) list \<times> (string \<times> secret_spec) list \<Rightarrow>
   err + (string \<times> string) list \<times> (string \<times> secret_spec) list" where
  "read_env_files open_file [] st = Inr st"
| "read_env_files open_file (path # paths) st =
     (case load_env_file open_file path of
        Inl e \<Rightarrow> Inl e
      | Inr entries \<Rightarrow> read_env_files open_file paths (fold add_env_entry entries st))"

definition load_env_files ::
  "(string \<Rightarrow> err + string \<times> err option) \<Rightarrow> string list \<Rightarrow> err + env_file_values" where
  "load_env_files open_file paths =
     (case read_env_files open_file paths ([], []) of
        Inl e \<Rightarrow> Inl e
      | Inr (plain, secrets) \<Rightarrow>
          (let aliases = sort (map fst secrets) in
           Inr \<lparr>ev_plain = plain, ev_secrets = map (\<lambda>a. the (map_of secrets a)) aliases,
             ev_aliases = aliases\<rparr>))"

section \<open>Sources of an exec request\<close>

record cli_env =
  ci_client :: client_env
  ci_config :: config_env
  ci_environ :: "string list"
  ci_open_env :: "string \<Rightarrow> err + string \<times> err option"
  ci_token_aliases :: "err + string list"
  ci_detect_account :: string

record exec_flags =
  xf_reason :: string
  xf_cwd :: string
  xf_ttl :: duration
  xf_profile :: string
  xf_config :: string
  xf_account :: string
  xf_override_env :: bool
  xf_force_refresh :: bool
  xf_dry_run :: bool
  xf_reuse_only :: bool
  xf_allow_mutable :: bool
  xf_secrets :: "secret_spec list"
  xf_only :: "string list"
  xf_env_files :: "string list"

record exec_inputs =
  xi_reason :: string
  xi_ttl :: duration
  xi_env :: "string list"
  xi_secrets :: "secret_spec list"
  xi_binding :: binding_policy
  xi_binding_profile :: bool

text \<open>\<open>profile\<close> and \<open>loadedProfile\<close> of the code are one option.\<close>

record exec_sources =
  xs_reason :: string
  xs_ttl :: duration
  xs_env :: "string list"
  xs_env_secrets :: "secret_spec list"
  xs_profile :: "profile option"
  xs_config_account :: string
  xs_sources :: sources

definition getenv :: "cli_env \<Rightarrow> string \<Rightarrow> string" where
  "getenv ci key = lookup_env (ci_environ ci) key"

definition binding_from_profile :: "profile option \<Rightarrow> binding_policy" where
  "binding_from_profile p =
     (case p of
        None \<Rightarrow> default_binding_policy
      | Some pr \<Rightarrow> (case pr_binding pr of None \<Rightarrow> default_binding_policy | Some b \<Rightarrow> b))"

definition config_not_found :: "err \<Rightarrow> bool" where
  "config_not_found e \<longleftrightarrow> err_is e (ConfigErr ErrConfigNotFound)"

definition load_exec_profile ::
  "config_env \<Rightarrow> string \<Rightarrow> string \<Rightarrow> bool \<Rightarrow> err + profile option" where
  "load_exec_profile ce name config_path explicit =
     (if name = '''' \<and> explicit then Inr None
      else case load_profile ce \<lparr>lo_name = name, lo_config = config_path, lo_start = ''''\<rparr> of
        Inr p \<Rightarrow> Inr (Some p)
      | Inl e \<Rightarrow>
          if name = '''' \<and> config_path = '''' \<and> config_not_found e then Inr None else Inl e)"

text \<open>\<open>loadExecConfigAccount\<close> and \<open>loadExecConfigSources\<close> differ in the field they return.\<close>

definition load_exec_metadata ::
  "config_env \<Rightarrow> string \<Rightarrow> string \<Rightarrow> bool \<Rightarrow> bool \<Rightarrow> (config_metadata \<Rightarrow> 'a) \<Rightarrow> 'a \<Rightarrow> err + 'a" where
  "load_exec_metadata ce name config_path explicit loaded field none =
     (if name \<noteq> '''' \<or> \<not> explicit \<or> loaded then Inr none
      else case load_metadata ce \<lparr>lo_name = '''', lo_config = config_path, lo_start = ''''\<rparr> of
        Inr m \<Rightarrow> Inr (field m)
      | Inl e \<Rightarrow> if config_path = '''' \<and> config_not_found e then Inr none else Inl e)"

definition load_config_account ::
  "config_env \<Rightarrow> string \<Rightarrow> string \<Rightarrow> bool \<Rightarrow> bool \<Rightarrow> err + string" where
  "load_config_account ce name config_path explicit loaded =
     load_exec_metadata ce name config_path explicit loaded cm_account ''''"

definition load_config_sources ::
  "config_env \<Rightarrow> string \<Rightarrow> string \<Rightarrow> bool \<Rightarrow> bool \<Rightarrow> err + sources" where
  "load_config_sources ce name config_path explicit loaded =
     load_exec_metadata ce name config_path explicit loaded cm_sources []"

definition load_exec_sources :: "cli_env \<Rightarrow> exec_flags \<Rightarrow> err + exec_sources" where
  "load_exec_sources ci f =
     (case load_env_files (ci_open_env ci) (xf_env_files f) of
        Inl e \<Rightarrow> Inl e
      | Inr ev \<Rightarrow>
     (let child_env = remove_env_keys (merge_env (ci_environ ci) (ev_plain ev)) (ev_aliases ev);
          explicit = (xf_secrets f \<noteq> [] \<or> xf_env_files f \<noteq> [])
      in case load_exec_profile (ci_config ci) (xf_profile f) (xf_config f) explicit of
        Inl e \<Rightarrow> Inl e
      | Inr p \<Rightarrow>
     (case load_config_account (ci_config ci) (xf_profile f) (xf_config f) explicit (p \<noteq> None) of
        Inl e \<Rightarrow> Inl e
      | Inr account \<Rightarrow>
     (case load_config_sources (ci_config ci) (xf_profile f) (xf_config f) explicit (p \<noteq> None) of
        Inl e \<Rightarrow> Inl e
      | Inr ss \<Rightarrow>
          Inr \<lparr>xs_reason = (case p of Some pr \<Rightarrow> if xf_reason f = '''' then pr_reason pr else xf_reason f
                                     | None \<Rightarrow> xf_reason f),
            xs_ttl = (case p of Some pr \<Rightarrow> if xf_ttl f = 0 then pr_ttl pr else xf_ttl f | None \<Rightarrow> xf_ttl f),
            xs_env = child_env, xs_env_secrets = ev_secrets ev, xs_profile = p,
            xs_config_account = account,
            xs_sources = (case p of Some pr \<Rightarrow> pr_sources pr | None \<Rightarrow> ss)\<rparr>))))"

section \<open>The aliases asked for\<close>

text \<open>Each alias of \<open>--only\<close> selects its first secret; \<open>remaining\<close> is the set of those not yet met.\<close>

fun only_loop :: "secret_spec list \<Rightarrow> string list \<Rightarrow> secret_spec list \<times> string list" where
  "only_loop [] remaining = ([], remaining)"
| "only_loop (s # ss) remaining =
     (if sp_alias s \<in> set remaining
      then apfst (Cons s) (only_loop ss (removeAll (sp_alias s) remaining))
      else only_loop ss remaining)"

definition filter_by_only ::
  "secret_spec list \<Rightarrow> string list \<Rightarrow> bool \<Rightarrow> secret_spec list \<times> string list" where
  "filter_by_only secrets remaining active =
     (if active then only_loop secrets remaining else (secrets, remaining))"

definition filter_exec_secrets ::
  "exec_flags \<Rightarrow> exec_sources \<Rightarrow> err + secret_spec list \<times> secret_spec list" where
  "filter_exec_secrets f xs =
     (let active = (xf_only f \<noteq> []) in
      if active \<and> xs_profile xs = None \<and> xs_env_secrets xs = [] then Inl invalid_arguments
      else
        (let (env_secrets, left) = filter_by_only (xs_env_secrets xs) (xf_only f) active;
             (profile_secrets, left') =
               (case xs_profile xs of
                  None \<Rightarrow> ([], left)
                | Some p \<Rightarrow> filter_by_only (pr_secrets p) left active)
         in if active \<and> left' \<noteq> [] then Inl invalid_arguments else Inr (profile_secrets, env_secrets)))"

section \<open>Accounts\<close>

definition account_fallback :: "cli_env \<Rightarrow> string \<Rightarrow> string" where
  "account_fallback ci cli_account =
     (if trim_space cli_account \<noteq> '''' then trim_space cli_account
      else if trim_space (getenv ci ''AGENT_SECRET_1PASSWORD_ACCOUNT'') \<noteq> ''''
      then trim_space (getenv ci ''AGENT_SECRET_1PASSWORD_ACCOUNT'')
      else select_concrete_account '''' (getenv ci ''OP_ACCOUNT'') (Some (ci_detect_account ci)))"

definition needs_account :: "secret_spec list \<Rightarrow> bool" where
  "needs_account secrets \<longleftrightarrow>
     list_ex (\<lambda>s. trim_space (sp_account s) = '''' \<and> \<not> is_bitwarden (sp_ref s) \<and>
       has_prefix (sp_ref s) ''op://'') secrets"

definition exec_account_fallback :: "cli_env \<Rightarrow> exec_flags \<Rightarrow> exec_sources \<Rightarrow> string" where
  "exec_account_fallback ci f xs =
     (if trim_space (xf_account f) \<noteq> '''' then trim_space (xf_account f)
      else if xs_profile xs = None \<and> trim_space (xs_config_account xs) \<noteq> ''''
      then trim_space (xs_config_account xs)
      else account_fallback ci '''')"

definition direct_account_fallback ::
  "cli_env \<Rightarrow> exec_flags \<Rightarrow> exec_sources \<Rightarrow> secret_spec list \<Rightarrow> string" where
  "direct_account_fallback ci f xs secrets =
     (if needs_account secrets then exec_account_fallback ci f xs else '''')"

definition profile_account_fallback ::
  "cli_env \<Rightarrow> exec_flags \<Rightarrow> exec_sources \<Rightarrow> profile \<Rightarrow> secret_spec list \<Rightarrow> string" where
  "profile_account_fallback ci f xs p secrets =
     (if trim_space (xf_account f) \<noteq> '''' then trim_space (xf_account f)
      else if trim_space (pr_account p) \<noteq> '''' then trim_space (pr_account p)
      else if \<not> needs_account secrets then ''''
      else exec_account_fallback ci f xs)"

definition apply_default_account :: "secret_spec list \<Rightarrow> string \<Rightarrow> secret_spec list" where
  "apply_default_account secrets account =
     (let a = trim_space account in
      if a = '''' \<or> secrets = [] then secrets
      else map (\<lambda>s. if \<not> is_bitwarden (sp_ref s) \<and> sp_account s = '''' then s\<lparr>sp_account := a\<rparr> else s)
        secrets)"

definition explicit_account :: "profile \<Rightarrow> string \<Rightarrow> string" where
  "explicit_account p fallback =
     (if trim_space (pr_account p) \<noteq> '''' then trim_space (pr_account p) else fallback)"

definition assemble_profile_secrets ::
  "exec_flags \<Rightarrow> profile \<Rightarrow> secret_spec list \<times> secret_spec list \<Rightarrow> string \<Rightarrow> secret_spec list" where
  "assemble_profile_secrets f p filtered fallback =
     apply_default_account (fst filtered) fallback @
     apply_default_account (xf_secrets f @ snd filtered) (explicit_account p fallback)"

definition assemble_direct_secrets ::
  "exec_flags \<Rightarrow> secret_spec list \<times> secret_spec list \<Rightarrow> string \<Rightarrow> secret_spec list" where
  "assemble_direct_secrets f filtered fallback =
     apply_default_account (xf_secrets f) fallback @ apply_default_account (snd filtered) fallback"

definition assemble_exec_secrets ::
  "cli_env \<Rightarrow> exec_flags \<Rightarrow> exec_sources \<Rightarrow> secret_spec list \<times> secret_spec list \<Rightarrow> secret_spec list" where
  "assemble_exec_secrets ci f xs filtered =
     (case xs_profile xs of
        Some p \<Rightarrow>
          assemble_profile_secrets f p filtered
            (profile_account_fallback ci f xs p (fst filtered @ xf_secrets f @ snd filtered))
      | None \<Rightarrow>
          assemble_direct_secrets f filtered
            (direct_account_fallback ci f xs (xf_secrets f @ snd filtered)))"

section \<open>Bitwarden sources\<close>

text \<open>The cache holds the local token aliases once they were listed.\<close>

definition cached_aliases ::
  "err + string list \<Rightarrow> string list option \<Rightarrow> err + string list \<times> string list option" where
  "cached_aliases lister cache =
     (case cache of
        Some values \<Rightarrow> Inr (values, cache)
      | None \<Rightarrow> (case lister of Inl e \<Rightarrow> Inl e | Inr values \<Rightarrow> Inr (values, Some values)))"

definition invalid_reference :: err where
  "invalid_reference = Err (RequestErr ErrInvalidReference)"

definition implicit_source ::
  "err + string list \<Rightarrow> sources \<Rightarrow> string list option \<Rightarrow> err + string \<times> string list option" where
  "implicit_source lister ss cache =
     (case single_bitwarden_source ss of
        Some configured \<Rightarrow> Inr (bw_alias configured, cache)
      | None \<Rightarrow>
          if 1 < length ss then Inl invalid_reference
          else case cached_aliases lister cache of
            Inl e \<Rightarrow> Inl e
          | Inr (values, cache') \<Rightarrow>
              (case values of [a] \<Rightarrow> Inr (a, cache') | _ \<Rightarrow> Inl invalid_reference))"

definition resolve_bitwarden ::
  "err + string list \<Rightarrow> sources \<Rightarrow> string list option \<Rightarrow> secret_spec \<Rightarrow>
   err + secret_spec \<times> string list option" where
  "resolve_bitwarden lister ss cache s =
     (if \<not> is_bitwarden (sp_ref s) then Inr (s, cache)
      else case parse_secret_ref (sp_ref s) of
        Inl e \<Rightarrow> Inl e
      | Inr parsed \<Rightarrow>
          (let source0 = trim_space (sp_source s) in
           if rf_source parsed \<noteq> '''' \<and> source0 \<noteq> '''' \<and> source0 \<noteq> rf_source parsed
           then Inl invalid_reference
           else
             (let source1 = (if rf_source parsed \<noteq> '''' then rf_source parsed else source0) in
              case (if source1 = '''' then implicit_source lister ss cache else Inr (source1, cache)) of
                Inl e \<Rightarrow> Inl e
              | Inr (source, cache') \<Rightarrow>
                  (case map_of ss source of
                     None \<Rightarrow>
                       if ss \<noteq> [] then Inl invalid_reference
                       else Inr (s\<lparr>sp_source := source,
                         sp_bitwarden := bitwarden_zero\<lparr>bw_alias := source, bw_token_alias := source\<rparr>\<rparr>, cache')
                   | Some configured \<Rightarrow>
                       Inr (s\<lparr>sp_source := bw_alias configured, sp_bitwarden := configured\<rparr>, cache')))))"

fun resolve_bitwarden_all ::
  "err + string list \<Rightarrow> sources \<Rightarrow> string list option \<Rightarrow> secret_spec list \<Rightarrow> err + secret_spec list" where
  "resolve_bitwarden_all lister ss cache [] = Inr []"
| "resolve_bitwarden_all lister ss cache (s # secrets) =
     (case resolve_bitwarden lister ss cache s of
        Inl e \<Rightarrow> Inl e
      | Inr (s', cache') \<Rightarrow>
          (case resolve_bitwarden_all lister ss cache' secrets of
             Inl e \<Rightarrow> Inl e
           | Inr rest \<Rightarrow> Inr (s' # rest)))"

definition resolve_exec_secrets :: "cli_env \<Rightarrow> exec_flags \<Rightarrow> exec_sources \<Rightarrow> err + secret_spec list" where
  "resolve_exec_secrets ci f xs =
     (case filter_exec_secrets f xs of
        Inl e \<Rightarrow> Inl e
      | Inr filtered \<Rightarrow>
          resolve_bitwarden_all (ci_token_aliases ci) (xs_sources xs) None
            (assemble_exec_secrets ci f xs filtered))"

definition resolve_exec_inputs :: "cli_env \<Rightarrow> exec_flags \<Rightarrow> err + exec_inputs" where
  "resolve_exec_inputs ci f =
     (case load_exec_sources ci f of
        Inl e \<Rightarrow> Inl e
      | Inr xs \<Rightarrow>
     (case validate_reason (xs_reason xs) of
        Inl e \<Rightarrow> Inl e
      | Inr _ \<Rightarrow>
     (case resolve_exec_secrets ci f xs of
        Inl e \<Rightarrow> Inl e
      | Inr secrets \<Rightarrow>
          Inr \<lparr>xi_reason = xs_reason xs, xi_ttl = xs_ttl xs, xi_env = xs_env xs, xi_secrets = secrets,
            xi_binding = binding_from_profile (xs_profile xs),
            xi_binding_profile = (case xs_profile xs of None \<Rightarrow> False | Some p \<Rightarrow> pr_binding p \<noteq> None)\<rparr>)))"

end
