(* ===== verification/ExecWrap.thy ===== *)
theory ExecWrap
  imports ExecInputs
begin

text \<open>
  Running the approved command: \<open>internal/execwrap/execwrap.go\<close> and \<open>process_darwin.go\<close>. What the
  operating system and the lifecycle reporter answer is a record; \<open>run_child\<close> returns what was done,
  in order. Signals while the child runs are a step relation.
\<close>

section \<open>The environment of the child\<close>

definition merge_child_env :: "string list \<Rightarrow> (string \<times> string) list \<Rightarrow> bool \<Rightarrow> err + string list" where
  "merge_child_env base overlay override =
     (let aliases = sort (map fst overlay);
          kept = filter (\<lambda>e. case entry_key e of
              None \<Rightarrow> True | Some k \<Rightarrow> \<not> (override \<and> k \<in> set aliases)) base
      in if \<not> override \<and> list_ex (\<lambda>a. a \<in> set (env_keys base)) aliases
         then Inl (Err (ExecErr ErrEnvironmentConflict))
         else Inr (kept @ map (\<lambda>a. env_entry_text a (the (map_of overlay a))) aliases))"

section \<open>Running a child\<close>

record child_spec =
  cs_path :: string
  cs_identity :: identity
  cs_args :: "string list"
  cs_dir :: string
  cs_base_env :: "string list option"
  cs_env :: "(string \<times> string) list"
  cs_override :: bool

datatype signal = SigInt | SigTerm | SigKill | SigOther int

record child_result =
  cr_exit :: int
  cr_signal :: "signal option"

definition no_result :: child_result where
  "no_result = \<lparr>cr_exit = 0, cr_signal = None\<rparr>"

text \<open>What standard input is, and whether the terminal can be handed over and back.\<close>

datatype terminal =
    NotAFile
  | BadDescriptor err
  | NotATerminal
  | Terminal "err option" "err option"

record child_world =
  cw_fs :: file_system
  cw_environ :: "string list"
  cw_start :: "err + int"
  cw_terminal :: terminal
  cw_signal :: "signal \<Rightarrow> err option"
  cw_started :: "int \<Rightarrow> err option"
  cw_wait_error :: "err option"
  cw_state :: "child_result option"
  cw_completed :: "child_result \<Rightarrow> err option"

datatype child_effect =
    Spawned string "string list" string "string list"
  | Foregrounded
  | Signalled signal
  | ReportedStart int
  | Waited
  | Restored
  | ReportedResult child_result

text \<open>\<open>foregroundChild\<close>: the effects, and the way back to the terminal or the error.\<close>

definition foreground_child :: "child_world \<Rightarrow> child_effect list \<times> (err + (child_effect list \<times> err option))" where
  "foreground_child w =
     (case cw_terminal w of
        NotAFile \<Rightarrow> ([], Inr ([], None))
      | BadDescriptor e \<Rightarrow> ([], Inl e)
      | NotATerminal \<Rightarrow> ([], Inr ([], None))
      | Terminal (Some e) restore \<Rightarrow> ([], Inl e)
      | Terminal None restore \<Rightarrow> ([Foregrounded], Inr ([Restored], restore)))"

definition terminate_child :: "child_world \<Rightarrow> child_effect list" where
  "terminate_child w =
     (case cw_signal w SigTerm of
        Some e \<Rightarrow> [Signalled SigTerm]
      | None \<Rightarrow> [Signalled SigTerm, Signalled SigKill])"

definition result_from_state :: "child_result option \<Rightarrow> child_result" where
  "result_from_state state =
     (case state of None \<Rightarrow> \<lparr>cr_exit = -1, cr_signal = None\<rparr> | Some r \<Rightarrow> r)"

text \<open>After the start was reported: wait, give the terminal back, report the result.\<close>

definition finish_child ::
  "child_world \<Rightarrow> child_effect list \<times> err option \<Rightarrow> child_effect list \<times> child_result \<times> err option" where
  "finish_child w restore =
     (let result = result_from_state (cw_state w);
          done_effects = Waited # fst restore @ [ReportedResult result]
      in case cw_completed w result of
           Some e \<Rightarrow> (done_effects, result, Some e)
         | None \<Rightarrow>
             (case cw_wait_error w of
                Some e \<Rightarrow> (done_effects, result, if cw_state w = None then Some e else snd restore)
              | None \<Rightarrow> (done_effects, result, snd restore)))"

definition run_child :: "child_world \<Rightarrow> child_spec \<Rightarrow> child_effect list \<times> child_result \<times> err option" where
  "run_child w s =
     (if cs_path s = '''' then ([], no_result, Some (Text ''command path is required''))
      else case verify_identity (cw_fs w) (cs_path s) (cs_identity s) of
        Some e \<Rightarrow> ([], no_result, Some (Wrap (ExecErr ErrExecutableChanged) e))
      | None \<Rightarrow>
     (case merge_child_env (case cs_base_env s of None \<Rightarrow> cw_environ w | Some b \<Rightarrow> b) (cs_env s) (cs_override s) of
        Inl e \<Rightarrow> ([], no_result, Some e)
      | Inr env \<Rightarrow>
     (case cw_start w of
        Inl e \<Rightarrow> ([], no_result, Some e)
      | Inr pid \<Rightarrow>
     (let spawn = Spawned (cs_path s) (cs_args s) (cs_dir s) env in
      case foreground_child w of
        (es, Inl e) \<Rightarrow> (spawn # es @ terminate_child w @ [Waited], no_result, Some e)
      | (es, Inr restore) \<Rightarrow>
     (case cw_started w pid of
        Some e \<Rightarrow>
          (spawn # es @ ReportedStart pid # terminate_child w @ Waited # fst restore, no_result, Some e)
      | None \<Rightarrow>
          (case finish_child w restore of
             (fs, result, e) \<Rightarrow> (spawn # es @ ReportedStart pid # fs, result, e)))))))"

section \<open>Signals while the child runs\<close>

text \<open>
  \<open>forwardInterrupts\<close> and \<open>terminateOnContext\<close> run beside \<open>cmd.Wait\<close> until \<open>done\<close> is closed: time
  passes, the first forwards what it receives, the second sends SIGTERM once the context is done and
  SIGKILL when the child outlives the grace period.
\<close>

definition terminate_grace_period :: duration where
  "terminate_grace_period = 2 * 10 ^ 9"

datatype watcher = Watching | Grace go_time | Stopped

record running_child =
  rc_now :: go_time
  rc_done :: bool
  rc_watcher :: watcher
  rc_forwarding :: bool
  rc_sent :: "(go_time \<times> signal) list"
  rc_cancelled :: "go_time option"

definition child_started :: "go_time \<Rightarrow> running_child" where
  "child_started t =
     \<lparr>rc_now = t, rc_done = False, rc_watcher = Watching, rc_forwarding = True, rc_sent = [],
       rc_cancelled = None\<rparr>"

definition send_signal :: "signal \<Rightarrow> running_child \<Rightarrow> running_child" where
  "send_signal s r = r\<lparr>rc_sent := (rc_now r, s) # rc_sent r\<rparr>"

inductive child_step :: "running_child \<Rightarrow> running_child \<Rightarrow> bool" where
  tick: "rc_now r \<le> t \<Longrightarrow> child_step r (r\<lparr>rc_now := t\<rparr>)"
| cancel: "rc_cancelled r = None \<Longrightarrow> child_step r (r\<lparr>rc_cancelled := Some (rc_now r)\<rparr>)"
| exited: "child_step r (r\<lparr>rc_done := True\<rparr>)"
| forward: "rc_forwarding r \<Longrightarrow> child_step r (send_signal SigInt r)"
| forward_term: "rc_forwarding r \<Longrightarrow> child_step r (send_signal SigTerm r)"
| forward_done: "rc_done r \<Longrightarrow> child_step r (r\<lparr>rc_forwarding := False\<rparr>)"
| watch_done: "rc_watcher r = Watching \<Longrightarrow> rc_done r \<Longrightarrow> child_step r (r\<lparr>rc_watcher := Stopped\<rparr>)"
| watch_term: "rc_watcher r = Watching \<Longrightarrow> rc_cancelled r \<noteq> None \<Longrightarrow>
    child_step r (send_signal SigTerm (r\<lparr>rc_watcher := Grace (rc_now r)\<rparr>))"
| grace_done: "rc_watcher r = Grace t \<Longrightarrow> rc_done r \<Longrightarrow> child_step r (r\<lparr>rc_watcher := Stopped\<rparr>)"
| grace_kill: "rc_watcher r = Grace t \<Longrightarrow> t + terminate_grace_period \<le> rc_now r \<Longrightarrow>
    child_step r (send_signal SigKill (r\<lparr>rc_watcher := Stopped\<rparr>))"

definition child_reachable :: "running_child \<Rightarrow> bool" where
  "child_reachable r \<longleftrightarrow> (\<exists>t. child_step\<^sup>*\<^sup>* (child_started t) r)"

text \<open>A kill comes after the cancellation and a termination signal at least the grace period before.\<close>

definition kill_after_term :: "running_child \<Rightarrow> bool" where
  "kill_after_term r \<longleftrightarrow>
     (\<forall>(t, s) \<in> set (rc_sent r). s = SigKill \<longrightarrow>
        (\<exists>c u. rc_cancelled r = Some c \<and> c \<le> u \<and> (u, SigTerm) \<in> set (rc_sent r) \<and>
           u + terminate_grace_period \<le> t)) \<and>
     (\<forall>c. rc_cancelled r = Some c \<longrightarrow> c \<le> rc_now r) \<and>
     (\<forall>u. rc_watcher r = Grace u \<longrightarrow>
        (\<exists>c. rc_cancelled r = Some c \<and> c \<le> u) \<and> (u, SigTerm) \<in> set (rc_sent r))"

lemma kill_after_term_step: "child_step r r' \<Longrightarrow> kill_after_term r \<Longrightarrow> kill_after_term r'"
  by (induction rule: child_step.induct) (fastforce simp: kill_after_term_def send_signal_def)+

lemma kill_after_term_reachable:
  assumes "child_reachable r"
  shows "kill_after_term r"
proof -
  obtain t where "child_step\<^sup>*\<^sup>* (child_started t) r"
    using assms by (auto simp: child_reachable_def)
  then show ?thesis
    by induction (auto simp: kill_after_term_step, simp add: kill_after_term_def child_started_def)
qed

section \<open>What the child sees\<close>

lemma entry_key_text: "CHR ''='' \<notin> set k \<Longrightarrow> cut_byte (CHR ''='') (env_entry_text k v) = Some (k, v)"
  unfolding env_entry_text_def by (induction k) auto

lemma lookup_env_append:
  "lookup_env (xs @ ys) k = (if k \<in> set (env_keys xs) then lookup_env xs k else lookup_env ys k)"
  by (induction xs) (auto split: option.splits)

lemma env_keys_append: "env_keys (xs @ ys) = env_keys xs @ env_keys ys"
  by (induction xs) (auto split: option.splits)

lemma lookup_env_absent: "k \<notin> set (env_keys es) \<Longrightarrow> lookup_env es k = ''''"
  by (induction es) (auto split: option.splits)

lemma lookup_env_filter:
  "k \<notin> A \<Longrightarrow>
     lookup_env (filter (\<lambda>e. case entry_key e of None \<Rightarrow> True | Some x \<Rightarrow> x \<notin> A) es) k = lookup_env es k"
  by (induction es) (auto simp: entry_key_def split: option.splits)

lemma env_keys_filter:
  "env_keys (filter (\<lambda>e. case entry_key e of None \<Rightarrow> True | Some x \<Rightarrow> x \<notin> A) es) =
     filter (\<lambda>x. x \<notin> A) (env_keys es)"
  by (induction es) (auto simp: entry_key_def split: option.splits)

lemma lookup_env_texts:
  assumes "\<forall>k \<in> set ks. CHR ''='' \<notin> set k"
  shows "lookup_env (map (\<lambda>a. env_entry_text a (f a)) ks) k = (if k \<in> set ks then f k else '''')"
    and "env_keys (map (\<lambda>a. env_entry_text a (f a)) ks) = ks"
  using assms by (induction ks) (auto simp: entry_key_text)

lemma merge_child_env_lookup:
  assumes "merge_child_env base overlay override = Inr env"
    and "\<forall>k \<in> set (map fst overlay). CHR ''='' \<notin> set k"
  shows "lookup_env env k = (case map_of overlay k of Some v \<Rightarrow> v | None \<Rightarrow> lookup_env base k)"
    and "env_keys env = filter (\<lambda>x. x \<notin> set (map fst overlay)) (env_keys base) @ sort (map fst overlay)"
proof -
  let ?as = "sort (map fst overlay)"
  have texts: "\<forall>k \<in> set ?as. CHR ''='' \<notin> set k" using assms(2) by simp
  have free: "\<not> override \<Longrightarrow> set ?as \<inter> set (env_keys base) = {}"
    using assms(1) by (auto simp: merge_child_env_def Let_def list_ex_iff split: if_splits)
  let ?kept = "filter (\<lambda>e. case entry_key e of None \<Rightarrow> True | Some x \<Rightarrow> x \<notin> set ?as) base"
  have key_in: "entry_key e = Some x \<Longrightarrow> e \<in> set base \<Longrightarrow> x \<in> set (env_keys base)" for e x
    by (induction base) (auto simp: entry_key_def split: option.splits)
  have "filter (\<lambda>e. case entry_key e of None \<Rightarrow> True | Some k \<Rightarrow> \<not> (override \<and> k \<in> set ?as)) base = ?kept"
    by (rule filter_cong) (use free key_in in \<open>auto split: option.splits\<close>)
  then have env: "env = ?kept @ map (\<lambda>a. env_entry_text a (the (map_of overlay a))) ?as"
    using assms(1) by (auto simp: merge_child_env_def Let_def split: if_splits)
  show "env_keys env = filter (\<lambda>x. x \<notin> set (map fst overlay)) (env_keys base) @ ?as"
    by (simp only: env env_keys_append env_keys_filter lookup_env_texts(2) [OF texts] set_sort)
  have dom: "k \<in> set ?as \<longleftrightarrow> map_of overlay k \<noteq> None"
    by (simp add: map_of_eq_None_iff)
  show "lookup_env env k = (case map_of overlay k of Some v \<Rightarrow> v | None \<Rightarrow> lookup_env base k)"
  proof (cases "k \<in> set ?as")
    case True
    then have "lookup_env env k = the (map_of overlay k)"
      by (simp only: env lookup_env_append env_keys_filter lookup_env_texts(1) [OF texts]) simp
    with True dom show ?thesis by auto
  next
    case False
    then have kept: "lookup_env ?kept k = lookup_env base k" by (rule lookup_env_filter)
    have "lookup_env env k = (if k \<in> set (env_keys ?kept) then lookup_env ?kept k else '''')"
      using False by (simp only: env lookup_env_append lookup_env_texts(1) [OF texts] if_False)
    also have "\<dots> = lookup_env ?kept k"
      using lookup_env_absent by metis
    finally have "lookup_env env k = lookup_env base k" using kept by simp
    with False dom show ?thesis by auto
  qed
qed

text \<open>A request whose overrides were detected in the same environment never conflicts with it.\<close>

lemma merge_child_env_total:
  assumes "override \<or> set (map fst overlay) \<inter> set (env_keys base) = {}"
  shows "\<exists>env. merge_child_env base overlay override = Inr env"
  using assms by (auto simp: merge_child_env_def Let_def list_ex_iff)

lemma run_child_spawn:
  assumes "run_child w s = (es, r, e)" "Spawned p as d env \<in> set es"
  shows "verify_identity (cw_fs w) (cs_path s) (cs_identity s) = None"
    and "p = cs_path s \<and> as = cs_args s \<and> d = cs_dir s"
    and "merge_child_env (case cs_base_env s of None \<Rightarrow> cw_environ w | Some b \<Rightarrow> b) (cs_env s) (cs_override s) =
      Inr env"
  using assms
  by (auto simp: run_child_def Let_def foreground_child_def terminate_child_def finish_child_def
      split: if_splits option.splits sum.splits terminal.splits prod.splits)

text \<open>Every child that was spawned is waited for, exactly once, before anything is reported of its end.\<close>

definition waits :: "child_effect list \<Rightarrow> nat" where
  "waits es = length (filter (\<lambda>e. e = Waited) es)"

lemma run_child_waits:
  assumes "run_child w s = (es, r, e)"
  shows "waits es = (if es = [] then 0 else 1)"
  using assms
  by (auto simp: run_child_def Let_def foreground_child_def terminate_child_def finish_child_def waits_def
      split: if_splits option.splits sum.splits terminal.splits prod.splits)

text \<open>A child whose start could not be reported is terminated, and no result of it is reported.\<close>

lemma run_child_unreported:
  assumes "run_child w s = (es, r, e)" "ReportedStart pid \<in> set es" "cw_started w pid = Some x"
  shows "e = Some x" and "Signalled SigTerm \<in> set es" and "ReportedResult r' \<notin> set es"
  using assms
  by (auto simp: run_child_def Let_def foreground_child_def terminate_child_def finish_child_def
      split: if_splits option.splits sum.splits terminal.splits prod.splits)

lemma run_child_result:
  assumes "run_child w s = (es, r, None)"
  shows "r = result_from_state (cw_state w) \<and> ReportedResult r \<in> set es"
  using assms
  by (auto simp: run_child_def Let_def foreground_child_def terminate_child_def finish_child_def
      split: if_splits option.splits sum.splits terminal.splits prod.splits)

end
