(* ===== verification/CommandLine.thy ===== *)
theory CommandLine
  imports ExecInputs
begin

text \<open>
  The command line: \<open>internal/cli/cli.go\<close> and the parsers of \<open>exec_parse.go\<close>, \<open>session_parse.go\<close>,
  \<open>item_parse.go\<close>, \<open>system_parse.go\<close> and \<open>app_bitwarden.go\<close>, over the flag sets of Go's package
  \<open>flag\<close>. Parsing integers and durations is an argument. A request for help, which the code returns as
  a command of kind \<open>help\<close> together with \<open>ErrHelpRequested\<close>, is the command.
\<close>

section \<open>Flag sets\<close>

record 's flag =
  fl_name :: string
  fl_bool :: bool
  fl_set :: "string \<Rightarrow> 's \<Rightarrow> err + 's"

record flag_env =
  fe_int :: "string \<Rightarrow> err + int"
  fe_duration :: "string \<Rightarrow> err + duration"

text \<open>\<open>strconv.ParseBool\<close>.\<close>

definition parse_bool :: "string \<Rightarrow> err + bool" where
  "parse_bool v =
     (if v \<in> {''1'', ''t'', ''T'', ''TRUE'', ''true'', ''True''} then Inr True
      else if v \<in> {''0'', ''f'', ''F'', ''FALSE'', ''false'', ''False''} then Inr False
      else Inl (Text ''parse error''))"

definition flag_of :: "string \<Rightarrow> bool \<Rightarrow> (string \<Rightarrow> err + 'a) \<Rightarrow> ('a \<Rightarrow> 's \<Rightarrow> 's) \<Rightarrow> 's flag" where
  "flag_of name b parse upd =
     \<lparr>fl_name = name, fl_bool = b,
       fl_set = (\<lambda>v st. case parse v of Inl e \<Rightarrow> Inl e | Inr x \<Rightarrow> Inr (upd x st))\<rparr>"

definition string_flag :: "string \<Rightarrow> (string \<Rightarrow> 's \<Rightarrow> 's) \<Rightarrow> 's flag" where
  "string_flag name upd = flag_of name False Inr upd"

definition bool_flag :: "string \<Rightarrow> (bool \<Rightarrow> 's \<Rightarrow> 's) \<Rightarrow> 's flag" where
  "bool_flag name upd = flag_of name True parse_bool upd"

text \<open>\<open>FlagSet.Var\<close>: the value of the flag is a part of the state.\<close>

definition var_flag ::
  "string \<Rightarrow> (string \<Rightarrow> 'a \<Rightarrow> err + 'a) \<Rightarrow> ('s \<Rightarrow> 'a) \<Rightarrow> ('a \<Rightarrow> 's \<Rightarrow> 's) \<Rightarrow> 's flag" where
  "var_flag name set_value get upd =
     \<lparr>fl_name = name, fl_bool = False,
       fl_set = (\<lambda>v st. case set_value v (get st) of Inl e \<Rightarrow> Inl e | Inr x \<Rightarrow> Inr (upd x st))\<rparr>"

text \<open>\<open>registerJSONOutputFlag\<close>: a flag whose value is optional.\<close>

definition json_flag :: "(json_mode \<Rightarrow> 's \<Rightarrow> 's) \<Rightarrow> 's flag" where
  "json_flag upd = flag_of ''json'' True set_json_flag upd"

definition find_flag :: "'s flag list \<Rightarrow> string \<Rightarrow> 's flag option" where
  "find_flag flags name = find (\<lambda>f. fl_name f = name) flags"

text \<open>The name and the value of an argument \<open>-name\<close> or \<open>-name=value\<close> without its dashes.\<close>

definition flag_parts :: "string \<Rightarrow> string \<times> string option" where
  "flag_parts name =
     (case cut_byte (CHR ''='') name of None \<Rightarrow> (name, None) | Some (n, v) \<Rightarrow> (n, Some v))"

definition strip_dashes :: "string \<Rightarrow> string" where
  "strip_dashes s = (if has_prefix s ''--'' then drop 2 s else drop 1 s)"

definition is_flag_arg :: "string \<Rightarrow> bool" where
  "is_flag_arg s \<longleftrightarrow> 2 \<le> length s \<and> hd s = CHR ''-''"

definition bad_flag_name :: "string \<Rightarrow> bool" where
  "bad_flag_name name \<longleftrightarrow> name = '''' \<or> hd name = CHR ''-'' \<or> hd name = CHR ''=''"

text \<open>One flag: the new state and the arguments that are left.\<close>

definition parse_one :: "'s flag list \<Rightarrow> string \<Rightarrow> string list \<Rightarrow> 's \<Rightarrow> err + 's \<times> string list" where
  "parse_one flags s rest st =
     (if bad_flag_name (strip_dashes s) then Inl (Text ''bad flag syntax'')
      else case flag_parts (strip_dashes s) of
        (name, value) \<Rightarrow>
          (case find_flag flags name of
             None \<Rightarrow> Inl (Text ''flag provided but not defined'')
           | Some f \<Rightarrow>
               if fl_bool f then
                 (case fl_set f (case value of None \<Rightarrow> ''true'' | Some v \<Rightarrow> v) st of
                    Inl e \<Rightarrow> Inl e | Inr st' \<Rightarrow> Inr (st', rest))
               else
                 (case value of
                    Some v \<Rightarrow> (case fl_set f v st of Inl e \<Rightarrow> Inl e | Inr st' \<Rightarrow> Inr (st', rest))
                  | None \<Rightarrow>
                      (case rest of
                         [] \<Rightarrow> Inl (Text ''flag needs an argument'')
                       | v # rest' \<Rightarrow>
                           (case fl_set f v st of Inl e \<Rightarrow> Inl e | Inr st' \<Rightarrow> Inr (st', rest'))))))"

lemma parse_one_length: "parse_one flags s rest st = Inr (st', rest') \<Longrightarrow> length rest' \<le> length rest"
  by (auto simp: parse_one_def split: if_splits prod.splits option.splits sum.splits list.splits)

function parse_flags :: "'s flag list \<Rightarrow> string list \<Rightarrow> 's \<Rightarrow> err + 's \<times> string list" where
  "parse_flags flags [] st = Inr (st, [])"
| "parse_flags flags (s # rest) st =
     (if \<not> is_flag_arg s then Inr (st, s # rest)
      else if s = ''--'' then Inr (st, rest)
      else case parse_one flags s rest st of
        Inl e \<Rightarrow> Inl e
      | Inr (st', rest') \<Rightarrow> parse_flags flags rest' st')"
  by pat_completeness auto
termination
  by (relation "measure (\<lambda>(flags, args, st). length args)") (auto dest!: parse_one_length)

text \<open>\<open>fs.Parse\<close> with the error of every parser around it: \<open>invalid arguments\<close>.\<close>

definition parse_args :: "'s flag list \<Rightarrow> string list \<Rightarrow> 's \<Rightarrow> err + 's \<times> string list" where
  "parse_args flags args st =
     (case parse_flags flags args st of Inl e \<Rightarrow> Inl invalid_arguments | Inr r \<Rightarrow> Inr r)"

section \<open>Commands\<close>

datatype help_topic =
    TopHelp | ExecHelp | SessionHelp | WithSessionHelp | ItemHelp | ItemDescribeHelp | VersionHelp
  | AgentContextHelp | ProfileHelp | ProfileListHelp | ProfileShowHelp | DaemonHelp | DoctorHelp
  | RepairHelp | InstallCLIHelp | SkillInstallHelp | BitwardenHelp

datatype token_operation = TokenInstall | TokenStatus | TokenRemove

datatype command =
    CmdHelp help_topic
  | CmdVersion bool
  | CmdAgentContext string
  | CmdExec bool exec_request "string list" bool
  | CmdSessionCreate json_mode session_create_request
  | CmdSessionList json_mode
  | CmdSessionDestroy json_mode session_destroy_request
  | CmdWithSession session_resolve_request "string list"
  | CmdItemDescribe item_describe_request format string
  | CmdProfileList bool string
  | CmdProfileShow bool string string
  | CmdDoctor bool
  | CmdRepair bool
  | CmdBitwarden bool token_operation string bool
  | CmdInstallCLI bool string bool
  | CmdSkillInstall bool string bool
  | CmdDaemonStart bool
  | CmdDaemonStop bool
  | CmdDaemonStatus bool

definition is_help :: "string \<Rightarrow> bool" where
  "is_help a \<longleftrightarrow> a = ''-h'' \<or> a = ''--help'' \<or> a = ''help''"

definition asks_help :: "string list \<Rightarrow> bool" where
  "asks_help args \<longleftrightarrow> args \<noteq> [] \<and> is_help (hd args)"

definition shell_string :: err where
  "shell_string = Err (CliErr ErrShellStringCommand)"

text \<open>The flags before \<open>--\<close> and the command after it.\<close>

definition split_command :: "string list \<Rightarrow> err + string list \<times> string list" where
  "split_command args =
     (let boundary = index_of args ''--'' in
      if boundary < 0 then Inl shell_string
      else
        (let command = drop (nat boundary + 1) args in
         if command = [] then Inl shell_string else Inr (take (nat boundary) args, command)))"

section \<open>System commands\<close>

text \<open>A parser with no positional arguments and the flags given.\<close>

definition only_flags :: "'s flag list \<Rightarrow> string list \<Rightarrow> 's \<Rightarrow> err + 's" where
  "only_flags flags args st =
     (case parse_args flags args st of
        Inl e \<Rightarrow> Inl e
      | Inr (st', rest) \<Rightarrow> if rest \<noteq> [] then Inl invalid_arguments else Inr st')"

definition json_only :: "help_topic \<Rightarrow> (bool \<Rightarrow> command) \<Rightarrow> string list \<Rightarrow> err + command" where
  "json_only topic cmd args =
     (if asks_help args then Inr (CmdHelp topic)
      else case only_flags [bool_flag ''json'' (\<lambda>b st. b)] args False of
        Inl e \<Rightarrow> Inl e
      | Inr json \<Rightarrow> Inr (cmd json))"

definition parse_version :: "string list \<Rightarrow> err + command" where
  "parse_version args = json_only VersionHelp CmdVersion args"

definition parse_doctor :: "string list \<Rightarrow> err + command" where
  "parse_doctor args = json_only DoctorHelp CmdDoctor args"

definition parse_repair :: "string list \<Rightarrow> err + command" where
  "parse_repair args = json_only RepairHelp CmdRepair args"

definition config_flags :: "(string \<times> bool) flag list" where
  "config_flags =
     [string_flag ''config'' (\<lambda>v (path, json). (v, json)), bool_flag ''json'' (\<lambda>b (path, json). (path, b))]"

definition parse_agent_context :: "string list \<Rightarrow> err + command" where
  "parse_agent_context args =
     (if asks_help args then Inr (CmdHelp AgentContextHelp)
      else case only_flags config_flags args ('''', False) of
        Inl e \<Rightarrow> Inl e
      | Inr (path, json) \<Rightarrow> Inr (CmdAgentContext path))"

definition parse_profile_list :: "string list \<Rightarrow> err + command" where
  "parse_profile_list args =
     (if asks_help args then Inr (CmdHelp ProfileListHelp)
      else case only_flags config_flags args ('''', False) of
        Inl e \<Rightarrow> Inl e
      | Inr (path, json) \<Rightarrow> Inr (CmdProfileList json path))"

definition parse_profile_show :: "string list \<Rightarrow> err + command" where
  "parse_profile_show args =
     (if asks_help args then Inr (CmdHelp ProfileShowHelp)
      else case parse_args config_flags args ('''', False) of
        Inl e \<Rightarrow> Inl e
      | Inr ((path, json), rest) \<Rightarrow>
          if 1 < length rest then Inl invalid_arguments
          else (case rest of
            [] \<Rightarrow> Inr (CmdProfileShow json path '''')
          | n # ns \<Rightarrow>
              if trim_space n = '''' then Inl invalid_arguments
              else Inr (CmdProfileShow json path (trim_space n))))"

definition parse_profile :: "string list \<Rightarrow> err + command" where
  "parse_profile args =
     (case args of
        [] \<Rightarrow> Inl invalid_arguments
      | a # rest \<Rightarrow>
          if is_help a then Inr (CmdHelp ProfileHelp)
          else if a = ''list'' then parse_profile_list rest
          else if a = ''show'' then parse_profile_show rest
          else Inl invalid_arguments)"

definition parse_daemon :: "string list \<Rightarrow> err + command" where
  "parse_daemon args =
     (case args of
        [] \<Rightarrow> Inl invalid_arguments
      | a # rest \<Rightarrow>
          if is_help a then Inr (CmdHelp DaemonHelp)
          else case only_flags [bool_flag ''json'' (\<lambda>b st. b)] rest False of
            Inl e \<Rightarrow> Inl e
          | Inr json \<Rightarrow>
              if a = ''status'' then Inr (CmdDaemonStatus json)
              else if a = ''start'' then Inr (CmdDaemonStart json)
              else if a = ''stop'' then Inr (CmdDaemonStop json)
              else Inl invalid_arguments)"

definition parse_link_flags :: "string list \<Rightarrow> string \<Rightarrow> err + string \<times> bool \<times> bool" where
  "parse_link_flags args path_flag =
     only_flags
       [string_flag path_flag (\<lambda>v (p, f, j). (v, f, j)),
        bool_flag ''force'' (\<lambda>b (p, f, j). (p, b, j)),
        bool_flag ''json'' (\<lambda>b (p, f, j). (p, f, b))] args ('''', False, False)"

definition parse_link ::
  "help_topic \<Rightarrow> string \<Rightarrow> (bool \<Rightarrow> string \<Rightarrow> bool \<Rightarrow> command) \<Rightarrow> string list \<Rightarrow> err + command" where
  "parse_link topic path_flag cmd args =
     (if asks_help args then Inr (CmdHelp topic)
      else case parse_link_flags args path_flag of
        Inl e \<Rightarrow> Inl e
      | Inr (p, force, json) \<Rightarrow> Inr (cmd json p force))"

definition parse_install_cli :: "string list \<Rightarrow> err + command" where
  "parse_install_cli args = parse_link InstallCLIHelp ''bin-dir'' CmdInstallCLI args"

definition parse_skill_install :: "string list \<Rightarrow> err + command" where
  "parse_skill_install args = parse_link SkillInstallHelp ''skills-dir'' CmdSkillInstall args"

definition parse_bitwarden_token :: "string list \<Rightarrow> token_operation \<Rightarrow> err + command" where
  "parse_bitwarden_token args op =
     (case only_flags
             [string_flag ''alias'' (\<lambda>v (a, s, j). (v, s, j)),
              bool_flag ''from-stdin'' (\<lambda>b (a, s, j). (a, b, j)),
              bool_flag ''json'' (\<lambda>b (a, s, j). (a, s, b))] args ('''', False, False) of
        Inl e \<Rightarrow> Inl e
      | Inr (a, from_stdin, json) \<Rightarrow>
          if trim_space a = '''' then Inl invalid_arguments
          else if op \<noteq> TokenInstall \<and> from_stdin then Inl invalid_arguments
          else Inr (CmdBitwarden json op (trim_space a) from_stdin))"

definition parse_bitwarden_command :: "string list \<Rightarrow> err + command" where
  "parse_bitwarden_command args =
     (if args = [] \<or> is_help (hd args) then Inr (CmdHelp BitwardenHelp)
      else case args of
        a # b # c # rest \<Rightarrow>
          if a \<noteq> ''secrets-manager'' \<or> b \<noteq> ''token'' then Inl invalid_arguments
          else if c = ''install'' then parse_bitwarden_token rest TokenInstall
          else if c = ''status'' then parse_bitwarden_token rest TokenStatus
          else if c = ''remove'' then parse_bitwarden_token rest TokenRemove
          else if is_help c then Inr (CmdHelp BitwardenHelp)
          else Inl invalid_arguments
      | _ \<Rightarrow> Inl invalid_arguments)"

section \<open>Exec\<close>

record exec_cli = exec_flags +
  ec_json :: bool
  ec_reuse :: bool

definition no_exec_flags :: exec_cli where
  "no_exec_flags =
     \<lparr>xf_reason = '''', xf_cwd = '''', xf_ttl = 0, xf_profile = '''', xf_config = '''', xf_account = '''',
       xf_override_env = False, xf_force_refresh = False, xf_dry_run = False, xf_reuse_only = False,
       xf_allow_mutable = False, xf_secrets = [], xf_only = [], xf_env_files = [],
       ec_json = False, ec_reuse = False\<rparr>"

definition exec_flag_set :: "flag_env \<Rightarrow> exec_cli flag list" where
  "exec_flag_set fe =
     [string_flag ''reason'' (\<lambda>v f. f\<lparr>xf_reason := v\<rparr>),
      string_flag ''cwd'' (\<lambda>v f. f\<lparr>xf_cwd := v\<rparr>),
      flag_of ''ttl'' False (fe_duration fe) (\<lambda>v f. f\<lparr>xf_ttl := v\<rparr>),
      string_flag ''profile'' (\<lambda>v f. f\<lparr>xf_profile := v\<rparr>),
      string_flag ''config'' (\<lambda>v f. f\<lparr>xf_config := v\<rparr>),
      string_flag ''account'' (\<lambda>v f. f\<lparr>xf_account := v\<rparr>),
      bool_flag ''override-env'' (\<lambda>b f. f\<lparr>xf_override_env := b\<rparr>),
      bool_flag ''force-refresh'' (\<lambda>b f. f\<lparr>xf_force_refresh := b\<rparr>),
      bool_flag ''dry-run'' (\<lambda>b f. f\<lparr>xf_dry_run := b\<rparr>),
      bool_flag ''reuse-only'' (\<lambda>b f. f\<lparr>xf_reuse_only := b\<rparr>),
      bool_flag ''allow-mutable-executable'' (\<lambda>b f. f\<lparr>xf_allow_mutable := b\<rparr>),
      bool_flag ''json'' (\<lambda>b f. f\<lparr>ec_json := b\<rparr>),
      bool_flag ''reuse'' (\<lambda>b f. f\<lparr>ec_reuse := b\<rparr>),
      var_flag ''secret'' set_secret_flag xf_secrets (\<lambda>v f. f\<lparr>xf_secrets := v\<rparr>),
      var_flag ''only'' set_only_flag xf_only (\<lambda>v f. f\<lparr>xf_only := v\<rparr>),
      var_flag ''env-file'' set_env_file_flag xf_env_files (\<lambda>v f. f\<lparr>xf_env_files := v\<rparr>)]"

definition exec_build_of :: "exec_flags \<Rightarrow> exec_inputs \<Rightarrow> string list \<Rightarrow> exec_build" where
  "exec_build_of f xi command =
     \<lparr>xb_reason = xi_reason xi, xb_command = command, xb_cwd = xf_cwd f, xb_env = xi_env xi,
       xb_secrets = xi_secrets xi, xb_ttl = xi_ttl xi, xb_override_env = xf_override_env f,
       xb_force_refresh = xf_force_refresh f, xb_reuse_only = xf_reuse_only f,
       xb_allow_mutable = xf_allow_mutable f\<rparr>"

definition parse_exec :: "cli_env \<Rightarrow> flag_env \<Rightarrow> string list \<Rightarrow> err + command" where
  "parse_exec ci fe args =
     (if args = [] then Inl invalid_arguments
      else if is_help (hd args) then Inr (CmdHelp ExecHelp)
      else case split_command args of
        Inl e \<Rightarrow> Inl e
      | Inr (flag_args, command) \<Rightarrow>
     (case parse_args (exec_flag_set fe) flag_args no_exec_flags of
        Inl e \<Rightarrow> Inl e
      | Inr (f, rest) \<Rightarrow>
          if ec_json f \<and> \<not> xf_dry_run f then Inl (Err (CliErr ErrUnsupportedExecJSON))
          else if ec_reuse f then Inl (Err (CliErr ErrUnsupportedReuse))
          else if rest \<noteq> [] then Inl shell_string
          else case resolve_exec_inputs ci (exec_flags.truncate f) of
            Inl e \<Rightarrow> Inl e
          | Inr xi \<Rightarrow>
              (case build_exec_request (ci_client ci) (exec_build_of (exec_flags.truncate f) xi command) of
                 Inl e \<Rightarrow> Inl e
               | Inr q \<Rightarrow> Inr (CmdExec (ec_json f) q (xi_env xi) (xf_dry_run f)))))"

section \<open>Sessions\<close>

record session_flags =
  sg_reason :: string
  sg_cwd :: string
  sg_ttl :: duration
  sg_max_reads :: int
  sg_profile :: string
  sg_config :: string
  sg_account :: string
  sg_override_env :: bool
  sg_bind_parent :: bool
  sg_bind_ancestor :: "int option"
  sg_bind_names :: "string list option"
  sg_json :: json_mode
  sg_secrets :: "secret_spec list"
  sg_only :: "string list"
  sg_env_files :: "string list"

text \<open>
  The two binding flags that \<open>fs.Visit\<close> looks for are options: \<open>None\<close> when the flag was not given.
\<close>

definition no_session_flags :: session_flags where
  "no_session_flags =
     \<lparr>sg_reason = '''', sg_cwd = '''', sg_ttl = 0, sg_max_reads = 0, sg_profile = '''', sg_config = '''',
       sg_account = '''', sg_override_env = False, sg_bind_parent = False, sg_bind_ancestor = None,
       sg_bind_names = None, sg_json = JsonOff, sg_secrets = [], sg_only = [], sg_env_files = []\<rparr>"

definition add_bind_name :: "string \<Rightarrow> string list option \<Rightarrow> string list option" where
  "add_bind_name v names = Some ((case names of None \<Rightarrow> [] | Some ns \<Rightarrow> ns) @ [v])"

definition session_flag_set :: "flag_env \<Rightarrow> session_flags flag list" where
  "session_flag_set fe =
     [string_flag ''reason'' (\<lambda>v f. f\<lparr>sg_reason := v\<rparr>),
      string_flag ''cwd'' (\<lambda>v f. f\<lparr>sg_cwd := v\<rparr>),
      flag_of ''ttl'' False (fe_duration fe) (\<lambda>v f. f\<lparr>sg_ttl := v\<rparr>),
      flag_of ''max-reads'' False (fe_int fe) (\<lambda>v f. f\<lparr>sg_max_reads := v\<rparr>),
      string_flag ''profile'' (\<lambda>v f. f\<lparr>sg_profile := v\<rparr>),
      string_flag ''config'' (\<lambda>v f. f\<lparr>sg_config := v\<rparr>),
      string_flag ''account'' (\<lambda>v f. f\<lparr>sg_account := v\<rparr>),
      bool_flag ''override-env'' (\<lambda>b f. f\<lparr>sg_override_env := b\<rparr>),
      bool_flag ''bind-parent'' (\<lambda>b f. f\<lparr>sg_bind_parent := b\<rparr>),
      flag_of ''bind-ancestor'' False (fe_int fe) (\<lambda>v f. f\<lparr>sg_bind_ancestor := Some v\<rparr>),
      string_flag ''bind-ancestor-name'' (\<lambda>v f. f\<lparr>sg_bind_names := add_bind_name v (sg_bind_names f)\<rparr>),
      json_flag (\<lambda>m f. f\<lparr>sg_json := m\<rparr>),
      var_flag ''secret'' set_secret_flag sg_secrets (\<lambda>v f. f\<lparr>sg_secrets := v\<rparr>),
      var_flag ''only'' set_only_flag sg_only (\<lambda>v f. f\<lparr>sg_only := v\<rparr>),
      var_flag ''env-file'' set_env_file_flag sg_env_files (\<lambda>v f. f\<lparr>sg_env_files := v\<rparr>)]"

definition bind_flag_count :: "session_flags \<Rightarrow> nat" where
  "bind_flag_count f =
     (if sg_bind_parent f then 1 else 0) + (if sg_bind_ancestor f \<noteq> None then 1 else 0) +
     (if sg_bind_names f \<noteq> None then 1 else 0)"

definition session_create_binding :: "session_flags \<Rightarrow> err + binding_policy" where
  "session_create_binding f =
     (if 1 < bind_flag_count f then Inl invalid_arguments
      else if sg_bind_parent f then new_ancestor_binding 1
      else case sg_bind_ancestor f of
        Some depth \<Rightarrow> new_ancestor_binding depth
      | None \<Rightarrow>
          (case sg_bind_names f of
             Some names \<Rightarrow> new_ancestor_names_binding names
           | None \<Rightarrow> Inr default_binding_policy))"

definition session_exec_flags :: "session_flags \<Rightarrow> exec_flags" where
  "session_exec_flags f =
     \<lparr>xf_reason = sg_reason f, xf_cwd = sg_cwd f, xf_ttl = sg_ttl f, xf_profile = sg_profile f,
       xf_config = sg_config f, xf_account = sg_account f, xf_override_env = sg_override_env f,
       xf_force_refresh = False, xf_dry_run = False, xf_reuse_only = False, xf_allow_mutable = False,
       xf_secrets = sg_secrets f, xf_only = sg_only f, xf_env_files = sg_env_files f\<rparr>"

definition session_build_of :: "session_flags \<Rightarrow> exec_inputs \<Rightarrow> binding_policy \<Rightarrow> session_build" where
  "session_build_of f xi binding =
     \<lparr>sb_reason = xi_reason xi, sb_command = [''agent-secret'', ''session'', ''create''],
       sb_cwd = sg_cwd f, sb_executable = '''', sb_secrets = xi_secrets xi, sb_ttl = xi_ttl xi,
       sb_max_reads = sg_max_reads f, sb_override_env = sg_override_env f, sb_binding = binding\<rparr>"

definition parse_session_create :: "cli_env \<Rightarrow> flag_env \<Rightarrow> string list \<Rightarrow> err + command" where
  "parse_session_create ci fe args =
     (case only_flags (session_flag_set fe) args no_session_flags of
        Inl e \<Rightarrow> Inl e
      | Inr f \<Rightarrow>
     (case session_create_binding f of
        Inl e \<Rightarrow> Inl e
      | Inr binding0 \<Rightarrow>
     (case resolve_exec_inputs ci (session_exec_flags f) of
        Inl e \<Rightarrow> Inl e
      | Inr xi \<Rightarrow>
          (let binding = (if bind_flag_count f = 0 \<and> xi_binding_profile xi then xi_binding xi else binding0)
           in case build_session_create (ci_client ci) (session_build_of f xi binding) of
                Inl e \<Rightarrow> Inl e
              | Inr q \<Rightarrow> Inr (CmdSessionCreate (sg_json f) q)))))"

definition parse_session_list :: "string list \<Rightarrow> err + command" where
  "parse_session_list args =
     (case only_flags [json_flag (\<lambda>m st. m)] args JsonOff of
        Inl e \<Rightarrow> Inl e | Inr m \<Rightarrow> Inr (CmdSessionList m))"

definition parse_session_destroy :: "string list \<Rightarrow> err + command" where
  "parse_session_destroy args =
     (case parse_args [json_flag (\<lambda>m (j, a). (m, a)), bool_flag ''all'' (\<lambda>b (j, a). (j, b))] args
             (JsonOff, False) of
        Inl e \<Rightarrow> Inl e
      | Inr ((m, destroy_all), rest) \<Rightarrow>
          if destroy_all then
            (if rest \<noteq> [] then Inl invalid_arguments else Inr (CmdSessionDestroy m new_session_destroy_all))
          else (case rest of
            [sid] \<Rightarrow>
              (case new_session_destroy sid of Inl e \<Rightarrow> Inl e | Inr q \<Rightarrow> Inr (CmdSessionDestroy m q))
          | _ \<Rightarrow> Inl invalid_arguments))"

definition parse_session :: "cli_env \<Rightarrow> flag_env \<Rightarrow> string list \<Rightarrow> err + command" where
  "parse_session ci fe args =
     (case args of
        [] \<Rightarrow> Inl invalid_arguments
      | a # rest \<Rightarrow>
          if is_help a then Inr (CmdHelp SessionHelp)
          else if a = ''create'' then parse_session_create ci fe rest
          else if a = ''list'' then parse_session_list rest
          else if a = ''destroy'' then parse_session_destroy rest
          else Inl invalid_arguments)"

definition with_session_flag_set :: "(string \<times> bool \<times> string list) flag list" where
  "with_session_flag_set =
     [string_flag ''cwd'' (\<lambda>v (c, m, a). (v, m, a)),
      bool_flag ''allow-mutable-executable'' (\<lambda>b (c, m, a). (c, b, a)),
      var_flag ''only'' set_only_flag (\<lambda>(c, m, a). a) (\<lambda>v (c, m, a). (c, m, v))]"

text \<open>
  The token comes first, so the flags are those between it and \<open>--\<close>: \<open>args[1:boundary]\<close>, a slice
  expression that panics when \<open>--\<close> itself is the first argument.
\<close>

definition slice_panic :: err where
  "slice_panic = Text ''panic: runtime error: slice bounds out of range''"

definition parse_with_session :: "cli_env \<Rightarrow> string list \<Rightarrow> err + command" where
  "parse_with_session ci args =
     (if args = [] then Inl invalid_arguments
      else if is_help (hd args) then Inr (CmdHelp WithSessionHelp)
      else case split_command args of
        Inl e \<Rightarrow> Inl e
      | Inr (before, command) \<Rightarrow>
          (if before = [] then Inl slice_panic
           else case parse_args with_session_flag_set (tl before) ('''', False, []) of
             Inl e \<Rightarrow> Inl e
           | Inr ((cwd, allow, aliases), rest) \<Rightarrow>
               if rest \<noteq> [] then Inl invalid_arguments
               else case build_session_resolve (ci_client ci)
                     \<lparr>vb_token = hd args, vb_command = command, vb_cwd = cwd, vb_env = ci_environ ci,
                       vb_allow_mutable = allow, vb_aliases = aliases\<rparr> of
                 Inl e \<Rightarrow> Inl e
               | Inr q \<Rightarrow> Inr (CmdWithSession q (ci_environ ci))))"

section \<open>Items\<close>

record item_flags =
  jf_account :: string
  jf_config :: string
  jf_format :: string
  jf_prefix :: string
  jf_reason :: string
  jf_ttl :: duration

definition item_flag_set :: "flag_env \<Rightarrow> item_flags flag list" where
  "item_flag_set fe =
     [string_flag ''account'' (\<lambda>v f. f\<lparr>jf_account := v\<rparr>),
      string_flag ''config'' (\<lambda>v f. f\<lparr>jf_config := v\<rparr>),
      string_flag ''format'' (\<lambda>v f. f\<lparr>jf_format := v\<rparr>),
      string_flag ''prefix'' (\<lambda>v f. f\<lparr>jf_prefix := v\<rparr>),
      string_flag ''reason'' (\<lambda>v f. f\<lparr>jf_reason := v\<rparr>),
      flag_of ''ttl'' False (fe_duration fe) (\<lambda>v f. f\<lparr>jf_ttl := v\<rparr>)]"

definition no_item_flags :: item_flags where
  "no_item_flags = \<lparr>jf_account = '''', jf_config = '''', jf_format = ''text'', jf_prefix = '''',
     jf_reason = '''', jf_ttl = 0\<rparr>"

definition item_account :: "cli_env \<Rightarrow> item_flags \<Rightarrow> err + string" where
  "item_account ci f =
     (if trim_space (jf_account f) \<noteq> '''' then Inr (trim_space (jf_account f))
      else case load_metadata (ci_config ci) \<lparr>lo_name = '''', lo_config = jf_config f, lo_start = ''''\<rparr> of
        Inr m \<Rightarrow>
          Inr (if trim_space (cm_account m) \<noteq> '''' then trim_space (cm_account m)
               else account_fallback ci (jf_account f))
      | Inl e \<Rightarrow>
          if jf_config f = '''' \<and> config_not_found e then Inr (account_fallback ci (jf_account f))
          else Inl e)"

definition item_reason :: "item_flags \<Rightarrow> string" where
  "item_reason f =
     (if trim_space (jf_reason f) = '''' then ''Inspect 1Password item metadata'' else trim_space (jf_reason f))"

definition parse_item_describe :: "cli_env \<Rightarrow> flag_env \<Rightarrow> string list \<Rightarrow> string list \<Rightarrow> err + command" where
  "parse_item_describe ci fe args full_args =
     (if asks_help args then Inr (CmdHelp ItemDescribeHelp)
      else case parse_args (item_flag_set fe) args no_item_flags of
        Inl e \<Rightarrow> Inl e
      | Inr (f, [ref]) \<Rightarrow>
     (case parse_format (jf_format f) of
        Inl e \<Rightarrow> Inl e
      | Inr fmt \<Rightarrow>
     (case item_account ci f of
        Inl e \<Rightarrow> Inl e
      | Inr account \<Rightarrow>
     (case build_item_describe (ci_client ci)
             \<lparr>ib_reason = item_reason f, ib_command = ''agent-secret'' # full_args, ib_cwd = '''',
               ib_executable = '''', ib_ref = ref, ib_account = account, ib_ttl = jf_ttl f\<rparr> of
        Inl e \<Rightarrow> Inl e
      | Inr q \<Rightarrow> Inr (CmdItemDescribe q fmt (jf_prefix f)))))
      | Inr (f, rest) \<Rightarrow> Inl invalid_arguments)"

definition parse_item :: "cli_env \<Rightarrow> flag_env \<Rightarrow> string list \<Rightarrow> string list \<Rightarrow> err + command" where
  "parse_item ci fe args full_args =
     (case args of
        [] \<Rightarrow> Inl invalid_arguments
      | a # rest \<Rightarrow>
          if is_help a then Inr (CmdHelp ItemHelp)
          else if a \<noteq> ''describe'' then Inl invalid_arguments
          else parse_item_describe ci fe rest full_args)"

section \<open>All commands\<close>

definition parse_command :: "cli_env \<Rightarrow> flag_env \<Rightarrow> string list \<Rightarrow> err + command" where
  "parse_command ci fe args =
     (case args of
        [] \<Rightarrow> Inr (CmdHelp TopHelp)
      | a # rest \<Rightarrow>
          if is_help a then Inr (CmdHelp TopHelp)
          else if a = ''-v'' \<or> a = ''--version'' \<or> a = ''version'' then parse_version rest
          else if a = ''agent-context'' then parse_agent_context rest
          else if a = ''exec'' then parse_exec ci fe rest
          else if a = ''session'' then parse_session ci fe rest
          else if a = ''with-session'' then parse_with_session ci rest
          else if a = ''item'' then parse_item ci fe rest args
          else if a = ''profile'' then parse_profile rest
          else if a = ''bitwarden'' then parse_bitwarden_command rest
          else if a = ''daemon'' then parse_daemon rest
          else if a = ''doctor'' then parse_doctor rest
          else if a = ''repair'' then parse_repair rest
          else if a = ''install-cli'' then parse_install_cli rest
          else if a = ''skill-install'' then parse_skill_install rest
          else Inl invalid_arguments)"

end
