(* ===== verification/CommandLogic.thy ===== *)
theory CommandLogic
  imports ExecWrap CommandLine
begin

text \<open>
  Lemmas on the client's inputs: what merging environments and reading environment files gives, and
  what holds of a request that the command line builds.
\<close>

section \<open>Merging environments\<close>

lemma last_position_Some:
  "last_position es k = Some i \<Longrightarrow> i < length es \<and> entry_key (es ! i) = Some k"
  by (induction es arbitrary: i) (auto split: option.splits if_splits)

lemma env_keys_Cons: "env_keys (e # es) = (case entry_key e of None \<Rightarrow> env_keys es | Some k \<Rightarrow> k # env_keys es)"
  by (auto simp: entry_key_def split: option.splits)

lemma last_position_None: "last_position es k = None \<longleftrightarrow> k \<notin> set (env_keys es)"
  by (induction es) (auto simp: env_keys_Cons simp del: env_keys.simps(2) split: option.splits)

lemma env_keys_nth: "i < length es \<Longrightarrow> entry_key (es ! i) = Some k \<Longrightarrow> k \<in> set (env_keys es)"
  by (induction es arbitrary: i)
    (auto simp: env_keys_Cons nth_Cons simp del: env_keys.simps(2) split: option.splits nat.splits)

lemma distinct_keys_position:
  "distinct (env_keys es) \<Longrightarrow> i < length es \<Longrightarrow> j < length es \<Longrightarrow> entry_key (es ! i) = Some k \<Longrightarrow>
     entry_key (es ! j) = Some k \<Longrightarrow> i = j"
proof (induction es arbitrary: i j)
  case (Cons e es)
  then show ?case
    using env_keys_nth [of _ es k]
    by (cases i; cases j) (auto simp: env_keys_Cons simp del: env_keys.simps(2) split: option.splits)
qed simp

text \<open>The entries of the given keys are replaced in place.\<close>

definition replace_entry :: "(string \<Rightarrow> string) \<Rightarrow> string set \<Rightarrow> string \<Rightarrow> string" where
  "replace_entry val ks e =
     (case entry_key e of None \<Rightarrow> e | Some k \<Rightarrow> if k \<in> ks then env_entry_text k (val k) else e)"

lemma merge_step:
  assumes "distinct (env_keys base)" "last_position base k = Some i" "k \<notin> ks"
  shows "(map (replace_entry val ks) base)[i := env_entry_text k (val k)] =
    map (replace_entry val (insert k ks)) base"
proof (rule nth_equalityI)
  fix j assume "j < length ((map (replace_entry val ks) base)[i := env_entry_text k (val k)])"
  then have j: "j < length base" by simp
  note i = last_position_Some [OF assms(2)]
  show "(map (replace_entry val ks) base)[i := env_entry_text k (val k)] ! j =
      map (replace_entry val (insert k ks)) base ! j"
  proof (cases "j = i")
    case True
    with i show ?thesis by (simp add: replace_entry_def)
  next
    case False
    then have "entry_key (base ! j) \<noteq> Some k"
      using distinct_keys_position [OF assms(1) _ j, of i k] i by auto
    with False j show ?thesis by (auto simp: replace_entry_def split: option.splits)
  qed
qed simp

lemma merge_fold:
  assumes "distinct (env_keys base)" "distinct ks"
  shows "fold (\<lambda>key out.
         let entry = env_entry_text key (val key) in
         case last_position base key of Some i \<Rightarrow> out[i := entry] | None \<Rightarrow> out @ [entry]) ks base =
    map (replace_entry val (set ks)) base @
    map (\<lambda>k. env_entry_text k (val k)) (filter (\<lambda>k. k \<notin> set (env_keys base)) ks)"
  using assms(2)
proof (induction ks rule: rev_induct)
  case Nil
  have "replace_entry val {} = (\<lambda>e. e)" by (auto simp: replace_entry_def split: option.splits)
  then show ?case by simp
next
  case (snoc k ks)
  then have k: "k \<notin> set ks" by simp
  show ?case
  proof (cases "last_position base k")
    case None
    have "replace_entry val (insert k (set ks)) e = replace_entry val (set ks) e" if "e \<in> set base" for e
    proof -
      have "entry_key e \<noteq> Some k"
        using that None env_keys_nth [of _ base k] by (auto simp: last_position_None in_set_conv_nth)
      then show ?thesis by (auto simp: replace_entry_def split: option.splits)
    qed
    moreover have "k \<notin> set (env_keys base)" using None by (simp add: last_position_None)
    ultimately show ?thesis using None snoc by (simp add: Let_def)
  next
    case (Some i)
    then have "k \<in> set (env_keys base)" by (metis last_position_None option.distinct(1))
    moreover have "i < length base" using last_position_Some [OF Some] by simp
    ultimately show ?thesis
      using snoc Some merge_step [OF assms(1) Some k, of val] by (simp add: Let_def list_update_append)
  qed
qed

lemma merge_env_eq:
  assumes "distinct (env_keys base)" "distinct (map fst overlay)"
  shows "merge_env base overlay =
    map (replace_entry (\<lambda>k. the (map_of overlay k)) (set (map fst overlay))) base @
    map (\<lambda>k. env_entry_text k (the (map_of overlay k)))
      (filter (\<lambda>k. k \<notin> set (env_keys base)) (sort (map fst overlay)))"
  using merge_fold [OF assms(1), of "sort (map fst overlay)" "\<lambda>k. the (map_of overlay k)"] assms(2)
  by (simp add: merge_env_def)

lemma entry_key_cut: "entry_key e = Some k \<Longrightarrow> \<exists>v. cut_byte (CHR ''='') e = Some (k, v)"
  by (auto simp: entry_key_def)

lemma lookup_replaced:
  assumes "\<forall>k \<in> ks. CHR ''='' \<notin> set k"
  shows "lookup_env (map (replace_entry val ks) es) k =
      (if k \<in> ks \<and> k \<in> set (env_keys es) then val k else lookup_env es k)"
    and "env_keys (map (replace_entry val ks) es) = env_keys es"
  using assms
  by (induction es) (auto simp: replace_entry_def entry_key_def entry_key_text split: option.splits)

lemma merge_env_lookup:
  assumes "distinct (env_keys base)" "distinct (map fst overlay)"
    and keys: "\<forall>k \<in> set (map fst overlay). CHR ''='' \<notin> set k"
  shows "lookup_env (merge_env base overlay) k =
    (case map_of overlay k of Some v \<Rightarrow> v | None \<Rightarrow> lookup_env base k)"
proof -
  let ?new = "filter (\<lambda>k. k \<notin> set (env_keys base)) (sort (map fst overlay))"
  have new: "\<forall>k \<in> set ?new. CHR ''='' \<notin> set k" using keys by auto
  have dom: "k \<in> set (map fst overlay) \<longleftrightarrow> map_of overlay k \<noteq> None" by (simp add: map_of_eq_None_iff)
  have none: "k \<notin> set (env_keys base) \<Longrightarrow> lookup_env base k = ''''" by (rule lookup_env_absent)
  show ?thesis
    unfolding merge_env_eq [OF assms(1,2)] lookup_env_append lookup_replaced [OF keys]
      lookup_env_texts(1) [OF new]
    using dom none by auto
qed

section \<open>Environment files\<close>

text \<open>What the two maps of \<open>loadEnvFiles\<close> satisfy after every entry.\<close>

definition env_maps_ok :: "(string \<times> string) list \<times> (string \<times> secret_spec) list \<Rightarrow> bool" where
  "env_maps_ok st \<longleftrightarrow>
     distinct (map fst (fst st)) \<and> distinct (map fst (snd st)) \<and>
     set (map fst (fst st)) \<inter> set (map fst (snd st)) = {} \<and>
     (\<forall>(k, v) \<in> set (fst st). CHR ''='' \<notin> set k \<and> \<not> is_supported v) \<and>
     (\<forall>(k, s) \<in> set (snd st). CHR ''='' \<notin> set k \<and> sp_alias s = k \<and> is_supported (sp_ref s))"

lemma distinct_without_key: "distinct (map fst m) \<Longrightarrow> distinct (map fst (without_key k m))"
  by (simp add: without_key_def distinct_map_filter)

lemma without_key_set: "set (without_key k m) = {p \<in> set m. fst p \<noteq> k}"
  by (auto simp: without_key_def)

lemma add_env_entry_ok:
  assumes "env_maps_ok st" "CHR ''='' \<notin> set (ent_key e)"
  shows "env_maps_ok (add_env_entry e st)"
proof -
  obtain plain secrets where st: "st = (plain, secrets)" by (cases st)
  show ?thesis
    using assms unfolding st
    by (auto simp: env_maps_ok_def distinct_without_key without_key_set spec_of_ref_def)
qed

lemma parse_env_line_key:
  "parse_env_line source n l = Inr (Some e) \<Longrightarrow> CHR ''='' \<notin> set (ent_key e)"
  by (auto simp: parse_env_line_def Let_def split: if_splits option.splits prod.splits)

lemma parse_env_lines_keys:
  "parse_env_lines source n ls = Inr es \<Longrightarrow> e \<in> set es \<Longrightarrow> CHR ''='' \<notin> set (ent_key e)"
proof (induction ls arbitrary: n es)
  case (Cons l ls)
  then obtain x xs where x: "parse_env_line source n l = Inr x" "parse_env_lines source (Suc n) ls = Inr xs"
    and es: "es = (case x of None \<Rightarrow> xs | Some y \<Rightarrow> y # xs)"
    by (auto split: sum.splits)
  with Cons.IH [OF x(2)] Cons.prems(2) parse_env_line_key [of source n l] show ?case
    by (auto split: option.splits)
qed simp

lemma load_env_file_keys:
  "load_env_file open_file path = Inr es \<Longrightarrow> e \<in> set es \<Longrightarrow> CHR ''='' \<notin> set (ent_key e)"
  by (auto simp: load_env_file_def parse_env_file_def split: sum.splits prod.splits option.splits
      dest: parse_env_lines_keys)

lemma fold_entries_ok:
  "env_maps_ok st \<Longrightarrow> \<forall>e \<in> set es. CHR ''='' \<notin> set (ent_key e) \<Longrightarrow> env_maps_ok (fold add_env_entry es st)"
  by (induction es arbitrary: st) (simp_all add: add_env_entry_ok)

lemma read_env_files_ok:
  "read_env_files open_file paths st = Inr st' \<Longrightarrow> env_maps_ok st \<Longrightarrow> env_maps_ok st'"
proof (induction paths arbitrary: st)
  case (Cons path paths)
  then obtain es where es: "load_env_file open_file path = Inr es"
    "read_env_files open_file paths (fold add_env_entry es st) = Inr st'"
    by (auto split: sum.splits)
  with Cons fold_entries_ok load_env_file_keys show ?case by blast
qed simp

lemma load_env_files_Inr:
  assumes "load_env_files open_file paths = Inr ev"
  shows "distinct (map fst (ev_plain ev))"
    and "\<forall>(k, v) \<in> set (ev_plain ev). CHR ''='' \<notin> set k \<and> \<not> is_supported v"
    and "map sp_alias (ev_secrets ev) = ev_aliases ev" and "distinct (ev_aliases ev)"
    and "\<forall>s \<in> set (ev_secrets ev). is_supported (sp_ref s)"
    and "set (map fst (ev_plain ev)) \<inter> set (ev_aliases ev) = {}"
proof -
  from assms obtain plain secrets where r: "read_env_files open_file paths ([], []) = Inr (plain, secrets)"
    and ev: "ev = \<lparr>ev_plain = plain, ev_secrets = map (\<lambda>a. the (map_of secrets a)) (sort (map fst secrets)),
      ev_aliases = sort (map fst secrets)\<rparr>"
    by (auto simp: load_env_files_def Let_def split: sum.splits)
  have ok: "env_maps_ok (plain, secrets)"
    by (rule read_env_files_ok [OF r]) (simp add: env_maps_ok_def)
  have secret: "\<exists>s. map_of secrets a = Some s \<and> sp_alias s = a \<and> is_supported (sp_ref s)"
    if "a \<in> set (map fst secrets)" for a
  proof -
    have "map_of secrets a \<noteq> None" using that by (simp add: map_of_eq_None_iff)
    then obtain s where s: "map_of secrets a = Some s" by blast
    have "(a, s) \<in> set secrets" by (rule map_of_SomeD [OF s])
    with ok have "sp_alias s = a \<and> is_supported (sp_ref s)" by (fastforce simp: env_maps_ok_def)
    with s show ?thesis by simp
  qed
  show "distinct (map fst (ev_plain ev))" "distinct (ev_aliases ev)"
    "\<forall>(k, v) \<in> set (ev_plain ev). CHR ''='' \<notin> set k \<and> \<not> is_supported v"
    "set (map fst (ev_plain ev)) \<inter> set (ev_aliases ev) = {}"
    using ok by (auto simp: ev env_maps_ok_def)
  have "sp_alias (the (map_of secrets a)) = a" if "a \<in> set (sort (map fst secrets))" for a
    using secret [of a] that by auto
  then show "map sp_alias (ev_secrets ev) = ev_aliases ev"
    unfolding ev by (simp add: comp_def) (intro map_idI, simp)
  show "\<forall>s \<in> set (ev_secrets ev). is_supported (sp_ref s)"
    using secret by (fastforce simp: ev)
qed

text \<open>
  The environment of an exec request: the values of the files over those of the process, without the
  variables whose values are secrets.
\<close>

lemma load_exec_sources_env:
  assumes "load_exec_sources ci f = Inr xs" "load_env_files (ci_open_env ci) (xf_env_files f) = Inr ev"
    and "distinct (env_keys (ci_environ ci))"
  shows "xs_env_secrets xs = ev_secrets ev"
    and "set (env_keys (xs_env xs)) \<inter> sp_alias ` set (ev_secrets ev) = {}"
    and "k \<notin> sp_alias ` set (ev_secrets ev) \<Longrightarrow>
      lookup_env (xs_env xs) k = (case map_of (ev_plain ev) k of Some v \<Rightarrow> v | None \<Rightarrow> lookup_env (ci_environ ci) k)"
proof -
  note ev = load_env_files_Inr [OF assms(2)]
  have xs: "xs_env xs = remove_env_keys (merge_env (ci_environ ci) (ev_plain ev)) (ev_aliases ev)"
    "xs_env_secrets xs = ev_secrets ev"
    using assms(1,2) by (auto simp: load_exec_sources_def Let_def split: sum.splits)
  show "xs_env_secrets xs = ev_secrets ev" by (rule xs(2))
  have aliases: "set (ev_aliases ev) = sp_alias ` set (ev_secrets ev)"
    using ev(3) by (metis list.set_map)
  show "set (env_keys (xs_env xs)) \<inter> sp_alias ` set (ev_secrets ev) = {}"
    by (auto simp: xs(1) remove_env_keys_def env_keys_filter aliases)
  have keys: "\<forall>k \<in> set (map fst (ev_plain ev)). CHR ''='' \<notin> set k"
    using ev(2) by auto
  show "lookup_env (xs_env xs) k = (case map_of (ev_plain ev) k of Some v \<Rightarrow> v | None \<Rightarrow> lookup_env (ci_environ ci) k)"
    if "k \<notin> sp_alias ` set (ev_secrets ev)"
  proof -
    have "k \<notin> set (ev_aliases ev)" using that by (simp add: aliases)
    then have "lookup_env (xs_env xs) k = lookup_env (merge_env (ci_environ ci) (ev_plain ev)) k"
      unfolding xs(1) remove_env_keys_def by (rule lookup_env_filter)
    with merge_env_lookup [OF assms(3) ev(1) keys] show ?thesis by simp
  qed
qed

section \<open>Requests that the command line builds\<close>

lemma build_exec_request_Inr:
  assumes "build_exec_request ce b = Inr q" "links_resolved (cl_fs ce)" "0 < t"
  shows "validate_exec (cl_fs ce) (exec_with_receipt_time q t) = None"
    and "er_env_fingerprint q = environment_fingerprint (cl_sha256 ce) (xb_env b)"
    and "er_override_env q = xb_override_env b"
    and "\<not> er_override_env q \<Longrightarrow> se_alias ` set (er_secrets q) \<inter> set (env_keys (xb_env b)) = {}"
    and "er_command q = xb_command b"
proof -
  from assms(1) obtain cwd command executable i ss overridden where
    cwd: "normalize_cwd ce (xb_cwd b) = Inr cwd"
    and command: "resolve_command (cl_fs ce) cwd (xb_env b) (xb_command b) = Inr (command, executable)"
    and stable: "stable_or_allowed (cl_fs ce) (xb_allow_mutable b) executable = None"
    and identity: "capture (cl_fs ce) executable = Inr i"
    and secrets: "parse_secrets (xb_secrets b) = Inr ss"
    and overrides: "detect_overrides (xb_env b) ss (xb_override_env b) = Inr overridden"
    and built0: "new_exec \<lparr>eo_reason = xb_reason b, eo_command = command, eo_executable = executable,
            eo_identity = i, eo_allow_mutable = xb_allow_mutable b, eo_cwd = cwd,
            eo_env_fingerprint = environment_fingerprint (cl_sha256 ce) (xb_env b),
            eo_secrets = xb_secrets b, eo_ttl = xb_ttl b, eo_received_at = zero_time,
            eo_reusable_uses = 0, eo_override_env = xb_override_env b, eo_overridden = overridden,
            eo_force_refresh = xb_force_refresh b, eo_reuse_only = xb_reuse_only b\<rparr> = Inr q"
    by (auto simp: build_exec_request_def split: sum.splits option.splits)
  define opts where "opts = \<lparr>eo_reason = xb_reason b, eo_command = command, eo_executable = executable,
            eo_identity = i, eo_allow_mutable = xb_allow_mutable b, eo_cwd = cwd,
            eo_env_fingerprint = environment_fingerprint (cl_sha256 ce) (xb_env b),
            eo_secrets = xb_secrets b, eo_ttl = xb_ttl b, eo_received_at = zero_time,
            eo_reusable_uses = 0, eo_override_env = xb_override_env b, eo_overridden = overridden,
            eo_force_refresh = xb_force_refresh b, eo_reuse_only = xb_reuse_only b\<rparr>"
  then have built: "new_exec opts = Inr q" using built0 by simp
  note disk = normalize_cwd_on_disk [OF cwd assms(2)] resolve_command_on_disk [OF command assms(2)]
  show "validate_exec (cl_fs ce) (exec_with_receipt_time q t) = None"
    unfolding new_exec_accepted [OF built assms(3)] opts_def
    using disk identity stable by (auto simp: stable_or_allowed_def split: if_splits)
  have q: "er_env_fingerprint q = eo_env_fingerprint opts" "er_override_env q = eo_override_env opts"
    "er_secrets q = ss" "er_command q = eo_command opts"
    using built secrets by (auto simp: new_exec_def Let_def opts_def split: sum.splits option.splits)
  from q(1,2,4) show "er_env_fingerprint q = environment_fingerprint (cl_sha256 ce) (xb_env b)"
    "er_override_env q = xb_override_env b" "er_command q = xb_command b"
    using disk(2) by (simp_all add: opts_def)
  show "se_alias ` set (er_secrets q) \<inter> set (env_keys (xb_env b)) = {}" if "\<not> er_override_env q"
  proof -
    obtain as where "collect_overrides (env_keys (xb_env b)) ss (xb_override_env b) = Inr as"
      using overrides by (auto simp: detect_overrides_def split: sum.splits)
    from collect_overrides_Inr [OF this] that q(2) have "filter (\<lambda>s. se_alias s \<in> set (env_keys (xb_env b))) ss = []"
      by (auto simp: opts_def)
    then show ?thesis by (auto simp: q(3) filter_empty_conv)
  qed
qed

lemma parse_exec_Inr:
  assumes "parse_exec ci fe args = Inr (CmdExec json q env dry)"
  shows "\<exists>b. build_exec_request (ci_client ci) b = Inr q \<and> xb_env b = env"
  using assms
  by (auto simp: parse_exec_def exec_build_of_def split: if_splits sum.splits prod.splits)


section \<open>Evaluation\<close>

text \<open>How the limited read is computed: it fails exactly for a content over the limit.\<close>

lemma read_config_file_code [code]:
  "read_config_file ce path =
     (case ce_open ce path of
        Inl e \<Rightarrow> Inl e
      | Inr f \<Rightarrow>
     (case of_stat f of
        Inl e \<Rightarrow> Inl e
      | Inr info \<Rightarrow>
          if \<not> is_regular info then Inl invalid_config
          else if max_config_file_bytes < sint (fi_size info) then Inl invalid_config
          else case of_read f of
            Inl e \<Rightarrow> Inl e
          | Inr content \<Rightarrow>
              if max_config_file_bytes < int (length content) then Inl invalid_config else Inr content))"
  by (auto simp: read_config_file_def Let_def max_config_file_bytes_def split: sum.splits)

text \<open>The limit of a line, compared as an integer.\<close>

lemma scan_lines_code [code]:
  "scan_lines e s =
     (if s = [] then ([], e)
      else
        (let l = takeWhile (\<lambda>c. c \<noteq> CHR 0x0A) s; rest = dropWhile (\<lambda>c. c \<noteq> CHR 0x0A) s in
         if (65536 :: int) \<le> int (length l) then ([], Some (Text ''bufio.Scanner: token too long''))
         else if rest = [] then ([drop_cr l], e)
         else apfst (Cons (drop_cr l)) (scan_lines e (tl rest))))"
  by (subst scan_lines.simps) (simp add: max_token_def Let_def)

end
