(* ===== verification/ProfileLogic.thy ===== *)
theory ProfileLogic
  imports ProfileConfig
begin

text \<open>
  What resolving a profile means: a big-step relation without memo, stack or counters, the proof that
  the resolver follows it, and its consequences for precedence and for cycles.
\<close>

section \<open>The meaning of a profile\<close>

inductive expands :: "profile_env \<Rightarrow> string \<Rightarrow> resolved_profile \<Rightarrow> bool" for e where
  expand: "map_of (cf_profiles (pe_doc e)) name = Some raw \<Longrightarrow>
    list_all2 (\<lambda>i q. trim_space i \<noteq> '''' \<and> expands e (trim_space i) q) (py_include raw) qs \<Longrightarrow>
    own_profile (pe_parse e) (pe_sources e) raw (fold (\<lambda>q r. include_profile r q) qs (empty_profile e raw)) = Inr p \<Longrightarrow>
    expands e name p"

inductive_cases expandsE: "expands e name p"

lemma list_all2_functional:
  "list_all2 P xs ys \<Longrightarrow> list_all2 Q xs zs \<Longrightarrow> (\<And>x y z. P x y \<Longrightarrow> Q x z \<Longrightarrow> y = z) \<Longrightarrow> ys = zs"
  by (induction xs ys arbitrary: zs rule: list_all2_induct) (auto simp: list_all2_Cons1)

lemma list_all2_right: "list_all2 P xs ys \<Longrightarrow> y \<in> set ys \<Longrightarrow> \<exists>x \<in> set xs. P x y"
  by (induction rule: list_all2_induct) auto

lemma list_all2_left: "list_all2 P xs ys \<Longrightarrow> x \<in> set xs \<Longrightarrow> \<exists>y \<in> set ys. P x y"
  by (induction rule: list_all2_induct) auto

lemma expands_functional: "expands e name p \<Longrightarrow> expands e name q \<Longrightarrow> p = q"
proof (induction arbitrary: q rule: expands.induct)
  case (expand name raw qs p)
  from expand.prems obtain raw' qs' where raw': "map_of (cf_profiles (pe_doc e)) name = Some raw'"
    and qs': "list_all2 (\<lambda>i q. trim_space i \<noteq> '''' \<and> expands e (trim_space i) q) (py_include raw') qs'"
    and own: "own_profile (pe_parse e) (pe_sources e) raw'
      (fold (\<lambda>q r. include_profile r q) qs' (empty_profile e raw')) = Inr q"
    by (rule expandsE)
  from raw' expand.hyps(1) have [simp]: "raw' = raw" by simp
  have "qs = qs'"
    by (rule list_all2_functional [OF expand.IH qs' [simplified]]) blast
  with own expand.hyps(2) show ?case by simp
qed

section \<open>The resolver computes it\<close>

definition memo_ok :: "profile_env \<Rightarrow> resolver \<Rightarrow> bool" where
  "memo_ok e st \<longleftrightarrow> (\<forall>n p. rv_memo st n = Some p \<longrightarrow> expands e n p) \<and> 0 \<le> rv_count st"

text \<open>What resolving one name does to the state, and what it returns.\<close>

definition resolves ::
  "profile_env \<Rightarrow> string \<Rightarrow> resolver \<Rightarrow> resolver \<times> (err + resolved_profile) \<Rightarrow> bool" where
  "resolves e name st x \<longleftrightarrow> (memo_ok e st \<longrightarrow>
     memo_ok e (fst x) \<and> rv_count st \<le> rv_count (fst x) \<and>
     (rv_count st \<le> max_profile_include_count \<longrightarrow> \<not> isl (snd x) \<longrightarrow>
        rv_count (fst x) \<le> max_profile_include_count) \<and>
     (\<forall>p. snd x = Inr p \<longrightarrow> expands e name p))"

lemma include_loop_sound:
  assumes f: "\<And>n s. resolves e n s (f n s)"
    and run: "include_loop f names result st = (st', r)" and ok: "memo_ok e st"
  shows "memo_ok e st' \<and> rv_count st \<le> rv_count st' \<and>
    (rv_count st \<le> max_profile_include_count \<longrightarrow> \<not> isl r \<longrightarrow> rv_count st' \<le> max_profile_include_count) \<and>
    (\<forall>p. r = Inr p \<longrightarrow> (\<exists>qs.
       list_all2 (\<lambda>i q. trim_space i \<noteq> '''' \<and> expands e (trim_space i) q) names qs \<and>
       p = fold (\<lambda>q r. include_profile r q) qs result))"
  using run ok
proof (induction names arbitrary: result st)
  case (Cons raw names)
  let ?name = "trim_space raw" and ?st1 = "st\<lparr>rv_count := rv_count st + 1\<rparr>"
  consider "?name = ''''" | "?name \<noteq> ''''" "max_profile_include_count < rv_count st + 1"
    | "?name \<noteq> ''''" "\<not> max_profile_include_count < rv_count st + 1" by blast
  then show ?case
  proof cases
    case 3
    have ok1: "memo_ok e ?st1" using Cons.prems(2) by (simp add: memo_ok_def)
    obtain st2 x where fx: "f ?name ?st1 = (st2, x)" by (cases "f ?name ?st1")
    from f [of ?name ?st1] ok1 have step: "memo_ok e st2" "rv_count st + 1 \<le> rv_count st2"
      "\<not> isl x \<Longrightarrow> rv_count st2 \<le> max_profile_include_count" "\<And>p. x = Inr p \<Longrightarrow> expands e ?name p"
      using 3 by (auto simp: resolves_def fx)
    show ?thesis
    proof (cases x)
      case (Inl y)
      with Cons.prems 3 fx step show ?thesis by (auto simp: Let_def)
    next
      case (Inr q)
      with Cons.prems(1) 3 fx have rest: "include_loop f names (include_profile result q) st2 = (st', r)"
        by (simp add: Let_def)
      note IH = Cons.IH [OF rest step(1)]
      have "\<exists>qs. list_all2 (\<lambda>i q. trim_space i \<noteq> '''' \<and> expands e (trim_space i) q) (raw # names) qs \<and>
          p = fold (\<lambda>q r. include_profile r q) qs result" if "r = Inr p" for p
      proof -
        from IH that obtain qs where
          "list_all2 (\<lambda>i q. trim_space i \<noteq> '''' \<and> expands e (trim_space i) q) names qs"
          "p = fold (\<lambda>q r. include_profile r q) qs (include_profile result q)" by blast
        with step(4) [OF Inr] 3 show ?thesis by (intro exI [of _ "q # qs"]) simp
      qed
      with IH step Inr show ?thesis by auto
    qed
  qed (use Cons.prems in \<open>auto simp: Let_def memo_ok_def\<close>)
qed auto

lemma resolve_profile_sound: "resolves e name st (resolve_profile e stack name st)"
proof (induction e stack name st rule: resolve_profile.induct)
  case (1 e stack name st)
  show ?case
  proof (cases "rv_memo st name")
    case (Some p)
    then show ?thesis by (subst resolve_profile.simps) (simp add: resolves_def memo_ok_def)
  next
    case None
    show ?thesis
    proof (cases "max_profile_include_depth \<le> length stack")
      case True
      with None show ?thesis by (subst resolve_profile.simps) (simp add: resolves_def)
    next
      case False
      show ?thesis
      proof (cases "map_of (cf_profiles (pe_doc e)) name")
        case None
        with False \<open>rv_memo st name = None\<close> show ?thesis
          by (subst resolve_profile.simps) (simp add: resolves_def)
      next
        case (Some raw)
        show ?thesis
        proof (cases "name \<in> set stack")
          case True
          with False Some None show ?thesis
            by (subst resolve_profile.simps) (simp add: resolves_def)
        next
          case fresh: False
          let ?f = "\<lambda>n s. resolve_profile e (stack @ [name]) n s"
          obtain st1 x where loop: "include_loop ?f (py_include raw) (empty_profile e raw) st = (st1, x)"
            by (cases "include_loop ?f (py_include raw) (empty_profile e raw) st")
          have f: "resolves e n s (?f n s)" for n s
            by (rule "1.IH" [OF None False Some fresh])
          note sound = include_loop_sound [OF f loop]
          have eq: "resolve_profile e stack name st = (case x of
              Inl y \<Rightarrow> (st1, Inl y)
            | Inr result \<Rightarrow> (case own_profile (pe_parse e) (pe_sources e) raw result of
                 Inl y \<Rightarrow> (st1, Inl y)
               | Inr p \<Rightarrow> (st1\<lparr>rv_memo := (rv_memo st1)(name \<mapsto> p)\<rparr>, Inr p)))"
            using None False Some fresh loop by (subst resolve_profile.simps) (simp split: sum.splits)
          show ?thesis
          proof (cases x)
            case (Inl y)
            with eq sound show ?thesis by (simp add: resolves_def)
          next
            case (Inr result)
            show ?thesis
            proof (cases "own_profile (pe_parse e) (pe_sources e) raw result")
              case (Inl y)
              with eq \<open>x = Inr result\<close> sound show ?thesis by (simp add: resolves_def)
            next
              case own: (Inr p)
              have "expands e name p" if ok: "memo_ok e st"
              proof -
                from sound [OF ok] Inr obtain qs where qs:
                  "list_all2 (\<lambda>i q. trim_space i \<noteq> '''' \<and> expands e (trim_space i) q) (py_include raw) qs"
                  "result = fold (\<lambda>q r. include_profile r q) qs (empty_profile e raw)" by blast
                from expand [OF Some qs(1)] own qs(2) show ?thesis by simp
              qed
              with eq Inr own sound show ?thesis by (simp add: resolves_def memo_ok_def)
            qed
          qed
        qed
      qed
    qed
  qed
qed

lemma memo_ok_new [simp]: "memo_ok e new_resolver"
  by (simp add: memo_ok_def new_resolver_def)

lemma resolve_expands:
  "resolve_profile e stack name st = (st', Inr p) \<Longrightarrow> memo_ok e st \<Longrightarrow> expands e name p \<and> memo_ok e st'"
  using resolve_profile_sound [of e name st stack] by (simp add: resolves_def)

section \<open>Precedence\<close>

lemma map_of_copy_secrets: "distinct (map fst src) \<Longrightarrow> map_of (copy_secrets dst src) = map_of dst ++ map_of src"
proof (unfold copy_secrets_def, induction src arbitrary: dst)
  case (Cons x src)
  obtain a s where x: "x = (a, s)" by (cases x)
  have none: "map_of src a = None" using Cons.prems x by (auto simp: map_of_eq_None_iff)
  have "map_of (fold (\<lambda>(a, s) m. AList.update a s m) (x # src) dst) =
      map_of (AList.update a s dst) ++ map_of src"
    using Cons.IH [of "AList.update a s dst"] Cons.prems x by simp
  also have "\<dots> = map_of dst ++ map_of (x # src)"
    using none x by (auto simp: update_conv' fun_eq_iff map_add_def split: option.splits)
  finally show ?case .
qed simp

lemma distinct_copy_secrets: "distinct (map fst dst) \<Longrightarrow> distinct (map fst (copy_secrets dst src))"
proof (unfold copy_secrets_def, induction src arbitrary: dst)
  case (Cons x src)
  then show ?case by (cases x) (simp add: distinct_update)
qed simp

text \<open>The secrets that a profile defines itself, when all of them are accepted.\<close>

definition own_secret :: "string \<Rightarrow> sources \<Rightarrow> secret_yaml \<Rightarrow> resolved_secret option" where
  "own_secret account ss spec =
     (if sy_ref spec = '''' then None
      else case resolve_secret_source spec ss of
        Inl e \<Rightarrow> None
      | Inr (source, bitwarden) \<Rightarrow> Some \<lparr>rs_account = effective_account account (sy_account spec),
          rs_ref = sy_ref spec, rs_source = source, rs_bitwarden = bitwarden\<rparr>)"

lemma merge_secrets_Inr:
  "merge_secrets secrets raw account ss = Inr out \<Longrightarrow> distinct (map fst raw) \<Longrightarrow> distinct (map fst secrets) \<Longrightarrow>
     map_of out = map_of secrets ++ (\<lambda>a. Option.bind (map_of raw a) (own_secret account ss)) \<and>
     distinct (map fst out)"
proof (induction secrets raw account ss rule: merge_secrets.induct)
  case (2 secrets a spec raw account ss)
  then obtain source bitwarden where r: "sy_ref spec \<noteq> ''''"
    "resolve_secret_source spec ss = Inr (source, bitwarden)"
    by (auto split: if_splits sum.splits)
  let ?s = "\<lparr>rs_account = effective_account account (sy_account spec), rs_ref = sy_ref spec,
    rs_source = source, rs_bitwarden = bitwarden\<rparr>"
  have out: "merge_secrets (AList.update a ?s secrets) raw account ss = Inr out"
    using 2(2) r by simp
  have none: "map_of raw a = None" using 2(3) by (auto simp: map_of_eq_None_iff)
  have own: "own_secret account ss spec = Some ?s" using r by (simp add: own_secret_def)
  have "distinct (map fst raw)" "distinct (map fst (AList.update a ?s secrets))"
    using 2(3,4) by (simp_all add: distinct_update)
  from "2.IH" [OF r(1,2) refl out this] have
    "map_of out = (map_of secrets)(a \<mapsto> ?s) ++ (\<lambda>a. Option.bind (map_of raw a) (own_secret account ss))"
    "distinct (map fst out)" unfolding update_conv' by blast+
  moreover have "(map_of secrets)(a \<mapsto> ?s) ++ (\<lambda>a. Option.bind (map_of raw a) (own_secret account ss)) =
      map_of secrets ++ (\<lambda>b. Option.bind (map_of ((a, spec) # raw) b) (own_secret account ss))"
    using none own by (auto simp: fun_eq_iff map_add_def split: option.splits)
  ultimately show ?case by simp
qed simp

lemma own_profile_Inr:
  assumes "own_profile parse ss raw result = Inr p" "distinct (map fst (py_secrets raw))"
    and "distinct (map fst (pf_secrets result))"
  shows "map_of (pf_secrets p) = map_of (pf_secrets result) ++
      (\<lambda>a. Option.bind (map_of (py_secrets raw) a) (own_secret (pf_account result) ss))"
    "distinct (map fst (pf_secrets p))" "pf_secrets p \<noteq> []" "pf_account p = pf_account result"
    "pf_reason p = (if py_reason raw \<noteq> '''' then py_reason raw else pf_reason result)"
    "pf_binding p = (case py_bind raw of None \<Rightarrow> pf_binding result | Some b \<Rightarrow> Some b)"
proof -
  from assms(1) obtain out where merged:
    "merge_secrets (pf_secrets result) (py_secrets raw) (pf_account result) ss = Inr out" "out = pf_secrets p"
    and rest: "pf_secrets p \<noteq> []" "pf_account p = pf_account result"
      "pf_reason p = (if py_reason raw \<noteq> '''' then py_reason raw else pf_reason result)"
      "pf_binding p = (case py_bind raw of None \<Rightarrow> pf_binding result | Some b \<Rightarrow> Some b)"
    by (auto simp: own_profile_def Let_def split: sum.splits if_splits)
  from merge_secrets_Inr [OF merged(1) assms(2,3)] merged(2)
  show "map_of (pf_secrets p) = map_of (pf_secrets result) ++
      (\<lambda>a. Option.bind (map_of (py_secrets raw) a) (own_secret (pf_account result) ss))"
    "distinct (map fst (pf_secrets p))" by simp_all
  from rest show "pf_secrets p \<noteq> []" "pf_account p = pf_account result"
    "pf_reason p = (if py_reason raw \<noteq> '''' then py_reason raw else pf_reason result)"
    "pf_binding p = (case py_bind raw of None \<Rightarrow> pf_binding result | Some b \<Rightarrow> Some b)" .
qed

text \<open>A document as the YAML library returns it: the secrets of a profile have distinct aliases.\<close>

definition distinct_doc :: "profile_env \<Rightarrow> bool" where
  "distinct_doc e \<longleftrightarrow> (\<forall>name raw. map_of (cf_profiles (pe_doc e)) name = Some raw \<longrightarrow>
     distinct (map fst (py_secrets raw)))"

lemma fold_includes:
  assumes "\<forall>q \<in> set qs. distinct (map fst (pf_secrets q))" "distinct (map fst (pf_secrets r))"
  shows "map_of (pf_secrets (fold (\<lambda>q r. include_profile r q) qs r)) =
      fold (\<lambda>q m. m ++ map_of (pf_secrets q)) qs (map_of (pf_secrets r)) \<and>
    distinct (map fst (pf_secrets (fold (\<lambda>q r. include_profile r q) qs r))) \<and>
    pf_account (fold (\<lambda>q r. include_profile r q) qs r) = pf_account r"
  using assms
proof (induction qs arbitrary: r)
  case (Cons q qs)
  have "pf_secrets (include_profile r q) = copy_secrets (pf_secrets r) (pf_secrets q)"
    "pf_account (include_profile r q) = pf_account r" by (simp_all add: include_profile_def)
  with Cons.IH [of "include_profile r q"] Cons.prems show ?case
    by (simp add: map_of_copy_secrets distinct_copy_secrets)
qed simp

lemma expands_distinct: "distinct_doc e \<Longrightarrow> expands e name p \<Longrightarrow> distinct (map fst (pf_secrets p)) \<and> pf_secrets p \<noteq> []"
proof (rotate_tac, induction rule: expands.induct)
  case (expand name raw qs p)
  have "\<forall>q \<in> set qs. distinct (map fst (pf_secrets q))"
    using list_all2_right [OF expand.IH] expand.prems by blast
  then have "distinct (map fst (pf_secrets (fold (\<lambda>q r. include_profile r q) qs (empty_profile e raw))))"
    using fold_includes [of qs "empty_profile e raw"] by (simp add: empty_profile_def)
  with own_profile_Inr [OF expand.hyps(2)] expand.prems expand.hyps(1) show ?case
    by (auto simp: distinct_doc_def)
qed

text \<open>Own secrets before included ones, later includes before earlier ones.\<close>

lemma expands_secrets:
  assumes "distinct_doc e" "expands e name p"
  shows "\<exists>raw qs. map_of (cf_profiles (pe_doc e)) name = Some raw \<and>
    list_all2 (\<lambda>i q. expands e (trim_space i) q) (py_include raw) qs \<and>
    map_of (pf_secrets p) = fold (\<lambda>q m. m ++ map_of (pf_secrets q)) qs Map.empty ++
      (\<lambda>a. Option.bind (map_of (py_secrets raw) a) (own_secret (pf_account p) (pe_sources e)))"
  using assms(2)
proof (rule expandsE)
  fix raw qs
  assume raw: "map_of (cf_profiles (pe_doc e)) name = Some raw"
    and qs: "list_all2 (\<lambda>i q. trim_space i \<noteq> '''' \<and> expands e (trim_space i) q) (py_include raw) qs"
    and own: "own_profile (pe_parse e) (pe_sources e) raw
      (fold (\<lambda>q r. include_profile r q) qs (empty_profile e raw)) = Inr p"
  have "\<forall>q \<in> set qs. distinct (map fst (pf_secrets q))"
    using list_all2_right [OF qs] expands_distinct [OF assms(1)] by blast
  note folded = fold_includes [OF this, of "empty_profile e raw"]
  have "distinct (map fst (py_secrets raw))" using assms(1) raw by (simp add: distinct_doc_def)
  from own_profile_Inr [OF own this] folded
  have "map_of (pf_secrets p) = fold (\<lambda>q m. m ++ map_of (pf_secrets q)) qs Map.empty ++
      (\<lambda>a. Option.bind (map_of (py_secrets raw) a) (own_secret (pf_account p) (pe_sources e)))"
    by (simp add: empty_profile_def)
  with raw list_all2_mono [OF qs, of "\<lambda>i q. expands e (trim_space i) q"] show ?thesis by blast
qed

section \<open>Cycles\<close>

definition includes_name :: "profile_env \<Rightarrow> string \<Rightarrow> string \<Rightarrow> bool" where
  "includes_name e name sub \<longleftrightarrow> (\<exists>raw. map_of (cf_profiles (pe_doc e)) name = Some raw \<and>
     sub \<in> set (map trim_space (py_include raw)))"

lemma accp_no_cycle: "Wellfounded.accp r x \<Longrightarrow> \<not> r\<^sup>+\<^sup>+ x x"
proof (induction rule: accp_induct_rule)
  case (1 x)
  show ?case
  proof
    assume loop: "r\<^sup>+\<^sup>+ x x"
    then obtain y where y: "r\<^sup>*\<^sup>* x y" "r y x"
      by (cases rule: tranclp.cases) (auto intro: tranclp_into_rtranclp)
    from rtranclp_into_tranclp2 [of r, OF y(2,1)] 1(2) [OF y(2)] show False by contradiction
  qed
qed

lemma expands_acyclic: "expands e name p \<Longrightarrow> \<not> (includes_name e)\<^sup>+\<^sup>+ name name"
proof -
  assume "expands e name p"
  then have "Wellfounded.accp (includes_name e)\<inverse>\<inverse> name"
  proof (induction rule: expands.induct)
    case (expand name raw qs p)
    show ?case
    proof (rule accp.intros)
      fix sub assume "(includes_name e)\<inverse>\<inverse> sub name"
      with expand.hyps(1) obtain i where "i \<in> set (py_include raw)" "sub = trim_space i"
        by (auto simp: includes_name_def)
      with list_all2_left [OF expand.IH, of i] show "Wellfounded.accp (includes_name e)\<inverse>\<inverse> sub"
        by blast
    qed
  qed
  from accp_no_cycle [OF this] show ?thesis by (simp add: tranclp_converse)
qed

section \<open>Sorted secrets\<close>

lemma sorted_secrets_Inr:
  assumes "sorted_secrets raw = Inr specs" "distinct (map fst raw)"
  shows "set specs = spec_of_resolved ` set raw" "map sp_alias specs = sort (map fst raw)"
    "distinct (map sp_alias specs)"
proof -
  have specs: "specs = map (\<lambda>a. spec_of_resolved (a, the (map_of raw a))) (sort (map fst raw))"
    using assms(1) by (auto simp: sorted_secrets_def split: if_splits)
  have "(a, the (map_of raw a)) \<in> set raw" if "a \<in> fst ` set raw" for a
    using that assms(2) by (auto simp: map_of_is_SomeI)
  moreover have "x = (fst x, the (map_of raw (fst x)))" if "x \<in> set raw" for x
    using map_of_is_SomeI [OF assms(2), of "fst x" "snd x"] that by simp
  ultimately have "(\<lambda>a. (a, the (map_of raw a))) ` (fst ` set raw) = set raw" by force
  then show "set specs = spec_of_resolved ` set raw"
    by (simp add: specs image_image flip: image_comp) (metis image_image)
  show names: "map sp_alias specs = sort (map fst raw)"
    by (simp add: specs comp_def spec_of_resolved_def)
  show "distinct (map sp_alias specs)" using assms(2) by (simp add: names)
qed

end
