(* ===== verification/ClientProperties.thy ===== *)
theory ClientProperties
  imports RequestProperties CommandLogic ProfileLogic
begin

text \<open>
  The properties of the client's inputs: project profiles, environment files, generated aliases and
  the command line, each with an instance on concrete data.
\<close>

section \<open>Sample data\<close>

text \<open>
  A project with two profiles, the second of which includes the first; the path of the configuration
  file is the only regular file besides the executable.
\<close>

definition sample_yaml_secret :: "string \<Rightarrow> secret_yaml" where
  "sample_yaml_secret ref = \<lparr>sy_ref = ref, sy_account = '''', sy_source = ''''\<rparr>"

definition sample_yaml_profile :: "string list \<Rightarrow> (string \<times> secret_yaml) list \<Rightarrow> profile_yaml" where
  "sample_yaml_profile includes secrets = \<lparr>py_account = '''', py_include = includes, py_reason = ''deploy'',
     py_bind = None, py_secrets = secrets, py_ttl = ''''\<rparr>"

definition sample_document :: "string list \<Rightarrow> config_file" where
  "sample_document includes = \<lparr>cf_version = 1, cf_account = ''acme'', cf_default = ''web'', cf_bitwarden = [],
     cf_profiles = [(''base'', sample_yaml_profile includes [(''TOKEN'', sample_yaml_secret ''op://Work/base/token'')]),
       (''web'', sample_yaml_profile [''base''] [(''API_TOKEN'', sample_yaml_secret ''op://Work/api/token'')])]\<rparr>"

definition sample_config_env :: "bool \<Rightarrow> config_env" where
  "sample_config_env present = \<lparr>ce_fs = sample_fs\<lparr>fs_stat := (\<lambda>p.
       if present \<and> p = ''/work/agent-secret.yml'' then Inr (sample_info False 0x1A4) else Inl (Text ''no such file''))\<rparr>,
     ce_getwd = Inr ''/work'', ce_not_exist = (\<lambda>e. True),
     ce_open = (\<lambda>p. Inr \<lparr>of_stat = Inr (sample_info False 0x1A4), of_read = Inr ''yaml''\<rparr>),
     ce_decode = (\<lambda>s. Inr (sample_document [])), ce_parse_duration = (\<lambda>s. Inr 0),
     ce_duration_text = (\<lambda>d. '''')\<rparr>"

definition sample_client :: client_env where
  "sample_client = \<lparr>cl_fs = sample_fs, cl_getwd = Inr ''/work'', cl_executable = Inr ''/usr/bin/env'',
     cl_sha256 = (\<lambda>s. replicate 32 0)\<rparr>"

definition sample_cli :: cli_env where
  "sample_cli = \<lparr>ci_client = sample_client, ci_config = sample_config_env False,
     ci_environ = [''PATH=/usr/bin'', ''HOME=/work''],
     ci_open_env = (\<lambda>p. Inr (''HOME=/tmp'' @ [CHR 0x0A] @ ''TOKEN=op://Work/env/token'', None)),
     ci_token_aliases = Inr [], ci_detect_account = ''''\<rparr>"

definition sample_flags :: flag_env where
  "sample_flags = \<lparr>fe_int = (\<lambda>s. Inr 1), fe_duration = (\<lambda>s. Inr 0)\<rparr>"

section \<open>Profiles\<close>



text \<open>
C39: A profile that includes itself, directly or through others, is never resolved.
\<close>
theorem profile_cycles_refused:
  assumes "(includes_name e)\<^sup>+\<^sup>+ name name"
  shows "isl (snd (resolve_profile e [] name new_resolver))"
proof (rule ccontr)
  assume "\<not> isl (snd (resolve_profile e [] name new_resolver))"
  then obtain st p where "resolve_profile e [] name new_resolver = (st, Inr p)"
    by (metis prod.collapse sum.collapse(2))
  with resolve_expands [of e "[]" name new_resolver st p] have "expands e name p" by simp
  with expands_acyclic assms show False by blast
qed

definition cyclic_env :: profile_env where
  "cyclic_env = \<lparr>pe_doc = sample_document ['' web ''], pe_sources = [], pe_parse = (\<lambda>s. Inr 0)\<rparr>"

lemma cyclic_includes: "includes_name cyclic_env ''web'' ''base''" "includes_name cyclic_env ''base'' ''web''"
proof -
  have "map trim_space [''base''] = [''base'']" "map trim_space ['' web ''] = [''web'']" by code_simp+
  then show "includes_name cyclic_env ''web'' ''base''" "includes_name cyclic_env ''base'' ''web''"
    by (simp_all add: includes_name_def cyclic_env_def sample_document_def sample_yaml_profile_def)
qed

theorem profile_cycles_refused_witness: "isl (snd (resolve_profile cyclic_env [] ''web'' new_resolver))"
  by (rule profile_cycles_refused) (use cyclic_includes in \<open>blast intro: tranclp.intros\<close>)

section \<open>The command line\<close>

text \<open>
C26: When the command line of \<open>exec\<close> is accepted, the daemon accepts the request it builds: stamped
at any receipt time it passes the whole validation against the same files, provided resolved paths
have no symbolic links left. The request is bound to the environment that the child will be given,
and whatever values are delivered for its aliases, merging them into that environment succeeds.
\<close>
theorem exec_command_accepted:
  assumes "parse_command ci fe (''exec'' # args) = Inr (CmdExec json q env dry)"
    and "links_resolved (cl_fs (ci_client ci))" "0 < t"
  shows "validate_exec (cl_fs (ci_client ci)) (exec_with_receipt_time q t) = None \<and>
    er_env_fingerprint q = environment_fingerprint (cl_sha256 (ci_client ci)) env \<and>
    (\<forall>overlay. set (map fst overlay) = se_alias ` set (er_secrets q) \<longrightarrow>
       (\<exists>child. merge_child_env env overlay (er_override_env q) = Inr child))"
proof -
  have "parse_exec ci fe args = Inr (CmdExec json q env dry)"
    using assms(1) by (simp add: parse_command_def is_help_def)
  from parse_exec_Inr [OF this] obtain b where b: "build_exec_request (ci_client ci) b = Inr q"
    and env: "xb_env b = env" by blast
  note built = build_exec_request_Inr [OF b assms(2,3)]
  have "\<exists>child. merge_child_env env overlay (er_override_env q) = Inr child"
    if "set (map fst overlay) = se_alias ` set (er_secrets q)" for overlay
    by (rule merge_child_env_total) (use built(4) that env in auto)
  with built(1,2) env show ?thesis by simp
qed

definition sample_args :: "string list" where
  "sample_args = [''--reason'', ''deploy'', ''--account=acme'', ''--secret'', ''API_TOKEN=op://Work/api/token'',
     ''--'', ''env'']"

theorem exec_command_accepted_witness:
  "\<exists>q. parse_command sample_cli sample_flags (''exec'' # sample_args) =
      Inr (CmdExec False q [''PATH=/usr/bin'', ''HOME=/work''] False) \<and>
    validate_exec sample_fs (exec_with_receipt_time q 1000) = None"
proof -
  have links: "links_resolved (cl_fs (ci_client sample_cli))"
    by (simp add: links_resolved_def sample_cli_def sample_client_def sample_fs_def)
  have "case parse_command sample_cli sample_flags (''exec'' # sample_args) of
      Inr (CmdExec json q env dry) \<Rightarrow> \<not> json \<and> env = [''PATH=/usr/bin'', ''HOME=/work''] \<and> \<not> dry
    | _ \<Rightarrow> False"
    by code_simp
  then obtain q where q: "parse_command sample_cli sample_flags (''exec'' # sample_args) =
      Inr (CmdExec False q [''PATH=/usr/bin'', ''HOME=/work''] False)"
    by (auto split: sum.splits command.splits)
  from exec_command_accepted [OF q links, of 1000] q show ?thesis
    by (simp add: sample_cli_def sample_client_def)
qed




text \<open>
The aliases that an item description generates for the fields are distinct, and each is a name
the request parser accepts, when the characters of the prefix are upper-case letters, digits and
underscores; nothing else of the fields changes.
\<close>
theorem generated_aliases:
  assumes "list_all env_char (trim_space prefix)"
  shows "distinct (map if_alias (unique_aliases fs prefix)) \<and>
    (\<forall>f \<in> set (unique_aliases fs prefix). alias_ok (if_alias f)) \<and>
    map (\<lambda>f. f\<lparr>if_alias := []\<rparr>) (unique_aliases fs prefix) = map (\<lambda>f. f\<lparr>if_alias := []\<rparr>) fs"
  using unique_from_distinct [of "[]" prefix fs] unique_from_ok [OF assms, of "[]" fs]
    unique_from_fields [of "[]" prefix fs]
  by (simp add: unique_aliases_def)

definition sample_field :: "string \<Rightarrow> item_field" where
  "sample_field label = \<lparr>if_id = ''id'', if_label = label, if_type = ''STRING'', if_section_id = '''',
     if_section = '''', if_concealed = False, if_ref = '''', if_alias = ''''\<rparr>"

theorem generated_aliases_witness:
  "map if_alias (unique_aliases [sample_field ''api key'', sample_field ''API-Key''] ''APP'') =
     [''APP_API_KEY'', ''APP_API_KEY_2''] \<and> alias_ok ''APP_API_KEY_2''"
proof -
  have prefix: "list_all env_char (trim_space ''APP'')" by code_simp
  define fs where "fs = unique_aliases [sample_field ''api key'', sample_field ''API-Key''] ''APP''"
  have names: "map if_alias fs = [''APP_API_KEY'', ''APP_API_KEY_2'']"
    unfolding fs_def by code_simp
  have "''APP_API_KEY_2'' \<in> if_alias ` set fs"
    using arg_cong [OF names, of set] by simp
  moreover have "\<forall>f \<in> set fs. alias_ok (if_alias f)"
    unfolding fs_def using generated_aliases [OF prefix] by (rule conjunct1 [OF conjunct2])
  ultimately have "alias_ok ''APP_API_KEY_2''" by (auto simp del: alias_ok_def)
  with names show ?thesis by (simp add: fs_def)
qed

text \<open>
The parser of \<open>with-session\<close> panics when the token is left out and \<open>--\<close> comes first: the slice
of the arguments between the token and \<open>--\<close> then ends before it begins.
\<close>
theorem with_session_without_token_panics:
  "parse_command ci fe (''with-session'' # ''--'' # command # args) = Inl slice_panic"
  by (simp add: parse_command_def parse_with_session_def is_help_def split_command_def)

end
