(* ===== verification/ControlClient.thy ===== *)
theory ControlClient
  imports Server PeerTrust
begin

text \<open>
  The daemon's client: \<open>internal/daemon/control/client.go\<close>. A round trip writes one envelope and reads
  one; what the context, the connection and the decoder answer along the way is a record.
\<close>

section \<open>Errors\<close>

text \<open>
  A \<open>*ProtocolError\<close> carries the code of the daemon's answer (a code outside the protocol's constants
  is \<open>NoErrorCode\<close>); any other error is an \<open>err\<close>, possibly under a sentinel.
\<close>

datatype client_error = ProtocolError error_code | ClientError err | WrapClient sentinel client_error

fun client_error_is :: "client_error \<Rightarrow> sentinel \<Rightarrow> bool" where
  "client_error_is (ProtocolError c) t \<longleftrightarrow> False"
| "client_error_is (ClientError e) t \<longleftrightarrow> err_is e t"
| "client_error_is (WrapClient s e) t \<longleftrightarrow> sentinel_is s t \<or> client_error_is e t"

fun is_protocol_error :: "client_error \<Rightarrow> error_code \<Rightarrow> bool" where
  "is_protocol_error (ProtocolError c) code \<longleftrightarrow> c = code"
| "is_protocol_error (ClientError e) code \<longleftrightarrow> False"
| "is_protocol_error (WrapClient s e) code \<longleftrightarrow> is_protocol_error e code"

abbreviation malformed_answer :: client_error where
  "malformed_answer \<equiv> ClientError malformed"

section \<open>Answers\<close>

text \<open>The payload of an answer is what it decodes to as each of the types that the client asks for.\<close>

record helper_hello =
  hh_protocol :: int
  hh_version :: string
  hh_build :: string
  hh_pid :: int
  hh_executable :: string
  hh_team :: string
  hh_bundle :: string

record exec_answer =
  xa_env :: "(string \<times> string) list option"
  xa_aliases :: "string list"

record resolve_answer =
  va_env :: "(string \<times> string) list option"
  va_aliases :: "string list"
  va_override_env :: bool

record item_answer =
  ia_vault :: string
  ia_item :: string

record answer_payload =
  ap_error :: "err + error_code"
  ap_pid :: "err + int"
  ap_hello :: "err + helper_hello"
  ap_exec :: "err + exec_answer"
  ap_item :: "err + item_answer"
  ap_created :: "err + session_create_response"
  ap_resolved :: "err + resolve_answer"
  ap_destroyed :: "err + session_destroy_response"
  ap_sessions :: "err + session_info list"
  ap_empty :: "err + unit"

text \<open>\<open>an_header\<close> holds the version, the type and the ids; its own payload is not used.\<close>

record answer =
  an_header :: envelope
  an_payload :: "answer_payload option"

definition decode_answer :: "(answer_payload \<Rightarrow> err + 'a) \<Rightarrow> answer \<Rightarrow> client_error + 'a" where
  "decode_answer f a =
     (case an_payload a of
        None \<Rightarrow> Inl malformed_answer
      | Some p \<Rightarrow>
          (case f p of
             Inl e \<Rightarrow> Inl (ClientError (Wrap (ProtocolErr ErrMalformedEnvelope) e))
           | Inr x \<Rightarrow> Inr x))"

definition validate_response_correlation :: "envelope \<Rightarrow> correlation \<Rightarrow> client_error option" where
  "validate_response_correlation v c =
     (if co_request_id c \<noteq> '''' \<and> nv_request_id v \<noteq> co_request_id c then Some malformed_answer
      else if co_nonce c \<noteq> '''' \<and> nv_nonce v \<noteq> co_nonce c then Some (ClientError (Err (ProtocolErr ErrInvalidNonce)))
      else None)"

section \<open>Deadlines\<close>

definition default_client_timeout :: duration where
  "default_client_timeout = 30 * 10 ^ 9"

definition client_timeout :: "duration \<Rightarrow> duration" where
  "client_timeout configured = (if 0 < configured then configured else default_client_timeout)"

definition protocol_request_deadline :: "go_time \<Rightarrow> duration \<Rightarrow> go_time \<Rightarrow> duration \<Rightarrow> go_time" where
  "protocol_request_deadline now timeout expires ttl =
     (if now < expires then expires + timeout
      else if expires = zero_time \<and> 0 < ttl then now + (ttl + timeout)
      else now + timeout)"

text \<open>The payloads that carry an expiry: exec, item and session creation requests.\<close>

definition context_deadline ::
  "go_time option \<Rightarrow> go_time \<Rightarrow> duration \<Rightarrow> (go_time \<times> duration) option \<Rightarrow> go_time" where
  "context_deadline own now timeout timing =
     (case own of
        Some d \<Rightarrow> d
      | None \<Rightarrow>
          (case timing of
             None \<Rightarrow> now + timeout
           | Some (expires, ttl) \<Rightarrow> protocol_request_deadline now timeout expires ttl))"

section \<open>A round trip\<close>

text \<open>
  An operation on the connection and the context right after it: \<open>io_error\<close> is the error of the
  operation, \<open>io_context\<close> that of \<open>ctx.Err()\<close>, \<open>io_timeout\<close> whether the error is a timeout of the
  network, \<open>io_past\<close> whether the deadline has passed.
\<close>

record io_result =
  io_error :: "err option"
  io_context :: "context_error option"
  io_timeout :: bool
  io_past :: bool

definition context_error_after_io :: "io_result \<Rightarrow> context_error option" where
  "context_error_after_io r =
     (case io_context r of
        Some c \<Rightarrow> Some c
      | None \<Rightarrow> if io_timeout r \<and> io_past r then Some CtxDeadlineExceeded else None)"

definition io_failure :: "io_result \<Rightarrow> err \<Rightarrow> client_error" where
  "io_failure r e =
     (case context_error_after_io r of
        Some c \<Rightarrow> ClientError (Err (ContextErr c))
      | None \<Rightarrow> ClientError e)"

record exchange =
  xc_context :: "context_error option"
  xc_marshal :: "err option"
  xc_before_write :: "context_error option"
  xc_write_deadline :: io_result
  xc_write :: io_result
  xc_before_read :: "context_error option"
  xc_read_deadline :: io_result
  xc_read :: io_result
  xc_answer :: answer

definition set_context_deadline :: "context_error option \<Rightarrow> io_result \<Rightarrow> client_error option" where
  "set_context_deadline ended r =
     (case ended of
        Some c \<Rightarrow> Some (ClientError (Err (ContextErr c)))
      | None \<Rightarrow> map_option (io_failure r) (io_error r))"

definition checked_answer ::
  "'a option \<Rightarrow> (answer_payload \<Rightarrow> err + 'a) \<Rightarrow> correlation \<Rightarrow> answer \<Rightarrow> client_error + 'a" where
  "checked_answer zero decode c a =
     (case validate_envelope (an_header a) of
        Some e \<Rightarrow> Inl (ClientError e)
      | None \<Rightarrow>
     (case validate_response_correlation (an_header a) c of
        Some e \<Rightarrow> Inl e
      | None \<Rightarrow>
          if nv_type (an_header a) = TypeError then
            (case decode_answer ap_error a of Inl e \<Rightarrow> Inl e | Inr code \<Rightarrow> Inl (ProtocolError code))
          else if nv_type (an_header a) \<noteq> TypeOK then Inl (ClientError (Err (ProtocolErr ErrProtocolType)))
          else if an_payload a = None then (case zero of None \<Rightarrow> Inl malformed_answer | Some z \<Rightarrow> Inr z)
          else decode_answer decode a))"

text \<open>
  The first component tells whether the request was written to the connection. A call that requires
  no payload gives the value that stands for its absence.
\<close>

definition round_trip ::
  "'a option \<Rightarrow> (answer_payload \<Rightarrow> err + 'a) \<Rightarrow> correlation \<Rightarrow> exchange \<Rightarrow> bool \<times> (client_error + 'a)" where
  "round_trip zero decode c x =
     (case xc_context x of
        Some e \<Rightarrow> (False, Inl (ClientError (Err (ContextErr e))))
      | None \<Rightarrow>
     (case xc_marshal x of
        Some e \<Rightarrow> (False, Inl (ClientError e))
      | None \<Rightarrow>
     (case set_context_deadline (xc_before_write x) (xc_write_deadline x) of
        Some e \<Rightarrow> (False, Inl e)
      | None \<Rightarrow>
     (case io_error (xc_write x) of
        Some e \<Rightarrow> (False, Inl (io_failure (xc_write x) e))
      | None \<Rightarrow>
     (case set_context_deadline (xc_before_read x) (xc_read_deadline x) of
        Some e \<Rightarrow> (True, Inl e)
      | None \<Rightarrow>
     (case io_error (xc_read x) of
        Some e \<Rightarrow> (True, Inl (io_failure (xc_read x) e))
      | None \<Rightarrow> (True, checked_answer zero decode c (xc_answer x))))))))"

definition round_trip_payload ::
  "(answer_payload \<Rightarrow> err + 'a) \<Rightarrow> correlation \<Rightarrow> exchange \<Rightarrow> bool \<times> (client_error + 'a)" where
  "round_trip_payload decode c x = round_trip None decode c x"

definition round_trip_ack :: "correlation \<Rightarrow> exchange \<Rightarrow> bool \<times> client_error option" where
  "round_trip_ack c x =
     (case round_trip (Some ()) ap_empty c x of
        (sent, Inl e) \<Rightarrow> (sent, Some e)
      | (sent, Inr u) \<Rightarrow> (sent, None))"

section \<open>Checking what the daemon returned\<close>

definition no_correlation :: correlation where
  "no_correlation = \<lparr>co_request_id = '''', co_nonce = ''''\<rparr>"

definition validate_status_payload :: "int \<Rightarrow> client_error option" where
  "validate_status_payload pid = (if pid \<le> 0 then Some malformed_answer else None)"

definition validate_hello :: "helper_hello \<Rightarrow> client_error option" where
  "validate_hello h =
     (if hh_protocol h \<noteq> protocol_version then Some (ClientError (Err (ProtocolErr ErrProtocolVersion)))
      else if hh_version h = '''' then Some malformed_answer
      else if hh_pid h \<le> 0 then Some malformed_answer
      else if hh_executable h = '''' then Some malformed_answer
      else None)"

definition env_aliases :: "(string \<times> string) list \<Rightarrow> string list" where
  "env_aliases env = sort (map fst env)"

definition validate_exec_answer :: "exec_answer \<Rightarrow> exec_request \<Rightarrow> client_error option" where
  "validate_exec_answer a q =
     (let expected = secret_aliases (er_secrets q) in
      if xa_aliases a \<noteq> expected then Some malformed_answer
      else case xa_env a of
        None \<Rightarrow> Some malformed_answer
      | Some env \<Rightarrow> if env_aliases env \<noteq> expected then Some malformed_answer else None)"

definition validate_created_answer ::
  "session_create_response \<Rightarrow> session_create_request \<Rightarrow> client_error option" where
  "validate_created_answer a q =
     (case validate_session_id (cr_session_id a) of
        Some e \<Rightarrow> Some (ClientError (Wrap (ProtocolErr ErrMalformedEnvelope) e))
      | None \<Rightarrow>
     (case validate_session_token (cr_session_token a) of
        Some e \<Rightarrow> Some (ClientError (Wrap (ProtocolErr ErrMalformedEnvelope) e))
      | None \<Rightarrow>
          if cr_aliases a \<noteq> secret_aliases (sc_secrets q) then Some malformed_answer
          else if cr_max_reads a \<noteq> sc_max_reads q then Some malformed_answer
          else if cr_remaining a \<noteq> sc_max_reads q then Some malformed_answer
          else None))"

definition validate_resolved_answer ::
  "resolve_answer \<Rightarrow> session_resolve_request \<Rightarrow> client_error option" where
  "validate_resolved_answer a q =
     (case va_env a of
        None \<Rightarrow> Some malformed_answer
      | Some env \<Rightarrow>
          if env_aliases env \<noteq> va_aliases a then Some malformed_answer
          else if sv_aliases q \<noteq> [] \<and> va_aliases a \<noteq> sv_aliases q then Some malformed_answer
          else None)"

definition validate_destroyed_answer ::
  "session_destroy_response \<Rightarrow> session_destroy_request \<Rightarrow> client_error option" where
  "validate_destroyed_answer a q =
     (if sd_all q then (if \<not> ds_destroyed a \<or> ds_session_id a \<noteq> '''' then Some malformed_answer else None)
      else if ds_session_id a \<noteq> sd_session_id q \<or> \<not> ds_destroyed a then Some malformed_answer
      else None)"

section \<open>Operations\<close>

definition checked_by :: "('a \<Rightarrow> client_error option) \<Rightarrow> bool \<times> (client_error + 'a) \<Rightarrow> bool \<times> (client_error + 'a)" where
  "checked_by check r =
     (case r of
        (sent, Inl e) \<Rightarrow> (sent, Inl e)
      | (sent, Inr a) \<Rightarrow> (sent, case check a of Some e \<Rightarrow> Inl e | None \<Rightarrow> Inr a))"

definition client_status :: "exchange \<Rightarrow> bool \<times> (client_error + int)" where
  "client_status x = checked_by validate_status_payload (round_trip_payload ap_pid no_correlation x)"

definition client_hello :: "exchange \<Rightarrow> bool \<times> (client_error + helper_hello)" where
  "client_hello x = checked_by validate_hello (round_trip_payload ap_hello no_correlation x)"

definition client_request_stop :: "exchange \<Rightarrow> bool \<times> (client_error + int)" where
  "client_request_stop x = checked_by validate_status_payload (round_trip_payload ap_pid no_correlation x)"

definition client_check_onepassword :: "exchange \<Rightarrow> bool \<times> client_error option" where
  "client_check_onepassword x = round_trip_ack no_correlation x"

definition client_request_exec ::
  "correlation \<Rightarrow> exec_request \<Rightarrow> exchange \<Rightarrow> bool \<times> (client_error + exec_answer)" where
  "client_request_exec c q x =
     checked_by (\<lambda>a. validate_exec_answer a q) (round_trip_payload ap_exec c x)"

definition client_describe_item ::
  "correlation \<Rightarrow> item_describe_request \<Rightarrow> exchange \<Rightarrow> bool \<times> (client_error + item_answer)" where
  "client_describe_item c q x =
     checked_by (\<lambda>a. if ia_item a = '''' \<or> ia_vault a = '''' then Some malformed_answer else None)
       (round_trip_payload ap_item c x)"

definition client_create_session ::
  "correlation \<Rightarrow> session_create_request \<Rightarrow> exchange \<Rightarrow> bool \<times> (client_error + session_create_response)" where
  "client_create_session c q x =
     checked_by (\<lambda>a. validate_created_answer a q) (round_trip_payload ap_created c x)"

definition client_resolve_session ::
  "correlation \<Rightarrow> session_resolve_request \<Rightarrow> exchange \<Rightarrow> bool \<times> (client_error + resolve_answer)" where
  "client_resolve_session c q x =
     checked_by (\<lambda>a. validate_resolved_answer a q) (round_trip_payload ap_resolved c x)"

definition client_destroy_session ::
  "session_destroy_request \<Rightarrow> exchange \<Rightarrow> bool \<times> (client_error + session_destroy_response)" where
  "client_destroy_session q x =
     checked_by (\<lambda>a. validate_destroyed_answer a q) (round_trip_payload ap_destroyed no_correlation x)"

definition client_list_sessions :: "exchange \<Rightarrow> bool \<times> (client_error + session_info list)" where
  "client_list_sessions x = round_trip_payload ap_sessions no_correlation x"

definition client_report_started :: "correlation \<Rightarrow> int \<Rightarrow> exchange \<Rightarrow> bool \<times> client_error option" where
  "client_report_started c pid x = round_trip_ack c x"

definition client_report_completed :: "correlation \<Rightarrow> int \<Rightarrow> string \<Rightarrow> exchange \<Rightarrow> bool \<times> client_error option" where
  "client_report_completed c exit_code signal x = round_trip_ack c x"

text \<open>\<open>ConnectWithPeerValidator\<close>: the outcome of the dial, what inspecting the peer gives, the validator.\<close>

definition connect_with_validator ::
  "err + 'c \<Rightarrow> (err + peer_info) \<Rightarrow> (peer_info \<Rightarrow> err option) option \<Rightarrow> err + 'c" where
  "connect_with_validator dial peer validator =
     (case dial of
        Inl e \<Rightarrow> Inl (Wrap (ControlErr ErrDaemonUnavailable) e)
      | Inr conn \<Rightarrow>
          (case validator of
             None \<Rightarrow> Inr conn
           | Some v \<Rightarrow>
               (case peer of
                  Inl e \<Rightarrow> Inl (Wrap (ClientErr ErrUntrustedDaemon) e)
                | Inr info \<Rightarrow> (case v info of Some e \<Rightarrow> Inl e | None \<Rightarrow> Inr conn))))"

end
