(* ===== verification/Manager.thy ===== *)
theory Manager
  imports ControlClient ApproverTrust
begin

text \<open>
  The manager of the background helper: \<open>internal/daemon/control/manager.go\<close>, with the identity of
  \<open>internal/helperidentity/helperidentity.go\<close> and the command of \<open>internal/daemon/process/\<close>. An action
  threads a counter of the questions put to the outside and the list of what was done to other
  processes and to the socket. The manager inspects the helper at the socket, and starts, refreshes or
  signals it.
\<close>

section \<open>Outside and state\<close>

datatype helper_effect =
    HelperSignalled int
  | HelperStarted string "string list"
  | StopRequested
  | SocketRemoved
  | StaleSocketCleaned

record manager_state =
  ms_tick :: nat
  ms_effects :: "helper_effect list"

text \<open>
  What an error says of the peer's process is a predicate on it: \<open>me_gone\<close> for the texts and the errno
  of \<open>peerProcessGoneError\<close>, \<open>me_closed\<close> for \<open>io.EOF\<close>, \<open>EPIPE\<close> and \<open>ECONNRESET\<close>, \<open>me_says_unavailable\<close>
  for the text of \<open>ErrDaemonUnavailable\<close>. \<open>me_rounds\<close> is how often the ticker fires before the context
  of a wait ends, and \<open>me_context\<close> the error it then has.
\<close>

record manager_env =
  me_trust :: "nat \<Rightarrow> trust_env"
  me_run :: command_runner
  me_team :: string
  me_darwin :: bool
  me_version :: string
  me_build :: string
  me_pid :: int
  me_default_path :: "err + string"
  me_daemon_path :: string
  me_daemon_args :: "string list"
  me_socket :: string
  me_dial :: "nat \<Rightarrow> err option"
  me_peer :: "nat \<Rightarrow> err + peer_info"
  me_exchange :: "nat \<Rightarrow> exchange"
  me_rounds :: "nat \<Rightarrow> nat"
  me_context :: "nat \<Rightarrow> err"
  me_signal :: "nat \<Rightarrow> int \<Rightarrow> err option"
  me_prepare :: "nat \<Rightarrow> err option"
  me_remove :: "nat \<Rightarrow> err option"
  me_cleanup :: "nat \<Rightarrow> err option"
  me_devnull :: "nat \<Rightarrow> err option"
  me_spawn :: "nat \<Rightarrow> err option"
  me_release :: "nat \<Rightarrow> err option"
  me_gone :: "client_error \<Rightarrow> bool"
  me_closed :: "client_error \<Rightarrow> bool"
  me_says_unavailable :: "client_error \<Rightarrow> bool"

type_synonym 'a mact = "manager_env \<Rightarrow> manager_state \<Rightarrow> manager_state \<times> 'a"

definition mret :: "'a \<Rightarrow> 'a mact" where
  "mret x = (\<lambda>me s. (s, x))"

definition mbind :: "'a mact \<Rightarrow> ('a \<Rightarrow> 'b mact) \<Rightarrow> 'b mact" where
  "mbind m f = (\<lambda>me s. case m me s of (s', x) \<Rightarrow> f x me s')"

definition mask :: "(manager_env \<Rightarrow> nat \<Rightarrow> 'a) \<Rightarrow> 'a mact" where
  "mask f = (\<lambda>me s. (s\<lparr>ms_tick := Suc (ms_tick s)\<rparr>, f me (ms_tick s)))"

definition mtell :: "helper_effect \<Rightarrow> unit mact" where
  "mtell x = (\<lambda>me s. (s\<lparr>ms_effects := x # ms_effects s\<rparr>, ()))"

definition menv :: "manager_env mact" where
  "menv = (\<lambda>me s. (s, me))"

text \<open>The error of the first is that of both.\<close>

definition mthen :: "(client_error + 'a) mact \<Rightarrow> ('a \<Rightarrow> (client_error + 'b) mact) \<Rightarrow> (client_error + 'b) mact" where
  "mthen m f = mbind m (\<lambda>r. case r of Inl e \<Rightarrow> mret (Inl e) | Inr x \<Rightarrow> f x)"

definition mfail :: "client_error \<Rightarrow> (client_error + 'a) mact" where
  "mfail e = mret (Inl e)"

definition from_option :: "err option \<Rightarrow> client_error + unit" where
  "from_option r = (case r of None \<Rightarrow> Inr () | Some e \<Rightarrow> Inl (ClientError e))"

lemmas mact_defs = mret_def mbind_def mask_def mtell_def menv_def mthen_def mfail_def

section \<open>Identity of a helper\<close>

text \<open>\<open>internal/helperidentity\<close>: the bundle that an executable is in and its identifier.\<close>

definition helper_bundle_path :: "file_system \<Rightarrow> string \<Rightarrow> string option" where
  "helper_bundle_path fs path = containing_app_bundle_path (best_effort_path fs path)"

definition bundle_id_for_executable :: "trust_env \<Rightarrow> string \<Rightarrow> string" where
  "bundle_id_for_executable te exe =
     (case helper_bundle_path (te_fs te) exe of
        None \<Rightarrow> ''''
      | Some bundle \<Rightarrow>
          (case plist_string (te_plist te) (path_join [bundle, ''Contents'', ''Info.plist''])
                  ''CFBundleIdentifier'' untrusted_daemon of
             Inl e \<Rightarrow> ''''
           | Inr i \<Rightarrow> i))"

definition hello_for_executable :: "manager_env \<Rightarrow> trust_env \<Rightarrow> string \<Rightarrow> int \<Rightarrow> helper_hello" where
  "hello_for_executable me te exe0 pid =
     (let exe = best_effort_path (te_fs te) exe0 in
      \<lparr>hh_protocol = protocol_version, hh_version = me_version me, hh_build = me_build me, hh_pid = pid,
        hh_executable = exe, hh_team = me_team me, hh_bundle = bundle_id_for_executable te exe\<rparr>)"

definition trusted_daemon_paths :: "manager_env \<Rightarrow> nat \<Rightarrow> err + string list" where
  "trusted_daemon_paths me t =
     (case (if me_daemon_path me = '''' then me_default_path me else Inr (me_daemon_path me)) of
        Inl e \<Rightarrow> Inl e
      | Inr p \<Rightarrow> daemon_paths_for_path (me_trust me t) p)"

definition expected_hello :: "manager_env \<Rightarrow> nat \<Rightarrow> err + helper_hello" where
  "expected_hello me t =
     (case trusted_daemon_paths me t of
        Inl e \<Rightarrow> Inl e
      | Inr [] \<Rightarrow> Inl (Text ''daemon path is required'')
      | Inr (p # ps) \<Rightarrow> Inr (hello_for_executable me (me_trust me t) p (me_pid me)))"

definition same_path :: "file_system \<Rightarrow> string \<Rightarrow> string \<Rightarrow> bool" where
  "same_path fs a b \<longleftrightarrow> best_effort_path fs a = best_effort_path fs b"

definition hello_matches :: "file_system \<Rightarrow> helper_hello \<Rightarrow> helper_hello \<Rightarrow> bool" where
  "hello_matches fs expected h \<longleftrightarrow>
     hh_protocol h = hh_protocol expected \<and> hh_version h = hh_version expected \<and>
     hh_build h = hh_build expected \<and> same_path fs (hh_executable h) (hh_executable expected) \<and>
     (hh_team expected \<noteq> '''' \<longrightarrow> hh_team h = hh_team expected) \<and>
     (hh_bundle expected \<noteq> '''' \<longrightarrow> hh_bundle h = hh_bundle expected)"

definition helper_matches_expected :: "helper_hello \<Rightarrow> (client_error + bool) mact" where
  "helper_matches_expected h =
     mask (\<lambda>me t. case expected_hello me t of
       Inl e \<Rightarrow> Inl (ClientError e)
     | Inr expected \<Rightarrow> Inr (hello_matches (te_fs (me_trust me t)) expected h))"

section \<open>Classifying errors\<close>

definition is_retiring :: "client_error \<Rightarrow> bool" where
  "is_retiring e \<longleftrightarrow> is_protocol_error e DaemonStopped"

definition daemon_unavailable :: sentinel where
  "daemon_unavailable = ControlErr ErrDaemonUnavailable"

definition is_unavailable :: "manager_env \<Rightarrow> client_error \<Rightarrow> bool" where
  "is_unavailable me e \<longleftrightarrow> client_error_is e daemon_unavailable \<or> me_closed me e"

definition helper_unavailable :: "manager_env \<Rightarrow> client_error \<Rightarrow> bool" where
  "helper_unavailable me e \<longleftrightarrow> is_unavailable me e \<or> (me_gone me e \<and> me_says_unavailable me e)"

definition classify_connect_error :: "manager_env \<Rightarrow> client_error \<Rightarrow> client_error" where
  "classify_connect_error me e =
     (if me_gone me e then WrapClient daemon_unavailable e
      else if client_error_is e untrusted_daemon then WrapClient (ControlErr ErrUnexpectedHelper) e
      else e)"

definition hello_mismatch :: "client_error \<Rightarrow> bool" where
  "hello_mismatch e \<longleftrightarrow>
     client_error_is e (ProtocolErr ErrProtocolType) \<or> client_error_is e (ProtocolErr ErrProtocolVersion) \<or>
     is_protocol_error e BadType \<or> is_protocol_error e UntrustedClient"

section \<open>Connecting and inspecting\<close>

type_synonym peer_validator = "manager_env \<Rightarrow> nat \<Rightarrow> string list \<Rightarrow> peer_info \<Rightarrow> err option"

definition daemon_validator :: peer_validator where
  "daemon_validator me t paths =
     validate_daemon_peer (me_trust me t) (new_daemon_validator (me_trust me t) (me_run me) paths (me_team me))"

definition product_validator :: peer_validator where
  "product_validator me t paths =
     validate_daemon_product (me_trust me t)
       (new_daemon_product_validator (me_trust me t) (me_run me) paths (me_team me)
          (codesign_verifier (me_run me)) (me_darwin me))"

definition dial_result :: "manager_env \<Rightarrow> nat \<Rightarrow> err + unit" where
  "dial_result me t = (case me_dial me t of Some e \<Rightarrow> Inl e | None \<Rightarrow> Inr ())"

definition connect_using :: "peer_validator \<Rightarrow> (client_error + unit) mact" where
  "connect_using v =
     mask (\<lambda>me t. case trusted_daemon_paths me t of
       Inl e \<Rightarrow> Inl (ClientError e)
     | Inr paths \<Rightarrow>
         (case connect_with_validator (dial_result me t) (me_peer me t) (Some (v me t paths)) of
            Inl e \<Rightarrow> Inl (ClientError e)
          | Inr u \<Rightarrow> Inr u))"

definition m_connect :: "(client_error + unit) mact" where
  "m_connect = connect_using daemon_validator"

definition connect_trusted_helper :: "(client_error + unit) mact" where
  "connect_trusted_helper = connect_using product_validator"

definition m_hello :: "(client_error + helper_hello) mact" where
  "m_hello = mask (\<lambda>me t. snd (client_hello (me_exchange me t)))"

definition m_status :: "(client_error + int) mact" where
  "m_status = mask (\<lambda>me t. snd (client_status (me_exchange me t)))"

definition m_request_stop :: "(client_error + int) mact" where
  "m_request_stop =
     mbind (mtell StopRequested) (\<lambda>_. mask (\<lambda>me t. snd (client_request_stop (me_exchange me t))))"

definition classified :: "(client_error + 'a) mact \<Rightarrow> (client_error + 'a) mact" where
  "classified m =
     mbind menv (\<lambda>me. mbind m (\<lambda>r. case r of
       Inl e \<Rightarrow> mfail (classify_connect_error me e) | Inr x \<Rightarrow> mret (Inr x)))"

definition inspect_connected_helper :: "(client_error + helper_hello \<times> bool) mact" where
  "inspect_connected_helper =
     mbind m_hello (\<lambda>r. case r of
       Inl e \<Rightarrow> mfail (if hello_mismatch e then WrapClient (ControlErr ErrHelperMismatch) e else e)
     | Inr h \<Rightarrow> mthen (helper_matches_expected h) (\<lambda>b. mret (Inr (h, b))))"

definition inspect_current_helper :: "(client_error + helper_hello \<times> bool) mact" where
  "inspect_current_helper = mthen (classified m_connect) (\<lambda>_. inspect_connected_helper)"

definition inspect_trusted_helper :: "(client_error + helper_hello \<times> bool) mact" where
  "inspect_trusted_helper = mthen (classified connect_trusted_helper) (\<lambda>_. inspect_connected_helper)"

definition helper_mismatch :: client_error where
  "helper_mismatch = ClientError (Err (ControlErr ErrHelperMismatch))"

definition status_before_start :: "(client_error + unit) mact" where
  "status_before_start =
     mthen inspect_current_helper (\<lambda>(h, b). if b then mret (Inr ()) else mfail helper_mismatch)"

definition manager_status :: "(client_error + int) mact" where
  "manager_status = mthen m_connect (\<lambda>_. m_status)"

section \<open>Waiting\<close>

definition raw_socket_unavailable :: "(client_error + bool) mact" where
  "raw_socket_unavailable =
     mask (\<lambda>me t. case connect_with_validator (dial_result me t) (me_peer me t) None of
       Inr u \<Rightarrow> Inr False
     | Inl e \<Rightarrow> if is_unavailable me (ClientError e) then Inr True else Inl (ClientError e))"

definition judged_unavailable :: "(client_error + 'a) mact \<Rightarrow> (client_error + bool) mact" where
  "judged_unavailable m =
     mbind menv (\<lambda>me. mbind m (\<lambda>r. case r of
       Inr x \<Rightarrow> mret (Inr False)
     | Inl e \<Rightarrow>
         if is_unavailable me e then mret (Inr True)
         else if is_retiring e then mret (Inr False)
         else mfail e))"

definition status_unavailable :: "(client_error + bool) mact" where
  "status_unavailable = judged_unavailable manager_status"

definition trusted_helper_unavailable :: "(client_error + bool) mact" where
  "trusted_helper_unavailable =
     mbind menv (\<lambda>me. mbind connect_trusted_helper (\<lambda>r. case r of
       Inl e \<Rightarrow> if is_unavailable me e then mret (Inr True) else mfail (classify_connect_error me e)
     | Inr _ \<Rightarrow> judged_unavailable m_status))"

definition still_running :: "(client_error + 'a) mact" where
  "still_running =
     mbind (mask me_context) (\<lambda>e. mfail (WrapClient (ControlErr ErrDaemonStillRunning) (ClientError e)))"

fun wait_loop :: "(client_error + bool) mact \<Rightarrow> nat \<Rightarrow> (client_error + unit) mact" where
  "wait_loop check 0 =
     mthen check (\<lambda>b. if b then mret (Inr ()) else still_running)"
| "wait_loop check (Suc n) =
     mthen check (\<lambda>b. if b then mret (Inr ()) else wait_loop check n)"

definition wait_until_unavailable_with :: "(client_error + bool) mact \<Rightarrow> (client_error + unit) mact" where
  "wait_until_unavailable_with check = mbind (mask me_rounds) (wait_loop check)"

definition wait_until_unavailable :: "(client_error + unit) mact" where
  "wait_until_unavailable = wait_until_unavailable_with status_unavailable"

definition wait_until_trusted_unavailable :: "(client_error + unit) mact" where
  "wait_until_trusted_unavailable = wait_until_unavailable_with trusted_helper_unavailable"

fun ready_loop :: "nat \<Rightarrow> (client_error + unit) mact" where
  "ready_loop 0 =
     mbind status_before_start (\<lambda>r. case r of
       Inr u \<Rightarrow> mret (Inr ())
     | Inl e \<Rightarrow>
         if \<not> client_error_is e daemon_unavailable then mfail e
         else mbind (mask me_context) (\<lambda>x. mfail (WrapClient daemon_unavailable (ClientError x))))"
| "ready_loop (Suc n) =
     mbind status_before_start (\<lambda>r. case r of
       Inr u \<Rightarrow> mret (Inr ())
     | Inl e \<Rightarrow> if \<not> client_error_is e daemon_unavailable then mfail e else ready_loop n)"

definition wait_until_ready :: "(client_error + unit) mact" where
  "wait_until_ready = mbind (mask me_rounds) ready_loop"

section \<open>Starting\<close>

text \<open>\<open>strings.ReplaceAll(arg, "{socket}", path)\<close>.\<close>

function replace_socket :: "string \<Rightarrow> string \<Rightarrow> string" where
  "replace_socket path s =
     (if s = '''' then ''''
      else if has_prefix s ''{socket}'' then path @ replace_socket path (drop 8 s)
      else hd s # replace_socket path (tl s))"
  by pat_completeness auto
termination by (relation "measure (\<lambda>(path, s). length s)") auto

declare replace_socket.simps [simp del]

definition daemon_args :: "manager_env \<Rightarrow> string list" where
  "daemon_args me =
     (if me_daemon_args me = [] then [''--socket'', me_socket me]
      else map (replace_socket (me_socket me)) (me_daemon_args me))"

text \<open>\<open>daemonprocess.StartCommand\<close>: a bundle is opened by the system, any other path is run.\<close>

definition app_launch_subcommand :: string where
  "app_launch_subcommand = ''__agent-secret-daemon''"

definition start_command :: "bool \<Rightarrow> string \<Rightarrow> string list \<Rightarrow> string \<times> string list" where
  "start_command darwin path args =
     (if darwin \<and> path_ext path = ''.app''
      then (''/usr/bin/open'', [''-g'', ''-n'', path, ''--args'', app_launch_subcommand] @ args)
      else (path, args))"

definition asked :: "(manager_env \<Rightarrow> nat \<Rightarrow> err option) \<Rightarrow> (client_error + unit) mact" where
  "asked f = mask (\<lambda>me t. from_option (f me t))"

definition clean_socket :: "bool \<Rightarrow> (client_error + unit) mact" where
  "clean_socket peer_gone =
     (if peer_gone then mbind (mtell SocketRemoved) (\<lambda>_. asked me_remove)
      else mbind (mtell StaleSocketCleaned) (\<lambda>_. asked me_cleanup))"

definition spawn_daemon :: "(client_error + unit) mact" where
  "spawn_daemon =
     mthen (asked me_devnull) (\<lambda>_.
     mbind menv (\<lambda>me.
       (case start_command (me_darwin me) (me_daemon_path me) (daemon_args me) of
          (cmd, args) \<Rightarrow>
            mthen (asked me_spawn) (\<lambda>_.
            mbind (mtell (HelperStarted cmd args)) (\<lambda>_.
            asked me_release)))))"

definition start_after_check :: "bool \<Rightarrow> (client_error + unit) mact" where
  "start_after_check peer_gone =
     mbind menv (\<lambda>me.
       if me_daemon_path me = '''' then mfail (ClientError (Text ''daemon path is required''))
       else mthen (asked me_prepare) (\<lambda>_.
            mthen (clean_socket peer_gone) (\<lambda>_.
            mthen spawn_daemon (\<lambda>_. wait_until_ready))))"

definition start_current :: "(client_error + unit) mact" where
  "start_current =
     mbind menv (\<lambda>me. mbind status_before_start (\<lambda>r. case r of
       Inr u \<Rightarrow> mret (Inr ())
     | Inl e \<Rightarrow>
         if is_retiring e then mthen wait_until_unavailable (\<lambda>_. start_after_check False)
         else if me_gone me e then start_after_check True
         else if \<not> helper_unavailable me e then mfail e
         else start_after_check False))"

section \<open>Stopping and signalling\<close>

fun stop_loop :: "nat \<Rightarrow> (client_error + unit) mact" where
  "stop_loop 0 = mfail (ClientError (Err (ControlErr ErrDaemonStillRunning)))"
| "stop_loop (Suc n) = mthen status_unavailable (\<lambda>b. if b then mret (Inr ()) else stop_loop n)"

definition manager_stop :: "(client_error + unit) mact" where
  "manager_stop =
     mthen m_connect (\<lambda>_. mthen m_request_stop (\<lambda>_. mbind (mask me_rounds) stop_loop))"

definition inspect_peer :: "peer_validator \<Rightarrow> (client_error + peer_info) mact" where
  "inspect_peer v =
     mask (\<lambda>me t. case trusted_daemon_paths me t of
       Inl e \<Rightarrow> Inl (ClientError e)
     | Inr paths \<Rightarrow>
         (case me_dial me t of
            Some e \<Rightarrow> Inl (ClientError (Wrap daemon_unavailable e))
          | None \<Rightarrow>
              (case me_peer me t of
                 Inl e \<Rightarrow> Inl (ClientError (Wrap untrusted_daemon e))
               | Inr info \<Rightarrow>
                   (case v me t paths info of Some e \<Rightarrow> Inl (ClientError e) | None \<Rightarrow> Inr info))))"

definition inspect_trusted_peer :: "(client_error + peer_info) mact" where
  "inspect_trusted_peer = inspect_peer product_validator"

definition inspect_repairable_peer :: "(client_error + peer_info) mact" where
  "inspect_repairable_peer =
     mask (\<lambda>me t. case me_dial me t of
       Some e \<Rightarrow> Inl (ClientError (Wrap daemon_unavailable e))
     | None \<Rightarrow>
         (case me_peer me t of
            Inl e \<Rightarrow> Inl (ClientError (Wrap untrusted_daemon e))
          | Inr info \<Rightarrow>
              (case validate_daemon_repair (me_trust me t) info of
                 Some e \<Rightarrow> Inl (ClientError e) | None \<Rightarrow> Inr info)))"

definition signal_helper ::
  "(client_error + peer_info) mact \<Rightarrow> (client_error + unit) mact \<Rightarrow> (client_error + unit) mact" where
  "signal_helper inspect wait =
     mbind menv (\<lambda>me. mbind inspect (\<lambda>r. case r of
       Inl e \<Rightarrow>
         if client_error_is e daemon_unavailable \<or> me_gone me e then mret (Inr ()) else mfail e
     | Inr info \<Rightarrow>
         if pi_pid info \<le> 0 then mfail (ClientError (Err (ControlErr ErrUnexpectedHelper)))
         else mbind (mtell (HelperSignalled (pi_pid info))) (\<lambda>_.
              mthen (asked (\<lambda>me t. me_signal me t (pi_pid info))) (\<lambda>_. wait))))"

definition signal_trusted_helper :: "(client_error + unit) mact" where
  "signal_trusted_helper = signal_helper inspect_trusted_peer wait_until_trusted_unavailable"

definition signal_repairable_helper :: "(client_error + unit) mact" where
  "signal_repairable_helper =
     signal_helper inspect_repairable_peer (wait_until_unavailable_with raw_socket_unavailable)"

definition stop_trusted_helper :: "(client_error + unit) mact" where
  "stop_trusted_helper =
     mbind menv (\<lambda>me. mbind connect_trusted_helper (\<lambda>r. case r of
       Inl e \<Rightarrow>
         if client_error_is e daemon_unavailable then mret (Inr ()) else mfail (classify_connect_error me e)
     | Inr u \<Rightarrow>
         mbind m_request_stop (\<lambda>r. case r of
           Inl e \<Rightarrow> if is_protocol_error e UntrustedClient then signal_trusted_helper else mfail e
         | Inr pid \<Rightarrow> wait_until_trusted_unavailable)))"

section \<open>Repair\<close>

datatype repair_status = RepairOK | RepairRefreshed | RepairRequired

text \<open>The process id of a result is that of its hello; without one both are zero.\<close>

record repair_result =
  rr_status :: repair_status
  rr_hello :: "helper_hello option"

type_synonym repair = "(repair_result \<times> client_error option) mact"

definition repaired :: "repair_status \<Rightarrow> helper_hello \<Rightarrow> repair" where
  "repaired st h = mret (\<lparr>rr_status = st, rr_hello = Some h\<rparr>, None)"

definition repair_fails :: "helper_hello option \<Rightarrow> client_error \<Rightarrow> repair" where
  "repair_fails h e = mret (\<lparr>rr_status = RepairRequired, rr_hello = h\<rparr>, Some e)"

definition or_repair_fails :: "(client_error + 'a) mact \<Rightarrow> ('a \<Rightarrow> repair) \<Rightarrow> repair" where
  "or_repair_fails m f = mbind m (\<lambda>r. case r of Inl e \<Rightarrow> repair_fails None e | Inr x \<Rightarrow> f x)"

text \<open>The end of each way to a new helper: it must match the current build.\<close>

definition verify_started :: "repair_status \<Rightarrow> repair" where
  "verify_started st =
     or_repair_fails inspect_trusted_helper
       (\<lambda>(h, b). if b then repaired st h else repair_fails (Some h) helper_mismatch)"

definition start_current_with_status :: "repair_status \<Rightarrow> repair" where
  "start_current_with_status st = or_repair_fails start_current (\<lambda>_. verify_started st)"

definition start_current_with_retry :: "repair_status \<Rightarrow> repair" where
  "start_current_with_retry st =
     mbind menv (\<lambda>me. mbind (start_current_with_status st) (\<lambda>(r, x). case x of
       None \<Rightarrow> mret (r, None)
     | Some e \<Rightarrow>
         if \<not> helper_unavailable me e \<and> \<not> me_gone me e then mret (r, Some e)
         else mbind (wait_until_unavailable_with raw_socket_unavailable) (\<lambda>w. case w of
           Inl _ \<Rightarrow> mret (r, Some e)
         | Inr _ \<Rightarrow> start_current_with_status st)))"

definition refresh_trusted_helper :: repair where
  "refresh_trusted_helper =
     or_repair_fails stop_trusted_helper (\<lambda>_. start_current_with_status RepairRefreshed)"

definition vanished_after_trust_error :: "client_error \<Rightarrow> bool mact" where
  "vanished_after_trust_error e =
     (if \<not> client_error_is e (ControlErr ErrUnexpectedHelper) \<and> \<not> client_error_is e untrusted_daemon
      then mret False
      else mbind raw_socket_unavailable (\<lambda>r.
        if r = Inr True then mret True
        else mbind (wait_until_unavailable_with raw_socket_unavailable) (\<lambda>w. mret (w = Inr ()))))"

definition repair_unexpected :: "client_error \<Rightarrow> repair" where
  "repair_unexpected e =
     (if client_error_is e (ClientErr ErrReleaseTeamIDRequired) then repair_fails None e
      else mbind signal_repairable_helper (\<lambda>r. case r of
        Inl x \<Rightarrow> if client_error_is x untrusted_daemon then repair_fails None e else repair_fails None x
      | Inr _ \<Rightarrow> start_current_with_retry RepairRefreshed))"

definition repair_once :: repair where
  "repair_once =
     mbind menv (\<lambda>me. mbind inspect_trusted_helper (\<lambda>r. case r of
       Inr (h, b) \<Rightarrow> if b then repaired RepairOK h else refresh_trusted_helper
     | Inl e \<Rightarrow>
         if helper_unavailable me e
         then start_current_with_retry (if me_gone me e then RepairRefreshed else RepairOK)
         else if is_retiring e
         then or_repair_fails wait_until_trusted_unavailable
                (\<lambda>_. start_current_with_status RepairRefreshed)
         else if client_error_is e (ControlErr ErrHelperMismatch) then refresh_trusted_helper
         else if client_error_is e (ControlErr ErrUnexpectedHelper) then repair_unexpected e
         else mbind (vanished_after_trust_error e) (\<lambda>b.
           if b then start_current_with_retry RepairRefreshed else repair_fails None e)))"

text \<open>The second attempt of \<open>Repair\<close>, after the error of the first.\<close>

definition repair_again :: "client_error \<Rightarrow> repair" where
  "repair_again e =
     mbind menv (\<lambda>me. mbind repair_once (\<lambda>(r, x).
       mret (if x = None \<and> rr_status r = RepairOK \<and> me_gone me e
             then r\<lparr>rr_status := RepairRefreshed\<rparr> else r, x)))"

definition manager_repair :: repair where
  "manager_repair =
     mbind menv (\<lambda>me. mbind repair_once (\<lambda>(r, x). case x of
       None \<Rightarrow> mret (r, None)
     | Some e \<Rightarrow>
         if \<not> helper_unavailable me e \<and> \<not> me_gone me e then mret (r, Some e)
         else mbind (wait_until_unavailable_with raw_socket_unavailable) (\<lambda>w. case w of
           Inl _ \<Rightarrow> mret (r, Some e)
         | Inr _ \<Rightarrow> repair_again e)))"

definition manager_ensure_running :: "client_error option mact" where
  "manager_ensure_running = mbind manager_repair (\<lambda>(r, x). mret x)"

section \<open>The account check\<close>

definition check_onepassword_once :: "(client_error + unit) mact" where
  "check_onepassword_once =
     mthen m_connect (\<lambda>_. mask (\<lambda>me t. case snd (client_check_onepassword (me_exchange me t)) of
       None \<Rightarrow> Inr () | Some e \<Rightarrow> Inl e))"

definition manager_check_onepassword :: "(client_error + unit) mact" where
  "manager_check_onepassword =
     mbind check_onepassword_once (\<lambda>r. case r of
       Inr u \<Rightarrow> mret (Inr ())
     | Inl e \<Rightarrow>
         if \<not> is_retiring e then mfail e
         else mbind (wait_until_unavailable_with raw_socket_unavailable) (\<lambda>w. case w of
           Inl _ \<Rightarrow> mfail e
         | Inr _ \<Rightarrow> mbind manager_repair (\<lambda>(r, x). case x of
             Some e' \<Rightarrow> mfail e' | None \<Rightarrow> check_onepassword_once)))"

section \<open>What is done to other processes\<close>

text \<open>
  A process that is signalled was the peer of the socket and passed a validator at that moment; what
  is started is the configured daemon with its arguments.
\<close>

definition signal_allowed :: "manager_env \<Rightarrow> int \<Rightarrow> bool" where
  "signal_allowed me pid \<longleftrightarrow>
     (\<exists>t info. me_peer me t = Inr info \<and> me_dial me t = None \<and> pi_pid info = pid \<and> 0 < pid \<and>
        ((\<exists>paths. trusted_daemon_paths me t = Inr paths \<and> product_validator me t paths info = None) \<or>
         validate_daemon_repair (me_trust me t) info = None))"

fun effect_allowed :: "manager_env \<Rightarrow> helper_effect \<Rightarrow> bool" where
  "effect_allowed me (HelperSignalled pid) \<longleftrightarrow> signal_allowed me pid"
| "effect_allowed me (HelperStarted cmd args) \<longleftrightarrow>
     me_daemon_path me \<noteq> '''' \<and> (cmd, args) = start_command (me_darwin me) (me_daemon_path me) (daemon_args me)"
| "effect_allowed me x \<longleftrightarrow> True"

text \<open>All effects that an action adds are allowed; its results satisfy a predicate.\<close>

definition allowed :: "manager_env \<Rightarrow> 'a mact \<Rightarrow> bool" where
  "allowed me m \<longleftrightarrow>
     (\<forall>s. \<forall>x \<in> set (ms_effects (fst (m me s))). x \<in> set (ms_effects s) \<or> effect_allowed me x)"

definition ensures :: "manager_env \<Rightarrow> ('a \<Rightarrow> bool) \<Rightarrow> 'a mact \<Rightarrow> bool" where
  "ensures me Q m \<longleftrightarrow> (\<forall>s. Q (snd (m me s)))"

named_theorems allowed_rules

lemma allowed_mret [allowed_rules]: "allowed me (mret x)"
  by (simp add: allowed_def mret_def)

lemma allowed_mask [allowed_rules]: "allowed me (mask f)"
  by (simp add: allowed_def mask_def)

lemma allowed_menv [allowed_rules]: "allowed me menv"
  by (simp add: allowed_def menv_def)

lemma allowed_mfail [allowed_rules]: "allowed me (mfail e)"
  by (simp add: mfail_def allowed_rules)

lemma allowed_asked [allowed_rules]: "allowed me (asked f)"
  by (simp add: asked_def allowed_rules)

lemma allowed_mtell: "effect_allowed me x \<Longrightarrow> allowed me (mtell x)"
  by (simp add: allowed_def mtell_def)

lemma allowed_mbind [allowed_rules]:
  assumes "allowed me m" "\<And>x. allowed me (f x)"
  shows "allowed me (mbind m f)"
  unfolding allowed_def
proof (intro allI ballI)
  fix s x
  assume x: "x \<in> set (ms_effects (fst (mbind m f me s)))"
  obtain s1 y where m: "m me s = (s1, y)" by fastforce
  have "x \<in> set (ms_effects s1) \<or> effect_allowed me x"
    using assms(2) [of y, unfolded allowed_def] x m by (auto simp: mbind_def)
  then show "x \<in> set (ms_effects s) \<or> effect_allowed me x"
    using assms(1) [unfolded allowed_def, rule_format, where s = s] m by force
qed

lemma allowed_mthen [allowed_rules]: "allowed me m \<Longrightarrow> (\<And>x. allowed me (f x)) \<Longrightarrow> allowed me (mthen m f)"
  unfolding mthen_def by (intro allowed_rules) (auto split: sum.split intro: allowed_rules)

lemma allowed_menv_bind: "allowed me (f me) \<Longrightarrow> allowed me (mbind menv f)"
  by (simp add: allowed_def mbind_def menv_def)

lemma allowedD: "allowed me m \<Longrightarrow> x \<in> set (ms_effects (fst (m me s))) \<Longrightarrow>
    x \<in> set (ms_effects s) \<or> effect_allowed me x"
  by (simp add: allowed_def)

lemma allowed_classified [allowed_rules]: "allowed me m \<Longrightarrow> allowed me (classified m)"
  unfolding classified_def by (intro allowed_rules) (auto split: sum.split intro: allowed_rules)

lemma allowed_connect [allowed_rules]:
  "allowed me m_connect" "allowed me connect_trusted_helper" "allowed me m_hello" "allowed me m_status"
  "allowed me raw_socket_unavailable" "allowed me (helper_matches_expected h)"
  by (simp_all add: m_connect_def connect_trusted_helper_def connect_using_def m_hello_def m_status_def
      raw_socket_unavailable_def helper_matches_expected_def allowed_mask)

lemma allowed_request_stop [allowed_rules]: "allowed me m_request_stop"
  unfolding m_request_stop_def by (intro allowed_rules allowed_mtell) simp

lemma allowed_inspect [allowed_rules]:
  "allowed me inspect_connected_helper" "allowed me inspect_current_helper" "allowed me inspect_trusted_helper"
proof -
  show connected: "allowed me inspect_connected_helper"
    unfolding inspect_connected_helper_def
    by (intro allowed_rules) (auto split: sum.split intro!: allowed_rules)
  show "allowed me inspect_current_helper" "allowed me inspect_trusted_helper"
    unfolding inspect_current_helper_def inspect_trusted_helper_def
    by (intro allowed_rules connected)+
qed

lemma allowed_status_before_start [allowed_rules]: "allowed me status_before_start"
  unfolding status_before_start_def
  by (intro allowed_rules) (auto split: prod.split intro!: allowed_rules)

lemma allowed_judged [allowed_rules]: "allowed me m \<Longrightarrow> allowed me (judged_unavailable m)"
  unfolding judged_unavailable_def by (intro allowed_rules) (auto split: sum.split intro!: allowed_rules)

lemma allowed_checks [allowed_rules]:
  "allowed me status_unavailable" "allowed me trusted_helper_unavailable"
proof -
  show "allowed me status_unavailable"
    unfolding status_unavailable_def manager_status_def by (intro allowed_rules)
  show "allowed me trusted_helper_unavailable"
    unfolding trusted_helper_unavailable_def
    by (intro allowed_rules) (auto split: sum.split intro!: allowed_rules)
qed

lemma allowed_wait_loop: "allowed me check \<Longrightarrow> allowed me (wait_loop check n)"
  by (induction n)
    (auto simp: still_running_def intro!: allowed_rules)

lemma allowed_waits [allowed_rules]:
  "allowed me check \<Longrightarrow> allowed me (wait_until_unavailable_with check)"
  "allowed me wait_until_unavailable" "allowed me wait_until_trusted_unavailable"
  unfolding wait_until_unavailable_with_def wait_until_unavailable_def wait_until_trusted_unavailable_def
  by (intro allowed_rules allowed_wait_loop | assumption)+

lemma allowed_ready [allowed_rules]: "allowed me wait_until_ready"
proof -
  have "allowed me (ready_loop n)" for n
    by (induction n) (auto split: sum.split intro!: allowed_rules)
  then show ?thesis
    unfolding wait_until_ready_def by (intro allowed_rules)
qed

lemma allowed_clean_socket [allowed_rules]: "allowed me (clean_socket b)"
  unfolding clean_socket_def by (auto intro!: allowed_rules allowed_mtell)

lemma allowed_spawn:
  assumes "me_daemon_path me \<noteq> ''''"
  shows "allowed me spawn_daemon"
  unfolding spawn_daemon_def
  by (intro allowed_rules allowed_menv_bind)
    (use assms in \<open>auto split: prod.split intro!: allowed_rules allowed_mtell\<close>)

lemma allowed_start [allowed_rules]: "allowed me (start_after_check b)" "allowed me start_current"
proof -
  show after: "allowed me (start_after_check b)" for b
    unfolding start_after_check_def
    by (rule allowed_menv_bind) (simp add: allowed_rules allowed_spawn)
  show "allowed me start_current"
    unfolding start_current_def
    by (intro allowed_menv_bind allowed_rules) (auto split: sum.split intro!: allowed_rules after)
qed

section \<open>What results mean\<close>

lemma ensures_mbind:
  assumes "ensures me R m" "\<And>x. R x \<Longrightarrow> ensures me Q (f x)"
  shows "ensures me Q (mbind m f)"
  unfolding ensures_def
proof
  fix s
  obtain s' x where m: "m me s = (s', x)" by fastforce
  with assms(1) have "R x" unfolding ensures_def by (metis snd_conv)
  from assms(2) [OF this] show "Q (snd (mbind m f me s))"
    by (simp add: ensures_def mbind_def m)
qed

lemma ensures_any: "(\<And>x. ensures me Q (f x)) \<Longrightarrow> ensures me Q (mbind m f)"
  by (rule ensures_mbind [where R = "\<lambda>x. True"]) (simp_all add: ensures_def)

lemma ensures_menv: "ensures me Q (f me) \<Longrightarrow> ensures me Q (mbind menv f)"
  by (simp add: ensures_def mbind_def menv_def)

lemma ensures_mret: "Q x \<Longrightarrow> ensures me Q (mret x)"
  by (simp add: ensures_def mret_def)

lemma ensures_mask: "(\<And>t. Q (f me t)) \<Longrightarrow> ensures me Q (mask f)"
  by (simp add: ensures_def mask_def)

lemma allowed_mbind_ensures:
  assumes "allowed me m" "ensures me R m" "\<And>x. R x \<Longrightarrow> allowed me (f x)"
  shows "allowed me (mbind m f)"
  unfolding allowed_def
proof (intro allI ballI)
  fix s x
  assume x: "x \<in> set (ms_effects (fst (mbind m f me s)))"
  obtain s1 y where m: "m me s = (s1, y)" by fastforce
  then have "R y" using assms(2) unfolding ensures_def by (metis snd_conv)
  with x m have "x \<in> set (ms_effects s1) \<or> effect_allowed me x"
    using assms(3) [unfolded allowed_def] by (auto simp: mbind_def)
  then show "x \<in> set (ms_effects s) \<or> effect_allowed me x"
    using assms(1) [unfolded allowed_def, rule_format, where s = s] m by force
qed

definition signallable :: "manager_env \<Rightarrow> client_error + peer_info \<Rightarrow> bool" where
  "signallable me r \<longleftrightarrow> (\<forall>info. r = Inr info \<longrightarrow> 0 < pi_pid info \<longrightarrow> signal_allowed me (pi_pid info))"

lemma inspect_trusted_signallable: "ensures me (signallable me) inspect_trusted_peer"
  unfolding inspect_trusted_peer_def inspect_peer_def
  by (rule ensures_mask) (fastforce simp: signallable_def signal_allowed_def split: sum.split option.split)

lemma inspect_repairable_signallable: "ensures me (signallable me) inspect_repairable_peer"
  unfolding inspect_repairable_peer_def
  by (rule ensures_mask) (fastforce simp: signallable_def signal_allowed_def split: sum.split option.split)

lemma allowed_signal_helper:
  assumes "allowed me inspect" "ensures me (signallable me) inspect" "allowed me wait"
  shows "allowed me (signal_helper inspect wait)"
  unfolding signal_helper_def
proof (intro allowed_menv_bind allowed_mbind_ensures [OF assms(1,2)])
  fix r
  assume r: "signallable me r"
  show "allowed me (case r of
       Inl e \<Rightarrow> if client_error_is e daemon_unavailable \<or> me_gone me e then mret (Inr ()) else mfail e
     | Inr info \<Rightarrow>
         if pi_pid info \<le> 0 then mfail (ClientError (Err (ControlErr ErrUnexpectedHelper)))
         else mbind (mtell (HelperSignalled (pi_pid info))) (\<lambda>_.
              mthen (asked (\<lambda>me t. me_signal me t (pi_pid info))) (\<lambda>_. wait)))"
    using r assms(3)
    by (auto split: sum.split simp: signallable_def intro!: allowed_rules allowed_mtell)
qed

lemma allowed_signals [allowed_rules]:
  "allowed me signal_trusted_helper" "allowed me signal_repairable_helper"
  unfolding signal_trusted_helper_def signal_repairable_helper_def
  by (intro allowed_signal_helper inspect_trusted_signallable inspect_repairable_signallable allowed_rules;
      simp add: inspect_trusted_peer_def inspect_peer_def inspect_repairable_peer_def allowed_mask)+

lemma allowed_stop_trusted [allowed_rules]: "allowed me stop_trusted_helper"
  unfolding stop_trusted_helper_def
  by (intro allowed_menv_bind allowed_rules) (auto split: sum.split intro!: allowed_rules)

lemma allowed_repair_results [allowed_rules]:
  "allowed me (repaired st h)" "allowed me (repair_fails x e)"
  "allowed me m \<Longrightarrow> (\<And>x. allowed me (f x)) \<Longrightarrow> allowed me (or_repair_fails m f)"
  by (auto simp: repaired_def repair_fails_def or_repair_fails_def split: sum.split intro!: allowed_rules)

lemma allowed_verify_started [allowed_rules]: "allowed me (verify_started st)"
  unfolding verify_started_def by (intro allowed_rules) (auto split: prod.split intro!: allowed_rules)

lemma allowed_start_with [allowed_rules]:
  "allowed me (start_current_with_status st)" "allowed me (start_current_with_retry st)"
  "allowed me refresh_trusted_helper"
proof -
  show start: "allowed me (start_current_with_status st)" for st
    unfolding start_current_with_status_def by (intro allowed_rules)
  show "allowed me (start_current_with_retry st)"
    unfolding start_current_with_retry_def
    by (intro allowed_menv_bind allowed_rules start)
      (auto split: prod.split option.split sum.split intro!: allowed_rules start)
  show "allowed me refresh_trusted_helper"
    unfolding refresh_trusted_helper_def by (intro allowed_rules start)
qed

lemma allowed_repair_once [allowed_rules]: "allowed me repair_once"
proof -
  have vanished: "allowed me (vanished_after_trust_error e)" for e
    unfolding vanished_after_trust_error_def by (auto intro!: allowed_rules)
  have unexpected: "allowed me (repair_unexpected e)" for e
    unfolding repair_unexpected_def by (auto split: sum.split intro!: allowed_rules)
  show ?thesis
    unfolding repair_once_def
    by (intro allowed_menv_bind allowed_rules)
      (auto split: sum.split prod.split intro!: allowed_rules vanished unexpected)
qed

lemma allowed_repair_again [allowed_rules]: "allowed me (repair_again e)"
  unfolding repair_again_def
  by (intro allowed_menv_bind allowed_rules) (auto split: prod.split intro!: allowed_rules)

lemma allowed_manager_repair [allowed_rules]: "allowed me manager_repair"
  unfolding manager_repair_def
  by (intro allowed_menv_bind allowed_rules) (auto split: sum.split prod.split option.split intro!: allowed_rules)

text \<open>
  A hello that matched came over a connection whose peer the product validator accepted, and agrees
  with what this build expects of its helper.
\<close>

definition inspected :: "manager_env \<Rightarrow> helper_hello \<Rightarrow> bool" where
  "inspected me h \<longleftrightarrow>
     (\<exists>t paths info expected.
        trusted_daemon_paths me t = Inr paths \<and> me_dial me t = None \<and> me_peer me t = Inr info \<and>
        product_validator me t paths info = None \<and>
        snd (client_hello (me_exchange me (Suc t))) = Inr h \<and>
        expected_hello me (Suc (Suc t)) = Inr expected \<and>
        hello_matches (te_fs (me_trust me (Suc (Suc t)))) expected h)"

lemma connect_with_validator_Inr:
  "connect_with_validator dial peer (Some v) = Inr c \<longleftrightarrow>
     dial = Inr c \<and> (\<exists>info. peer = Inr info \<and> v info = None)"
  by (auto simp: connect_with_validator_def split: sum.splits option.splits)

lemma inspect_trusted_inspected:
  "ensures me (\<lambda>r. \<forall>h. r = Inr (h, True) \<longrightarrow> inspected me h) inspect_trusted_helper"
  unfolding ensures_def
proof (intro allI impI)
  fix s h
  assume r: "snd (inspect_trusted_helper me s) = Inr (h, True)"
  let ?t = "ms_tick s"
  from r obtain paths where paths: "trusted_daemon_paths me ?t = Inr paths"
    and conn: "connect_with_validator (dial_result me ?t) (me_peer me ?t) (Some (product_validator me ?t paths)) = Inr ()"
    and hello: "snd (client_hello (me_exchange me (Suc ?t))) = Inr h"
    and matches: "snd (helper_matches_expected h me (s\<lparr>ms_tick := Suc (Suc ?t)\<rparr>)) = Inr True"
    by (auto simp: inspect_trusted_helper_def inspect_connected_helper_def connect_trusted_helper_def
        connect_using_def classified_def m_hello_def helper_matches_expected_def mact_defs
        split: sum.splits if_splits prod.splits)
  then show "inspected me h"
    unfolding inspected_def
    by (intro exI [of _ ?t] exI [of _ paths])
      (auto simp: connect_with_validator_Inr dial_result_def helper_matches_expected_def mask_def
        split: option.splits sum.splits)
qed

definition repair_sound :: "manager_env \<Rightarrow> repair_result \<times> client_error option \<Rightarrow> bool" where
  "repair_sound me rx \<longleftrightarrow>
     (snd rx = None \<longrightarrow>
        (\<exists>h. rr_hello (fst rx) = Some h \<and> inspected me h) \<and> rr_status (fst rx) \<noteq> RepairRequired)"

named_theorems sound_rules

lemma sound_fails [sound_rules]: "ensures me (repair_sound me) (repair_fails h e)"
  by (simp add: repair_fails_def repair_sound_def ensures_mret)

lemma sound_mret [sound_rules]: "repair_sound me x \<Longrightarrow> ensures me (repair_sound me) (mret x)"
  by (rule ensures_mret)

lemma sound_repaired: "inspected me h \<Longrightarrow> st \<noteq> RepairRequired \<Longrightarrow> ensures me (repair_sound me) (repaired st h)"
  by (simp add: repaired_def repair_sound_def ensures_mret)

lemma sound_or_fails [sound_rules]:
  "(\<And>x. ensures me (repair_sound me) (f x)) \<Longrightarrow> ensures me (repair_sound me) (or_repair_fails m f)"
  unfolding or_repair_fails_def by (rule ensures_any) (auto split: sum.split intro: sound_rules)

lemma sound_verify_started [sound_rules]:
  "st \<noteq> RepairRequired \<Longrightarrow> ensures me (repair_sound me) (verify_started st)"
  unfolding verify_started_def or_repair_fails_def
  by (rule ensures_mbind [OF inspect_trusted_inspected])
    (auto split: sum.split prod.split intro!: sound_rules sound_repaired)

lemma sound_start_with [sound_rules]:
  "st \<noteq> RepairRequired \<Longrightarrow> ensures me (repair_sound me) (start_current_with_status st)"
  unfolding start_current_with_status_def by (intro sound_rules)

lemma repair_sound_error [simp]: "repair_sound me (r, Some e)"
  by (simp add: repair_sound_def)

lemma sound_start_retry [sound_rules]:
  assumes "st \<noteq> RepairRequired"
  shows "ensures me (repair_sound me) (start_current_with_retry st)"
  unfolding start_current_with_retry_def
proof (intro ensures_menv ensures_mbind [OF sound_start_with [OF assms]])
  fix rx
  assume "repair_sound me rx"
  then show "ensures me (repair_sound me) ((\<lambda>(r, x). case x of
       None \<Rightarrow> mret (r, None)
     | Some e \<Rightarrow>
         if \<not> helper_unavailable me e \<and> \<not> me_gone me e then mret (r, Some e)
         else mbind (wait_until_unavailable_with raw_socket_unavailable) (\<lambda>w. case w of
           Inl _ \<Rightarrow> mret (r, Some e)
         | Inr _ \<Rightarrow> start_current_with_status st)) rx)"
    using assms
    by (auto split: prod.split option.split sum.split intro!: sound_rules ensures_any)
qed

lemma sound_refresh [sound_rules]: "ensures me (repair_sound me) refresh_trusted_helper"
  unfolding refresh_trusted_helper_def by (intro sound_rules) simp

lemma sound_unexpected [sound_rules]: "ensures me (repair_sound me) (repair_unexpected e)"
  unfolding repair_unexpected_def
  by (auto split: sum.split intro!: sound_rules ensures_any)

lemma sound_repair_once: "ensures me (repair_sound me) repair_once"
  unfolding repair_once_def
  by (intro ensures_menv ensures_mbind [OF inspect_trusted_inspected])
    (auto split: sum.split prod.split intro!: sound_rules sound_repaired ensures_any)

lemma sound_repair_again [sound_rules]: "ensures me (repair_sound me) (repair_again e)"
  unfolding repair_again_def
  by (intro ensures_menv ensures_mbind [OF sound_repair_once])
    (auto simp: repair_sound_def split: prod.split intro!: ensures_mret)

lemma sound_manager_repair: "ensures me (repair_sound me) manager_repair"
  unfolding manager_repair_def
  by (intro ensures_menv ensures_mbind [OF sound_repair_once])
    (auto split: prod.split option.split sum.split intro!: sound_rules ensures_any)

end
