(* ===== verification/ClientRuns.thy ===== *)
theory ClientRuns
  imports Manager ExecWrap CommandLine
begin

text \<open>
  What the client does with a parsed command: \<open>internal/cli/app_exec.go\<close>, \<open>app_session.go\<close>,
  \<open>app_item.go\<close> and \<open>app_requests.go\<close>. The helper is repaired, one request is sent to it, and for
  \<open>exec\<close> and \<open>with-session\<close> the answer's environment is merged into the child's. Printing is left out
  but for the exit code.
\<close>

section \<open>One request\<close>

text \<open>\<open>requestDaemonPayload\<close>: a stopped daemon is refreshed and asked once more.\<close>

definition request_daemon_payload :: "(client_error + 'a) mact \<Rightarrow> (client_error + 'a) mact" where
  "request_daemon_payload send =
     mthen m_connect (\<lambda>_. mbind send (\<lambda>r. case r of
       Inr p \<Rightarrow> mret (Inr p)
     | Inl e \<Rightarrow>
         if \<not> is_protocol_error e DaemonStopped then mfail e
         else mbind manager_ensure_running (\<lambda>x. case x of
           Some e' \<Rightarrow> mfail e'
         | None \<Rightarrow> mthen m_connect (\<lambda>_. send))))"

definition sending :: "(exchange \<Rightarrow> bool \<times> (client_error + 'a)) \<Rightarrow> (client_error + 'a) mact" where
  "sending f = mask (\<lambda>me t. snd (f (me_exchange me t)))"

section \<open>Reporting to the daemon\<close>

definition fatal_codes :: "error_code list" where
  "fatal_codes =
     [BadCommandStarted, AuditFailed, BadEnvelope, BadType, InvalidNonce, RequestActive, RequestExpired,
      StaleApproval, UntrustedClient]"

definition is_fatal_started_failure :: "client_error \<Rightarrow> bool" where
  "is_fatal_started_failure e \<longleftrightarrow>
     client_error_is e (ProtocolErr ErrInvalidNonce) \<or> client_error_is e (ProtocolErr ErrMalformedEnvelope) \<or>
     client_error_is e (ProtocolErr ErrProtocolType) \<or> list_ex (is_protocol_error e) fatal_codes"

text \<open>
  The reporter of the daemon: a failure to report the start is fatal for the child only where the
  daemon refused it; a failure to report the end is a warning. \<open>am_started\<close> and \<open>am_completed\<close> are the
  round trips of the two reports.
\<close>

record app_env =
  am_manager :: "err + manager_env"
  am_request_id :: "err + string"
  am_nonce :: "err + string"
  am_child :: child_world
  am_started :: exchange
  am_completed :: exchange
  am_signal_text :: "signal \<Rightarrow> string"
  am_chdir :: "string \<Rightarrow> err option"
  am_self :: "err + expected_peer"
  am_write :: "err option"

definition command_started :: "app_env \<Rightarrow> correlation \<Rightarrow> int \<Rightarrow> err option" where
  "command_started am c pid =
     (case snd (client_report_started c pid (am_started am)) of
        None \<Rightarrow> None
      | Some e \<Rightarrow> if is_fatal_started_failure e then Some (Text ''report command started'') else None)"

definition command_completed :: "app_env \<Rightarrow> correlation \<Rightarrow> child_result \<Rightarrow> err option" where
  "command_completed am c r =
     (let signal = (case cr_signal r of None \<Rightarrow> '''' | Some s \<Rightarrow> am_signal_text am s) in
      case snd (client_report_completed c (cr_exit r) signal (am_completed am)) of _ \<Rightarrow> None)"

definition reporting_world :: "app_env \<Rightarrow> correlation \<Rightarrow> child_world" where
  "reporting_world am c =
     (am_child am)\<lparr>cw_started := command_started am c, cw_completed := command_completed am c\<rparr>"

section \<open>Commands\<close>

text \<open>
  The outcome of a run: what was done to the child, the effects on helper processes, and the exit code
  of the client.
\<close>

record run_outcome =
  ro_child :: "child_effect list"
  ro_manager :: manager_state
  ro_exit :: int

definition stopped_run :: "manager_state \<Rightarrow> int \<Rightarrow> run_outcome" where
  "stopped_run s code = \<lparr>ro_child = [], ro_manager = s, ro_exit = code\<rparr>"

text \<open>The last step is to print; only output whose error is looked at can fail the run.\<close>

definition printed_run :: "app_env \<Rightarrow> bool \<Rightarrow> manager_state \<Rightarrow> run_outcome" where
  "printed_run am checked s = stopped_run s (if checked \<and> am_write am \<noteq> None then 1 else 0)"

text \<open>
  What the four commands share: the manager, \<open>ensureBackgroundHelper\<close>, the correlation of the request,
  the request itself, and what is done with the answer.
\<close>

definition with_daemon ::
  "app_env \<Rightarrow> (correlation \<Rightarrow> (client_error + 'a) mact) \<Rightarrow> (correlation \<Rightarrow> 'a \<Rightarrow> manager_state \<Rightarrow> run_outcome) \<Rightarrow>
   manager_state \<Rightarrow> run_outcome" where
  "with_daemon am send finish s =
     (case am_manager am of
        Inl e \<Rightarrow> stopped_run s 1
      | Inr me \<Rightarrow>
     (case manager_repair me s of
        (s1, (r, Some e)) \<Rightarrow> stopped_run s1 1
      | (s1, (r, None)) \<Rightarrow>
     (case am_request_id am of
        Inl e \<Rightarrow> stopped_run s1 1
      | Inr rid \<Rightarrow>
     (case am_nonce am of
        Inl e \<Rightarrow> stopped_run s1 1
      | Inr nonce \<Rightarrow>
     (let c = \<lparr>co_request_id = rid, co_nonce = nonce\<rparr> in
      case request_daemon_payload (send c) me s1 of
        (s2, Inl e) \<Rightarrow> stopped_run s2 1
      | (s2, Inr a) \<Rightarrow> finish c a s2)))))"

definition run_result :: "app_env \<Rightarrow> correlation \<Rightarrow> child_spec \<Rightarrow> manager_state \<Rightarrow> run_outcome" where
  "run_result am c spec s =
     (case run_child (reporting_world am c) spec of
        (es, r, Some e) \<Rightarrow> \<lparr>ro_child = es, ro_manager = s, ro_exit = 1\<rparr>
      | (es, r, None) \<Rightarrow> \<lparr>ro_child = es, ro_manager = s, ro_exit = cr_exit r\<rparr>)"

definition answer_env :: "(string \<times> string) list option \<Rightarrow> (string \<times> string) list" where
  "answer_env env = (case env of None \<Rightarrow> [] | Some kvs \<Rightarrow> kvs)"

definition exec_child_spec :: "exec_request \<Rightarrow> string list \<Rightarrow> exec_answer \<Rightarrow> child_spec" where
  "exec_child_spec q env a =
     \<lparr>cs_path = er_executable q, cs_identity = er_identity q, cs_args = tl (er_command q),
       cs_dir = er_cwd q, cs_base_env = Some env, cs_env = answer_env (xa_env a),
       cs_override = er_override_env q\<rparr>"

definition run_exec ::
  "app_env \<Rightarrow> bool \<Rightarrow> exec_request \<Rightarrow> string list \<Rightarrow> bool \<Rightarrow> manager_state \<Rightarrow> run_outcome" where
  "run_exec am json q env dry_run s =
     (if dry_run then printed_run am json s
      else with_daemon am (\<lambda>c. sending (client_request_exec c q))
        (\<lambda>c a. run_result am c (exec_child_spec q env a)) s)"

definition with_expected_peer :: "session_resolve_request \<Rightarrow> expected_peer \<Rightarrow> session_resolve_request" where
  "with_expected_peer q p = q\<lparr>sv_expected_peer := p\<rparr>"

definition session_child_spec :: "session_resolve_request \<Rightarrow> string list \<Rightarrow> resolve_answer \<Rightarrow> child_spec" where
  "session_child_spec q env a =
     \<lparr>cs_path = sv_executable q, cs_identity = sv_identity q, cs_args = tl (sv_command q),
       cs_dir = sv_cwd q, cs_base_env = Some env, cs_env = answer_env (va_env a),
       cs_override = va_override_env a\<rparr>"

definition run_with_session :: "app_env \<Rightarrow> session_resolve_request \<Rightarrow> string list \<Rightarrow> manager_state \<Rightarrow> run_outcome" where
  "run_with_session am q0 env s =
     (case am_chdir am (sv_cwd q0) of
        Some e \<Rightarrow> stopped_run s 1
      | None \<Rightarrow>
     (case am_self am of
        Inl e \<Rightarrow> stopped_run s 1
      | Inr self \<Rightarrow>
          (let q = with_expected_peer q0 self in
           with_daemon am (\<lambda>c. sending (client_resolve_session c q))
             (\<lambda>c a. run_result am c (session_child_spec q env a)) s)))"

definition run_session_create ::
  "app_env \<Rightarrow> json_mode \<Rightarrow> session_create_request \<Rightarrow> manager_state \<Rightarrow> run_outcome" where
  "run_session_create am m q s =
     with_daemon am (\<lambda>c. sending (client_create_session c q))
       (\<lambda>c a s'. printed_run am (json_enabled m) s') s"

definition run_item_describe :: "app_env \<Rightarrow> item_describe_request \<Rightarrow> manager_state \<Rightarrow> run_outcome" where
  "run_item_describe am q s =
     with_daemon am (\<lambda>c. sending (client_describe_item c q)) (\<lambda>c a s'. printed_run am True s') s"

text \<open>Listing and destroying sessions send no correlation.\<close>

definition without_correlation ::
  "app_env \<Rightarrow> json_mode \<Rightarrow> (client_error + 'a) mact \<Rightarrow> manager_state \<Rightarrow> run_outcome" where
  "without_correlation am m send s =
     (case am_manager am of
        Inl e \<Rightarrow> stopped_run s 1
      | Inr me \<Rightarrow>
     (case manager_repair me s of
        (s1, (r, Some e)) \<Rightarrow> stopped_run s1 1
      | (s1, (r, None)) \<Rightarrow>
          (case request_daemon_payload send me s1 of
             (s2, Inl e) \<Rightarrow> stopped_run s2 1
           | (s2, Inr a) \<Rightarrow> printed_run am (json_enabled m) s2)))"

definition run_session_list :: "app_env \<Rightarrow> json_mode \<Rightarrow> manager_state \<Rightarrow> run_outcome" where
  "run_session_list am m s = without_correlation am m (sending client_list_sessions) s"

definition run_session_destroy ::
  "app_env \<Rightarrow> json_mode \<Rightarrow> session_destroy_request \<Rightarrow> manager_state \<Rightarrow> run_outcome" where
  "run_session_destroy am m q s = without_correlation am m (sending (client_destroy_session q)) s"

section \<open>What was received\<close>

lemma round_trip_payload_Inr:
  assumes "snd (round_trip_payload decode c x) = Inr a"
  shows "validate_envelope (an_header (xc_answer x)) = None"
    and "validate_response_correlation (an_header (xc_answer x)) c = None"
    and "nv_type (an_header (xc_answer x)) = TypeOK"
    and "\<exists>p. an_payload (xc_answer x) = Some p \<and> decode p = Inr a"
  using assms
  by (auto simp: round_trip_payload_def round_trip_def checked_answer_def decode_answer_def
      split: option.splits if_splits sum.splits)

lemma checked_by_Inr: "snd (checked_by check r) = Inr a \<longleftrightarrow> snd r = Inr a \<and> check a = None"
  by (cases r) (auto simp: checked_by_def split: sum.splits option.splits)

lemma validate_exec_answer_None:
  "validate_exec_answer a q = None \<longleftrightarrow>
     xa_aliases a = secret_aliases (er_secrets q) \<and>
     (\<exists>env. xa_env a = Some env \<and> sort (map fst env) = secret_aliases (er_secrets q))"
  by (auto simp: validate_exec_answer_def env_aliases_def Let_def split: option.splits)

lemma validate_resolved_answer_None:
  "validate_resolved_answer a q = None \<longleftrightarrow>
     (\<exists>env. va_env a = Some env \<and> sort (map fst env) = va_aliases a) \<and>
     (sv_aliases q \<noteq> [] \<longrightarrow> va_aliases a = sv_aliases q)"
  by (auto simp: validate_resolved_answer_def env_aliases_def split: option.splits)

text \<open>The answer of a request is one that the connection gave it.\<close>

lemma sending_Inr: "snd (sending f me s) = Inr a \<Longrightarrow> \<exists>t. snd (f (me_exchange me t)) = Inr a"
  by (auto simp: sending_def mask_def)

lemma request_daemon_payload_Inr:
  assumes "request_daemon_payload (sending f) me s = (s', Inr a)"
  shows "\<exists>t. snd (f (me_exchange me t)) = Inr a"
proof -
  define Q where "Q r \<longleftrightarrow> (\<forall>a. r = Inr a \<longrightarrow> (\<exists>t. snd (f (me_exchange me t)) = Inr a))" for r :: "client_error + 'a"
  have send: "ensures me Q (sending f)"
    by (auto simp: ensures_def Q_def dest: sending_Inr)
  have fails: "ensures me Q (mret (Inl e))" for e
    by (rule ensures_mret) (simp add: Q_def)
  have again: "ensures me Q (mthen m_connect (\<lambda>_. sending f))"
    unfolding mthen_def by (rule ensures_any) (auto split: sum.split intro: fails send)
  have retry: "ensures me Q (mbind manager_ensure_running (\<lambda>x. case x of
      Some e' \<Rightarrow> mret (Inl e') | None \<Rightarrow> mthen m_connect (\<lambda>_. sending f)))"
    by (rule ensures_any) (auto split: option.split intro: fails again)
  have first: "ensures me Q (mbind (sending f) (\<lambda>r. case r of
      Inr p \<Rightarrow> mret (Inr p)
    | Inl e \<Rightarrow>
        if \<not> is_protocol_error e DaemonStopped then mret (Inl e)
        else mbind manager_ensure_running (\<lambda>x. case x of
          Some e' \<Rightarrow> mret (Inl e') | None \<Rightarrow> mthen m_connect (\<lambda>_. sending f))))"
    by (rule ensures_mbind [OF send]) (auto split: sum.split intro: fails retry ensures_mret)
  have "ensures me Q (request_daemon_payload (sending f))"
    unfolding request_daemon_payload_def mfail_def
    by (subst mthen_def, rule ensures_any) (auto split: sum.split intro: fails first)
  then have "Q (Inr a)"
    using assms by (metis ensures_def snd_conv)
  then show ?thesis by (simp add: Q_def)
qed

end
