(* ===== verification/DaemonAnswers.thy ===== *)
theory DaemonAnswers
  imports BrokerHandlers ClientRuns
begin

text \<open>
  What the broker delivers is what the client expects: the aliases and the environment of a delivery
  pass the checks that \<open>control/client.go\<close> makes of the answer.
\<close>

section \<open>Values of actions\<close>

definition yields :: "('a \<Rightarrow> bool) \<Rightarrow> 'a act \<Rightarrow> bool" where
  "yields Q a \<longleftrightarrow> (\<forall>e w x. snd (a e w) = Inr x \<longrightarrow> Q x)"

lemma yieldsD: "yields Q a \<Longrightarrow> a e w = (w', Inr x) \<Longrightarrow> Q x"
  unfolding yields_def by (metis snd_conv)

lemma yields_ret: "Q x \<Longrightarrow> yields Q (ret x)"
  by (simp add: yields_def ret_def)

lemma yields_fail: "yields Q (fail x)"
  by (simp add: yields_def fail_def)

lemma yields_andthen: "yields R a \<Longrightarrow> (\<And>v. R v \<Longrightarrow> yields Q (f v)) \<Longrightarrow> yields Q (andthen a f)"
  unfolding yields_def andthen_def by (auto split: prod.splits sum.splits) (metis snd_conv)

lemma yields_then: "(\<And>v. yields Q (f v)) \<Longrightarrow> yields Q (andthen a f)"
  by (auto simp: yields_def andthen_def split: prod.splits sum.splits)

lemma yields_attempt:
  "yields R a \<Longrightarrow> (\<And>x. yields Q (f (Inl x))) \<Longrightarrow> (\<And>v. R v \<Longrightarrow> yields Q (f (Inr v))) \<Longrightarrow>
     yields Q (attempt a f)"
  unfolding yields_def attempt_def by (auto split: prod.splits) (metis snd_conv sum.exhaust)

lemma yields_any: "yields (\<lambda>x. True) a"
  by (simp add: yields_def)

lemma yields_request_error: "yields Q (request_error r x)"
  unfolding request_error_def by (auto intro!: yields_fail yields_attempt [OF yields_any])

lemma yields_or_request_error: "yields Q a \<Longrightarrow> yields Q (or_request_error r a)"
  unfolding or_request_error_def
  by (erule yields_attempt) (simp_all add: yields_request_error yields_ret)

section \<open>The aliases of a grant\<close>

definition grant_of :: "exec_request \<Rightarrow> issued_grant \<Rightarrow> bool" where
  "grant_of r g \<longleftrightarrow> gr_aliases (fst g) = secret_aliases (er_secrets r)"

lemma yields_issue_reusable:
  "yields (\<lambda>x. \<forall>g. x = Some g \<longrightarrow> grant_of r g) (issue_reusable_grant r)"
  unfolding issue_reusable_grant_def
  by (auto simp: Let_def grant_of_def split: option.split
      intro!: yields_then yields_ret yields_fail yields_attempt [OF yields_any])

lemma yields_fresh_grant: "yields (grant_of r) (fresh_grant c r)"
  unfolding fresh_grant_def
  by (intro yields_then) (auto simp: grant_of_def split: sum.split prod.split
      intro!: yields_then yields_ret yields_fail)

lemma yields_reused_or_fresh: "yields (grant_of r) (reused_or_fresh_grant c r)"
  unfolding reused_or_fresh_grant_def
  by (rule yields_andthen [OF yields_or_request_error [OF yields_issue_reusable]])
    (auto split: option.split intro!: yields_then yields_ret yields_fail yields_or_request_error yields_fresh_grant)

lemma yields_issue: "yields (grant_of r) (issue c r)"
  unfolding issue_def
  by (intro yields_then yields_andthen [OF yields_reused_or_fresh])
    (auto simp: grant_of_def split: prod.split intro!: yields_then yields_ret)

lemma yields_prepare_exec:
  "yields (\<lambda>d. gr_aliases (ed_grant d) = secret_aliases (er_secrets r)) (prepare_exec_delivery c r)"
  unfolding prepare_exec_delivery_def
proof (intro yields_then, simp split del: if_split split: if_split, intro conjI impI yields_fail)
  show "yields (\<lambda>d. gr_aliases (ed_grant d) = secret_aliases (er_secrets r))
      (andthen (issue c r) (\<lambda>(g, d).
         attempt (activate_exec c r) (\<lambda>res.
           case res of
             Inl x \<Rightarrow> andthen (finish_delivery_before_payload d) (\<lambda>_. fail x)
           | Inr _ \<Rightarrow> ret \<lparr>ed_correlation = c, ed_request = r, ed_grant = g, ed_delivery = d,
                           ed_finalized = False\<rparr>)))"
    by (rule yields_andthen [OF yields_issue])
      (auto simp: grant_of_def split: prod.split
        intro!: yields_attempt [OF yields_any] yields_then yields_fail yields_ret)
qed

section \<open>The client accepts the answer\<close>

text \<open>An answer that carries a map of the environment: its entries have distinct keys.\<close>

definition carries :: "(string \<times> string) list option \<Rightarrow> (string \<rightharpoonup> string) \<Rightarrow> bool" where
  "carries env m \<longleftrightarrow> (\<exists>kvs. env = Some kvs \<and> distinct (map fst kvs) \<and> map_of kvs = m)"

lemma carries_aliases:
  assumes "carries env m" "dom m = se_alias ` set ss" "distinct (map se_alias ss)"
  shows "\<exists>kvs. env = Some kvs \<and> sort (map fst kvs) = secret_aliases ss"
proof -
  obtain kvs where kvs: "env = Some kvs" "distinct (map fst kvs)" "map_of kvs = m"
    using assms(1) by (auto simp: carries_def)
  have "set (map fst kvs) = set (map se_alias ss)"
    using assms(2) kvs(3) dom_map_of_conv_image_fst [of kvs] by simp
  then have "mset (map fst kvs) = mset (map se_alias ss)"
    using kvs(2) assms(3) by (simp only: set_eq_iff_mset_eq_distinct)
  then have "sort (map fst kvs) = sort (map se_alias ss)"
    by (rule sort_perm_eq)
  with kvs(1) show ?thesis by (simp add: secret_aliases_def)
qed

end
