(* ===== verification/HelperProperties.thy ===== *)
theory HelperProperties
  imports DaemonAnswers BrokerSamples
begin

text \<open>
  The properties of the client's other half: the child it runs, the helper process it repairs, and the
  answers of the daemon that it accepts.
\<close>

section \<open>A helper and a child\<close>

definition sample_trust :: trust_env where
  "sample_trust = \<lparr>te_fs = sample_fs, te_plist = (\<lambda>_. Inl (Text ''no such file'')), te_uid = 501, te_gid = 20\<rparr>"

definition io_done :: io_result where
  "io_done = \<lparr>io_error = None, io_context = None, io_timeout = False, io_past = False\<rparr>"

definition sample_hello :: "string \<Rightarrow> helper_hello" where
  "sample_hello version = \<lparr>hh_protocol = 1, hh_version = version, hh_build = ''b'', hh_pid = 300,
     hh_executable = ''/usr/bin/env'', hh_team = '''', hh_bundle = ''''\<rparr>"

definition sample_payload :: "string \<Rightarrow> answer_payload" where
  "sample_payload version = \<lparr>ap_error = Inr UntrustedClient, ap_pid = Inr 300, ap_hello = Inr (sample_hello version),
     ap_exec = Inr \<lparr>xa_env = Some [(''API_TOKEN'', ''s3cret'')], xa_aliases = [''API_TOKEN'']\<rparr>,
     ap_item = Inl malformed, ap_created = Inl malformed, ap_resolved = Inl malformed,
     ap_destroyed = Inl malformed, ap_sessions = Inr [], ap_empty = Inr ()\<rparr>"

definition sample_exchange :: "message_type \<Rightarrow> string \<Rightarrow> exchange" where
  "sample_exchange mt version = \<lparr>xc_context = None, xc_marshal = None, xc_before_write = None,
     xc_write_deadline = io_done, xc_write = io_done, xc_before_read = None, xc_read_deadline = io_done,
     xc_read = io_done,
     xc_answer = \<lparr>an_header = \<lparr>nv_version = 1, nv_type = mt, nv_request_id = ''req_1'',
         nv_nonce = ''nonce_1'', nv_payload = None\<rparr>, an_payload = Some (sample_payload version)\<rparr>\<rparr>"

text \<open>
  A helper of another version refuses to stop, which is the fifth question; from the eighth on nobody
  answers the socket.
\<close>

definition sample_manager :: "string \<Rightarrow> manager_env" where
  "sample_manager version = \<lparr>me_trust = (\<lambda>_. sample_trust), me_run = (\<lambda>_. ('''', None)), me_team = '''',
     me_darwin = False, me_version = ''1'', me_build = ''b'', me_pid = 100,
     me_default_path = Inr ''/usr/bin/env'', me_daemon_path = ''/usr/bin/env'', me_daemon_args = [],
     me_socket = ''/tmp/s'', me_dial = (\<lambda>t. if t < 8 then None else Some (Text ''refused'')),
     me_peer = (\<lambda>_. Inr sample_peer),
     me_exchange = (\<lambda>t. sample_exchange (if t = 4 \<and> version \<noteq> ''1'' then TypeError else TypeOK) version),
     me_rounds = (\<lambda>_. 0), me_context = (\<lambda>_. Text ''deadline''), me_signal = (\<lambda>_ _. None),
     me_prepare = (\<lambda>_. None), me_remove = (\<lambda>_. None), me_cleanup = (\<lambda>_. None), me_devnull = (\<lambda>_. None),
     me_spawn = (\<lambda>_. None), me_release = (\<lambda>_. None), me_gone = (\<lambda>_. False), me_closed = (\<lambda>_. False),
     me_says_unavailable = (\<lambda>_. False)\<rparr>"

definition no_effects :: manager_state where
  "no_effects = \<lparr>ms_tick = 0, ms_effects = []\<rparr>"

definition sample_child :: child_world where
  "sample_child = \<lparr>cw_fs = sample_fs, cw_environ = [], cw_start = Inr 77, cw_terminal = NotAFile,
     cw_signal = (\<lambda>_. None), cw_started = (\<lambda>_. None), cw_wait_error = None,
     cw_state = Some \<lparr>cr_exit = 3, cr_signal = None\<rparr>, cw_completed = (\<lambda>_. None)\<rparr>"

definition sample_app :: app_env where
  "sample_app = \<lparr>am_manager = Inr (sample_manager ''1''), am_request_id = Inr ''req_1'', am_nonce = Inr ''nonce_1'',
     am_child = sample_child, am_started = sample_exchange TypeOK ''1'',
     am_completed = sample_exchange TypeOK ''1'', am_signal_text = (\<lambda>_. ''signal''),
     am_chdir = (\<lambda>_. None), am_self = Inl (Text ''unused''), am_write = None\<rparr>"

section \<open>The child\<close>

lemma with_daemon_spawned:
  assumes "x \<in> set (ro_child (with_daemon am send finish s))" "\<And>s. ro_child (stopped_run s 1) = []"
  obtains me s1 r rid nonce s2 a where "am_manager am = Inr me" "manager_repair me s = (s1, (r, None))"
    "am_request_id am = Inr rid" "am_nonce am = Inr nonce"
    "request_daemon_payload (send \<lparr>co_request_id = rid, co_nonce = nonce\<rparr>) me s1 = (s2, Inr a)"
    "x \<in> set (ro_child (finish \<lparr>co_request_id = rid, co_nonce = nonce\<rparr> a s2))"
  using assms by (auto simp: with_daemon_def Let_def split: sum.splits prod.splits option.splits)

lemma run_result_child:
  "x \<in> set (ro_child (run_result am c spec s)) \<Longrightarrow>
     x \<in> set (fst (run_child (reporting_world am c) spec))"
  by (auto simp: run_result_def split: prod.splits option.splits)

lemma alias_ok_no_equals: "alias_ok a \<Longrightarrow> CHR ''='' \<notin> set a"
  by (cases a) (auto simp: alias_ok_def env_char_def is_digit_def is_upper_def list_all_iff)

text \<open>
C10: A command that \<open>exec\<close> starts is the one of the request: its executable still has the identity
that was approved, its arguments and directory are those of the request. It is started only after
the helper was inspected, whose peer was validated and whose hello matched this build, and after the
helper answered this very request with a value for every alias and nothing else. In its environment
every alias has the value of the answer and every other variable the value it had.
\<close>
theorem exec_child_exact:
  assumes "Spawned p as d child \<in> set (ro_child (run_exec am json q env dry s))"
    and "\<forall>x \<in> set (er_secrets q). alias_ok (se_alias x)"
  shows "\<not> dry \<and> p = er_executable q \<and> as = tl (er_command q) \<and> d = er_cwd q \<and>
    verify_identity (cw_fs (am_child am)) p (er_identity q) = None \<and>
    (\<exists>me h c t kvs. am_manager am = Inr me \<and> inspected me h \<and>
       am_request_id am = Inr (co_request_id c) \<and> am_nonce am = Inr (co_nonce c) \<and>
       validate_response_correlation (an_header (xc_answer (me_exchange me t))) c = None \<and>
       (\<exists>pl a. an_payload (xc_answer (me_exchange me t)) = Some pl \<and> ap_exec pl = Inr a \<and> xa_env a = Some kvs) \<and>
       sort (map fst kvs) = secret_aliases (er_secrets q) \<and>
       (\<forall>k. lookup_env child k = (case map_of kvs k of Some v \<Rightarrow> v | None \<Rightarrow> lookup_env env k)))"
proof -
  have dry: "\<not> dry" using assms(1) by (auto simp: run_exec_def printed_run_def stopped_run_def)
  then have "Spawned p as d child \<in> set (ro_child (with_daemon am (\<lambda>c. sending (client_request_exec c q))
      (\<lambda>c a. run_result am c (exec_child_spec q env a)) s))"
    using assms(1) by (simp add: run_exec_def)
  then obtain me s1 r rid nonce s2 a where
    me: "am_manager am = Inr me" "manager_repair me s = (s1, (r, None))"
      "am_request_id am = Inr rid" "am_nonce am = Inr nonce" and
    sent: "request_daemon_payload (sending (client_request_exec \<lparr>co_request_id = rid, co_nonce = nonce\<rparr> q)) me s1 =
      (s2, Inr a)" and
    ran: "Spawned p as d child \<in> set (ro_child (run_result am \<lparr>co_request_id = rid, co_nonce = nonce\<rparr>
      (exec_child_spec q env a) s2))"
    by (rule with_daemon_spawned) (simp add: stopped_run_def)
  let ?c = "\<lparr>co_request_id = rid, co_nonce = nonce\<rparr>"
  have "repair_sound me (r, None)"
    using sound_manager_repair [of me] me(2) by (metis ensures_def snd_conv)
  then obtain h where h: "inspected me h" by (auto simp: repair_sound_def)
  from request_daemon_payload_Inr [OF sent] obtain t where
    "snd (client_request_exec ?c q (me_exchange me t)) = Inr a" by blast
  then have answer: "snd (round_trip_payload ap_exec ?c (me_exchange me t)) = Inr a"
    and valid: "validate_exec_answer a q = None"
    by (simp_all add: client_request_exec_def checked_by_Inr)
  from valid obtain kvs where kvs: "xa_env a = Some kvs" "sort (map fst kvs) = secret_aliases (er_secrets q)"
    by (auto simp: validate_exec_answer_None)
  obtain es x e where run: "run_child (reporting_world am ?c) (exec_child_spec q env a) = (es, x, e)"
    by (metis prod_cases3)
  have spawned: "Spawned p as d child \<in> set es"
    using run_result_child [OF ran] by (simp add: run)
  note child = run_child_spawn [OF run spawned]
  have keys: "\<forall>k \<in> set (map fst kvs). CHR ''='' \<notin> set k"
  proof -
    have "set (map fst kvs) = set (map se_alias (er_secrets q))"
      using arg_cong [OF kvs(2), of set] by (simp add: secret_aliases_def)
    with assms(2) alias_ok_no_equals show ?thesis by auto
  qed
  have "merge_child_env env kvs (er_override_env q) = Inr child"
    using child(3) kvs(1) by (simp add: exec_child_spec_def answer_env_def)
  then have env: "\<forall>k. lookup_env child k = (case map_of kvs k of Some v \<Rightarrow> v | None \<Rightarrow> lookup_env env k)"
    using merge_child_env_lookup(1) keys by blast
  have "verify_identity (cw_fs (am_child am)) p (er_identity q) = None \<and>
      p = er_executable q \<and> as = tl (er_command q) \<and> d = er_cwd q"
    using child(1,2) by (simp add: exec_child_spec_def reporting_world_def)
  moreover have "am_request_id am = Inr (co_request_id ?c) \<and> am_nonce am = Inr (co_nonce ?c)"
    using me(3,4) by simp
  ultimately show ?thesis
    using dry me(1) h round_trip_payload_Inr(2,4) [OF answer] kvs env by blast
qed

lemma sample_run:
  "ro_child (run_exec sample_app False sample_request [''PATH=/usr/bin''] False no_effects) =
     [Spawned ''/usr/bin/env'' [] ''/work'' [''PATH=/usr/bin'', ''API_TOKEN=s3cret''],
      ReportedStart 77, Waited, ReportedResult \<lparr>cr_exit = 3, cr_signal = None\<rparr>]"
  by code_simp

theorem exec_child_exact_witness:
  "verify_identity sample_fs ''/usr/bin/env'' (er_identity sample_request) = None \<and>
   (\<exists>h. inspected (sample_manager ''1'') h)"
proof -
  have "Spawned ''/usr/bin/env'' [] ''/work'' [''PATH=/usr/bin'', ''API_TOKEN=s3cret'']
      \<in> set (ro_child (run_exec sample_app False sample_request [''PATH=/usr/bin''] False no_effects))"
    unfolding sample_run by simp
  moreover have "\<forall>x \<in> set (er_secrets sample_request). alias_ok (se_alias x)" by code_simp
  ultimately have exact: "verify_identity (cw_fs (am_child sample_app)) ''/usr/bin/env'' (er_identity sample_request) = None \<and>
      (\<exists>me h. am_manager sample_app = Inr me \<and> inspected me h)"
    using exec_child_exact by blast
  have "am_manager sample_app = Inr (sample_manager ''1'')" "cw_fs (am_child sample_app) = sample_fs"
    by (simp_all add: sample_app_def sample_child_def)
  with exact show ?thesis by (metis sum.inject(2))
qed

text \<open>
C35: A child that was started is waited for exactly once, whatever happens in between, and one that
was not leaves nothing behind. When the daemon refuses the report of its start, the child is sent
SIGTERM and no result of it is reported. A run without an error has reported the exit of the child.
\<close>
theorem child_is_reaped:
  assumes "run_child w s = (es, r, e)"
  shows "waits es = (if es = [] then 0 else 1) \<and>
    (\<forall>pid x. ReportedStart pid \<in> set es \<longrightarrow> cw_started w pid = Some x \<longrightarrow>
       e = Some x \<and> Signalled SigTerm \<in> set es \<and> (\<forall>r'. ReportedResult r' \<notin> set es)) \<and>
    (e = None \<longrightarrow> r = result_from_state (cw_state w) \<and> ReportedResult r \<in> set es)"
  using run_child_waits [OF assms] run_child_unreported [OF assms] run_child_result [of w s es r] assms
  by blast

definition sample_child_spec :: child_spec where
  "sample_child_spec = \<lparr>cs_path = ''/usr/bin/env'', cs_identity = sample_identity, cs_args = [],
     cs_dir = ''/work'', cs_base_env = Some [''PATH=/usr/bin''], cs_env = [(''API_TOKEN'', ''s3cret'')],
     cs_override = False\<rparr>"

theorem child_is_reaped_witness:
  "waits (fst (run_child (sample_child\<lparr>cw_started := \<lambda>_. Some (Text ''refused'')\<rparr>) sample_child_spec)) = 1 \<and>
   Signalled SigTerm \<in>
     set (fst (run_child (sample_child\<lparr>cw_started := \<lambda>_. Some (Text ''refused'')\<rparr>) sample_child_spec))"
proof -
  let ?w = "sample_child\<lparr>cw_started := \<lambda>_. Some (Text ''refused'')\<rparr>"
  obtain es r e where run: "run_child ?w sample_child_spec = (es, r, e)" by (metis prod_cases3)
  have "\<exists>pid. ReportedStart pid \<in> set (fst (run_child ?w sample_child_spec))"
    by (rule exI [of _ 77]) code_simp
  then obtain pid where pid: "ReportedStart pid \<in> set es" by (auto simp: run)
  then have "es \<noteq> []" by auto
  with child_is_reaped [OF run] pid show ?thesis by (auto simp: run)
qed



section \<open>The helper\<close>

text \<open>
C17: Repairing the helper never harms another process. It signals only a process that was the peer of
the socket and passed a validator at that moment, and starts only the configured daemon. When it
succeeds the helper was inspected: its peer was accepted and its hello agrees with this build.
\<close>
theorem helper_repair_safe:
  assumes "manager_repair me s = (s', (r, x))"
  shows "(\<forall>eff \<in> set (ms_effects s'). eff \<in> set (ms_effects s) \<or> effect_allowed me eff) \<and>
    (x = None \<longrightarrow> rr_status r \<noteq> RepairRequired \<and> (\<exists>h. rr_hello r = Some h \<and> inspected me h))"
proof -
  have "repair_sound me (r, x)"
    using sound_manager_repair [of me] assms by (metis ensures_def snd_conv)
  moreover have "\<forall>eff \<in> set (ms_effects s'). eff \<in> set (ms_effects s) \<or> effect_allowed me eff"
    using allowedD [OF allowed_manager_repair, of _ me s] by (simp add: assms)
  ultimately show ?thesis by (auto simp: repair_sound_def)
qed

lemma sample_signalled: "HelperSignalled 300 \<in> set (ms_effects (fst (manager_repair (sample_manager ''0'') no_effects)))"
  by code_simp

lemma sample_repaired: "snd (snd (manager_repair (sample_manager ''1'') no_effects)) = None"
  by code_simp

theorem helper_repair_safe_witness:
  "signal_allowed (sample_manager ''0'') 300 \<and> (\<exists>h. inspected (sample_manager ''1'') h)"
proof -
  obtain s r x where bad: "manager_repair (sample_manager ''0'') no_effects = (s, (r, x))" by (metis prod_cases3)
  obtain s' r' x' where good: "manager_repair (sample_manager ''1'') no_effects = (s', (r', x'))" by (metis prod_cases3)
  have "x' = None" using sample_repaired by (simp add: good)
  then have "\<exists>h. inspected (sample_manager ''1'') h" using helper_repair_safe [OF good] by blast
  moreover have "HelperSignalled 300 \<in> set (ms_effects s)" using sample_signalled by (simp add: bad)
  from bspec [OF conjunct1 [OF helper_repair_safe [OF bad]] this]
  have "signal_allowed (sample_manager ''0'') 300" by (simp add: no_effects_def)
  ultimately show ?thesis by simp
qed

section \<open>The answer\<close>

text \<open>
C27: Daemon and client agree on the answer of an exec request: what the broker delivers in any
reachable state, sent as it is with the aliases of the grant, passes the checks of the client for
that request, when the aliases of the request are distinct.
\<close>
theorem delivered_answer_accepted:
  assumes "broker_step\<^sup>*\<^sup>* new_world w" "prepare_exec_delivery c r e w = (w', Inr d)"
    and "distinct (map se_alias (er_secrets r))"
    and "xa_aliases a = gr_aliases (ed_grant d)" "carries (xa_env a) (gr_env (ed_grant d))"
  shows "validate_exec_answer a r = None"
proof -
  have "dom (gr_env (ed_grant d)) = se_alias ` set (er_secrets r)"
    using tripleD [OF triple_prepare_exec reachable_ok [OF assms(1)] assms(2)] by (simp add: env_sound_def)
  from carries_aliases [OF assms(5) this assms(3)] yieldsD [OF yields_prepare_exec assms(2)] assms(4)
  show ?thesis by (simp add: validate_exec_answer_None)
qed

theorem delivered_answer_accepted_witness:
  "validate_exec_answer \<lparr>xa_env = Some [(''API_TOKEN'', ''s3cret'')], xa_aliases = [''API_TOKEN'']\<rparr> sample_request = None"
proof (rule delivered_answer_accepted [OF rtranclp.rtrancl_refl sample_exec_run])
  let ?g = "ed_grant (projr (snd (exec_run approve_twice)))"
  show "distinct (map se_alias (er_secrets sample_request))" by code_simp
  show "xa_aliases \<lparr>xa_env = Some [(''API_TOKEN'', ''s3cret'')], xa_aliases = [''API_TOKEN'']\<rparr> = gr_aliases ?g"
    by code_simp
  have "map se_alias (er_secrets sample_request) = [''API_TOKEN'']" by code_simp
  then have "se_alias ` set (er_secrets sample_request) = {''API_TOKEN''}"
    by (metis list.set_map list.simps(15) empty_set)
  then have dom: "dom (gr_env ?g) = {''API_TOKEN''}"
    using tripleD [OF triple_prepare_exec reachable_ok [OF rtranclp.rtrancl_refl] sample_exec_run]
    by (simp add: env_sound_def)
  have "gr_env ?g k = [''API_TOKEN'' \<mapsto> ''s3cret''] k" for k
    using dom exec_run_value by (cases "k = ''API_TOKEN''") auto
  then have "gr_env ?g = [''API_TOKEN'' \<mapsto> ''s3cret'']" ..
  then show "carries (xa_env \<lparr>xa_env = Some [(''API_TOKEN'', ''s3cret'')], xa_aliases = [''API_TOKEN'']\<rparr>) (gr_env ?g)"
    by (simp add: carries_def)
qed

end
