(* ===== verification/ItemResolver.thy ===== *)
theory ItemResolver
  imports ItemAliases ExecInputs
begin

text \<open>
  The 1Password resolver: \<open>internal/opresolver/resolver.go\<close>, and the choice of the desktop account.
  The SDK is a package of another repository: the record \<open>op_sdk\<close> holds one function per method
  the resolver calls and the constants it compares with. An error here keeps its text beside the
  chain of \<open>errors.Is\<close>, because this package looks at the text.
\<close>

section \<open>The SDK\<close>

record failure =
  fa_err :: err
  fa_text :: string

record vault_overview =
  vo_id :: string
  vo_title :: string
  vo_type :: string

record item_overview =
  io_id :: string
  io_title :: string

record sdk_section =
  ss_id :: string
  ss_title :: string

record sdk_field =
  sf_id :: string
  sf_title :: string
  sf_type :: string
  sf_section :: "string option"

record sdk_file =
  sl_field_id :: string
  sl_section :: string

record sdk_item =
  si_id :: string
  si_title :: string
  si_category :: string
  si_sections :: "sdk_section list"
  si_fields :: "sdk_field list"
  si_files :: "sdk_file list"

text \<open>
  The first argument of \<open>sk_resolve\<close> counts the references resolved before in the same call;
  \<open>sk_quote\<close> is how \<open>%q\<close> prints a string.
\<close>

record op_sdk =
  sk_resolve :: "nat \<Rightarrow> string \<Rightarrow> failure + string"
  sk_vaults :: "failure + vault_overview list"
  sk_items :: "string \<Rightarrow> failure + item_overview list"
  sk_get :: "string \<Rightarrow> string \<Rightarrow> failure + sdk_item"
  sk_personal_type :: string
  sk_concealed_types :: "string list"
  sk_quote :: "string \<Rightarrow> string"

section \<open>Errors with their text\<close>

definition with_text :: "string \<Rightarrow> failure + 'a \<Rightarrow> failure + 'a" where
  "with_text prefix r = map_sum (\<lambda>f. f\<lparr>fa_text := prefix @ fa_text f\<rparr>) id r"

definition resolver_failure :: "resolver_error \<Rightarrow> string \<Rightarrow> failure" where
  "resolver_failure s text = \<lparr>fa_err = Err (ResolverErr s), fa_text = text\<rparr>"

definition join_failures :: "failure \<Rightarrow> failure \<Rightarrow> failure" where
  "join_failures a b =
     \<lparr>fa_err = Joined [fa_err a, fa_err b], fa_text = fa_text a @ CHR 0x0A # fa_text b\<rparr>"

definition invalid_reference :: "err \<Rightarrow> failure" where
  "invalid_reference e =
     \<lparr>fa_err = Wrap (ResolverErr ErrInvalidOpReference) e,
      fa_text = ''invalid 1Password secret reference: '' @ (case e of Text m \<Rightarrow> m | _ \<Rightarrow> '''')\<rparr>"

definition validate_op_reference :: "string \<Rightarrow> failure option" where
  "validate_op_reference ref =
     (case op_parse ref of Inl e \<Rightarrow> Some (invalid_reference e) | Inr p \<Rightarrow> None)"

section \<open>Lookups\<close>

definition is_personal_vault_alias :: "string \<Rightarrow> bool" where
  "is_personal_vault_alias vault_ref \<longleftrightarrow>
     to_lower (trim_space vault_ref) \<in> {''employee'', ''personal'', ''private''}"

definition vault_matches_ref :: "op_sdk \<Rightarrow> vault_overview \<Rightarrow> string \<Rightarrow> bool" where
  "vault_matches_ref sdk vault vault_ref \<longleftrightarrow>
     vo_id vault = vault_ref \<or> vo_title vault = vault_ref \<or>
     vo_type vault = sk_personal_type sdk \<and> is_personal_vault_alias vault_ref"

definition find_vault :: "op_sdk \<Rightarrow> string \<Rightarrow> failure + vault_overview" where
  "find_vault sdk vault_ref =
     (case with_text ''list 1Password vaults: '' (sk_vaults sdk) of
        Inl e \<Rightarrow> Inl e
      | Inr vaults \<Rightarrow>
          (case filter (\<lambda>v. vault_matches_ref sdk v vault_ref) vaults of
             [] \<Rightarrow> Inl (resolver_failure ErrVaultNotFound
                     (''1Password vault not found: '' @ sk_quote sdk vault_ref))
           | [v] \<Rightarrow> Inr v
           | v # w # vs \<Rightarrow> Inl (resolver_failure ErrAmbiguousVault
                     (''1Password vault reference is ambiguous: '' @ sk_quote sdk vault_ref @
                      '' matched '' @ digits_text (int (length vs + 2)) @ '' vaults''))))"

definition find_item :: "op_sdk \<Rightarrow> string \<Rightarrow> string \<Rightarrow> failure + item_overview" where
  "find_item sdk vault_id item_ref =
     (case with_text ''list 1Password items: '' (sk_items sdk vault_id) of
        Inl e \<Rightarrow> Inl e
      | Inr items \<Rightarrow>
          (case filter (\<lambda>i. io_id i = item_ref \<or> io_title i = item_ref) items of
             [] \<Rightarrow> Inl (resolver_failure ErrItemNotFound
                     (''1Password item not found: '' @ sk_quote sdk item_ref))
           | [i] \<Rightarrow> Inr i
           | i # j # js \<Rightarrow> Inl (resolver_failure ErrAmbiguousItem
                     (''1Password item reference is ambiguous: '' @ sk_quote sdk item_ref @
                      '' matched '' @ digits_text (int (length js + 2)) @ '' items''))))"

definition get_item :: "op_sdk \<Rightarrow> string \<Rightarrow> string \<Rightarrow> failure + sdk_item" where
  "get_item sdk vault_id item_id =
     with_text ''get 1Password item metadata: '' (sk_get sdk vault_id item_id)"

text \<open>The Go map from section IDs to titles: a later section of the same ID replaces the earlier.\<close>

definition section_titles :: "sdk_item \<Rightarrow> string \<Rightarrow> string" where
  "section_titles item i =
     (case map_of (rev (map (\<lambda>s. (ss_id s, ss_title s)) (si_sections item))) i of
        None \<Rightarrow> '''' | Some t \<Rightarrow> t)"

definition field_matches_ref ::
  "string \<Rightarrow> string \<Rightarrow> string option \<Rightarrow> (string \<Rightarrow> string) \<Rightarrow> op_reference \<Rightarrow> bool" where
  "field_matches_ref field_id field_title section_id titles parsed =
     (let label = (if field_title = '''' then field_id else field_title)
      in if field_id \<noteq> or_field parsed \<and> label \<noteq> or_field parsed then False
         else if or_section parsed = '''' then True
         else case section_id of
                None \<Rightarrow> False
              | Some s \<Rightarrow>
                  s \<noteq> '''' \<and> (s = or_section parsed \<or> titles s = or_section parsed))"

definition find_field_id :: "op_sdk \<Rightarrow> sdk_item \<Rightarrow> op_reference \<Rightarrow> failure + string" where
  "find_field_id sdk item parsed =
     (let titles = section_titles item;
          matches =
            map sf_id (filter (\<lambda>f. field_matches_ref (sf_id f) (sf_title f) (sf_section f) titles parsed)
              (si_fields item)) @
            map sl_field_id (filter (\<lambda>f. field_matches_ref (sl_field_id f) (sl_field_id f)
              (Some (sl_section f)) titles parsed) (si_files item))
      in case matches of
           [] \<Rightarrow> Inl (resolver_failure ErrFieldNotFound
                   (''1Password field not found: '' @ sk_quote sdk (or_field parsed)))
         | [i] \<Rightarrow> Inr i
         | i # j # js \<Rightarrow> Inl (resolver_failure ErrAmbiguousField
                   (''1Password field reference is ambiguous: '' @ sk_quote sdk (or_field parsed) @
                    '' matched '' @ digits_text (int (length js + 2)) @ '' fields'')))"

text \<open>The calls \<open>canonicalSecretRefLocked\<close> and \<open>describeItemLocked\<close> begin with alike.\<close>

definition look_up_item :: "op_sdk \<Rightarrow> string \<Rightarrow> string \<Rightarrow> failure + vault_overview \<times> sdk_item" where
  "look_up_item sdk vault_ref item_ref =
     (case find_vault sdk vault_ref of
        Inl e \<Rightarrow> Inl e
      | Inr vault \<Rightarrow>
          (case find_item sdk (vo_id vault) item_ref of
             Inl e \<Rightarrow> Inl e
           | Inr overview \<Rightarrow>
               (case get_item sdk (vo_id vault) (io_id overview) of
                  Inl e \<Rightarrow> Inl e
                | Inr item \<Rightarrow> Inr (vault, item))))"

definition canonical_secret_ref :: "op_sdk \<Rightarrow> op_reference \<Rightarrow> failure + string" where
  "canonical_secret_ref sdk parsed =
     (case look_up_item sdk (or_vault parsed) (or_item parsed) of
        Inl e \<Rightarrow> Inl e
      | Inr (vault, item) \<Rightarrow>
          map_sum id (\<lambda>field_id. build_field_ref (vo_id vault) (si_id item) '''' field_id)
            (find_field_id sdk item parsed))"

section \<open>Resolving\<close>

definition should_canonicalize :: "failure \<Rightarrow> bool" where
  "should_canonicalize f \<longleftrightarrow>
     \<not> err_is (fa_err f) (ResolverErr ErrInvalidOpReference) \<and>
     list_ex (contains_sub (to_lower (fa_text f)))
       [''no vault matched the secret reference query'',
        ''no item matched the secret reference query'',
        ''no field matched the secret reference query'',
        ''no matching sections'',
        ''field not found'']"

definition resolve_locked :: "op_sdk \<Rightarrow> nat \<Rightarrow> string \<Rightarrow> failure + string" where
  "resolve_locked sdk n ref = with_text ''resolve 1Password reference: '' (sk_resolve sdk n ref)"

text \<open>\<open>Resolver.ResolveSecret\<close>, without the item API.\<close>

definition resolve_plain :: "op_sdk \<Rightarrow> string \<Rightarrow> failure + string" where
  "resolve_plain sdk ref =
     (case validate_op_reference ref of Some e \<Rightarrow> Inl e | None \<Rightarrow> resolve_locked sdk 0 ref)"

text \<open>
  \<open>ItemResolver.ResolveSecret\<close>: the references the SDK was asked to resolve, in order, and the
  result.
\<close>

definition resolve_secret :: "op_sdk \<Rightarrow> string \<Rightarrow> string list \<times> (failure + string)" where
  "resolve_secret sdk ref =
     (case op_parse ref of
        Inl e \<Rightarrow> ([], Inl (invalid_reference e))
      | Inr parsed \<Rightarrow>
          (case resolve_locked sdk 0 ref of
             Inr v \<Rightarrow> ([ref], Inr v)
           | Inl e \<Rightarrow>
               if \<not> should_canonicalize e then ([ref], Inl e)
               else (case with_text ''canonicalize 1Password reference: ''
                       (canonical_secret_ref sdk parsed) of
                       Inl e' \<Rightarrow> ([ref], Inl (join_failures e e'))
                     | Inr canonical \<Rightarrow>
                         ([ref, canonical],
                          case with_text ''resolve canonical 1Password reference: ''
                            (resolve_locked sdk 1 canonical) of
                            Inl e' \<Rightarrow> Inl (join_failures e e')
                          | Inr v \<Rightarrow> Inr v))))"

section \<open>Describing\<close>

definition field_section :: "string option \<Rightarrow> (string \<Rightarrow> string) \<Rightarrow> string \<times> string" where
  "field_section section_id titles =
     (case section_id of
        None \<Rightarrow> ('''', '''')
      | Some s \<Rightarrow>
          if s = '''' then ('''', '''') else (s, if titles s = '''' then s else titles s))"

definition described_field :: "op_sdk \<Rightarrow> vault_overview \<Rightarrow> sdk_item \<Rightarrow> sdk_field \<Rightarrow> item_field" where
  "described_field sdk vault item f =
     (let label = (if sf_title f = '''' then sf_id f else sf_title f);
          (section_id, section_name) = field_section (sf_section f) (section_titles item)
      in \<lparr>if_id = sf_id f, if_label = label, if_type = sf_type f,
          if_section_id = section_id, if_section = section_name,
          if_concealed = (sf_type f \<in> set (sk_concealed_types sdk)),
          if_ref = build_field_ref (vo_title vault) (si_title item) section_name label,
          if_alias = ''''\<rparr>)"

definition described_file :: "vault_overview \<Rightarrow> sdk_item \<Rightarrow> sdk_file \<Rightarrow> item_field" where
  "described_file vault item f =
     (let section_name = section_titles item (sl_section f)
      in \<lparr>if_id = sl_field_id f, if_label = sl_field_id f, if_type = ''File'',
          if_section_id = sl_section f, if_section = section_name, if_concealed = True,
          if_ref = build_field_ref (vo_title vault) (si_title item) section_name (sl_field_id f),
          if_alias = ''''\<rparr>)"

definition item_metadata_from_sdk ::
  "op_sdk \<Rightarrow> string \<Rightarrow> vault_overview \<Rightarrow> sdk_item \<Rightarrow> full_metadata" where
  "item_metadata_from_sdk sdk account vault item =
     \<lparr>md_account = trim_space account, md_vault_id = vo_id vault, md_vault = vo_title vault,
      md_item_id = si_id item, md_item = si_title item, md_category = si_category item,
      md_fields = unique_aliases
        (map (described_field sdk vault item) (si_fields item) @
         map (described_file vault item) (si_files item)) ''''\<rparr>"

definition describe_item :: "op_sdk \<Rightarrow> item_ref \<Rightarrow> string \<Rightarrow> failure + full_metadata" where
  "describe_item sdk ref account =
     map_sum id (\<lambda>(vault, item). item_metadata_from_sdk sdk account vault item)
       (look_up_item sdk (ir_vault ref) (ir_item ref))"

section \<open>The client\<close>

record client_options =
  co_account :: string
  co_integration_name :: string
  co_integration_version :: string

definition normalize_desktop_options :: "client_options \<Rightarrow> client_options" where
  "normalize_desktop_options opts =
     (let name = trim_space (co_integration_name opts);
          version = trim_space (co_integration_version opts)
      in \<lparr>co_account = trim_space (co_account opts),
          co_integration_name = (if name = '''' then ''Agent Secret Broker'' else name),
          co_integration_version = (if version = '''' then ''dev'' else version)\<rparr>)"

definition new_resolver :: "'a option \<Rightarrow> failure + 'a" where
  "new_resolver secrets =
     (case secrets of
        None \<Rightarrow> Inl \<lparr>fa_err = Text ''secrets API is required'', fa_text = ''secrets API is required''\<rparr>
      | Some s \<Rightarrow> Inr s)"

text \<open>\<open>newItemResolverWithKeepAlive\<close>: each API of the client, or nil.\<close>

definition new_item_resolver :: "'a option \<Rightarrow> 'b option \<Rightarrow> 'c option \<Rightarrow> failure + 'a \<times> 'b \<times> 'c" where
  "new_item_resolver secrets vaults items =
     (case new_resolver secrets of
        Inl e \<Rightarrow> Inl e
      | Inr s \<Rightarrow>
          (case (vaults, items) of
             (Some v, Some i) \<Rightarrow> Inr (s, v, i)
           | _ \<Rightarrow> Inl (resolver_failure ErrItemsUnavailable
                         ''1Password item metadata API is unavailable'')))"

definition desktop_account :: "string \<Rightarrow> string \<Rightarrow> string option \<Rightarrow> failure + string" where
  "desktop_account override op_account detected =
     (let account = select_concrete_account override op_account detected
      in if account \<noteq> '''' then Inr account
         else Inl (resolver_failure ErrAccountUnknown
           (''1Password account is not configured and Agent Secret could not find a default '' @
            ''1Password desktop account'')))"

text \<open>
  \<open>NewDesktopResolver\<close>: the value of \<open>OP_ACCOUNT\<close>, the detected account, and the SDK's
  \<open>NewClient\<close> by account, integration name and version. The APIs of a client are never nil.
\<close>

definition new_desktop_resolver ::
  "string \<Rightarrow> string \<Rightarrow> (string \<Rightarrow> string \<Rightarrow> string \<Rightarrow> failure + 'c) \<Rightarrow> client_options \<Rightarrow> failure + 'c" where
  "new_desktop_resolver op_account detected new_client opts =
     (let n = normalize_desktop_options opts
      in case desktop_account (co_account n) op_account (Some detected) of
           Inl e \<Rightarrow> Inl e
         | Inr account \<Rightarrow>
             with_text ''create 1Password SDK client: ''
               (new_client account (co_integration_name n) (co_integration_version n)))"

section \<open>What the lookups find\<close>

lemma with_text_Inr [simp]: "with_text p r = Inr v \<longleftrightarrow> r = Inr v"
  by (cases r) (simp_all add: with_text_def)

lemma find_vault_Inr:
  "find_vault sdk r = Inr v \<longleftrightarrow>
     (\<exists>vs. sk_vaults sdk = Inr vs \<and> filter (\<lambda>w. vault_matches_ref sdk w r) vs = [v])"
  by (cases "sk_vaults sdk") (auto simp: find_vault_def with_text_def split: list.splits)

lemma find_item_Inr:
  "find_item sdk v r = Inr i \<longleftrightarrow>
     (\<exists>is. sk_items sdk v = Inr is \<and> filter (\<lambda>j. io_id j = r \<or> io_title j = r) is = [i])"
  by (cases "sk_items sdk v") (auto simp: find_item_def with_text_def split: list.splits)

lemma look_up_item_Inr:
  "look_up_item sdk v i = Inr (vault, item) \<longleftrightarrow>
     find_vault sdk v = Inr vault \<and>
     (\<exists>overview. find_item sdk (vo_id vault) i = Inr overview \<and>
        sk_get sdk (vo_id vault) (io_id overview) = Inr item)"
  by (auto simp: look_up_item_def get_item_def split: sum.splits)
     (metis sum.distinct(1) with_text_Inr)

text \<open>
  The fields and the files of an item alike: ID, title and section ID. \<open>names\<close> says what a
  reference may call a field.
\<close>

definition entries :: "sdk_item \<Rightarrow> (string \<times> string \<times> string option) list" where
  "entries item =
     map (\<lambda>f. (sf_id f, sf_title f, sf_section f)) (si_fields item) @
     map (\<lambda>f. (sl_field_id f, sl_field_id f, Some (sl_section f))) (si_files item)"

definition entry_label :: "string \<times> string \<times> string option \<Rightarrow> string" where
  "entry_label e = (if fst (snd e) = '''' then fst e else fst (snd e))"

definition names :: "(string \<Rightarrow> string) \<Rightarrow> op_reference \<Rightarrow> string \<times> string \<times> string option \<Rightarrow> bool" where
  "names titles p e \<longleftrightarrow>
     (fst e = or_field p \<or> entry_label e = or_field p) \<and>
     (or_section p = '''' \<or>
      (\<exists>s. snd (snd e) = Some s \<and> s \<noteq> '''' \<and> (s = or_section p \<or> titles s = or_section p)))"

lemma field_matches_names:
  "field_matches_ref i t s titles p \<longleftrightarrow> names titles p (i, t, s)"
  by (auto simp: field_matches_ref_def names_def entry_label_def Let_def split: option.splits)

lemma find_field_id_Inr:
  "find_field_id sdk item p = Inr i \<longleftrightarrow>
     map fst (filter (names (section_titles item) p) (entries item)) = [i]"
proof -
  have "map fst (filter (names (section_titles item) p) (entries item)) =
      map sf_id (filter (\<lambda>f. field_matches_ref (sf_id f) (sf_title f) (sf_section f)
        (section_titles item) p) (si_fields item)) @
      map sl_field_id (filter (\<lambda>f. field_matches_ref (sl_field_id f) (sl_field_id f)
        (Some (sl_section f)) (section_titles item) p) (si_files item))"
    by (simp add: entries_def filter_map comp_def field_matches_names)
  then show ?thesis
    by (auto simp: find_field_id_def Let_def split: list.splits)
qed


lemma resolve_locked_Inr [simp]: "resolve_locked sdk n ref = Inr v \<longleftrightarrow> sk_resolve sdk n ref = Inr v"
  by (simp add: resolve_locked_def)

lemma canonical_secret_ref_Inr:
  "canonical_secret_ref sdk p = Inr c \<longleftrightarrow>
     (\<exists>vault item i. look_up_item sdk (or_vault p) (or_item p) = Inr (vault, item) \<and>
        find_field_id sdk item p = Inr i \<and> c = build_field_ref (vo_id vault) (si_id item) '''' i)"
  by (auto simp: canonical_secret_ref_def split: sum.splits) (auto simp: map_sum_def split: sum.splits)

lemma build_field_ref_no_section:
  "build_field_ref v i '''' f = ''op://'' @ v @ ''/'' @ i @ ''/'' @ f"
  by (simp add: build_field_ref_def)

text \<open>What \<open>resolve_secret\<close> asks for: the reference, then perhaps its canonical form.\<close>

lemma resolve_secret_asks:
  assumes "resolve_secret sdk ref = (asked, r)"
  shows "asked = [] \<and> (\<exists>e. op_parse ref = Inl e \<and> r = Inl (invalid_reference e)) \<or>
    asked = [ref] \<and> (\<forall>v. r = Inr v \<longrightarrow> sk_resolve sdk 0 ref = Inr v) \<or>
    (\<exists>p c e. op_parse ref = Inr p \<and> resolve_locked sdk 0 ref = Inl e \<and> should_canonicalize e \<and>
       canonical_secret_ref sdk p = Inr c \<and> asked = [ref, c] \<and>
       (\<forall>v. r = Inr v \<longrightarrow> sk_resolve sdk 1 c = Inr v))"
proof (cases "op_parse ref")
  case (Inl e)
  with assms show ?thesis by (simp add: resolve_secret_def)
next
  case p: (Inr p)
  show ?thesis
  proof (cases "resolve_locked sdk 0 ref")
    case (Inr v)
    then have "sk_resolve sdk 0 ref = Inr v" by simp
    moreover have "asked = [ref] \<and> r = Inr v" using assms p Inr by (auto simp: resolve_secret_def)
    ultimately show ?thesis by simp
  next
    case (Inl e)
    show ?thesis
    proof (cases "should_canonicalize e")
      case False
      with assms p Inl show ?thesis by (auto simp: resolve_secret_def)
    next
      case True
      show ?thesis
      proof (cases "canonical_secret_ref sdk p")
        case (Inl e')
        with assms p \<open>resolve_locked sdk 0 ref = Inl e\<close> True show ?thesis
          by (simp add: resolve_secret_def with_text_def) blast
      next
        case (Inr c)
        have canonical: "with_text ''canonicalize 1Password reference: '' (canonical_secret_ref sdk p) = Inr c"
          using Inr by simp
        have asked: "asked = [ref, c]"
          and r: "r = (case with_text ''resolve canonical 1Password reference: ''
            (resolve_locked sdk 1 c) of Inl e' \<Rightarrow> Inl (join_failures e e') | Inr v \<Rightarrow> Inr v)"
          using assms p \<open>resolve_locked sdk 0 ref = Inl e\<close> True
          unfolding resolve_secret_def by (simp_all add: canonical)
        have "sk_resolve sdk 1 c = Inr v" if "r = Inr v" for v
          using that unfolding r by (auto split: sum.splits)
        with p \<open>resolve_locked sdk 0 ref = Inl e\<close> True Inr asked show ?thesis by blast
      qed
    qed
  qed
qed

section \<open>What the metadata says of a field\<close>

text \<open>What the SDK is taken to answer: the item it lists is the item it gets, and sections have IDs.\<close>

definition sdk_consistent :: "op_sdk \<Rightarrow> bool" where
  "sdk_consistent sdk \<longleftrightarrow>
     (\<forall>v is i item. sk_items sdk v = Inr is \<longrightarrow> i \<in> set is \<longrightarrow> sk_get sdk v (io_id i) = Inr item \<longrightarrow>
        si_id item = io_id i \<and> si_title item = io_title i \<and> '''' \<notin> ss_id ` set (si_sections item))"

definition described_entry :: "(string \<Rightarrow> string) \<Rightarrow> item_field \<Rightarrow> string \<times> string \<times> string option \<Rightarrow> bool" where
  "described_entry titles f e \<longleftrightarrow>
     if_id f = fst e \<and> if_label f = entry_label e \<and>
     if_section_id f = (case snd (snd e) of None \<Rightarrow> '''' | Some s \<Rightarrow> s) \<and>
     (if_section f = '''' \<or>
      (\<exists>s. snd (snd e) = Some s \<and> s \<noteq> '''' \<and> (s = if_section f \<or> titles s = if_section f))) \<and>
     (\<forall>s. snd (snd e) = Some s \<longrightarrow> s \<noteq> '''' \<longrightarrow> titles s \<noteq> '''' \<longrightarrow> if_section f = titles s)"

lemma section_titles_empty:
  assumes "'''' \<notin> ss_id ` set (si_sections item)"
  shows "section_titles item '''' = ''''"
proof -
  have "map_of (rev (map (\<lambda>s. (ss_id s, ss_title s)) (si_sections item))) '''' = None"
    using assms by (force simp: map_of_eq_None_iff)
  then show ?thesis by (simp add: section_titles_def)
qed

lemma described_entries:
  assumes "'''' \<notin> ss_id ` set (si_sections item)"
  shows "list_all2 (described_entry (section_titles item))
    (md_fields (item_metadata_from_sdk sdk a vault item)) (entries item)"
proof -
  let ?fs = "map (described_field sdk vault item) (si_fields item) @
    map (described_file vault item) (si_files item)"
  have same: "described_entry t (f\<lparr>if_alias := x\<rparr>) e = described_entry t f e" for t f x e
    by (simp add: described_entry_def)
  have of_field: "described_entry (section_titles item) (described_field sdk vault item f)
      (sf_id f, sf_title f, sf_section f)" for f
    by (auto simp: described_entry_def described_field_def entry_label_def field_section_def Let_def
        split: option.splits)
  have of_file: "described_entry (section_titles item) (described_file vault item f)
      (sl_field_id f, sl_field_id f, Some (sl_section f))" for f
    using section_titles_empty [OF assms]
    by (auto simp: described_entry_def described_file_def entry_label_def Let_def)
  have "list_all2 (described_entry (section_titles item)) ?fs (entries item)"
    unfolding entries_def
    by (rule list_all2_appendI) (simp_all add: list_all2_conv_all_nth of_field of_file)
  then have "list_all2 (described_entry (section_titles item)) (map (\<lambda>f. f\<lparr>if_alias := []\<rparr>) ?fs)
      (entries item)"
    unfolding list_all2_map1 same .
  then have "list_all2 (described_entry (section_titles item))
      (map (\<lambda>f. f\<lparr>if_alias := []\<rparr>) (unique_aliases ?fs '''')) (entries item)"
    by (simp add: unique_aliases_def unique_from_fields)
  then show ?thesis
    unfolding list_all2_map1 same by (simp add: item_metadata_from_sdk_def)
qed

end
