(* ===== verification/DesktopPool.thy ===== *)
theory DesktopPool
  imports ItemResolver
begin

text \<open>
  The pool of 1Password clients: \<open>internal/opresolver/pool.go\<close>. A client is the address of an
  \<open>ItemResolver\<close>, an init the address of a \<open>desktopPoolInit\<close>; the channel \<open>done\<close> is closed when the
  init has a result. First the operations of one caller, then any number of them as a step relation.
\<close>

section \<open>The pool\<close>

record pool =
  po_clients :: "string \<rightharpoonup> nat"
  po_inits :: "string \<rightharpoonup> nat"
  po_results :: "nat \<rightharpoonup> (failure + nat) option"
  po_next :: nat

definition new_pool :: pool where
  "new_pool = \<lparr>po_clients = Map.empty, po_inits = Map.empty, po_results = Map.empty, po_next = 0\<rparr>"

text \<open>
  What \<open>startClientInit\<close> returns: a client, an init of another caller, or an init of one's own.
\<close>

datatype init_start = HasClient nat | WaitsFor nat | OwnsInit nat

definition start_client_init :: "string \<Rightarrow> pool \<Rightarrow> pool \<times> init_start" where
  "start_client_init account p =
     (case po_clients p account of
        Some c \<Rightarrow> (p, HasClient c)
      | None \<Rightarrow>
          (case po_inits p account of
             Some i \<Rightarrow> (p, WaitsFor i)
           | None \<Rightarrow>
               let i = po_next p
               in (p\<lparr>po_inits := (po_inits p)(account \<mapsto> i), po_results := (po_results p)(i \<mapsto> None),
                     po_next := Suc i\<rparr>, OwnsInit i)))"

definition finish_client_init :: "string \<Rightarrow> nat \<Rightarrow> failure + nat \<Rightarrow> pool \<Rightarrow> pool" where
  "finish_client_init account i r p =
     p\<lparr>po_clients := (case r of Inr c \<Rightarrow> (po_clients p)(account \<mapsto> c) | Inl e \<Rightarrow> po_clients p),
       po_inits := (po_inits p)(account := None),
       po_results := (po_results p)(i \<mapsto> Some r)\<rparr>"

definition evict_client :: "string \<Rightarrow> nat \<Rightarrow> pool \<Rightarrow> pool" where
  "evict_client account c p =
     (if po_clients p account = Some c then p\<lparr>po_clients := (po_clients p)(account := None)\<rparr> else p)"

text \<open>The \<open>select\<close> of \<open>createClient\<close>: the factory's answer, or the end of the init context.\<close>

datatype created = FactoryAnswer "failure + nat" | InitContextDone context_error string

definition create_client :: "created \<Rightarrow> failure + nat" where
  "create_client c =
     (case c of
        FactoryAnswer r \<Rightarrow> r
      | InitContextDone e text \<Rightarrow> Inl \<lparr>fa_err = Err (ContextErr e),
          fa_text = ''create 1Password SDK client timed out after '' @ text\<rparr>)"

text \<open>
  \<open>waitForDesktopPoolInit\<close>: a finished init's result, whatever the context says; while the init is
  not finished, the caller goes on only when its context ends.
\<close>

definition wait_for_init :: "nat \<Rightarrow> context_error option \<Rightarrow> pool \<Rightarrow> (failure + nat) option" where
  "wait_for_init i ctx p =
     (case po_results p i of
        Some (Some r) \<Rightarrow> Some r
      | _ \<Rightarrow> map_option (\<lambda>e. Inl \<lparr>fa_err = Err (ContextErr e), fa_text = ''''\<rparr>) ctx)"

definition default_init_timeout :: duration where
  "default_init_timeout = seconds 30"

definition pool_init_timeout :: "duration \<Rightarrow> duration" where
  "pool_init_timeout t = (if t \<le> 0 then default_init_timeout else t)"

section \<open>One caller\<close>

text \<open>
  What the pool's caller meets: the SDK behind each client, what comes of the n-th client it
  creates, and the result of the n-th init it waits for.
\<close>

record pool_env =
  pe_sdk :: "nat \<Rightarrow> op_sdk"
  pe_created :: "nat \<Rightarrow> string \<Rightarrow> created"
  pe_waited :: "nat \<Rightarrow> failure + nat"

definition pool_client :: "pool_env \<Rightarrow> nat \<Rightarrow> string \<Rightarrow> pool \<Rightarrow> pool \<times> (failure + nat)" where
  "pool_client pe n override p =
     (let account = trim_space override
      in case start_client_init account p of
           (p', HasClient c) \<Rightarrow> (p', Inr c)
         | (p', WaitsFor i) \<Rightarrow> (p', pe_waited pe n)
         | (p', OwnsInit i) \<Rightarrow>
             let r = create_client (pe_created pe n account)
             in (finish_client_init account i r p', r))"

definition should_refresh_client :: "failure \<Rightarrow> bool" where
  "should_refresh_client f \<longleftrightarrow>
     \<not> err_is (fa_err f) (ResolverErr ErrInvalidOpReference) \<and>
     list_ex (contains_sub (to_lower (fa_text f)))
       [''invalid client id'', ''no vault matched the secret reference query'']"

definition stale_refresh_error :: "failure \<Rightarrow> failure \<Rightarrow> failure" where
  "stale_refresh_error original refresh =
     join_failures original (refresh\<lparr>fa_text := ''refresh stale 1Password client: '' @ fa_text refresh\<rparr>)"

text \<open>
  \<open>Resolve\<close> and \<open>DescribeItem\<close> differ in the call they make on the client and in the text of their
  errors; \<open>pool_call\<close> is both.
\<close>

definition pool_call ::
  "pool_env \<Rightarrow> string \<Rightarrow> (op_sdk \<Rightarrow> string \<Rightarrow> failure + 'a) \<Rightarrow> string \<Rightarrow> pool \<Rightarrow> pool \<times> (failure + 'a)" where
  "pool_call pe what call override p =
     (let account = trim_space override
      in case pool_client pe 0 account p of
           (p1, Inl e) \<Rightarrow> (p1, with_text ''create 1Password resolver: '' (Inl e))
         | (p1, Inr c) \<Rightarrow>
             (case call (pe_sdk pe c) account of
                Inr v \<Rightarrow> (p1, Inr v)
              | Inl e \<Rightarrow>
                  if should_refresh_client e then
                    (case pool_client pe 1 account (evict_client account c p1) of
                       (p2, Inl e') \<Rightarrow> (p2, with_text what (Inl (stale_refresh_error e e')))
                     | (p2, Inr d) \<Rightarrow>
                         (case call (pe_sdk pe d) account of
                            Inr v \<Rightarrow> (p2, Inr v)
                          | Inl e' \<Rightarrow> (p2, with_text what (Inl (stale_refresh_error e e')))))
                  else (p1, with_text what (Inl e))))"

definition pool_resolve :: "pool_env \<Rightarrow> string \<Rightarrow> string \<Rightarrow> pool \<Rightarrow> pool \<times> (failure + string)" where
  "pool_resolve pe ref account p =
     pool_call pe ''resolve secret: '' (\<lambda>sdk a. snd (resolve_secret sdk ref)) account p"

definition pool_describe ::
  "pool_env \<Rightarrow> item_ref \<Rightarrow> string \<Rightarrow> pool \<Rightarrow> pool \<times> (failure + full_metadata)" where
  "pool_describe pe ref account p =
     pool_call pe ''describe item metadata: '' (\<lambda>sdk a. describe_item sdk ref a) account p"

section \<open>Many callers\<close>

text \<open>
  A caller inside \<open>client\<close>, each for an account: it creates a client, waits for an init, or has
  come back with a result.
\<close>

datatype pool_caller =
    Creating string nat
  | WaitingFor string nat
  | Returned string "failure + nat"

record pool_run =
  pu_pool :: pool
  pu_callers :: "nat \<rightharpoonup> pool_caller"

definition entered :: "string \<Rightarrow> init_start \<Rightarrow> pool_caller" where
  "entered account s =
     (case s of
        HasClient c \<Rightarrow> Returned account (Inr c)
      | WaitsFor i \<Rightarrow> WaitingFor account i
      | OwnsInit i \<Rightarrow> Creating account i)"

text \<open>
  \<open>made c\<close> is the account for which the factory made client \<open>c\<close>: it is called with the account of
  the caller.
\<close>

inductive pool_step :: "(nat \<Rightarrow> string) \<Rightarrow> pool_run \<Rightarrow> pool_run \<Rightarrow> bool" for made where
  enter: "pu_callers s n = None \<Longrightarrow> start_client_init a (pu_pool s) = (p, st) \<Longrightarrow>
    pool_step made s (s\<lparr>pu_pool := p, pu_callers := (pu_callers s)(n \<mapsto> entered a st)\<rparr>)"
| create: "pu_callers s n = Some (Creating a i) \<Longrightarrow> (\<And>c. outcome = FactoryAnswer (Inr c) \<Longrightarrow> made c = a) \<Longrightarrow>
    pool_step made s (s\<lparr>pu_pool := finish_client_init a i (create_client outcome) (pu_pool s),
      pu_callers := (pu_callers s)(n \<mapsto> Returned a (create_client outcome))\<rparr>)"
| wake: "pu_callers s n = Some (WaitingFor a i) \<Longrightarrow> wait_for_init i ctx (pu_pool s) = Some r \<Longrightarrow>
    pool_step made s (s\<lparr>pu_callers := (pu_callers s)(n \<mapsto> Returned a r)\<rparr>)"
| evict: "pu_callers s n = Some (Returned a (Inr c)) \<Longrightarrow>
    pool_step made s (s\<lparr>pu_pool := evict_client a c (pu_pool s),
      pu_callers := (pu_callers s)(n := None)\<rparr>)"
| leave: "pu_callers s n = Some (Returned a r) \<Longrightarrow>
    pool_step made s (s\<lparr>pu_callers := (pu_callers s)(n := None)\<rparr>)"

inductive pool_reaches :: "(nat \<Rightarrow> string) \<Rightarrow> pool_run \<Rightarrow> bool" for made where
  start: "pool_reaches made \<lparr>pu_pool = new_pool, pu_callers = Map.empty\<rparr>"
| step: "pool_reaches made s \<Longrightarrow> pool_step made s t \<Longrightarrow> pool_reaches made t"

section \<open>Single flight\<close>

text \<open>
  The inits in progress are those of the callers that create a client, one per account; a caller
  that waits does so for one of them, or for an init that has a client of its account.
\<close>

definition creators :: "(nat \<rightharpoonup> pool_caller) \<Rightarrow> string \<Rightarrow> nat \<Rightarrow> nat set" where
  "creators cs a i = {n. cs n = Some (Creating a i)}"

definition pool_ok :: "(nat \<Rightarrow> string) \<Rightarrow> pool \<Rightarrow> bool" where
  "pool_ok made p \<longleftrightarrow>
     (\<forall>a i. po_inits p a = Some i \<longrightarrow> po_results p i = Some None \<and> po_clients p a = None) \<and>
     (\<forall>a b i. po_inits p a = Some i \<longrightarrow> po_inits p b = Some i \<longrightarrow> a = b) \<and>
     (\<forall>i. po_next p \<le> i \<longrightarrow> po_results p i = None) \<and>
     (\<forall>a c. po_clients p a = Some c \<longrightarrow> made c = a)"

definition made_for :: "(nat \<Rightarrow> string) \<Rightarrow> string \<Rightarrow> failure + nat \<Rightarrow> bool" where
  "made_for made a r \<longleftrightarrow> (case r of Inl e \<Rightarrow> True | Inr c \<Rightarrow> made c = a)"

fun caller_ok :: "(nat \<Rightarrow> string) \<Rightarrow> pool \<Rightarrow> pool_caller \<Rightarrow> bool" where
  "caller_ok made p (Creating a i) \<longleftrightarrow> po_inits p a = Some i"
| "caller_ok made p (WaitingFor a i) \<longleftrightarrow>
     po_inits p a = Some i \<or> (\<exists>r. po_results p i = Some (Some r) \<and> made_for made a r)"
| "caller_ok made p (Returned a r) \<longleftrightarrow> made_for made a r"

definition pool_run_ok :: "(nat \<Rightarrow> string) \<Rightarrow> pool_run \<Rightarrow> bool" where
  "pool_run_ok made s \<longleftrightarrow>
     pool_ok made (pu_pool s) \<and>
     (\<forall>n c. pu_callers s n = Some c \<longrightarrow> caller_ok made (pu_pool s) c) \<and>
     (\<forall>a i. po_inits (pu_pool s) a = Some i \<longrightarrow> (\<exists>n. creators (pu_callers s) a i = {n}))"

lemma creators_update:
  "creators (cs(n := c)) a i =
     (if c = Some (Creating a i) then insert n (creators cs a i) else creators cs a i - {n})"
  by (auto simp: creators_def)

lemma creators_kept:
  assumes "\<And>b j. cs n \<noteq> Some (Creating b j)" "\<And>b j. c \<noteq> Some (Creating b j)"
  shows "creators (cs(n := c)) a i = creators cs a i"
  using assms by (auto simp: creators_def)

lemma pool_run_ok_caller:
  assumes "pool_run_ok made s" "pool_ok made p" "po_inits p = po_inits (pu_pool s)"
    and "po_results p = po_results (pu_pool s)"
    and "\<And>b j. pu_callers s n \<noteq> Some (Creating b j)" "\<And>b j. c \<noteq> Some (Creating b j)"
    and "\<And>d. c = Some d \<Longrightarrow> caller_ok made p d"
  shows "pool_run_ok made (s\<lparr>pu_pool := p, pu_callers := (pu_callers s)(n := c)\<rparr>)"
proof -
  have same: "caller_ok made p d = caller_ok made (pu_pool s) d" for d
    using assms(3,4) by (cases d) auto
  show ?thesis
    using assms by (auto simp: pool_run_ok_def creators_kept same)
qed

lemma caller_ok_started:
  assumes "caller_ok made p c" "po_inits p a = None" "po_results p i = None"
  shows "caller_ok made (p\<lparr>po_inits := (po_inits p)(a \<mapsto> i), po_results := (po_results p)(i \<mapsto> None),
    po_next := m\<rparr>) c"
  using assms by (cases c) auto

lemma pool_ok_started:
  assumes "pool_ok made p" "po_clients p a = None" "po_inits p a = None"
  shows "pool_ok made (p\<lparr>po_inits := (po_inits p)(a \<mapsto> po_next p),
    po_results := (po_results p)(po_next p \<mapsto> None), po_next := Suc (po_next p)\<rparr>)"
proof -
  have "po_results p (po_next p) = None" using assms(1) by (simp add: pool_ok_def)
  then have fresh: "po_inits p b \<noteq> Some (po_next p)" for b
    using assms(1) by (auto simp: pool_ok_def)
  show ?thesis
    using assms fresh by (auto simp: pool_ok_def)
qed

lemma pool_ok_finished:
  assumes "pool_ok made p" "po_inits p a = Some i" "made_for made a r"
  shows "pool_ok made (finish_client_init a i r p)"
  using assms
  by (auto simp: pool_ok_def finish_client_init_def made_for_def split: sum.splits if_splits)

lemma caller_ok_finished:
  assumes "caller_ok made p c" "pool_ok made p" "po_inits p a = Some i" "made_for made a r"
    and "c \<noteq> Creating a i"
  shows "caller_ok made (finish_client_init a i r p) c"
proof -
  have unfinished: "po_results p i = Some None" using assms(2,3) by (simp add: pool_ok_def)
  show ?thesis
  proof (cases c)
    case (Creating b j)
    with assms(1,3,5) have "b \<noteq> a" by auto
    with Creating assms(1) show ?thesis by (simp add: finish_client_init_def)
  next
    case (WaitingFor b j)
    show ?thesis
    proof (cases "po_inits p b = Some j")
      case True
      with WaitingFor assms(3,4) show ?thesis
        by (cases "b = a") (simp_all add: finish_client_init_def)
    next
      case False
      with WaitingFor assms(1) unfinished have "j \<noteq> i" by auto
      with False WaitingFor assms(1) show ?thesis by (simp add: finish_client_init_def)
    qed
  next
    case (Returned b d)
    with assms(1) show ?thesis by simp
  qed
qed

lemma create_client_made:
  "(\<And>c. outcome = FactoryAnswer (Inr c) \<Longrightarrow> made c = a) \<Longrightarrow> made_for made a (create_client outcome)"
  by (auto simp: made_for_def create_client_def split: created.splits sum.splits)

lemma pool_step_ok:
  assumes "pool_step made s t" "pool_run_ok made s"
  shows "pool_run_ok made t"
  using assms
proof (cases rule: pool_step.cases)
  case (enter n a p st)
  have ok: "pool_ok made (pu_pool s)" using assms(2) by (simp add: pool_run_ok_def)
  show ?thesis
  proof (cases "po_clients (pu_pool s) a")
    case (Some c)
    with enter ok assms(2) show ?thesis
      by (auto simp: start_client_init_def entered_def pool_ok_def made_for_def intro!: pool_run_ok_caller)
  next
    case none: None
    show ?thesis
    proof (cases "po_inits (pu_pool s) a")
      case (Some i)
      with enter none ok assms(2) show ?thesis
        by (auto simp: start_client_init_def entered_def intro!: pool_run_ok_caller)
    next
      case None
      let ?i = "po_next (pu_pool s)"
      let ?p = "(pu_pool s)\<lparr>po_inits := (po_inits (pu_pool s))(a \<mapsto> ?i),
        po_results := (po_results (pu_pool s))(?i \<mapsto> None), po_next := Suc ?i\<rparr>"
      have t: "t = s\<lparr>pu_pool := ?p, pu_callers := (pu_callers s)(n \<mapsto> Creating a ?i)\<rparr>"
        using enter none None by (auto simp: start_client_init_def entered_def Let_def)
      have fresh: "po_results (pu_pool s) ?i = None" using ok by (simp add: pool_ok_def)
      have no_creator: "creators (pu_callers s) b ?i = {}" for b
        using assms(2) fresh ok by (fastforce simp: pool_run_ok_def creators_def pool_ok_def)
      have others: "creators ((pu_callers s)(n \<mapsto> Creating a ?i)) b j = creators (pu_callers s) b j"
        if "\<not> (b = a \<and> j = ?i)" for b j
        using that enter(2) by (auto simp: creators_def)
      have "\<exists>m. creators ((pu_callers s)(n \<mapsto> Creating a ?i)) b j = {m}" if "po_inits ?p b = Some j" for b j
      proof (cases "b = a")
        case True
        with that no_creator show ?thesis by (simp add: creators_update)
      next
        case False
        with that assms(2) others [of b j] show ?thesis by (simp add: pool_run_ok_def)
      qed
      moreover have "caller_ok made ?p c" if "((pu_callers s)(n \<mapsto> Creating a ?i)) m = Some c" for m c
      proof (cases "m = n")
        case True
        with that show ?thesis by auto
      next
        case False
        with that assms(2) caller_ok_started [of made "pu_pool s" c a ?i "Suc ?i"] None fresh
        show ?thesis by (simp add: pool_run_ok_def)
      qed
      moreover have "pool_ok made ?p" by (rule pool_ok_started [OF ok none None])
      ultimately show ?thesis unfolding t pool_run_ok_def by simp
    qed
  qed
next
  case (create n a i outcome)
  let ?r = "create_client outcome"
  have ok: "pool_ok made (pu_pool s)" using assms(2) by (simp add: pool_run_ok_def)
  have made: "made_for made a ?r" by (rule create_client_made) (rule create(3))
  have i: "po_inits (pu_pool s) a = Some i"
    using assms(2) create(2) by (fastforce simp: pool_run_ok_def)
  then obtain m where "creators (pu_callers s) a i = {m}"
    using assms(2) unfolding pool_run_ok_def by blast
  then have only: "creators (pu_callers s) a i = {n}"
    using create(2) by (auto simp: creators_def)
  let ?cs = "(pu_callers s)(n \<mapsto> Returned a ?r)"
  let ?p = "finish_client_init a i ?r (pu_pool s)"
  have "caller_ok made ?p c" if "?cs m = Some c" for m c
  proof (cases "m = n")
    case True
    with that made show ?thesis by auto
  next
    case False
    with that only have "c \<noteq> Creating a i" by (auto simp: creators_def)
    moreover from False that assms(2) have "caller_ok made (pu_pool s) c" by (auto simp: pool_run_ok_def)
    ultimately show ?thesis by (rule caller_ok_finished [rotated -1, OF _ _ ok i made])
  qed
  moreover have "\<exists>m. creators ?cs b j = {m}" if "po_inits ?p b = Some j" for b j
  proof -
    have b: "b \<noteq> a" and "po_inits (pu_pool s) b = Some j"
      using that by (auto simp: finish_client_init_def split: if_splits)
    with assms(2) obtain m where "creators (pu_callers s) b j = {m}" unfolding pool_run_ok_def by blast
    moreover have "creators ?cs b j = creators (pu_callers s) b j"
      using b create(2) by (auto simp: creators_def)
    ultimately show ?thesis by simp
  qed
  moreover have "pool_ok made ?p" by (rule pool_ok_finished [OF ok i made])
  ultimately show ?thesis unfolding create(1) pool_run_ok_def by simp
next
  case (wake n a i ctx r)
  have "caller_ok made (pu_pool s) (WaitingFor a i)" and ok: "pool_ok made (pu_pool s)"
    using assms(2) wake(2) unfolding pool_run_ok_def by blast+
  then have "made_for made a r"
    using wake(3) by (auto simp: wait_for_init_def made_for_def pool_ok_def split: option.splits)
  with wake ok assms(2) pool_run_ok_caller [of made s "pu_pool s" n "Some (Returned a r)"] show ?thesis
    by simp
next
  case (evict n a c)
  have "pool_ok made (evict_client a c (pu_pool s))"
    using assms(2) by (auto simp: pool_run_ok_def pool_ok_def evict_client_def)
  moreover have "po_inits (evict_client a c p) = po_inits p" "po_results (evict_client a c p) = po_results p"
    for p by (simp_all add: evict_client_def)
  ultimately show ?thesis
    using evict assms(2) pool_run_ok_caller [of made s "evict_client a c (pu_pool s)" n None] by simp
next
  case (leave n a r)
  have "pool_ok made (pu_pool s)" using assms(2) by (simp add: pool_run_ok_def)
  with leave assms(2) pool_run_ok_caller [of made s "pu_pool s" n None] show ?thesis
    by simp
qed

lemma pool_reaches_ok: "pool_reaches made s \<Longrightarrow> pool_run_ok made s"
proof (induction rule: pool_reaches.induct)
  case start
  show ?case by (simp add: pool_run_ok_def pool_ok_def new_pool_def)
next
  case (step s t)
  then show ?case by (blast intro: pool_step_ok)
qed

end
