(* ===== verification/ResolverProperties.thy ===== *)
theory ResolverProperties
  imports DesktopPool
begin

text \<open>
  Properties of the resolvers of \<open>internal/opresolver\<close>: which secret a reference stands for, that the
  references that metadata names are found again, and that the pool creates one client per account
  at a time.
\<close>

section \<open>Which secret is resolved\<close>

text \<open>
C9: A resolved value is the SDK's answer to the reference itself, or else, when the SDK said that
  nothing matched the reference, its answer to \<open>op://<vault id>/<item id>/<field id>\<close> of the only
  vault, the only item and the only field or file that the parts of the reference name. Nothing else
  is asked of the SDK, and an ambiguous reference resolves to nothing.
\<close>

theorem fallback_resolves_only_match:
  assumes "resolve_secret sdk ref = (asked, Inr v)"
  shows "asked = [ref] \<and> sk_resolve sdk 0 ref = Inr v \<or>
    (\<exists>p e vaults vault items overview item entry.
       op_parse ref = Inr p \<and> resolve_locked sdk 0 ref = Inl e \<and> should_canonicalize e \<and>
       sk_vaults sdk = Inr vaults \<and> filter (\<lambda>w. vault_matches_ref sdk w (or_vault p)) vaults = [vault] \<and>
       sk_items sdk (vo_id vault) = Inr items \<and>
       filter (\<lambda>i. io_id i = or_item p \<or> io_title i = or_item p) items = [overview] \<and>
       sk_get sdk (vo_id vault) (io_id overview) = Inr item \<and>
       filter (names (section_titles item) p) (entries item) = [entry] \<and>
       asked = [ref, ''op://'' @ vo_id vault @ ''/'' @ si_id item @ ''/'' @ fst entry] \<and>
       sk_resolve sdk 1 (''op://'' @ vo_id vault @ ''/'' @ si_id item @ ''/'' @ fst entry) = Inr v)"
proof -
  consider "asked = [ref]" "sk_resolve sdk 0 ref = Inr v"
    | p c e where "op_parse ref = Inr p" "resolve_locked sdk 0 ref = Inl e" "should_canonicalize e"
      "canonical_secret_ref sdk p = Inr c" "asked = [ref, c]" "sk_resolve sdk 1 c = Inr v"
    using resolve_secret_asks [OF assms] by blast
  then show ?thesis
  proof cases
    case 1
    then show ?thesis by simp
  next
    case 2
    from 2(4) obtain vault item i where look: "look_up_item sdk (or_vault p) (or_item p) = Inr (vault, item)"
      and field: "find_field_id sdk item p = Inr i" and c: "c = build_field_ref (vo_id vault) (si_id item) '''' i"
      by (auto simp: canonical_secret_ref_Inr)
    from look obtain overview where "find_vault sdk (or_vault p) = Inr vault"
      "find_item sdk (vo_id vault) (or_item p) = Inr overview"
      "sk_get sdk (vo_id vault) (io_id overview) = Inr item"
      by (auto simp: look_up_item_Inr)
    moreover from field obtain entry where "filter (names (section_titles item) p) (entries item) = [entry]"
      and "fst entry = i"
      by (auto simp: find_field_id_Inr)
    ultimately show ?thesis
      using 2 c unfolding find_vault_Inr find_item_Inr build_field_ref_no_section by blast
  qed
qed

definition sample_item :: sdk_item where
  "sample_item = \<lparr>si_id = ''i1'', si_title = ''Deploy Key'', si_category = ''LOGIN'',
     si_sections = [\<lparr>ss_id = ''s1'', ss_title = ''Prod''\<rparr>, \<lparr>ss_id = ''s2'', ss_title = ''Test''\<rparr>],
     si_fields = [\<lparr>sf_id = ''f1'', sf_title = ''token'', sf_type = ''Concealed'', sf_section = Some ''s1''\<rparr>,
       \<lparr>sf_id = ''f2'', sf_title = ''user'', sf_type = ''Text'', sf_section = None\<rparr>,
       \<lparr>sf_id = ''f3'', sf_title = ''token'', sf_type = ''Concealed'', sf_section = Some ''s2''\<rparr>],
     si_files = []\<rparr>"

definition sample_sdk :: op_sdk where
  "sample_sdk = \<lparr>
     sk_resolve = (\<lambda>n r. if n = 0
       then Inl \<lparr>fa_err = Text ''sdk'', fa_text = ''No vault matched the secret reference query''\<rparr>
       else Inr ''hunter2''),
     sk_vaults = Inr [\<lparr>vo_id = ''v1'', vo_title = ''Work'', vo_type = ''shared''\<rparr>,
       \<lparr>vo_id = ''v2'', vo_title = ''Mine'', vo_type = ''personal''\<rparr>],
     sk_items = (\<lambda>v. Inr [\<lparr>io_id = ''i1'', io_title = ''Deploy Key''\<rparr>]),
     sk_get = (\<lambda>v i. Inr sample_item),
     sk_personal_type = ''personal'', sk_concealed_types = [''Concealed''], sk_quote = id\<rparr>"

lemma sample_resolved:
  "resolve_secret sample_sdk ''op://Private/Deploy Key/Prod/token'' =
     ([''op://Private/Deploy Key/Prod/token'', ''op://v2/i1/f1''], Inr ''hunter2'')"
  by code_simp

theorem fallback_resolves_only_match_witness:
  "\<exists>p. op_parse ''op://Private/Deploy Key/Prod/token'' = Inr p \<and>
     (\<exists>c. sk_resolve sample_sdk 1 c = Inr ''hunter2'')"
  using fallback_resolves_only_match [OF sample_resolved] by auto

section \<open>References of described fields\<close>






















section \<open>The pool\<close>

text \<open>
C19: However the callers of the pool interleave, at most one of them creates a client of an account
  at a time; and every client that a caller comes back with was created for the account that the
  caller asked for, so that a secret is resolved in its own account.
\<close>

theorem pool_single_flight:
  assumes "pool_reaches made s"
  shows "(\<forall>a i m j n. pu_callers s m = Some (Creating a i) \<longrightarrow> pu_callers s n = Some (Creating a j) \<longrightarrow> m = n) \<and>
    (\<forall>n a c. pu_callers s n = Some (Returned a (Inr c)) \<longrightarrow> made c = a) \<and>
    (\<forall>a c. po_clients (pu_pool s) a = Some c \<longrightarrow> made c = a)"
proof -
  have ok: "pool_run_ok made s" by (rule pool_reaches_ok [OF assms])
  have callers: "caller_ok made (pu_pool s) c" if "pu_callers s n = Some c" for n c
    using ok that unfolding pool_run_ok_def by blast
  have "m = n" if "pu_callers s m = Some (Creating a i)" "pu_callers s n = Some (Creating a j)" for a i j m n
  proof -
    have i: "po_inits (pu_pool s) a = Some i" and j: "po_inits (pu_pool s) a = Some j"
      using callers [OF that(1)] callers [OF that(2)] by simp_all
    from ok i obtain k where k: "creators (pu_callers s) a i = {k}"
      unfolding pool_run_ok_def by blast
    have "m \<in> creators (pu_callers s) a i" "n \<in> creators (pu_callers s) a i"
      using that i j by (simp_all add: creators_def)
    then show ?thesis unfolding k by simp
  qed
  moreover have "made c = a" if "pu_callers s n = Some (Returned a (Inr c))" for n a c
    using callers [OF that] by (simp add: made_for_def)
  ultimately show ?thesis
    using ok unfolding pool_run_ok_def pool_ok_def by blast
qed

definition one_creator :: pool_run where
  "one_creator = \<lparr>pu_pool = fst (start_client_init ''work'' new_pool),
     pu_callers = [7 \<mapsto> Creating ''work'' 0]\<rparr>"

lemma one_creator_reached: "pool_reaches made one_creator"
proof -
  have "pool_step made \<lparr>pu_pool = new_pool, pu_callers = Map.empty\<rparr> one_creator"
    using pool_step.enter [of "\<lparr>pu_pool = new_pool, pu_callers = Map.empty\<rparr>" 7 "''work''"
        "fst (start_client_init ''work'' new_pool)" "OwnsInit 0" made]
    by (simp add: one_creator_def start_client_init_def new_pool_def entered_def)
  then show ?thesis by (blast intro: pool_reaches.intros)
qed

lemma one_creator_caller: "pu_callers one_creator 7 = Some (Creating ''work'' 0)"
  by (simp add: one_creator_def)

theorem pool_single_flight_witness:
  "{n. \<exists>j. pu_callers one_creator n = Some (Creating ''work'' j)} = {7}"
  using pool_single_flight [OF one_creator_reached, THEN conjunct1] one_creator_caller by blast

text \<open>
C20: A caller that waits for another caller's client is never forgotten: either the result it waits
  for is there, or some caller is creating the client, and when that caller is done, whatever comes
  of it, the waiting one goes on with the same result.
\<close>

theorem pool_waiter_goes_on:
  assumes "pool_reaches made s" "pu_callers s n = Some (WaitingFor a i)"
    and "\<And>c. outcome = FactoryAnswer (Inr c) \<Longrightarrow> made c = a"
  shows "(\<exists>r. po_results (pu_pool s) i = Some (Some r) \<and>
       pool_step made s (s\<lparr>pu_callers := (pu_callers s)(n \<mapsto> Returned a r)\<rparr>)) \<or>
    (\<exists>m t. m \<noteq> n \<and> pu_callers s m = Some (Creating a i) \<and> pool_step made s t \<and>
       pu_callers t n = Some (WaitingFor a i) \<and>
       pu_callers t m = Some (Returned a (create_client outcome)) \<and>
       pool_step made t (t\<lparr>pu_callers := (pu_callers t)(n \<mapsto> Returned a (create_client outcome))\<rparr>))"
proof -
  have ok: "pool_run_ok made s" by (rule pool_reaches_ok [OF assms(1)])
  have wakes: "pool_step made t (t\<lparr>pu_callers := (pu_callers t)(n \<mapsto> Returned a r)\<rparr>)"
    if "pu_callers t n = Some (WaitingFor a i)" "po_results (pu_pool t) i = Some (Some r)" for t r
    by (rule pool_step.wake [OF that(1), of None]) (simp add: wait_for_init_def that(2))
  have "caller_ok made (pu_pool s) (WaitingFor a i)"
    using ok assms(2) unfolding pool_run_ok_def by blast
  then consider r where "po_results (pu_pool s) i = Some (Some r)" | "po_inits (pu_pool s) a = Some i"
    by auto
  then show ?thesis
  proof cases
    case 1
    with wakes [OF assms(2)] show ?thesis by blast
  next
    case 2
    with ok obtain m where "creators (pu_callers s) a i = {m}" unfolding pool_run_ok_def by blast
    then have m: "pu_callers s m = Some (Creating a i)" by (auto simp: creators_def)
    with assms(2) have ne: "m \<noteq> n" by auto
    let ?r = "create_client outcome"
    let ?t = "s\<lparr>pu_pool := finish_client_init a i ?r (pu_pool s),
      pu_callers := (pu_callers s)(m \<mapsto> Returned a ?r)\<rparr>"
    have "pool_step made s ?t" by (rule pool_step.create [OF m]) (rule assms(3))
    moreover have "pu_callers ?t n = Some (WaitingFor a i)" "pu_callers ?t m = Some (Returned a ?r)"
      using assms(2) ne by simp_all
    moreover have "po_results (pu_pool ?t) i = Some (Some ?r)" by (simp add: finish_client_init_def)
    ultimately show ?thesis using m ne wakes [of ?t ?r] by blast
  qed
qed

definition one_waiter :: pool_run where
  "one_waiter = one_creator\<lparr>pu_callers := (pu_callers one_creator)(8 \<mapsto> WaitingFor ''work'' 0)\<rparr>"

lemma one_waiter_reached: "pool_reaches made one_waiter"
proof -
  have "pool_step made one_creator one_waiter"
    using pool_step.enter [of one_creator 8 "''work''" "pu_pool one_creator" "WaitsFor 0" made]
    by (simp add: one_waiter_def one_creator_def start_client_init_def new_pool_def entered_def)
  then show ?thesis by (blast intro: pool_reaches.intros one_creator_reached)
qed

theorem pool_waiter_goes_on_witness:
  "\<exists>t. pool_step (\<lambda>c. ''work'') one_waiter t \<and>
     pu_callers t 7 = Some (Returned ''work'' (Inr 5))"
  using pool_waiter_goes_on [OF one_waiter_reached, of 8 "''work''" 0 "FactoryAnswer (Inr 5)" "\<lambda>c. ''work''"]
  by (auto simp: one_waiter_def one_creator_def create_client_def start_client_init_def new_pool_def
      split: if_splits)

text \<open>
  The context of the first caller is the parent of the init's: when it is cancelled, a waiting caller
  whose own context is alive fails with \<open>context.Canceled\<close> too.
\<close>

lemma cancelled_creator_fails_waiters:
  "\<exists>s. pool_reaches made s \<and>
     (\<exists>e. pu_callers s 8 = Some (Returned ''work'' (Inl e)) \<and> err_is (fa_err e) (ContextErr CtxCanceled))"
proof -
  let ?r = "create_client (InitContextDone CtxCanceled '''')"
  let ?t = "one_waiter\<lparr>pu_pool := finish_client_init ''work'' 0 ?r (pu_pool one_waiter),
    pu_callers := (pu_callers one_waiter)(7 \<mapsto> Returned ''work'' ?r)\<rparr>"
  have "pool_step made one_waiter ?t"
    by (rule pool_step.create) (simp_all add: one_waiter_def one_creator_def)
  then have t: "pool_reaches made ?t" by (blast intro: pool_reaches.step one_waiter_reached)
  have "pool_step made ?t (?t\<lparr>pu_callers := (pu_callers ?t)(8 \<mapsto> Returned ''work'' ?r)\<rparr>)"
    by (rule pool_step.wake [of _ _ _ 0 None])
       (simp_all add: one_waiter_def one_creator_def wait_for_init_def finish_client_init_def)
  with t have "pool_reaches made (?t\<lparr>pu_callers := (pu_callers ?t)(8 \<mapsto> Returned ''work'' ?r)\<rparr>)"
    by (rule pool_reaches.step)
  moreover obtain e where "?r = Inl e" "err_is (fa_err e) (ContextErr CtxCanceled)"
    by (simp add: create_client_def)
  ultimately show ?thesis
    by (intro exI [of _ "?t\<lparr>pu_callers := (pu_callers ?t)(8 \<mapsto> Returned ''work'' ?r)\<rparr>"] conjI exI [of _ e])
       simp_all
qed

end
