(* ===== verification/ErrState.thy ===== *)
theory ErrState
  imports GoErrors
begin

text \<open>
  Operations that may fail and change a state: a Go function that returns an error reads as a
  function from a state to the state after it and its error or value. \<open>after\<close> is the weakest
  precondition of such an operation, and the collection \<open>runs\<close> computes it.
\<close>

named_theorems runs \<open>the weakest precondition of each operation\<close>

type_synonym ('s, 'a) run = "'s \<Rightarrow> 's \<times> (err + 'a)"

definition give :: "'a \<Rightarrow> ('s, 'a) run" where
  "give a s = (s, Inr a)"

definition stop_with :: "err \<Rightarrow> ('s, 'a) run" where
  "stop_with e s = (s, Inl e)"

text \<open>\<open>if err != nil { return err }\<close> between two calls.\<close>

definition chain :: "('s, 'a) run \<Rightarrow> ('a \<Rightarrow> ('s, 'b) run) \<Rightarrow> ('s, 'b) run" where
  "chain m f s = (case m s of (s', Inl e) \<Rightarrow> (s', Inl e) | (s', Inr a) \<Rightarrow> f a s')"

text \<open>A call whose error the caller looks at.\<close>

definition handle :: "('s, 'a) run \<Rightarrow> (err + 'a \<Rightarrow> ('s, 'b) run) \<Rightarrow> ('s, 'b) run" where
  "handle m f s = (case m s of (s', r) \<Rightarrow> f r s')"

definition reading :: "('s \<Rightarrow> 'a) \<Rightarrow> ('s, 'a) run" where
  "reading f s = (s, Inr (f s))"

definition change :: "('s \<Rightarrow> 's) \<Rightarrow> ('s, unit) run" where
  "change f s = (f s, Inr ())"

definition stop_if :: "err option \<Rightarrow> ('s, unit) run" where
  "stop_if e = (case e of None \<Rightarrow> give () | Some x \<Rightarrow> stop_with x)"

definition of_result :: "err + 'a \<Rightarrow> ('s, 'a) run" where
  "of_result r = (case r of Inl e \<Rightarrow> stop_with e | Inr a \<Rightarrow> give a)"

definition after :: "('s, 'a) run \<Rightarrow> (err + 'a \<Rightarrow> 's \<Rightarrow> bool) \<Rightarrow> 's \<Rightarrow> bool" where
  "after m Q s \<longleftrightarrow> Q (snd (m s)) (fst (m s))"

lemma after_give [runs]: "after (give a) Q s = Q (Inr a) s"
  by (simp add: after_def give_def)

lemma after_stop_with [runs]: "after (stop_with e) Q s = Q (Inl e) s"
  by (simp add: after_def stop_with_def)

lemma after_chain [runs]:
  "after (chain m f) Q s =
     after m (\<lambda>r s'. case r of Inl e \<Rightarrow> Q (Inl e) s' | Inr a \<Rightarrow> after (f a) Q s') s"
  by (simp add: after_def chain_def split: prod.splits sum.splits)

lemma after_handle [runs]: "after (handle m f) Q s = after m (\<lambda>r s'. after (f r) Q s') s"
  by (simp add: after_def handle_def split: prod.splits)

lemma after_reading [runs]: "after (reading f) Q s = Q (Inr (f s)) s"
  by (simp add: after_def reading_def)

lemma after_change [runs]: "after (change f) Q s = Q (Inr ()) (f s)"
  by (simp add: after_def change_def)

lemma after_stop_if [runs]:
  "after (stop_if e) Q s = (case e of None \<Rightarrow> Q (Inr ()) s | Some x \<Rightarrow> Q (Inl x) s)"
  by (simp add: stop_if_def runs split: option.splits)

lemma after_of_result [runs]: "after (of_result r) Q s = Q r s"
  by (simp add: of_result_def runs split: sum.splits)

lemma after_if [runs]: "after (if b then m else n) Q s = (if b then after m Q s else after n Q s)"
  by simp

lemma after_mono: "after m P s \<Longrightarrow> (\<And>r s'. P r s' \<Longrightarrow> Q r s') \<Longrightarrow> after m Q s"
  by (simp add: after_def)

lemma after_result: "m s = (s', r) \<Longrightarrow> after m Q s = Q r s'"
  by (simp add: after_def)

end
