(* ===== verification/TokenStore.thy ===== *)
theory TokenStore
  imports Refs Paths ErrState
begin

text \<open>
  The store of Bitwarden tokens: \<open>internal/bwsm/keychain.go\<close>, and the rules of
  \<open>keychain_errors.go\<close> and \<open>keychain_paths.go\<close>. The Keychain itself is a service: what it
  answers to a call is an argument, what it holds is the state.
\<close>

section \<open>The Keychain\<close>

record token =
  tk_alias :: string
  tk_access :: string
  tk_created :: go_time
  tk_updated :: go_time

definition no_token :: token where
  "no_token = \<lparr>tk_alias = '''', tk_access = '''', tk_created = zero_time, tk_updated = zero_time\<rparr>"

text \<open>
  The bytes of an item, as far as \<open>json.Unmarshal\<close> tells: what they decode to as a token and as
  an index. The JSON of a token has no \<open>aliases\<close>, that of an index no field of a token.
\<close>

record raw_item =
  raw_token :: "err + token"
  raw_index :: "err + string list"

definition token_json :: "token \<Rightarrow> raw_item" where
  "token_json t = \<lparr>raw_token = Inr t, raw_index = Inr []\<rparr>"

definition index_json :: "string list \<Rightarrow> raw_item" where
  "index_json aliases = \<lparr>raw_token = Inr no_token, raw_index = Inr aliases\<rparr>"

text \<open>The items of the store's service by account, and the number of backend calls made.\<close>

record keychain =
  kc_items :: "string \<rightharpoonup> raw_item"
  kc_calls :: nat

text \<open>
  The backend's failures, by the number of calls before: of \<open>get\<close>, \<open>put\<close> (\<open>True\<close> for
  \<open>putInteractive\<close>) and \<open>delete\<close> by account. \<open>ke_text\<close> is what JSON keeps of a string, which is
  the string when it is UTF-8; \<open>ke_marshal\<close> the failure of \<open>json.Marshal\<close> on a token. The clock is
  read for \<open>CreatedAt\<close> (0), when it must be, and for \<open>UpdatedAt\<close> (1).
\<close>

record keychain_env =
  ke_context :: "err option"
  ke_now :: "nat \<Rightarrow> go_time"
  ke_get_fails :: "nat \<Rightarrow> string \<Rightarrow> err option"
  ke_put_fails :: "nat \<Rightarrow> bool \<Rightarrow> string \<Rightarrow> err option"
  ke_delete_fails :: "nat \<Rightarrow> string \<Rightarrow> err option"
  ke_text :: "string \<Rightarrow> string"
  ke_marshal :: "token \<Rightarrow> err option"

type_synonym 'a stored = "(keychain, 'a) run"

abbreviation token_not_found :: err where
  "token_not_found \<equiv> Err (BwsErr ErrTokenNotFound)"

definition called :: "(keychain \<Rightarrow> keychain) \<Rightarrow> unit stored" where
  "called f = change (\<lambda>k. (f k)\<lparr>kc_calls := Suc (kc_calls k)\<rparr>)"

definition backend_get :: "keychain_env \<Rightarrow> string \<Rightarrow> raw_item stored" where
  "backend_get ke account =
     chain (reading (\<lambda>k. (ke_get_fails ke (kc_calls k) account, kc_items k account))) (\<lambda>(failure, item).
     chain (called id) (\<lambda>_.
       case failure of
         Some e \<Rightarrow> stop_with e
       | None \<Rightarrow> (case item of None \<Rightarrow> stop_with token_not_found | Some raw \<Rightarrow> give raw)))"

definition backend_put :: "keychain_env \<Rightarrow> bool \<Rightarrow> string \<Rightarrow> raw_item \<Rightarrow> unit stored" where
  "backend_put ke interactive account raw =
     chain (reading (\<lambda>k. ke_put_fails ke (kc_calls k) interactive account)) (\<lambda>failure.
       case failure of
         Some e \<Rightarrow> chain (called id) (\<lambda>_. stop_with e)
       | None \<Rightarrow> called (\<lambda>k. k\<lparr>kc_items := (kc_items k)(account \<mapsto> raw)\<rparr>))"

text \<open>\<open>delete\<close> says whether there was an item.\<close>

definition backend_delete :: "keychain_env \<Rightarrow> string \<Rightarrow> bool stored" where
  "backend_delete ke account =
     chain (reading (\<lambda>k. (ke_delete_fails ke (kc_calls k) account, kc_items k account))) (\<lambda>(failure, item).
       case failure of
         Some e \<Rightarrow> chain (called id) (\<lambda>_. stop_with e)
       | None \<Rightarrow>
           chain (called (\<lambda>k. k\<lparr>kc_items := (kc_items k)(account := None)\<rparr>)) (\<lambda>_. give (item \<noteq> None)))"

section \<open>Operations\<close>

definition keychain_index_account :: string where
  "keychain_index_account = ''__agent_secret_bitwarden_secrets_manager_tokens__''"

definition normalize_token_alias :: "string \<Rightarrow> err + string" where
  "normalize_token_alias alias = map_sum (Wrap (BwsErr ErrInvalidTokenAlias)) id (normalize_source_alias alias)"

text \<open>\<open>Get\<close>: the token, or None for the result \<open>found = false\<close>.\<close>

definition store_get :: "keychain_env \<Rightarrow> string \<Rightarrow> token option stored" where
  "store_get ke alias =
     chain (stop_if (ke_context ke)) (\<lambda>_.
     chain (of_result (normalize_token_alias alias)) (\<lambda>a.
     handle (backend_get ke a) (\<lambda>r.
       case r of
         Inl e \<Rightarrow> if err_is e (BwsErr ErrTokenNotFound) then give None else stop_with e
       | Inr raw \<Rightarrow>
           (case raw_token raw of
              Inl e \<Rightarrow> stop_with e
            | Inr t \<Rightarrow>
                if tk_access t = '''' then stop_with (Err (BwsErr ErrInvalidToken))
                else give (Some (t\<lparr>tk_alias := a\<rparr>))))))"

definition load_index :: "keychain_env \<Rightarrow> string list stored" where
  "load_index ke =
     handle (backend_get ke keychain_index_account) (\<lambda>r.
       case r of
         Inl e \<Rightarrow> if err_is e (BwsErr ErrTokenNotFound) then give [] else stop_with e
       | Inr raw \<Rightarrow> of_result (raw_index raw))"

definition load_repairable_index :: "keychain_env \<Rightarrow> bool \<Rightarrow> string list stored" where
  "load_repairable_index ke interactive =
     handle (load_index ke) (\<lambda>r.
       case r of
         Inr index \<Rightarrow> give index
       | Inl e \<Rightarrow>
           if \<not> err_is e (BwsErr ErrKeychainAccess) then stop_with e
           else if interactive then give []
           else
             handle (backend_delete ke keychain_index_account) (\<lambda>d.
               case d of
                 Inl e' \<Rightarrow> if err_is e' (BwsErr ErrTokenNotFound) then give [] else stop_with e'
               | Inr _ \<Rightarrow> give []))"

definition save_index :: "keychain_env \<Rightarrow> string list \<Rightarrow> bool \<Rightarrow> unit stored" where
  "save_index ke index interactive =
     backend_put ke interactive keychain_index_account (index_json index)"

definition created_at :: "keychain_env \<Rightarrow> token \<Rightarrow> token option \<Rightarrow> go_time" where
  "created_at ke t stored =
     (if tk_created t \<noteq> zero_time then tk_created t
      else case stored of
             Some s \<Rightarrow> if tk_created s \<noteq> zero_time then tk_created s else ke_now ke 0
           | None \<Rightarrow> ke_now ke 0)"

definition store_put :: "keychain_env \<Rightarrow> bool \<Rightarrow> token \<Rightarrow> unit stored" where
  "store_put ke interactive t =
     chain (stop_if (ke_context ke)) (\<lambda>_.
     chain (of_result (normalize_token_alias (tk_alias t))) (\<lambda>alias.
     let access = trim_space (tk_access t) in
     if access = '''' then stop_with (Err (BwsErr ErrInvalidToken))
     else
     handle (store_get ke alias) (\<lambda>g.
     chain (of_result (case g of
              Inl e \<Rightarrow> if err_is e (BwsErr ErrKeychainAccess) then Inr None else Inl e
            | Inr found \<Rightarrow> Inr found)) (\<lambda>stored.
     let t' = \<lparr>tk_alias = alias, tk_access = access, tk_created = created_at ke t stored,
               tk_updated = ke_now ke 1\<rparr> in
     chain (stop_if (ke_marshal ke t')) (\<lambda>_.
     chain (backend_put ke interactive alias
              (token_json (t'\<lparr>tk_access := ke_text ke access\<rparr>))) (\<lambda>_.
     chain (load_repairable_index ke interactive) (\<lambda>index.
       save_index ke (if alias \<in> set index then index else sort (index @ [alias])) interactive)))))))"

definition store_delete :: "keychain_env \<Rightarrow> string \<Rightarrow> bool stored" where
  "store_delete ke alias =
     chain (stop_if (ke_context ke)) (\<lambda>_.
     chain (of_result (normalize_token_alias alias)) (\<lambda>a.
     chain (backend_delete ke a) (\<lambda>deleted.
     chain (load_repairable_index ke False) (\<lambda>index.
     chain (save_index ke (filter (\<lambda>c. c \<noteq> a) index) False) (\<lambda>_. give deleted)))))"

fun list_tokens :: "keychain_env \<Rightarrow> string list \<Rightarrow> token list stored" where
  "list_tokens ke [] = give []"
| "list_tokens ke (a # as) =
     chain (store_get ke a) (\<lambda>found.
     chain (list_tokens ke as) (\<lambda>ts.
       give (case found of None \<Rightarrow> ts | Some t \<Rightarrow> t # ts)))"

definition store_list :: "keychain_env \<Rightarrow> token list stored" where
  "store_list ke = chain (load_index ke) (list_tokens ke)"

definition list_aliases :: "keychain_env \<Rightarrow> string list stored" where
  "list_aliases ke = chain (store_list ke) (\<lambda>ts. give (sort (map tk_alias ts)))"

definition new_keychain_service :: "string \<Rightarrow> string" where
  "new_keychain_service service =
     (if trim_space service = '''' then ''com.kovyrin.agent-secret.bitwarden-secrets-manager''
      else trim_space service)"

section \<open>Statuses and trusted applications\<close>

definition is_keychain_interaction_status :: "int \<Rightarrow> bool" where
  "is_keychain_interaction_status status \<longleftrightarrow> status \<in> {-128, -25293, -25308, -25315}"

definition keychain_status_error :: "string \<Rightarrow> int \<Rightarrow> err" where
  "keychain_status_error operation status =
     (if is_keychain_interaction_status status then Err (BwsErr ErrKeychainAccess)
      else Text (''bitwarden Secrets Manager Keychain '' @ operation @ '' failed''))"

section \<open>A Keychain that answers\<close>

definition working :: "keychain_env \<Rightarrow> bool" where
  "working ke \<longleftrightarrow>
     ke_context ke = None \<and> (\<forall>n a. ke_get_fails ke n a = None) \<and>
     (\<forall>n i a. ke_put_fails ke n i a = None) \<and> (\<forall>n a. ke_delete_fails ke n a = None) \<and>
     (\<forall>t. ke_marshal ke t = None)"

definition ticked :: "keychain \<Rightarrow> keychain" where
  "ticked k = k\<lparr>kc_calls := Suc (kc_calls k)\<rparr>"

text \<open>The tokens by alias, which is what the store is for, and the aliases that the index names.\<close>

definition held :: "keychain \<Rightarrow> string \<rightharpoonup> token" where
  "held k a =
     (if \<not> valid_source_alias a then None
      else case kc_items k a of
             None \<Rightarrow> None
           | Some raw \<Rightarrow>
               (case raw_token raw of
                  Inl e \<Rightarrow> None
                | Inr t \<Rightarrow> if tk_access t = '''' then None else Some (t\<lparr>tk_alias := a\<rparr>)))"

definition stored_index :: "keychain \<Rightarrow> err + string list" where
  "stored_index k =
     (case kc_items k keychain_index_account of None \<Rightarrow> Inr [] | Some raw \<Rightarrow> raw_index raw)"

definition store_ok :: "keychain \<Rightarrow> bool" where
  "store_ok k \<longleftrightarrow>
     (\<forall>a raw. valid_source_alias a \<longrightarrow> kc_items k a = Some raw \<longrightarrow>
        (\<exists>t. raw_token raw = Inr t \<and> tk_access t \<noteq> '''')) \<and>
     (\<exists>index. stored_index k = Inr index \<and> sorted index \<and> distinct index \<and> set index = dom (held k))"

lemmas run_defs = chain_def handle_def give_def stop_with_def reading_def change_def of_result_def
  stop_if_def called_def

lemma index_account_no_alias: "\<not> valid_source_alias keychain_index_account"
  by code_simp

lemma alias_not_index: "valid_source_alias a \<Longrightarrow> a \<noteq> keychain_index_account"
  using index_account_no_alias by auto

lemma ticked_items [simp]: "kc_items (ticked k) = kc_items k"
  by (simp add: ticked_def)

lemma ticked_same [simp]:
  "held (ticked k) = held k" "stored_index (ticked k) = stored_index k" "store_ok (ticked k) = store_ok k"
proof -
  show "held (ticked k) = held k" by (rule ext) (simp add: held_def)
  then show "stored_index (ticked k) = stored_index k" "store_ok (ticked k) = store_ok k"
    by (simp_all add: stored_index_def store_ok_def)
qed

lemma normalize_token_alias_Inr:
  "normalize_token_alias alias = Inr a \<Longrightarrow> valid_source_alias a \<and> normalize_token_alias a = Inr a"
  by (auto simp: normalize_token_alias_def map_sum_def split: sum.splits
      dest: normalize_source_alias_Inr normalize_source_alias_idem)

lemma backend_get_working:
  "working ke \<Longrightarrow> backend_get ke a k =
     (ticked k, case kc_items k a of None \<Rightarrow> Inl token_not_found | Some raw \<Rightarrow> Inr raw)"
  by (simp add: backend_get_def run_defs working_def ticked_def split: option.splits)

lemma backend_put_working:
  "working ke \<Longrightarrow> backend_put ke i a raw k =
     (ticked (k\<lparr>kc_items := (kc_items k)(a \<mapsto> raw)\<rparr>), Inr ())"
  by (simp add: backend_put_def run_defs working_def ticked_def)

lemma backend_delete_working:
  "working ke \<Longrightarrow> backend_delete ke a k =
     (ticked (k\<lparr>kc_items := (kc_items k)(a := None)\<rparr>), Inr (kc_items k a \<noteq> None))"
  by (simp add: backend_delete_def run_defs working_def ticked_def)

lemma store_get_working:
  assumes "working ke" "store_ok k" "normalize_token_alias alias = Inr a"
  shows "store_get ke alias k = (ticked k, Inr (held k a))"
proof -
  have a: "valid_source_alias a" using normalize_token_alias_Inr [OF assms(3)] by simp
  have ctx: "ke_context ke = None" using assms(1) by (simp add: working_def)
  show ?thesis
  proof (cases "kc_items k a")
    case None
    with assms a ctx show ?thesis by (simp add: store_get_def run_defs backend_get_working held_def)
  next
    case (Some raw)
    with assms(2) a obtain t where "raw_token raw = Inr t" "tk_access t \<noteq> ''''"
      unfolding store_ok_def by blast
    with Some assms a ctx show ?thesis
      by (simp add: store_get_def run_defs backend_get_working held_def)
  qed
qed

lemma load_index_working: "working ke \<Longrightarrow> load_index ke k = (ticked k, stored_index k)"
  by (auto simp: load_index_def run_defs backend_get_working stored_index_def split: option.splits sum.splits)

lemma load_repairable_working:
  "working ke \<Longrightarrow> stored_index k = Inr index \<Longrightarrow> load_repairable_index ke i k = (ticked k, Inr index)"
  by (simp add: load_repairable_index_def run_defs load_index_working)

text \<open>An update of one token, with the index that goes with it.\<close>

lemma store_ok_update:
  assumes "store_ok k" "valid_source_alias a" "sorted index" "distinct index"
    and "set index = (if raw = None then dom (held k) - {a} else insert a (dom (held k)))"
    and "\<And>r. raw = Some r \<Longrightarrow> \<exists>t. raw_token r = Inr t \<and> tk_access t \<noteq> ''''"
    and "k' = k\<lparr>kc_items := (kc_items k)(a := raw, keychain_index_account \<mapsto> index_json index), kc_calls := m\<rparr>"
  shows "store_ok k'"
    and "held k' = (held k)(a := (case raw of None \<Rightarrow> None | Some r \<Rightarrow>
           (case raw_token r of Inl e \<Rightarrow> None | Inr t \<Rightarrow> Some (t\<lparr>tk_alias := a\<rparr>))))"
proof -
  have ne: "a \<noteq> keychain_index_account" by (rule alias_not_index [OF assms(2)])
  show held: "held k' = (held k)(a := (case raw of None \<Rightarrow> None | Some r \<Rightarrow>
           (case raw_token r of Inl e \<Rightarrow> None | Inr t \<Rightarrow> Some (t\<lparr>tk_alias := a\<rparr>))))"
  proof
    fix b
    show "held k' b = ((held k)(a := (case raw of None \<Rightarrow> None | Some r \<Rightarrow>
           (case raw_token r of Inl e \<Rightarrow> None | Inr t \<Rightarrow> Some (t\<lparr>tk_alias := a\<rparr>))))) b"
      using assms(2,6) ne index_account_no_alias
      by (cases "b = keychain_index_account"; cases "b = a"; cases raw) (fastforce simp: held_def assms(7))+
  qed
  have "dom (held k') = set index"
  proof (cases raw)
    case None
    then show ?thesis unfolding held assms(5) by auto
  next
    case (Some r)
    with assms(6) obtain t where "raw_token r = Inr t" by blast
    with Some show ?thesis unfolding held assms(5) by auto
  qed
  moreover have "stored_index k' = Inr index"
    by (simp add: stored_index_def assms(7) index_json_def)
  moreover have "\<exists>t. raw_token r = Inr t \<and> tk_access t \<noteq> ''''"
    if "valid_source_alias b" "kc_items k' b = Some r" for b r
    using that assms(1,6) alias_not_index [OF that(1)]
    by (cases "b = a") (auto simp: assms(7) store_ok_def)
  ultimately show "store_ok k'"
    unfolding store_ok_def using assms(3,4) by blast
qed


lemma store_ok_index:
  assumes "store_ok k"
  obtains index where "stored_index k = Inr index" "sorted index" "distinct index" "set index = dom (held k)"
  using assms unfolding store_ok_def by blast

definition put_token :: "keychain_env \<Rightarrow> keychain \<Rightarrow> string \<Rightarrow> token \<Rightarrow> token" where
  "put_token ke k a t =
     \<lparr>tk_alias = a, tk_access = trim_space (tk_access t), tk_created = created_at ke t (held k a),
      tk_updated = ke_now ke 1\<rparr>"

lemma stored_index_other:
  "a \<noteq> keychain_index_account \<Longrightarrow> stored_index (k\<lparr>kc_items := (kc_items k)(a := raw)\<rparr>) = stored_index k"
  by (simp add: stored_index_def)

lemma store_put_working:
  assumes "working ke" "store_ok k" "normalize_token_alias (tk_alias t) = Inr a"
    and "trim_space (tk_access t) \<noteq> ''''" "ke_text ke (trim_space (tk_access t)) = trim_space (tk_access t)"
  shows "\<exists>k'. store_put ke i t k = (k', Inr ()) \<and> store_ok k' \<and> held k' = (held k)(a \<mapsto> put_token ke k a t)"
proof -
  obtain index where index: "stored_index k = Inr index" "sorted index" "distinct index"
    "set index = dom (held k)"
    by (rule store_ok_index [OF assms(2)])
  note valid = normalize_token_alias_Inr [OF assms(3)]
  note ne = alias_not_index [OF conjunct1 [OF valid]]
  have ctx: "ke_context ke = None" and marshal: "ke_marshal ke x = None" for x
    using assms(1) by (simp_all add: working_def)
  let ?raw = "token_json (put_token ke k a t)"
  let ?index = "if a \<in> set index then index else sort (index @ [a])"
  let ?k1 = "k\<lparr>kc_items := (kc_items k)(a \<mapsto> ?raw), kc_calls := Suc (Suc (kc_calls k))\<rparr>"
  let ?k' = "k\<lparr>kc_items := (kc_items k)(a := Some ?raw, keychain_index_account \<mapsto> index_json ?index),
    kc_calls := kc_calls k + 4\<rparr>"
  have got: "store_get ke a k = (ticked k, Inr (held k a))"
    by (rule store_get_working [OF assms(1,2)]) (simp add: valid)
  have raw: "token_json (\<lparr>tk_alias = a, tk_access = trim_space (tk_access t),
      tk_created = created_at ke t (held k a), tk_updated = ke_now ke 1\<rparr>
      \<lparr>tk_access := ke_text ke (trim_space (tk_access t))\<rparr>) = ?raw"
    by (simp add: put_token_def assms(5))
  have loaded: "load_repairable_index ke i ?k1 = (ticked ?k1, Inr index)"
    by (rule load_repairable_working [OF assms(1)])
       (use index(1) ne in \<open>simp add: stored_index_def ticked_def\<close>)
  have "store_put ke i t k = (?k', Inr ())"
    using assms(3,4) ctx marshal got loaded raw
    by (simp add: store_put_def run_defs backend_put_working [OF assms(1)] save_index_def Let_def
        ticked_def)
  moreover have "sorted ?index" "distinct ?index" "set ?index = insert a (dom (held k))"
    using index by (simp_all add: insert_absorb)
  note updated = store_ok_update [OF assms(2) conjunct1 [OF valid] this(1,2), of "Some ?raw" ?k' "kc_calls k + 4"]
  have "\<exists>t'. raw_token ?raw = Inr t' \<and> tk_access t' \<noteq> ''''"
    using assms(4) by (simp add: token_json_def put_token_def)
  then have "store_ok ?k'" "held ?k' = (held k)(a \<mapsto> put_token ke k a t)"
    using updated \<open>set ?index = insert a (dom (held k))\<close>
    by (simp_all add: token_json_def put_token_def del: fun_upd_apply)
  ultimately show ?thesis by blast
qed

lemma store_delete_working:
  assumes "working ke" "store_ok k" "normalize_token_alias alias = Inr a"
  shows "\<exists>k'. store_delete ke alias k = (k', Inr (held k a \<noteq> None)) \<and> store_ok k' \<and>
    held k' = (held k)(a := None)"
proof -
  obtain index where index: "stored_index k = Inr index" "sorted index" "distinct index"
    "set index = dom (held k)"
    by (rule store_ok_index [OF assms(2)])
  note valid = normalize_token_alias_Inr [OF assms(3)]
  note ne = alias_not_index [OF conjunct1 [OF valid]]
  have ctx: "ke_context ke = None" using assms(1) by (simp add: working_def)
  let ?k1 = "ticked (k\<lparr>kc_items := (kc_items k)(a := None)\<rparr>)"
  let ?index = "filter (\<lambda>c. c \<noteq> a) index"
  let ?k' = "k\<lparr>kc_items := (kc_items k)(a := None, keychain_index_account \<mapsto> index_json ?index),
    kc_calls := kc_calls k + 3\<rparr>"
  have loaded: "load_repairable_index ke False ?k1 = (ticked ?k1, Inr index)"
    by (rule load_repairable_working [OF assms(1)])
       (use index(1) ne in \<open>simp add: stored_index_def ticked_def\<close>)
  have there: "(held k a \<noteq> None) = (kc_items k a \<noteq> None)"
    using assms(2) valid by (fastforce simp: held_def store_ok_def split: option.splits)
  have "store_delete ke alias k = (?k', Inr (held k a \<noteq> None))"
    using assms(3) ctx loaded unfolding there
    by (simp add: store_delete_def run_defs backend_put_working [OF assms(1)]
        backend_delete_working [OF assms(1)] save_index_def Let_def ticked_def)
  moreover have "store_ok ?k'" "held ?k' = (held k)(a := None)"
    using store_ok_update [OF assms(2), of a ?index None ?k' "kc_calls k + 3"] valid index
    by (auto simp: sorted_filter [of id, simplified])
  ultimately show ?thesis by blast
qed

lemma list_tokens_working:
  assumes "working ke" "store_ok k" "list_all valid_source_alias as"
  shows "\<exists>k'. list_tokens ke as k = (k', Inr (List.map_filter (held k) as)) \<and> held k' = held k \<and> store_ok k'"
  using assms(2,3)
proof (induction as arbitrary: k)
  case Nil
  then show ?case by (auto simp: run_defs)
next
  case (Cons a as)
  have "normalize_token_alias a = Inr a"
    using Cons.prems(2) by (simp add: normalize_token_alias_def normalize_source_alias_fix)
  then have "store_get ke a k = (ticked k, Inr (held k a))"
    by (rule store_get_working [OF assms(1) Cons.prems(1)])
  moreover obtain k' where "list_tokens ke as (ticked k) = (k', Inr (List.map_filter (held (ticked k)) as))"
    "held k' = held (ticked k)" "store_ok k'"
    using Cons.IH [of "ticked k"] Cons.prems by auto
  ultimately show ?case
    by (intro exI [of _ k']) (auto simp: run_defs map_filter_simps split: option.splits)
qed

lemma store_list_working:
  assumes "working ke" "store_ok k"
  shows "\<exists>k' as. store_list ke k = (k', Inr (map (\<lambda>a. the (held k a)) as)) \<and>
    sorted as \<and> distinct as \<and> set as = dom (held k) \<and> held k' = held k \<and> store_ok k'"
proof -
  obtain index where index: "stored_index k = Inr index" "sorted index" "distinct index"
    "set index = dom (held k)"
    by (rule store_ok_index [OF assms(2)])
  have "list_all valid_source_alias index"
    using index(4) by (auto simp: list_all_iff held_def dom_def split: if_splits)
  with list_tokens_working [OF assms(1), of "ticked k" index] assms(2) obtain k' where k':
    "list_tokens ke index (ticked k) = (k', Inr (List.map_filter (held k) index))" "held k' = held k" "store_ok k'"
    by auto
  have "List.map_filter (held k) index = map (\<lambda>a. the (held k a)) index"
    using equalityD1 [OF index(4)] by (induction index) (auto simp: map_filter_simps split: option.splits)
  with k' index show ?thesis
    by (intro exI [of _ k'] exI [of _ index])
       (auto simp: store_list_def run_defs load_index_working [OF assms(1)])
qed



end
