(* ===== verification/BwsResolver.thy ===== *)
theory BwsResolver
  imports Request Identity ErrState
begin

text \<open>
  The Bitwarden resolver: \<open>internal/bwsm/resolver.go\<close>. It reads the token of the source from the
  store and runs the \<open>bws\<close> helper with it. What the system answers is a record; what the resolver
  does to it is a list of effects, in order.
\<close>

section \<open>The helper binary\<close>

text \<open>\<open>exec.Cmd.Output\<close>: the output, a binary that is not found, or stderr and the error's text.\<close>

datatype helper_exit =
    HelperOutput string
  | HelperNotFound
  | HelperFailed string string

datatype bws_effect =
    MadeDir string
  | WroteConfig string string
  | RanHelper string "string list" "string list"
  | RemovedDir string

text \<open>
  \<open>be_object\<close> and \<open>be_objects\<close> are \<open>json.Unmarshal\<close> into one secret object and into a list of them:
  the value of each, None when there is none.
\<close>

record bws_env =
  be_store :: "string \<Rightarrow> err + string option"
  be_binary :: string
  be_common_paths :: "string list option"
  be_files :: file_system
  be_not_exist :: "err \<Rightarrow> bool"
  be_darwin :: bool
  be_verify_path :: "string \<Rightarrow> err + string"
  be_temp_dir :: "err + string"
  be_write_config :: "err option"
  be_run :: "string \<Rightarrow> string list \<Rightarrow> string list \<Rightarrow> helper_exit"
  be_object :: "string \<Rightarrow> err + string option"
  be_objects :: "string \<Rightarrow> err + string option list"

abbreviation bws_unavailable :: err where
  "bws_unavailable \<equiv> Err (BwsErr ErrBWSUnavailable)"

abbreviation bws_output_invalid :: err where
  "bws_output_invalid \<equiv> Err (BwsErr ErrInvalidBWSOutput)"

definition default_common_bws_paths :: "string list" where
  "default_common_bws_paths = [''/opt/homebrew/bin/bws'', ''/usr/local/bin/bws'']"

definition common_binary_paths :: "bws_env \<Rightarrow> string list" where
  "common_binary_paths be =
     (case be_common_paths be of Some ps \<Rightarrow> ps | None \<Rightarrow> default_common_bws_paths)"

definition bitwarden_team_id :: string where
  "bitwarden_team_id = ''LTZ2PFU5D6''"

definition is_bitwarden_signed :: "bws_env \<Rightarrow> string \<Rightarrow> bool" where
  "is_bitwarden_signed be path \<longleftrightarrow> be_darwin be \<and> be_verify_path be path = Inr bitwarden_team_id"

text \<open>\<open>validateTrustedBWSBinary\<close>: None for the result \<open>found = false\<close> without an error.\<close>

definition validate_trusted_bws_binary :: "bws_env \<Rightarrow> string \<Rightarrow> err + string option" where
  "validate_trusted_bws_binary be raw =
     (let path = trim_space raw
      in if path = '''' then Inr None
         else if CHR ''/'' \<notin> set path then Inl bws_unavailable
         else if \<not> is_abs path then Inl bws_unavailable
         else case strict_path (be_files be) path of
                Inl e \<Rightarrow> if be_not_exist be e then Inr None else Inl (Wrap (BwsErr ErrBWSUnavailable) e)
              | Inr resolved \<Rightarrow>
                  (case validate_stable_executable (be_files be) resolved of
                     None \<Rightarrow> Inr (Some resolved)
                   | Some e \<Rightarrow>
                       if \<not> is_bitwarden_signed be resolved then Inl (Wrap (BwsErr ErrBWSUnavailable) e)
                       else Inr (Some resolved)))"

text \<open>The loop over the common paths, with \<open>firstErr\<close>.\<close>

fun first_trusted_binary :: "bws_env \<Rightarrow> string list \<Rightarrow> err option \<Rightarrow> err + string" where
  "first_trusted_binary be [] first_err =
     Inl (case first_err of Some e \<Rightarrow> e | None \<Rightarrow> bws_unavailable)"
| "first_trusted_binary be (candidate # rest) first_err =
     (case validate_trusted_bws_binary be candidate of
        Inr (Some resolved) \<Rightarrow> Inr resolved
      | Inr None \<Rightarrow> first_trusted_binary be rest first_err
      | Inl e \<Rightarrow> first_trusted_binary be rest (if first_err = None then Some e else first_err))"

definition resolve_bws_binary :: "bws_env \<Rightarrow> string \<Rightarrow> string list \<Rightarrow> err + string" where
  "resolve_bws_binary be binary common =
     (if CHR ''/'' \<in> set binary then
        (case validate_trusted_bws_binary be binary of
           Inl e \<Rightarrow> Inl e
         | Inr None \<Rightarrow> Inl bws_unavailable
         | Inr (Some resolved) \<Rightarrow> Inr resolved)
      else if binary \<noteq> ''bws'' then Inl bws_unavailable
      else first_trusted_binary be common None)"

section \<open>Running it\<close>

definition bws_environment :: "string \<Rightarrow> string list" where
  "bws_environment access_token = [''BWS_ACCESS_TOKEN='' @ access_token, ''NO_COLOR=1'']"

definition isolated_config :: string where
  "isolated_config =
     ''[profiles.agent-secret]'' @ [CHR 0x0A] @
     ''server_base = '' @ [CHR 0x22] @ ''https://vault.bitwarden.com'' @ [CHR 0x22, CHR 0x0A] @
     ''state_opt_out = '' @ [CHR 0x22] @ ''true'' @ [CHR 0x22, CHR 0x0A]"

type_synonym 'a bws = "(bws_effect list, 'a) run"

definition acted :: "bws_effect \<Rightarrow> unit bws" where
  "acted e = change (\<lambda>es. es @ [e])"

definition create_isolated_config :: "bws_env \<Rightarrow> (string \<times> string) bws" where
  "create_isolated_config be =
     (case be_temp_dir be of
        Inl e \<Rightarrow> stop_with (Wrap (BwsErr ErrBWSUnavailable) e)
      | Inr dir \<Rightarrow>
          chain (acted (MadeDir dir)) (\<lambda>_.
          let path = path_join [dir, ''config''] in
          case be_write_config be of
            Some e \<Rightarrow> chain (acted (RemovedDir dir)) (\<lambda>_. stop_with (Wrap (BwsErr ErrBWSUnavailable) e))
          | None \<Rightarrow> chain (acted (WroteConfig path isolated_config)) (\<lambda>_. give (dir, path))))"

definition bws_arguments :: "string \<Rightarrow> string \<Rightarrow> string list" where
  "bws_arguments config_path secret_id =
     [''--config-file'', config_path, ''--profile'', ''agent-secret'', ''secret'', ''get'', secret_id,
      ''--output'', ''json'', ''--color'', ''no'']"

definition strip_bws_diagnostic_prefix :: "string \<Rightarrow> string" where
  "strip_bws_diagnostic_prefix line =
     (case cut_byte (CHR '':'') line of
        None \<Rightarrow> line
      | Some (p, m) \<Rightarrow>
          let prefix = trim_space p; message = trim_space m
          in if message = '''' then line
             else if to_lower prefix = ''error'' then message
             else if \<not> list_all is_digit prefix then line
             else message)"

fun first_diagnostic :: "string list \<Rightarrow> string option" where
  "first_diagnostic [] = None"
| "first_diagnostic (raw # rest) =
     (let line = trim_space raw
      in if line = '''' \<or> line = ''Error:'' then first_diagnostic rest
         else if line = ''Location:'' \<or> has_prefix line ''Backtrace '' \<or>
           has_prefix line ''Run with RUST_BACKTRACE='' then None
         else Some (strip_bws_diagnostic_prefix line))"

definition bws_failure_message :: "string \<Rightarrow> string \<Rightarrow> string" where
  "bws_failure_message stderr fallback =
     (case first_diagnostic (split_byte (CHR 0x0A) stderr) of
        Some m \<Rightarrow> m
      | None \<Rightarrow> if trim_space fallback \<noteq> '''' then trim_space fallback else ''unknown error'')"

text \<open>\<open>ExecCommandRunner.Run\<close>: the message of a failed helper is part of the error.\<close>

definition run_helper :: "bws_env \<Rightarrow> string \<Rightarrow> string list \<Rightarrow> string list \<Rightarrow> string bws" where
  "run_helper be binary args environment =
     chain (acted (RanHelper binary args environment)) (\<lambda>_.
       case be_run be binary args environment of
         HelperOutput out \<Rightarrow> give out
       | HelperNotFound \<Rightarrow> stop_with bws_unavailable
       | HelperFailed stderr text \<Rightarrow>
           stop_with (Wrap (BwsErr ErrBWSUnavailable) (Text (bws_failure_message stderr text))))"

definition secret_value_from_output :: "bws_env \<Rightarrow> string \<Rightarrow> err + string" where
  "secret_value_from_output be raw =
     (let output = trim_space raw
      in if output = '''' then Inl bws_output_invalid
         else case be_object be output of
                Inr (Some v) \<Rightarrow> Inr v
              | _ \<Rightarrow>
                  (case be_objects be output of
                     Inl e \<Rightarrow> Inl bws_output_invalid
                   | Inr values \<Rightarrow>
                       (case values of
                          [Some v] \<Rightarrow> Inr v
                        | [None] \<Rightarrow> Inl bws_output_invalid
                        | _ \<Rightarrow> Inl bws_output_invalid)))"

text \<open>The alias under which the token of a source is stored.\<close>

definition source_token_alias :: "secret \<Rightarrow> string" where
  "source_token_alias s =
     (let alias = (if bw_alias (se_bitwarden s) = '''' then se_source s else bw_alias (se_bitwarden s))
      in if bw_token_alias (se_bitwarden s) = '''' then alias else bw_token_alias (se_bitwarden s))"

definition check_bws_request :: "secret \<Rightarrow> err option" where
  "check_bws_request s =
     (if rf_provider (se_ref s) \<noteq> provider_bitwarden then Some bws_output_invalid
      else if rf_secret_id (se_ref s) = '''' then Some bws_output_invalid
      else if source_token_alias s = '''' then Some (Err (BwsErr ErrInvalidTokenAlias))
      else if bw_api_url (se_bitwarden s) \<noteq> '''' \<or> bw_identity_url (se_bitwarden s) \<noteq> ''''
        then Some (Err (BwsErr ErrUnsupportedEndpoint))
      else None)"

definition helper_name :: "bws_env \<Rightarrow> string" where
  "helper_name be = (if trim_space (be_binary be) = '''' then ''bws'' else trim_space (be_binary be))"

text \<open>\<open>Resolver.ResolveSecret\<close>; the deferred cleanup runs after the helper, whatever came of it.\<close>

definition resolve_bws_secret :: "bws_env \<Rightarrow> secret \<Rightarrow> string bws" where
  "resolve_bws_secret be s =
     chain (stop_if (check_bws_request s)) (\<lambda>_.
     chain (of_result (be_store be (source_token_alias s))) (\<lambda>found.
     case found of
       None \<Rightarrow> stop_with (Err (BwsErr ErrTokenNotFound))
     | Some access_token \<Rightarrow>
         chain (of_result (resolve_bws_binary be (helper_name be) (common_binary_paths be))) (\<lambda>binary.
         chain (create_isolated_config be) (\<lambda>(dir, config_path).
         handle (chain (run_helper be binary (bws_arguments config_path (rf_secret_id (se_ref s)))
                   (bws_environment access_token)) (\<lambda>out. of_result (secret_value_from_output be out)))
           (\<lambda>r. chain (acted (RemovedDir dir)) (\<lambda>_. of_result r))))))"

section \<open>Provider dispatch\<close>

text \<open>
  \<open>internal/providerresolver/resolver.go\<close>: the resolver of each provider, or nil. A resolver's
  answer has a type of its own.
\<close>

definition unsupported_provider :: err where
  "unsupported_provider = Text ''unsupported secret provider''"

definition dispatch_secret ::
  "(string \<Rightarrow> string \<Rightarrow> 'a) option \<Rightarrow> (secret \<Rightarrow> 'a) option \<Rightarrow> (err \<Rightarrow> 'a) \<Rightarrow> secret \<Rightarrow> 'a" where
  "dispatch_secret one_password bitwarden failed s =
     (if rf_provider (se_ref s) = provider_onepassword then
        (case one_password of
           None \<Rightarrow> failed (Text ''1Password resolver unavailable'')
         | Some resolve \<Rightarrow> resolve (rf_raw (se_ref s)) (se_account s))
      else if rf_provider (se_ref s) = provider_bitwarden then
        (case bitwarden of
           None \<Rightarrow> failed (Text ''bitwarden Secrets Manager resolver unavailable'')
         | Some resolve \<Rightarrow> resolve s)
      else failed unsupported_provider)"

definition dispatch_item ::
  "(item_ref \<Rightarrow> string \<Rightarrow> 'a) option \<Rightarrow> (err \<Rightarrow> 'a) \<Rightarrow> item_ref \<Rightarrow> string \<Rightarrow> 'a" where
  "dispatch_item one_password failed ref account =
     (case one_password of
        None \<Rightarrow> failed (Text ''1Password resolver unavailable'')
      | Some describe \<Rightarrow> describe ref account)"

end
