(* ===== verification/AppPaths.thy ===== *)
theory AppPaths
  imports Paths
begin

text \<open>
  Walking up a path: the loop
  \<open>for current := filepath.Clean(path); current != "." && current != "/"; current = filepath.Dir(current)\<close>
  that \<open>install.go\<close> and \<open>keychain_paths.go\<close> share, as a search for the first directory of a kind.
\<close>

lemma path_dir_fixed:
  assumes "path_dir d = d"
  shows "d = ''.'' \<or> d = ''/''"
proof (rule ccontr)
  assume other: "\<not> (d = ''.'' \<or> d = ''/'')"
  show False
  proof (cases "dropWhile (\<lambda>c. c \<noteq> CHR ''/'') (rev d) = []")
    case True
    then have "path_dir d = path_clean []" by (simp only: path_dir_def True rev.simps)
    with assms other show False by (simp add: path_clean_def is_abs_def has_prefix_def)
  next
    case False
    with path_dir_prefix [of d] obtain q r where d: "d = (q @ ''/'') @ r"
      and pd: "path_dir d = path_clean (q @ ''/'')"
      by (auto simp: path_dir_def)
    have "length (path_dir d) < length (q @ ''/'')"
      using path_clean_slash_shorter [of q] pd assms other by simp
    also have "\<dots> \<le> length d" using d by simp
    finally show False using assms by simp
  qed
qed

function walk_from :: "(string \<Rightarrow> bool) \<Rightarrow> string \<Rightarrow> string option" where
  "walk_from found current =
     (if current = ''.'' \<or> current = ''/'' then None
      else if found current then Some current
      else walk_from found (path_dir current))"
  by pat_completeness auto
termination
  by (relation "measure (\<lambda>(f, d). path_weight d)") (auto intro!: path_dir_weight dest: path_dir_fixed)

declare walk_from.simps [simp del]

definition walk_up :: "(string \<Rightarrow> bool) \<Rightarrow> string \<Rightarrow> string option" where
  "walk_up found path = walk_from found (path_clean path)"

lemma walk_from_Some: "walk_from found d = Some r \<Longrightarrow> found r"
  by (induction found d rule: walk_from.induct)
     (subst (asm) (2) walk_from.simps, auto split: if_splits)

text \<open>\<open>hostAppRoot\<close> and \<open>agentSecretAppRoot\<close>.\<close>

definition host_app_root :: "string \<Rightarrow> string option" where
  "host_app_root path = walk_up (\<lambda>d. path_base d = ''Agent Secret.app'') path"

definition containing_app_bundle :: "string \<Rightarrow> string option" where
  "containing_app_bundle path = walk_up (\<lambda>d. path_ext d = ''.app'') path"

end
