(* ===== verification/Install.thy ===== *)
theory Install
  imports AppPaths Identity AuditLog ErrState
begin

text \<open>
  Installing the command and the skill: \<open>internal/install/install.go\<close>. Both put a symbolic link
  into a directory of the user; what they do to the file system is a list of effects.
\<close>

datatype install_effect =
    MadeDirs string
  | RemovedPath string
  | Linked string string

text \<open>
  \<open>ie_lstat\<close> and \<open>ie_readlink\<close> are what the link's path is when \<open>replaceSymlink\<close> looks at it;
  \<open>Linked target link\<close> is \<open>os.Symlink(target, link)\<close>.
\<close>

record install_env =
  ie_files :: file_system
  ie_home :: "err + string"
  ie_executable :: "err + string"
  ie_lstat :: "string \<Rightarrow> lstat_result"
  ie_readlink :: "string \<Rightarrow> err + string"
  ie_mkdir :: "string \<Rightarrow> err option"
  ie_remove :: "string \<Rightarrow> err option"
  ie_symlink :: "string \<Rightarrow> string \<Rightarrow> err option"

type_synonym 'a installing = "(install_effect list, 'a) run"

definition install_effect :: "err option \<Rightarrow> install_effect \<Rightarrow> unit installing" where
  "install_effect failure e = (case failure of Some x \<Rightarrow> stop_with x | None \<Rightarrow> change (\<lambda>es. es @ [e]))"

section \<open>Temporary locations\<close>

definition transient_location :: "string \<Rightarrow> string option" where
  "transient_location path =
     (let clean = path_clean path
      in if has_prefix clean ''/private/tmp/agent-secret-dmg.'' \<or> has_prefix clean ''/tmp/agent-secret-dmg.''
         then Some ''mounted release verification copy''
         else if has_prefix clean ''/Volumes/'' then Some ''mounted disk image''
         else if contains_sub clean ''/AppTranslocation/'' then Some ''macOS app translocation''
         else None)"

text \<open>\<open>TransientAppLocation\<close>: the path, then what it resolves to.\<close>

definition transient_app_location :: "file_system \<Rightarrow> string \<Rightarrow> string option" where
  "transient_app_location fs path =
     (let clean = path_clean path; resolved = best_effort_path fs path
      in case transient_location clean of
           Some r \<Rightarrow> Some r
         | None \<Rightarrow>
             if resolved \<noteq> '''' \<and> resolved \<noteq> clean then transient_location (path_clean resolved) else None)"

definition reject_transient_target :: "file_system \<Rightarrow> string \<Rightarrow> err option" where
  "reject_transient_target fs path =
     (case host_app_root path of
        None \<Rightarrow> None
      | Some root \<Rightarrow>
          if transient_app_location fs root \<noteq> None then Some (Err (InstallErr ErrTransientAppLocation)) else None)"

section \<open>Targets\<close>

definition check_runnable :: "file_system \<Rightarrow> string \<Rightarrow> err option" where
  "check_runnable fs path =
     (case fs_stat fs path of
        Inl e \<Rightarrow> Some e
      | Inr info \<Rightarrow>
          if fi_is_dir info \<or> \<not> any_exec info then Some (Text ''executable path is not runnable'') else None)"

definition install_path_candidates :: "file_system \<Rightarrow> string \<Rightarrow> string list" where
  "install_path_candidates fs path =
     (case fs_abs fs path of
        Inl e \<Rightarrow> []
      | Inr a \<Rightarrow>
          let clean = path_clean a
          in clean # (case strict_path fs clean of
                        Inl e \<Rightarrow> []
                      | Inr resolved \<Rightarrow> if resolved \<noteq> clean then [resolved] else []))"

definition bundled_cli :: "string \<Rightarrow> string" where
  "bundled_cli app = path_join [app, ''Contents'', ''Resources'', ''bin'', ''agent-secret'']"

definition bundled_cli_for_daemon :: "string \<Rightarrow> string option" where
  "bundled_cli_for_daemon path =
     (case containing_app_bundle path of
        None \<Rightarrow> None
      | Some bundle \<Rightarrow>
          let helpers = path_dir bundle; library = path_dir helpers; contents = path_dir library;
              host = path_dir contents
          in if path_base bundle \<noteq> ''AgentSecretDaemon.app'' then None
             else if path_base helpers \<noteq> ''Helpers'' then None
             else if path_base library \<noteq> ''Library'' then None
             else if path_base contents \<noteq> ''Contents'' then None
             else if path_base host \<noteq> ''Agent Secret.app'' then None
             else Some (bundled_cli host))"

definition bundled_cli_at :: "string \<Rightarrow> string option" where
  "bundled_cli_at clean =
     (case host_app_root clean of
        Some app \<Rightarrow>
          if clean = bundled_cli app then Some (bundled_cli app) else bundled_cli_for_daemon clean
      | None \<Rightarrow> bundled_cli_for_daemon clean)"

text \<open>The first candidate that is, or belongs to, a bundled command.\<close>

fun first_bundled_cli :: "string list \<Rightarrow> string option" where
  "first_bundled_cli [] = None"
| "first_bundled_cli (clean # rest) =
     (case bundled_cli_at clean of Some p \<Rightarrow> Some p | None \<Rightarrow> first_bundled_cli rest)"

definition bundled_cli_install_path :: "file_system \<Rightarrow> string \<Rightarrow> string option" where
  "bundled_cli_install_path fs path = first_bundled_cli (install_path_candidates fs path)"

definition cli_install_target_path :: "file_system \<Rightarrow> string \<Rightarrow> err + string" where
  "cli_install_target_path fs path =
     (case bundled_cli_install_path fs path of
        None \<Rightarrow> strict_path fs path
      | Some bundled \<Rightarrow>
          if check_runnable fs bundled = None then Inr (path_clean bundled)
          else (case (strict_path fs bundled, strict_path fs path) of
                  (Inr b, Inr p) \<Rightarrow> if b = p then Inr (path_clean bundled) else strict_path fs path
                | _ \<Rightarrow> strict_path fs path))"

definition resolve_cli_install_target :: "install_env \<Rightarrow> string \<Rightarrow> err + string" where
  "resolve_cli_install_target ie executable_path =
     (case (if executable_path = '''' then ie_executable ie else Inr executable_path) of
        Inl e \<Rightarrow> Inl e
      | Inr path \<Rightarrow>
          (case cli_install_target_path (ie_files ie) path of
             Inl e \<Rightarrow> Inl e
           | Inr target \<Rightarrow>
               (case reject_transient_target (ie_files ie) target of
                  Some e \<Rightarrow> Inl e
                | None \<Rightarrow> Inr target)))"

section \<open>Replacing a link\<close>

abbreviation refuse_overwrite :: err where
  "refuse_overwrite \<equiv> Err (InstallErr ErrRefuseOverwrite)"

definition should_replace_symlink :: "install_env \<Rightarrow> string \<Rightarrow> string \<Rightarrow> bool \<Rightarrow> err + bool" where
  "should_replace_symlink ie link target force =
     (case ie_readlink ie link of
        Inl e \<Rightarrow> Inl e
      | Inr current \<Rightarrow>
          if current = target then Inr False
          else if \<not> force then Inl refuse_overwrite
          else Inr True)"

definition should_replace_link_path ::
  "install_env \<Rightarrow> string \<Rightarrow> string \<Rightarrow> lstat_info \<Rightarrow> bool \<Rightarrow> err + bool" where
  "should_replace_link_path ie link target info force =
     (if ls_symlink info then should_replace_symlink ie link target force
      else if \<not> force then Inl refuse_overwrite
      else if ls_dir info then Inl refuse_overwrite
      else Inr True)"

definition replace_symlink :: "install_env \<Rightarrow> string \<Rightarrow> string \<Rightarrow> bool \<Rightarrow> unit installing" where
  "replace_symlink ie link target force =
     (case ie_lstat ie link of
        NotExist \<Rightarrow> install_effect (ie_symlink ie target link) (Linked target link)
      | StatFails e \<Rightarrow> stop_with e
      | Found info \<Rightarrow>
          chain (of_result (should_replace_link_path ie link target info force)) (\<lambda>replace.
            if \<not> replace then give ()
            else
              chain (install_effect (ie_remove ie link) (RemovedPath link)) (\<lambda>_.
                install_effect (ie_symlink ie target link) (Linked target link))))"

section \<open>The command\<close>

record cli_options =
  cl_bin_dir :: string
  cl_executable :: string
  cl_force :: bool

definition default_bin_dir :: "install_env \<Rightarrow> err + string" where
  "default_bin_dir ie = map_sum id (\<lambda>h. path_join [h, ''.local'', ''bin'']) (ie_home ie)"

definition default_skills_dir :: "install_env \<Rightarrow> err + string" where
  "default_skills_dir ie = map_sum id (\<lambda>h. path_join [h, ''.agents'', ''skills'']) (ie_home ie)"

text \<open>The result is the link's path and its target.\<close>

definition install_cli :: "install_env \<Rightarrow> cli_options \<Rightarrow> (string \<times> string) installing" where
  "install_cli ie opts =
     chain (of_result (if cl_bin_dir opts = '''' then default_bin_dir ie else Inr (cl_bin_dir opts))) (\<lambda>dir.
     chain (of_result (resolve_cli_install_target ie (cl_executable opts))) (\<lambda>target.
     chain (stop_if (check_runnable (ie_files ie) target)) (\<lambda>_.
     chain (install_effect (ie_mkdir ie dir) (MadeDirs dir)) (\<lambda>_.
     let link = path_join [dir, ''agent-secret''] in
     chain (replace_symlink ie link target (cl_force opts)) (\<lambda>_. give (link, target))))))"

section \<open>The skill\<close>

definition validate_skill_dir :: "file_system \<Rightarrow> string \<Rightarrow> err option" where
  "validate_skill_dir fs path =
     (case fs_stat fs path of
        Inl e \<Rightarrow> Some e
      | Inr info \<Rightarrow>
          if \<not> fi_is_dir info then Some (Text ''skill path is not a directory'')
          else case fs_stat fs (path_join [path, ''SKILL.md'']) of
                 Inl e \<Rightarrow> Some e
               | Inr file \<Rightarrow> if fi_is_dir file then Some (Text ''skill file is a directory'') else None)"

definition skill_candidates_of :: "string \<Rightarrow> string list" where
  "skill_candidates_of exe =
     map path_clean
       ((case host_app_root exe of
           None \<Rightarrow> []
         | Some app \<Rightarrow> [path_join [app, ''Contents'', ''Resources'', ''skills'', ''agent-secret'']]) @
        [path_join [path_dir exe, ''..'', ''skills'', ''agent-secret'']])"

definition append_candidate :: "string \<Rightarrow> string list \<Rightarrow> string list" where
  "append_candidate c cs = (if c \<in> set cs then cs else cs @ [c])"

definition bundled_skill_candidates :: "string list \<Rightarrow> string list" where
  "bundled_skill_candidates exes = fold append_candidate (concat (map skill_candidates_of exes)) []"

fun first_skill :: "file_system \<Rightarrow> string list \<Rightarrow> err list \<Rightarrow> err + string" where
  "first_skill fs [] errs = Inl (Joined errs)"
| "first_skill fs (c # rest) errs =
     (case validate_skill_dir fs c of
        None \<Rightarrow> strict_path fs c
      | Some e \<Rightarrow> first_skill fs rest (errs @ [e]))"

definition bundled_skill_path :: "install_env \<Rightarrow> string \<Rightarrow> err + string" where
  "bundled_skill_path ie executable_path =
     (case (if executable_path = '''' then ie_executable ie else Inr executable_path) of
        Inl e \<Rightarrow> Inl e
      | Inr exe \<Rightarrow>
          let resolved = (case strict_path (ie_files ie) exe of Inl e \<Rightarrow> [] | Inr r \<Rightarrow> [r])
          in first_skill (ie_files ie) (bundled_skill_candidates (exe # resolved)) [])"

record skill_options =
  sl_dir :: string
  sl_source :: string
  sl_executable :: string
  sl_force :: bool

definition install_skill :: "install_env \<Rightarrow> skill_options \<Rightarrow> (string \<times> string) installing" where
  "install_skill ie opts =
     chain (of_result (if sl_dir opts = '''' then default_skills_dir ie else Inr (sl_dir opts))) (\<lambda>dir.
     chain (of_result (if sl_source opts = '''' then bundled_skill_path ie (sl_executable opts)
                       else Inr (sl_source opts))) (\<lambda>raw.
     chain (of_result (strict_path (ie_files ie) raw)) (\<lambda>source.
     chain (stop_if (validate_skill_dir (ie_files ie) source)) (\<lambda>_.
     chain (install_effect (ie_mkdir ie dir) (MadeDirs dir)) (\<lambda>_.
     let link = path_join [dir, ''agent-secret''] in
     chain (replace_symlink ie link source (sl_force opts)) (\<lambda>_. give (link, source)))))))"

end
