(* ===== verification/SocketDirectory.thy ===== *)
theory SocketDirectory
  imports AuditLog ErrState
begin

text \<open>
  The daemon's Unix socket: \<open>internal/daemon/socket/socket.go\<close>. Each call that changes the file
  system is an effect, and the file system that the checks see is one per number of effects before,
  sd that it may change by the calls, or by others, in between.
\<close>

datatype socket_effect =
    MkdirAll string
  | ChmodPath string "32 word"
  | RemovedSocket string
  | ListenedOn string
  | ClosedListener

text \<open>
  \<open>sd_lstat n\<close> is \<open>os.Lstat\<close> after \<open>n\<close> effects, \<open>sd_is_socket\<close> its \<open>ModeSocket\<close> bit; the others
  are the failures of the calls, and \<open>sd_dial\<close> that of connecting to the socket.
\<close>

record socket_env =
  sd_home :: "err + string"
  sd_uid :: int
  sd_lstat :: "nat \<Rightarrow> string \<Rightarrow> lstat_result"
  sd_is_socket :: "nat \<Rightarrow> string \<Rightarrow> bool"
  sd_mkdir :: "string \<Rightarrow> err option"
  sd_chmod :: "string \<Rightarrow> err option"
  sd_dial :: "nat \<Rightarrow> string \<Rightarrow> err option"
  sd_remove :: "string \<Rightarrow> err option"
  sd_listen :: "string \<Rightarrow> err option"

type_synonym 'a on_socket = "(socket_effect list, 'a) run"

definition socket_act :: "err option \<Rightarrow> socket_effect \<Rightarrow> unit on_socket" where
  "socket_act failure e = (case failure of Some x \<Rightarrow> stop_with x | None \<Rightarrow> change (\<lambda>es. es @ [e]))"

definition see :: "socket_env \<Rightarrow> ((string \<Rightarrow> lstat_result) \<Rightarrow> err option) \<Rightarrow> unit on_socket" where
  "see sd check = chain (reading (\<lambda>es. check (sd_lstat sd (length es)))) stop_if"

definition default_socket_path :: "socket_env \<Rightarrow> err + string" where
  "default_socket_path sd =
     map_sum id (\<lambda>h. path_join [h, ''Library'', ''Application Support'', ''agent-secret'', ''agent-secretd.sock''])
       (sd_home sd)"

section \<open>The directory\<close>

abbreviation insecure_socket :: err where
  "insecure_socket \<equiv> Err (SocketErr ErrInsecureSocketDirectory)"

definition allowed_socket_root_alias :: "string \<Rightarrow> bool" where
  "allowed_socket_root_alias p \<longleftrightarrow> p = ''/etc'' \<or> p = ''/tmp'' \<or> p = ''/var''"

definition socket_ancestor_info :: "string \<Rightarrow> lstat_info \<Rightarrow> err option" where
  "socket_ancestor_info current info =
     (if ls_symlink info then (if allowed_socket_root_alias current then None else Some insecure_socket)
      else if \<not> ls_dir info then Some insecure_socket
      else None)"

function socket_ancestry_loop :: "(string \<Rightarrow> lstat_result) \<Rightarrow> string \<Rightarrow> err option" where
  "socket_ancestry_loop lstat current =
     or_else (case lstat current of
                StatFails e \<Rightarrow> Some e
              | NotExist \<Rightarrow> None
              | Found info \<Rightarrow> socket_ancestor_info current info)
       (let parent = path_dir current
        in if parent = current then None else socket_ancestry_loop lstat parent)"
  by pat_completeness auto
termination
  by (relation "measure (\<lambda>(l, d). path_weight d)") (auto simp: path_dir_weight)

declare socket_ancestry_loop.simps [simp del]

definition reject_socket_ancestry :: "string \<Rightarrow> (string \<Rightarrow> lstat_result) \<Rightarrow> err option" where
  "reject_socket_ancestry dir lstat = socket_ancestry_loop lstat (path_clean dir)"

text \<open>\<open>socketDirectoryInfo\<close>: None for the result when the directory does not exist.\<close>

definition socket_directory_info ::
  "int \<Rightarrow> string \<Rightarrow> (string \<Rightarrow> lstat_result) \<Rightarrow> err + lstat_info option" where
  "socket_directory_info uid dir lstat =
     (case lstat dir of
        NotExist \<Rightarrow> Inr None
      | StatFails e \<Rightarrow> Inl e
      | Found info \<Rightarrow>
          if ls_symlink info then Inl insecure_socket
          else if \<not> ls_dir info then Inl insecure_socket
          else if \<not> owner_ok uid info then Inl insecure_socket
          else Inr (Some info))"

definition reject_symlink_or_owner :: "int \<Rightarrow> string \<Rightarrow> (string \<Rightarrow> lstat_result) \<Rightarrow> err option" where
  "reject_symlink_or_owner uid dir lstat =
     (case socket_directory_info uid dir lstat of Inl e \<Rightarrow> Some e | Inr i \<Rightarrow> None)"

definition reject_insecure_socket_directory ::
  "int \<Rightarrow> string \<Rightarrow> (string \<Rightarrow> lstat_result) \<Rightarrow> err option" where
  "reject_insecure_socket_directory uid dir lstat =
     or_else (reject_socket_ancestry dir lstat)
     (case socket_directory_info uid dir lstat of
        Inl e \<Rightarrow> Some e
      | Inr None \<Rightarrow> Some (Text ''stat socket directory'')
      | Inr (Some info) \<Rightarrow>
          if and (ls_perm info) 0x3F \<noteq> 0 then Some insecure_socket else None)"

definition prepare_default_socket_directory :: "socket_env \<Rightarrow> string \<Rightarrow> unit on_socket" where
  "prepare_default_socket_directory sd dir =
     chain (see sd (reject_socket_ancestry dir)) (\<lambda>_.
     chain (see sd (reject_symlink_or_owner (sd_uid sd) dir)) (\<lambda>_.
     chain (socket_act (sd_mkdir sd dir) (MkdirAll dir)) (\<lambda>_.
     chain (see sd (reject_socket_ancestry dir)) (\<lambda>_.
     chain (see sd (reject_symlink_or_owner (sd_uid sd) dir)) (\<lambda>_.
     chain (socket_act (sd_chmod sd dir) (ChmodPath dir 0x1C0)) (\<lambda>_.
       see sd (reject_insecure_socket_directory (sd_uid sd) dir)))))))"

definition prepare_custom_socket_directory :: "socket_env \<Rightarrow> string \<Rightarrow> unit on_socket" where
  "prepare_custom_socket_directory sd dir =
     chain (see sd (reject_socket_ancestry dir)) (\<lambda>_.
     chain (socket_act (sd_mkdir sd dir) (MkdirAll dir)) (\<lambda>_.
       see sd (reject_insecure_socket_directory (sd_uid sd) dir)))"

definition is_default_socket :: "socket_env \<Rightarrow> string \<Rightarrow> bool" where
  "is_default_socket sd path \<longleftrightarrow>
     (case default_socket_path sd of Inl e \<Rightarrow> False | Inr d \<Rightarrow> path_clean path = path_clean d)"

definition prepare_socket_directory :: "socket_env \<Rightarrow> string \<Rightarrow> unit on_socket" where
  "prepare_socket_directory sd path =
     (if is_default_socket sd path then prepare_default_socket_directory sd (path_dir path)
      else prepare_custom_socket_directory sd (path_dir path))"

definition validate_socket_directory :: "int \<Rightarrow> (string \<Rightarrow> lstat_result) \<Rightarrow> string \<Rightarrow> err option" where
  "validate_socket_directory uid lstat path = reject_insecure_socket_directory uid (path_dir path) lstat"

section \<open>A stale socket\<close>

definition cleanup_stale :: "socket_env \<Rightarrow> string \<Rightarrow> unit on_socket" where
  "cleanup_stale sd path =
     chain (reading (\<lambda>es. (sd_lstat sd (length es) path, sd_is_socket sd (length es) path,
              sd_dial sd (length es) path))) (\<lambda>(found, is_socket, dial).
       case found of
         NotExist \<Rightarrow> give ()
       | StatFails e \<Rightarrow> stop_with e
       | Found info \<Rightarrow>
           if \<not> is_socket then stop_with (Text ''refusing to remove non-socket path'')
           else if dial = None then stop_with (Text ''daemon already listening'')
           else socket_act (sd_remove sd path) (RemovedSocket path))"

definition listen_unix :: "socket_env \<Rightarrow> string \<Rightarrow> unit on_socket" where
  "listen_unix sd path =
     chain (prepare_socket_directory sd path) (\<lambda>_.
     chain (cleanup_stale sd path) (\<lambda>_.
     chain (socket_act (sd_listen sd path) (ListenedOn path)) (\<lambda>_.
       case sd_chmod sd path of
         Some e \<Rightarrow> chain (socket_act None ClosedListener) (\<lambda>_. stop_with e)
       | None \<Rightarrow> socket_act None (ChmodPath path 0x180))))"

text \<open>\<open>Dial\<close>: the connection, or the error of the dialer.\<close>

definition socket_dial :: "err + 'c option \<Rightarrow> err + 'c" where
  "socket_dial outcome =
     (case outcome of
        Inl e \<Rightarrow> Inl (Wrap (ControlErr ErrDaemonUnavailable) e)
      | Inr None \<Rightarrow> Inl (Text ''daemon socket did not return unix connection'')
      | Inr (Some conn) \<Rightarrow> Inr conn)"

section \<open>What is accepted\<close>

definition plain_socket_ancestor :: "(string \<Rightarrow> lstat_result) \<Rightarrow> string \<Rightarrow> bool" where
  "plain_socket_ancestor lstat d \<longleftrightarrow>
     (case lstat d of
        NotExist \<Rightarrow> True
      | StatFails e \<Rightarrow> False
      | Found info \<Rightarrow> if ls_symlink info then allowed_socket_root_alias d else ls_dir info)"

lemma socket_ancestry_plain:
  "socket_ancestry_loop lstat d = None \<longleftrightarrow>
     plain_socket_ancestor lstat d \<and>
     (path_dir d \<noteq> d \<longrightarrow> socket_ancestry_loop lstat (path_dir d) = None)"
  by (subst socket_ancestry_loop.simps)
    (auto simp: plain_socket_ancestor_def socket_ancestor_info_def Let_def split: lstat_result.splits)

end
