(* ===== verification/PeerInspect.thy ===== *)
theory PeerInspect
  imports Identity
begin

text \<open>
  What the kernel says of a peer: \<open>internal/peercred/peercred.go\<close> and \<open>peercred_darwin.go\<close>. The C
  calls are the functions of \<open>peer_kernel\<close>. The walk over the ancestors of a process reads each of
  them at its own time, so the kernel is one per step.
\<close>

record bsd_info =
  bi_uid :: int
  bi_gid :: int
  bi_parent :: int
  bi_start :: go_time

record peer_kernel =
  pk_peer_ids :: "err + int \<times> int"
  pk_peer_cred :: "err + int \<times> int"
  pk_peer_pid :: "err + int"
  pk_exe :: "int \<Rightarrow> err + string"
  pk_cwd :: "int \<Rightarrow> err + string"
  pk_info :: "int \<Rightarrow> err + bsd_info"

definition inspect_fd :: "peer_kernel \<Rightarrow> err + peer_info" where
  "inspect_fd k =
     (case pk_peer_ids k of
        Inl e \<Rightarrow> Inl e
      | Inr (uid, gid) \<Rightarrow>
          (case pk_peer_cred k of
             Inl e \<Rightarrow> Inl e
           | Inr (cred_uid, cred_gid) \<Rightarrow>
               if cred_uid \<noteq> uid \<or> cred_gid \<noteq> gid then Inl (Err (PeerErr ErrMissingMetadata))
               else case pk_peer_pid k of
                      Inl e \<Rightarrow> Inl e
                    | Inr pid \<Rightarrow>
                        (case pk_exe k pid of
                           Inl e \<Rightarrow> Inl e
                         | Inr exe \<Rightarrow>
                             (case pk_cwd k pid of
                                Inl e \<Rightarrow> Inl e
                              | Inr cwd \<Rightarrow>
                                  Inr \<lparr>pi_uid = uid, pi_gid = gid, pi_pid = pid, pi_exe = exe,
                                       pi_cwd = cwd\<rparr>))))"

text \<open>\<open>Inspect\<close>: no connection, the failures of \<open>SyscallConn\<close> and \<open>Control\<close>, then the kernel.\<close>

definition inspect_peer :: "bool \<Rightarrow> err option \<Rightarrow> err option \<Rightarrow> (err + peer_info) \<Rightarrow> err + peer_info" where
  "inspect_peer nil raw_fails control_fails inspected =
     (if nil then Inl (Text ''unix connection is required'')
      else case raw_fails of
             Some e \<Rightarrow> Inl e
           | None \<Rightarrow>
               (case control_fails of
                  Some e \<Rightarrow> Inl e
                | None \<Rightarrow>
                    (case inspected of
                       Inl e \<Rightarrow> Inl e
                     | Inr info \<Rightarrow>
                         (case require_complete info of Some e \<Rightarrow> Inl e | None \<Rightarrow> Inr info))))"

definition current_expected ::
  "err + string \<Rightarrow> err + string \<Rightarrow> int \<Rightarrow> int \<Rightarrow> int \<Rightarrow> err + expected_peer" where
  "current_expected executable getwd uid gid pid =
     (case executable of
        Inl e \<Rightarrow> Inl e
      | Inr exe \<Rightarrow>
          (case getwd of
             Inl e \<Rightarrow> Inl e
           | Inr cwd \<Rightarrow>
               Inr \<lparr>ep_uid = uid, ep_gid = gid, ep_pid = pid, ep_exe = exe, ep_cwd = cwd\<rparr>))"

definition inspect_process :: "peer_kernel \<Rightarrow> int \<Rightarrow> err + process_identity" where
  "inspect_process k pid =
     (case pk_info k pid of
        Inl e \<Rightarrow> Inl e
      | Inr info \<Rightarrow>
          (case pk_exe k pid of
             Inl e \<Rightarrow> Inl e
           | Inr exe \<Rightarrow>
               Inr \<lparr>pr_uid = bi_uid info, pr_gid = bi_gid info, pr_pid = pid,
                    pr_parent_pid = bi_parent info, pr_exe = exe, pr_start_time = bi_start info\<rparr>))"

text \<open>
  The loop of \<open>processAncestry\<close>: how many rounds are left, the processes seen, the current one and
  the ancestry so far, which is returned with an error as well. The kernel is that of the round.
\<close>

fun ancestry_loop ::
  "(nat \<Rightarrow> peer_kernel) \<Rightarrow> nat \<Rightarrow> int list \<Rightarrow> int \<Rightarrow> process_identity list \<Rightarrow>
   process_identity list \<times> err option" where
  "ancestry_loop ks 0 seen current acc = (acc, None)"
| "ancestry_loop ks (Suc n) seen current acc =
     (if current \<le> 0 \<or> current \<in> set seen then (acc, None)
      else case inspect_process (ks (length acc)) current of
             Inl e \<Rightarrow> (acc, Some e)
           | Inr p \<Rightarrow>
               let acc' = acc @ [p]
               in if pr_parent_pid p \<le> 1 \<or> pr_parent_pid p = pr_pid p then (acc', None)
                  else ancestry_loop ks n (current # seen) (pr_parent_pid p) acc')"

definition max_ancestry_depth :: nat where
  "max_ancestry_depth = 64"

definition process_ancestry :: "(nat \<Rightarrow> peer_kernel) \<Rightarrow> int \<Rightarrow> process_identity list \<times> err option" where
  "process_ancestry ks pid =
     (if pid \<le> 0 then ([], Some (Err (PeerErr ErrMissingMetadata)))
      else ancestry_loop ks max_ancestry_depth [] pid [])"

text \<open>\<open>peercred_unsupported.go\<close>.\<close>

definition unsupported_ancestry :: "process_identity list \<times> err option" where
  "unsupported_ancestry = ([], Some (Err (PeerErr ErrUnsupportedOS)))"

section \<open>The ancestry is a chain\<close>

text \<open>Each process is the parent of the one before it, and no process is there twice.\<close>

fun parent_chain :: "process_identity list \<Rightarrow> bool" where
  "parent_chain [] \<longleftrightarrow> True"
| "parent_chain [p] \<longleftrightarrow> True"
| "parent_chain (p # q # ps) \<longleftrightarrow> pr_parent_pid p = pr_pid q \<and> parent_chain (q # ps)"

lemma parent_chain_snoc:
  "parent_chain (ps @ [p]) \<longleftrightarrow>
     parent_chain ps \<and> (ps \<noteq> [] \<longrightarrow> pr_parent_pid (last ps) = pr_pid p)"
  by (induction ps rule: parent_chain.induct) auto

lemma inspect_process_pid: "inspect_process k pid = Inr p \<Longrightarrow> pr_pid p = pid"
  by (auto simp: inspect_process_def split: sum.splits)

definition ancestry_ok :: "int \<Rightarrow> process_identity list \<Rightarrow> bool" where
  "ancestry_ok pid ps \<longleftrightarrow>
     parent_chain ps \<and> distinct (map pr_pid ps) \<and> list_all (\<lambda>p. 0 < pr_pid p) ps \<and>
     (ps \<noteq> [] \<longrightarrow> pr_pid (hd ps) = pid)"

lemma ancestry_ok_snoc:
  assumes "ancestry_ok pid ps" "0 < pr_pid p" "pr_pid p \<notin> pr_pid ` set ps"
    and "ps = [] \<Longrightarrow> pr_pid p = pid" "ps \<noteq> [] \<Longrightarrow> pr_parent_pid (last ps) = pr_pid p"
  shows "ancestry_ok pid (ps @ [p])"
  using assms unfolding ancestry_ok_def parent_chain_snoc by (cases ps) auto

lemma ancestry_loop_ok:
  assumes "ancestry_ok pid acc" "set seen = pr_pid ` set acc"
    and "acc = [] \<Longrightarrow> current = pid" "acc \<noteq> [] \<Longrightarrow> pr_parent_pid (last acc) = current"
    and "ancestry_loop ks n seen current acc = (ps, e)"
  shows "ancestry_ok pid ps \<and> length ps \<le> length acc + n"
  using assms
proof (induction ks n seen current acc arbitrary: ps e rule: ancestry_loop.induct)
  case (1 ks seen current acc)
  then show ?case by simp
next
  case (2 ks n seen current acc)
  show ?case
  proof (cases "current \<le> 0 \<or> current \<in> set seen")
    case True
    with 2 show ?thesis by auto
  next
    case False
    show ?thesis
    proof (cases "inspect_process (ks (length acc)) current")
      case (Inl e)
      with 2 False show ?thesis by auto
    next
      case (Inr p)
      have pid: "pr_pid p = current" by (rule inspect_process_pid [OF Inr])
      have ok: "ancestry_ok pid (acc @ [p])"
        by (rule ancestry_ok_snoc) (use 2(2-5) False pid in auto)
      show ?thesis
      proof (cases "pr_parent_pid p \<le> 1 \<or> pr_parent_pid p = pr_pid p")
        case True
        with 2(6) False Inr ok show ?thesis by (auto simp: Let_def)
      next
        case more: False
        have "ancestry_ok pid ps \<and> length ps \<le> length (acc @ [p]) + n"
          by (rule 2(1) [OF False Inr refl more]) (use 2(2-6) False Inr more ok pid in \<open>auto simp: Let_def\<close>)
        then show ?thesis by simp
      qed
    qed
  qed
qed

end
