(* ===== verification/SystemProperties.thy ===== *)
theory SystemProperties
  imports TokenStore BwsResolver Install SocketDirectory PeerInspect
begin

text \<open>
  Properties of the parts that touch the system: the Bitwarden helper and its token store, the
  daemon's socket, the installed links and the ancestry of a process.
\<close>

section \<open>The Bitwarden token\<close>

definition trusted_helper :: "bws_env \<Rightarrow> string \<Rightarrow> bool" where
  "trusted_helper be binary \<longleftrightarrow>
     (\<exists>path. is_abs path \<and> strict_path (be_files be) path = Inr binary) \<and>
     (validate_stable_executable (be_files be) binary = None \<or>
      be_darwin be \<and> be_verify_path be binary = Inr bitwarden_team_id)"

lemma validated_helper_trusted:
  "validate_trusted_bws_binary be raw = Inr (Some binary) \<Longrightarrow> trusted_helper be binary"
  by (auto simp: validate_trusted_bws_binary_def trusted_helper_def is_bitwarden_signed_def Let_def
      split: if_splits sum.splits option.splits)

lemma first_trusted_helper:
  "first_trusted_binary be candidates e = Inr binary \<Longrightarrow> trusted_helper be binary"
  by (induction be candidates e rule: first_trusted_binary.induct)
     (auto split: sum.splits option.splits if_splits dest: validated_helper_trusted)

lemma resolved_helper_trusted:
  "resolve_bws_binary be name common = Inr binary \<Longrightarrow> trusted_helper be binary"
  by (auto simp: resolve_bws_binary_def split: if_splits sum.splits option.splits
      dest: validated_helper_trusted first_trusted_helper)

lemmas bws_run_defs = chain_def handle_def give_def stop_with_def change_def of_result_def stop_if_def
  acted_def

text \<open>A run of the resolver that starts the helper does nothing else but prepare and clear its directory.\<close>

lemma helper_run_trace:
  assumes "resolve_bws_secret be s [] = (effects, r)" "RanHelper binary args environment \<in> set effects"
  obtains dir token where "resolve_bws_binary be (helper_name be) (common_binary_paths be) = Inr binary"
    "be_store be (source_token_alias s) = Inr (Some token)" "environment = bws_environment token"
    "args = bws_arguments (path_join [dir, ''config'']) (rf_secret_id (se_ref s))"
    "effects = [MadeDir dir, WroteConfig (path_join [dir, ''config'']) isolated_config,
       RanHelper binary args environment, RemovedDir dir]"
proof (cases "check_bws_request s")
  case (Some e)
  with assms that show ?thesis by (simp add: resolve_bws_secret_def bws_run_defs)
next
  case ok: None
  show ?thesis
  proof (cases "be_store be (source_token_alias s)")
    case (Inl e)
    with assms ok that show ?thesis by (simp add: resolve_bws_secret_def bws_run_defs)
  next
    case (Inr found)
    then obtain token where token: "be_store be (source_token_alias s) = Inr (Some token)"
      using assms ok by (cases found) (simp_all add: resolve_bws_secret_def bws_run_defs)
    then obtain b where b: "resolve_bws_binary be (helper_name be) (common_binary_paths be) = Inr b"
      using assms ok
      by (cases "resolve_bws_binary be (helper_name be) (common_binary_paths be)")
         (simp_all add: resolve_bws_secret_def bws_run_defs)
    obtain dir where dir: "be_temp_dir be = Inr dir" and written: "be_write_config be = None"
      using assms ok token b
      by (cases "be_temp_dir be"; cases "be_write_config be")
         (auto simp: resolve_bws_secret_def create_isolated_config_def bws_run_defs Let_def)
    have "effects = [MadeDir dir, WroteConfig (path_join [dir, ''config'']) isolated_config,
        RanHelper b (bws_arguments (path_join [dir, ''config'']) (rf_secret_id (se_ref s)))
          (bws_environment token), RemovedDir dir]"
      using assms(1) ok token b dir written
      by (auto simp: resolve_bws_secret_def create_isolated_config_def run_helper_def bws_run_defs Let_def
          split: helper_exit.splits sum.splits)
    with assms(2) token b show ?thesis by (intro that) auto
  qed
qed

text \<open>
C8: The access token leaves the daemon in one way only: in the environment of one run of a helper
  that lies at the resolved form of an absolute path and either cannot be replaced by the user's
  processes or is signed by Bitwarden. The token is the stored one of the secret's source, it is not
  among the arguments, the configuration is the fixed one in a directory of its own, and that
  directory is removed whatever came of the run.
\<close>

theorem token_only_to_trusted_helper:
  assumes "resolve_bws_secret be s [] = (effects, r)" "RanHelper binary args environment \<in> set effects"
  shows "trusted_helper be binary \<and>
    (\<exists>dir token. be_store be (source_token_alias s) = Inr (Some token) \<and>
       environment = [''BWS_ACCESS_TOKEN='' @ token, ''NO_COLOR=1''] \<and>
       args = bws_arguments (path_join [dir, ''config'']) (rf_secret_id (se_ref s)) \<and>
       effects = [MadeDir dir, WroteConfig (path_join [dir, ''config'']) isolated_config,
         RanHelper binary args environment, RemovedDir dir])"
  by (rule helper_run_trace [OF assms])
     (auto simp: bws_environment_def intro: resolved_helper_trusted)

definition plain_info :: "bool \<Rightarrow> file_info" where
  "plain_info dir = \<lparr>fi_is_dir = dir, fi_mode = 0x1ED, fi_size = 1, fi_mod_time = 1,
     fi_sys = Some \<lparr>st_dev = 1, st_ino = 2, st_uid = 0, st_ctime_sec = 3, st_ctime_nsec = 4\<rparr>\<rparr>"

definition helper_files :: file_system where
  "helper_files = \<lparr>fs_stat = (\<lambda>p. Inr (plain_info (p \<noteq> ''/opt/bws''))), fs_eval_symlinks = Inr,
     fs_abs = Inr, fs_euid = 501\<rparr>"

definition helper_env :: bws_env where
  "helper_env = \<lparr>be_store = (\<lambda>a. Inr (Some ''0.tok'')), be_binary = ''bws'', be_common_paths = Some [''/opt/bws''],
     be_files = helper_files, be_not_exist = (\<lambda>e. True), be_darwin = True, be_verify_path = (\<lambda>p. Inr ''''),
     be_temp_dir = Inr ''/tmp/b1'', be_write_config = None, be_run = (\<lambda>b a e. HelperOutput ''{}''),
     be_object = (\<lambda>x. Inr (Some ''hunter2'')), be_objects = (\<lambda>x. Inl (Text ''json''))\<rparr>"

definition bws_secret :: secret where
  "bws_secret = \<lparr>se_alias = ''T'', se_ref = \<lparr>rf_raw = ''bws://ci/id'', rf_provider = provider_bitwarden,
     rf_vault = '''', rf_item = '''', rf_section = '''', rf_field = '''', rf_source = ''ci'', rf_secret_id = ''id''\<rparr>,
     se_account = '''', se_source = ''ci'', se_bitwarden = bitwarden_zero\<rparr>"

definition helper_run :: "bws_effect" where
  "helper_run = RanHelper ''/opt/bws'' (bws_arguments ''/tmp/b1/config'' ''id'') [''BWS_ACCESS_TOKEN=0.tok'', ''NO_COLOR=1'']"

lemma helper_runs:
  "resolve_bws_secret helper_env bws_secret [] =
     ([MadeDir ''/tmp/b1'', WroteConfig ''/tmp/b1/config'' isolated_config, helper_run, RemovedDir ''/tmp/b1''],
      Inr ''hunter2'')"
  by code_simp

theorem token_only_to_trusted_helper_witness: "trusted_helper helper_env ''/opt/bws''"
  using token_only_to_trusted_helper [OF helper_runs] by (auto simp: helper_run_def)

text \<open>
C21: While the Keychain answers, the store is a map from aliases to tokens: \<open>Put\<close> binds the alias to
  the trimmed token and keeps its first creation time, \<open>Delete\<close> removes the binding and says whether
  there was one, \<open>Get\<close> looks the alias up, and \<open>List\<close> returns every token once, in the order of the
  aliases. Each keeps the index, which is one more item of the same Keychain service, in step.
\<close>

theorem token_store_is_map:
  assumes "working ke" "store_ok k" "normalize_token_alias alias = Inr a"
  shows "store_get ke alias k = (ticked k, Inr (held k a)) \<and>
    (\<exists>k'. store_delete ke alias k = (k', Inr (held k a \<noteq> None)) \<and> store_ok k' \<and>
       held k' = (held k)(a := None)) \<and>
    (tk_alias t = alias \<and> trim_space (tk_access t) \<noteq> '''' \<and>
       ke_text ke (trim_space (tk_access t)) = trim_space (tk_access t) \<longrightarrow>
     (\<exists>k'. store_put ke interactive t k = (k', Inr ()) \<and> store_ok k' \<and>
        held k' = (held k)(a \<mapsto> put_token ke k a t))) \<and>
    (\<exists>k' as. store_list ke k = (k', Inr (map (\<lambda>a. the (held k a)) as)) \<and>
       sorted as \<and> distinct as \<and> set as = dom (held k) \<and> held k' = held k \<and> store_ok k')"
  using store_get_working [OF assms] store_delete_working [OF assms] assms
    store_put_working [OF assms(1,2), of t a interactive] store_list_working [OF assms(1,2)]
  by (intro conjI impI) auto

definition working_keychain :: keychain_env where
  "working_keychain = \<lparr>ke_context = None, ke_now = (\<lambda>n. 5 + int n), ke_get_fails = (\<lambda>n a. None),
     ke_put_fails = (\<lambda>n i a. None), ke_delete_fails = (\<lambda>n a. None), ke_text = id, ke_marshal = (\<lambda>t. None)\<rparr>"

definition empty_keychain :: keychain where
  "empty_keychain = \<lparr>kc_items = Map.empty, kc_calls = 0\<rparr>"

lemma empty_keychain_ok: "store_ok empty_keychain"
  by (simp add: store_ok_def empty_keychain_def stored_index_def held_def dom_def)

theorem token_store_is_map_witness:
  "\<exists>k'. store_put working_keychain False \<lparr>tk_alias = '' ci '', tk_access = '' 0.abc '', tk_created = 0,
       tk_updated = 0\<rparr> empty_keychain = (k', Inr ()) \<and>
     held k' ''ci'' = Some \<lparr>tk_alias = ''ci'', tk_access = ''0.abc'', tk_created = 5, tk_updated = 6\<rparr>"
proof -
  have w: "working working_keychain" by (simp add: working_def working_keychain_def)
  have a: "normalize_token_alias '' ci '' = Inr ''ci''" by code_simp
  have t: "trim_space '' 0.abc '' = ''0.abc''" by code_simp
  have "held empty_keychain ''ci'' = None" by (simp add: held_def empty_keychain_def)
  then show ?thesis
    using token_store_is_map [OF w empty_keychain_ok a, of "\<lparr>tk_alias = '' ci '', tk_access = '' 0.abc '',
        tk_created = 0, tk_updated = 0\<rparr>" False] t
    by (auto simp: put_token_def created_at_def working_keychain_def)
qed

section \<open>The ancestry of a process\<close>

text \<open>
C32: Whatever the kernel answers, also when it answers differently while the ancestors are read, the
  ancestry of a process has at most 64 entries, starts with the process itself, names no process
  twice, and each entry is the parent of the one before it; with an error it is the part read so far.
\<close>

theorem ancestry_bounded_chain:
  assumes "process_ancestry ks pid = (ps, e)"
  shows "length ps \<le> 64 \<and> distinct (map pr_pid ps) \<and> parent_chain ps \<and>
    list_all (\<lambda>p. 0 < pr_pid p) ps \<and> (ps \<noteq> [] \<longrightarrow> pr_pid (hd ps) = pid)"
proof (cases "pid \<le> 0")
  case True
  with assms show ?thesis by (simp add: process_ancestry_def)
next
  case False
  with assms have "ancestry_loop ks 64 [] pid [] = (ps, e)"
    by (simp add: process_ancestry_def max_ancestry_depth_def)
  moreover have "ancestry_ok pid []" by (simp add: ancestry_ok_def)
  ultimately have "ancestry_ok pid ps \<and> length ps \<le> length ([] :: process_identity list) + 64"
    by (intro ancestry_loop_ok [of pid "[]" "[]" pid ks]) simp_all
  then show ?thesis by (simp add: ancestry_ok_def)
qed

definition two_processes :: peer_kernel where
  "two_processes = \<lparr>pk_peer_ids = Inr (501, 20), pk_peer_cred = Inr (501, 20), pk_peer_pid = Inr 40,
     pk_exe = (\<lambda>p. Inr (if p = 40 then ''/bin/zsh'' else ''/bin/login'')), pk_cwd = (\<lambda>p. Inr ''/''),
     pk_info = (\<lambda>p. Inr \<lparr>bi_uid = 501, bi_gid = 20, bi_parent = (if p = 40 then 7 else 1), bi_start = 9\<rparr>)\<rparr>"

lemma two_processes_ancestry:
  "process_ancestry (\<lambda>n. two_processes) 40 =
     ([\<lparr>pr_uid = 501, pr_gid = 20, pr_pid = 40, pr_parent_pid = 7, pr_exe = ''/bin/zsh'', pr_start_time = 9\<rparr>,
       \<lparr>pr_uid = 501, pr_gid = 20, pr_pid = 7, pr_parent_pid = 1, pr_exe = ''/bin/login'', pr_start_time = 9\<rparr>],
      None)"
  by code_simp

theorem ancestry_bounded_chain_witness:
  "\<exists>ps. process_ancestry (\<lambda>n. two_processes) 40 = (ps, None) \<and> length ps = 2 \<and> distinct (map pr_pid ps)"
  using ancestry_bounded_chain [OF two_processes_ancestry] two_processes_ancestry by auto


section \<open>The daemon's socket\<close>

lemmas socket_run_defs = chain_def handle_def give_def stop_with_def change_def reading_def stop_if_def
  see_def socket_act_def

definition private_directory :: "int \<Rightarrow> string list \<Rightarrow> (string \<Rightarrow> lstat_result) \<Rightarrow> bool" where
  "private_directory uid ps lstat \<longleftrightarrow>
     (\<exists>info. lstat (abs_path ps) = Found info \<and> \<not> ls_symlink info \<and> ls_dir info \<and> owner_ok uid info \<and>
        and (ls_perm info) 0x3F = 0) \<and>
     (\<forall>n \<le> length ps. plain_socket_ancestor lstat (abs_path (take n ps)))"

lemma socket_ancestry_abs_path:
  "list_all clean_elem ps \<Longrightarrow>
     socket_ancestry_loop lstat (abs_path ps) = None \<longleftrightarrow>
       (\<forall>n \<le> length ps. plain_socket_ancestor lstat (abs_path (take n ps)))"
proof (induction ps rule: rev_induct)
  case Nil
  then show ?case by (subst socket_ancestry_plain) (simp add: path_dir_root)
next
  case (snoc p ps)
  have pd: "path_dir (abs_path (ps @ [p])) = abs_path ps"
    by (rule path_dir_abs_path) (rule snoc.prems)
  have ne: "abs_path ps \<noteq> abs_path (ps @ [p])"
    using snoc.prems abs_path_snoc_neq [of ps p] by auto
  have split: "(\<forall>n \<le> length (ps @ [p]). plain_socket_ancestor lstat (abs_path (take n (ps @ [p])))) \<longleftrightarrow>
      plain_socket_ancestor lstat (abs_path (ps @ [p])) \<and>
      (\<forall>n \<le> length ps. plain_socket_ancestor lstat (abs_path (take n ps)))"
    by (auto simp: le_Suc_eq)
  show ?case
    unfolding split by (subst socket_ancestry_plain) (use snoc ne in \<open>simp add: pd\<close>)
qed

lemma accepted_directory_private:
  assumes "reject_insecure_socket_directory uid (abs_path ps) lstat = None" "list_all clean_elem ps"
  shows "private_directory uid ps lstat"
  using assms socket_ancestry_abs_path [OF assms(2), of lstat]
  by (auto simp: reject_insecure_socket_directory_def reject_socket_ancestry_def private_directory_def
      socket_directory_info_def path_clean_abs_path split: lstat_result.splits if_splits)

text \<open>The preparation ends with the check, on the file system as it is then.\<close>

lemma prepared_directory:
  assumes "prepare_socket_directory sd path es = (es', Inr u)"
  shows "reject_insecure_socket_directory (sd_uid sd) (path_dir path) (sd_lstat sd (length es')) = None \<and>
    es' \<in> {es @ [MkdirAll (path_dir path)],
      es @ [MkdirAll (path_dir path), ChmodPath (path_dir path) 0x1C0]}"
  using assms
  by (auto simp: prepare_socket_directory_def prepare_default_socket_directory_def
      prepare_custom_socket_directory_def socket_run_defs split: if_splits option.splits prod.splits sum.splits)

lemma cleanup_stale_effects:
  assumes "cleanup_stale sd path es = (es', r)"
  shows "es' = es \<or> es' = es @ [RemovedSocket path] \<and> sd_is_socket sd (length es) path \<and>
    sd_dial sd (length es) path \<noteq> None"
  using assms
  by (auto simp: cleanup_stale_def socket_run_defs split: lstat_result.splits if_splits option.splits)

text \<open>Whatever comes of the preparation, it makes or restricts the directory and nothing else.\<close>

lemma preparing_effects:
  assumes "prepare_socket_directory sd path [] = (es, r)"
  shows "set es \<subseteq> {MkdirAll (path_dir path), ChmodPath (path_dir path) 0x1C0}"
  using assms
  by (auto simp: prepare_socket_directory_def prepare_default_socket_directory_def
      prepare_custom_socket_directory_def socket_run_defs split: if_splits option.splits prod.splits sum.splits)

lemma listening_effects:
  assumes "chain (socket_act (sd_listen sd path) (ListenedOn path)) (\<lambda>_.
      case sd_chmod sd path of
        Some e \<Rightarrow> chain (socket_act None ClosedListener) (\<lambda>_. stop_with e)
      | None \<Rightarrow> socket_act None (ChmodPath path 0x180)) es = (es', r)"
  shows "\<exists>rest. es' = es @ rest \<and>
    rest \<in> {[], [ListenedOn path, ClosedListener], [ListenedOn path, ChmodPath path 0x180]} \<and>
    (\<not> isl r \<longrightarrow> rest = [ListenedOn path, ChmodPath path 0x180])"
  using assms by (auto simp: socket_run_defs split: option.splits)

text \<open>
C23: Whether or not the daemon comes to listen: it first only makes and restricts the directory of the
  socket; it goes on only when that directory, as it was checked last, belonged to the user, was no
  symbolic link, gave nobody else any access, and had no symbolic link among its ancestors but the
  system's aliases in the root. The one thing it may remove is the path of its own socket, at most
  once, and only when a socket is there that nobody answers on; it listens, if at all, on that path.
  When it succeeds the socket is restricted to the user.
\<close>

theorem daemon_socket_private:
  assumes "listen_unix sd path [] = (es, res)" "path_dir path = abs_path ps" "list_all clean_elem ps"
  shows "\<exists>n rest. set (take n es) \<subseteq> {MkdirAll (abs_path ps), ChmodPath (abs_path ps) 0x1C0} \<and>
    rest \<in> {[], [ListenedOn path, ClosedListener], [ListenedOn path, ChmodPath path 0x180]} \<and>
    (drop n es = rest \<or>
     drop n es = RemovedSocket path # rest \<and> sd_is_socket sd n path \<and> sd_dial sd n path \<noteq> None) \<and>
    (drop n es \<noteq> [] \<longrightarrow> private_directory (sd_uid sd) ps (sd_lstat sd n)) \<and>
    (\<not> isl res \<longrightarrow> rest = [ListenedOn path, ChmodPath path 0x180])"
proof -
  obtain es1 r1 where prepared: "prepare_socket_directory sd path [] = (es1, r1)" by fastforce
  have own: "set es1 \<subseteq> {MkdirAll (abs_path ps), ChmodPath (abs_path ps) 0x1C0}"
    using preparing_effects [OF prepared] assms(2) by simp
  show ?thesis
  proof (cases r1)
    case (Inl e)
    with assms(1) prepared have "es = es1 \<and> isl res" by (auto simp: listen_unix_def chain_def)
    with own show ?thesis by (intro exI [of _ "length es"] exI [of _ "[]"]) auto
  next
    case (Inr u)
    with prepared have p: "prepare_socket_directory sd path [] = (es1, Inr ())" by simp
    have priv: "private_directory (sd_uid sd) ps (sd_lstat sd (length es1))"
      using prepared_directory [OF p] assms(2,3) by (auto intro: accepted_directory_private)
    obtain es2 r2 where cleaned: "cleanup_stale sd path es1 = (es2, r2)" by fastforce
    note stale = cleanup_stale_effects [OF cleaned]
    show ?thesis
    proof (cases r2)
      case (Inl e)
      with assms(1) p cleaned have "es = es2 \<and> isl res" by (auto simp: listen_unix_def chain_def)
      with own priv stale show ?thesis
        by (intro exI [of _ "length es1"] exI [of _ "[]"]) auto
    next
      case (Inr v)
      from assms(1) p cleaned Inr listening_effects [of sd path es2 es res] obtain rest where
        rest: "es = es2 @ rest" "rest \<in> {[], [ListenedOn path, ClosedListener], [ListenedOn path, ChmodPath path 0x180]}"
          "\<not> isl res \<longrightarrow> rest = [ListenedOn path, ChmodPath path 0x180]"
        by (auto simp: listen_unix_def chain_def [of "prepare_socket_directory sd path"]
            chain_def [of "cleanup_stale sd path"])
      with own priv stale show ?thesis
        by (intro exI [of _ "length es1"] exI [of _ rest]) auto
    qed
  qed
qed

definition private_info :: lstat_info where
  "private_info = \<lparr>ls_symlink = False, ls_dir = True, ls_regular = False, ls_perm = 0x1C0, ls_uid = Some 501\<rparr>"

definition stale_socket :: socket_env where
  "stale_socket = \<lparr>sd_home = Inr ''/home'', sd_uid = 501, sd_lstat = (\<lambda>n p. Found private_info),
     sd_is_socket = (\<lambda>n p. True), sd_mkdir = (\<lambda>d. None), sd_chmod = (\<lambda>p. None),
     sd_dial = (\<lambda>n p. Some (Text ''connection refused'')), sd_remove = (\<lambda>p. None), sd_listen = (\<lambda>p. None)\<rparr>"

lemma stale_socket_replaced:
  "listen_unix stale_socket ''/run/d.sock'' [] =
     ([MkdirAll ''/run'', RemovedSocket ''/run/d.sock'', ListenedOn ''/run/d.sock'',
       ChmodPath ''/run/d.sock'' 0x180], Inr ())"
  by code_simp

lemma stale_socket_dir: "path_dir ''/run/d.sock'' = abs_path [''run'']" "list_all clean_elem [''run'']"
  by code_simp+

lemma live_socket_kept:
  "listen_unix (stale_socket\<lparr>sd_dial := (\<lambda>n p. None)\<rparr>) ''/run/d.sock'' [] =
     ([MkdirAll ''/run''], Inl (Text ''daemon already listening''))"
  by code_simp

theorem daemon_socket_private_witness:
  "\<exists>n. private_directory 501 [''run''] (sd_lstat stale_socket n) \<and>
     drop n [MkdirAll ''/run'', RemovedSocket ''/run/d.sock'', ListenedOn ''/run/d.sock'',
       ChmodPath ''/run/d.sock'' 0x180] \<noteq> []"
proof -
  have "sd_uid stale_socket = 501" by (simp add: stale_socket_def)
  moreover obtain n rest where n: "rest = [ListenedOn ''/run/d.sock'', ChmodPath ''/run/d.sock'' 0x180]"
    "drop n [MkdirAll ''/run'', RemovedSocket ''/run/d.sock'', ListenedOn ''/run/d.sock'',
       ChmodPath ''/run/d.sock'' 0x180] \<in> {rest, RemovedSocket ''/run/d.sock'' # rest}"
    "drop n [MkdirAll ''/run'', RemovedSocket ''/run/d.sock'', ListenedOn ''/run/d.sock'',
       ChmodPath ''/run/d.sock'' 0x180] \<noteq> [] \<longrightarrow>
     private_directory (sd_uid stale_socket) [''run''] (sd_lstat stale_socket n)"
    using daemon_socket_private [OF stale_socket_replaced stale_socket_dir] by auto
  ultimately show ?thesis by (intro exI [of _ n]) auto
qed

section \<open>Installed links\<close>

lemmas install_run_defs = chain_def handle_def give_def stop_with_def change_def of_result_def
  stop_if_def install_effect_def

lemma resolved_target_lasting:
  assumes "resolve_cli_install_target ie exe = Inr target" "host_app_root target = Some app"
  shows "transient_app_location (ie_files ie) app = None"
  using assms
  by (auto simp: resolve_cli_install_target_def reject_transient_target_def
      split: sum.splits option.splits if_splits)

lemma replace_symlink_effects:
  assumes "replace_symlink ie link target force es = (es', r)"
  shows "es' = es \<and> (\<forall>u. r = Inr u \<longrightarrow> ie_readlink ie link = Inr target) \<or>
    es' = es @ [Linked target link] \<and> ie_lstat ie link = NotExist \<or>
    es' \<in> {es @ [RemovedPath link], es @ [RemovedPath link, Linked target link]} \<and> force \<and>
      (es' = es @ [RemovedPath link] \<longrightarrow> (\<forall>u. r \<noteq> Inr u)) \<and>
      (\<exists>info. ie_lstat ie link = Found info \<and>
         (if ls_symlink info then ie_readlink ie link \<noteq> Inr target else \<not> ls_dir info))"
  using assms
  by (auto simp: replace_symlink_def should_replace_link_path_def should_replace_symlink_def install_run_defs
      split: lstat_result.splits if_splits sum.splits option.splits)

text \<open>The path of the link: \<open>agent-secret\<close> in the directory of the options or the default one.\<close>

definition own_link :: "install_env \<Rightarrow> cli_options \<Rightarrow> string \<Rightarrow> bool" where
  "own_link ie opts p \<longleftrightarrow>
     (\<exists>dir. (if cl_bin_dir opts = '''' then default_bin_dir ie = Inr dir else dir = cl_bin_dir opts) \<and>
        p = path_join [dir, ''agent-secret''])"

text \<open>
C33: \<open>install-cli\<close> touches one path only: \<open>agent-secret\<close> in the directory that the options name, or
  in the default one when they name none. There it puts a link only to the target that the options
  stand for, an executable file that is not in a temporary copy of the app; it removes what is there
  only when forced, and never a directory or a link that already leads to the target; and when it succeeds, the link leads to the target.
\<close>

theorem install_cli_safe:
  assumes "install_cli ie opts [] = (es, r)"
  shows "(\<forall>t p. Linked t p \<in> set es \<longrightarrow>
       own_link ie opts p \<and> resolve_cli_install_target ie (cl_executable opts) = Inr t \<and>
       check_runnable (ie_files ie) t = None \<and>
       (\<forall>app. host_app_root t = Some app \<longrightarrow> transient_app_location (ie_files ie) app = None)) \<and>
    (\<forall>p. RemovedPath p \<in> set es \<longrightarrow> cl_force opts \<and> own_link ie opts p \<and>
       (\<exists>info. ie_lstat ie p = Found info \<and>
          (if ls_symlink info then resolve_cli_install_target ie (cl_executable opts) \<noteq> ie_readlink ie p
           else \<not> ls_dir info))) \<and>
    (\<forall>link target. r = Inr (link, target) \<longrightarrow> own_link ie opts link \<and>
       (Linked target link \<in> set es \<or> ie_readlink ie link = Inr target))"
proof -
  define dirs where "dirs = (if cl_bin_dir opts = '''' then default_bin_dir ie else Inr (cl_bin_dir opts))"
  show ?thesis
  proof (cases "\<exists>dir target. dirs = Inr dir \<and> resolve_cli_install_target ie (cl_executable opts) = Inr target \<and>
      check_runnable (ie_files ie) target = None \<and> ie_mkdir ie dir = None")
    case False
    then have "es = [] \<and> (\<exists>e. r = Inl e)"
      using assms unfolding install_cli_def dirs_def [symmetric]
      by (auto simp: install_run_defs split: sum.splits option.splits)
    then show ?thesis by auto
  next
    case True
    then obtain dir target where ok: "dirs = Inr dir"
      "resolve_cli_install_target ie (cl_executable opts) = Inr target"
      "check_runnable (ie_files ie) target = None" "ie_mkdir ie dir = None" by blast
    define link where "link = path_join [dir, ''agent-secret'']"
    have own: "own_link ie opts link"
      using ok(1) by (auto simp: own_link_def dirs_def link_def split: if_splits)
    obtain es' r' where replaced: "replace_symlink ie link target (cl_force opts) [MadeDirs dir] = (es', r')"
      by fastforce
    have run: "es = es' \<and> r = map_sum id (\<lambda>_. (link, target)) r'"
      using assms ok replaced unfolding install_cli_def dirs_def [symmetric]
      by (auto simp: install_run_defs Let_def link_def split: sum.splits)
    show ?thesis
      using run replace_symlink_effects [OF replaced] ok(2,3) resolved_target_lasting [OF ok(2)] own
      by (auto simp: map_sum_def split: sum.splits if_splits)
  qed
qed


definition other_link :: install_env where
  "other_link = \<lparr>ie_files = helper_files, ie_home = Inr ''/home/me'', ie_executable = Inr ''/opt/bws'',
     ie_lstat = (\<lambda>p. Found (private_info\<lparr>ls_symlink := True\<rparr>)), ie_readlink = (\<lambda>p. Inr ''/old/agent-secret''),
     ie_mkdir = (\<lambda>d. None), ie_remove = (\<lambda>p. None), ie_symlink = (\<lambda>t p. None)\<rparr>"

lemma other_link_replaced:
  "install_cli other_link \<lparr>cl_bin_dir = '''', cl_executable = '''', cl_force = True\<rparr> [] =
     ([MadeDirs ''/home/me/.local/bin'', RemovedPath ''/home/me/.local/bin/agent-secret'',
       Linked ''/opt/bws'' ''/home/me/.local/bin/agent-secret''],
      Inr (''/home/me/.local/bin/agent-secret'', ''/opt/bws''))"
  by code_simp

theorem install_cli_safe_witness:
  "own_link other_link \<lparr>cl_bin_dir = '''', cl_executable = '''', cl_force = True\<rparr>
     ''/home/me/.local/bin/agent-secret'' \<and>
   resolve_cli_install_target other_link '''' = Inr ''/opt/bws''"
  using install_cli_safe [OF other_link_replaced] by auto

end
