(* ===== verification/AppCommands.thy ===== *)
theory AppCommands
  imports ClientRuns Install TokenStore SocketDirectory
begin

text \<open>
  The commands that do not send requests for secrets, and the dispatch of all of them:
  \<open>internal/cli/app.go\<close>, \<open>app_daemon.go\<close>, \<open>app_install.go\<close>, \<open>app_bitwarden.go\<close> and
  \<open>app_profile.go\<close>. A command shows one value, whose JSON and whose lines of text say the same; the
  texts of errors are left out.
\<close>

section \<open>What is shown\<close>

text \<open>\<open>dc_status\<close> and \<open>dc_name\<close> are the strings of the JSON; a failed check has an error.\<close>

record doctor_check =
  dc_name :: string
  dc_status :: string
  dc_path :: string
  dc_pid :: int
  dc_account :: string
  dc_error :: "client_error option"

record path_warning =
  pw_directory :: string
  pw_command :: string
  pw_shadowed_by :: string

datatype shown =
    ShowsStatus bool int "client_error option"
  | ShowsStopped "client_error option"
  | ShowsRepair repair_status int "client_error option"
  | ShowsDoctor bool "doctor_check list"
  | ShowsInstalled string string "path_warning option"
  | ShowsToken bool string string
  | ShowsProfiles string string "(string \<times> bool) list"
  | ShowsProfile string profile_info
  | ShowsError err
  | ShowsNothing

text \<open>
  What the commands meet besides the manager of \<open>app_env\<close>. \<open>ax_prompt\<close> is the secret prompt and
  \<open>ax_stdin\<close> what reading the limited standard input gives; \<open>ax_approver\<close> is \<open>DoctorApproverCheck\<close>.
\<close>

record commands_env =
  ax_app :: app_env
  ax_cli :: cli_env
  ax_flags :: flag_env
  ax_install :: install_env
  ax_keychain :: keychain_env
  ax_socket_path :: string
  ax_lstat :: "string \<Rightarrow> lstat_result"
  ax_uid :: int
  ax_not_exist :: "err \<Rightarrow> bool"
  ax_audit_path :: "err + string"
  ax_audit :: "err + audit_writer"
  ax_approver :: "err option option"
  ax_context :: "err option"
  ax_prompt :: "err + string"
  ax_stdin :: "err + string"
  ax_path :: string
  ax_home :: "err + string"
  ax_stat :: "string \<Rightarrow> err + file_info"

record app_state =
  as_manager :: manager_state
  as_keychain :: keychain
  as_links :: "install_effect list"

record command_outcome =
  ao_child :: "child_effect list"
  ao_state :: app_state
  ao_shown :: shown
  ao_exit :: int

text \<open>In JSON mode a command that cannot write fails.\<close>

definition exit_code :: "commands_env \<Rightarrow> bool \<Rightarrow> int \<Rightarrow> int" where
  "exit_code ax json code = (if json \<and> am_write (ax_app ax) \<noteq> None then 1 else code)"

definition outcome_of :: "app_state \<Rightarrow> shown \<Rightarrow> int \<Rightarrow> command_outcome" where
  "outcome_of s shown code = \<lparr>ao_child = [], ao_state = s, ao_shown = shown, ao_exit = code\<rparr>"

section \<open>The daemon\<close>

text \<open>\<open>Manager.Start\<close> is \<open>Repair\<close> without its result, as is \<open>EnsureRunning\<close>.\<close>

definition run_daemon_status :: "commands_env \<Rightarrow> bool \<Rightarrow> app_state \<Rightarrow> command_outcome" where
  "run_daemon_status ax json s =
     (case am_manager (ax_app ax) of
        Inl e \<Rightarrow> outcome_of s (ShowsStatus False 0 (Some (ClientError e))) (exit_code ax json 1)
      | Inr me \<Rightarrow>
          (case manager_status me (as_manager s) of
             (m, Inl e) \<Rightarrow>
               outcome_of (s\<lparr>as_manager := m\<rparr>) (ShowsStatus False 0 (Some e)) (exit_code ax json 1)
           | (m, Inr pid) \<Rightarrow>
               outcome_of (s\<lparr>as_manager := m\<rparr>) (ShowsStatus True pid None) (exit_code ax json 0)))"

definition run_daemon_start :: "commands_env \<Rightarrow> bool \<Rightarrow> app_state \<Rightarrow> command_outcome" where
  "run_daemon_start ax json s =
     (case am_manager (ax_app ax) of
        Inl e \<Rightarrow> outcome_of s (ShowsStatus False 0 (Some (ClientError e))) (exit_code ax json 1)
      | Inr me \<Rightarrow>
          (case manager_ensure_running me (as_manager s) of
             (m, Some e) \<Rightarrow>
               outcome_of (s\<lparr>as_manager := m\<rparr>) (ShowsStatus False 0 (Some e)) (exit_code ax json 1)
           | (m, None) \<Rightarrow> run_daemon_status ax json (s\<lparr>as_manager := m\<rparr>)))"

definition run_daemon_stop :: "commands_env \<Rightarrow> bool \<Rightarrow> app_state \<Rightarrow> command_outcome" where
  "run_daemon_stop ax json s =
     (case am_manager (ax_app ax) of
        Inl e \<Rightarrow> outcome_of s (ShowsStopped (Some (ClientError e))) (exit_code ax json 1)
      | Inr me \<Rightarrow>
          (case manager_stop me (as_manager s) of
             (m, Inl e) \<Rightarrow> outcome_of (s\<lparr>as_manager := m\<rparr>) (ShowsStopped (Some e)) (exit_code ax json 1)
           | (m, Inr u) \<Rightarrow> outcome_of (s\<lparr>as_manager := m\<rparr>) (ShowsStopped None) (exit_code ax json 0)))"

definition result_pid :: "repair_result \<Rightarrow> int" where
  "result_pid r = (case rr_hello r of None \<Rightarrow> 0 | Some h \<Rightarrow> hh_pid h)"

definition run_repair :: "commands_env \<Rightarrow> bool \<Rightarrow> app_state \<Rightarrow> command_outcome" where
  "run_repair ax json s =
     (case am_manager (ax_app ax) of
        Inl e \<Rightarrow> outcome_of s (ShowsRepair RepairRequired 0 (Some (ClientError e))) (exit_code ax json 1)
      | Inr me \<Rightarrow>
          (case manager_repair me (as_manager s) of
             (m, r, Some e) \<Rightarrow>
               outcome_of (s\<lparr>as_manager := m\<rparr>) (ShowsRepair RepairRequired 0 (Some e)) (exit_code ax json 1)
           | (m, r, None) \<Rightarrow>
               outcome_of (s\<lparr>as_manager := m\<rparr>) (ShowsRepair (rr_status r) (result_pid r) None)
                 (exit_code ax json 0)))"

section \<open>Doctor\<close>

definition check_passed :: "string \<Rightarrow> string \<Rightarrow> string \<Rightarrow> doctor_check" where
  "check_passed name status path =
     \<lparr>dc_name = name, dc_status = status, dc_path = path, dc_pid = 0, dc_account = '''', dc_error = None\<rparr>"

definition check_failed :: "string \<Rightarrow> string \<Rightarrow> err \<Rightarrow> doctor_check" where
  "check_failed name path e =
     \<lparr>dc_name = name, dc_status = ''failed'', dc_path = path, dc_pid = 0, dc_account = '''',
      dc_error = Some (ClientError e)\<rparr>"

text \<open>\<open>checkAuditLogWritable\<close>: the path and the error.\<close>

definition check_audit_log_writable :: "commands_env \<Rightarrow> string \<times> err option" where
  "check_audit_log_writable ax =
     (case ax_audit_path ax of
        Inl e \<Rightarrow> ('''', Some e)
      | Inr path \<Rightarrow>
          (case ax_audit ax of
             Inl e \<Rightarrow> (path, Some e)
           | Inr w \<Rightarrow> (path, writer_preflight (ax_context ax) w)))"

definition audit_log_check :: "commands_env \<Rightarrow> doctor_check" where
  "audit_log_check ax =
     (case check_audit_log_writable ax of
        (path, Some e) \<Rightarrow> check_failed ''audit_log'' path e
      | (path, None) \<Rightarrow> check_passed ''audit_log'' ''ok'' path)"

definition command_symlink_check :: "commands_env \<Rightarrow> doctor_check" where
  "command_symlink_check ax =
     (let ie = ax_install ax in
      case default_bin_dir ie of
        Inl e \<Rightarrow> check_failed ''command_symlink'' '''' e
      | Inr dir \<Rightarrow>
          let link = path_join [dir, ''agent-secret'']
          in case ie_readlink ie link of
               Inl e \<Rightarrow>
                 if ax_not_exist ax e then check_passed ''command_symlink'' ''not_installed'' link
                 else check_failed ''command_symlink'' link e
             | Inr target \<Rightarrow>
                 (case resolve_cli_install_target ie '''' of
                    Inl e \<Rightarrow> check_failed ''command_symlink'' link e
                  | Inr expected \<Rightarrow>
                      if path_clean target \<noteq> expected
                      then check_failed ''command_symlink'' link (Text ''link points elsewhere'')
                      else check_passed ''command_symlink'' ''ok'' link))"

definition repair_status_text :: "repair_status \<Rightarrow> string" where
  "repair_status_text st =
     (case st of RepairOK \<Rightarrow> ''ok'' | RepairRefreshed \<Rightarrow> ''refreshed'' | RepairRequired \<Rightarrow> ''repair_required'')"

definition background_helper_check ::
  "commands_env \<Rightarrow> manager_env \<Rightarrow> manager_state \<Rightarrow> manager_state \<times> doctor_check" where
  "background_helper_check ax me m =
     (case manager_repair me m of
        (m', r, Some e) \<Rightarrow>
          (m', \<lparr>dc_name = ''local_service'', dc_status = repair_status_text RepairRequired, dc_path = '''',
                dc_pid = 0, dc_account = '''', dc_error = Some e\<rparr>)
      | (m', r, None) \<Rightarrow>
          let exe = (case rr_hello r of None \<Rightarrow> '''' | Some h \<Rightarrow> hh_executable h)
          in if transient_app_location (ie_files (ax_install ax)) exe \<noteq> None
             then (m', \<lparr>dc_name = ''local_service'', dc_status = ''failed'', dc_path = exe,
                        dc_pid = result_pid r, dc_account = '''',
                        dc_error = Some (ClientError (Text ''local service is running from a temporary location''))\<rparr>)
             else (m', \<lparr>dc_name = ''local_service'', dc_status = repair_status_text (rr_status r),
                        dc_path = exe, dc_pid = result_pid r, dc_account = '''', dc_error = None\<rparr>))"

definition socket_directory_check :: "commands_env \<Rightarrow> doctor_check" where
  "socket_directory_check ax =
     (case validate_socket_directory (ax_uid ax) (ax_lstat ax) (ax_socket_path ax) of
        Some e \<Rightarrow> check_failed ''socket_directory'' '''' e
      | None \<Rightarrow> check_passed ''socket_directory'' ''ok'' '''')"

definition native_approver_check :: "err option \<Rightarrow> doctor_check" where
  "native_approver_check r =
     (case r of
        Some e \<Rightarrow> check_failed ''native_approver'' '''' e
      | None \<Rightarrow> check_passed ''native_approver'' ''ok'' '''')"

definition default_onepassword_account :: "cli_env \<Rightarrow> string" where
  "default_onepassword_account ci =
     select_concrete_account (getenv ci ''AGENT_SECRET_1PASSWORD_ACCOUNT'') (getenv ci ''OP_ACCOUNT'')
       (Some (ci_detect_account ci))"

text \<open>The account, where it was configured, and the error of reading the configuration.\<close>

definition doctor_onepassword_account :: "cli_env \<Rightarrow> string \<times> string \<times> err option" where
  "doctor_onepassword_account ci =
     (case load_metadata (ci_config ci) \<lparr>lo_name = '''', lo_config = '''', lo_start = ''''\<rparr> of
        Inr metadata \<Rightarrow>
          (if cm_account metadata \<noteq> '''' then cm_account metadata else default_onepassword_account ci,
           cm_path metadata, None)
      | Inl e \<Rightarrow>
          if err_is e (ConfigErr ErrConfigNotFound) then (default_onepassword_account ci, '''', None)
          else (default_onepassword_account ci, '''', Some e))"

definition display_onepassword_account :: "string \<Rightarrow> string" where
  "display_onepassword_account account =
     (if trim_space account = '''' then ''auto-detect default 1Password desktop account'' else account)"

definition project_config_checks :: "string \<times> string \<times> err option \<Rightarrow> doctor_check list" where
  "project_config_checks r =
     (case r of (account, source, failure) \<Rightarrow>
        (case failure of Some e \<Rightarrow> [check_failed ''project_config'' '''' e] | None \<Rightarrow> []) @
        (if source \<noteq> '''' then [check_passed ''project_config'' ''ok'' source] else []))"

text \<open>The account only travels in the request, whose exchange is an argument.\<close>

definition onepassword_check ::
  "manager_env \<Rightarrow> string \<Rightarrow> manager_state \<Rightarrow> manager_state \<times> doctor_check" where
  "onepassword_check me shown_account m =
     (case manager_check_onepassword me m of
        (m', Inl e) \<Rightarrow>
          (m', \<lparr>dc_name = ''1password_desktop_integration'', dc_status = ''failed'', dc_path = '''', dc_pid = 0,
                dc_account = shown_account, dc_error = Some e\<rparr>)
      | (m', Inr u) \<Rightarrow>
          (m', \<lparr>dc_name = ''1password_desktop_integration'', dc_status = ''ok'', dc_path = '''', dc_pid = 0,
                dc_account = shown_account, dc_error = None\<rparr>))"

definition doctor_checks ::
  "commands_env \<Rightarrow> manager_env \<Rightarrow> manager_state \<Rightarrow> manager_state \<times> doctor_check list" where
  "doctor_checks ax me m =
     (let account = doctor_onepassword_account (ax_cli ax) in
      case background_helper_check ax me m of
        (m1, helper) \<Rightarrow>
          (case onepassword_check me (display_onepassword_account (fst account)) m1 of
             (m2, integration) \<Rightarrow>
               (m2, [audit_log_check ax, command_symlink_check ax, helper, socket_directory_check ax] @
                    (case ax_approver ax of None \<Rightarrow> [] | Some r \<Rightarrow> [native_approver_check r]) @
                    project_config_checks account @ [integration])))"

definition healthy :: "doctor_check list \<Rightarrow> bool" where
  "healthy checks \<longleftrightarrow> list_all (\<lambda>c. dc_error c = None) checks"

definition run_doctor :: "commands_env \<Rightarrow> bool \<Rightarrow> app_state \<Rightarrow> command_outcome" where
  "run_doctor ax json s =
     (case am_manager (ax_app ax) of
        Inl e \<Rightarrow> outcome_of s (ShowsError e) 1
      | Inr me \<Rightarrow>
          (case doctor_checks ax me (as_manager s) of
             (m, checks) \<Rightarrow>
               outcome_of (s\<lparr>as_manager := m\<rparr>) (ShowsDoctor (healthy checks) checks)
                 (exit_code ax json (if healthy checks then 0 else 1))))"


section \<open>Installing\<close>

definition executable_file_exists :: "commands_env \<Rightarrow> string \<Rightarrow> bool" where
  "executable_file_exists ax path \<longleftrightarrow>
     (case ax_stat ax path of Inl e \<Rightarrow> False | Inr info \<Rightarrow> \<not> fi_is_dir info \<and> any_exec info)"

definition display_home_path :: "err + string \<Rightarrow> string \<Rightarrow> string" where
  "display_home_path home path =
     (case home of
        Inl e \<Rightarrow> path
      | Inr h \<Rightarrow>
          if path = h then ''~''
          else if has_prefix path (h @ ''/'') then ''~/'' @ trim_prefix path (h @ ''/'')
          else path)"

text \<open>Each \<open>'\<close> becomes \<open>'"'"'\<close>.\<close>

definition shell_single_quote :: "string \<Rightarrow> string" where
  "shell_single_quote v =
     CHR 0x27 # concat (map (\<lambda>c. if c = CHR 0x27 then [CHR 0x27, CHR 0x22, CHR 0x27, CHR 0x22, CHR 0x27] else [c]) v)
       @ [CHR 0x27]"

definition zsh_path_setup_command :: "string \<Rightarrow> string" where
  "zsh_path_setup_command bin_dir =
     (let export_line = ''export PATH='' @ shell_single_quote bin_dir @ '':'' @ [CHR 0x22] @ ''$PATH'' @ [CHR 0x22];
          quoted = shell_single_quote export_line;
          zprofile = [CHR 0x22] @ ''$HOME/.zprofile'' @ [CHR 0x22]
      in ''grep -qxF '' @ quoted @ '' '' @ zprofile @ '' 2>/dev/null || printf '' @
         [CHR 0x27, CHR 0x5C] @ ''n%s'' @ [CHR 0x5C] @ ''n'' @ [CHR 0x27] @ '' '' @ quoted @ '' >> '' @ zprofile @
         ''; exec zsh -l'')"

text \<open>The loop over the entries of \<open>PATH\<close>: None when the directory is there.\<close>

fun path_entry_warning :: "commands_env \<Rightarrow> string \<Rightarrow> path_warning \<Rightarrow> string list \<Rightarrow> path_warning option" where
  "path_entry_warning ax want warning [] = Some warning"
| "path_entry_warning ax want warning (entry # rest) =
     (if entry = '''' then path_entry_warning ax want warning rest
      else if path_clean entry = want then None
      else let candidate = path_join [entry, ''agent-secret'']
           in if executable_file_exists ax candidate then Some (warning\<lparr>pw_shadowed_by := candidate\<rparr>)
              else path_entry_warning ax want warning rest)"

definition command_path_warning :: "commands_env \<Rightarrow> string \<Rightarrow> path_warning option" where
  "command_path_warning ax link =
     (let bin_dir = path_dir link;
          warning = \<lparr>pw_directory = display_home_path (ax_home ax) bin_dir,
                     pw_command = zsh_path_setup_command bin_dir, pw_shadowed_by = ''''\<rparr>
      in if ax_path ax = '''' \<or> bin_dir = '''' then Some warning
         else path_entry_warning ax (path_clean bin_dir) warning (split_list (ax_path ax)))"

text \<open>The text output computes the warning from the link's directory again.\<close>

definition shown_link_warning :: "commands_env \<Rightarrow> bool \<Rightarrow> string \<Rightarrow> path_warning option" where
  "shown_link_warning ax json link =
     (if json then command_path_warning ax link
      else command_path_warning ax (path_join [path_dir link, ''agent-secret'']))"

definition run_install_cli :: "commands_env \<Rightarrow> bool \<Rightarrow> cli_options \<Rightarrow> app_state \<Rightarrow> command_outcome" where
  "run_install_cli ax json opts s =
     (case install_cli (ax_install ax) opts (as_links s) of
        (links, Inl e) \<Rightarrow> outcome_of (s\<lparr>as_links := links\<rparr>) (ShowsError e) 1
      | (links, Inr (link, target)) \<Rightarrow>
          (case am_manager (ax_app ax) of
             Inl e \<Rightarrow> outcome_of (s\<lparr>as_links := links\<rparr>) (ShowsError e) 1
           | Inr me \<Rightarrow>
               (case manager_repair me (as_manager s) of
                  (m, r, Some e) \<Rightarrow>
                    outcome_of (s\<lparr>as_links := links, as_manager := m\<rparr>)
                      (ShowsError (Text ''activate Agent Secret local service'')) 1
                | (m, r, None) \<Rightarrow>
                    outcome_of (s\<lparr>as_links := links, as_manager := m\<rparr>)
                      (ShowsInstalled link target (shown_link_warning ax json link)) (exit_code ax json 0))))"

definition run_skill_install :: "commands_env \<Rightarrow> bool \<Rightarrow> skill_options \<Rightarrow> app_state \<Rightarrow> command_outcome" where
  "run_skill_install ax json opts s =
     (case install_skill (ax_install ax) opts (as_links s) of
        (links, Inl e) \<Rightarrow> outcome_of (s\<lparr>as_links := links\<rparr>) (ShowsError e) 1
      | (links, Inr (link, target)) \<Rightarrow>
          outcome_of (s\<lparr>as_links := links\<rparr>) (ShowsInstalled link target None) (exit_code ax json 0))"

section \<open>Bitwarden tokens\<close>

definition max_token_bytes :: int where
  "max_token_bytes = 65536"

text \<open>\<open>readBitwardenTokenFromReader\<close> after the limited read, and the interactive prompt.\<close>

definition token_from_reader :: "err + string \<Rightarrow> err + string" where
  "token_from_reader raw =
     (case raw of
        Inl e \<Rightarrow> Inl e
      | Inr text \<Rightarrow>
          if int (length text) > max_token_bytes then Inl (Text ''bitwarden token from stdin exceeds 65536 bytes'')
          else if trim_space text = '''' then Inl (Text ''bitwarden token from stdin is empty'')
          else Inr (trim_space text))"

definition token_from_prompt :: "err + string \<Rightarrow> err + string" where
  "token_from_prompt typed =
     (case typed of
        Inl e \<Rightarrow> Inl e
      | Inr text \<Rightarrow>
          if trim_space text = '''' then Inl (Text ''bitwarden token from interactive prompt is empty'')
          else if int (length (trim_space text)) > max_token_bytes
            then Inl (Text ''bitwarden token from interactive prompt exceeds 65536 bytes'')
          else Inr (trim_space text))"

definition read_token_value :: "commands_env \<Rightarrow> bool \<Rightarrow> err + string" where
  "read_token_value ax from_stdin =
     (if from_stdin then token_from_reader (ax_stdin ax) else token_from_prompt (ax_prompt ax))"

definition run_token_install ::
  "commands_env \<Rightarrow> bool \<Rightarrow> string \<Rightarrow> bool \<Rightarrow> app_state \<Rightarrow> command_outcome" where
  "run_token_install ax json alias from_stdin s =
     (case read_token_value ax from_stdin of
        Inl e \<Rightarrow> outcome_of s (ShowsError e) 1
      | Inr value \<Rightarrow>
          (case store_put (ax_keychain ax) (\<not> from_stdin)
                  \<lparr>tk_alias = alias, tk_access = value, tk_created = zero_time, tk_updated = zero_time\<rparr>
                  (as_keychain s) of
             (k, Inl e) \<Rightarrow> outcome_of (s\<lparr>as_keychain := k\<rparr>) (ShowsError e) 1
           | (k, Inr u) \<Rightarrow>
               outcome_of (s\<lparr>as_keychain := k\<rparr>) (ShowsToken True alias ''installed'') (exit_code ax json 0)))"

definition run_token_status :: "commands_env \<Rightarrow> bool \<Rightarrow> string \<Rightarrow> app_state \<Rightarrow> command_outcome" where
  "run_token_status ax json alias s =
     (case store_get (ax_keychain ax) alias (as_keychain s) of
        (k, Inl e) \<Rightarrow> outcome_of (s\<lparr>as_keychain := k\<rparr>) (ShowsError e) 1
      | (k, Inr None) \<Rightarrow> outcome_of (s\<lparr>as_keychain := k\<rparr>) (ShowsToken False alias ''missing'') 1
      | (k, Inr (Some t)) \<Rightarrow>
          outcome_of (s\<lparr>as_keychain := k\<rparr>) (ShowsToken True alias ''installed'') (exit_code ax json 0))"

definition run_token_remove :: "commands_env \<Rightarrow> bool \<Rightarrow> string \<Rightarrow> app_state \<Rightarrow> command_outcome" where
  "run_token_remove ax json alias s =
     (case store_delete (ax_keychain ax) alias (as_keychain s) of
        (k, Inl e) \<Rightarrow> outcome_of (s\<lparr>as_keychain := k\<rparr>) (ShowsError e) 1
      | (k, Inr deleted) \<Rightarrow>
          outcome_of (s\<lparr>as_keychain := k\<rparr>)
            (ShowsToken deleted alias (if deleted then ''removed'' else ''missing'')) (exit_code ax json 0))"

definition run_bitwarden ::
  "commands_env \<Rightarrow> bool \<Rightarrow> token_operation \<Rightarrow> string \<Rightarrow> bool \<Rightarrow> app_state \<Rightarrow> command_outcome" where
  "run_bitwarden ax json operation alias from_stdin s =
     (case operation of
        TokenInstall \<Rightarrow> run_token_install ax json alias from_stdin s
      | TokenStatus \<Rightarrow> run_token_status ax json alias s
      | TokenRemove \<Rightarrow> run_token_remove ax json alias s)"

section \<open>Profiles\<close>

definition select_profile :: "config_info \<Rightarrow> string \<Rightarrow> err + profile_info" where
  "select_profile info raw =
     (let name = (if raw = '''' then ci_default info else raw)
      in if name = '''' then Inl (Err (ConfigErr ErrProfileNotFound))
         else case find (\<lambda>p. pi_name p = name) (ci_profiles info) of
                Some p \<Rightarrow> Inr p
              | None \<Rightarrow> Inl (Err (ConfigErr ErrProfileNotFound)))"

definition join_comma :: "string list \<Rightarrow> string" where
  "join_comma values = concat (map (\<lambda>(i, v). if i > (0 :: nat) then '', '' @ v else v) (enumerate 0 values))"

definition binding_policy_text :: "binding_policy \<Rightarrow> string" where
  "binding_policy_text b =
     (if bd_mode b = mode_auto \<or> bd_mode b = '''' then ''auto''
      else if bd_mode b = mode_ancestor then
        (if bd_depth b = 1 then ''parent'' else ''ancestor:'' @ int_text (bd_depth b))
      else if bd_mode b = mode_ancestor_name then
        (if length (bd_names b) > 1 then ''ancestor_names:'' @ join_byte (CHR '','') (bd_names b)
         else ''ancestor_name:'' @ bd_name b)
      else bd_mode b)"

definition profile_error :: "bool \<Rightarrow> app_state \<Rightarrow> err \<Rightarrow> command_outcome" where
  "profile_error json s e =
     outcome_of s (ShowsError e) (if json then 1 else if err_is e (ConfigErr ErrConfigNotFound) then 2 else 1)"

definition inspected_config :: "commands_env \<Rightarrow> string \<Rightarrow> err + config_info" where
  "inspected_config ax path =
     inspect_config (ci_config (ax_cli ax)) \<lparr>lo_name = '''', lo_config = path, lo_start = ''''\<rparr>"

text \<open>Text output is written too, and an error of writing it is an exit code of 1 as well.\<close>

definition run_profile_list :: "commands_env \<Rightarrow> bool \<Rightarrow> string \<Rightarrow> app_state \<Rightarrow> command_outcome" where
  "run_profile_list ax json path s =
     (case inspected_config ax path of
        Inl e \<Rightarrow> profile_error json s e
      | Inr info \<Rightarrow>
          outcome_of s
            (ShowsProfiles (ci_path info) (ci_default info) (map (\<lambda>p. (pi_name p, pi_default p)) (ci_profiles info)))
            (exit_code ax True 0))"

definition run_profile_show :: "commands_env \<Rightarrow> bool \<Rightarrow> string \<Rightarrow> string \<Rightarrow> app_state \<Rightarrow> command_outcome" where
  "run_profile_show ax json path name s =
     (case inspected_config ax path of
        Inl e \<Rightarrow> profile_error json s e
      | Inr info \<Rightarrow>
          (case select_profile info name of
             Inl e \<Rightarrow> profile_error json s e
           | Inr p \<Rightarrow> outcome_of s (ShowsProfile (ci_path info) p) (exit_code ax True 0)))"

section \<open>Dispatch\<close>

text \<open>The commands of \<open>ClientRuns\<close> show what the daemon answered, which is left out.\<close>

definition ran :: "app_state \<Rightarrow> run_outcome \<Rightarrow> command_outcome" where
  "ran s r = \<lparr>ao_child = ro_child r, ao_state = s\<lparr>as_manager := ro_manager r\<rparr>, ao_shown = ShowsNothing,
     ao_exit = ro_exit r\<rparr>"

definition run_command :: "commands_env \<Rightarrow> command \<Rightarrow> app_state \<Rightarrow> command_outcome" where
  "run_command ax c s =
     (case c of
        CmdHelp topic \<Rightarrow> outcome_of s ShowsNothing 0
      | CmdVersion json \<Rightarrow> outcome_of s ShowsNothing (exit_code ax json 0)
      | CmdAgentContext path \<Rightarrow> outcome_of s ShowsNothing (exit_code ax True 0)
      | CmdExec json q env dry_run \<Rightarrow> ran s (run_exec (ax_app ax) json q env dry_run (as_manager s))
      | CmdSessionCreate m q \<Rightarrow> ran s (run_session_create (ax_app ax) m q (as_manager s))
      | CmdSessionList m \<Rightarrow> ran s (run_session_list (ax_app ax) m (as_manager s))
      | CmdSessionDestroy m q \<Rightarrow> ran s (run_session_destroy (ax_app ax) m q (as_manager s))
      | CmdWithSession q env \<Rightarrow> ran s (run_with_session (ax_app ax) q env (as_manager s))
      | CmdItemDescribe q f prefix \<Rightarrow> ran s (run_item_describe (ax_app ax) q (as_manager s))
      | CmdProfileList json path \<Rightarrow> run_profile_list ax json path s
      | CmdProfileShow json path name \<Rightarrow> run_profile_show ax json path name s
      | CmdDoctor json \<Rightarrow> run_doctor ax json s
      | CmdRepair json \<Rightarrow> run_repair ax json s
      | CmdBitwarden json operation alias from_stdin \<Rightarrow> run_bitwarden ax json operation alias from_stdin s
      | CmdInstallCLI json dir force \<Rightarrow>
          run_install_cli ax json \<lparr>cl_bin_dir = dir, cl_executable = '''', cl_force = force\<rparr> s
      | CmdSkillInstall json dir force \<Rightarrow>
          run_skill_install ax json
            \<lparr>sl_dir = dir, sl_source = '''', sl_executable = '''', sl_force = force\<rparr> s
      | CmdDaemonStart json \<Rightarrow> run_daemon_start ax json s
      | CmdDaemonStop json \<Rightarrow> run_daemon_stop ax json s
      | CmdDaemonStatus json \<Rightarrow> run_daemon_status ax json s)"

text \<open>\<open>App.Run\<close>: asking for help is the command \<open>CmdHelp\<close> here.\<close>

definition app_run :: "commands_env \<Rightarrow> string list \<Rightarrow> app_state \<Rightarrow> command_outcome" where
  "app_run ax args s =
     (case parse_command (ax_cli ax) (ax_flags ax) args of
        Inl e \<Rightarrow> outcome_of s (ShowsError e) 2
      | Inr c \<Rightarrow> run_command ax c s)"

end
