(* ===== verification/DaemonApp.thy ===== *)
theory DaemonApp
  imports SocketDirectory AppCommands
begin

text \<open>
  The daemon's start: \<open>internal/daemon/app/app.go\<close>, \<open>daemon/selfcheck.go\<close>, the listening part of
  \<open>daemon/server.go\<close> and \<open>cmd/agent-secret/main.go\<close>. The parts that are started are other theories;
  here they are what came of starting them, and the order of the steps is the trace.
\<close>

section \<open>The self check\<close>

definition new_executable_self_check :: "file_system \<Rightarrow> string \<Rightarrow> identity \<Rightarrow> err option" where
  "new_executable_self_check fs path expected =
     (if identity_is_zero expected then Some (Err (SelfcheckErr ErrDaemonExecutableChanged))
      else case capture fs path of
             Inl e \<Rightarrow> Some (Wrap (SelfcheckErr ErrDaemonExecutableChanged) e)
           | Inr actual \<Rightarrow>
               if actual \<noteq> expected then Some (Err (SelfcheckErr ErrDaemonExecutableChanged)) else None)"

text \<open>
  The path and the identity of the executable at the start; the check then runs on the file system of
  its own time.
\<close>

definition current_executable_self_check :: "err + string \<Rightarrow> file_system \<Rightarrow> err + string \<times> identity" where
  "current_executable_self_check executable fs =
     (case executable of
        Inl e \<Rightarrow> Inl e
      | Inr path \<Rightarrow> map_sum id (\<lambda>i. (path, i)) (capture fs path))"

section \<open>Listening\<close>

text \<open>
  What \<open>AcceptUnix\<close> gives: a connection, or an error with whether the context is done and whether
  the server was stopped. \<open>Serve\<close> hands each connection to a handler of its own.
\<close>

datatype accepted = Connection nat | AcceptFails err bool bool

fun serve_accepted :: "accepted list \<Rightarrow> nat list \<times> err option" where
  "serve_accepted [] = ([], None)"
| "serve_accepted (Connection c # rest) = (case serve_accepted rest of (cs, r) \<Rightarrow> (c # cs, r))"
| "serve_accepted (AcceptFails e ctx_done stopped # rest) =
     ([], if ctx_done \<or> stopped then None else Some e)"

definition listen_and_serve ::
  "socket_env \<Rightarrow> string \<Rightarrow> accepted list \<Rightarrow> socket_effect list \<times> nat list \<times> err option" where
  "listen_and_serve sd path accepts =
     (case listen_unix sd path [] of
        (es, Inl e) \<Rightarrow> (es, [], Some e)
      | (es, Inr u) \<Rightarrow>
          (case serve_accepted accepts of
             (conns, r) \<Rightarrow> (es @ [RemovedSocket path, ClosedListener], conns, r)))"

section \<open>Hardening\<close>

text \<open>\<open>processhardening\<close>: no core files, by limits of 0 for the resource \<open>RLIMIT_CORE\<close>.\<close>

definition rlimit_core :: int where
  "rlimit_core = 4"

definition set_core_dump_limit :: "(int \<Rightarrow> int \<times> int \<Rightarrow> err option) \<Rightarrow> err option" where
  "set_core_dump_limit setrlimit = setrlimit rlimit_core (0, 0)"

definition disable_core_dumps :: "(int \<Rightarrow> int \<times> int \<Rightarrow> err option) \<Rightarrow> err option" where
  "disable_core_dumps setrlimit =
     (case set_core_dump_limit setrlimit of Some e \<Rightarrow> Some e | None \<Rightarrow> None)"

section \<open>The daemon\<close>

definition daemon_config :: "err + string \<Rightarrow> string list \<Rightarrow> err + string" where
  "daemon_config default_path args =
     (case default_path of
        Inl e \<Rightarrow> Inl e
      | Inr d \<Rightarrow>
          (case parse_flags [string_flag ''socket'' (\<lambda>v s. v)] args d of
             Inl e \<Rightarrow> Inl e
           | Inr (path, rest) \<Rightarrow>
               if rest \<noteq> [] then Inl (Text ''unexpected positional arguments'') else Inr path))"

datatype start_step =
    CoreDumpsDisabled
  | AuditOpened
  | ApproverReady string
  | BrokerReady
  | ClientsFound
  | SelfCheckReady string identity
  | ServerReady
  | Served "socket_effect list" "nat list"
  | AuditClosed

text \<open>
  What comes of each step: \<open>setrlimit\<close>, the audit log, the approver for a socket, the broker, the
  trusted clients, the executable, the server. \<open>de_accepts\<close> is what \<open>AcceptUnix\<close> gives in turn.
\<close>

record daemon_env =
  de_setrlimit :: "int \<Rightarrow> int \<times> int \<Rightarrow> err option"
  de_socket :: socket_env
  de_audit :: "err option"
  de_approver :: "string \<Rightarrow> err option"
  de_broker :: "err option"
  de_clients :: "err option"
  de_executable :: "err + string"
  de_files :: file_system
  de_server :: "err option"
  de_accepts :: "accepted list"

type_synonym started = "start_step list \<times> int"

text \<open>A step that fails ends the run with exit code 1; after the audit log is open, it is closed.\<close>

definition try_step :: "err option \<Rightarrow> start_step \<Rightarrow> start_step list \<Rightarrow> (start_step list \<Rightarrow> started) \<Rightarrow> started" where
  "try_step failure done_step steps next_steps =
     (case failure of Some e \<Rightarrow> (steps, 1) | None \<Rightarrow> next_steps (steps @ [done_step]))"

definition serve_daemon :: "daemon_env \<Rightarrow> string \<Rightarrow> start_step list \<Rightarrow> started" where
  "serve_daemon de path steps =
     (case listen_and_serve (de_socket de) path (de_accepts de) of
        (es, conns, r) \<Rightarrow> (steps @ [Served es conns], if r = None then 0 else 1))"

definition start_daemon :: "daemon_env \<Rightarrow> string \<Rightarrow> start_step list \<Rightarrow> started" where
  "start_daemon de path steps =
     try_step (de_approver de path) (ApproverReady path) steps (\<lambda>steps.
     try_step (de_broker de) BrokerReady steps (\<lambda>steps.
     try_step (de_clients de) ClientsFound steps (\<lambda>steps.
       case current_executable_self_check (de_executable de) (de_files de) of
         Inl e \<Rightarrow> (steps, 1)
       | Inr (exe, identity) \<Rightarrow>
           try_step (de_server de) ServerReady (steps @ [SelfCheckReady exe identity]) (serve_daemon de path))))"

definition close_audit :: "started \<Rightarrow> started" where
  "close_audit r = (fst r @ [AuditClosed], snd r)"

definition daemon_run :: "daemon_env \<Rightarrow> string list \<Rightarrow> started" where
  "daemon_run de args =
     try_step (disable_core_dumps (de_setrlimit de)) CoreDumpsDisabled [] (\<lambda>steps.
       case daemon_config (default_socket_path (de_socket de)) args of
         Inl e \<Rightarrow> (steps, 2)
       | Inr path \<Rightarrow>
           try_step (de_audit de) AuditOpened steps (\<lambda>steps. close_audit (start_daemon de path steps)))"

section \<open>The entry point\<close>

text \<open>\<open>main\<close> of \<open>agent-secret\<close>: the app bundle launches the daemon with a subcommand of its own.\<close>

datatype entered_program = DaemonRan started | CommandRan command_outcome | HardeningFailed

definition main_run :: "daemon_env \<Rightarrow> commands_env \<Rightarrow> string list \<Rightarrow> app_state \<Rightarrow> entered_program" where
  "main_run de ax args s =
     (case args of
        [] \<Rightarrow> if disable_core_dumps (de_setrlimit de) \<noteq> None then HardeningFailed else CommandRan (app_run ax args s)
      | a # rest \<Rightarrow>
          if a = app_launch_subcommand then DaemonRan (daemon_run de rest)
          else if disable_core_dumps (de_setrlimit de) \<noteq> None then HardeningFailed
          else CommandRan (app_run ax args s))"

text \<open>\<open>main\<close> of \<open>agent-secretd\<close>.\<close>

definition daemon_main :: "daemon_env \<Rightarrow> string list \<Rightarrow> started" where
  "daemon_main de args = daemon_run de args"

definition display_version :: "string \<Rightarrow> string \<Rightarrow> string" where
  "display_version version revision =
     (if revision \<noteq> '''' then ''agent-secret '' @ version @ '' ('' @ revision @ '')''
      else ''agent-secret '' @ version)"

end
