(* ===== verification/DaemonPaths.thy ===== *)
theory DaemonPaths
  imports DaemonApp
begin

text \<open>
  Which daemon the client starts by default: \<open>internal/daemon/process/process_unix.go\<close>, and
  \<open>NewManager\<close> of \<open>control/manager.go\<close>, which uses it.
\<close>

definition daemon_app_name :: string where
  "daemon_app_name = ''AgentSecretDaemon.app''"

definition is_directory :: "file_system \<Rightarrow> string \<Rightarrow> bool" where
  "is_directory fs p \<longleftrightarrow> (case fs_stat fs p of Inl e \<Rightarrow> False | Inr info \<Rightarrow> fi_is_dir info)"

text \<open>The executable and, when it is another path, what it resolves to.\<close>

definition executable_candidates :: "file_system \<Rightarrow> string \<Rightarrow> string list" where
  "executable_candidates fs exe =
     exe # (if best_effort_path fs exe \<noteq> exe then [best_effort_path fs exe] else [])"

text \<open>
  The walk over the ancestors of one candidate: None when no ancestor has the name of the bundle. An
  ancestor that has it ends the search, also when it is no directory.
\<close>

function daemon_app_above :: "file_system \<Rightarrow> string \<Rightarrow> string option option" where
  "daemon_app_above fs current =
     (if path_base current = daemon_app_name
      then Some (if is_directory fs current then Some (path_clean current) else None)
      else if path_dir current = current then None
      else daemon_app_above fs (path_dir current))"
  by pat_completeness auto
termination
  by (relation "measure (\<lambda>(fs, d). path_weight d)") (auto simp: path_dir_weight)

declare daemon_app_above.simps [simp del]

fun containing_daemon_app :: "file_system \<Rightarrow> string list \<Rightarrow> string option" where
  "containing_daemon_app fs [] = None"
| "containing_daemon_app fs (candidate # rest) =
     (case daemon_app_above fs (path_dir candidate) of
        Some found \<Rightarrow> found
      | None \<Rightarrow> containing_daemon_app fs rest)"

definition sibling_daemon_app :: "string \<Rightarrow> string" where
  "sibling_daemon_app candidate =
     path_clean (path_join [path_dir candidate, ''..'', ''..'', ''Library'', ''Helpers'', daemon_app_name])"

definition daemon_app_for_executable :: "file_system \<Rightarrow> string list \<Rightarrow> string option" where
  "daemon_app_for_executable fs candidates =
     find (is_directory fs) (map sibling_daemon_app candidates)"

definition home_daemon_app :: "string \<Rightarrow> string" where
  "home_daemon_app home =
     path_join [home, ''Applications'', ''Agent Secret.app'', ''Contents'', ''Library'', ''Helpers'', daemon_app_name]"

definition default_daemon_app_path ::
  "bool \<Rightarrow> file_system \<Rightarrow> err + string \<Rightarrow> err + string \<Rightarrow> string option" where
  "default_daemon_app_path darwin fs executable home =
     (if \<not> darwin then None
      else
        (let found = (case executable of
                        Inl e \<Rightarrow> None
                      | Inr exe \<Rightarrow>
                          (case containing_daemon_app fs (executable_candidates fs exe) of
                             Some app \<Rightarrow> Some app
                           | None \<Rightarrow> daemon_app_for_executable fs (executable_candidates fs exe)))
         in case found of
              Some app \<Rightarrow> Some app
            | None \<Rightarrow>
                (case home of
                   Inl e \<Rightarrow> None
                 | Inr h \<Rightarrow> if is_directory fs (home_daemon_app h) then Some (home_daemon_app h) else None)))"

definition default_daemon_path ::
  "bool \<Rightarrow> file_system \<Rightarrow> err + string \<Rightarrow> err + string \<Rightarrow> err + string" where
  "default_daemon_path darwin fs executable home =
     (case default_daemon_app_path darwin fs executable home of
        Some app \<Rightarrow> Inr app
      | None \<Rightarrow> map_sum id (\<lambda>exe. path_join [path_dir exe, ''agent-secretd'']) executable)"

text \<open>\<open>NewManager\<close>: the socket and the daemon of a manager, from their defaults.\<close>

definition new_manager :: "err + string \<Rightarrow> err + string \<Rightarrow> string \<Rightarrow> err + string \<times> string" where
  "new_manager default_socket default_daemon socket_path =
     (case (if socket_path = '''' then default_socket else Inr socket_path) of
        Inl e \<Rightarrow> Inl e
      | Inr socket \<Rightarrow> map_sum id (\<lambda>daemon. (socket, daemon)) default_daemon)"

section \<open>The daemon that is started\<close>

lemma daemon_app_above_dir:
  "daemon_app_above fs d = Some (Some app) \<Longrightarrow>
   \<exists>c. path_base c = daemon_app_name \<and> is_directory fs c \<and> app = path_clean c"
proof (induction fs d rule: daemon_app_above.induct)
  case (1 fs current)
  then show ?case
    by (cases "path_base current = daemon_app_name"; cases "path_dir current = current")
       (auto simp: daemon_app_above.simps [of fs current] split: if_splits)
qed

lemma containing_daemon_app_dir:
  "containing_daemon_app fs cs = Some app \<Longrightarrow>
   \<exists>c. path_base c = daemon_app_name \<and> is_directory fs c \<and> app = path_clean c"
  by (induction fs cs rule: containing_daemon_app.induct)
     (auto split: option.splits dest: daemon_app_above_dir)

text \<open>The default daemon is a directory that is there, or lies beside the executable.\<close>

lemma default_daemon_path_exists:
  assumes "default_daemon_path darwin fs executable home = Inr p"
  shows "darwin \<and> (\<exists>c. is_directory fs c \<and> (p = c \<or> p = path_clean c)) \<or>
    (\<exists>exe. executable = Inr exe \<and> p = path_join [path_dir exe, ''agent-secretd''])"
proof (cases "default_daemon_app_path darwin fs executable home")
  case None
  with assms show ?thesis by (cases executable) (auto simp: default_daemon_path_def)
next
  case (Some app)
  then have "app = p" using assms by (simp add: default_daemon_path_def)
  moreover have "darwin \<and> (\<exists>c. is_directory fs c \<and> (app = c \<or> app = path_clean c))"
    using Some
    by (auto simp: default_daemon_app_path_def daemon_app_for_executable_def find_Some_iff Let_def
        split: if_splits sum.splits option.splits dest: containing_daemon_app_dir)
  ultimately show ?thesis by simp
qed

text \<open>The arguments that the manager gives the daemon are read back as the same socket.\<close>

lemma daemon_config_socket: "daemon_config (Inr d) [''--socket'', path] = Inr path"
proof -
  have parts: "flag_parts ''socket'' = (''socket'', None)" by code_simp
  show ?thesis
    by (simp add: daemon_config_def parse_flags.simps is_flag_arg_def parse_one_def strip_dashes_def
        has_prefix_iff bad_flag_name_def parts find_flag_def string_flag_def flag_of_def)
qed

end
