(* ===== verification/CommandOutput.thy ===== *)
theory CommandOutput
  imports AppCommands ItemAliases EnvFile
begin

text \<open>
  What \<open>exec --dry-run\<close>, \<open>item describe\<close> and the \<open>session\<close> commands print: \<open>internal/cli/app_exec.go\<close>,
  \<open>app_item.go\<close> and \<open>app_session.go\<close>. A line is a string without its newline; durations and times are
  printed by arguments. A table is given as rows of cells, before \<open>tabwriter\<close> aligns them.
\<close>

section \<open>Dry runs\<close>

definition shell_quote_args :: "string list \<Rightarrow> string" where
  "shell_quote_args args =
     concat (map (\<lambda>(i, a). (if i > (0 :: nat) then '' '' else '''') @ shell_single_quote a) (enumerate 0 args))"

definition dry_run_secrets :: "secret list \<Rightarrow> secret_spec list" where
  "dry_run_secrets secrets =
     map (\<lambda>s. \<lparr>sp_alias = se_alias s, sp_ref = rf_raw (se_ref s), sp_account = se_account s,
            sp_source = se_source s, sp_bitwarden = se_bitwarden s\<rparr>) secrets"

definition dry_run_secret_scope :: "secret \<Rightarrow> string" where
  "dry_run_secret_scope s =
     (if rf_provider (se_ref s) = provider_bitwarden then
        ''source='' @ se_source s @ '' token_alias='' @
        (if bw_token_alias (se_bitwarden s) = '''' then se_source s else bw_token_alias (se_bitwarden s))
      else ''account='' @ (if se_account s = '''' then ''(default desktop account)'' else se_account s))"

record dry_run_output =
  dr_would_prompt :: bool
  dr_would_spawn :: bool
  dr_reason :: string
  dr_command :: "string list"
  dr_executable :: string
  dr_cwd :: string
  dr_ttl :: string
  dr_fingerprint :: string
  dr_secrets :: "secret_spec list"
  dr_override_env :: bool
  dr_overridden :: "string list"
  dr_force_refresh :: bool
  dr_reuse_only :: bool

definition dry_run_of :: "(duration \<Rightarrow> string) \<Rightarrow> exec_request \<Rightarrow> dry_run_output" where
  "dry_run_of print q =
     \<lparr>dr_would_prompt = (\<not> er_reuse_only q), dr_would_spawn = False, dr_reason = er_reason q,
      dr_command = er_command q, dr_executable = er_executable q, dr_cwd = er_cwd q,
      dr_ttl = print (er_ttl q), dr_fingerprint = er_env_fingerprint q,
      dr_secrets = dry_run_secrets (er_secrets q), dr_override_env = er_override_env q,
      dr_overridden = er_overridden q, dr_force_refresh = er_force_refresh q,
      dr_reuse_only = er_reuse_only q\<rparr>"

definition bool_text :: "bool \<Rightarrow> string" where
  "bool_text b = (if b then ''true'' else ''false'')"

definition dry_run_lines :: "(duration \<Rightarrow> string) \<Rightarrow> exec_request \<Rightarrow> string list" where
  "dry_run_lines print q =
     [''agent-secret exec dry run: ok'',
      ''would prompt: '' @ bool_text (dr_would_prompt (dry_run_of print q)),
      ''would spawn: '' @ bool_text (dr_would_spawn (dry_run_of print q)),
      ''reason: '' @ er_reason q, ''cwd: '' @ er_cwd q, ''command: '' @ shell_quote_args (er_command q),
      ''ttl: '' @ print (er_ttl q), ''secrets:''] @
     map (\<lambda>s. ''  '' @ se_alias s @ ''='' @ rf_raw (se_ref s) @ '' '' @ dry_run_secret_scope s) (er_secrets q)"

section \<open>Items\<close>

definition item_text_rows :: "full_metadata \<Rightarrow> string list list" where
  "item_text_rows md =
     [[''item:'', md_item md]] @
     (if md_category md \<noteq> '''' then [[''category:'', md_category md]] else []) @
     [[''vault:'', md_vault md]] @
     (if md_account md \<noteq> '''' then [[''account:'', md_account md]] else []) @
     [[''fields:'']] @
     (if md_fields md = [] then [[''  (none)'']]
      else [''  alias'', ''label'', ''type'', ''concealed'', ''ref''] #
        map (\<lambda>f. [''  '' @ if_alias f,
               (if if_section f \<noteq> '''' then if_section f @ ''/'' @ if_label f else if_label f),
               if_type f, bool_text (if_concealed f), if_ref f]) (md_fields md))"

definition item_env_refs :: "full_metadata \<Rightarrow> string" where
  "item_env_refs md =
     concat (map (\<lambda>f. if_alias f @ ''='' @ shell_single_quote (if_ref f) @ [CHR 0x0A]) (md_fields md))"

datatype item_output = ItemText "string list list" | ItemJson full_metadata | ItemEnvRefs string

definition render_item_describe :: "format \<Rightarrow> string \<Rightarrow> full_metadata \<Rightarrow> item_output" where
  "render_item_describe f prefix md =
     (let md' = md\<lparr>md_fields := unique_aliases (md_fields md) prefix\<rparr>
      in case f of
           FormatText \<Rightarrow> ItemText (item_text_rows md')
         | FormatJson \<Rightarrow> ItemJson md'
         | FormatEnvRefs \<Rightarrow> ItemEnvRefs (item_env_refs md'))"

section \<open>Sessions\<close>

definition bound_process_known :: "binding_info \<Rightarrow> bool" where
  "bound_process_known b \<longleftrightarrow> bp_pid (bi_bound b) \<noteq> 0 \<or> bp_name (bi_bound b) \<noteq> ''''"

definition bound_text :: "binding_info \<Rightarrow> string" where
  "bound_text b =
     bp_name (bi_bound b) @ '' pid='' @ int_text (bp_pid (bi_bound b)) @ '' path='' @ bp_path (bi_bound b)"

definition session_create_lines :: "(go_time \<Rightarrow> string) \<Rightarrow> session_create_response \<Rightarrow> string list" where
  "session_create_lines print r =
     [''session id: '' @ cr_session_id r, ''session token: '' @ cr_session_token r,
      ''expires: '' @ print (cr_expires_at r),
      ''reads: '' @ int_text (cr_remaining r) @ ''/'' @ int_text (cr_max_reads r) @ '' remaining'',
      ''secrets: '' @ join_comma (cr_aliases r)] @
     (if bound_process_known (cr_binding r) then [''bound process: '' @ bound_text (cr_binding r)] else [])"

definition session_list_line :: "(go_time \<Rightarrow> string) \<Rightarrow> session_info \<Rightarrow> string list" where
  "session_list_line print i =
     [sf_session_id i @ '' expires='' @ print (sf_expires_at i) @ '' reads='' @ int_text (sf_remaining i) @ ''/'' @
        int_text (sf_max_reads i) @ '' cwd='' @ sf_cwd i @ '' secrets='' @
        join_byte (CHR '','') (sf_aliases i) @ '' reason='' @ sf_reason i] @
     (if bound_process_known (sf_binding i) then [''  bound='' @ bound_text (sf_binding i)] else [])"

definition session_list_lines :: "(go_time \<Rightarrow> string) \<Rightarrow> session_info list \<Rightarrow> string list" where
  "session_list_lines print sessions =
     (if sessions = [] then [''no active sessions''] else concat (map (session_list_line print) sessions))"

definition session_destroy_lines :: "bool \<Rightarrow> session_destroy_response \<Rightarrow> string list" where
  "session_destroy_lines all r =
     (if all then [''destroyed sessions: '' @ int_text (ds_count r)]
      else [''destroyed session: '' @ ds_session_id r])"

section \<open>Reading the references back\<close>

lemma cut_byte_append: "c \<notin> set a \<Longrightarrow> cut_byte c (a @ c # b) = Some (a, b)"
  by (induction a) auto

lemma single_quote_plain: "CHR 0x27 \<notin> set v \<Longrightarrow> shell_single_quote v = CHR 0x27 # v @ [CHR 0x27]"
proof -
  assume "CHR 0x27 \<notin> set v"
  then have "concat (map (\<lambda>c. if c = CHR 0x27 then [CHR 0x27, CHR 0x22, CHR 0x27, CHR 0x22, CHR 0x27]
      else [c]) v) = v" by (induction v) auto
  then show ?thesis by (simp add: shell_single_quote_def)
qed

lemma parse_value_single_quoted: "CHR 0x27 \<notin> set v \<Longrightarrow> parse_value (CHR 0x27 # v @ [CHR 0x27]) = Some v"
  by (simp add: parse_value_def read_single_quoted_def cut_byte_append validate_trailing_def)

lemma alias_ok_chars: "alias_ok a \<Longrightarrow> a \<noteq> [] \<and> list_all env_char a"
  by (cases a) (auto simp: alias_ok_def env_char_def is_digit_def is_upper_def list_all_iff)

lemma env_char_graphic: "env_char c \<Longrightarrow> graphic c \<and> c \<noteq> CHR ''='' \<and> c \<noteq> CHR ''#'' \<and> c \<noteq> CHR 0x00 \<and> \<not> is_lower c"
  by (auto simp: env_char_def graphic_def is_upper_def is_digit_def is_lower_def less_char_def less_eq_char_def)

lemma parse_env_line_quoted:
  assumes "alias_ok a" "CHR 0x27 \<notin> set v"
  shows "parse_env_line source n (a @ ''='' @ CHR 0x27 # v @ [CHR 0x27]) =
    Inr (Some \<lparr>ent_key = a, ent_value = v, ent_source = source, ent_line = n\<rparr>)"
proof -
  let ?line = "a @ CHR ''='' # CHR 0x27 # v @ [CHR 0x27]"
  obtain c cs where a: "a = c # cs" using alias_ok_chars [OF assms(1)] by (cases a) auto
  have chars: "list_all env_char a" using alias_ok_chars [OF assms(1)] by simp
  then have c: "graphic c" "c \<noteq> CHR ''#''" "c \<noteq> CHR ''e''"
    using env_char_graphic [of c] by (auto simp: a is_lower_def)
  have graphics: "list_all graphic a" "CHR ''='' \<notin> set a" "CHR 0x00 \<notin> set a"
    using chars env_char_graphic by (auto simp: list_all_iff)
  have quote: "graphic (CHR 0x27)" by code_simp
  have line: "trim_space ?line = ?line"
    by (rule trim_space_graphic_ends) (simp add: a c quote)
  have raw: "trim_space (CHR 0x27 # v @ [CHR 0x27]) = CHR 0x27 # v @ [CHR 0x27]"
    by (rule trim_space_graphic_ends) (simp add: quote)
  have key: "trim_space a = a" by (rule trim_space_graphic [OF graphics(1)])
  have cut: "cut_byte (CHR ''='') ?line = Some (a, CHR 0x27 # v @ [CHR 0x27])"
    by (rule cut_byte_append [OF graphics(2)])
  have "\<not> has_prefix ?line ''#''" "\<not> has_prefix ?line ''export ''"
    using c by (auto simp: a has_prefix_iff)
  then show ?thesis
    using line raw key cut graphics parse_value_single_quoted [OF assms(2)]
    by (simp add: parse_env_line_def Let_def a)
qed

lemma scan_lines_whole:
  assumes "list_all (\<lambda>l. CHR 0x0A \<notin> set l \<and> length l < max_token \<and> drop_cr l = l) ls"
  shows "scan_lines None (concat (map (\<lambda>l. l @ [CHR 0x0A]) ls)) = (ls, None)"
  using assms
proof (induction ls)
  case Nil
  then show ?case by (subst scan_lines.simps) simp
next
  case (Cons l ls)
  then have "takeWhile (\<lambda>c. c \<noteq> CHR 0x0A) (l @ CHR 0x0A # x) = l"
    "dropWhile (\<lambda>c. c \<noteq> CHR 0x0A) (l @ CHR 0x0A # x) = CHR 0x0A # x" for x
    by (auto simp: takeWhile_tail dropWhile_append3)
  with Cons show ?case by (subst scan_lines.simps) simp
qed

lemma parse_env_lines_quoted:
  assumes "list_all (\<lambda>(a, v). alias_ok a \<and> CHR 0x27 \<notin> set v) kvs"
  shows "\<exists>es. parse_env_lines source n (map (\<lambda>(a, v). a @ ''='' @ CHR 0x27 # v @ [CHR 0x27]) kvs) = Inr es \<and>
    map (\<lambda>e. (ent_key e, ent_value e)) es = kvs"
  using assms
proof (induction kvs arbitrary: n)
  case (Cons kv kvs)
  obtain a v where kv: "kv = (a, v)" by (cases kv)
  from Cons obtain es where "parse_env_lines source (Suc n)
      (map (\<lambda>(a, v). a @ ''='' @ CHR 0x27 # v @ [CHR 0x27]) kvs) = Inr es"
    "map (\<lambda>e. (ent_key e, ent_value e)) es = kvs" by (auto simp: kv)
  moreover have "parse_env_line source n (a @ ''='' @ CHR 0x27 # v @ [CHR 0x27]) =
      Inr (Some \<lparr>ent_key = a, ent_value = v, ent_source = source, ent_line = n\<rparr>)"
    using Cons.prems by (intro parse_env_line_quoted) (auto simp: kv)
  ultimately show ?case by (simp add: kv)
qed simp

end
