(* ===== verification/AgentContext.thy ===== *)
theory AgentContext
  imports CommandLine
begin

text \<open>
  The machine-readable description of the command line that \<open>agent-context\<close> prints:
  \<open>internal/cli/app_agent.go\<close>. Of a command it keeps the flags and the outputs, of a flag all but
  its description; summaries and notes are text for readers. Durations are printed by an argument.
\<close>

record flag_context =
  fx_name :: string
  fx_type :: string
  fx_repeatable :: bool
  fx_default :: string
  fx_values :: "string list"

definition fctx :: "string \<Rightarrow> string \<Rightarrow> flag_context" where
  "fctx name ty = \<lparr>fx_name = name, fx_type = ty, fx_repeatable = False, fx_default = '''', fx_values = []\<rparr>"

definition repeated_fctx :: "string \<Rightarrow> string \<Rightarrow> flag_context" where
  "repeated_fctx name ty = (fctx name ty)\<lparr>fx_repeatable := True\<rparr>"

definition json_flag_context :: "flag_context list" where
  "json_flag_context = [fctx ''--json'' ''bool'']"

definition session_json_flag_context :: "flag_context list" where
  "session_json_flag_context = [(fctx ''--json'' ''enum'')\<lparr>fx_values := [''true'', ''pretty'', ''compact'']\<rparr>]"

definition ttl_context :: "(duration \<Rightarrow> string) \<Rightarrow> duration \<Rightarrow> flag_context" where
  "ttl_context print ttl =
     (fctx ''--ttl'' ''duration'')\<lparr>fx_default := print ttl,
       fx_values := [print min_request_ttl @ ''..'' @ print max_request_ttl]\<rparr>"

definition exec_context :: "(duration \<Rightarrow> string) \<Rightarrow> flag_context list" where
  "exec_context print =
     [fctx ''--reason'' ''string'', repeated_fctx ''--secret'' ''mapping'', fctx ''--profile'' ''string'',
      repeated_fctx ''--only'' ''string'', repeated_fctx ''--env-file'' ''path'', fctx ''--account'' ''string'',
      fctx ''--config'' ''path'', fctx ''--cwd'' ''path'', ttl_context print default_exec_ttl,
      fctx ''--override-env'' ''bool'', fctx ''--force-refresh'' ''bool'', fctx ''--dry-run'' ''bool'',
      fctx ''--reuse-only'' ''bool'', fctx ''--allow-mutable-executable'' ''bool'', fctx ''--json'' ''bool'']"

definition session_create_context :: "(duration \<Rightarrow> string) \<Rightarrow> flag_context list" where
  "session_create_context print =
     [fctx ''--reason'' ''string'', repeated_fctx ''--secret'' ''mapping'', fctx ''--profile'' ''string'',
      repeated_fctx ''--only'' ''string'', repeated_fctx ''--env-file'' ''path'', fctx ''--account'' ''string'',
      fctx ''--config'' ''path'', fctx ''--cwd'' ''path'', ttl_context print default_session_ttl,
      (fctx ''--max-reads'' ''int'')\<lparr>fx_default := ''1'', fx_values := [''1..100'']\<rparr>,
      fctx ''--override-env'' ''bool'', fctx ''--bind-parent'' ''bool'',
      (fctx ''--bind-ancestor'' ''int'')\<lparr>fx_values := [''1..3'']\<rparr>,
      repeated_fctx ''--bind-ancestor-name'' ''string''] @ session_json_flag_context"

definition with_session_context :: "flag_context list" where
  "with_session_context = [fctx ''--cwd'' ''path'', fctx ''--allow-mutable-executable'' ''bool'']"

definition item_describe_context :: "(duration \<Rightarrow> string) \<Rightarrow> flag_context list" where
  "item_describe_context print =
     [fctx ''--account'' ''string'', fctx ''--config'' ''path'',
      (fctx ''--format'' ''enum'')\<lparr>fx_default := ''text'', fx_values := [''text'', ''json'', ''env-refs'']\<rparr>,
      fctx ''--prefix'' ''string'',
      (fctx ''--reason'' ''string'')\<lparr>fx_default := ''Inspect 1Password item metadata''\<rparr>,
      ttl_context print default_item_describe_ttl]"

text \<open>The commands and subcommands by their words, with their flags and outputs.\<close>

definition agent_context_commands ::
  "(duration \<Rightarrow> string) \<Rightarrow> (string list \<times> flag_context list \<times> string list) list" where
  "agent_context_commands print =
     (let text_json = [''text'', ''json'']; session_out = [''text'', ''json'', ''compact json''];
          config = fctx ''--config'' ''path'';
          token = fctx ''--alias'' ''string'' in
     [([''agent-context''], [config, (fctx ''--json'' ''bool'')\<lparr>fx_default := ''true''\<rparr>], [''json'']),
      ([''daemon'', ''status''], json_flag_context, text_json),
      ([''daemon'', ''start''], json_flag_context, text_json),
      ([''daemon'', ''stop''], json_flag_context, text_json),
      ([''doctor''], json_flag_context, text_json),
      ([''repair''], json_flag_context, text_json),
      ([''exec''], exec_context print, [''child passthrough'', ''dry-run text'', ''dry-run json'']),
      ([''install-cli''], [(fctx ''--bin-dir'' ''path'')\<lparr>fx_default := ''~/.local/bin''\<rparr>, fctx ''--force'' ''bool''] @
         json_flag_context, text_json),
      ([''session'', ''create''], session_create_context print, session_out),
      ([''session'', ''list''], session_json_flag_context, session_out),
      ([''session'', ''destroy''], fctx ''--all'' ''bool'' # session_json_flag_context, session_out),
      ([''with-session''], with_session_context, [''child passthrough'']),
      ([''bitwarden'', ''secrets-manager'', ''token'', ''install''],
         [token, fctx ''--from-stdin'' ''bool''] @ json_flag_context, text_json),
      ([''bitwarden'', ''secrets-manager'', ''token'', ''status''], token # json_flag_context, text_json),
      ([''bitwarden'', ''secrets-manager'', ''token'', ''remove''], token # json_flag_context, text_json),
      ([''item'', ''describe''], item_describe_context print, [''text'', ''json'', ''env-refs'']),
      ([''profile'', ''list''], config # json_flag_context, text_json),
      ([''profile'', ''show''], config # json_flag_context, text_json),
      ([''skill-install''], [(fctx ''--skills-dir'' ''path'')\<lparr>fx_default := ''~/.agents/skills''\<rparr>,
         fctx ''--force'' ''bool''] @ json_flag_context, text_json),
      ([''version''], json_flag_context, text_json)])"

text \<open>
  \<open>profileConfigContextFor\<close>: no configuration, an error, or its path, default and profile names.
\<close>

datatype profile_context = NoProfileConfig | ProfileConfigError err | ProfileConfigNames string string "string list"

definition profile_config_context_for :: "config_env \<Rightarrow> string \<Rightarrow> profile_context" where
  "profile_config_context_for ce path =
     (case inspect_config ce \<lparr>lo_name = '''', lo_config = path, lo_start = ''''\<rparr> of
        Inl e \<Rightarrow>
          if err_is e (ConfigErr ErrConfigNotFound) then NoProfileConfig else ProfileConfigError e
      | Inr info \<Rightarrow> ProfileConfigNames (ci_path info) (ci_default info) (map pi_name (ci_profiles info)))"

section \<open>What it says of the parser\<close>

text \<open>
  A listed flag is one that the parser knows under its name, and the parser takes it without a value
  when it is listed as a switch (\<open>--json=compact\<close> too may come without one).
\<close>

definition describes :: "flag_context \<Rightarrow> 's flag list \<Rightarrow> bool" where
  "describes c flags \<longleftrightarrow>
     list_ex (\<lambda>f. fx_name c = ''--'' @ fl_name f \<and>
       (fl_bool f \<longleftrightarrow> fx_type c = ''bool'' \<or> fx_values c = [''true'', ''pretty'', ''compact''])) flags"

text \<open>The flags that the parser knows and the description leaves out.\<close>

definition undescribed :: "flag_context list \<Rightarrow> 's flag list \<Rightarrow> string list" where
  "undescribed cs flags = filter (\<lambda>n. ''--'' @ n \<notin> set (map fx_name cs)) (map fl_name flags)"

lemma flag_names [simp]:
  "fl_name (flag_of n b p u) = n" "fl_bool (flag_of n b p u) = b"
  "fl_name (string_flag n v) = n" "fl_bool (string_flag n v) = False"
  "fl_name (bool_flag n w) = n" "fl_bool (bool_flag n w) = True"
  "fl_name (var_flag n s g x) = n" "fl_bool (var_flag n s g x) = False"
  "fl_name (json_flag y) = ''json''" "fl_bool (json_flag y) = True"
  by (simp_all add: flag_of_def string_flag_def bool_flag_def var_flag_def json_flag_def)

lemmas context_defs = fctx_def repeated_fctx_def json_flag_context_def session_json_flag_context_def
  ttl_context_def exec_context_def session_create_context_def with_session_context_def
  item_describe_context_def describes_def undescribed_def

end
