(* ===== verification/KeychainDarwin.thy ===== *)
theory KeychainDarwin
  imports TokenStore AppPaths Identity
begin

text \<open>
  The Keychain of macOS behind the token store: the Go side of \<open>internal/bwsm/keychain_darwin.go\<close>, and
  \<open>keychain_paths.go\<close>. The Security framework is an argument: a call answers as the items of the
  service say, unless the environment gives it another status.
\<close>

section \<open>The Security framework\<close>

datatype sec_call = SecCopyMatching | SecAdd | SecDelete

text \<open>\<open>kd_fault n ui call\<close> is the status of the call made after \<open>n\<close> others, when it is not the usual.\<close>

record darwin_env =
  kd_context :: "err option"
  kd_paths :: "string list"
  kd_trusted_status :: "string \<Rightarrow> int"
  kd_access_status :: int
  kd_fault :: "nat \<Rightarrow> bool \<Rightarrow> sec_call \<Rightarrow> int option"

definition sec_success :: int where "sec_success = 0"
definition sec_duplicate_item :: int where "sec_duplicate_item = -25299"
definition sec_item_not_found :: int where "sec_item_not_found = -25300"

definition sec_add :: "darwin_env \<Rightarrow> bool \<Rightarrow> string \<Rightarrow> raw_item \<Rightarrow> int stored" where
  "sec_add kd ui account raw =
     chain (reading (\<lambda>k. (kd_fault kd (kc_calls k) ui SecAdd, kc_items k account))) (\<lambda>(fault, item).
       case fault of
         Some st \<Rightarrow> chain (called id) (\<lambda>_. give st)
       | None \<Rightarrow>
           if item \<noteq> None then chain (called id) (\<lambda>_. give sec_duplicate_item)
           else chain (called (\<lambda>k. k\<lparr>kc_items := (kc_items k)(account \<mapsto> raw)\<rparr>)) (\<lambda>_. give sec_success))"

definition sec_delete :: "darwin_env \<Rightarrow> bool \<Rightarrow> string \<Rightarrow> int stored" where
  "sec_delete kd ui account =
     chain (reading (\<lambda>k. (kd_fault kd (kc_calls k) ui SecDelete, kc_items k account))) (\<lambda>(fault, item).
       case fault of
         Some st \<Rightarrow> chain (called id) (\<lambda>_. give st)
       | None \<Rightarrow>
           if item = None then chain (called id) (\<lambda>_. give sec_item_not_found)
           else chain (called (\<lambda>k. k\<lparr>kc_items := (kc_items k)(account := None)\<rparr>)) (\<lambda>_. give sec_success))"

definition sec_copy :: "darwin_env \<Rightarrow> string \<Rightarrow> (int \<times> raw_item option) stored" where
  "sec_copy kd account =
     chain (reading (\<lambda>k. (kd_fault kd (kc_calls k) False SecCopyMatching, kc_items k account))) (\<lambda>(fault, item).
     chain (called id) (\<lambda>_.
       give (case fault of
               Some st \<Rightarrow> (st, None)
             | None \<Rightarrow> (if item = None then sec_item_not_found else sec_success, item))))"

section \<open>The backend\<close>

definition darwin_get :: "darwin_env \<Rightarrow> string \<Rightarrow> raw_item stored" where
  "darwin_get kd account =
     chain (stop_if (kd_context kd)) (\<lambda>_.
     chain (sec_copy kd account) (\<lambda>(status, item).
       if status = sec_item_not_found then stop_with token_not_found
       else if status \<noteq> sec_success then stop_with (keychain_status_error ''read'' status)
       else case item of None \<Rightarrow> stop_with (Text ''no data'') | Some raw \<Rightarrow> give raw))"

text \<open>\<open>keychainAccess\<close>: the access list of the trusted applications, when there are any.\<close>

fun append_trusted :: "darwin_env \<Rightarrow> string list \<Rightarrow> err option" where
  "append_trusted kd [] = None"
| "append_trusted kd (p # ps) =
     (if kd_trusted_status kd p \<noteq> sec_success
      then Some (keychain_status_error ''trusted application'' (kd_trusted_status kd p))
      else append_trusted kd ps)"

definition keychain_access :: "darwin_env \<Rightarrow> err option" where
  "keychain_access kd =
     (if kd_paths kd = [] then None
      else or_else (append_trusted kd (kd_paths kd))
        (if kd_access_status kd \<noteq> sec_success
         then Some (keychain_status_error ''access list'' (kd_access_status kd)) else None))"

text \<open>An item that is there is deleted and added again.\<close>

definition darwin_put :: "darwin_env \<Rightarrow> bool \<Rightarrow> string \<Rightarrow> raw_item \<Rightarrow> unit stored" where
  "darwin_put kd ui account raw =
     chain (stop_if (kd_context kd)) (\<lambda>_.
     chain (stop_if (keychain_access kd)) (\<lambda>_.
     chain (sec_add kd ui account raw) (\<lambda>first.
     chain (if first = sec_duplicate_item then
              chain (sec_delete kd ui account) (\<lambda>deleted.
                if deleted = sec_success \<or> deleted = sec_item_not_found then sec_add kd ui account raw
                else give deleted)
            else give first) (\<lambda>status.
       if status \<noteq> sec_success then stop_with (keychain_status_error ''write'' status) else give ()))))"

definition darwin_delete :: "darwin_env \<Rightarrow> string \<Rightarrow> bool stored" where
  "darwin_delete kd account =
     chain (stop_if (kd_context kd)) (\<lambda>_.
     chain (sec_delete kd False account) (\<lambda>status.
       if status = sec_item_not_found then give False
       else if status \<noteq> sec_success then stop_with (keychain_status_error ''delete'' status)
       else give True))"

text \<open>\<open>keychain_other.go\<close>.\<close>

definition unsupported_store :: "'a stored" where
  "unsupported_store = stop_with (Err (BwsErr ErrUnsupportedStore))"

section \<open>Trusted applications\<close>

definition append_path :: "file_system \<Rightarrow> string \<Rightarrow> string list \<Rightarrow> string list" where
  "append_path fs raw paths =
     (let path = path_clean raw
      in if path = ''.'' \<or> \<not> is_abs path \<or> path \<in> set paths then paths
         else case fs_stat fs path of Inl e \<Rightarrow> paths | Inr info \<Rightarrow> paths @ [path])"

definition bundle_trusted_paths :: "string \<Rightarrow> string list" where
  "bundle_trusted_paths path =
     (case host_app_root path of
        None \<Rightarrow> []
      | Some app \<Rightarrow>
          let daemon_app = path_join [app, ''Contents'', ''Library'', ''Helpers'', ''AgentSecretDaemon.app'']
          in [path_join [app, ''Contents'', ''Resources'', ''bin'', ''agent-secret''], daemon_app,
              path_join [daemon_app, ''Contents'', ''MacOS'', ''Agent Secret'']])"

definition sibling_daemon_paths :: "string \<Rightarrow> string list" where
  "sibling_daemon_paths path =
     (let dir = path_dir path
      in if path_base path = ''agent-secret'' then [path_join [dir, ''agent-secretd'']]
         else if path_base path = ''agent-secretd'' then [path_join [dir, ''agent-secret'']]
         else [])"

definition append_related_paths :: "file_system \<Rightarrow> string \<Rightarrow> string list \<Rightarrow> string list" where
  "append_related_paths fs path paths =
     fold (append_path fs) (path # bundle_trusted_paths path @ sibling_daemon_paths path) paths"

definition trusted_application_paths :: "file_system \<Rightarrow> string \<Rightarrow> string list" where
  "trusted_application_paths fs executable =
     (let paths = append_related_paths fs executable []
      in case fs_eval_symlinks fs executable of
           Inl e \<Rightarrow> paths
         | Inr resolved \<Rightarrow> if resolved \<noteq> executable then append_related_paths fs resolved paths else paths)"

section \<open>The backend as the store sees it\<close>

definition no_faults :: "darwin_env \<Rightarrow> bool" where
  "no_faults kd \<longleftrightarrow> kd_context kd = None \<and> keychain_access kd = None \<and> (\<forall>n ui c. kd_fault kd n ui c = None)"

lemmas darwin_defs = run_defs sec_add_def sec_delete_def sec_copy_def sec_success_def
  sec_duplicate_item_def sec_item_not_found_def no_faults_def

lemma darwin_put_stores:
  assumes "no_faults kd"
  shows "snd (darwin_put kd ui a raw k) = Inr () \<and> kc_items (fst (darwin_put kd ui a raw k)) = (kc_items k)(a \<mapsto> raw)"
  using assms by (cases "kc_items k a") (auto simp: darwin_put_def darwin_defs)

lemma darwin_get_reads:
  assumes "no_faults kd"
  shows "snd (darwin_get kd a k) = (case kc_items k a of None \<Rightarrow> Inl token_not_found | Some raw \<Rightarrow> Inr raw) \<and>
    kc_items (fst (darwin_get kd a k)) = kc_items k"
  using assms by (cases "kc_items k a") (auto simp: darwin_get_def darwin_defs)

lemma darwin_delete_removes:
  assumes "no_faults kd"
  shows "snd (darwin_delete kd a k) = Inr (kc_items k a \<noteq> None) \<and>
    kc_items (fst (darwin_delete kd a k)) = (kc_items k)(a := None)"
  using assms by (cases "kc_items k a") (auto simp: darwin_delete_def darwin_defs)

lemma append_path_sound:
  "list_all is_abs paths \<Longrightarrow> distinct paths \<Longrightarrow> \<forall>p \<in> set paths. \<exists>i. fs_stat fs p = Inr i \<Longrightarrow>
   list_all is_abs (append_path fs raw paths) \<and> distinct (append_path fs raw paths) \<and>
   (\<forall>p \<in> set (append_path fs raw paths). \<exists>i. fs_stat fs p = Inr i)"
  by (auto simp: append_path_def Let_def split: sum.splits)

lemma fold_append_path_sound:
  "list_all is_abs paths \<Longrightarrow> distinct paths \<Longrightarrow> \<forall>p \<in> set paths. \<exists>i. fs_stat fs p = Inr i \<Longrightarrow>
   list_all is_abs (fold (append_path fs) rs paths) \<and> distinct (fold (append_path fs) rs paths) \<and>
   (\<forall>p \<in> set (fold (append_path fs) rs paths). \<exists>i. fs_stat fs p = Inr i)"
proof (induction rs arbitrary: paths)
  case (Cons r rs)
  from append_path_sound [OF Cons.prems, of r] show ?case
    unfolding fold_Cons comp_def by (intro Cons.IH) auto
qed simp

lemma trusted_application_paths_sound:
  "list_all is_abs (trusted_application_paths fs exe) \<and> distinct (trusted_application_paths fs exe) \<and>
   (\<forall>p \<in> set (trusted_application_paths fs exe). \<exists>i. fs_stat fs p = Inr i)"
proof -
  have first: "list_all is_abs (append_related_paths fs exe []) \<and> distinct (append_related_paths fs exe []) \<and>
      (\<forall>p \<in> set (append_related_paths fs exe []). \<exists>i. fs_stat fs p = Inr i)"
    unfolding append_related_paths_def by (rule fold_append_path_sound) simp_all
  show ?thesis
  proof (cases "\<exists>r. fs_eval_symlinks fs exe = Inr r \<and> r \<noteq> exe")
    case True
    then obtain r where paths: "trusted_application_paths fs exe =
        append_related_paths fs r (append_related_paths fs exe [])"
      by (auto simp: trusted_application_paths_def Let_def)
    show ?thesis
      unfolding paths append_related_paths_def [of fs r]
      by (rule fold_append_path_sound) (use first in simp_all)
  next
    case False
    then have "trusted_application_paths fs exe = append_related_paths fs exe []"
      by (auto simp: trusted_application_paths_def Let_def split: sum.splits)
    with first show ?thesis by simp
  qed
qed


text \<open>
  An update is not atomic: when the item is replaced and the second \<open>SecItemAdd\<close> fails, the call
  fails and the token from before is gone as well.
\<close>

lemma darwin_put_loses_item:
  assumes "kd_context kd = None" "keychain_access kd = None" "kc_items k account = Some old"
    and "kd_fault kd (kc_calls k) ui SecAdd = None"
    and "kd_fault kd (Suc (kc_calls k)) ui SecDelete = None"
    and "kd_fault kd (Suc (Suc (kc_calls k))) ui SecAdd = Some st" "st \<noteq> sec_success"
  shows "snd (darwin_put kd ui account raw k) = Inl (keychain_status_error ''write'' st) \<and>
    kc_items (fst (darwin_put kd ui account raw k)) account = None"
  using assms by (simp add: darwin_put_def darwin_defs)

end
