(* ===== verification/AccountDatabase.thy ===== *)
theory AccountDatabase
  imports ExecInputs
begin

text \<open>
  The default account of the 1Password application: \<open>internal/opaccount/desktop_account_darwin.go\<close>
  reads it from the database of the application. SQLite is an argument: whether the database opens and
  the query compiles, and what each step of the statement gives.
\<close>

definition desktop_accounts_db_path :: "err + string \<Rightarrow> err + string" where
  "desktop_accounts_db_path home =
     map_sum id (\<lambda>h. path_join [h, ''Library'', ''Group Containers'', ''2BUA8C4S2C.com.1password'', ''Library'',
       ''Application Support'', ''1Password'', ''Data'', ''1password.sqlite'']) home"

text \<open>A column is NULL or a text; the columns are those of the query, in its order.\<close>

datatype sqlite_step = SqliteRow "string option list" | SqliteDone | SqliteFails

definition sqlite_column_text :: "string option list \<Rightarrow> nat \<Rightarrow> string" where
  "sqlite_column_text row column =
     (if column < length row then (case row ! column of None \<Rightarrow> '''' | Some text \<Rightarrow> text) else '''')"

definition row_account :: "string option list \<Rightarrow> desktop_account" where
  "row_account row =
     \<lparr>da_uuid = sqlite_column_text row 0, da_state = sqlite_column_text row 1,
      da_user_state = sqlite_column_text row 2, da_type = sqlite_column_text row 3,
      da_url = sqlite_column_text row 4\<rparr>"

text \<open>The loop over the steps, with the accounts read before; a statement ends with another code.\<close>

fun detect_from_rows ::
  "(string \<Rightarrow> string option) \<Rightarrow> desktop_account list \<Rightarrow> sqlite_step list \<Rightarrow> string" where
  "detect_from_rows hostname accounts [] = ''''"
| "detect_from_rows hostname accounts (SqliteRow row # steps) =
     detect_from_rows hostname (accounts @ [row_account row]) steps"
| "detect_from_rows hostname accounts (SqliteDone # steps) = select_default_account hostname accounts"
| "detect_from_rows hostname accounts (SqliteFails # steps) = ''''"

text \<open>The database by its path: None when it does not open or the query does not compile.\<close>

definition detect_default_desktop_account ::
  "(string \<Rightarrow> string option) \<Rightarrow> err + string \<Rightarrow> (string \<Rightarrow> sqlite_step list option) \<Rightarrow> string" where
  "detect_default_desktop_account hostname home database =
     (case desktop_accounts_db_path home of
        Inl e \<Rightarrow> ''''
      | Inr path \<Rightarrow>
          (case database path of
             None \<Rightarrow> ''''
           | Some steps \<Rightarrow> detect_from_rows hostname [] steps))"

lemma detect_from_rows_done:
  "detect_from_rows hostname accounts (map SqliteRow rows @ SqliteDone # rest) =
     select_default_account hostname (accounts @ map row_account rows)"
  by (induction rows arbitrary: accounts) simp_all

lemma detect_from_rows_read:
  "detect_from_rows hostname accounts steps \<noteq> '''' \<Longrightarrow>
   \<exists>rows rest. steps = map SqliteRow rows @ SqliteDone # rest"
proof (induction hostname accounts steps rule: detect_from_rows.induct)
  case (2 hostname accounts row steps)
  then obtain rows rest where "steps = map SqliteRow rows @ SqliteDone # rest" by auto
  then show ?case by (intro exI [of _ "row # rows"] exI [of _ rest]) simp
next
  case (3 hostname accounts steps)
  show ?case by (intro exI [of _ "[]"] exI [of _ steps]) simp
qed simp_all

lemma the_only_in: "the_only xs \<noteq> '''' \<Longrightarrow> the_only xs \<in> set xs"
  by (auto simp: the_only_def split: list.splits)

lemma selected_among_active:
  assumes "select_default_account hostname accounts \<noteq> ''''"
  shows "select_default_account hostname accounts \<in> da_uuid ` set (active_accounts accounts)"
proof -
  have trimmed: "trim_space (da_uuid a) = da_uuid a" if "a \<in> set (active_accounts accounts)" for a
    using that by (auto simp: active_accounts_def)
  have matching: "select_matching (active_accounts accounts) m \<noteq> '''' \<Longrightarrow>
      select_matching (active_accounts accounts) m \<in> da_uuid ` set (active_accounts accounts)" for m
    using the_only_in [of "map da_uuid (filter m (active_accounts accounts))"]
    by (auto simp: select_matching_def)
  have "select_single (map da_uuid (active_accounts accounts)) \<noteq> '''' \<Longrightarrow>
      select_single (map da_uuid (active_accounts accounts)) \<in> da_uuid ` set (active_accounts accounts)"
    using the_only_in [of "filter (\<lambda>a. a \<noteq> '''') (map trim_space (map da_uuid (active_accounts accounts)))"]
    by (auto simp: select_single_def trimmed)
  with assms matching show ?thesis
    by (simp add: select_default_account_def Let_def split: if_splits)
qed

text \<open>
  The account that is detected belongs to a row of the database that is active, and the statement
  was read to its end; whatever fails on the way gives the empty account.
\<close>

theorem detected_account_active:
  assumes "detect_default_desktop_account hostname home database \<noteq> ''''"
  shows "\<exists>path rows rest row. desktop_accounts_db_path home = Inr path \<and>
    database path = Some (map SqliteRow rows @ SqliteDone # rest) \<and> row \<in> set rows \<and>
    detect_default_desktop_account hostname home database = trim_space (sqlite_column_text row 0) \<and>
    blank_or_active (sqlite_column_text row 1) \<and> blank_or_active (sqlite_column_text row 2)"
proof -
  obtain path steps where p: "desktop_accounts_db_path home = Inr path" "database path = Some steps"
    and out: "detect_default_desktop_account hostname home database = detect_from_rows hostname [] steps"
    using assms by (auto simp: detect_default_desktop_account_def split: sum.splits option.splits)
  obtain rows rest where steps: "steps = map SqliteRow rows @ SqliteDone # rest"
    using detect_from_rows_read assms out by metis
  have select: "detect_from_rows hostname [] steps = select_default_account hostname (map row_account rows)"
    by (simp add: steps detect_from_rows_done)
  from selected_among_active [of hostname "map row_account rows"] assms out select
  obtain a where "a \<in> set (active_accounts (map row_account rows))"
    "select_default_account hostname (map row_account rows) = da_uuid a" by auto
  then obtain row where "row \<in> set rows"
    "select_default_account hostname (map row_account rows) = trim_space (sqlite_column_text row 0)"
    "blank_or_active (sqlite_column_text row 1)" "blank_or_active (sqlite_column_text row 2)"
    by (auto simp: active_accounts_def row_account_def)
  with p steps out select show ?thesis
    by (intro exI [of _ path] exI [of _ rows] exI [of _ rest] exI [of _ row]) simp
qed

theorem detected_account_active_witness:
  "detect_default_desktop_account (\<lambda>u. None) (Inr ''/home'')
     (\<lambda>p. Some [SqliteRow [Some '' ABC '', Some ''A'', None, None, None], SqliteDone]) = ''ABC''"
proof -
  let ?db = "\<lambda>p :: string. Some [SqliteRow [Some '' ABC '', Some ''A'', None, None, None], SqliteDone]"
  have run: "detect_default_desktop_account (\<lambda>u. None) (Inr ''/home'') ?db = ''ABC''" by code_simp
  have ne: "detect_default_desktop_account (\<lambda>u. None) (Inr ''/home'') ?db \<noteq> ''''" by (simp add: run)
  from detected_account_active [OF ne] show ?thesis using run by auto
qed

end
