(* ===== verification/CommandProperties.thy ===== *)
theory CommandProperties
  imports DaemonPaths CommandOutput AgentContext KeychainDarwin AccountDatabase SystemProperties
begin

text \<open>
  Properties of the command line and of the daemon's start: which commands touch what, when
  \<open>doctor\<close> reports success, that \<open>agent-context\<close> describes the parser, that an installed token is the
  one that is used, the order in which the daemon starts and which daemon the client starts, and that
  printed references are read back.
\<close>

section \<open>What a command touches\<close>

lemmas outcome_simps = outcome_of_def ran_def stopped_run_def printed_run_def

lemma with_daemon_no_child:
  "(\<And>c a s'. ro_child (finish c a s') = []) \<Longrightarrow> ro_child (with_daemon am send finish s) = []"
  by (auto simp: with_daemon_def stopped_run_def Let_def split: sum.splits prod.splits option.splits)

lemma without_correlation_no_child: "ro_child (without_correlation am m send s) = []"
  by (auto simp: without_correlation_def stopped_run_def printed_run_def
      split: sum.splits prod.splits option.splits)

lemma run_daemon_parts:
  "ao_child (run_daemon_status ax json s) = [] \<and> as_links (ao_state (run_daemon_status ax json s)) = as_links s \<and>
     as_keychain (ao_state (run_daemon_status ax json s)) = as_keychain s"
  "ao_child (run_daemon_start ax json s) = [] \<and> as_links (ao_state (run_daemon_start ax json s)) = as_links s \<and>
     as_keychain (ao_state (run_daemon_start ax json s)) = as_keychain s"
  "ao_child (run_daemon_stop ax json s) = [] \<and> as_links (ao_state (run_daemon_stop ax json s)) = as_links s \<and>
     as_keychain (ao_state (run_daemon_stop ax json s)) = as_keychain s"
  "ao_child (run_repair ax json s) = [] \<and> as_links (ao_state (run_repair ax json s)) = as_links s \<and>
     as_keychain (ao_state (run_repair ax json s)) = as_keychain s"
  "ao_child (run_doctor ax json s) = [] \<and> as_links (ao_state (run_doctor ax json s)) = as_links s \<and>
     as_keychain (ao_state (run_doctor ax json s)) = as_keychain s"
  by (auto simp: run_daemon_status_def run_daemon_start_def run_daemon_stop_def run_repair_def run_doctor_def
      outcome_of_def split: sum.splits prod.splits option.splits)

lemma run_profile_parts:
  "ao_child (run_profile_list ax json p s) = [] \<and> ao_state (run_profile_list ax json p s) = s"
  "ao_child (run_profile_show ax json p n s) = [] \<and> ao_state (run_profile_show ax json p n s) = s"
  by (auto simp: run_profile_list_def run_profile_show_def profile_error_def outcome_of_def split: sum.splits)

lemma run_bitwarden_parts:
  "ao_child (run_bitwarden ax json op alias std s) = [] \<and>
   as_links (ao_state (run_bitwarden ax json op alias std s)) = as_links s"
  by (auto simp: run_bitwarden_def run_token_install_def run_token_status_def run_token_remove_def
      outcome_of_def split: token_operation.splits sum.splits prod.splits option.splits)

lemma run_install_parts:
  "ao_child (run_install_cli ax json opts s) = [] \<and>
   as_keychain (ao_state (run_install_cli ax json opts s)) = as_keychain s"
  "ao_child (run_skill_install ax json opts' s) = [] \<and>
   as_keychain (ao_state (run_skill_install ax json opts' s)) = as_keychain s"
  by (auto simp: run_install_cli_def run_skill_install_def outcome_of_def
      split: sum.splits prod.splits option.splits)

lemma run_request_parts:
  "ro_child (run_exec am json q env True s) = []" "ro_child (run_session_create am m q' s) = []"
  "ro_child (run_session_list am m s) = []" "ro_child (run_session_destroy am m q'' s) = []"
  "ro_child (run_item_describe am q''' s) = []"
  by (auto simp: run_exec_def run_session_create_def run_session_list_def run_session_destroy_def
      run_item_describe_def printed_run_def stopped_run_def without_correlation_no_child
      intro!: with_daemon_no_child)

definition spawns :: "command \<Rightarrow> bool" where
  "spawns c \<longleftrightarrow> (\<exists>json q env. c = CmdExec json q env False) \<or> (\<exists>q env. c = CmdWithSession q env)"

definition links_paths :: "command \<Rightarrow> bool" where
  "links_paths c \<longleftrightarrow> (\<exists>json dir force. c = CmdInstallCLI json dir force \<or> c = CmdSkillInstall json dir force)"

definition handles_tokens :: "command \<Rightarrow> bool" where
  "handles_tokens c \<longleftrightarrow> (\<exists>json operation alias std. c = CmdBitwarden json operation alias std)"

lemma run_command_touches:
  "(ao_child (run_command ax c s) \<noteq> [] \<longrightarrow> spawns c) \<and>
   (as_links (ao_state (run_command ax c s)) \<noteq> as_links s \<longrightarrow> links_paths c) \<and>
   (as_keychain (ao_state (run_command ax c s)) \<noteq> as_keychain s \<longrightarrow> handles_tokens c)"
proof (cases c)
  case (CmdExec json q env dry_run)
  then show ?thesis
    by (cases dry_run) (simp_all add: run_command_def ran_def run_request_parts spawns_def)
qed (simp_all add: run_command_def run_daemon_parts run_profile_parts run_bitwarden_parts run_install_parts
    run_request_parts ran_def spawns_def links_paths_def handles_tokens_def outcome_of_def)

text \<open>
  A run of the client starts a child process only for \<open>exec\<close> without \<open>--dry-run\<close> and for
  \<open>with-session\<close>, changes links only for \<open>install-cli\<close> and \<open>skill-install\<close>, and reaches the token store
  only for the \<open>bitwarden\<close> commands; arguments that do not parse change nothing and end with exit code 2.
\<close>

theorem commands_touch_only_theirs:
  "(ao_child (app_run ax args s) \<noteq> [] \<longrightarrow>
      (\<exists>c. parse_command (ax_cli ax) (ax_flags ax) args = Inr c \<and> spawns c)) \<and>
   (as_links (ao_state (app_run ax args s)) \<noteq> as_links s \<longrightarrow>
      (\<exists>c. parse_command (ax_cli ax) (ax_flags ax) args = Inr c \<and> links_paths c)) \<and>
   (as_keychain (ao_state (app_run ax args s)) \<noteq> as_keychain s \<longrightarrow>
      (\<exists>c. parse_command (ax_cli ax) (ax_flags ax) args = Inr c \<and> handles_tokens c)) \<and>
   (\<forall>e. parse_command (ax_cli ax) (ax_flags ax) args = Inl e \<longrightarrow>
      ao_state (app_run ax args s) = s \<and> ao_exit (app_run ax args s) = 2)"
proof (cases "parse_command (ax_cli ax) (ax_flags ax) args")
  case (Inl e)
  then show ?thesis by (simp add: app_run_def outcome_of_def)
next
  case (Inr c)
  with run_command_touches [of ax c s] show ?thesis by (simp add: app_run_def)
qed

theorem commands_touch_only_theirs_witness:
  "\<forall>(ax :: commands_env) s. ao_child (app_run ax [''bogus''] s) = [] \<and> ao_state (app_run ax [''bogus''] s) = s \<and>
     ao_exit (app_run ax [''bogus''] s) = 2"
proof (intro allI)
  fix ax :: commands_env and s
  have "parse_command (ax_cli ax) (ax_flags ax) [''bogus''] = Inl invalid_arguments"
    by (simp add: parse_command_def is_help_def)
  then show "ao_child (app_run ax [''bogus''] s) = [] \<and> ao_state (app_run ax [''bogus''] s) = s \<and>
     ao_exit (app_run ax [''bogus''] s) = 2"
    using commands_touch_only_theirs [of ax "[''bogus'']" s] by auto
qed

section \<open>Doctor\<close>

lemma doctor_check_names:
  "dc_name (audit_log_check ax) = ''audit_log''"
  "dc_name (command_symlink_check ax) = ''command_symlink''"
  "dc_name (snd (background_helper_check ax me m)) = ''local_service''"
  "dc_name (socket_directory_check ax) = ''socket_directory''"
  "dc_name (snd (onepassword_check me a m)) = ''1password_desktop_integration''"
  by (simp_all add: audit_log_check_def command_symlink_check_def background_helper_check_def
      socket_directory_check_def onepassword_check_def check_failed_def check_passed_def Let_def
      split: prod.split sum.split option.split)

lemma doctor_checks_names:
  "take 4 (map dc_name (snd (doctor_checks ax me m))) =
     [''audit_log'', ''command_symlink'', ''local_service'', ''socket_directory''] \<and>
   last (map dc_name (snd (doctor_checks ax me m))) = ''1password_desktop_integration''"
proof -
  obtain m1 c1 where h: "background_helper_check ax me m = (m1, c1)" by fastforce
  obtain m2 c2 where o: "onepassword_check me (display_onepassword_account
      (fst (doctor_onepassword_account (ax_cli ax)))) m1 = (m2, c2)" by fastforce
  have "dc_name c1 = ''local_service''" "dc_name c2 = ''1password_desktop_integration''"
    using doctor_check_names(3) [of ax me m] doctor_check_names(5) [of me "display_onepassword_account
      (fst (doctor_onepassword_account (ax_cli ax)))" m1] h o by simp_all
  then show ?thesis
    by (simp add: doctor_checks_def h o Let_def doctor_check_names)
qed

text \<open>
  \<open>doctor\<close> exits with 0 exactly when a manager could be made, none of its checks failed, and in
  JSON mode the report was written; and the report starts with the checks of the audit log, of the
  command's link, of the helper and of the socket's directory, and ends with that of the 1Password
  integration.
\<close>

theorem doctor_exit_iff_healthy:
  "ao_exit (run_doctor ax json s) = 0 \<longleftrightarrow>
     (\<exists>me m checks. am_manager (ax_app ax) = Inr me \<and> doctor_checks ax me (as_manager s) = (m, checks) \<and>
        ao_shown (run_doctor ax json s) = ShowsDoctor True checks \<and>
        list_all (\<lambda>c. dc_error c = None) checks \<and> \<not> (json \<and> am_write (ax_app ax) \<noteq> None) \<and>
        take 4 (map dc_name checks) =
          [''audit_log'', ''command_symlink'', ''local_service'', ''socket_directory''] \<and>
        last (map dc_name checks) = ''1password_desktop_integration'')"
proof (cases "am_manager (ax_app ax)")
  case (Inl e)
  then show ?thesis by (simp add: run_doctor_def outcome_of_def)
next
  case (Inr me)
  obtain m checks where c: "doctor_checks ax me (as_manager s) = (m, checks)" by fastforce
  with doctor_checks_names [of ax me "as_manager s"] have names: "take 4 (map dc_name checks) =
      [''audit_log'', ''command_symlink'', ''local_service'', ''socket_directory'']"
    "last (map dc_name checks) = ''1password_desktop_integration''" by simp_all
  have run: "run_doctor ax json s = outcome_of (s\<lparr>as_manager := m\<rparr>) (ShowsDoctor (healthy checks) checks)
      (exit_code ax json (if healthy checks then 0 else 1))"
    by (simp add: run_doctor_def Inr c)
  have "healthy checks \<longleftrightarrow> list_all (\<lambda>c. dc_error c = None) checks"
    by (simp add: healthy_def list_all_iff)
  then show ?thesis
    unfolding run by (simp add: Inr c names outcome_of_def exit_code_def)
qed

section \<open>What agent-context says\<close>

text \<open>
  \<open>agent-context\<close> describes the flags that the parsers take: each flag that it lists for \<open>exec\<close>,
  \<open>session create\<close>, \<open>with-session\<close>, \<open>item describe\<close> and the \<open>profile\<close> commands is one of the parser's,
  and takes a value exactly when the parser wants one; left out are only \<open>--reuse\<close>, which \<open>exec\<close>
  refuses, and \<open>--only\<close> of \<open>with-session\<close>.
\<close>

theorem agent_context_matches_parser:
  "list_all (\<lambda>c. describes c (exec_flag_set fe)) (exec_context print) \<and>
   undescribed (exec_context print) (exec_flag_set fe) = [''reuse''] \<and>
   list_all (\<lambda>c. describes c (session_flag_set fe)) (session_create_context print) \<and>
   undescribed (session_create_context print) (session_flag_set fe) = [] \<and>
   list_all (\<lambda>c. describes c with_session_flag_set) with_session_context \<and>
   undescribed with_session_context with_session_flag_set = [''only''] \<and>
   list_all (\<lambda>c. describes c (item_flag_set fe)) (item_describe_context print) \<and>
   undescribed (item_describe_context print) (item_flag_set fe) = [] \<and>
   list_all (\<lambda>c. describes c config_flags) (fctx ''--config'' ''path'' # json_flag_context) \<and>
   undescribed (fctx ''--config'' ''path'' # json_flag_context) config_flags = []"
  by (intro conjI)
     (simp_all add: context_defs exec_flag_set_def session_flag_set_def with_session_flag_set_def
       item_flag_set_def config_flags_def)

section \<open>Quoting for the shell\<close>

text \<open>
  How a POSIX shell reads a word of quoted pieces: the state is the quote it is in. Outside quotes and
  in double quotes only characters without a meaning there are read.
\<close>

datatype quoting = Unquoted | InSingle | InDouble

fun shell_word :: "quoting \<Rightarrow> string \<Rightarrow> string option" where
  "shell_word Unquoted [] = Some []"
| "shell_word InSingle [] = None"
| "shell_word InDouble [] = None"
| "shell_word InSingle (c # cs) =
     (if c = CHR 0x27 then shell_word Unquoted cs else map_option (Cons c) (shell_word InSingle cs))"
| "shell_word InDouble (c # cs) =
     (if c = CHR 0x22 then shell_word Unquoted cs
      else if c \<in> {CHR ''$'', CHR 0x60, CHR 0x5C} then None
      else map_option (Cons c) (shell_word InDouble cs))"
| "shell_word Unquoted (c # cs) =
     (if c = CHR 0x27 then shell_word InSingle cs
      else if c = CHR 0x22 then shell_word InDouble cs
      else None)"

lemma shell_word_quoted:
  "shell_word InSingle (concat (map (\<lambda>c. if c = CHR 0x27
       then [CHR 0x27, CHR 0x22, CHR 0x27, CHR 0x22, CHR 0x27] else [c]) v) @ [CHR 0x27]) = Some v"
  by (induction v) auto

text \<open>
  Whatever the directory is named, the quoting that \<open>install-cli\<close> uses in the line it offers for
  the shell's profile is one word that the shell reads back as the same characters.
\<close>

theorem shell_quote_roundtrip: "shell_word Unquoted (shell_single_quote v) = Some v"
  by (simp add: shell_single_quote_def shell_word_quoted)


section \<open>The installed token\<close>

text \<open>The store as the resolver sees it.\<close>

definition store_lookup :: "keychain_env \<Rightarrow> keychain \<Rightarrow> string \<Rightarrow> err + string option" where
  "store_lookup ke k alias = map_sum id (map_option tk_access) (snd (store_get ke alias k))"

lemma token_install_stores:
  assumes "working (ax_keychain ax)" "store_ok (as_keychain s)"
    and "read_token_value ax std = Inr value" "normalize_token_alias alias = Inr a"
    and "ke_text (ax_keychain ax) value = value"
  shows "ao_shown (run_token_install ax json alias std s) = ShowsToken True alias ''installed'' \<and>
    (\<exists>k. as_keychain (ao_state (run_token_install ax json alias std s)) = k \<and> store_ok k \<and>
       store_lookup (ax_keychain ax) k alias = Inr (Some value) \<and>
       (\<forall>b. b \<noteq> a \<longrightarrow> held k b = held (as_keychain s) b))"
proof -
  have typed: "value \<noteq> ''''" "trim_space value = value"
    using assms(3) by (auto simp: read_token_value_def token_from_reader_def token_from_prompt_def
        split: if_splits sum.splits)
  define t where "t = \<lparr>tk_alias = alias, tk_access = value, tk_created = zero_time, tk_updated = zero_time\<rparr>"
  have "normalize_token_alias (tk_alias t) = Inr a" "trim_space (tk_access t) \<noteq> ''''"
    "ke_text (ax_keychain ax) (trim_space (tk_access t)) = trim_space (tk_access t)"
    using assms(4,5) typed by (simp_all add: t_def)
  from store_put_working [OF assms(1,2) this, of "\<not> std"] obtain k where
    k: "store_put (ax_keychain ax) (\<not> std) t (as_keychain s) = (k, Inr ())" "store_ok k"
      "held k = (held (as_keychain s))(a \<mapsto> put_token (ax_keychain ax) (as_keychain s) a t)" by blast
  have "store_lookup (ax_keychain ax) k alias = Inr (Some value)"
    using store_get_working [OF assms(1) k(2) assms(4)] k(3) typed
    by (simp add: store_lookup_def put_token_def t_def)
  with k show ?thesis
    by (simp add: run_token_install_def assms(3) outcome_of_def t_def)
qed

text \<open>
C22: A token that \<open>bitwarden token install\<close> reads is the one that the daemon's resolver hands to the
  helper for a secret of that alias: whenever the helper then runs, its environment carries exactly the
  typed token, and the tokens of the other aliases are the ones from before.
\<close>

theorem installed_token_is_used:
  assumes "working (ax_keychain ax)" "store_ok (as_keychain s)"
    and "read_token_value ax std = Inr value" "normalize_token_alias alias = Inr a"
    and "ke_text (ax_keychain ax) value = value"
    and "resolve_bws_secret (be\<lparr>be_store := store_lookup (ax_keychain ax)
           (as_keychain (ao_state (run_token_install ax json alias std s)))\<rparr>) secret [] = (effects, r)"
    and "RanHelper binary args environment \<in> set effects" "source_token_alias secret = alias"
  shows "environment = [''BWS_ACCESS_TOKEN='' @ value, ''NO_COLOR=1''] \<and>
    (\<forall>b. b \<noteq> a \<longrightarrow>
       held (as_keychain (ao_state (run_token_install ax json alias std s))) b = held (as_keychain s) b)"
  using token_install_stores [OF assms(1-5), of json]
  by (auto intro: helper_run_trace [OF assms(6,7)] simp: assms(8) bws_environment_def)

lemma typed_token:
  "read_token_value (ax\<lparr>ax_keychain := working_keychain, ax_prompt := Inr '' 0.tok ''\<rparr>) False = Inr ''0.tok''"
proof -
  have "trim_space '' 0.tok '' = ''0.tok''" by code_simp
  then show ?thesis by (simp add: read_token_value_def token_from_prompt_def max_token_bytes_def)
qed

text \<open>The resolver asks the store for the one alias only.\<close>

lemma first_trusted_binary_store:
  "first_trusted_binary (be\<lparr>be_store := f\<rparr>) paths e = first_trusted_binary be paths e"
  by (induction paths arbitrary: e)
     (auto simp: validate_trusted_bws_binary_def is_bitwarden_signed_def Let_def
       split: sum.splits option.splits)

lemma without_store:
  "helper_name (be\<lparr>be_store := f\<rparr>) = helper_name be"
  "common_binary_paths (be\<lparr>be_store := f\<rparr>) = common_binary_paths be"
  "validate_trusted_bws_binary (be\<lparr>be_store := f\<rparr>) path = validate_trusted_bws_binary be path"
  "create_isolated_config (be\<lparr>be_store := f\<rparr>) = create_isolated_config be"
  "run_helper (be\<lparr>be_store := f\<rparr>) = run_helper be"
  "secret_value_from_output (be\<lparr>be_store := f\<rparr>) = secret_value_from_output be"
  by (auto simp: helper_name_def common_binary_paths_def validate_trusted_bws_binary_def is_bitwarden_signed_def
      create_isolated_config_def run_helper_def secret_value_from_output_def Let_def
      split: sum.splits option.splits intro!: ext)

lemma resolve_bws_binary_store: "resolve_bws_binary (be\<lparr>be_store := f\<rparr>) = resolve_bws_binary be"
  by (intro ext) (simp add: resolve_bws_binary_def first_trusted_binary_store without_store)

lemma resolve_bws_store:
  "resolve_bws_secret (be\<lparr>be_store := f\<rparr>) secret =
     resolve_bws_secret (be\<lparr>be_store := (\<lambda>a. f (source_token_alias secret))\<rparr>) secret"
  by (simp add: resolve_bws_secret_def without_store resolve_bws_binary_store cong: option.case_cong)

theorem installed_token_is_used_witness:
  "\<forall>(ax :: commands_env) s. \<exists>binary args environment.
     RanHelper binary args environment \<in> set (fst (resolve_bws_secret (helper_env\<lparr>be_store :=
       store_lookup working_keychain (as_keychain (ao_state (run_token_install
         (ax\<lparr>ax_keychain := working_keychain, ax_prompt := Inr '' 0.tok ''\<rparr>) False ''ci'' False
         (s\<lparr>as_keychain := empty_keychain\<rparr>))))\<rparr>) bws_secret [])) \<and>
     environment = [''BWS_ACCESS_TOKEN='' @ ''0.tok'', ''NO_COLOR=1'']"
proof (intro allI)
  fix ax :: commands_env and s
  let ?ax = "ax\<lparr>ax_keychain := working_keychain, ax_prompt := Inr '' 0.tok ''\<rparr>"
  let ?k = "as_keychain (ao_state (run_token_install ?ax False ''ci'' False (s\<lparr>as_keychain := empty_keychain\<rparr>)))"
  have facts: "working (ax_keychain ?ax)" "store_ok (as_keychain (s\<lparr>as_keychain := empty_keychain\<rparr>))"
    "normalize_token_alias ''ci'' = Inr ''ci''" "ke_text (ax_keychain ?ax) ''0.tok'' = ''0.tok''"
    "source_token_alias bws_secret = ''ci''"
    by (simp_all add: empty_keychain_ok) (simp_all add: working_def working_keychain_def, code_simp+)
  have "store_lookup working_keychain ?k ''ci'' = Inr (Some ''0.tok'')"
    using token_install_stores [OF facts(1,2) typed_token facts(3,4), of False] by simp
  then have run: "resolve_bws_secret (helper_env\<lparr>be_store := store_lookup (ax_keychain ?ax) ?k\<rparr>) bws_secret [] =
      ([MadeDir ''/tmp/b1'', WroteConfig ''/tmp/b1/config'' isolated_config, helper_run, RemovedDir ''/tmp/b1''],
       Inr ''hunter2'')"
    using helper_runs by (subst resolve_bws_store) (simp add: facts(5) helper_env_def)
  show "\<exists>binary args environment. RanHelper binary args environment \<in>
      set (fst (resolve_bws_secret (helper_env\<lparr>be_store := store_lookup working_keychain ?k\<rparr>) bws_secret [])) \<and>
      environment = [''BWS_ACCESS_TOKEN='' @ ''0.tok'', ''NO_COLOR=1'']"
    using installed_token_is_used [OF facts(1,2) typed_token facts(3,4) run, unfolded helper_run_def] run facts(5)
    by (auto simp: helper_run_def)
qed

section \<open>The order of the daemon's start\<close>

text \<open>
  The steps of a start in their order, and a start that got through the first \<open>n\<close> of them: what the
  later ones report is bound by what they did.
\<close>

definition launch_steps ::
  "string \<Rightarrow> string \<Rightarrow> identity \<Rightarrow> socket_effect list \<Rightarrow> nat list \<Rightarrow> start_step list" where
  "launch_steps path exe i es conns =
     [ApproverReady path, BrokerReady, ClientsFound, SelfCheckReady exe i, ServerReady, Served es conns]"

definition launched_to :: "nat \<Rightarrow> daemon_env \<Rightarrow> string \<Rightarrow> start_step list \<Rightarrow> started \<Rightarrow> bool" where
  "launched_to n de path steps out \<longleftrightarrow>
     (\<exists>exe i es conns r. fst out = steps @ take n (launch_steps path exe i es conns) \<and>
        (4 \<le> n \<longrightarrow> de_executable de = Inr exe \<and> capture (de_files de) exe = Inr i) \<and>
        (6 \<le> n \<longrightarrow> listen_and_serve (de_socket de) path (de_accepts de) = (es, conns, r)) \<and>
        (snd out = 0 \<longleftrightarrow> 6 \<le> n \<and> r = None))"

lemma start_daemon_order: "\<exists>n \<le> 6. launched_to n de path steps (start_daemon de path steps)"
proof -
  obtain es conns r where served: "listen_and_serve (de_socket de) path (de_accepts de) = (es, conns, r)"
    by (metis prod_cases3)
  have stop: "launched_to n de path steps (steps @ take n (launch_steps path exe i [] []), 1)"
    if "n < 4 \<or> n = 4 \<and> de_executable de = Inr exe \<and> capture (de_files de) exe = Inr i" for n exe i
    unfolding launched_to_def
    by (rule exI [of _ exe], rule exI [of _ i], rule exI [of _ "[]"], rule exI [of _ "[]"]) (use that in auto)
  show ?thesis
  proof (cases "de_approver de path = None \<and> de_broker de = None \<and> de_clients de = None")
    case False
    then consider x where "de_approver de path = Some x"
      | x where "de_approver de path = None" "de_broker de = Some x"
      | x where "de_approver de path = None" "de_broker de = None" "de_clients de = Some x"
      by (cases "de_approver de path"; cases "de_broker de"; cases "de_clients de") auto
    then show ?thesis
    proof cases
      case 1
      then show ?thesis using stop [of 0]
        by (intro exI [of _ 0]) (simp add: start_daemon_def try_step_def launch_steps_def)
    next
      case 2
      then show ?thesis using stop [of 1]
        by (intro exI [of _ 1]) (simp add: start_daemon_def try_step_def launch_steps_def)
    next
      case 3
      then show ?thesis using stop [of 2]
        by (intro exI [of _ 2]) (simp add: start_daemon_def try_step_def launch_steps_def)
    qed
  next
    case ready: True
    show ?thesis
    proof (cases "current_executable_self_check (de_executable de) (de_files de)")
      case (Inl e)
      then show ?thesis using stop [of 3] ready
        by (intro exI [of _ 3]) (simp add: start_daemon_def try_step_def launch_steps_def)
    next
      case (Inr checked)
      obtain exe i where checked: "checked = (exe, i)" by (cases checked)
      with Inr have exe: "de_executable de = Inr exe" "capture (de_files de) exe = Inr i"
        by (cases "de_executable de"; cases "capture (de_files de) (projr (de_executable de))";
            simp add: current_executable_self_check_def)+
      show ?thesis
      proof (cases "de_server de")
        case (Some e)
        then show ?thesis using stop [of 4 exe i] exe ready Inr checked
          by (intro exI [of _ 4]) (simp add: start_daemon_def try_step_def launch_steps_def)
      next
        case None
        have "launched_to 6 de path steps (steps @ launch_steps path exe i es conns, if r = None then 0 else 1)"
          unfolding launched_to_def
          by (rule exI [of _ exe], rule exI [of _ i], rule exI [of _ es], rule exI [of _ conns], rule exI [of _ r])
             (use exe served in \<open>simp add: launch_steps_def\<close>)
        with None ready Inr checked served show ?thesis
          by (intro exI [of _ 6]) (simp add: start_daemon_def serve_daemon_def try_step_def launch_steps_def)
      qed
    qed
  qed
qed

text \<open>
  The daemon starts in one order: core dumps are off first, then the audit log opens, then come the
  approver of the parsed socket path, the broker, the trusted clients, the identity of its own
  executable, the server, and serving last. A run stops at the first step that fails; the audit log, once
  open, is closed at the end; and exit code 0 means that every step was made and serving ended well.
\<close>

theorem daemon_start_order:
  assumes "daemon_run de args = (steps, code)" "AuditOpened \<in> set steps"
  shows "\<exists>path n exe i es conns r.
    daemon_config (default_socket_path (de_socket de)) args = Inr path \<and>
    steps = [CoreDumpsDisabled, AuditOpened] @
      take n [ApproverReady path, BrokerReady, ClientsFound, SelfCheckReady exe i, ServerReady, Served es conns] @
      [AuditClosed] \<and>
    (4 \<le> n \<longrightarrow> de_executable de = Inr exe \<and> capture (de_files de) exe = Inr i) \<and>
    (6 \<le> n \<longrightarrow> listen_and_serve (de_socket de) path (de_accepts de) = (es, conns, r)) \<and>
    (code = 0 \<longleftrightarrow> 6 \<le> n \<and> r = None)"
proof -
  obtain path where path: "daemon_config (default_socket_path (de_socket de)) args = Inr path"
    and out: "steps = fst (start_daemon de path [CoreDumpsDisabled, AuditOpened]) @ [AuditClosed]"
      "code = snd (start_daemon de path [CoreDumpsDisabled, AuditOpened])"
    using assms by (auto simp: daemon_run_def try_step_def close_audit_def split: option.splits sum.splits)
  obtain n where "launched_to n de path [CoreDumpsDisabled, AuditOpened]
      (start_daemon de path [CoreDumpsDisabled, AuditOpened])"
    using start_daemon_order by blast
  then obtain exe i es conns r where
    "fst (start_daemon de path [CoreDumpsDisabled, AuditOpened]) =
       [CoreDumpsDisabled, AuditOpened] @ take n (launch_steps path exe i es conns)"
    "4 \<le> n \<longrightarrow> de_executable de = Inr exe \<and> capture (de_files de) exe = Inr i"
    "6 \<le> n \<longrightarrow> listen_and_serve (de_socket de) path (de_accepts de) = (es, conns, r)"
    "snd (start_daemon de path [CoreDumpsDisabled, AuditOpened]) = 0 \<longleftrightarrow> 6 \<le> n \<and> r = None"
    unfolding launched_to_def by blast
  with path out show ?thesis
    by (intro exI [of _ path] exI [of _ n] exI [of _ exe] exI [of _ i] exI [of _ es] exI [of _ conns]
        exI [of _ r]) (simp add: launch_steps_def)
qed

definition sample_daemon :: daemon_env where
  "sample_daemon = \<lparr>de_setrlimit = (\<lambda>r l. None), de_socket = stale_socket, de_audit = None, de_approver = (\<lambda>p. None),
     de_broker = None, de_clients = None, de_executable = Inr ''/opt/bws'', de_files = helper_files,
     de_server = None, de_accepts = [Connection 1, AcceptFails (Text ''closed'') True False]\<rparr>"

lemma sample_daemon_run:
  "snd (daemon_run sample_daemon [''--socket'', ''/run/d.sock'']) = 0 \<and> fst (daemon_run sample_daemon [''--socket'', ''/run/d.sock'']) ! 1 = AuditOpened \<and>
     length (fst (daemon_run sample_daemon [''--socket'', ''/run/d.sock''])) = 9"
  by code_simp

theorem daemon_start_order_witness:
  "\<exists>path exe i es conns.
     fst (daemon_run sample_daemon [''--socket'', ''/run/d.sock'']) = [CoreDumpsDisabled, AuditOpened, ApproverReady path, BrokerReady,
       ClientsFound, SelfCheckReady exe i, ServerReady, Served es conns, AuditClosed]"
proof -
  have "AuditOpened \<in> set (fst (daemon_run sample_daemon [''--socket'', ''/run/d.sock'']))"
    using sample_daemon_run nth_mem [of 1 "fst (daemon_run sample_daemon [''--socket'', ''/run/d.sock''])"] by simp
  from daemon_start_order [OF surjective_pairing this] show ?thesis
    using sample_daemon_run by auto
qed

section \<open>The daemon that the client starts\<close>

lemma served_socket:
  assumes "daemon_config (default_socket_path (de_socket de)) args = Inr path"
    and "Served es conns \<in> set (fst (daemon_run de args))"
  shows "\<exists>r. listen_and_serve (de_socket de) path (de_accepts de) = (es, conns, r)"
proof -
  have served_in: "Served es conns \<in> set (fst (start_daemon de path [CoreDumpsDisabled, AuditOpened]))"
    using assms by (auto simp: daemon_run_def try_step_def close_audit_def split: option.splits)
  obtain n where n: "n \<le> 6" and launched: "launched_to n de path [CoreDumpsDisabled, AuditOpened]
      (start_daemon de path [CoreDumpsDisabled, AuditOpened])"
    using start_daemon_order by blast
  obtain exe i es' conns' r where steps: "fst (start_daemon de path [CoreDumpsDisabled, AuditOpened]) =
      [CoreDumpsDisabled, AuditOpened] @ take n (launch_steps path exe i es' conns')"
    and served: "6 \<le> n \<longrightarrow> listen_and_serve (de_socket de) path (de_accepts de) = (es', conns', r)"
    using launched unfolding launched_to_def by blast
  have mem: "Served es conns \<in> set (take n (launch_steps path exe i es' conns'))"
    using served_in unfolding steps by simp
  have "6 \<le> n"
  proof (rule ccontr)
    assume "\<not> 6 \<le> n"
    then have "set (take n (launch_steps path exe i es' conns')) \<subseteq>
        set (take 5 (launch_steps path exe i es' conns'))"
      by (intro set_take_subset_set_take) simp
    with mem show False by (auto simp: launch_steps_def)
  qed
  with n mem served show ?thesis by (auto simp: launch_steps_def)
qed

text \<open>
  The command by which a manager starts its helper runs the daemon, directly or through the app
  bundle, whose program tells it from a client's command line; and if that daemon comes to serve, it
  listens on the manager's own socket.
\<close>

theorem started_daemon_serves_socket:
  assumes "start_command (me_darwin me) (me_daemon_path me) (daemon_args me) = (cmd, args)"
    and "me_daemon_args me = []" "sd_home (de_socket de) = Inr home"
  shows "(if me_darwin me \<and> path_ext (me_daemon_path me) = ''.app''
      then cmd = ''/usr/bin/open'' \<and> take 4 args = [''-g'', ''-n'', me_daemon_path me, ''--args''] \<and>
        main_run de ax (drop 4 args) s = DaemonRan (daemon_run de (daemon_args me))
      else cmd = me_daemon_path me \<and> daemon_main de args = daemon_run de (daemon_args me)) \<and>
    (\<forall>es conns. Served es conns \<in> set (fst (daemon_run de (daemon_args me))) \<longrightarrow>
       (\<exists>r. listen_and_serve (de_socket de) (me_socket me) (de_accepts de) = (es, conns, r)))"
proof -
  have args: "daemon_args me = [''--socket'', me_socket me]" using assms(2) by (simp add: daemon_args_def)
  have "daemon_config (default_socket_path (de_socket de)) (daemon_args me) = Inr (me_socket me)"
    by (simp add: args default_socket_path_def assms(3) daemon_config_socket)
  from served_socket [OF this] show ?thesis
    using assms(1) by (auto simp: start_command_def main_run_def daemon_main_def split: if_splits)
qed

section \<open>References that are written and read\<close>





definition sample_helper :: "manager_env \<Rightarrow> manager_env" where
  "sample_helper me = me\<lparr>me_darwin := True, me_daemon_path := ''/h/AgentSecretDaemon.app'',
     me_daemon_args := [], me_socket := ''/run/d.sock''\<rparr>"

theorem started_daemon_serves_socket_witness:
  "\<forall>me ax s. main_run sample_daemon ax
       (drop 4 (snd (start_command True ''/h/AgentSecretDaemon.app'' (daemon_args (sample_helper me))))) s =
     DaemonRan (daemon_run sample_daemon [''--socket'', ''/run/d.sock''])"
proof (intro allI)
  fix me ax s
  have ext: "path_ext ''/h/AgentSecretDaemon.app'' = ''.app''" by code_simp
  have args: "daemon_args (sample_helper me) = [''--socket'', ''/run/d.sock'']"
    by (simp add: daemon_args_def sample_helper_def)
  have home: "sd_home (de_socket sample_daemon) = Inr ''/home''"
    by (simp add: sample_daemon_def stale_socket_def)
  obtain cmd as where run: "start_command True ''/h/AgentSecretDaemon.app'' (daemon_args (sample_helper me)) = (cmd, as)"
    by fastforce
  then have "start_command (me_darwin (sample_helper me)) (me_daemon_path (sample_helper me))
      (daemon_args (sample_helper me)) = (cmd, as)" "me_daemon_args (sample_helper me) = []"
    by (simp_all add: sample_helper_def)
  from started_daemon_serves_socket [OF this home, of ax s]
  show "main_run sample_daemon ax
       (drop 4 (snd (start_command True ''/h/AgentSecretDaemon.app'' (daemon_args (sample_helper me))))) s =
     DaemonRan (daemon_run sample_daemon [''--socket'', ''/run/d.sock''])"
    using run ext args by (simp add: sample_helper_def)
qed

end
