(* ===== verification/Spec2Isabelle.thy ===== *)
theory Spec2Isabelle
  imports RequestProperties PolicyProperties BrokerProperties SessionRefinement SessionProperties
    ApproverProperties ServerProperties ClientProperties HelperProperties ResolverProperties
    SystemProperties CommandProperties
begin

text \<open>
  Agent Secret: a command line and a daemon that hand secrets to approved commands.

  \<^bold>\<open>The program.\<close> \<open>agent-secret exec\<close> (\<open>src/internal/cli\<close>) turns its arguments, environment files and
  a project profile into a request. It makes sure that a daemon of its own build answers the socket
  (\<open>daemon/control\<close>), sends the request and waits. The daemon (\<open>daemon/server.go\<close>) checks who is at
  the other end of the connection (\<open>daemon/peertrust\<close>), decodes and validates the request
  (\<open>request\<close>), and gives it to the broker (\<open>daemon/broker\<close>). The broker asks a launched approver for a
  decision (\<open>daemon/approval\<close>) or reuses an approval (\<open>policy\<close>), records it (\<open>audit\<close>), reads the
  secrets through the resolver of their provider (\<open>providerresolver\<close>, \<open>opresolver\<close>, \<open>bwsm\<close>), keeps them in locked memory (\<open>secretmem\<close>, \<open>secretcache\<close>) and returns
  them. The client merges them into the environment of the child, runs it and reports its start and
  end (\<open>execwrap\<close>). A session is an approval whose secrets later commands of the same process tree
  read with a token.

  \<^bold>\<open>Theories and code.\<close>
  Values and files:
  \<^item> \<open>Prelude\<close>: byte strings with Go's trimming, cutting and splitting, ordered lists, outcome types,
    the collections of rules.
  \<^item> \<open>GoErrors\<close>: sentinels, wrapping and \<open>errors.Is\<close>.
  \<^item> \<open>Refs\<close>: \<open>opref\<close>, \<open>secretref\<close>, the item references of \<open>itemmetadata\<close>.
  \<^item> \<open>Paths\<close>: \<open>path/filepath\<close>, a file system as a record of answers, \<open>executabletrust\<close>, \<open>pathresolve\<close>.
  \<^item> \<open>Identity\<close>: \<open>fileidentity\<close>, \<open>peercred\<close>, \<open>randid\<close>.

  Requests and approvals:
  \<^item> \<open>Request\<close>, \<open>SessionRequest\<close>: the constructors and the daemon-side validation of \<open>request\<close>.
  \<^item> \<open>Metered\<close>: the locales of a store with counted uses and of a keyed cache; \<open>Policy\<close> and
    \<open>SessionStore\<close> interpret the first, \<open>SecretCache\<close> the second.
  \<^item> \<open>Policy\<close>: \<open>policy/policy.go\<close>, the store of reusable approvals.
  \<^item> \<open>SecretCache\<close>: \<open>secretmem\<close>, \<open>secretcache\<close>. \<open>GrantValues\<close>: \<open>broker/grant_values.go\<close>.
  \<^item> \<open>PeerAuth\<close>: \<open>broker/session_peer_authorizer.go\<close>. \<open>AuditLog\<close>: \<open>audit\<close>.
  \<^item> \<open>SessionStore\<close>, \<open>SessionRefinement\<close>: \<open>broker/session_store.go\<close>, a heap of records under two maps.
  \<^item> \<open>Approval\<close>: \<open>approval/approval_protocol.go\<close> and its errors.

  The broker:
  \<^item> \<open>Effects\<close>: the state \<open>world\<close> (approvals, cache, timers, sessions, active requests, a trace of what
    was approved, recorded and fetched), the environment \<open>env\<close> that answers questions about the outside
    by their number, and the actions over both.
  \<^item> \<open>ReusableGrants\<close>, \<open>GrantIssuer\<close>, \<open>Broker\<close>: \<open>reusable_grants.go\<close>, \<open>grant_issuer.go\<close>, \<open>broker.go\<close>.
  \<^item> \<open>EffectTraces\<close>, \<open>BrokerInvariant\<close>, \<open>BrokerHandlers\<close>: Hoare triples over actions, the step relation
    \<open>broker_step\<close> of everything that can happen to a broker, and the invariant of its reachable states.
  \<^item> \<open>Observers\<close>, \<open>GrantTimers\<close>, \<open>ApprovalGate\<close>, \<open>UseAccounting\<close>, \<open>BrokerStop\<close>: what the handlers keep of
    timers, of the order of approvals and fetches, of counted uses, and of the state after a stop.

  Trust, approver and server:
  \<^item> \<open>PeerTrust\<close>: \<open>daemon/trust\<close>, \<open>daemon/peertrust\<close>. \<open>ApproverTrust\<close>: the launch and the identity of
    the approver.
  \<^item> \<open>SocketApprover\<close>, \<open>ApproverRuns\<close>: \<open>approval/socket_approver.go\<close>, the queue of approvals; its
    goroutines are pending tasks of a step relation.
  \<^item> \<open>Protocol\<close>: \<open>daemon/protocol\<close>, envelopes and the reading of frames through Go's buffered reader.
  \<^item> \<open>Server\<close>, \<open>ServerLogic\<close>, \<open>Connections\<close>: \<open>daemon/server.go\<close>, the loop of a connection.

  The client:
  \<^item> \<open>ProfileConfig\<close>, \<open>ProfileLogic\<close>: \<open>profileconfig\<close>, and an inductive relation of what a profile means.
  \<^item> \<open>EnvFile\<close>: \<open>envfile\<close>. \<open>ItemAliases\<close>: the generated aliases of \<open>itemmetadata\<close>.
  \<^item> \<open>ClientRequest\<close>: \<open>cli/flag_values.go\<close>, \<open>cli/request_builder.go\<close>.
  \<^item> \<open>ExecInputs\<close>: the sources of an exec request in \<open>cli/exec_parse.go\<close>, and \<open>opaccount/account.go\<close>.
  \<^item> \<open>CommandLine\<close>, \<open>CommandLogic\<close>: the \<open>flag\<close> package as the code uses it and every parser of
    \<open>cli/*_parse.go\<close> and \<open>cli/cli.go\<close>.
  \<^item> \<open>ControlClient\<close>: \<open>control/client.go\<close>. \<open>Manager\<close>: \<open>control/manager.go\<close>, \<open>helperidentity\<close>,
    \<open>daemon/process\<close>.
  \<^item> \<open>ExecWrap\<close>: \<open>execwrap\<close>. \<open>ClientRuns\<close>: \<open>cli/app_exec.go\<close>, \<open>app_session.go\<close>, \<open>app_item.go\<close>,
    \<open>app_requests.go\<close>. \<open>DaemonAnswers\<close>: the broker's deliveries under the checks of the client.
  \<^item> \<open>AppCommands\<close>: the other commands and the dispatch of all of them, \<open>cli/app.go\<close>, \<open>app_daemon.go\<close>,
    \<open>app_install.go\<close>, \<open>app_bitwarden.go\<close>, \<open>app_profile.go\<close>. \<open>CommandOutput\<close>: what dry runs, items and sessions print.
    \<open>AgentContext\<close>: \<open>cli/app_agent.go\<close>.

  The resolvers and the system:
  \<^item> \<open>ErrState\<close>: operations over a state of their own that may fail.
  \<^item> \<open>ItemResolver\<close>: \<open>opresolver/resolver.go\<close> over the SDK as a record of answers. \<open>DesktopPool\<close>:
    \<open>opresolver/pool.go\<close>, the operations on the shared pool and a step relation of its callers.
  \<^item> \<open>TokenStore\<close>, \<open>KeychainDarwin\<close>: \<open>bwsm/keychain*.go\<close>, the tokens and their index over a Keychain.
    \<open>BwsResolver\<close>: \<open>bwsm/resolver.go\<close> with the effects of a run, and \<open>providerresolver\<close>.
  \<^item> \<open>AccountDatabase\<close>: \<open>opaccount/desktop_account_darwin.go\<close>.
  \<^item> \<open>AppPaths\<close>, \<open>Install\<close>: \<open>install\<close>, with the changes to the file system as a trace.
  \<^item> \<open>SocketDirectory\<close>: \<open>daemon/socket\<close>. \<open>PeerInspect\<close>: the system calls of \<open>peercred\<close> and the walk
    over a process's ancestors.
  \<^item> \<open>DaemonApp\<close>: \<open>daemon/app\<close>, \<open>daemon/selfcheck.go\<close>, the accept loop, \<open>processhardening\<close>,
    \<open>buildinfo\<close> and the two programs of \<open>cmd\<close>. \<open>DaemonPaths\<close>: which daemon the client starts by default.

  \<^bold>\<open>Properties.\<close> They stand, numbered, in \<open>RequestProperties\<close> (references, executables, requests),
  \<open>PolicyProperties\<close> (reusable approvals), \<open>BrokerProperties\<close> (values, approval before reading, uses,
  deadlines, stopping), \<open>SessionProperties\<close> (refinement of the session store), \<open>ApproverProperties\<close>
  (who decides, the queue), \<open>ServerProperties\<close> (frames, connections, exchanges), \<open>ClientProperties\<close>
  (profiles, command lines, environment files), \<open>HelperProperties\<close> (the child, the helper, the
  answer), \<open>ResolverProperties\<close> (which secret a reference means, the pool), \<open>SystemProperties\<close> (the
  Bitwarden helper, the token store, ancestries, the socket, links) and \<open>CommandProperties\<close> (what a
  command touches, \<open>doctor\<close>, the installed token, the daemon's start, printed references). Theorems without a
  number beside them state more of the same components. \<open>BrokerSamples\<close> and the sample definitions beside the properties are concrete runs on which
  the properties are instantiated.

  \<^bold>\<open>How the code is read.\<close> Errors are values: \<open>err + 'a\<close>, with the sentinels that \<open>errors.Is\<close> can see
  and without the texts around them. Strings are lists of bytes. Times and durations are integers of
  nanoseconds; file identities, modes and random bytes are words of their width. A Go map is a partial
  function, or an association list where an order is observable; where the code ranges over a map and
  the order can matter, the order is an answer of the environment. Pointers that are shared, as the
  session records, live in an explicit heap. Mutual exclusion makes each handler of the broker one step;
  what may happen between two reads of a flag (a stop in the background, a cancelled context) is an
  answer of the environment at that read. Goroutines that outlive a call are pending timers or tasks of
  a step relation and run in any order.

  \<^bold>\<open>Bounds and fuel.\<close> The loops of the code are structural recursions or \<open>function\<close>s with a measure: the
  bytes of a stream, the components of a path, the rest of a list. Two have fuel. The loop of a
  connection takes a number of rounds, and as many as the peer sends bytes, plus one, are enough
  (\<open>connection_ends\<close>). The tickers of the manager take the number of rounds that the context
  allows, which the environment gives. The includes of a profile terminate by the limit of their depth,
  32, as in the code.

  The operations of \<open>ErrState\<close> keep the state at a failure, so what was done before an error stays
  done. Where the outside may change between two looks (the directory of the socket, the table of
  processes, the Keychain), its answer depends on the number of effects or calls before.

  \<^bold>\<open>Not modelled.\<close> Third-party code and system calls are arguments: the 1Password SDK, the \<open>bws\<close> helper,
  the Security framework and the C functions around it in \<open>keychain_darwin.go\<close>, SQLite, the YAML and
  JSON libraries, \<open>codesign\<close>, \<open>mmap\<close>, sockets, process groups and terminals, SHA-256, and the parsers of
  durations and integers. Left out are texts: the pages of \<open>cli/help.go\<close>, which the parsers know by name,
  the wording of most lines that a command prints and of errors, the summaries of \<open>agent-context\<close>; and
  the approver's user interface, a Swift program that the daemon knows by its messages only. The broker
  sees the resolvers as one function.
\<close>

end
